(* ===== verification/Prelude.thy ===== *)
theory Prelude
  imports Complex_Main "HOL-Library.Word" "HOL-Library.AList" "HOL-Library.Sublist"
begin

text \<open>
  The shared ground of the development: the types that stand for JavaScript data
  (byte buffers, insertion-ordered maps, array reads that may be undefined, thrown
  values), the string functions of the JavaScript library that the sources call, and
  the generic facts about them that the component theories use.

  Strings are \<open>string\<close>, a list of code units below 256.  Numbers that only ever hold
  integers are \<open>int\<close>; quotients (a transfer speed) are \<open>rat\<close>.
\<close>

section \<open>Collections of facts\<close>

named_theorems record_defs \<open>definitions of initial records and message builders\<close>
named_theorems op_defs \<open>definitions of operations that are unfolded in proofs\<close>
named_theorems inv_intros \<open>preservation of component invariants\<close>

section \<open>Bytes and arrays\<close>

type_synonym byte = "8 word"
type_synonym bytes = "byte list"

text \<open>\<open>xs[i]\<close> of JavaScript: \<open>undefined\<close> outside the array, negative indices included.\<close>

definition js_at :: "'a list \<Rightarrow> int \<Rightarrow> 'a option" where
  "js_at xs i = (if 0 \<le> i \<and> i < int (length xs) then Some (xs ! nat i) else None)"

definition js_length :: "'a list \<Rightarrow> int" where
  "js_length xs = int (length xs)"

text \<open>\<open>a ?? b\<close> and \<open>a || b\<close> on optional values.\<close>

definition nullish :: "'a option \<Rightarrow> 'a \<Rightarrow> 'a" where
  "nullish a b = (case a of None \<Rightarrow> b | Some x \<Rightarrow> x)"

definition nullish_opt :: "'a option \<Rightarrow> 'a option \<Rightarrow> 'a option" where
  "nullish_opt a b = (case a of None \<Rightarrow> b | Some x \<Rightarrow> Some x)"

definition str_or :: "string \<Rightarrow> string \<Rightarrow> string" where
  "str_or a b = (if a = '''' then b else a)"

definition opt_truthy :: "string option \<Rightarrow> bool" where
  "opt_truthy a \<longleftrightarrow> (\<exists>s. a = Some s \<and> s \<noteq> '''')"

section \<open>Insertion-ordered maps\<close>

text \<open>
  A JavaScript \<open>Map\<close> or plain object used as a dictionary is an association list:
  \<open>set\<close> on a present key keeps its position, on a new key it appends, iteration is
  in list order.
\<close>

type_synonym ('k, 'v) jsmap = "('k \<times> 'v) list"

abbreviation map_get :: "('k, 'v) jsmap \<Rightarrow> 'k \<Rightarrow> 'v option" where
  "map_get m k \<equiv> map_of m k"

abbreviation map_set :: "'k \<Rightarrow> 'v \<Rightarrow> ('k, 'v) jsmap \<Rightarrow> ('k, 'v) jsmap" where
  "map_set k v m \<equiv> AList.update k v m"

abbreviation map_delete :: "'k \<Rightarrow> ('k, 'v) jsmap \<Rightarrow> ('k, 'v) jsmap" where
  "map_delete k m \<equiv> AList.delete k m"

definition map_has :: "('k, 'v) jsmap \<Rightarrow> 'k \<Rightarrow> bool" where
  "map_has m k \<longleftrightarrow> map_of m k \<noteq> None"

abbreviation map_keys :: "('k, 'v) jsmap \<Rightarrow> 'k list" where
  "map_keys m \<equiv> map fst m"

abbreviation map_values :: "('k, 'v) jsmap \<Rightarrow> 'v list" where
  "map_values m \<equiv> map snd m"

text \<open>A map never holds a key twice.\<close>

definition map_ok :: "('k, 'v) jsmap \<Rightarrow> bool" where
  "map_ok m \<longleftrightarrow> distinct (map_keys m)"

section \<open>JavaScript values and thrown values\<close>

text \<open>
  Values that leave the typed part of the program (option records, event payloads).
  \<open>JNumStr n\<close> is the string \<open>String(n)\<close> of a number and \<open>JJson v\<close> the string
  \<open>JSON.stringify(v)\<close>: both are kept symbolic.
\<close>

datatype jval =
    JUndefined | JNull
  | JBool bool
  | JNum rat
  | JStr string
  | JBytes bytes
  | JArr "jval list"
  | JObj "(string \<times> jval) list"
  | JNumStr rat
  | JJson jval

abbreviation JInt :: "int \<Rightarrow> jval" where
  "JInt i \<equiv> JNum (of_int i)"

abbreviation JIntStr :: "int \<Rightarrow> jval" where
  "JIntStr i \<equiv> JNumStr (of_int i)"

definition js_bool_string :: "bool \<Rightarrow> string" where
  "js_bool_string b = (if b then ''true'' else ''false'')"

fun truthy :: "jval \<Rightarrow> bool" where
  "truthy JUndefined = False"
| "truthy JNull = False"
| "truthy (JBool b) = b"
| "truthy (JNum n) = (n \<noteq> 0)"
| "truthy (JStr s) = (s \<noteq> '''')"
| "truthy _ = True"

definition obj_get :: "(string, jval) jsmap \<Rightarrow> string \<Rightarrow> jval" where
  "obj_get m k = (case map_get m k of None \<Rightarrow> JUndefined | Some v \<Rightarrow> v)"

text \<open>
  What a \<open>catch\<close> clause may receive: \<open>UError name message\<close> for an \<open>Error\<close>,
  \<open>UObject fields text\<close> for any other object, with \<open>text\<close> its \<open>String(value)\<close>,
  \<open>UOther text\<close> for the remaining primitives.
\<close>

datatype unknown =
    UUndefined | UNull
  | UString string
  | UError string string
  | UObject "(string, jval) jsmap" string
  | UOther string

fun js_String :: "unknown \<Rightarrow> string" where
  "js_String UUndefined = ''undefined''"
| "js_String UNull = ''null''"
| "js_String (UString s) = s"
| "js_String (UError n m) = (if m = '''' then n else n @ '': '' @ m)"
| "js_String (UObject fs t) = t"
| "js_String (UOther t) = t"

text \<open>\<open>e?.type\<close> of a thrown value; only objects carry the field here.\<close>

fun exn_type :: "unknown \<Rightarrow> jval" where
  "exn_type (UObject fs t) = obj_get fs ''type''"
| "exn_type _ = JUndefined"

section \<open>Strings\<close>

text \<open>\<open>s.split(sep)\<close> for a one-character separator or a character class.\<close>

fun split_on :: "(char \<Rightarrow> bool) \<Rightarrow> string \<Rightarrow> string list" where
  "split_on p [] = [[]]"
| "split_on p (c # s) =
     (if p c then [] # split_on p s
      else (case split_on p s of [] \<Rightarrow> [[c]] | w # ws \<Rightarrow> (c # w) # ws))"

text \<open>White space as \<open>trim\<close> understands it, below code unit 256.\<close>

definition is_ws :: "char \<Rightarrow> bool" where
  "is_ws c \<longleftrightarrow> (let n = of_char c :: nat in (9 \<le> n \<and> n \<le> 13) \<or> n = 32 \<or> n = 160)"

definition trim_end :: "string \<Rightarrow> string" where
  "trim_end s = rev (dropWhile is_ws (rev s))"

definition trim :: "string \<Rightarrow> string" where
  "trim s = trim_end (dropWhile is_ws s)"

definition starts_with :: "string \<Rightarrow> string \<Rightarrow> bool" where
  "starts_with p s \<longleftrightarrow> prefix p s"

definition ends_with :: "string \<Rightarrow> string \<Rightarrow> bool" where
  "ends_with p s \<longleftrightarrow> suffix p s"

text \<open>\<open>s.indexOf(c)\<close> for one character, \<open>-1\<close> when absent.\<close>

fun index_of :: "char \<Rightarrow> string \<Rightarrow> int" where
  "index_of c [] = - 1"
| "index_of c (d # s) = (if c = d then 0 else (let i = index_of c s in if i < 0 then - 1 else i + 1))"

text \<open>\<open>s.substring(i, j)\<close> for \<open>0 \<le> i \<le> j\<close> and \<open>s.slice(i)\<close>.\<close>

definition substr :: "string \<Rightarrow> int \<Rightarrow> int \<Rightarrow> string" where
  "substr s i j = take (nat j - nat i) (drop (nat i) s)"

text \<open>\<open>s.indexOf(t) >= 0\<close> for a string \<open>t\<close>.\<close>

fun contains :: "string \<Rightarrow> string \<Rightarrow> bool" where
  "contains t [] = (t = [])"
| "contains t (c # s) = (prefix t (c # s) \<or> contains t s)"

definition replace_char :: "char \<Rightarrow> char \<Rightarrow> string \<Rightarrow> string" where
  "replace_char a b s = map (\<lambda>c. if c = a then b else c) s"

definition to_lower_char :: "char \<Rightarrow> char" where
  "to_lower_char c =
     (let n = of_char c :: nat
      in if (65 \<le> n \<and> n \<le> 90) \<or> (192 \<le> n \<and> n \<le> 222 \<and> n \<noteq> 215) then char_of (n + 32) else c)"

definition to_lower :: "string \<Rightarrow> string" where
  "to_lower s = map to_lower_char s"

section \<open>Promises\<close>

text \<open>A promise as its state; resolving or rejecting one that is settled has no effect.\<close>

datatype promise = Pending | Resolved | Rejected unknown

definition settle :: "promise \<Rightarrow> promise \<Rightarrow> promise" where
  "settle p q = (if p = Pending then q else p)"

lemma settle_settled [simp]: "p \<noteq> Pending \<Longrightarrow> settle p q = p"
  by (simp add: settle_def)

section \<open>Facts about arrays and optional values\<close>

lemma js_at_nth [simp]: "i < length xs \<Longrightarrow> js_at xs (int i) = Some (xs ! i)"
  by (simp add: js_at_def)

lemma js_at_Some_iff:
  "js_at xs i = Some x \<longleftrightarrow> 0 \<le> i \<and> i < int (length xs) \<and> x = xs ! nat i"
  by (auto simp: js_at_def)

lemma js_at_None_iff: "js_at xs i = None \<longleftrightarrow> i < 0 \<or> int (length xs) \<le> i"
  by (auto simp: js_at_def)

lemma js_at_0 [simp]: "js_at (x # xs) 0 = Some x"
  by (simp add: js_at_def)

lemma js_at_mem: "js_at xs i = Some x \<Longrightarrow> x \<in> set xs"
  by (auto simp: js_at_Some_iff)

lemma less_length_append:
  "xs \<noteq> [] \<Longrightarrow> n \<le> int (length ys) \<Longrightarrow> n < int (length (xs @ ys))"
  by (cases xs) simp_all

lemma nullish_simps [simp]:
  "nullish None b = b" "nullish (Some a) b = a"
  by (simp_all add: nullish_def)

lemma nullish_opt_simps [simp]:
  "nullish_opt None b = b" "nullish_opt (Some a) b = Some a"
  by (simp_all add: nullish_opt_def)

lemma str_or_simps [simp]:
  "str_or '''' b = b" "a \<noteq> '''' \<Longrightarrow> str_or a b = a"
  by (simp_all add: str_or_def)

lemma str_or_nonempty: "b \<noteq> '''' \<Longrightarrow> str_or a b \<noteq> ''''"
  by (simp add: str_or_def)

lemma opt_truthy_simps [simp]:
  "opt_truthy None = False" "opt_truthy (Some s) = (s \<noteq> '''')"
  by (simp_all add: opt_truthy_def)

section \<open>Facts about maps\<close>

lemma map_get_set: "map_get (map_set k v m) k' = (if k' = k then Some v else map_get m k')"
  by (simp add: AList.update_conv)

lemma map_get_delete: "map_get (map_delete k m) k' = (if k' = k then None else map_get m k')"
  by (simp add: AList.delete_conv)

lemma map_ok_Nil [simp]: "map_ok []"
  by (simp add: map_ok_def)

lemma map_ok_set [inv_intros]: "map_ok m \<Longrightarrow> map_ok (map_set k v m)"
  by (simp add: map_ok_def AList.distinct_update)

lemma map_ok_delete [inv_intros]: "map_ok m \<Longrightarrow> map_ok (map_delete k m)"
  by (simp add: map_ok_def AList.distinct_delete)

lemma map_set_new: "map_get m k = None \<Longrightarrow> map_set k v m = m @ [(k, v)]"
  by (induction m) (auto split: if_splits)

lemma map_delete_absent: "map_get m k = None \<Longrightarrow> map_delete k m = m"
  by (simp add: AList.delete_idem map_of_eq_None_iff)

lemma map_set_set [simp]: "map_set k v (map_set k w m) = map_set k v m"
  by (induction m) auto

lemma map_delete_set [simp]: "map_delete k (map_set k v m) = map_delete k m"
  by (simp add: AList.delete_update_same)

lemma map_keys_set:
  "set (map_keys (map_set k v m)) = insert k (set (map_keys m))"
  by (simp add: AList.dom_update)

lemma map_keys_delete: "set (map_keys (map_delete k m)) = set (map_keys m) - {k}"
  by (induction m) (auto simp: AList.delete_eq)

lemma map_values_get: "map_ok m \<Longrightarrow> (k, v) \<in> set m \<longleftrightarrow> map_get m k = Some v"
  by (simp add: map_ok_def)

lemma set_map_delete: "set (map_delete k m) = {p \<in> set m. fst p \<noteq> k}"
  by (auto simp: AList.delete_eq)

lemma set_map_set:
  "map_ok m \<Longrightarrow> set (map_set k v m) = insert (k, v) {p \<in> set m. fst p \<noteq> k}"
  by (induction m) (auto simp: map_ok_def, force)

section \<open>Facts about strings\<close>

lemma split_on_not_Nil [simp]: "split_on p s \<noteq> []"
  by (cases s) (auto split: list.splits)

lemma split_on_no_sep: "\<forall>w \<in> set (split_on p s). \<forall>c \<in> set w. \<not> p c"
  by (induction s) (auto split: list.splits)

lemma split_on_none: "\<forall>c \<in> set s. \<not> p c \<Longrightarrow> split_on p s = [s]"
  by (induction s) auto

lemma split_on_append_sep:
  "p c \<Longrightarrow> \<forall>d \<in> set w. \<not> p d \<Longrightarrow> split_on p (w @ c # s) = w # split_on p s"
  by (induction w) auto

lemma index_of_neg: "index_of c s < 0 \<longleftrightarrow> c \<notin> set s"
  by (induction s) (auto simp: Let_def)

lemma index_of_split:
  "c \<notin> set a \<Longrightarrow> index_of c (a @ c # b) = int (length a)"
  by (induction a) (auto simp: Let_def)

lemma trim_id:
  assumes "s = [] \<or> (\<not> is_ws (hd s) \<and> \<not> is_ws (last s))"
  shows "trim s = s"
proof (cases "s = []")
  case True
  then show ?thesis by (simp add: trim_def trim_end_def)
next
  case False
  with assms have h: "\<not> is_ws (hd s)" and l: "\<not> is_ws (hd (rev s))"
    by (auto simp: hd_rev)
  have "dropWhile is_ws s = s"
    using h False by (cases s) auto
  moreover have "dropWhile is_ws (rev s) = rev s"
    using l False by (cases "rev s") auto
  ultimately show ?thesis by (simp add: trim_def trim_end_def)
qed

lemma set_trim: "set (trim s) \<subseteq> set s"
  by (auto simp: trim_def trim_end_def dest!: set_dropWhileD)

lemma replace_char_absent: "a \<noteq> b \<Longrightarrow> a \<notin> set (replace_char a b s)"
  by (auto simp: replace_char_def)

lemma replace_char_id: "a \<notin> set s \<Longrightarrow> replace_char a b s = s"
  by (induction s) (auto simp: replace_char_def)

lemma length_replace_char [simp]: "length (replace_char a b s) = length s"
  by (simp add: replace_char_def)

end
