(* ===== verification/Messages.thy ===== *)
theory Messages
  imports Prelude
begin

text \<open>
  The data of the peer protocol, from \<open>flutter/js/src/proto/message.ts\<close>: one record per
  interface, with the source's field names behind the message name, one association list
  per enumeration, and the default message \<open>createBase\<dots>\<close> that decoding and
  \<open>fromPartial\<close> start from.  A field the source types \<open>T | undefined\<close> is a
  \<open>T option\<close>; enumeration fields are the integers the wire carries.
\<close>

section \<open>Enumerations\<close>

definition Chroma_enum :: "(string \<times> int) list" where
  "Chroma_enum = [(''I420'', 0),
     (''I444'', 1),
     (''UNRECOGNIZED'', - 1)]"

definition KeyboardMode_enum :: "(string \<times> int) list" where
  "KeyboardMode_enum = [(''Legacy'', 0),
     (''Map'', 1),
     (''Translate'', 2),
     (''Auto'', 3),
     (''UNRECOGNIZED'', - 1)]"

definition ControlKey_enum :: "(string \<times> int) list" where
  "ControlKey_enum = [(''Unknown'', 0),
     (''Alt'', 1),
     (''Backspace'', 2),
     (''CapsLock'', 3),
     (''Control'', 4),
     (''Delete'', 5),
     (''DownArrow'', 6),
     (''End'', 7),
     (''Escape'', 8),
     (''F1'', 9),
     (''F10'', 10),
     (''F11'', 11),
     (''F12'', 12),
     (''F2'', 13),
     (''F3'', 14),
     (''F4'', 15),
     (''F5'', 16),
     (''F6'', 17),
     (''F7'', 18),
     (''F8'', 19),
     (''F9'', 20),
     (''Home'', 21),
     (''LeftArrow'', 22),
     (''Meta'', 23),
     (''Option'', 24),
     (''PageDown'', 25),
     (''PageUp'', 26),
     (''Return'', 27),
     (''RightArrow'', 28),
     (''Shift'', 29),
     (''Space'', 30),
     (''Tab'', 31),
     (''UpArrow'', 32),
     (''Numpad0'', 33),
     (''Numpad1'', 34),
     (''Numpad2'', 35),
     (''Numpad3'', 36),
     (''Numpad4'', 37),
     (''Numpad5'', 38),
     (''Numpad6'', 39),
     (''Numpad7'', 40),
     (''Numpad8'', 41),
     (''Numpad9'', 42),
     (''Cancel'', 43),
     (''Clear'', 44),
     (''Menu'', 45),
     (''Pause'', 46),
     (''Kana'', 47),
     (''Hangul'', 48),
     (''Junja'', 49),
     (''Final'', 50),
     (''Hanja'', 51),
     (''Kanji'', 52),
     (''Convert'', 53),
     (''Select'', 54),
     (''Print'', 55),
     (''Execute'', 56),
     (''Snapshot'', 57),
     (''Insert'', 58),
     (''Help'', 59),
     (''Sleep'', 60),
     (''Separator'', 61),
     (''Scroll'', 62),
     (''NumLock'', 63),
     (''RWin'', 64),
     (''Apps'', 65),
     (''Multiply'', 66),
     (''Add'', 67),
     (''Subtract'', 68),
     (''Decimal'', 69),
     (''Divide'', 70),
     (''Equals'', 71),
     (''NumpadEnter'', 72),
     (''RShift'', 73),
     (''RControl'', 74),
     (''RAlt'', 75),
     (''VolumeMute'', 76),
     (''VolumeUp'', 77),
     (''VolumeDown'', 78),
     (''Power'', 79),
     (''CtrlAltDel'', 100),
     (''LockScreen'', 101),
     (''UNRECOGNIZED'', - 1)]"

definition ClipboardFormat_enum :: "(string \<times> int) list" where
  "ClipboardFormat_enum = [(''Text'', 0),
     (''Rtf'', 1),
     (''Html'', 2),
     (''ImageRgba'', 21),
     (''ImagePng'', 22),
     (''ImageSvg'', 23),
     (''Special'', 31),
     (''UNRECOGNIZED'', - 1)]"

definition FileType_enum :: "(string \<times> int) list" where
  "FileType_enum = [(''Dir'', 0),
     (''DirLink'', 2),
     (''DirDrive'', 3),
     (''File'', 4),
     (''FileLink'', 5),
     (''UNRECOGNIZED'', - 1)]"

definition ImageQuality_enum :: "(string \<times> int) list" where
  "ImageQuality_enum = [(''NotSet'', 0),
     (''Low'', 2),
     (''Balanced'', 3),
     (''Best'', 4),
     (''UNRECOGNIZED'', - 1)]"

definition PermissionInfo_Permission_enum :: "(string \<times> int) list" where
  "PermissionInfo_Permission_enum = [(''Keyboard'', 0),
     (''Clipboard'', 2),
     (''Audio'', 3),
     (''File'', 4),
     (''Restart'', 5),
     (''Recording'', 6),
     (''BlockInput'', 7),
     (''UNRECOGNIZED'', - 1)]"

definition SupportedDecoding_PreferCodec_enum :: "(string \<times> int) list" where
  "SupportedDecoding_PreferCodec_enum = [(''Auto'', 0),
     (''VP9'', 1),
     (''H264'', 2),
     (''H265'', 3),
     (''VP8'', 4),
     (''AV1'', 5),
     (''UNRECOGNIZED'', - 1)]"

definition OptionMessage_BoolOption_enum :: "(string \<times> int) list" where
  "OptionMessage_BoolOption_enum = [(''NotSet'', 0),
     (''No'', 1),
     (''Yes'', 2),
     (''UNRECOGNIZED'', - 1)]"

definition BackNotification_BlockInputState_enum :: "(string \<times> int) list" where
  "BackNotification_BlockInputState_enum = [(''BlkStateUnknown'', 0),
     (''BlkOnSucceeded'', 2),
     (''BlkOnFailed'', 3),
     (''BlkOffSucceeded'', 4),
     (''BlkOffFailed'', 5),
     (''UNRECOGNIZED'', - 1)]"

definition BackNotification_PrivacyModeState_enum :: "(string \<times> int) list" where
  "BackNotification_PrivacyModeState_enum = [(''PrvStateUnknown'', 0),
     (''PrvOnByOther'', 2),
     (''PrvNotSupported'', 3),
     (''PrvOnSucceeded'', 4),
     (''PrvOnFailedDenied'', 5),
     (''PrvOnFailedPlugin'', 6),
     (''PrvOnFailed'', 7),
     (''PrvOffSucceeded'', 8),
     (''PrvOffByPeer'', 9),
     (''PrvOffFailed'', 10),
     (''PrvOffUnknown'', 11),
     (''UNRECOGNIZED'', - 1)]"

section \<open>Message records\<close>

record EncodedVideoFrame =
  EncodedVideoFrame_data :: "bytes"
  EncodedVideoFrame_key :: "bool"
  EncodedVideoFrame_pts :: "int"

record EncodedVideoFrames =
  EncodedVideoFrames_frames :: "EncodedVideoFrame list"

record RGB =
  RGB_compress :: "bool"

record YUV =
  YUV_compress :: "bool"
  YUV_stride :: "int"

record VideoFrame =
  VideoFrame_vp9s :: "EncodedVideoFrames option"
  VideoFrame_rgb :: "RGB option"
  VideoFrame_yuv :: "YUV option"
  VideoFrame_h264s :: "EncodedVideoFrames option"
  VideoFrame_h265s :: "EncodedVideoFrames option"
  VideoFrame_vp8s :: "EncodedVideoFrames option"
  VideoFrame_av1s :: "EncodedVideoFrames option"
  VideoFrame_display :: "int"

record IdPk =
  IdPk_id :: "string"
  IdPk_pk :: "bytes"

record Resolution =
  Resolution_width :: "int"
  Resolution_height :: "int"

record DisplayInfo =
  DisplayInfo_x :: "int"
  DisplayInfo_y :: "int"
  DisplayInfo_width :: "int"
  DisplayInfo_height :: "int"
  DisplayInfo_name :: "string"
  DisplayInfo_online :: "bool"
  DisplayInfo_cursor_embedded :: "bool"
  DisplayInfo_original_resolution :: "Resolution option"
  DisplayInfo_scale :: "rat"

record PortForward =
  PortForward_host :: "string"
  PortForward_port :: "int"

record FileTransfer =
  FileTransfer_dir :: "string"
  FileTransfer_show_hidden :: "bool"

record OSLogin =
  OSLogin_username :: "string"
  OSLogin_password :: "string"

record CodecAbility =
  CodecAbility_vp8 :: "bool"
  CodecAbility_vp9 :: "bool"
  CodecAbility_av1 :: "bool"
  CodecAbility_h264 :: "bool"
  CodecAbility_h265 :: "bool"

record SupportedDecoding =
  SupportedDecoding_ability_vp9 :: "int"
  SupportedDecoding_ability_h264 :: "int"
  SupportedDecoding_ability_h265 :: "int"
  SupportedDecoding_prefer :: "int"
  SupportedDecoding_ability_vp8 :: "int"
  SupportedDecoding_ability_av1 :: "int"
  SupportedDecoding_i444 :: "CodecAbility option"
  SupportedDecoding_prefer_chroma :: "int"

record OptionMessage =
  OptionMessage_image_quality :: "int"
  OptionMessage_lock_after_session_end :: "int"
  OptionMessage_show_remote_cursor :: "int"
  OptionMessage_privacy_mode :: "int"
  OptionMessage_block_input :: "int"
  OptionMessage_custom_image_quality :: "int"
  OptionMessage_disable_audio :: "int"
  OptionMessage_disable_clipboard :: "int"
  OptionMessage_enable_file_transfer :: "int"
  OptionMessage_supported_decoding :: "SupportedDecoding option"
  OptionMessage_custom_fps :: "int"
  OptionMessage_disable_keyboard :: "int"
  OptionMessage_follow_remote_cursor :: "int"
  OptionMessage_follow_remote_window :: "int"

record LoginRequest =
  LoginRequest_username :: "string"
  LoginRequest_password :: "bytes"
  LoginRequest_my_id :: "string"
  LoginRequest_my_name :: "string"
  LoginRequest_option :: "OptionMessage option"
  LoginRequest_file_transfer :: "FileTransfer option"
  LoginRequest_port_forward :: "PortForward option"
  LoginRequest_video_ack_required :: "bool"
  LoginRequest_session_id :: "int"
  LoginRequest_version :: "string"
  LoginRequest_os_login :: "OSLogin option"
  LoginRequest_my_platform :: "string"
  LoginRequest_hwid :: "bytes"

record Auth2FA =
  Auth2FA_code :: "string"
  Auth2FA_hwid :: "bytes"

record ChatMessage =
  ChatMessage_text :: "string"

record Features =
  Features_privacy_mode :: "bool"

record SupportedEncoding =
  SupportedEncoding_h264 :: "bool"
  SupportedEncoding_h265 :: "bool"
  SupportedEncoding_vp8 :: "bool"
  SupportedEncoding_av1 :: "bool"
  SupportedEncoding_i444 :: "CodecAbility option"

record SupportedResolutions =
  SupportedResolutions_resolutions :: "Resolution list"

record WindowsSession =
  WindowsSession_sid :: "int"
  WindowsSession_name :: "string"

record WindowsSessions =
  WindowsSessions_sessions :: "WindowsSession list"
  WindowsSessions_current_sid :: "int"

record PeerInfo =
  PeerInfo_username :: "string"
  PeerInfo_hostname :: "string"
  PeerInfo_platform :: "string"
  PeerInfo_displays :: "DisplayInfo list"
  PeerInfo_current_display :: "int"
  PeerInfo_sas_enabled :: "bool"
  PeerInfo_version :: "string"
  PeerInfo_features :: "Features option"
  PeerInfo_encoding :: "SupportedEncoding option"
  PeerInfo_resolutions :: "SupportedResolutions option"
  PeerInfo_platform_additions :: "string"
  PeerInfo_windows_sessions :: "WindowsSessions option"

record LoginResponse =
  LoginResponse_error :: "string option"
  LoginResponse_peer_info :: "PeerInfo option"
  LoginResponse_enable_trusted_devices :: "bool"

record TouchScaleUpdate =
  TouchScaleUpdate_scale :: "int"

record TouchPanStart =
  TouchPanStart_x :: "int"
  TouchPanStart_y :: "int"

record TouchPanUpdate =
  TouchPanUpdate_x :: "int"
  TouchPanUpdate_y :: "int"

record TouchPanEnd =
  TouchPanEnd_x :: "int"
  TouchPanEnd_y :: "int"

record TouchEvent =
  TouchEvent_scale_update :: "TouchScaleUpdate option"
  TouchEvent_pan_start :: "TouchPanStart option"
  TouchEvent_pan_update :: "TouchPanUpdate option"
  TouchEvent_pan_end :: "TouchPanEnd option"

record PointerDeviceEvent =
  PointerDeviceEvent_touch_event :: "TouchEvent option"
  PointerDeviceEvent_modifiers :: "int list"

record MouseEvent =
  MouseEvent_mask :: "int"
  MouseEvent_x :: "int"
  MouseEvent_y :: "int"
  MouseEvent_modifiers :: "int list"

record KeyEvent =
  KeyEvent_down :: "bool"
  KeyEvent_press :: "bool"
  KeyEvent_control_key :: "int option"
  KeyEvent_chr :: "int option"
  KeyEvent_unicode :: "int option"
  KeyEvent_seq :: "string option"
  KeyEvent_win2win_hotkey :: "int option"
  KeyEvent_modifiers :: "int list"
  KeyEvent_mode :: "int"

record CursorData =
  CursorData_id :: "int"
  CursorData_hotx :: "int"
  CursorData_hoty :: "int"
  CursorData_width :: "int"
  CursorData_height :: "int"
  CursorData_colors :: "bytes"

record CursorPosition =
  CursorPosition_x :: "int"
  CursorPosition_y :: "int"

record Hash =
  Hash_salt :: "string"
  Hash_challenge :: "string"

record Clipboard =
  Clipboard_compress :: "bool"
  Clipboard_content :: "bytes"
  Clipboard_width :: "int"
  Clipboard_height :: "int"
  Clipboard_format :: "int"
  Clipboard_special_name :: "string"

record MultiClipboards =
  MultiClipboards_clipboards :: "Clipboard list"

record FileEntry =
  FileEntry_entry_type :: "int"
  FileEntry_name :: "string"
  FileEntry_is_hidden :: "bool"
  FileEntry_size :: "int"
  FileEntry_modified_time :: "int"

record FileDirectory =
  FileDirectory_id :: "int"
  FileDirectory_path :: "string"
  FileDirectory_entries :: "FileEntry list"

record ReadDir =
  ReadDir_path :: "string"
  ReadDir_include_hidden :: "bool"

record ReadEmptyDirs =
  ReadEmptyDirs_path :: "string"
  ReadEmptyDirs_include_hidden :: "bool"

record ReadEmptyDirsResponse =
  ReadEmptyDirsResponse_path :: "string"
  ReadEmptyDirsResponse_empty_dirs :: "FileDirectory list"

record ReadAllFiles =
  ReadAllFiles_id :: "int"
  ReadAllFiles_path :: "string"
  ReadAllFiles_include_hidden :: "bool"

record FileRename =
  FileRename_id :: "int"
  FileRename_path :: "string"
  FileRename_new_name :: "string"

record FileTransferSendRequest =
  FileTransferSendRequest_id :: "int"
  FileTransferSendRequest_path :: "string"
  FileTransferSendRequest_include_hidden :: "bool"
  FileTransferSendRequest_file_num :: "int"

record FileTransferReceiveRequest =
  FileTransferReceiveRequest_id :: "int"
  FileTransferReceiveRequest_path :: "string"
  FileTransferReceiveRequest_files :: "FileEntry list"
  FileTransferReceiveRequest_file_num :: "int"
  FileTransferReceiveRequest_total_size :: "int"

record FileDirCreate =
  FileDirCreate_id :: "int"
  FileDirCreate_path :: "string"

record FileRemoveDir =
  FileRemoveDir_id :: "int"
  FileRemoveDir_path :: "string"
  FileRemoveDir_recursive :: "bool"

record FileRemoveFile =
  FileRemoveFile_id :: "int"
  FileRemoveFile_path :: "string"
  FileRemoveFile_file_num :: "int"

record FileTransferCancel =
  FileTransferCancel_id :: "int"

record FileTransferSendConfirmRequest =
  FileTransferSendConfirmRequest_id :: "int"
  FileTransferSendConfirmRequest_file_num :: "int"
  FileTransferSendConfirmRequest_skip :: "bool option"
  FileTransferSendConfirmRequest_offset_blk :: "int option"

record FileAction =
  FileAction_read_dir :: "ReadDir option"
  FileAction_send :: "FileTransferSendRequest option"
  FileAction_receive :: "FileTransferReceiveRequest option"
  FileAction_create :: "FileDirCreate option"
  FileAction_remove_dir :: "FileRemoveDir option"
  FileAction_remove_file :: "FileRemoveFile option"
  FileAction_all_files :: "ReadAllFiles option"
  FileAction_cancel :: "FileTransferCancel option"
  FileAction_send_confirm :: "FileTransferSendConfirmRequest option"
  FileAction_rename :: "FileRename option"
  FileAction_read_empty_dirs :: "ReadEmptyDirs option"

record FileTransferBlock =
  FileTransferBlock_id :: "int"
  FileTransferBlock_file_num :: "int"
  FileTransferBlock_data :: "bytes"
  FileTransferBlock_compressed :: "bool"
  FileTransferBlock_blk_id :: "int"

record FileTransferError =
  FileTransferError_id :: "int"
  FileTransferError_error :: "string"
  FileTransferError_file_num :: "int"

record FileTransferDone =
  FileTransferDone_id :: "int"
  FileTransferDone_file_num :: "int"

record FileTransferDigest =
  FileTransferDigest_id :: "int"
  FileTransferDigest_file_num :: "int"
  FileTransferDigest_last_modified :: "int"
  FileTransferDigest_file_size :: "int"
  FileTransferDigest_is_upload :: "bool"
  FileTransferDigest_is_identical :: "bool"

record FileResponse =
  FileResponse_dir :: "FileDirectory option"
  FileResponse_block :: "FileTransferBlock option"
  FileResponse_error :: "FileTransferError option"
  FileResponse_done :: "FileTransferDone option"
  FileResponse_digest :: "FileTransferDigest option"
  FileResponse_empty_dirs :: "ReadEmptyDirsResponse option"

datatype CliprdrMonitorReady = CliprdrMonitorReady

record CliprdrFormat =
  CliprdrFormat_id :: "int"
  CliprdrFormat_format :: "string"

record CliprdrServerFormatList =
  CliprdrServerFormatList_formats :: "CliprdrFormat list"

record CliprdrServerFormatListResponse =
  CliprdrServerFormatListResponse_msg_flags :: "int"

record CliprdrServerFormatDataRequest =
  CliprdrServerFormatDataRequest_requested_format_id :: "int"

record CliprdrServerFormatDataResponse =
  CliprdrServerFormatDataResponse_msg_flags :: "int"
  CliprdrServerFormatDataResponse_format_data :: "bytes"

record CliprdrFileContentsRequest =
  CliprdrFileContentsRequest_stream_id :: "int"
  CliprdrFileContentsRequest_list_index :: "int"
  CliprdrFileContentsRequest_dw_flags :: "int"
  CliprdrFileContentsRequest_n_position_low :: "int"
  CliprdrFileContentsRequest_n_position_high :: "int"
  CliprdrFileContentsRequest_cb_requested :: "int"
  CliprdrFileContentsRequest_have_clip_data_id :: "bool"
  CliprdrFileContentsRequest_clip_data_id :: "int"

record CliprdrFileContentsResponse =
  CliprdrFileContentsResponse_msg_flags :: "int"
  CliprdrFileContentsResponse_stream_id :: "int"
  CliprdrFileContentsResponse_requested_data :: "bytes"

datatype CliprdrTryEmpty = CliprdrTryEmpty

record Cliprdr =
  Cliprdr_ready :: "CliprdrMonitorReady option"
  Cliprdr_format_list :: "CliprdrServerFormatList option"
  Cliprdr_format_list_response :: "CliprdrServerFormatListResponse option"
  Cliprdr_format_data_request :: "CliprdrServerFormatDataRequest option"
  Cliprdr_format_data_response :: "CliprdrServerFormatDataResponse option"
  Cliprdr_file_contents_request :: "CliprdrFileContentsRequest option"
  Cliprdr_file_contents_response :: "CliprdrFileContentsResponse option"
  Cliprdr_try_empty :: "CliprdrTryEmpty option"

record DisplayResolution =
  DisplayResolution_display :: "int"
  DisplayResolution_resolution :: "Resolution option"

record SwitchDisplay =
  SwitchDisplay_display :: "int"
  SwitchDisplay_x :: "int"
  SwitchDisplay_y :: "int"
  SwitchDisplay_width :: "int"
  SwitchDisplay_height :: "int"
  SwitchDisplay_cursor_embedded :: "bool"
  SwitchDisplay_resolutions :: "SupportedResolutions option"
  SwitchDisplay_original_resolution :: "Resolution option"

record CaptureDisplays =
  CaptureDisplays_add :: "int list"
  CaptureDisplays_sub :: "int list"
  CaptureDisplays_set :: "int list"

record ToggleVirtualDisplay =
  ToggleVirtualDisplay_display :: "int"
  ToggleVirtualDisplay_on :: "bool"

record TogglePrivacyMode =
  TogglePrivacyMode_impl_key :: "string"
  TogglePrivacyMode_on :: "bool"

record PermissionInfo =
  PermissionInfo_permission :: "int"
  PermissionInfo_enabled :: "bool"

record TestDelay =
  TestDelay_time :: "int"
  TestDelay_from_client :: "bool"
  TestDelay_last_delay :: "int"
  TestDelay_target_bitrate :: "int"

record PublicKey =
  PublicKey_asymmetric_value :: "bytes"
  PublicKey_symmetric_value :: "bytes"

record SignedId =
  SignedId_id :: "bytes"

record AudioFormat =
  AudioFormat_sample_rate :: "int"
  AudioFormat_channels :: "int"

record AudioFrame =
  AudioFrame_data :: "bytes"

record MessageBox =
  MessageBox_msgtype :: "string"
  MessageBox_title :: "string"
  MessageBox_text :: "string"
  MessageBox_link :: "string"

record BackNotification =
  BackNotification_privacy_mode_state :: "int option"
  BackNotification_block_input_state :: "int option"
  BackNotification_details :: "string"
  BackNotification_impl_key :: "string"

record ElevationRequestWithLogon =
  ElevationRequestWithLogon_username :: "string"
  ElevationRequestWithLogon_password :: "string"

record ElevationRequest =
  ElevationRequest_direct :: "bool option"
  ElevationRequest_logon :: "ElevationRequestWithLogon option"

record SwitchSidesRequest =
  SwitchSidesRequest_uuid :: "bytes"

record SwitchSidesResponse =
  SwitchSidesResponse_uuid :: "bytes"
  SwitchSidesResponse_lr :: "LoginRequest option"

datatype SwitchBack = SwitchBack

record PluginRequest =
  PluginRequest_id :: "string"
  PluginRequest_content :: "bytes"

record PluginFailure =
  PluginFailure_id :: "string"
  PluginFailure_name :: "string"
  PluginFailure_msg :: "string"

record MessageQuery =
  MessageQuery_switch_display :: "int"

record Misc =
  Misc_chat_message :: "ChatMessage option"
  Misc_switch_display :: "SwitchDisplay option"
  Misc_permission_info :: "PermissionInfo option"
  Misc_option :: "OptionMessage option"
  Misc_audio_format :: "AudioFormat option"
  Misc_close_reason :: "string option"
  Misc_refresh_video :: "bool option"
  Misc_video_received :: "bool option"
  Misc_back_notification :: "BackNotification option"
  Misc_restart_remote_device :: "bool option"
  Misc_uac :: "bool option"
  Misc_foreground_window_elevated :: "bool option"
  Misc_stop_service :: "bool option"
  Misc_elevation_request :: "ElevationRequest option"
  Misc_elevation_response :: "string option"
  Misc_portable_service_running :: "bool option"
  Misc_switch_sides_request :: "SwitchSidesRequest option"
  Misc_switch_back :: "SwitchBack option"
  Misc_change_resolution :: "Resolution option"
  Misc_plugin_request :: "PluginRequest option"
  Misc_plugin_failure :: "PluginFailure option"
  Misc_full_speed_fps :: "int option"
  Misc_auto_adjust_fps :: "int option"
  Misc_client_record_status :: "bool option"
  Misc_capture_displays :: "CaptureDisplays option"
  Misc_refresh_video_display :: "int option"
  Misc_toggle_virtual_display :: "ToggleVirtualDisplay option"
  Misc_toggle_privacy_mode :: "TogglePrivacyMode option"
  Misc_supported_encoding :: "SupportedEncoding option"
  Misc_selected_sid :: "int option"
  Misc_change_display_resolution :: "DisplayResolution option"
  Misc_message_query :: "MessageQuery option"
  Misc_follow_current_display :: "int option"

record VoiceCallRequest =
  VoiceCallRequest_req_timestamp :: "int"
  VoiceCallRequest_is_connect :: "bool"

record VoiceCallResponse =
  VoiceCallResponse_accepted :: "bool"
  VoiceCallResponse_req_timestamp :: "int"
  VoiceCallResponse_ack_timestamp :: "int"

record Message =
  Message_signed_id :: "SignedId option"
  Message_public_key :: "PublicKey option"
  Message_test_delay :: "TestDelay option"
  Message_video_frame :: "VideoFrame option"
  Message_login_request :: "LoginRequest option"
  Message_login_response :: "LoginResponse option"
  Message_hash :: "Hash option"
  Message_mouse_event :: "MouseEvent option"
  Message_audio_frame :: "AudioFrame option"
  Message_cursor_data :: "CursorData option"
  Message_cursor_position :: "CursorPosition option"
  Message_cursor_id :: "int option"
  Message_key_event :: "KeyEvent option"
  Message_clipboard :: "Clipboard option"
  Message_file_action :: "FileAction option"
  Message_file_response :: "FileResponse option"
  Message_misc :: "Misc option"
  Message_cliprdr :: "Cliprdr option"
  Message_message_box :: "MessageBox option"
  Message_switch_sides_response :: "SwitchSidesResponse option"
  Message_voice_call_request :: "VoiceCallRequest option"
  Message_voice_call_response :: "VoiceCallResponse option"
  Message_peer_info :: "PeerInfo option"
  Message_pointer_device_event :: "PointerDeviceEvent option"
  Message_auth_2fa :: "Auth2FA option"
  Message_multi_clipboards :: "MultiClipboards option"

section \<open>Default messages\<close>

definition createBaseEncodedVideoFrame :: EncodedVideoFrame where
  "createBaseEncodedVideoFrame = \<lparr>EncodedVideoFrame_data = [],
     EncodedVideoFrame_key = False, EncodedVideoFrame_pts = 0\<rparr>"

definition createBaseEncodedVideoFrames :: EncodedVideoFrames where
  "createBaseEncodedVideoFrames = \<lparr>EncodedVideoFrames_frames = []\<rparr>"

definition createBaseRGB :: RGB where
  "createBaseRGB = \<lparr>RGB_compress = False\<rparr>"

definition createBaseYUV :: YUV where
  "createBaseYUV = \<lparr>YUV_compress = False, YUV_stride = 0\<rparr>"

definition createBaseVideoFrame :: VideoFrame where
  "createBaseVideoFrame = \<lparr>VideoFrame_vp9s = None, VideoFrame_rgb = None,
     VideoFrame_yuv = None, VideoFrame_h264s = None, VideoFrame_h265s = None,
     VideoFrame_vp8s = None, VideoFrame_av1s = None, VideoFrame_display = 0\<rparr>"

definition createBaseIdPk :: IdPk where
  "createBaseIdPk = \<lparr>IdPk_id = '''', IdPk_pk = []\<rparr>"

definition createBaseResolution :: Resolution where
  "createBaseResolution = \<lparr>Resolution_width = 0, Resolution_height = 0\<rparr>"

definition createBaseDisplayInfo :: DisplayInfo where
  "createBaseDisplayInfo = \<lparr>DisplayInfo_x = 0, DisplayInfo_y = 0, DisplayInfo_width = 0,
     DisplayInfo_height = 0, DisplayInfo_name = '''', DisplayInfo_online = False,
     DisplayInfo_cursor_embedded = False, DisplayInfo_original_resolution = None,
     DisplayInfo_scale = 0\<rparr>"

definition createBasePortForward :: PortForward where
  "createBasePortForward = \<lparr>PortForward_host = '''', PortForward_port = 0\<rparr>"

definition createBaseFileTransfer :: FileTransfer where
  "createBaseFileTransfer = \<lparr>FileTransfer_dir = '''', FileTransfer_show_hidden = False\<rparr>"

definition createBaseOSLogin :: OSLogin where
  "createBaseOSLogin = \<lparr>OSLogin_username = '''', OSLogin_password = ''''\<rparr>"

definition createBaseCodecAbility :: CodecAbility where
  "createBaseCodecAbility = \<lparr>CodecAbility_vp8 = False, CodecAbility_vp9 = False,
     CodecAbility_av1 = False, CodecAbility_h264 = False, CodecAbility_h265 = False\<rparr>"

definition createBaseSupportedDecoding :: SupportedDecoding where
  "createBaseSupportedDecoding = \<lparr>SupportedDecoding_ability_vp9 = 0,
     SupportedDecoding_ability_h264 = 0, SupportedDecoding_ability_h265 = 0,
     SupportedDecoding_prefer = 0, SupportedDecoding_ability_vp8 = 0,
     SupportedDecoding_ability_av1 = 0, SupportedDecoding_i444 = None,
     SupportedDecoding_prefer_chroma = 0\<rparr>"

definition createBaseOptionMessage :: OptionMessage where
  "createBaseOptionMessage = \<lparr>OptionMessage_image_quality = 0,
     OptionMessage_lock_after_session_end = 0, OptionMessage_show_remote_cursor = 0,
     OptionMessage_privacy_mode = 0, OptionMessage_block_input = 0,
     OptionMessage_custom_image_quality = 0, OptionMessage_disable_audio = 0,
     OptionMessage_disable_clipboard = 0, OptionMessage_enable_file_transfer = 0,
     OptionMessage_supported_decoding = None, OptionMessage_custom_fps = 0,
     OptionMessage_disable_keyboard = 0, OptionMessage_follow_remote_cursor = 0,
     OptionMessage_follow_remote_window = 0\<rparr>"

definition createBaseLoginRequest :: LoginRequest where
  "createBaseLoginRequest = \<lparr>LoginRequest_username = '''', LoginRequest_password = [],
     LoginRequest_my_id = '''', LoginRequest_my_name = '''', LoginRequest_option = None,
     LoginRequest_file_transfer = None, LoginRequest_port_forward = None,
     LoginRequest_video_ack_required = False, LoginRequest_session_id = 0,
     LoginRequest_version = '''', LoginRequest_os_login = None, LoginRequest_my_platform = '''',
     LoginRequest_hwid = []\<rparr>"

definition createBaseAuth2FA :: Auth2FA where
  "createBaseAuth2FA = \<lparr>Auth2FA_code = '''', Auth2FA_hwid = []\<rparr>"

definition createBaseChatMessage :: ChatMessage where
  "createBaseChatMessage = \<lparr>ChatMessage_text = ''''\<rparr>"

definition createBaseFeatures :: Features where
  "createBaseFeatures = \<lparr>Features_privacy_mode = False\<rparr>"

definition createBaseSupportedEncoding :: SupportedEncoding where
  "createBaseSupportedEncoding = \<lparr>SupportedEncoding_h264 = False,
     SupportedEncoding_h265 = False, SupportedEncoding_vp8 = False, SupportedEncoding_av1 = False,
     SupportedEncoding_i444 = None\<rparr>"

definition createBaseSupportedResolutions :: SupportedResolutions where
  "createBaseSupportedResolutions = \<lparr>SupportedResolutions_resolutions = []\<rparr>"

definition createBaseWindowsSession :: WindowsSession where
  "createBaseWindowsSession = \<lparr>WindowsSession_sid = 0, WindowsSession_name = ''''\<rparr>"

definition createBaseWindowsSessions :: WindowsSessions where
  "createBaseWindowsSessions = \<lparr>WindowsSessions_sessions = [],
     WindowsSessions_current_sid = 0\<rparr>"

definition createBasePeerInfo :: PeerInfo where
  "createBasePeerInfo = \<lparr>PeerInfo_username = '''', PeerInfo_hostname = '''',
     PeerInfo_platform = '''', PeerInfo_displays = [], PeerInfo_current_display = 0,
     PeerInfo_sas_enabled = False, PeerInfo_version = '''', PeerInfo_features = None,
     PeerInfo_encoding = None, PeerInfo_resolutions = None, PeerInfo_platform_additions = '''',
     PeerInfo_windows_sessions = None\<rparr>"

definition createBaseLoginResponse :: LoginResponse where
  "createBaseLoginResponse = \<lparr>LoginResponse_error = None, LoginResponse_peer_info = None,
     LoginResponse_enable_trusted_devices = False\<rparr>"

definition createBaseTouchScaleUpdate :: TouchScaleUpdate where
  "createBaseTouchScaleUpdate = \<lparr>TouchScaleUpdate_scale = 0\<rparr>"

definition createBaseTouchPanStart :: TouchPanStart where
  "createBaseTouchPanStart = \<lparr>TouchPanStart_x = 0, TouchPanStart_y = 0\<rparr>"

definition createBaseTouchPanUpdate :: TouchPanUpdate where
  "createBaseTouchPanUpdate = \<lparr>TouchPanUpdate_x = 0, TouchPanUpdate_y = 0\<rparr>"

definition createBaseTouchPanEnd :: TouchPanEnd where
  "createBaseTouchPanEnd = \<lparr>TouchPanEnd_x = 0, TouchPanEnd_y = 0\<rparr>"

definition createBaseTouchEvent :: TouchEvent where
  "createBaseTouchEvent = \<lparr>TouchEvent_scale_update = None, TouchEvent_pan_start = None,
     TouchEvent_pan_update = None, TouchEvent_pan_end = None\<rparr>"

definition createBasePointerDeviceEvent :: PointerDeviceEvent where
  "createBasePointerDeviceEvent = \<lparr>PointerDeviceEvent_touch_event = None,
     PointerDeviceEvent_modifiers = []\<rparr>"

definition createBaseMouseEvent :: MouseEvent where
  "createBaseMouseEvent = \<lparr>MouseEvent_mask = 0, MouseEvent_x = 0, MouseEvent_y = 0,
     MouseEvent_modifiers = []\<rparr>"

definition createBaseKeyEvent :: KeyEvent where
  "createBaseKeyEvent = \<lparr>KeyEvent_down = False, KeyEvent_press = False,
     KeyEvent_control_key = None, KeyEvent_chr = None, KeyEvent_unicode = None,
     KeyEvent_seq = None, KeyEvent_win2win_hotkey = None, KeyEvent_modifiers = [],
     KeyEvent_mode = 0\<rparr>"

definition createBaseCursorData :: CursorData where
  "createBaseCursorData = \<lparr>CursorData_id = 0, CursorData_hotx = 0, CursorData_hoty = 0,
     CursorData_width = 0, CursorData_height = 0, CursorData_colors = []\<rparr>"

definition createBaseCursorPosition :: CursorPosition where
  "createBaseCursorPosition = \<lparr>CursorPosition_x = 0, CursorPosition_y = 0\<rparr>"

definition createBaseHash :: Hash where
  "createBaseHash = \<lparr>Hash_salt = '''', Hash_challenge = ''''\<rparr>"

definition createBaseClipboard :: Clipboard where
  "createBaseClipboard = \<lparr>Clipboard_compress = False, Clipboard_content = [],
     Clipboard_width = 0, Clipboard_height = 0, Clipboard_format = 0,
     Clipboard_special_name = ''''\<rparr>"

definition createBaseMultiClipboards :: MultiClipboards where
  "createBaseMultiClipboards = \<lparr>MultiClipboards_clipboards = []\<rparr>"

definition createBaseFileEntry :: FileEntry where
  "createBaseFileEntry = \<lparr>FileEntry_entry_type = 0, FileEntry_name = '''',
     FileEntry_is_hidden = False, FileEntry_size = 0, FileEntry_modified_time = 0\<rparr>"

definition createBaseFileDirectory :: FileDirectory where
  "createBaseFileDirectory = \<lparr>FileDirectory_id = 0, FileDirectory_path = '''',
     FileDirectory_entries = []\<rparr>"

definition createBaseReadDir :: ReadDir where
  "createBaseReadDir = \<lparr>ReadDir_path = '''', ReadDir_include_hidden = False\<rparr>"

definition createBaseReadEmptyDirs :: ReadEmptyDirs where
  "createBaseReadEmptyDirs = \<lparr>ReadEmptyDirs_path = '''',
     ReadEmptyDirs_include_hidden = False\<rparr>"

definition createBaseReadEmptyDirsResponse :: ReadEmptyDirsResponse where
  "createBaseReadEmptyDirsResponse = \<lparr>ReadEmptyDirsResponse_path = '''',
     ReadEmptyDirsResponse_empty_dirs = []\<rparr>"

definition createBaseReadAllFiles :: ReadAllFiles where
  "createBaseReadAllFiles = \<lparr>ReadAllFiles_id = 0, ReadAllFiles_path = '''',
     ReadAllFiles_include_hidden = False\<rparr>"

definition createBaseFileRename :: FileRename where
  "createBaseFileRename = \<lparr>FileRename_id = 0, FileRename_path = '''',
     FileRename_new_name = ''''\<rparr>"

definition createBaseFileTransferSendRequest :: FileTransferSendRequest where
  "createBaseFileTransferSendRequest = \<lparr>FileTransferSendRequest_id = 0,
     FileTransferSendRequest_path = '''', FileTransferSendRequest_include_hidden = False,
     FileTransferSendRequest_file_num = 0\<rparr>"

definition createBaseFileTransferReceiveRequest :: FileTransferReceiveRequest where
  "createBaseFileTransferReceiveRequest = \<lparr>FileTransferReceiveRequest_id = 0,
     FileTransferReceiveRequest_path = '''', FileTransferReceiveRequest_files = [],
     FileTransferReceiveRequest_file_num = 0, FileTransferReceiveRequest_total_size = 0\<rparr>"

definition createBaseFileDirCreate :: FileDirCreate where
  "createBaseFileDirCreate = \<lparr>FileDirCreate_id = 0, FileDirCreate_path = ''''\<rparr>"

definition createBaseFileRemoveDir :: FileRemoveDir where
  "createBaseFileRemoveDir = \<lparr>FileRemoveDir_id = 0, FileRemoveDir_path = '''',
     FileRemoveDir_recursive = False\<rparr>"

definition createBaseFileRemoveFile :: FileRemoveFile where
  "createBaseFileRemoveFile = \<lparr>FileRemoveFile_id = 0, FileRemoveFile_path = '''',
     FileRemoveFile_file_num = 0\<rparr>"

definition createBaseFileTransferCancel :: FileTransferCancel where
  "createBaseFileTransferCancel = \<lparr>FileTransferCancel_id = 0\<rparr>"

definition createBaseFileTransferSendConfirmRequest :: FileTransferSendConfirmRequest where
  "createBaseFileTransferSendConfirmRequest = \<lparr>FileTransferSendConfirmRequest_id = 0,
     FileTransferSendConfirmRequest_file_num = 0, FileTransferSendConfirmRequest_skip = None,
     FileTransferSendConfirmRequest_offset_blk = None\<rparr>"

definition createBaseFileAction :: FileAction where
  "createBaseFileAction = \<lparr>FileAction_read_dir = None, FileAction_send = None,
     FileAction_receive = None, FileAction_create = None, FileAction_remove_dir = None,
     FileAction_remove_file = None, FileAction_all_files = None, FileAction_cancel = None,
     FileAction_send_confirm = None, FileAction_rename = None,
     FileAction_read_empty_dirs = None\<rparr>"

definition createBaseFileTransferBlock :: FileTransferBlock where
  "createBaseFileTransferBlock = \<lparr>FileTransferBlock_id = 0, FileTransferBlock_file_num = 0,
     FileTransferBlock_data = [], FileTransferBlock_compressed = False,
     FileTransferBlock_blk_id = 0\<rparr>"

definition createBaseFileTransferError :: FileTransferError where
  "createBaseFileTransferError = \<lparr>FileTransferError_id = 0, FileTransferError_error = '''',
     FileTransferError_file_num = 0\<rparr>"

definition createBaseFileTransferDone :: FileTransferDone where
  "createBaseFileTransferDone = \<lparr>FileTransferDone_id = 0,
     FileTransferDone_file_num = 0\<rparr>"

definition createBaseFileTransferDigest :: FileTransferDigest where
  "createBaseFileTransferDigest = \<lparr>FileTransferDigest_id = 0,
     FileTransferDigest_file_num = 0, FileTransferDigest_last_modified = 0,
     FileTransferDigest_file_size = 0, FileTransferDigest_is_upload = False,
     FileTransferDigest_is_identical = False\<rparr>"

definition createBaseFileResponse :: FileResponse where
  "createBaseFileResponse = \<lparr>FileResponse_dir = None, FileResponse_block = None,
     FileResponse_error = None, FileResponse_done = None, FileResponse_digest = None,
     FileResponse_empty_dirs = None\<rparr>"

definition createBaseCliprdrFormat :: CliprdrFormat where
  "createBaseCliprdrFormat = \<lparr>CliprdrFormat_id = 0, CliprdrFormat_format = ''''\<rparr>"

definition createBaseCliprdrServerFormatList :: CliprdrServerFormatList where
  "createBaseCliprdrServerFormatList = \<lparr>CliprdrServerFormatList_formats = []\<rparr>"

definition createBaseCliprdrServerFormatListResponse :: CliprdrServerFormatListResponse where
  "createBaseCliprdrServerFormatListResponse = \<lparr>CliprdrServerFormatListResponse_msg_flags = 0\<rparr>"

definition createBaseCliprdrServerFormatDataRequest :: CliprdrServerFormatDataRequest where
  "createBaseCliprdrServerFormatDataRequest = \<lparr>CliprdrServerFormatDataRequest_requested_format_id = 0\<rparr>"

definition createBaseCliprdrServerFormatDataResponse :: CliprdrServerFormatDataResponse where
  "createBaseCliprdrServerFormatDataResponse = \<lparr>CliprdrServerFormatDataResponse_msg_flags = 0, CliprdrServerFormatDataResponse_format_data = []\<rparr>"

definition createBaseCliprdrFileContentsRequest :: CliprdrFileContentsRequest where
  "createBaseCliprdrFileContentsRequest = \<lparr>CliprdrFileContentsRequest_stream_id = 0,
     CliprdrFileContentsRequest_list_index = 0, CliprdrFileContentsRequest_dw_flags = 0,
     CliprdrFileContentsRequest_n_position_low = 0, CliprdrFileContentsRequest_n_position_high = 0,
     CliprdrFileContentsRequest_cb_requested = 0, CliprdrFileContentsRequest_have_clip_data_id = False, CliprdrFileContentsRequest_clip_data_id = 0\<rparr>"

definition createBaseCliprdrFileContentsResponse :: CliprdrFileContentsResponse where
  "createBaseCliprdrFileContentsResponse = \<lparr>CliprdrFileContentsResponse_msg_flags = 0,
     CliprdrFileContentsResponse_stream_id = 0, CliprdrFileContentsResponse_requested_data = []\<rparr>"

definition createBaseCliprdr :: Cliprdr where
  "createBaseCliprdr = \<lparr>Cliprdr_ready = None, Cliprdr_format_list = None,
     Cliprdr_format_list_response = None, Cliprdr_format_data_request = None,
     Cliprdr_format_data_response = None, Cliprdr_file_contents_request = None,
     Cliprdr_file_contents_response = None, Cliprdr_try_empty = None\<rparr>"

definition createBaseDisplayResolution :: DisplayResolution where
  "createBaseDisplayResolution = \<lparr>DisplayResolution_display = 0,
     DisplayResolution_resolution = None\<rparr>"

definition createBaseSwitchDisplay :: SwitchDisplay where
  "createBaseSwitchDisplay = \<lparr>SwitchDisplay_display = 0, SwitchDisplay_x = 0,
     SwitchDisplay_y = 0, SwitchDisplay_width = 0, SwitchDisplay_height = 0,
     SwitchDisplay_cursor_embedded = False, SwitchDisplay_resolutions = None,
     SwitchDisplay_original_resolution = None\<rparr>"

definition createBaseCaptureDisplays :: CaptureDisplays where
  "createBaseCaptureDisplays = \<lparr>CaptureDisplays_add = [], CaptureDisplays_sub = [],
     CaptureDisplays_set = []\<rparr>"

definition createBaseToggleVirtualDisplay :: ToggleVirtualDisplay where
  "createBaseToggleVirtualDisplay = \<lparr>ToggleVirtualDisplay_display = 0,
     ToggleVirtualDisplay_on = False\<rparr>"

definition createBaseTogglePrivacyMode :: TogglePrivacyMode where
  "createBaseTogglePrivacyMode = \<lparr>TogglePrivacyMode_impl_key = '''',
     TogglePrivacyMode_on = False\<rparr>"

definition createBasePermissionInfo :: PermissionInfo where
  "createBasePermissionInfo = \<lparr>PermissionInfo_permission = 0,
     PermissionInfo_enabled = False\<rparr>"

definition createBaseTestDelay :: TestDelay where
  "createBaseTestDelay = \<lparr>TestDelay_time = 0, TestDelay_from_client = False,
     TestDelay_last_delay = 0, TestDelay_target_bitrate = 0\<rparr>"

definition createBasePublicKey :: PublicKey where
  "createBasePublicKey = \<lparr>PublicKey_asymmetric_value = [],
     PublicKey_symmetric_value = []\<rparr>"

definition createBaseSignedId :: SignedId where
  "createBaseSignedId = \<lparr>SignedId_id = []\<rparr>"

definition createBaseAudioFormat :: AudioFormat where
  "createBaseAudioFormat = \<lparr>AudioFormat_sample_rate = 0, AudioFormat_channels = 0\<rparr>"

definition createBaseAudioFrame :: AudioFrame where
  "createBaseAudioFrame = \<lparr>AudioFrame_data = []\<rparr>"

definition createBaseMessageBox :: MessageBox where
  "createBaseMessageBox = \<lparr>MessageBox_msgtype = '''', MessageBox_title = '''',
     MessageBox_text = '''', MessageBox_link = ''''\<rparr>"

definition createBaseBackNotification :: BackNotification where
  "createBaseBackNotification = \<lparr>BackNotification_privacy_mode_state = None,
     BackNotification_block_input_state = None, BackNotification_details = '''',
     BackNotification_impl_key = ''''\<rparr>"

definition createBaseElevationRequestWithLogon :: ElevationRequestWithLogon where
  "createBaseElevationRequestWithLogon = \<lparr>ElevationRequestWithLogon_username = '''',
     ElevationRequestWithLogon_password = ''''\<rparr>"

definition createBaseElevationRequest :: ElevationRequest where
  "createBaseElevationRequest = \<lparr>ElevationRequest_direct = None,
     ElevationRequest_logon = None\<rparr>"

definition createBaseSwitchSidesRequest :: SwitchSidesRequest where
  "createBaseSwitchSidesRequest = \<lparr>SwitchSidesRequest_uuid = []\<rparr>"

definition createBaseSwitchSidesResponse :: SwitchSidesResponse where
  "createBaseSwitchSidesResponse = \<lparr>SwitchSidesResponse_uuid = [],
     SwitchSidesResponse_lr = None\<rparr>"

definition createBasePluginRequest :: PluginRequest where
  "createBasePluginRequest = \<lparr>PluginRequest_id = '''', PluginRequest_content = []\<rparr>"

definition createBasePluginFailure :: PluginFailure where
  "createBasePluginFailure = \<lparr>PluginFailure_id = '''', PluginFailure_name = '''',
     PluginFailure_msg = ''''\<rparr>"

definition createBaseMessageQuery :: MessageQuery where
  "createBaseMessageQuery = \<lparr>MessageQuery_switch_display = 0\<rparr>"

definition createBaseMisc :: Misc where
  "createBaseMisc = \<lparr>Misc_chat_message = None, Misc_switch_display = None,
     Misc_permission_info = None, Misc_option = None, Misc_audio_format = None,
     Misc_close_reason = None, Misc_refresh_video = None, Misc_video_received = None,
     Misc_back_notification = None, Misc_restart_remote_device = None, Misc_uac = None,
     Misc_foreground_window_elevated = None, Misc_stop_service = None,
     Misc_elevation_request = None, Misc_elevation_response = None,
     Misc_portable_service_running = None, Misc_switch_sides_request = None,
     Misc_switch_back = None, Misc_change_resolution = None, Misc_plugin_request = None,
     Misc_plugin_failure = None, Misc_full_speed_fps = None, Misc_auto_adjust_fps = None,
     Misc_client_record_status = None, Misc_capture_displays = None,
     Misc_refresh_video_display = None, Misc_toggle_virtual_display = None,
     Misc_toggle_privacy_mode = None, Misc_supported_encoding = None, Misc_selected_sid = None,
     Misc_change_display_resolution = None, Misc_message_query = None,
     Misc_follow_current_display = None\<rparr>"

definition createBaseVoiceCallRequest :: VoiceCallRequest where
  "createBaseVoiceCallRequest = \<lparr>VoiceCallRequest_req_timestamp = 0,
     VoiceCallRequest_is_connect = False\<rparr>"

definition createBaseVoiceCallResponse :: VoiceCallResponse where
  "createBaseVoiceCallResponse = \<lparr>VoiceCallResponse_accepted = False,
     VoiceCallResponse_req_timestamp = 0, VoiceCallResponse_ack_timestamp = 0\<rparr>"

definition createBaseMessage :: Message where
  "createBaseMessage = \<lparr>Message_signed_id = None, Message_public_key = None,
     Message_test_delay = None, Message_video_frame = None, Message_login_request = None,
     Message_login_response = None, Message_hash = None, Message_mouse_event = None,
     Message_audio_frame = None, Message_cursor_data = None, Message_cursor_position = None,
     Message_cursor_id = None, Message_key_event = None, Message_clipboard = None,
     Message_file_action = None, Message_file_response = None, Message_misc = None,
     Message_cliprdr = None, Message_message_box = None, Message_switch_sides_response = None,
     Message_voice_call_request = None, Message_voice_call_response = None,
     Message_peer_info = None, Message_pointer_device_event = None, Message_auth_2fa = None,
     Message_multi_clipboards = None\<rparr>"

lemmas createBase_messages_defs [record_defs] =
  createBaseEncodedVideoFrame_def
  createBaseEncodedVideoFrames_def
  createBaseRGB_def
  createBaseYUV_def
  createBaseVideoFrame_def
  createBaseIdPk_def
  createBaseResolution_def
  createBaseDisplayInfo_def
  createBasePortForward_def
  createBaseFileTransfer_def
  createBaseOSLogin_def
  createBaseCodecAbility_def
  createBaseSupportedDecoding_def
  createBaseOptionMessage_def
  createBaseLoginRequest_def
  createBaseAuth2FA_def
  createBaseChatMessage_def
  createBaseFeatures_def
  createBaseSupportedEncoding_def
  createBaseSupportedResolutions_def
  createBaseWindowsSession_def
  createBaseWindowsSessions_def
  createBasePeerInfo_def
  createBaseLoginResponse_def
  createBaseTouchScaleUpdate_def
  createBaseTouchPanStart_def
  createBaseTouchPanUpdate_def
  createBaseTouchPanEnd_def
  createBaseTouchEvent_def
  createBasePointerDeviceEvent_def
  createBaseMouseEvent_def
  createBaseKeyEvent_def
  createBaseCursorData_def
  createBaseCursorPosition_def
  createBaseHash_def
  createBaseClipboard_def
  createBaseMultiClipboards_def
  createBaseFileEntry_def
  createBaseFileDirectory_def
  createBaseReadDir_def
  createBaseReadEmptyDirs_def
  createBaseReadEmptyDirsResponse_def
  createBaseReadAllFiles_def
  createBaseFileRename_def
  createBaseFileTransferSendRequest_def
  createBaseFileTransferReceiveRequest_def
  createBaseFileDirCreate_def
  createBaseFileRemoveDir_def
  createBaseFileRemoveFile_def
  createBaseFileTransferCancel_def
  createBaseFileTransferSendConfirmRequest_def
  createBaseFileAction_def
  createBaseFileTransferBlock_def
  createBaseFileTransferError_def
  createBaseFileTransferDone_def
  createBaseFileTransferDigest_def
  createBaseFileResponse_def
  createBaseCliprdrFormat_def
  createBaseCliprdrServerFormatList_def
  createBaseCliprdrServerFormatListResponse_def
  createBaseCliprdrServerFormatDataRequest_def
  createBaseCliprdrServerFormatDataResponse_def
  createBaseCliprdrFileContentsRequest_def
  createBaseCliprdrFileContentsResponse_def
  createBaseCliprdr_def
  createBaseDisplayResolution_def
  createBaseSwitchDisplay_def
  createBaseCaptureDisplays_def
  createBaseToggleVirtualDisplay_def
  createBaseTogglePrivacyMode_def
  createBasePermissionInfo_def
  createBaseTestDelay_def
  createBasePublicKey_def
  createBaseSignedId_def
  createBaseAudioFormat_def
  createBaseAudioFrame_def
  createBaseMessageBox_def
  createBaseBackNotification_def
  createBaseElevationRequestWithLogon_def
  createBaseElevationRequest_def
  createBaseSwitchSidesRequest_def
  createBaseSwitchSidesResponse_def
  createBasePluginRequest_def
  createBasePluginFailure_def
  createBaseMessageQuery_def
  createBaseMisc_def
  createBaseVoiceCallRequest_def
  createBaseVoiceCallResponse_def
  createBaseMessage_def

end
