(* ===== verification/Base64.thy ===== *)
theory Base64
  imports Prelude
begin

text \<open>
  Base64 as the browser has it, \<open>btoa\<close> and \<open>atob\<close> on binary strings, given as bytes; used for
  the keys and tokens of \<open>flutter/js/src/helpers/viewer-crypto.js\<close>.
\<close>

section \<open>Base64\<close>

definition b64_char :: "nat \<Rightarrow> char" where
  "b64_char n = (if n < 26 then char_of (65 + n) else if n < 52 then char_of (71 + n)
     else if n < 62 then char_of (n - 4) else if n = 62 then CHR ''+'' else CHR ''/'')"

definition b64_index :: "char \<Rightarrow> nat option" where
  "b64_index c =
     (let n = of_char c
      in if 65 \<le> n \<and> n \<le> 90 then Some (n - 65) else if 97 \<le> n \<and> n \<le> 122 then Some (n - 71)
         else if 48 \<le> n \<and> n \<le> 57 then Some (n + 4) else if n = 43 then Some 62 else if n = 47 then Some 63 else None)"

text \<open>\<open>btoa\<close> of a binary string, given as bytes.\<close>

fun btoa :: "bytes \<Rightarrow> string" where
  "btoa [] = []"
| "btoa [a] = (let n = unat a in [b64_char (n div 4), b64_char (n mod 4 * 16), CHR ''='', CHR ''=''])"
| "btoa [a, b] =
     (let n = 256 * unat a + unat b
      in [b64_char (n div 1024), b64_char (n div 16 mod 64), b64_char (n mod 16 * 4), CHR ''=''])"
| "btoa (a # b # c # r) =
     (let n = 65536 * unat a + 256 * unat b + unat c
      in b64_char (n div 262144) # b64_char (n div 4096 mod 64) # b64_char (n div 64 mod 64) # b64_char (n mod 64) # btoa r)"

fun sextets_bytes :: "nat list \<Rightarrow> bytes" where
  "sextets_bytes (a # b # c # d # r) =
     (let n = 262144 * a + 4096 * b + 64 * c + d
      in word_of_nat (n div 65536) # word_of_nat (n div 256 mod 256) # word_of_nat (n mod 256) # sextets_bytes r)"
| "sextets_bytes [a, b, c] =
     (let n = (4096 * a + 64 * b + c) div 4 in [word_of_nat (n div 256), word_of_nat (n mod 256)])"
| "sextets_bytes [a, b] = [word_of_nat ((64 * a + b) div 16)]"
| "sextets_bytes _ = []"

definition strip_padding :: "string \<Rightarrow> string" where
  "strip_padding s =
     (if length s mod 4 \<noteq> 0 then s
      else if ends_with ''=='' s then butlast (butlast s) else if ends_with ''='' s then butlast s else s)"

definition ascii_ws :: "char \<Rightarrow> bool" where
  "ascii_ws c \<longleftrightarrow> (of_char c :: nat) \<in> {9, 10, 12, 13, 32}"

text \<open>\<open>atob\<close> throws an \<open>InvalidCharacterError\<close> on anything that is not base64.\<close>

definition atob :: "string \<Rightarrow> unknown + bytes" where
  "atob s =
     (let t = strip_padding (filter (\<lambda>c. \<not> ascii_ws c) s); ns = map b64_index t
      in if length t mod 4 = 1 \<or> None \<in> set ns then Inl (UError ''InvalidCharacterError'' ''The string to be decoded is not correctly encoded.'')
         else Inr (sextets_bytes (map the ns)))"

section \<open>Base64 is read back\<close>

lemma of_char_char_of [simp]: "n < 256 \<Longrightarrow> (of_char (char_of n) :: nat) = n" for n :: nat
  by simp

lemma b64_index_char [simp]: "n < 64 \<Longrightarrow> b64_index (b64_char n) = Some n"
  by (auto simp: b64_char_def b64_index_def Let_def)

lemma b64_char_clean: "n < 64 \<Longrightarrow> b64_char n \<noteq> CHR ''='' \<and> \<not> ascii_ws (b64_char n)"
  using b64_index_char [of n] by (auto simp: b64_index_def ascii_ws_def Let_def split: if_splits)

text \<open>The sextets of a byte string.\<close>

fun sextets :: "bytes \<Rightarrow> nat list" where
  "sextets [] = []"
| "sextets [a] = [unat a div 4, unat a mod 4 * 16]"
| "sextets [a, b] = (let n = 256 * unat a + unat b in [n div 1024, n div 16 mod 64, n mod 16 * 4])"
| "sextets (a # b # c # r) =
     (let n = 65536 * unat a + 256 * unat b + unat c
      in n div 262144 # n div 4096 mod 64 # n div 64 mod 64 # n mod 64 # sextets r)"

definition padding :: "bytes \<Rightarrow> string" where
  "padding b = (if length b mod 3 = 1 then ''=='' else if length b mod 3 = 2 then ''='' else '''')"

lemma unat_byte: "unat (a :: 8 word) < 256"
  using unsigned_less [of a] by simp

lemma btoa_sextets: "btoa b = map b64_char (sextets b) @ padding b"
  by (induction b rule: btoa.induct) (simp_all add: padding_def Let_def)

lemma sextets_small: "\<forall>n \<in> set (sextets b). n < 64"
proof (induction b rule: sextets.induct)
  case (4 a b c r)
  have "65536 * unat a + 256 * unat b + unat c < 16777216"
    using unat_byte [of a] unat_byte [of b] unat_byte [of c] by linarith
  then have "(65536 * unat a + 256 * unat b + unat c) div 262144 < 64"
    by (simp add: less_mult_imp_div_less)
  then show ?case using 4 by (simp add: Let_def)
next
  case (3 a b)
  have "256 * unat a + unat b < 65536" using unat_byte [of a] unat_byte [of b] by linarith
  then have "(256 * unat a + unat b) div 1024 < 64" by (simp add: less_mult_imp_div_less)
  moreover have "(256 * unat a + unat b) mod 16 < 16" by simp
  ultimately show ?case by (simp add: Let_def)
next
  case (2 a)
  have "unat a div 4 < 64" using unat_byte [of a] by (simp add: less_mult_imp_div_less)
  moreover have "unat a mod 4 < 4" by simp
  ultimately show ?case by simp
qed simp

lemma four_sextets: "262144 * (n div 262144) + 4096 * (n div 4096 mod 64) + 64 * (n div 64 mod 64) + n mod 64 = n" for n :: nat
proof -
  have "n = 64 * (n div 64) + n mod 64" by simp
  moreover have "n div 64 = 64 * (n div 4096) + n div 64 mod 64"
    using div_mult_mod_eq [of "n div 64" 64] by (simp add: div_mult2_eq [symmetric])
  moreover have "n div 4096 = 64 * (n div 262144) + n div 4096 mod 64"
    using div_mult_mod_eq [of "n div 4096" 64] by (simp add: div_mult2_eq [symmetric])
  ultimately show ?thesis by linarith
qed

lemma three_bytes:
  fixes a b c :: nat
  assumes "b < 256" "c < 256"
  shows "(65536 * a + 256 * b + c) div 65536 = a" "(65536 * a + 256 * b + c) div 256 mod 256 = b" "(65536 * a + 256 * b + c) mod 256 = c"
proof -
  have d: "(65536 * a + 256 * b + c) div 256 = 256 * a + b" using assms by simp
  then show "(65536 * a + 256 * b + c) div 256 mod 256 = b" using assms by simp
  have "(65536 * a + 256 * b + c) div 65536 = (65536 * a + 256 * b + c) div 256 div 256" by (simp add: div_mult2_eq [symmetric])
  then show "(65536 * a + 256 * b + c) div 65536 = a" using assms d by simp
  show "(65536 * a + 256 * b + c) mod 256 = c" using assms by (simp add: mod_add_left_eq [symmetric] mod_mult_left_eq)
qed

lemma sextets_back: "sextets_bytes (sextets b) = b"
proof (induction b rule: sextets.induct)
  case (4 a b c r)
  show ?case
    using 4 three_bytes [of "unat b" "unat c" "unat a"] unat_byte [of b] unat_byte [of c]
    by (simp add: Let_def four_sextets)
next
  case (3 a b)
  define n where "n = 256 * unat a + unat b"
  have "n div 16 = 64 * (n div 1024) + n div 16 mod 64"
    using div_mult_mod_eq [of "n div 16" 64] by (simp add: div_mult2_eq [symmetric])
  moreover have "n = 16 * (n div 16) + n mod 16" by simp
  ultimately have "1024 * (n div 1024) + 16 * (n div 16 mod 64) + n mod 16 = n" by linarith
  then have "(4096 * (n div 1024) + 64 * (n div 16 mod 64) + n mod 16 * 4) div 4 = n" by simp
  moreover have "n div 256 = unat a" "n mod 256 = unat b"
    using unat_byte [of b] by (simp_all add: n_def)
  ultimately show ?case by (simp add: Let_def n_def [symmetric])
next
  case (2 a)
  have "(64 * (unat a div 4) + unat a mod 4 * 16) div 16 = unat a" by simp
  then show ?case by simp
qed simp

lemma length_sextets: "length (sextets b) mod 4 = (if length b mod 3 = 1 then 2 else if length b mod 3 = 2 then 3 else 0)"
  by (induction b rule: sextets.induct) (simp_all add: Let_def)

lemma clean_chars: "c \<in> set (map b64_char (sextets b)) \<Longrightarrow> c \<noteq> CHR ''='' \<and> \<not> ascii_ws c"
  using sextets_small [of b] b64_char_clean by auto

lemma btoa_no_ws: "filter (\<lambda>c. \<not> ascii_ws c) (btoa b) = btoa b"
  using clean_chars [of _ b] by (auto simp: btoa_sextets padding_def ascii_ws_def filter_id_conv)

lemma strip_btoa: "strip_padding (btoa b) = map b64_char (sextets b)"
proof -
  have no_eq: "\<not> suffix ''='' (map b64_char (sextets b))" "\<not> suffix ''=='' (map b64_char (sextets b))"
    using clean_chars [of "CHR ''=''" b] set_mono_suffix by (metis list.set_intros(1) subsetD)+
  have one: "\<not> suffix ''=='' (map b64_char (sextets b) @ ''='')"
  proof
    assume "suffix ''=='' (map b64_char (sextets b) @ ''='')"
    then have "suffix ''='' (map b64_char (sextets b))" by (auto simp: suffix_def append_eq_append_conv2 append_eq_Cons_conv)
    with no_eq show False by simp
  qed
  define s where "s = map b64_char (sextets b)"
  have s: "length s mod 4 = (if length b mod 3 = 1 then 2 else if length b mod 3 = 2 then 3 else 0)"
    using length_sextets [of b] by (simp add: s_def)
  consider "length b mod 3 = 0" | "length b mod 3 = 1" | "length b mod 3 = 2" by linarith
  then have "strip_padding (s @ padding b) = s"
  proof cases
    case 1
    then show ?thesis using no_eq by (simp add: s_def [symmetric] strip_padding_def padding_def ends_with_def)
  next
    case 2
    then have "length (s @ ''=='') mod 4 = 0" using s by (simp, presburger)
    then show ?thesis using 2 by (simp add: strip_padding_def padding_def ends_with_def suffix_def butlast_append)
  next
    case 3
    then have "length (s @ ''='') mod 4 = 0" using s by (simp, presburger)
    then show ?thesis using 3 one by (simp add: s_def [symmetric] strip_padding_def padding_def ends_with_def)
  qed
  then show ?thesis by (simp add: btoa_sextets s_def)
qed

lemma atob_btoa: "atob (btoa b) = Inr b"
proof -
  have "map b64_index (map b64_char (sextets b)) = map Some (sextets b)"
    using sextets_small [of b] by simp
  moreover have "length (sextets b) mod 4 \<noteq> 1" using length_sextets [of b] by simp
  ultimately show ?thesis
    by (simp add: atob_def Let_def btoa_no_ws strip_btoa sextets_back comp_def del: map_map) (auto simp: sextets_back comp_def)
qed

end
