(* ===== verification/Wire.thy ===== *)
theory Wire
  imports Prelude
begin

text \<open>
  The wire format shared by all messages of \<open>flutter/js/src/proto\<close>.  The scalar readers
  and writers belong to the package protobufjs and are the parameter \<open>P :: pb\<close>; what the
  generated code does with them is modelled here: the field-by-field encoding, the
  decoding loop with its tag dispatch, its exit on an end-group or zero tag and its
  skipping of unknown fields, nested messages with a length prefix, repeated and packed
  fields.  A message is a table of fields, one entry per field of the source; each entry
  carries the branch that \<open>encode\<close> has for the field and the case that \<open>decode\<close> has.

  A reader is the list of bytes still to be read; \<open>None\<close> is a thrown exception.
\<close>

section \<open>Scalars\<close>

record pb =
  w_uint32 :: "int \<Rightarrow> bytes"
  w_int32 :: "int \<Rightarrow> bytes"
  w_sint32 :: "int \<Rightarrow> bytes"
  w_uint64 :: "int \<Rightarrow> bytes"
  w_int64 :: "int \<Rightarrow> bytes"
  w_bool :: "bool \<Rightarrow> bytes"
  w_string :: "string \<Rightarrow> bytes"
  w_bytes :: "bytes \<Rightarrow> bytes"
  w_double :: "rat \<Rightarrow> bytes"
  r_uint32 :: "bytes \<Rightarrow> (int \<times> bytes) option"
  r_int32 :: "bytes \<Rightarrow> (int \<times> bytes) option"
  r_sint32 :: "bytes \<Rightarrow> (int \<times> bytes) option"
  r_uint64 :: "bytes \<Rightarrow> (int \<times> bytes) option"
  r_int64 :: "bytes \<Rightarrow> (int \<times> bytes) option"
  r_bool :: "bytes \<Rightarrow> (bool \<times> bytes) option"
  r_string :: "bytes \<Rightarrow> (string \<times> bytes) option"
  r_bytes :: "bytes \<Rightarrow> (bytes \<times> bytes) option"
  r_double :: "bytes \<Rightarrow> (rat \<times> bytes) option"
  r_skipType :: "int \<Rightarrow> bytes \<Rightarrow> bytes option"
  is_double :: "rat \<Rightarrow> bool"

text \<open>\<open>longToNumber\<close>: 64-bit values outside the safe integers throw.\<close>

definition longToNumber :: "(int \<times> bytes) option \<Rightarrow> (int \<times> bytes) option" where
  "longToNumber x =
     (case x of
        None \<Rightarrow> None
      | Some (v, r) \<Rightarrow> (if v > 2 ^ 53 - 1 \<or> v < - (2 ^ 53 - 1) then None else Some (v, r)))"

definition r_uint64_number :: "pb \<Rightarrow> bytes \<Rightarrow> (int \<times> bytes) option" where
  "r_uint64_number P r = longToNumber (r_uint64 P r)"

definition r_int64_number :: "pb \<Rightarrow> bytes \<Rightarrow> (int \<times> bytes) option" where
  "r_int64_number P r = longToNumber (r_int64 P r)"

text \<open>What \<open>writer.fork()\<close> \<dots> \<open>.ldelim()\<close> appends for a body of bytes.\<close>

definition ldelim :: "pb \<Rightarrow> bytes \<Rightarrow> bytes" where
  "ldelim P body = w_uint32 P (int (length body)) @ body"

section \<open>The decoding loop\<close>

text \<open>
  \<open>stop\<close> is the number of bytes left when the reader reaches the end of the message, so
  \<open>reader.pos < end\<close> is \<open>stop < length r\<close>.  The readers of protobufjs always advance;
  the comparison of lengths is where the loop's termination rests on that.
\<close>

function decode_loop ::
    "pb \<Rightarrow> ('m \<Rightarrow> int \<Rightarrow> bytes \<Rightarrow> ('m \<times> bytes) option option) \<Rightarrow> int \<Rightarrow> 'm \<Rightarrow> bytes
      \<Rightarrow> ('m \<times> bytes) option" where
  "decode_loop P fstep stop m r =
     (if stop < int (length r) then
        (case r_uint32 P r of
           None \<Rightarrow> None
         | Some (tag, r1) \<Rightarrow>
             (case fstep m tag r1 of
                Some None \<Rightarrow> None
              | Some (Some (m', r2)) \<Rightarrow>
                  (if length r2 < length r then decode_loop P fstep stop m' r2 else None)
              | None \<Rightarrow>
                  (if tag mod 8 = 4 \<or> tag = 0 then Some (m, r1)
                   else (case r_skipType P (tag mod 8) r1 of
                           None \<Rightarrow> None
                         | Some r2 \<Rightarrow>
                             (if length r2 < length r then decode_loop P fstep stop m r2 else None)))))
      else Some (m, r))"
  by pat_completeness auto
termination
  by (relation "measure (\<lambda>(P, fstep, stop, m, r). length r)") auto

declare decode_loop.simps [simp del]

text \<open>A packed field: values until the inner end.\<close>

function packed_loop ::
    "(bytes \<Rightarrow> ('v \<times> bytes) option) \<Rightarrow> int \<Rightarrow> 'v list \<Rightarrow> bytes \<Rightarrow> ('v list \<times> bytes) option" where
  "packed_loop rd stop acc r =
     (if stop < int (length r) then
        (case rd r of
           None \<Rightarrow> None
         | Some (v, r1) \<Rightarrow>
             (if length r1 < length r then packed_loop rd stop (acc @ [v]) r1 else None))
      else Some (acc, r))"
  by pat_completeness auto
termination
  by (relation "measure (\<lambda>(rd, stop, acc, r). length r)") auto

declare packed_loop.simps [simp del]

section \<open>Fields\<close>

text \<open>
  \<open>pf_write\<close> is the field's branch of \<open>encode\<close>; \<open>pf_read tag m r\<close> is its case of the
  \<open>switch\<close> in \<open>decode\<close>, \<open>None\<close> when the tag is not the field's.  The remaining
  components serve the statements: the tags, the copy of the field from one message to
  another, whether the field still has its default, and whether its value fits the wire type.
\<close>

record 'm pbfield =
  pf_tags :: "int list"
  pf_write :: "'m \<Rightarrow> bytes"
  pf_read :: "int \<Rightarrow> 'm \<Rightarrow> bytes \<Rightarrow> ('m \<times> bytes) option option"
  pf_put :: "'m \<Rightarrow> 'm \<Rightarrow> 'm"
  pf_def :: "'m \<Rightarrow> bool"
  pf_ok :: "'m \<Rightarrow> bool"

type_synonym ('m, 'v) getter = "'m \<Rightarrow> 'v"
type_synonym ('m, 'v) updater = "('v \<Rightarrow> 'v) \<Rightarrow> 'm \<Rightarrow> 'm"

definition read_into ::
    "(bytes \<Rightarrow> ('v \<times> bytes) option) \<Rightarrow> ('v \<Rightarrow> 'm) \<Rightarrow> bytes \<Rightarrow> ('m \<times> bytes) option" where
  "read_into rd f r = (case rd r of None \<Rightarrow> None | Some (v, r1) \<Rightarrow> Some (f v, r1))"

text \<open>\<open>if (message.f !== default) writer.uint32(tag).kind(message.f)\<close>.\<close>

definition f_scalar ::
    "pb \<Rightarrow> int \<Rightarrow> ('v \<Rightarrow> bytes) \<Rightarrow> (bytes \<Rightarrow> ('v \<times> bytes) option) \<Rightarrow> ('v \<Rightarrow> bool) \<Rightarrow> 'v
      \<Rightarrow> ('m, 'v) getter \<Rightarrow> ('m, 'v) updater \<Rightarrow> 'm pbfield" where
  "f_scalar P tag w rd fits dflt get upd =
     \<lparr>pf_tags = [tag],
      pf_write = (\<lambda>m. if get m \<noteq> dflt then w_uint32 P tag @ w (get m) else []),
      pf_read = (\<lambda>t m r. if t = tag then Some (read_into rd (\<lambda>v. upd (\<lambda>_. v) m) r) else None),
      pf_put = (\<lambda>s t. upd (\<lambda>_. get s) t),
      pf_def = (\<lambda>t. get t = dflt),
      pf_ok = (\<lambda>m. fits (get m))\<rparr>"

text \<open>\<open>if (message.f !== undefined) writer.uint32(tag).kind(message.f)\<close>, for scalars of a
  \<open>oneof\<close> and, with \<open>w\<close> a delimited encoder, for message fields.\<close>

definition f_opt ::
    "pb \<Rightarrow> int \<Rightarrow> ('v \<Rightarrow> bytes) \<Rightarrow> (bytes \<Rightarrow> ('v \<times> bytes) option) \<Rightarrow> ('v \<Rightarrow> bool)
      \<Rightarrow> ('m, 'v option) getter \<Rightarrow> ('m, 'v option) updater \<Rightarrow> 'm pbfield" where
  "f_opt P tag w rd fits get upd =
     \<lparr>pf_tags = [tag],
      pf_write = (\<lambda>m. case get m of None \<Rightarrow> [] | Some v \<Rightarrow> w_uint32 P tag @ w v),
      pf_read = (\<lambda>t m r. if t = tag then Some (read_into rd (\<lambda>v. upd (\<lambda>_. Some v) m) r) else None),
      pf_put = (\<lambda>s t. upd (\<lambda>_. get s) t),
      pf_def = (\<lambda>t. get t = None),
      pf_ok = (\<lambda>m. case get m of None \<Rightarrow> True | Some v \<Rightarrow> fits v)\<rparr>"

text \<open>\<open>for (const v of message.f) writer.uint32(tag).kind(v)\<close>.\<close>

definition f_rep ::
    "pb \<Rightarrow> int \<Rightarrow> ('v \<Rightarrow> bytes) \<Rightarrow> (bytes \<Rightarrow> ('v \<times> bytes) option) \<Rightarrow> ('v \<Rightarrow> bool)
      \<Rightarrow> ('m, 'v list) getter \<Rightarrow> ('m, 'v list) updater \<Rightarrow> 'm pbfield" where
  "f_rep P tag w rd fits get upd =
     \<lparr>pf_tags = [tag],
      pf_write = (\<lambda>m. concat (map (\<lambda>v. w_uint32 P tag @ w v) (get m))),
      pf_read = (\<lambda>t m r. if t = tag then Some (read_into rd (\<lambda>v. upd (\<lambda>xs. xs @ [v]) m) r) else None),
      pf_put = (\<lambda>s t. upd (\<lambda>_. get s) t),
      pf_def = (\<lambda>t. get t = []),
      pf_ok = (\<lambda>m. \<forall>v \<in> set (get m). fits v)\<rparr>"

text \<open>
  A packed field: written as one delimited run, even when empty; read from a run
  (\<open>tag\<close>) or from single values (\<open>tag1\<close>).
\<close>

definition packed_body :: "('v \<Rightarrow> bytes) \<Rightarrow> 'v list \<Rightarrow> bytes" where
  "packed_body w xs = concat (map w xs)"

definition read_packed ::
    "pb \<Rightarrow> (bytes \<Rightarrow> ('v \<times> bytes) option) \<Rightarrow> 'v list \<Rightarrow> bytes \<Rightarrow> ('v list \<times> bytes) option" where
  "read_packed P rd acc r =
     (case r_uint32 P r of
        None \<Rightarrow> None
      | Some (n, r1) \<Rightarrow> packed_loop rd (int (length r1) - n) acc r1)"

definition f_packed ::
    "pb \<Rightarrow> int \<Rightarrow> int \<Rightarrow> ('v \<Rightarrow> bytes) \<Rightarrow> (bytes \<Rightarrow> ('v \<times> bytes) option) \<Rightarrow> ('v \<Rightarrow> bool)
      \<Rightarrow> ('m, 'v list) getter \<Rightarrow> ('m, 'v list) updater \<Rightarrow> 'm pbfield" where
  "f_packed P tag1 tag w rd fits get upd =
     \<lparr>pf_tags = [tag1, tag],
      pf_write = (\<lambda>m. w_uint32 P tag @ ldelim P (packed_body w (get m))),
      pf_read = (\<lambda>t m r.
         if t = tag1 then Some (read_into rd (\<lambda>v. upd (\<lambda>xs. xs @ [v]) m) r)
         else if t = tag then Some (read_into (read_packed P rd (get m)) (\<lambda>vs. upd (\<lambda>_. vs) m) r)
         else None),
      pf_put = (\<lambda>s t. upd (\<lambda>_. get s) t),
      pf_def = (\<lambda>t. get t = []),
      pf_ok = (\<lambda>m. (\<forall>v \<in> set (get m). fits v) \<and> int (length (packed_body w (get m))) < 2 ^ 32)\<rparr>"

section \<open>Messages\<close>

definition message_encode :: "'m pbfield list \<Rightarrow> 'm \<Rightarrow> bytes" where
  "message_encode fs m = concat (map (\<lambda>f. pf_write f m) fs)"

fun fields_read :: "'m pbfield list \<Rightarrow> 'm \<Rightarrow> int \<Rightarrow> bytes \<Rightarrow> ('m \<times> bytes) option option" where
  "fields_read [] m tag r = None"
| "fields_read (f # fs) m tag r =
     (case pf_read f tag m r of None \<Rightarrow> fields_read fs m tag r | Some x \<Rightarrow> Some x)"

text \<open>\<open>length\<close> is \<open>None\<close> for a whole buffer and \<open>Some n\<close> for a nested message.\<close>

definition message_decode ::
    "pb \<Rightarrow> 'm pbfield list \<Rightarrow> 'm \<Rightarrow> bytes \<Rightarrow> int option \<Rightarrow> ('m \<times> bytes) option" where
  "message_decode P fs base r len =
     decode_loop P (fields_read fs)
       (case len of None \<Rightarrow> 0 | Some n \<Rightarrow> int (length r) - n) base r"

definition message_ok :: "'m pbfield list \<Rightarrow> 'm \<Rightarrow> bool" where
  "message_ok fs m \<longleftrightarrow> (\<forall>f \<in> set fs. pf_ok f m)"

text \<open>A nested message as a value: delimited on the way out, \<open>X.decode(reader, reader.uint32())\<close>
  on the way in.\<close>

definition w_msg :: "pb \<Rightarrow> 'v pbfield list \<Rightarrow> 'v \<Rightarrow> bytes" where
  "w_msg P fs v = ldelim P (message_encode fs v)"

definition r_msg :: "pb \<Rightarrow> 'v pbfield list \<Rightarrow> 'v \<Rightarrow> bytes \<Rightarrow> ('v \<times> bytes) option" where
  "r_msg P fs base r =
     (case r_uint32 P r of None \<Rightarrow> None | Some (n, r1) \<Rightarrow> message_decode P fs base r1 (Some n))"

definition msg_fits :: "'v pbfield list \<Rightarrow> 'v \<Rightarrow> bool" where
  "msg_fits fs v \<longleftrightarrow> message_ok fs v \<and> int (length (message_encode fs v)) < 2 ^ 32"

section \<open>Ranges of the scalar types\<close>

definition fits_uint32 :: "int \<Rightarrow> bool" where "fits_uint32 n \<longleftrightarrow> 0 \<le> n \<and> n < 2 ^ 32"
definition fits_int32 :: "int \<Rightarrow> bool" where "fits_int32 n \<longleftrightarrow> - (2 ^ 31) \<le> n \<and> n < 2 ^ 31"
definition fits_uint53 :: "int \<Rightarrow> bool" where "fits_uint53 n \<longleftrightarrow> 0 \<le> n \<and> n \<le> 2 ^ 53 - 1"
definition fits_int53 :: "int \<Rightarrow> bool" where "fits_int53 n \<longleftrightarrow> - (2 ^ 53 - 1) \<le> n \<and> n \<le> 2 ^ 53 - 1"
definition fits_bool :: "bool \<Rightarrow> bool" where "fits_bool b \<longleftrightarrow> True"
definition fits_string :: "string \<Rightarrow> bool" where "fits_string s \<longleftrightarrow> int (length s) < 2 ^ 30"
definition fits_bytes :: "bytes \<Rightarrow> bool" where "fits_bytes b \<longleftrightarrow> int (length b) < 2 ^ 32"

lemmas fits_defs = fits_uint32_def fits_int32_def fits_uint53_def fits_int53_def fits_bool_def
  fits_string_def fits_bytes_def

section \<open>Short names for the entries of a field table\<close>

abbreviation f_int32 :: "pb \<Rightarrow> int \<Rightarrow> ('m, int) getter \<Rightarrow> ('m, int) updater \<Rightarrow> 'm pbfield" where
  "f_int32 P tag \<equiv> f_scalar P tag (w_int32 P) (r_int32 P) fits_int32 0"

abbreviation f_sint32 :: "pb \<Rightarrow> int \<Rightarrow> ('m, int) getter \<Rightarrow> ('m, int) updater \<Rightarrow> 'm pbfield" where
  "f_sint32 P tag \<equiv> f_scalar P tag (w_sint32 P) (r_sint32 P) fits_int32 0"

abbreviation f_uint32 :: "pb \<Rightarrow> int \<Rightarrow> ('m, int) getter \<Rightarrow> ('m, int) updater \<Rightarrow> 'm pbfield" where
  "f_uint32 P tag \<equiv> f_scalar P tag (w_uint32 P) (r_uint32 P) fits_uint32 0"

abbreviation f_int64 :: "pb \<Rightarrow> int \<Rightarrow> ('m, int) getter \<Rightarrow> ('m, int) updater \<Rightarrow> 'm pbfield" where
  "f_int64 P tag \<equiv> f_scalar P tag (w_int64 P) (r_int64_number P) fits_int53 0"

abbreviation f_uint64 :: "pb \<Rightarrow> int \<Rightarrow> ('m, int) getter \<Rightarrow> ('m, int) updater \<Rightarrow> 'm pbfield" where
  "f_uint64 P tag \<equiv> f_scalar P tag (w_uint64 P) (r_uint64_number P) fits_uint53 0"

abbreviation f_bool :: "pb \<Rightarrow> int \<Rightarrow> ('m, bool) getter \<Rightarrow> ('m, bool) updater \<Rightarrow> 'm pbfield" where
  "f_bool P tag \<equiv> f_scalar P tag (w_bool P) (r_bool P) fits_bool False"

abbreviation f_string :: "pb \<Rightarrow> int \<Rightarrow> ('m, string) getter \<Rightarrow> ('m, string) updater \<Rightarrow> 'm pbfield" where
  "f_string P tag \<equiv> f_scalar P tag (w_string P) (r_string P) fits_string ''''"

abbreviation f_bytes :: "pb \<Rightarrow> int \<Rightarrow> ('m, bytes) getter \<Rightarrow> ('m, bytes) updater \<Rightarrow> 'm pbfield" where
  "f_bytes P tag \<equiv> f_scalar P tag (w_bytes P) (r_bytes P) fits_bytes []"

abbreviation f_double :: "pb \<Rightarrow> int \<Rightarrow> ('m, rat) getter \<Rightarrow> ('m, rat) updater \<Rightarrow> 'm pbfield" where
  "f_double P tag \<equiv> f_scalar P tag (w_double P) (r_double P) (is_double P) 0"

abbreviation fo_int32 ::
    "pb \<Rightarrow> int \<Rightarrow> ('m, int option) getter \<Rightarrow> ('m, int option) updater \<Rightarrow> 'm pbfield" where
  "fo_int32 P tag \<equiv> f_opt P tag (w_int32 P) (r_int32 P) fits_int32"

abbreviation fo_uint32 ::
    "pb \<Rightarrow> int \<Rightarrow> ('m, int option) getter \<Rightarrow> ('m, int option) updater \<Rightarrow> 'm pbfield" where
  "fo_uint32 P tag \<equiv> f_opt P tag (w_uint32 P) (r_uint32 P) fits_uint32"

abbreviation fo_uint64 ::
    "pb \<Rightarrow> int \<Rightarrow> ('m, int option) getter \<Rightarrow> ('m, int option) updater \<Rightarrow> 'm pbfield" where
  "fo_uint64 P tag \<equiv> f_opt P tag (w_uint64 P) (r_uint64_number P) fits_uint53"

abbreviation fo_bool ::
    "pb \<Rightarrow> int \<Rightarrow> ('m, bool option) getter \<Rightarrow> ('m, bool option) updater \<Rightarrow> 'm pbfield" where
  "fo_bool P tag \<equiv> f_opt P tag (w_bool P) (r_bool P) fits_bool"

abbreviation fo_string ::
    "pb \<Rightarrow> int \<Rightarrow> ('m, string option) getter \<Rightarrow> ('m, string option) updater \<Rightarrow> 'm pbfield" where
  "fo_string P tag \<equiv> f_opt P tag (w_string P) (r_string P) fits_string"

abbreviation fo_bytes ::
    "pb \<Rightarrow> int \<Rightarrow> ('m, bytes option) getter \<Rightarrow> ('m, bytes option) updater \<Rightarrow> 'm pbfield" where
  "fo_bytes P tag \<equiv> f_opt P tag (w_bytes P) (r_bytes P) fits_bytes"

abbreviation fr_string ::
    "pb \<Rightarrow> int \<Rightarrow> ('m, string list) getter \<Rightarrow> ('m, string list) updater \<Rightarrow> 'm pbfield" where
  "fr_string P tag \<equiv> f_rep P tag (w_string P) (r_string P) fits_string"

abbreviation fr_bytes ::
    "pb \<Rightarrow> int \<Rightarrow> ('m, bytes list) getter \<Rightarrow> ('m, bytes list) updater \<Rightarrow> 'm pbfield" where
  "fr_bytes P tag \<equiv> f_rep P tag (w_bytes P) (r_bytes P) fits_bytes"

abbreviation fp_int32 ::
    "pb \<Rightarrow> int \<Rightarrow> int \<Rightarrow> ('m, int list) getter \<Rightarrow> ('m, int list) updater \<Rightarrow> 'm pbfield" where
  "fp_int32 P tag1 tag \<equiv> f_packed P tag1 tag (w_int32 P) (r_int32 P) fits_int32"

abbreviation f_msg ::
    "pb \<Rightarrow> int \<Rightarrow> 'v pbfield list \<Rightarrow> 'v \<Rightarrow> ('m, 'v option) getter \<Rightarrow> ('m, 'v option) updater
      \<Rightarrow> 'm pbfield" where
  "f_msg P tag fs base \<equiv> f_opt P tag (w_msg P fs) (r_msg P fs base) (msg_fits fs)"

abbreviation fr_msg ::
    "pb \<Rightarrow> int \<Rightarrow> 'v pbfield list \<Rightarrow> 'v \<Rightarrow> ('m, 'v list) getter \<Rightarrow> ('m, 'v list) updater
      \<Rightarrow> 'm pbfield" where
  "fr_msg P tag fs base \<equiv> f_rep P tag (w_msg P fs) (r_msg P fs base) (msg_fits fs)"

end
