(* ===== verification/Wire_Laws.thy ===== *)
theory Wire_Laws
  imports Wire
begin

text \<open>
  Reading back what was written.  The locale \<open>pb_laws\<close> states what the generated code
  relies on in protobufjs: each scalar reader returns the value its writer wrote and leaves
  the rest of the input, for values in the range of the wire type, and a written varint is
  not empty.  Inside it, every kind of field is shown to decode what it encodes, and every
  message whose table is a \<open>codec\<close> to survive the round trip, alone or nested.
\<close>

definition value_codec :: "('v \<Rightarrow> bytes) \<Rightarrow> (bytes \<Rightarrow> ('v \<times> bytes) option) \<Rightarrow> ('v \<Rightarrow> bool) \<Rightarrow> bool" where
  "value_codec w rd fits \<longleftrightarrow> (\<forall>v rest. fits v \<longrightarrow> rd (w v @ rest) = Some (v, rest))"

definition lens :: "('m, 'v) getter \<Rightarrow> ('m, 'v) updater \<Rightarrow> bool" where
  "lens get upd \<longleftrightarrow>
     (\<forall>t f. get (upd f t) = f (get t))
     \<and> (\<forall>t f g. upd f (upd g t) = upd (\<lambda>x. f (g x)) t)
     \<and> (\<forall>t f. f (get t) = get t \<longrightarrow> upd f t = t)"

definition runs ::
    "pb \<Rightarrow> ('m \<Rightarrow> int \<Rightarrow> bytes \<Rightarrow> ('m \<times> bytes) option option) \<Rightarrow> 'm \<Rightarrow> bytes \<Rightarrow> 'm \<Rightarrow> bool" where
  "runs P fstep m bs m' \<longleftrightarrow>
     (\<forall>stop rest. stop \<le> int (length rest) \<longrightarrow>
        decode_loop P fstep stop m (bs @ rest) = decode_loop P fstep stop m' rest)"

definition field_law :: "pb \<Rightarrow> 'm pbfield \<Rightarrow> bool" where
  "field_law P f \<longleftrightarrow>
     (\<forall>tag m r. tag \<notin> set (pf_tags f) \<longrightarrow> pf_read f tag m r = None)
     \<and> (\<forall>s t fstep. pf_ok f s \<longrightarrow> pf_def f t \<longrightarrow>
          (\<forall>tag \<in> set (pf_tags f). \<forall>m r. fstep m tag r = pf_read f tag m r) \<longrightarrow>
          runs P fstep t (pf_write f s) (pf_put f s t))"

fun chain :: "'m pbfield list \<Rightarrow> 'm \<Rightarrow> 'm \<Rightarrow> bool" where
  "chain [] s t \<longleftrightarrow> t = s"
| "chain (f # fs) s t \<longleftrightarrow> pf_def f t \<and> chain fs s (pf_put f s t)"

definition codec :: "pb \<Rightarrow> 'm pbfield list \<Rightarrow> 'm \<Rightarrow> bool" where
  "codec P fs base \<longleftrightarrow>
     (\<forall>f \<in> set fs. field_law P f) \<and> distinct (concat (map pf_tags fs)) \<and> (\<forall>s. chain fs s base)"

lemma codecI:
  assumes "list_all (field_law P) fs" "distinct (concat (map pf_tags fs))" "\<And>s. chain fs s base"
  shows "codec P fs base"
  using assms by (simp add: codec_def list_all_iff)

lemma f_parts:
  "pf_tags (f_scalar P tag w rd fits dflt get upd) = [tag]"
  "pf_tags (f_opt P tag w' rd' fits' get' upd') = [tag]"
  "pf_tags (f_rep P tag w rd fits get'' upd'') = [tag]"
  "pf_tags (f_packed P tag1 tag w rd fits get'' upd'') = [tag1, tag]"
  "pf_def (f_scalar P tag w rd fits dflt get upd) = (\<lambda>t. get t = dflt)"
  "pf_def (f_opt P tag w' rd' fits' get' upd') = (\<lambda>t. get' t = None)"
  "pf_def (f_rep P tag w rd fits get'' upd'') = (\<lambda>t. get'' t = [])"
  "pf_def (f_packed P tag1 tag w rd fits get'' upd'') = (\<lambda>t. get'' t = [])"
  "pf_put (f_scalar P tag w rd fits dflt get upd) = (\<lambda>s t. upd (\<lambda>_. get s) t)"
  "pf_put (f_opt P tag w' rd' fits' get' upd') = (\<lambda>s t. upd' (\<lambda>_. get' s) t)"
  "pf_put (f_rep P tag w rd fits get'' upd'') = (\<lambda>s t. upd'' (\<lambda>_. get'' s) t)"
  "pf_put (f_packed P tag1 tag w rd fits get'' upd'') = (\<lambda>s t. upd'' (\<lambda>_. get'' s) t)"
  by (simp_all add: f_scalar_def f_opt_def f_rep_def f_packed_def)

lemma runs_Nil [simp]: "runs P fstep m [] m"
  by (simp add: runs_def)

lemma runs_append: "runs P fstep m a m1 \<Longrightarrow> runs P fstep m1 b m2 \<Longrightarrow> runs P fstep m (a @ b) m2"
  by (simp add: runs_def)

lemma decode_loop_end: "int (length r) \<le> stop \<Longrightarrow> decode_loop P fstep stop m r = Some (m, r)"
  by (subst decode_loop.simps) simp

locale pb_laws =
  fixes P :: pb
  assumes uint32: "fits_uint32 n \<Longrightarrow> r_uint32 P (w_uint32 P n @ rest) = Some (n, rest)"
    and int32: "fits_int32 n \<Longrightarrow> r_int32 P (w_int32 P n @ rest) = Some (n, rest)"
    and sint32: "fits_int32 n \<Longrightarrow> r_sint32 P (w_sint32 P n @ rest) = Some (n, rest)"
    and uint64: "fits_uint53 n \<Longrightarrow> r_uint64 P (w_uint64 P n @ rest) = Some (n, rest)"
    and int64: "fits_int53 n \<Longrightarrow> r_int64 P (w_int64 P n @ rest) = Some (n, rest)"
    and bool: "r_bool P (w_bool P b @ rest) = Some (b, rest)"
    and string: "fits_string s \<Longrightarrow> r_string P (w_string P s @ rest) = Some (s, rest)"
    and bytes: "fits_bytes d \<Longrightarrow> r_bytes P (w_bytes P d @ rest) = Some (d, rest)"
    and double: "is_double P x \<Longrightarrow> r_double P (w_double P x @ rest) = Some (x, rest)"
    and uint32_nonempty: "w_uint32 P n \<noteq> []"
    and int32_nonempty: "w_int32 P n \<noteq> []"
begin

lemma scalar_codecs:
  "value_codec (w_uint32 P) (r_uint32 P) fits_uint32"
  "value_codec (w_int32 P) (r_int32 P) fits_int32"
  "value_codec (w_sint32 P) (r_sint32 P) fits_int32"
  "value_codec (w_uint64 P) (r_uint64_number P) fits_uint53"
  "value_codec (w_int64 P) (r_int64_number P) fits_int53"
  "value_codec (w_bool P) (r_bool P) fits_bool"
  "value_codec (w_string P) (r_string P) fits_string"
  "value_codec (w_bytes P) (r_bytes P) fits_bytes"
  "value_codec (w_double P) (r_double P) (is_double P)"
  using uint32 int32 sint32 uint64 int64 bool string bytes double
  by (auto simp: value_codec_def r_uint64_number_def r_int64_number_def longToNumber_def
      fits_uint53_def fits_int53_def)

lemma runs_tag:
  assumes "fits_uint32 tag" and "\<And>rest. fstep m tag (bs @ rest) = Some (Some (m', rest))"
  shows "runs P fstep m (w_uint32 P tag @ bs) m'"
  unfolding runs_def
proof (intro allI impI)
  fix stop :: int and rest :: bytes
  assume "stop \<le> int (length rest)"
  then have "stop < int (length (w_uint32 P tag @ bs @ rest))"
    using less_length_append [OF uint32_nonempty, of stop "bs @ rest"] by simp
  moreover have "w_uint32 P tag @ bs \<noteq> []" using uint32_nonempty by simp
  ultimately show "decode_loop P fstep stop m ((w_uint32 P tag @ bs) @ rest)
      = decode_loop P fstep stop m' rest"
    by (subst decode_loop.simps) (simp add: uint32 [OF assms(1)] assms(2))
qed

lemma read_into_codec:
  "value_codec w rd fits \<Longrightarrow> fits v \<Longrightarrow> read_into rd f (w v @ rest) = Some (f v, rest)"
  by (simp add: read_into_def value_codec_def)

lemma field_law_scalar:
  assumes "value_codec w rd fits" and "fits_uint32 tag" and "lens get upd"
  shows "field_law P (f_scalar P tag w rd fits dflt get upd)"
  unfolding field_law_def f_scalar_def using assms
  by (auto intro!: runs_tag simp: read_into_codec lens_def)

lemma field_law_opt:
  assumes "value_codec w rd fits" and "fits_uint32 tag" and "lens get upd"
  shows "field_law P (f_opt P tag w rd fits get upd)"
  unfolding field_law_def f_opt_def using assms
  by (auto intro!: runs_tag simp: read_into_codec lens_def split: option.splits)

lemma runs_rep:
  assumes vc: "value_codec w rd fits" and tag: "fits_uint32 tag" and lens: "lens get upd"
    and fits: "\<forall>v \<in> set xs. fits v"
    and fstep: "\<And>m r. fstep m tag r = Some (read_into rd (\<lambda>v. upd (\<lambda>xs. xs @ [v]) m) r)"
  shows "runs P fstep t (concat (map (\<lambda>v. w_uint32 P tag @ w v) xs)) (upd (\<lambda>ys. ys @ xs) t)"
  using fits
proof (induction xs arbitrary: t)
  case Nil
  then show ?case using lens by (simp add: lens_def)
next
  case (Cons x xs)
  have "runs P fstep t (w_uint32 P tag @ w x) (upd (\<lambda>ys. ys @ [x]) t)"
    using Cons.prems by (intro runs_tag [OF tag]) (simp add: fstep read_into_codec [OF vc])
  moreover have "runs P fstep (upd (\<lambda>ys. ys @ [x]) t)
      (concat (map (\<lambda>v. w_uint32 P tag @ w v) xs)) (upd (\<lambda>ys. ys @ xs) (upd (\<lambda>ys. ys @ [x]) t))"
    using Cons.prems by (intro Cons.IH) simp
  moreover have "upd (\<lambda>ys. ys @ xs) (upd (\<lambda>ys. ys @ [x]) t) = upd (\<lambda>ys. ys @ x # xs) t"
    using lens by (simp add: lens_def)
  ultimately show ?case
    using runs_append by fastforce
qed

lemma lens_set_append: "lens get upd \<Longrightarrow> get t = [] \<Longrightarrow> upd (\<lambda>ys. ys @ xs) t = upd (\<lambda>_. xs) t"
proof -
  assume l: "lens get upd" and e: "get t = []"
  have "upd (\<lambda>ys. ys @ xs) t = upd (\<lambda>ys. ys @ xs) (upd (\<lambda>_. []) t)"
    using l e by (simp add: lens_def)
  also have "\<dots> = upd (\<lambda>_. xs) t"
    using l by (simp add: lens_def)
  finally show ?thesis .
qed

lemma field_law_rep:
  assumes "value_codec w rd fits" and "fits_uint32 tag" and "lens get upd"
  shows "field_law P (f_rep P tag w rd fits get upd)"
proof -
  have "runs P fstep t (concat (map (\<lambda>v. w_uint32 P tag @ w v) (get s))) (upd (\<lambda>_. get s) t)"
    if "\<forall>v \<in> set (get s). fits v" "get t = []"
      "\<forall>m r. fstep m tag r = Some (read_into rd (\<lambda>v. upd (\<lambda>xs. xs @ [v]) m) r)" for s t fstep
    using runs_rep [OF assms that(1)] that(2,3) lens_set_append [OF assms(3)] by metis
  then show ?thesis
    by (simp add: field_law_def f_rep_def)
qed

lemma packed_loop_run:
  assumes "value_codec w rd fits" and "\<And>v. w v \<noteq> []" and "\<forall>v \<in> set xs. fits v"
  shows "packed_loop rd (int (length rest)) acc (packed_body w xs @ rest) = Some (acc @ xs, rest)"
  using assms(3)
proof (induction xs arbitrary: acc)
  case Nil
  then show ?case by (subst packed_loop.simps) (simp add: packed_body_def)
next
  case (Cons x xs)
  have "rd (w x @ packed_body w xs @ rest) = Some (x, packed_body w xs @ rest)"
    using assms(1) Cons.prems by (simp add: value_codec_def)
  moreover have "int (length rest) < int (length (w x @ packed_body w xs @ rest))"
    using less_length_append [OF assms(2), of "int (length rest)" "packed_body w xs @ rest" x] by simp
  moreover have "w x \<noteq> []" by (rule assms(2))
  ultimately show ?case
    using Cons by (subst packed_loop.simps) (simp add: packed_body_def)
qed

lemma field_law_packed:
  assumes "value_codec w rd fits" and "\<And>v. w v \<noteq> []"
    and "fits_uint32 tag1" "fits_uint32 tag" "tag1 \<noteq> tag" and "lens get upd"
  shows "field_law P (f_packed P tag1 tag w rd fits get upd)"
proof -
  have rp: "read_packed P rd [] (ldelim P (packed_body w xs) @ rest) = Some (xs, rest)"
    if "\<forall>v \<in> set xs. fits v" "int (length (packed_body w xs)) < 2 ^ 32" for xs rest
    using packed_loop_run [OF assms(1,2) that(1), of rest "[]"] that(2)
    by (simp add: read_packed_def ldelim_def uint32 fits_uint32_def)
  show ?thesis
    unfolding field_law_def f_packed_def using assms(3-6)
    by (auto intro!: runs_tag simp: read_into_def rp)
qed

lemmas field_laws = field_law_scalar field_law_opt field_law_rep field_law_packed

lemma fields_read_skip:
  "(\<forall>f \<in> set fs. tag \<notin> set (pf_tags f)) \<Longrightarrow> (\<forall>f \<in> set fs. field_law P f) \<Longrightarrow>
   fields_read fs m tag r = None"
  by (induction fs) (auto simp: field_law_def)

lemma fields_read_append:
  "fields_read (fs @ gs) m tag r =
     (case fields_read fs m tag r of None \<Rightarrow> fields_read gs m tag r | Some x \<Rightarrow> Some x)"
  by (induction fs) (auto split: option.splits)

lemma fields_read_hit:
  assumes "\<forall>f \<in> set (pre @ f # fs). field_law P f" and "distinct (concat (map pf_tags (pre @ f # fs)))"
    and "tag \<in> set (pf_tags f)"
  shows "fields_read (pre @ f # fs) m tag r = pf_read f tag m r"
proof -
  have "\<forall>g \<in> set pre. tag \<notin> set (pf_tags g)" and "\<forall>g \<in> set fs. tag \<notin> set (pf_tags g)"
    using assms(2,3) by fastforce+
  then have "fields_read pre m tag r = None" "fields_read fs m tag r = None"
    using assms(1) by (auto intro!: fields_read_skip)
  then show ?thesis
    by (simp add: fields_read_append split: option.split)
qed

lemma runs_fields:
  assumes "\<forall>f \<in> set (pre @ fs). field_law P f" and "distinct (concat (map pf_tags (pre @ fs)))"
    and "chain fs s t" and "\<forall>f \<in> set fs. pf_ok f s"
  shows "runs P (fields_read (pre @ fs)) t (message_encode fs s) s"
  using assms
proof (induction fs arbitrary: pre t)
  case Nil
  then show ?case by (simp add: message_encode_def)
next
  case (Cons f fs)
  have "field_law P f" using Cons.prems(1) by simp
  then have "runs P (fields_read (pre @ f # fs)) t (pf_write f s) (pf_put f s t)"
    using Cons.prems fields_read_hit [OF Cons.prems(1,2)] unfolding field_law_def by auto
  moreover have "runs P (fields_read ((pre @ [f]) @ fs)) (pf_put f s t) (message_encode fs s) s"
    using Cons.prems by (intro Cons.IH) auto
  ultimately show ?case
    by (auto simp: message_encode_def intro: runs_append)
qed

lemma message_nested:
  assumes "codec P fs base" and "message_ok fs m"
  shows "message_decode P fs base (message_encode fs m @ rest)
           (Some (int (length (message_encode fs m)))) = Some (m, rest)"
proof -
  have "runs P (fields_read ([] @ fs)) base (message_encode fs m) m"
    using assms by (intro runs_fields) (auto simp: codec_def message_ok_def)
  then show ?thesis
    by (simp add: message_decode_def runs_def decode_loop_end)
qed

lemma message_whole:
  assumes "codec P fs base" and "message_ok fs m"
  shows "message_decode P fs base (message_encode fs m) None = Some (m, [])"
  using message_nested [OF assms, of "[]"] by (simp add: message_decode_def)

lemma msg_codec:
  assumes "codec P fs base"
  shows "value_codec (w_msg P fs) (r_msg P fs base) (msg_fits fs)"
  unfolding value_codec_def w_msg_def r_msg_def msg_fits_def ldelim_def
  by (auto simp: uint32 fits_uint32_def message_nested [OF assms])

lemma tag_fits: "0 \<le> tag \<Longrightarrow> tag < 4294967296 \<Longrightarrow> fits_uint32 tag"
  by (simp add: fits_uint32_def)

lemmas field_intros = field_law_scalar [OF scalar_codecs(1)] field_law_scalar [OF scalar_codecs(2)]
  field_law_scalar [OF scalar_codecs(3)] field_law_scalar [OF scalar_codecs(4)]
  field_law_scalar [OF scalar_codecs(5)] field_law_scalar [OF scalar_codecs(6)]
  field_law_scalar [OF scalar_codecs(7)] field_law_scalar [OF scalar_codecs(8)]
  field_law_scalar [OF scalar_codecs(9)]
  field_law_opt [OF scalar_codecs(1)] field_law_opt [OF scalar_codecs(2)]
  field_law_opt [OF scalar_codecs(4)] field_law_opt [OF scalar_codecs(6)]
  field_law_opt [OF scalar_codecs(7)] field_law_opt [OF scalar_codecs(8)]
  field_law_rep [OF scalar_codecs(7)] field_law_rep [OF scalar_codecs(8)]
  field_law_packed [OF scalar_codecs(2) int32_nonempty]
  field_law_opt field_law_rep tag_fits f_parts

end

end
