(* ===== verification/Js_Text.thy ===== *)
theory Js_Text
  imports Prelude
begin

text \<open>
  Numbers and byte arrays as JavaScript text: \<open>String(n)\<close> of an integer,
  \<open>Uint8Array.prototype.toString\<close>, and \<open>JSON.parse\<close> on the text of an array of integers.
\<close>

section \<open>Printing\<close>

definition digit :: "nat \<Rightarrow> char" where
  "digit n = char_of (48 + n)"

fun digits :: "nat \<Rightarrow> string" where
  "digits n = (if n < 10 then [digit n] else digits (n div 10) @ [digit (n mod 10)])"

declare digits.simps [simp del]

definition js_int_string :: "int \<Rightarrow> string" where
  "js_int_string i = (if i < 0 then CHR ''-'' # digits (nat (- i)) else digits (nat i))"

fun join :: "char \<Rightarrow> string list \<Rightarrow> string" where
  "join c [] = []"
| "join c [w] = w"
| "join c (w # v # ws) = w @ c # join c (v # ws)"

definition bytes_toString :: "bytes \<Rightarrow> string" where
  "bytes_toString b = join CHR '','' (map (\<lambda>x. js_int_string (uint x)) b)"

section \<open>Parsing\<close>

definition is_digit :: "char \<Rightarrow> bool" where
  "is_digit c \<longleftrightarrow> 48 \<le> (of_char c :: nat) \<and> (of_char c :: nat) \<le> 57"

definition digits_value :: "string \<Rightarrow> nat" where
  "digits_value s = foldl (\<lambda>n c. 10 * n + (of_char c - 48)) 0 s"

text \<open>An integer literal of JSON: no leading zero, no plus sign.\<close>

definition json_int :: "string \<Rightarrow> int option" where
  "json_int s =
     (let neg = (s \<noteq> [] \<and> hd s = CHR ''-''); ds = (if neg then tl s else s)
      in if ds \<noteq> [] \<and> list_all is_digit ds \<and> (hd ds = CHR ''0'' \<longrightarrow> ds = [CHR ''0''])
         then Some (if neg then - int (digits_value ds) else int (digits_value ds))
         else None)"

text \<open>
  \<open>JSON.parse("[" + p + "]")\<close> when every element is an integer literal.  A text with any
  other element is outside the texts the program stores and is treated as one that throws.
\<close>

definition json_int_array :: "string \<Rightarrow> int list option" where
  "json_int_array p =
     (if trim p = '''' then Some []
      else those (map (\<lambda>w. json_int (trim w)) (split_on (\<lambda>c. c = CHR '','') p)))"

definition uint8_from :: "int list \<Rightarrow> bytes" where
  "uint8_from ns = map word_of_int ns"

section \<open>Reading back what was printed\<close>

lemma of_char_digit: "n < 10 \<Longrightarrow> (of_char (digit n) :: nat) = 48 + n"
  by (simp add: digit_def)

lemma digit_is_digit: "n < 10 \<Longrightarrow> is_digit (digit n)"
  by (simp add: is_digit_def of_char_digit)

lemma digits_not_Nil [simp]: "digits n \<noteq> []"
  by (subst digits.simps) simp

lemma digits_all: "list_all is_digit (digits n)"
proof (induction n rule: digits.induct)
  case (1 n)
  then show ?case
    by (subst digits.simps) (auto simp: digit_is_digit)
qed

lemma digits_value_digits [simp]: "digits_value (digits n) = n"
proof (induction n rule: digits.induct)
  case (1 n)
  then show ?case
    by (subst digits.simps) (auto simp: digits_value_def of_char_digit)
qed

lemma digit_zero_iff: "n < 10 \<Longrightarrow> digit n = CHR ''0'' \<longleftrightarrow> n = 0"
proof -
  assume n: "n < 10"
  have "digit n = CHR ''0'' \<longleftrightarrow> (of_char (digit n) :: nat) = of_char CHR ''0''"
    by (simp only: of_char_eq_iff)
  with n show ?thesis by (simp add: of_char_digit)
qed

lemma hd_digits: "0 < n \<Longrightarrow> hd (digits n) \<noteq> CHR ''0''"
proof (induction n rule: digits.induct)
  case (1 n)
  then show ?case
    by (subst digits.simps) (auto simp: digit_zero_iff hd_append)
qed

lemma digits_no_leading_zero: "hd (digits n) = CHR ''0'' \<longrightarrow> digits n = [CHR ''0'']"
proof (cases "n = 0")
  case True
  then show ?thesis by (simp add: digits.simps digit_def char_of_def)
next
  case False
  then show ?thesis by (simp add: hd_digits)
qed

lemma digit_chars: "is_digit c \<Longrightarrow> c \<noteq> CHR ''-'' \<and> c \<noteq> CHR '','' \<and> \<not> is_ws c"
  by (auto simp: is_digit_def is_ws_def)

lemma digits_clean: "c \<in> set (digits n) \<Longrightarrow> c \<noteq> CHR ''-'' \<and> c \<noteq> CHR '','' \<and> \<not> is_ws c"
  using digits_all [of n] digit_chars by (auto simp: list_all_iff)

lemma json_int_digits [simp]: "json_int (digits n) = Some (int n)"
proof -
  have "hd (digits n) \<noteq> CHR ''-''" using digits_clean [of "hd (digits n)" n] by simp
  then show ?thesis
    using digits_all [of n] digits_no_leading_zero [of n] by (simp add: json_int_def)
qed

lemma trim_digits [simp]: "trim (digits n) = digits n"
  by (rule trim_id) (use digits_clean [of "hd (digits n)" n] digits_clean [of "last (digits n)" n] in auto)

lemma split_join:
  "ws \<noteq> [] \<Longrightarrow> \<forall>w \<in> set ws. c \<notin> set w \<Longrightarrow> split_on (\<lambda>d. d = c) (join c ws) = ws"
proof (induction c ws rule: join.induct)
  case (2 c w)
  then show ?case by (auto intro!: split_on_none)
next
  case (3 c w v ws)
  then have "split_on (\<lambda>d. d = c) (w @ c # join c (v # ws)) = w # split_on (\<lambda>d. d = c) (join c (v # ws))"
    by (intro split_on_append_sep) auto
  with 3 show ?case by simp
qed simp

lemma trim_not_Nil: "c \<in> set s \<Longrightarrow> \<not> is_ws c \<Longrightarrow> trim s \<noteq> []"
proof
  assume c: "c \<in> set s" "\<not> is_ws c" and t: "trim s = []"
  then have "dropWhile is_ws (rev (dropWhile is_ws s)) = []"
    by (simp add: trim_def trim_end_def)
  then have "\<forall>x \<in> set (dropWhile is_ws s). is_ws x"
    by (simp add: dropWhile_eq_Nil_conv)
  moreover have "c \<in> set (takeWhile is_ws s) \<or> c \<in> set (dropWhile is_ws s)"
    using c(1) by (metis Un_iff set_append takeWhile_dropWhile_id)
  ultimately show False using c(2) by (auto dest: set_takeWhileD)
qed

lemma bytes_toString_clean:
  assumes "b \<noteq> []"
  shows "trim (bytes_toString b) \<noteq> []"
proof -
  obtain x xs where b: "b = x # xs" using assms by (cases b) auto
  have "hd (digits (nat (uint x))) \<in> set (bytes_toString b)"
    by (cases xs) (simp_all add: b bytes_toString_def js_int_string_def not_less)
  moreover have "\<not> is_ws (hd (digits (nat (uint x))))"
    using digits_clean [of "hd (digits (nat (uint x)))" "nat (uint x)"] by simp
  ultimately show ?thesis by (rule trim_not_Nil)
qed

lemma js_int_string_uint: "js_int_string (uint (x :: byte)) = digits (unat x)"
  by (simp add: js_int_string_def not_less)

lemma json_bytes_toString: "json_int_array (bytes_toString b) = Some (map uint b)"
proof (cases "b = []")
  case True
  then show ?thesis by (simp add: json_int_array_def bytes_toString_def trim_def trim_end_def)
next
  case False
  have "split_on (\<lambda>c. c = CHR '','') (bytes_toString b) = map (\<lambda>x. js_int_string (uint x)) b"
    unfolding bytes_toString_def using False
    by (intro split_join) (auto simp: js_int_string_uint dest: digits_clean)
  moreover have "those (map (\<lambda>w. json_int (trim w)) (map (\<lambda>x. js_int_string (uint x)) b)) = Some (map uint b)"
    by (induction b) (simp_all add: js_int_string_uint)
  ultimately show ?thesis
    using bytes_toString_clean [OF False] by (simp add: json_int_array_def)
qed

lemma uint8_from_uint [simp]: "uint8_from (map uint b) = b"
  by (simp add: uint8_from_def o_def)

end
