(* ===== verification/Json_Codec.thy ===== *)
theory Json_Codec
  imports Base64 Wire_Laws Js_Text
begin

text \<open>
  The other generated functions of \<open>flutter/js/src/proto/\<close>: \<open>toJSON\<close>, \<open>fromJSON\<close> and
  \<open>fromPartial\<close>.  Each message has a table with one entry per field, in the source's order, and
  the functions run over the table as the generated code runs over the fields.  A value is a
  \<open>jval\<close>; \<open>None\<close> is an exception (text that is not base64) or a conversion whose result the field
  cannot hold (\<open>NaN\<close>, a fraction in an integer field, the text of an object).  The page has no \<open>Buffer\<close>, so
  bytes go through \<open>btoa\<close> and \<open>atob\<close>.
\<close>

section \<open>Values\<close>

definition isSet :: "jval \<Rightarrow> bool" where
  "isSet v \<longleftrightarrow> v \<noteq> JNull \<and> v \<noteq> JUndefined"

text \<open>
  How values of one kind are written to and read from JSON, how they are taken from a partial
  object, and the value in such an object.
\<close>

record 'v jkind =
  jk_to :: "'v \<Rightarrow> jval"
  jk_from :: "jval \<Rightarrow> 'v option"
  jk_par :: "jval \<Rightarrow> 'v option"
  jk_obj :: "'v \<Rightarrow> jval"
  jk_ok :: "'v \<Rightarrow> bool"

text \<open>\<open>globalThis.Number(v)\<close>.\<close>

fun js_Number :: "jval \<Rightarrow> rat option" where
  "js_Number (JNum n) = Some n"
| "js_Number (JNumStr n) = Some n"
| "js_Number (JBool b) = Some (if b then 1 else 0)"
| "js_Number v = None"

definition int_of_number :: "rat \<Rightarrow> int option" where
  "int_of_number n = (if of_int \<lfloor>n\<rfloor> = n then Some \<lfloor>n\<rfloor> else None)"

fun number_value :: "jval \<Rightarrow> rat option" where
  "number_value (JNum n) = Some n"
| "number_value v = None"

definition j_int :: "int jkind" where
  "j_int = \<lparr>jk_to = (\<lambda>i. JInt i), jk_from = (\<lambda>v. Option.bind (js_Number v) int_of_number),
     jk_par = (\<lambda>v. Option.bind (number_value v) int_of_number), jk_obj = (\<lambda>i. JInt i), jk_ok = (\<lambda>_. True)\<rparr>"

definition j_double :: "rat jkind" where
  "j_double = \<lparr>jk_to = JNum, jk_from = js_Number, jk_par = number_value, jk_obj = JNum, jk_ok = (\<lambda>_. True)\<rparr>"

text \<open>\<open>globalThis.String(v)\<close>.\<close>

fun js_text :: "jval \<Rightarrow> string option" where
  "js_text (JStr s) = Some s"
| "js_text (JBool b) = Some (js_bool_string b)"
| "js_text (JNum n) = map_option js_int_string (int_of_number n)"
| "js_text (JNumStr n) = map_option js_int_string (int_of_number n)"
| "js_text v = None"

fun text_value :: "jval \<Rightarrow> string option" where
  "text_value (JStr s) = Some s"
| "text_value v = None"

definition j_string :: "string jkind" where
  "j_string = \<lparr>jk_to = JStr, jk_from = js_text, jk_par = text_value, jk_obj = JStr, jk_ok = (\<lambda>_. True)\<rparr>"

fun bool_value :: "jval \<Rightarrow> bool option" where
  "bool_value (JBool b) = Some b"
| "bool_value v = None"

definition j_bool :: "bool jkind" where
  "j_bool = \<lparr>jk_to = JBool, jk_from = (\<lambda>v. Some (truthy v)), jk_par = bool_value, jk_obj = JBool, jk_ok = (\<lambda>_. True)\<rparr>"

definition bytesFromBase64 :: "jval \<Rightarrow> bytes option" where
  "bytesFromBase64 v = Option.bind (text_value v) (\<lambda>b64. case atob b64 of Inl e \<Rightarrow> None | Inr b \<Rightarrow> Some b)"

definition base64FromBytes :: "bytes \<Rightarrow> jval" where
  "base64FromBytes arr = JStr (btoa arr)"

fun bytes_value :: "jval \<Rightarrow> bytes option" where
  "bytes_value (JBytes b) = Some b"
| "bytes_value v = None"

definition j_bytes :: "bytes jkind" where
  "j_bytes = \<lparr>jk_to = base64FromBytes, jk_from = bytesFromBase64, jk_par = bytes_value, jk_obj = JBytes, jk_ok = (\<lambda>_. True)\<rparr>"

text \<open>
  The conversions of an enumeration: a known number or name gives the number, everything else
  \<open>UNRECOGNIZED\<close>; a known number is printed as its name.
\<close>

definition enum_fromJSON :: "(string \<times> int) list \<Rightarrow> jval \<Rightarrow> int" where
  "enum_fromJSON tbl v =
     (case v of
        JNum n \<Rightarrow> (if n \<in> (\<lambda>p. of_int (snd p)) ` set tbl then \<lfloor>n\<rfloor> else - 1)
      | JStr s \<Rightarrow> nullish (map_get tbl s) (- 1)
      | _ \<Rightarrow> - 1)"

definition enum_toJSON :: "(string \<times> int) list \<Rightarrow> int \<Rightarrow> jval" where
  "enum_toJSON tbl n = JStr (case find (\<lambda>p. snd p = n) tbl of None \<Rightarrow> ''UNRECOGNIZED'' | Some p \<Rightarrow> fst p)"

definition j_enum :: "(string \<times> int) list \<Rightarrow> int jkind" where
  "j_enum tbl = \<lparr>jk_to = enum_toJSON tbl, jk_from = (\<lambda>v. Some (enum_fromJSON tbl v)),
     jk_par = jk_par j_int, jk_obj = jk_obj j_int, jk_ok = (\<lambda>n. n \<in> snd ` set tbl)\<rparr>"

section \<open>Fields\<close>

record 'm jfield =
  jf_name :: string
  jf_to :: "'m \<Rightarrow> jval option"
  jf_from :: "jval \<Rightarrow> 'm \<Rightarrow> 'm option"
  jf_par :: "jval \<Rightarrow> 'm \<Rightarrow> 'm option"
  jf_obj :: "'m \<Rightarrow> jval"
  jf_put :: "'m \<Rightarrow> 'm \<Rightarrow> 'm"
  jf_ok :: "'m \<Rightarrow> bool"

text \<open>A field with a default: written when it differs, read when it is set.\<close>

definition j_field :: "string \<Rightarrow> 'v jkind \<Rightarrow> 'v \<Rightarrow> ('m, 'v) getter \<Rightarrow> ('m, 'v) updater \<Rightarrow> 'm jfield" where
  "j_field name k dflt get upd =
     \<lparr>jf_name = name,
      jf_to = (\<lambda>m. if get m \<noteq> dflt then Some (jk_to k (get m)) else None),
      jf_from = (\<lambda>v m. map_option (\<lambda>x. upd (\<lambda>_. x) m) (if isSet v then jk_from k v else Some dflt)),
      jf_par = (\<lambda>v m. map_option (\<lambda>x. upd (\<lambda>_. x) m) (if isSet v then jk_par k v else Some dflt)),
      jf_obj = (\<lambda>m. jk_obj k (get m)),
      jf_put = (\<lambda>s t. upd (\<lambda>_. get s) t),
      jf_ok = (\<lambda>m. jk_ok k (get m))\<rparr>"

text \<open>An optional field: \<open>undefined\<close> when it is not set.\<close>

definition j_opt :: "string \<Rightarrow> 'v jkind \<Rightarrow> ('m, 'v option) getter \<Rightarrow> ('m, 'v option) updater \<Rightarrow> 'm jfield" where
  "j_opt name k get upd =
     \<lparr>jf_name = name,
      jf_to = (\<lambda>m. map_option (jk_to k) (get m)),
      jf_from = (\<lambda>v m. map_option (\<lambda>x. upd (\<lambda>_. x) m) (if isSet v then map_option Some (jk_from k v) else Some None)),
      jf_par = (\<lambda>v m. map_option (\<lambda>x. upd (\<lambda>_. x) m) (if isSet v then map_option Some (jk_par k v) else Some None)),
      jf_obj = (\<lambda>m. case get m of None \<Rightarrow> JUndefined | Some x \<Rightarrow> jk_obj k x),
      jf_put = (\<lambda>s t. upd (\<lambda>_. get s) t),
      jf_ok = (\<lambda>m. case get m of None \<Rightarrow> True | Some x \<Rightarrow> jk_ok k x)\<rparr>"

text \<open>A repeated field: written when not empty, read from an array, and empty otherwise.\<close>

definition j_rep :: "string \<Rightarrow> 'v jkind \<Rightarrow> ('m, 'v list) getter \<Rightarrow> ('m, 'v list) updater \<Rightarrow> 'm jfield" where
  "j_rep name k get upd =
     \<lparr>jf_name = name,
      jf_to = (\<lambda>m. if get m \<noteq> [] then Some (JArr (map (jk_to k) (get m))) else None),
      jf_from = (\<lambda>v m. map_option (\<lambda>xs. upd (\<lambda>_. xs) m) (case v of JArr vs \<Rightarrow> those (map (jk_from k) vs) | _ \<Rightarrow> Some [])),
      jf_par = (\<lambda>v m. map_option (\<lambda>xs. upd (\<lambda>_. xs) m)
        (case v of JArr vs \<Rightarrow> those (map (jk_par k) vs) | JUndefined \<Rightarrow> Some [] | JNull \<Rightarrow> Some [] | _ \<Rightarrow> None)),
      jf_obj = (\<lambda>m. JArr (map (jk_obj k) (get m))),
      jf_put = (\<lambda>s t. upd (\<lambda>_. get s) t),
      jf_ok = (\<lambda>m. \<forall>x \<in> set (get m). jk_ok k x)\<rparr>"

section \<open>Messages\<close>

definition js_field :: "jval \<Rightarrow> string \<Rightarrow> jval" where
  "js_field v name = (case v of JObj m \<Rightarrow> obj_get m name | _ \<Rightarrow> JUndefined)"

definition toJSON :: "'m jfield list \<Rightarrow> 'm \<Rightarrow> jval" where
  "toJSON fs m = JObj (concat (map (\<lambda>f. case jf_to f m of None \<Rightarrow> [] | Some v \<Rightarrow> [(jf_name f, v)]) fs))"

fun read_fields :: "('m jfield \<Rightarrow> jval \<Rightarrow> 'm \<Rightarrow> 'm option) \<Rightarrow> 'm jfield list \<Rightarrow> jval \<Rightarrow> 'm \<Rightarrow> 'm option" where
  "read_fields rd [] v m = Some m"
| "read_fields rd (f # fs) v m = Option.bind (rd f (js_field v (jf_name f)) m) (read_fields rd fs v)"

definition fromJSON :: "'m jfield list \<Rightarrow> 'm \<Rightarrow> jval \<Rightarrow> 'm option" where
  "fromJSON fs base v = read_fields jf_from fs v base"

definition fromPartial :: "'m jfield list \<Rightarrow> 'm \<Rightarrow> jval \<Rightarrow> 'm option" where
  "fromPartial fs base v = read_fields jf_par fs v base"

text \<open>A message as an object, restricted to some of its fields.\<close>

definition partial_object :: "(string \<Rightarrow> bool) \<Rightarrow> 'm jfield list \<Rightarrow> 'm \<Rightarrow> jval" where
  "partial_object sel fs m = JObj (map (\<lambda>f. (jf_name f, jf_obj f m)) (filter (\<lambda>f. sel (jf_name f)) fs))"

definition json_ok :: "'m jfield list \<Rightarrow> 'm \<Rightarrow> bool" where
  "json_ok fs m \<longleftrightarrow> list_all (\<lambda>f. jf_ok f m) fs"

definition j_msg :: "'m jfield list \<Rightarrow> 'm \<Rightarrow> 'm jkind" where
  "j_msg fs base = \<lparr>jk_to = toJSON fs, jk_from = fromJSON fs base, jk_par = fromPartial fs base,
     jk_obj = partial_object (\<lambda>_. True) fs, jk_ok = json_ok fs\<rparr>"

section \<open>Laws\<close>

definition kind_law :: "'v jkind \<Rightarrow> bool" where
  "kind_law k \<longleftrightarrow> (\<forall>v. jk_ok k v \<longrightarrow> isSet (jk_to k v) \<and> jk_from k (jk_to k v) = Some v
      \<and> isSet (jk_obj k v) \<and> jk_par k (jk_obj k v) = Some v)"

definition jfield_law :: "'m \<Rightarrow> 'm jfield \<Rightarrow> bool" where
  "jfield_law base f \<longleftrightarrow>
     (\<forall>s t. jf_ok f s \<longrightarrow> jf_from f (nullish (jf_to f s) JUndefined) t = Some (jf_put f s t)
        \<and> jf_par f (jf_obj f s) t = Some (jf_put f s t))
     \<and> (\<forall>t. jf_par f JUndefined t = Some (jf_put f base t))"

definition json_table :: "'m jfield list \<Rightarrow> 'm \<Rightarrow> bool" where
  "json_table fs base \<longleftrightarrow> list_all (jfield_law base) fs \<and> distinct (map jf_name fs)
     \<and> (\<forall>s. fold (\<lambda>f t. jf_put f s t) fs base = s)"

lemma int_of_number_of_int [simp]: "int_of_number (of_int i) = Some i"
  by (simp add: int_of_number_def)

lemma enum_names: "distinct (map fst tbl) \<Longrightarrow> n \<in> snd ` set tbl \<Longrightarrow> enum_fromJSON tbl (enum_toJSON tbl n) = n"
proof -
  assume d: "distinct (map fst tbl)" and n: "n \<in> snd ` set tbl"
  obtain p where p: "find (\<lambda>p. snd p = n) tbl = Some p"
    using n by (cases "find (\<lambda>p. snd p = n) tbl") (auto simp: find_None_iff)
  then have "p \<in> set tbl" "snd p = n" by (auto simp: find_Some_iff)
  then have "map_get tbl (fst p) = Some n"
    using d by (metis map_of_eq_Some_iff prod.collapse)
  then show ?thesis
    by (simp add: enum_fromJSON_def enum_toJSON_def p)
qed

lemma kind_laws:
  "kind_law j_int" "kind_law j_double" "kind_law j_string" "kind_law j_bool" "kind_law j_bytes"
  by (simp_all add: kind_law_def j_int_def j_double_def j_string_def j_bool_def j_bytes_def isSet_def
      base64FromBytes_def bytesFromBase64_def atob_btoa)

lemma kind_law_enum: "distinct (map fst tbl) \<Longrightarrow> kind_law (j_enum tbl)"
  by (simp add: kind_law_def j_enum_def enum_names j_int_def) (simp add: isSet_def enum_toJSON_def)

lemma those_map: "\<forall>x \<in> set xs. f (g x) = Some x \<Longrightarrow> those (map f (map g xs)) = Some xs"
  by (induction xs) auto

lemma law_field: "kind_law k \<Longrightarrow> get base = dflt \<Longrightarrow> jfield_law base (j_field name k dflt get upd)"
  by (auto simp: jfield_law_def j_field_def kind_law_def isSet_def)

lemma law_opt: "kind_law k \<Longrightarrow> get base = None \<Longrightarrow> jfield_law base (j_opt name k get upd)"
  by (auto simp: jfield_law_def j_opt_def kind_law_def isSet_def split: option.splits)

lemma law_rep: "kind_law k \<Longrightarrow> get base = [] \<Longrightarrow> jfield_law base (j_rep name k get upd)"
  by (auto simp: jfield_law_def j_rep_def kind_law_def those_map simp del: map_map)

lemma j_parts:
  "jf_name (j_field name k dflt get upd) = name" "jf_name (j_opt name k' get' upd') = name" "jf_name (j_rep name k'' get'' upd'') = name"
  "jf_put (j_field name k dflt get upd) = (\<lambda>s t. upd (\<lambda>_. get s) t)"
  "jf_put (j_opt name k' get' upd') = (\<lambda>s t. upd' (\<lambda>_. get' s) t)"
  "jf_put (j_rep name k'' get'' upd'') = (\<lambda>s t. upd'' (\<lambda>_. get'' s) t)"
  by (simp_all add: j_field_def j_opt_def j_rep_def)

lemmas json_intros = law_field law_opt law_rep kind_laws kind_law_enum j_parts

section \<open>Messages are read back\<close>

lemma read_fields_put:
  "\<forall>f \<in> set fs. \<forall>t. rd f (js_field v (jf_name f)) t = Some (jf_put f (s f) t) \<Longrightarrow>
   read_fields rd fs v t = Some (fold (\<lambda>f t. jf_put f (s f) t) fs t)"
  by (induction fs arbitrary: t) auto

lemma obj_get_append: "obj_get (a @ b) k = (case map_get a k of None \<Rightarrow> obj_get b k | Some v \<Rightarrow> v)"
  by (simp add: obj_get_def map_add_def split: option.split)

lemma toJSON_none:
  "k \<notin> jf_name ` set fs \<Longrightarrow> map_get (concat (map (\<lambda>f. case jf_to f m of None \<Rightarrow> [] | Some v \<Rightarrow> [(jf_name f, v)]) fs)) k = None"
  by (induction fs) (auto simp: map_add_def split: option.splits)

lemma toJSON_field:
  "distinct (map jf_name fs) \<Longrightarrow> f \<in> set fs \<Longrightarrow> js_field (toJSON fs m) (jf_name f) = nullish (jf_to f m) JUndefined"
proof (induction fs)
  case (Cons g fs)
  show ?case
  proof (cases "f = g")
    case True
    then show ?thesis
      using Cons.prems toJSON_none [of "jf_name g" fs m]
      by (cases "jf_to g m") (simp_all add: js_field_def toJSON_def obj_get_def)
  next
    case False
    then have "jf_name f \<noteq> jf_name g" using Cons.prems by (auto simp: image_iff)
    then show ?thesis
      using Cons False by (cases "jf_to g m") (simp_all add: js_field_def toJSON_def obj_get_append obj_get_def)
  qed
qed simp

lemma partial_field:
  assumes "distinct (map jf_name fs)" and "f \<in> set fs"
  shows "js_field (partial_object sel fs m) (jf_name f) = (if sel (jf_name f) then jf_obj f m else JUndefined)"
proof -
  let ?l = "map (\<lambda>f. (jf_name f, jf_obj f m)) (filter (\<lambda>f. sel (jf_name f)) fs)"
  have "distinct (map fst ?l)" using assms(1) by (simp add: comp_def distinct_map_filter)
  then have "sel (jf_name f) \<Longrightarrow> map_get ?l (jf_name f) = Some (jf_obj f m)"
    using assms(2) by (intro map_of_is_SomeI) auto
  moreover have "\<not> sel (jf_name f) \<Longrightarrow> map_get ?l (jf_name f) = None"
    by (auto simp: map_of_eq_None_iff)
  ultimately show ?thesis
    by (auto simp: js_field_def partial_object_def obj_get_def)
qed

theorem table_json:
  assumes "json_table fs base" and "json_ok fs m"
  shows "fromJSON fs base (toJSON fs m) = Some m"
proof -
  have "\<forall>f \<in> set fs. \<forall>t. jf_from f (js_field (toJSON fs m) (jf_name f)) t = Some (jf_put f m t)"
    using assms by (simp add: json_table_def json_ok_def list_all_iff toJSON_field jfield_law_def)
  then show ?thesis
    using assms(1) read_fields_put [of fs jf_from "toJSON fs m" "\<lambda>_. m" base] by (simp add: fromJSON_def json_table_def)
qed

text \<open>Fields that a partial object does not have get the default value.\<close>

theorem table_partial:
  assumes "json_table fs base" and "json_ok fs m"
  shows "fromPartial fs base (partial_object sel fs m)
    = Some (fold (\<lambda>f t. jf_put f (if sel (jf_name f) then m else base) t) fs base)"
proof -
  have "\<forall>f \<in> set fs. \<forall>t. jf_par f (js_field (partial_object sel fs m) (jf_name f)) t
      = Some (jf_put f (if sel (jf_name f) then m else base) t)"
    using assms by (simp add: json_table_def json_ok_def list_all_iff partial_field jfield_law_def)
  then show ?thesis
    using read_fields_put [of fs jf_par "partial_object sel fs m" "\<lambda>f. if sel (jf_name f) then m else base" base]
    by (simp add: fromPartial_def)
qed

lemma table_whole:
  "json_table fs base \<Longrightarrow> json_ok fs m \<Longrightarrow> fromPartial fs base (partial_object (\<lambda>_. True) fs m) = Some m"
  using table_partial [of fs base m "\<lambda>_. True"] by (simp add: json_table_def)

lemma kind_law_msg: "json_table fs base \<Longrightarrow> kind_law (j_msg fs base)"
  by (simp add: kind_law_def j_msg_def table_json table_whole) (simp add: isSet_def toJSON_def partial_object_def)

lemma json_tableI:
  assumes "list_all (jfield_law base) fs" "distinct (map jf_name fs)" "\<And>s. fold (\<lambda>f t. jf_put f s t) fs base = s"
  shows "json_table fs base"
  using assms by (simp add: json_table_def)

end
