(* ===== verification/Message_Json.thy ===== *)
theory Message_Json
  imports Messages Json_Codec
begin

text \<open>
  \<open>toJSON\<close>, \<open>fromJSON\<close> and \<open>fromPartial\<close> of every message and enumeration of
  \<open>flutter/js/src/proto/message.ts\<close>, in the source's order of fields, and that they read back what
  was written.
\<close>

section \<open>Enumerations\<close>

definition Chroma_fromJSON :: "jval \<Rightarrow> int" where
  "Chroma_fromJSON object = enum_fromJSON Chroma_enum object"

definition Chroma_toJSON :: "int \<Rightarrow> jval" where
  "Chroma_toJSON object = enum_toJSON Chroma_enum object"

definition KeyboardMode_fromJSON :: "jval \<Rightarrow> int" where
  "KeyboardMode_fromJSON object = enum_fromJSON KeyboardMode_enum object"

definition KeyboardMode_toJSON :: "int \<Rightarrow> jval" where
  "KeyboardMode_toJSON object = enum_toJSON KeyboardMode_enum object"

definition ControlKey_fromJSON :: "jval \<Rightarrow> int" where
  "ControlKey_fromJSON object = enum_fromJSON ControlKey_enum object"

definition ControlKey_toJSON :: "int \<Rightarrow> jval" where
  "ControlKey_toJSON object = enum_toJSON ControlKey_enum object"

definition ClipboardFormat_fromJSON :: "jval \<Rightarrow> int" where
  "ClipboardFormat_fromJSON object = enum_fromJSON ClipboardFormat_enum object"

definition ClipboardFormat_toJSON :: "int \<Rightarrow> jval" where
  "ClipboardFormat_toJSON object = enum_toJSON ClipboardFormat_enum object"

definition FileType_fromJSON :: "jval \<Rightarrow> int" where
  "FileType_fromJSON object = enum_fromJSON FileType_enum object"

definition FileType_toJSON :: "int \<Rightarrow> jval" where
  "FileType_toJSON object = enum_toJSON FileType_enum object"

definition ImageQuality_fromJSON :: "jval \<Rightarrow> int" where
  "ImageQuality_fromJSON object = enum_fromJSON ImageQuality_enum object"

definition ImageQuality_toJSON :: "int \<Rightarrow> jval" where
  "ImageQuality_toJSON object = enum_toJSON ImageQuality_enum object"

definition PermissionInfo_Permission_fromJSON :: "jval \<Rightarrow> int" where
  "PermissionInfo_Permission_fromJSON object = enum_fromJSON PermissionInfo_Permission_enum object"

definition PermissionInfo_Permission_toJSON :: "int \<Rightarrow> jval" where
  "PermissionInfo_Permission_toJSON object = enum_toJSON PermissionInfo_Permission_enum object"

definition SupportedDecoding_PreferCodec_fromJSON :: "jval \<Rightarrow> int" where
  "SupportedDecoding_PreferCodec_fromJSON object = enum_fromJSON SupportedDecoding_PreferCodec_enum object"

definition SupportedDecoding_PreferCodec_toJSON :: "int \<Rightarrow> jval" where
  "SupportedDecoding_PreferCodec_toJSON object = enum_toJSON SupportedDecoding_PreferCodec_enum object"

definition OptionMessage_BoolOption_fromJSON :: "jval \<Rightarrow> int" where
  "OptionMessage_BoolOption_fromJSON object = enum_fromJSON OptionMessage_BoolOption_enum object"

definition OptionMessage_BoolOption_toJSON :: "int \<Rightarrow> jval" where
  "OptionMessage_BoolOption_toJSON object = enum_toJSON OptionMessage_BoolOption_enum object"

definition BackNotification_BlockInputState_fromJSON :: "jval \<Rightarrow> int" where
  "BackNotification_BlockInputState_fromJSON object = enum_fromJSON BackNotification_BlockInputState_enum object"

definition BackNotification_BlockInputState_toJSON :: "int \<Rightarrow> jval" where
  "BackNotification_BlockInputState_toJSON object = enum_toJSON BackNotification_BlockInputState_enum object"

definition BackNotification_PrivacyModeState_fromJSON :: "jval \<Rightarrow> int" where
  "BackNotification_PrivacyModeState_fromJSON object = enum_fromJSON BackNotification_PrivacyModeState_enum object"

definition BackNotification_PrivacyModeState_toJSON :: "int \<Rightarrow> jval" where
  "BackNotification_PrivacyModeState_toJSON object = enum_toJSON BackNotification_PrivacyModeState_enum object"

section \<open>Messages\<close>

definition EncodedVideoFrame_json :: "EncodedVideoFrame jfield list" where
  "EncodedVideoFrame_json =
     [j_field ''data'' j_bytes [] EncodedVideoFrame_data EncodedVideoFrame_data_update,
      j_field ''key'' j_bool False EncodedVideoFrame_key EncodedVideoFrame_key_update,
      j_field ''pts'' j_int 0 EncodedVideoFrame_pts EncodedVideoFrame_pts_update]"

definition EncodedVideoFrame_fromJSON :: "jval \<Rightarrow> EncodedVideoFrame option" where
  "EncodedVideoFrame_fromJSON object = fromJSON EncodedVideoFrame_json createBaseEncodedVideoFrame object"

definition EncodedVideoFrame_toJSON :: "EncodedVideoFrame \<Rightarrow> jval" where
  "EncodedVideoFrame_toJSON message = toJSON EncodedVideoFrame_json message"

definition EncodedVideoFrame_fromPartial :: "jval \<Rightarrow> EncodedVideoFrame option" where
  "EncodedVideoFrame_fromPartial object = fromPartial EncodedVideoFrame_json createBaseEncodedVideoFrame object"

definition EncodedVideoFrames_json :: "EncodedVideoFrames jfield list" where
  "EncodedVideoFrames_json =
     [j_rep ''frames'' (j_msg EncodedVideoFrame_json createBaseEncodedVideoFrame) EncodedVideoFrames_frames EncodedVideoFrames_frames_update]"

definition EncodedVideoFrames_fromJSON :: "jval \<Rightarrow> EncodedVideoFrames option" where
  "EncodedVideoFrames_fromJSON object = fromJSON EncodedVideoFrames_json createBaseEncodedVideoFrames object"

definition EncodedVideoFrames_toJSON :: "EncodedVideoFrames \<Rightarrow> jval" where
  "EncodedVideoFrames_toJSON message = toJSON EncodedVideoFrames_json message"

definition EncodedVideoFrames_fromPartial :: "jval \<Rightarrow> EncodedVideoFrames option" where
  "EncodedVideoFrames_fromPartial object = fromPartial EncodedVideoFrames_json createBaseEncodedVideoFrames object"

definition RGB_json :: "RGB jfield list" where
  "RGB_json =
     [j_field ''compress'' j_bool False RGB_compress RGB_compress_update]"

definition RGB_fromJSON :: "jval \<Rightarrow> RGB option" where
  "RGB_fromJSON object = fromJSON RGB_json createBaseRGB object"

definition RGB_toJSON :: "RGB \<Rightarrow> jval" where
  "RGB_toJSON message = toJSON RGB_json message"

definition RGB_fromPartial :: "jval \<Rightarrow> RGB option" where
  "RGB_fromPartial object = fromPartial RGB_json createBaseRGB object"

definition YUV_json :: "YUV jfield list" where
  "YUV_json =
     [j_field ''compress'' j_bool False YUV_compress YUV_compress_update,
      j_field ''stride'' j_int 0 YUV_stride YUV_stride_update]"

definition YUV_fromJSON :: "jval \<Rightarrow> YUV option" where
  "YUV_fromJSON object = fromJSON YUV_json createBaseYUV object"

definition YUV_toJSON :: "YUV \<Rightarrow> jval" where
  "YUV_toJSON message = toJSON YUV_json message"

definition YUV_fromPartial :: "jval \<Rightarrow> YUV option" where
  "YUV_fromPartial object = fromPartial YUV_json createBaseYUV object"

definition VideoFrame_json :: "VideoFrame jfield list" where
  "VideoFrame_json =
     [j_opt ''vp9s'' (j_msg EncodedVideoFrames_json createBaseEncodedVideoFrames) VideoFrame_vp9s VideoFrame_vp9s_update,
      j_opt ''rgb'' (j_msg RGB_json createBaseRGB) VideoFrame_rgb VideoFrame_rgb_update,
      j_opt ''yuv'' (j_msg YUV_json createBaseYUV) VideoFrame_yuv VideoFrame_yuv_update,
      j_opt ''h264s'' (j_msg EncodedVideoFrames_json createBaseEncodedVideoFrames) VideoFrame_h264s VideoFrame_h264s_update,
      j_opt ''h265s'' (j_msg EncodedVideoFrames_json createBaseEncodedVideoFrames) VideoFrame_h265s VideoFrame_h265s_update,
      j_opt ''vp8s'' (j_msg EncodedVideoFrames_json createBaseEncodedVideoFrames) VideoFrame_vp8s VideoFrame_vp8s_update,
      j_opt ''av1s'' (j_msg EncodedVideoFrames_json createBaseEncodedVideoFrames) VideoFrame_av1s VideoFrame_av1s_update,
      j_field ''display'' j_int 0 VideoFrame_display VideoFrame_display_update]"

definition VideoFrame_fromJSON :: "jval \<Rightarrow> VideoFrame option" where
  "VideoFrame_fromJSON object = fromJSON VideoFrame_json createBaseVideoFrame object"

definition VideoFrame_toJSON :: "VideoFrame \<Rightarrow> jval" where
  "VideoFrame_toJSON message = toJSON VideoFrame_json message"

definition VideoFrame_fromPartial :: "jval \<Rightarrow> VideoFrame option" where
  "VideoFrame_fromPartial object = fromPartial VideoFrame_json createBaseVideoFrame object"

definition IdPk_json :: "IdPk jfield list" where
  "IdPk_json =
     [j_field ''id'' j_string '''' IdPk_id IdPk_id_update,
      j_field ''pk'' j_bytes [] IdPk_pk IdPk_pk_update]"

definition IdPk_fromJSON :: "jval \<Rightarrow> IdPk option" where
  "IdPk_fromJSON object = fromJSON IdPk_json createBaseIdPk object"

definition IdPk_toJSON :: "IdPk \<Rightarrow> jval" where
  "IdPk_toJSON message = toJSON IdPk_json message"

definition IdPk_fromPartial :: "jval \<Rightarrow> IdPk option" where
  "IdPk_fromPartial object = fromPartial IdPk_json createBaseIdPk object"

definition Resolution_json :: "Resolution jfield list" where
  "Resolution_json =
     [j_field ''width'' j_int 0 Resolution_width Resolution_width_update,
      j_field ''height'' j_int 0 Resolution_height Resolution_height_update]"

definition Resolution_fromJSON :: "jval \<Rightarrow> Resolution option" where
  "Resolution_fromJSON object = fromJSON Resolution_json createBaseResolution object"

definition Resolution_toJSON :: "Resolution \<Rightarrow> jval" where
  "Resolution_toJSON message = toJSON Resolution_json message"

definition Resolution_fromPartial :: "jval \<Rightarrow> Resolution option" where
  "Resolution_fromPartial object = fromPartial Resolution_json createBaseResolution object"

definition DisplayInfo_json :: "DisplayInfo jfield list" where
  "DisplayInfo_json =
     [j_field ''x'' j_int 0 DisplayInfo_x DisplayInfo_x_update,
      j_field ''y'' j_int 0 DisplayInfo_y DisplayInfo_y_update,
      j_field ''width'' j_int 0 DisplayInfo_width DisplayInfo_width_update,
      j_field ''height'' j_int 0 DisplayInfo_height DisplayInfo_height_update,
      j_field ''name'' j_string '''' DisplayInfo_name DisplayInfo_name_update,
      j_field ''online'' j_bool False DisplayInfo_online DisplayInfo_online_update,
      j_field ''cursor_embedded'' j_bool False DisplayInfo_cursor_embedded DisplayInfo_cursor_embedded_update,
      j_opt ''original_resolution'' (j_msg Resolution_json createBaseResolution) DisplayInfo_original_resolution DisplayInfo_original_resolution_update,
      j_field ''scale'' j_double 0 DisplayInfo_scale DisplayInfo_scale_update]"

definition DisplayInfo_fromJSON :: "jval \<Rightarrow> DisplayInfo option" where
  "DisplayInfo_fromJSON object = fromJSON DisplayInfo_json createBaseDisplayInfo object"

definition DisplayInfo_toJSON :: "DisplayInfo \<Rightarrow> jval" where
  "DisplayInfo_toJSON message = toJSON DisplayInfo_json message"

definition DisplayInfo_fromPartial :: "jval \<Rightarrow> DisplayInfo option" where
  "DisplayInfo_fromPartial object = fromPartial DisplayInfo_json createBaseDisplayInfo object"

definition PortForward_json :: "PortForward jfield list" where
  "PortForward_json =
     [j_field ''host'' j_string '''' PortForward_host PortForward_host_update,
      j_field ''port'' j_int 0 PortForward_port PortForward_port_update]"

definition PortForward_fromJSON :: "jval \<Rightarrow> PortForward option" where
  "PortForward_fromJSON object = fromJSON PortForward_json createBasePortForward object"

definition PortForward_toJSON :: "PortForward \<Rightarrow> jval" where
  "PortForward_toJSON message = toJSON PortForward_json message"

definition PortForward_fromPartial :: "jval \<Rightarrow> PortForward option" where
  "PortForward_fromPartial object = fromPartial PortForward_json createBasePortForward object"

definition FileTransfer_json :: "FileTransfer jfield list" where
  "FileTransfer_json =
     [j_field ''dir'' j_string '''' FileTransfer_dir FileTransfer_dir_update,
      j_field ''show_hidden'' j_bool False FileTransfer_show_hidden FileTransfer_show_hidden_update]"

definition FileTransfer_fromJSON :: "jval \<Rightarrow> FileTransfer option" where
  "FileTransfer_fromJSON object = fromJSON FileTransfer_json createBaseFileTransfer object"

definition FileTransfer_toJSON :: "FileTransfer \<Rightarrow> jval" where
  "FileTransfer_toJSON message = toJSON FileTransfer_json message"

definition FileTransfer_fromPartial :: "jval \<Rightarrow> FileTransfer option" where
  "FileTransfer_fromPartial object = fromPartial FileTransfer_json createBaseFileTransfer object"

definition OSLogin_json :: "OSLogin jfield list" where
  "OSLogin_json =
     [j_field ''username'' j_string '''' OSLogin_username OSLogin_username_update,
      j_field ''password'' j_string '''' OSLogin_password OSLogin_password_update]"

definition OSLogin_fromJSON :: "jval \<Rightarrow> OSLogin option" where
  "OSLogin_fromJSON object = fromJSON OSLogin_json createBaseOSLogin object"

definition OSLogin_toJSON :: "OSLogin \<Rightarrow> jval" where
  "OSLogin_toJSON message = toJSON OSLogin_json message"

definition OSLogin_fromPartial :: "jval \<Rightarrow> OSLogin option" where
  "OSLogin_fromPartial object = fromPartial OSLogin_json createBaseOSLogin object"

definition CodecAbility_json :: "CodecAbility jfield list" where
  "CodecAbility_json =
     [j_field ''vp8'' j_bool False CodecAbility_vp8 CodecAbility_vp8_update,
      j_field ''vp9'' j_bool False CodecAbility_vp9 CodecAbility_vp9_update,
      j_field ''av1'' j_bool False CodecAbility_av1 CodecAbility_av1_update,
      j_field ''h264'' j_bool False CodecAbility_h264 CodecAbility_h264_update,
      j_field ''h265'' j_bool False CodecAbility_h265 CodecAbility_h265_update]"

definition CodecAbility_fromJSON :: "jval \<Rightarrow> CodecAbility option" where
  "CodecAbility_fromJSON object = fromJSON CodecAbility_json createBaseCodecAbility object"

definition CodecAbility_toJSON :: "CodecAbility \<Rightarrow> jval" where
  "CodecAbility_toJSON message = toJSON CodecAbility_json message"

definition CodecAbility_fromPartial :: "jval \<Rightarrow> CodecAbility option" where
  "CodecAbility_fromPartial object = fromPartial CodecAbility_json createBaseCodecAbility object"

definition SupportedDecoding_json :: "SupportedDecoding jfield list" where
  "SupportedDecoding_json =
     [j_field ''ability_vp9'' j_int 0 SupportedDecoding_ability_vp9 SupportedDecoding_ability_vp9_update,
      j_field ''ability_h264'' j_int 0 SupportedDecoding_ability_h264 SupportedDecoding_ability_h264_update,
      j_field ''ability_h265'' j_int 0 SupportedDecoding_ability_h265 SupportedDecoding_ability_h265_update,
      j_field ''prefer'' (j_enum SupportedDecoding_PreferCodec_enum) 0 SupportedDecoding_prefer SupportedDecoding_prefer_update,
      j_field ''ability_vp8'' j_int 0 SupportedDecoding_ability_vp8 SupportedDecoding_ability_vp8_update,
      j_field ''ability_av1'' j_int 0 SupportedDecoding_ability_av1 SupportedDecoding_ability_av1_update,
      j_opt ''i444'' (j_msg CodecAbility_json createBaseCodecAbility) SupportedDecoding_i444 SupportedDecoding_i444_update,
      j_field ''prefer_chroma'' (j_enum Chroma_enum) 0 SupportedDecoding_prefer_chroma SupportedDecoding_prefer_chroma_update]"

definition SupportedDecoding_fromJSON :: "jval \<Rightarrow> SupportedDecoding option" where
  "SupportedDecoding_fromJSON object = fromJSON SupportedDecoding_json createBaseSupportedDecoding object"

definition SupportedDecoding_toJSON :: "SupportedDecoding \<Rightarrow> jval" where
  "SupportedDecoding_toJSON message = toJSON SupportedDecoding_json message"

definition SupportedDecoding_fromPartial :: "jval \<Rightarrow> SupportedDecoding option" where
  "SupportedDecoding_fromPartial object = fromPartial SupportedDecoding_json createBaseSupportedDecoding object"

definition OptionMessage_json :: "OptionMessage jfield list" where
  "OptionMessage_json =
     [j_field ''image_quality'' (j_enum ImageQuality_enum) 0 OptionMessage_image_quality OptionMessage_image_quality_update,
      j_field ''lock_after_session_end'' (j_enum OptionMessage_BoolOption_enum) 0 OptionMessage_lock_after_session_end OptionMessage_lock_after_session_end_update,
      j_field ''show_remote_cursor'' (j_enum OptionMessage_BoolOption_enum) 0 OptionMessage_show_remote_cursor OptionMessage_show_remote_cursor_update,
      j_field ''privacy_mode'' (j_enum OptionMessage_BoolOption_enum) 0 OptionMessage_privacy_mode OptionMessage_privacy_mode_update,
      j_field ''block_input'' (j_enum OptionMessage_BoolOption_enum) 0 OptionMessage_block_input OptionMessage_block_input_update,
      j_field ''custom_image_quality'' j_int 0 OptionMessage_custom_image_quality OptionMessage_custom_image_quality_update,
      j_field ''disable_audio'' (j_enum OptionMessage_BoolOption_enum) 0 OptionMessage_disable_audio OptionMessage_disable_audio_update,
      j_field ''disable_clipboard'' (j_enum OptionMessage_BoolOption_enum) 0 OptionMessage_disable_clipboard OptionMessage_disable_clipboard_update,
      j_field ''enable_file_transfer'' (j_enum OptionMessage_BoolOption_enum) 0 OptionMessage_enable_file_transfer OptionMessage_enable_file_transfer_update,
      j_opt ''supported_decoding'' (j_msg SupportedDecoding_json createBaseSupportedDecoding) OptionMessage_supported_decoding OptionMessage_supported_decoding_update,
      j_field ''custom_fps'' j_int 0 OptionMessage_custom_fps OptionMessage_custom_fps_update,
      j_field ''disable_keyboard'' (j_enum OptionMessage_BoolOption_enum) 0 OptionMessage_disable_keyboard OptionMessage_disable_keyboard_update,
      j_field ''follow_remote_cursor'' (j_enum OptionMessage_BoolOption_enum) 0 OptionMessage_follow_remote_cursor OptionMessage_follow_remote_cursor_update,
      j_field ''follow_remote_window'' (j_enum OptionMessage_BoolOption_enum) 0 OptionMessage_follow_remote_window OptionMessage_follow_remote_window_update]"

definition OptionMessage_fromJSON :: "jval \<Rightarrow> OptionMessage option" where
  "OptionMessage_fromJSON object = fromJSON OptionMessage_json createBaseOptionMessage object"

definition OptionMessage_toJSON :: "OptionMessage \<Rightarrow> jval" where
  "OptionMessage_toJSON message = toJSON OptionMessage_json message"

definition OptionMessage_fromPartial :: "jval \<Rightarrow> OptionMessage option" where
  "OptionMessage_fromPartial object = fromPartial OptionMessage_json createBaseOptionMessage object"

definition LoginRequest_json :: "LoginRequest jfield list" where
  "LoginRequest_json =
     [j_field ''username'' j_string '''' LoginRequest_username LoginRequest_username_update,
      j_field ''password'' j_bytes [] LoginRequest_password LoginRequest_password_update,
      j_field ''my_id'' j_string '''' LoginRequest_my_id LoginRequest_my_id_update,
      j_field ''my_name'' j_string '''' LoginRequest_my_name LoginRequest_my_name_update,
      j_opt ''option'' (j_msg OptionMessage_json createBaseOptionMessage) LoginRequest_option LoginRequest_option_update,
      j_opt ''file_transfer'' (j_msg FileTransfer_json createBaseFileTransfer) LoginRequest_file_transfer LoginRequest_file_transfer_update,
      j_opt ''port_forward'' (j_msg PortForward_json createBasePortForward) LoginRequest_port_forward LoginRequest_port_forward_update,
      j_field ''video_ack_required'' j_bool False LoginRequest_video_ack_required LoginRequest_video_ack_required_update,
      j_field ''session_id'' j_int 0 LoginRequest_session_id LoginRequest_session_id_update,
      j_field ''version'' j_string '''' LoginRequest_version LoginRequest_version_update,
      j_opt ''os_login'' (j_msg OSLogin_json createBaseOSLogin) LoginRequest_os_login LoginRequest_os_login_update,
      j_field ''my_platform'' j_string '''' LoginRequest_my_platform LoginRequest_my_platform_update,
      j_field ''hwid'' j_bytes [] LoginRequest_hwid LoginRequest_hwid_update]"

definition LoginRequest_fromJSON :: "jval \<Rightarrow> LoginRequest option" where
  "LoginRequest_fromJSON object = fromJSON LoginRequest_json createBaseLoginRequest object"

definition LoginRequest_toJSON :: "LoginRequest \<Rightarrow> jval" where
  "LoginRequest_toJSON message = toJSON LoginRequest_json message"

definition LoginRequest_fromPartial :: "jval \<Rightarrow> LoginRequest option" where
  "LoginRequest_fromPartial object = fromPartial LoginRequest_json createBaseLoginRequest object"

definition Auth2FA_json :: "Auth2FA jfield list" where
  "Auth2FA_json =
     [j_field ''code'' j_string '''' Auth2FA_code Auth2FA_code_update,
      j_field ''hwid'' j_bytes [] Auth2FA_hwid Auth2FA_hwid_update]"

definition Auth2FA_fromJSON :: "jval \<Rightarrow> Auth2FA option" where
  "Auth2FA_fromJSON object = fromJSON Auth2FA_json createBaseAuth2FA object"

definition Auth2FA_toJSON :: "Auth2FA \<Rightarrow> jval" where
  "Auth2FA_toJSON message = toJSON Auth2FA_json message"

definition Auth2FA_fromPartial :: "jval \<Rightarrow> Auth2FA option" where
  "Auth2FA_fromPartial object = fromPartial Auth2FA_json createBaseAuth2FA object"

definition ChatMessage_json :: "ChatMessage jfield list" where
  "ChatMessage_json =
     [j_field ''text'' j_string '''' ChatMessage_text ChatMessage_text_update]"

definition ChatMessage_fromJSON :: "jval \<Rightarrow> ChatMessage option" where
  "ChatMessage_fromJSON object = fromJSON ChatMessage_json createBaseChatMessage object"

definition ChatMessage_toJSON :: "ChatMessage \<Rightarrow> jval" where
  "ChatMessage_toJSON message = toJSON ChatMessage_json message"

definition ChatMessage_fromPartial :: "jval \<Rightarrow> ChatMessage option" where
  "ChatMessage_fromPartial object = fromPartial ChatMessage_json createBaseChatMessage object"

definition Features_json :: "Features jfield list" where
  "Features_json =
     [j_field ''privacy_mode'' j_bool False Features_privacy_mode Features_privacy_mode_update]"

definition Features_fromJSON :: "jval \<Rightarrow> Features option" where
  "Features_fromJSON object = fromJSON Features_json createBaseFeatures object"

definition Features_toJSON :: "Features \<Rightarrow> jval" where
  "Features_toJSON message = toJSON Features_json message"

definition Features_fromPartial :: "jval \<Rightarrow> Features option" where
  "Features_fromPartial object = fromPartial Features_json createBaseFeatures object"

definition SupportedEncoding_json :: "SupportedEncoding jfield list" where
  "SupportedEncoding_json =
     [j_field ''h264'' j_bool False SupportedEncoding_h264 SupportedEncoding_h264_update,
      j_field ''h265'' j_bool False SupportedEncoding_h265 SupportedEncoding_h265_update,
      j_field ''vp8'' j_bool False SupportedEncoding_vp8 SupportedEncoding_vp8_update,
      j_field ''av1'' j_bool False SupportedEncoding_av1 SupportedEncoding_av1_update,
      j_opt ''i444'' (j_msg CodecAbility_json createBaseCodecAbility) SupportedEncoding_i444 SupportedEncoding_i444_update]"

definition SupportedEncoding_fromJSON :: "jval \<Rightarrow> SupportedEncoding option" where
  "SupportedEncoding_fromJSON object = fromJSON SupportedEncoding_json createBaseSupportedEncoding object"

definition SupportedEncoding_toJSON :: "SupportedEncoding \<Rightarrow> jval" where
  "SupportedEncoding_toJSON message = toJSON SupportedEncoding_json message"

definition SupportedEncoding_fromPartial :: "jval \<Rightarrow> SupportedEncoding option" where
  "SupportedEncoding_fromPartial object = fromPartial SupportedEncoding_json createBaseSupportedEncoding object"

definition SupportedResolutions_json :: "SupportedResolutions jfield list" where
  "SupportedResolutions_json =
     [j_rep ''resolutions'' (j_msg Resolution_json createBaseResolution) SupportedResolutions_resolutions SupportedResolutions_resolutions_update]"

definition SupportedResolutions_fromJSON :: "jval \<Rightarrow> SupportedResolutions option" where
  "SupportedResolutions_fromJSON object = fromJSON SupportedResolutions_json createBaseSupportedResolutions object"

definition SupportedResolutions_toJSON :: "SupportedResolutions \<Rightarrow> jval" where
  "SupportedResolutions_toJSON message = toJSON SupportedResolutions_json message"

definition SupportedResolutions_fromPartial :: "jval \<Rightarrow> SupportedResolutions option" where
  "SupportedResolutions_fromPartial object = fromPartial SupportedResolutions_json createBaseSupportedResolutions object"

definition WindowsSession_json :: "WindowsSession jfield list" where
  "WindowsSession_json =
     [j_field ''sid'' j_int 0 WindowsSession_sid WindowsSession_sid_update,
      j_field ''name'' j_string '''' WindowsSession_name WindowsSession_name_update]"

definition WindowsSession_fromJSON :: "jval \<Rightarrow> WindowsSession option" where
  "WindowsSession_fromJSON object = fromJSON WindowsSession_json createBaseWindowsSession object"

definition WindowsSession_toJSON :: "WindowsSession \<Rightarrow> jval" where
  "WindowsSession_toJSON message = toJSON WindowsSession_json message"

definition WindowsSession_fromPartial :: "jval \<Rightarrow> WindowsSession option" where
  "WindowsSession_fromPartial object = fromPartial WindowsSession_json createBaseWindowsSession object"

definition WindowsSessions_json :: "WindowsSessions jfield list" where
  "WindowsSessions_json =
     [j_rep ''sessions'' (j_msg WindowsSession_json createBaseWindowsSession) WindowsSessions_sessions WindowsSessions_sessions_update,
      j_field ''current_sid'' j_int 0 WindowsSessions_current_sid WindowsSessions_current_sid_update]"

definition WindowsSessions_fromJSON :: "jval \<Rightarrow> WindowsSessions option" where
  "WindowsSessions_fromJSON object = fromJSON WindowsSessions_json createBaseWindowsSessions object"

definition WindowsSessions_toJSON :: "WindowsSessions \<Rightarrow> jval" where
  "WindowsSessions_toJSON message = toJSON WindowsSessions_json message"

definition WindowsSessions_fromPartial :: "jval \<Rightarrow> WindowsSessions option" where
  "WindowsSessions_fromPartial object = fromPartial WindowsSessions_json createBaseWindowsSessions object"

definition PeerInfo_json :: "PeerInfo jfield list" where
  "PeerInfo_json =
     [j_field ''username'' j_string '''' PeerInfo_username PeerInfo_username_update,
      j_field ''hostname'' j_string '''' PeerInfo_hostname PeerInfo_hostname_update,
      j_field ''platform'' j_string '''' PeerInfo_platform PeerInfo_platform_update,
      j_rep ''displays'' (j_msg DisplayInfo_json createBaseDisplayInfo) PeerInfo_displays PeerInfo_displays_update,
      j_field ''current_display'' j_int 0 PeerInfo_current_display PeerInfo_current_display_update,
      j_field ''sas_enabled'' j_bool False PeerInfo_sas_enabled PeerInfo_sas_enabled_update,
      j_field ''version'' j_string '''' PeerInfo_version PeerInfo_version_update,
      j_opt ''features'' (j_msg Features_json createBaseFeatures) PeerInfo_features PeerInfo_features_update,
      j_opt ''encoding'' (j_msg SupportedEncoding_json createBaseSupportedEncoding) PeerInfo_encoding PeerInfo_encoding_update,
      j_opt ''resolutions'' (j_msg SupportedResolutions_json createBaseSupportedResolutions) PeerInfo_resolutions PeerInfo_resolutions_update,
      j_field ''platform_additions'' j_string '''' PeerInfo_platform_additions PeerInfo_platform_additions_update,
      j_opt ''windows_sessions'' (j_msg WindowsSessions_json createBaseWindowsSessions) PeerInfo_windows_sessions PeerInfo_windows_sessions_update]"

definition PeerInfo_fromJSON :: "jval \<Rightarrow> PeerInfo option" where
  "PeerInfo_fromJSON object = fromJSON PeerInfo_json createBasePeerInfo object"

definition PeerInfo_toJSON :: "PeerInfo \<Rightarrow> jval" where
  "PeerInfo_toJSON message = toJSON PeerInfo_json message"

definition PeerInfo_fromPartial :: "jval \<Rightarrow> PeerInfo option" where
  "PeerInfo_fromPartial object = fromPartial PeerInfo_json createBasePeerInfo object"

definition LoginResponse_json :: "LoginResponse jfield list" where
  "LoginResponse_json =
     [j_opt ''error'' j_string LoginResponse_error LoginResponse_error_update,
      j_opt ''peer_info'' (j_msg PeerInfo_json createBasePeerInfo) LoginResponse_peer_info LoginResponse_peer_info_update,
      j_field ''enable_trusted_devices'' j_bool False LoginResponse_enable_trusted_devices LoginResponse_enable_trusted_devices_update]"

definition LoginResponse_fromJSON :: "jval \<Rightarrow> LoginResponse option" where
  "LoginResponse_fromJSON object = fromJSON LoginResponse_json createBaseLoginResponse object"

definition LoginResponse_toJSON :: "LoginResponse \<Rightarrow> jval" where
  "LoginResponse_toJSON message = toJSON LoginResponse_json message"

definition LoginResponse_fromPartial :: "jval \<Rightarrow> LoginResponse option" where
  "LoginResponse_fromPartial object = fromPartial LoginResponse_json createBaseLoginResponse object"

definition TouchScaleUpdate_json :: "TouchScaleUpdate jfield list" where
  "TouchScaleUpdate_json =
     [j_field ''scale'' j_int 0 TouchScaleUpdate_scale TouchScaleUpdate_scale_update]"

definition TouchScaleUpdate_fromJSON :: "jval \<Rightarrow> TouchScaleUpdate option" where
  "TouchScaleUpdate_fromJSON object = fromJSON TouchScaleUpdate_json createBaseTouchScaleUpdate object"

definition TouchScaleUpdate_toJSON :: "TouchScaleUpdate \<Rightarrow> jval" where
  "TouchScaleUpdate_toJSON message = toJSON TouchScaleUpdate_json message"

definition TouchScaleUpdate_fromPartial :: "jval \<Rightarrow> TouchScaleUpdate option" where
  "TouchScaleUpdate_fromPartial object = fromPartial TouchScaleUpdate_json createBaseTouchScaleUpdate object"

definition TouchPanStart_json :: "TouchPanStart jfield list" where
  "TouchPanStart_json =
     [j_field ''x'' j_int 0 TouchPanStart_x TouchPanStart_x_update,
      j_field ''y'' j_int 0 TouchPanStart_y TouchPanStart_y_update]"

definition TouchPanStart_fromJSON :: "jval \<Rightarrow> TouchPanStart option" where
  "TouchPanStart_fromJSON object = fromJSON TouchPanStart_json createBaseTouchPanStart object"

definition TouchPanStart_toJSON :: "TouchPanStart \<Rightarrow> jval" where
  "TouchPanStart_toJSON message = toJSON TouchPanStart_json message"

definition TouchPanStart_fromPartial :: "jval \<Rightarrow> TouchPanStart option" where
  "TouchPanStart_fromPartial object = fromPartial TouchPanStart_json createBaseTouchPanStart object"

definition TouchPanUpdate_json :: "TouchPanUpdate jfield list" where
  "TouchPanUpdate_json =
     [j_field ''x'' j_int 0 TouchPanUpdate_x TouchPanUpdate_x_update,
      j_field ''y'' j_int 0 TouchPanUpdate_y TouchPanUpdate_y_update]"

definition TouchPanUpdate_fromJSON :: "jval \<Rightarrow> TouchPanUpdate option" where
  "TouchPanUpdate_fromJSON object = fromJSON TouchPanUpdate_json createBaseTouchPanUpdate object"

definition TouchPanUpdate_toJSON :: "TouchPanUpdate \<Rightarrow> jval" where
  "TouchPanUpdate_toJSON message = toJSON TouchPanUpdate_json message"

definition TouchPanUpdate_fromPartial :: "jval \<Rightarrow> TouchPanUpdate option" where
  "TouchPanUpdate_fromPartial object = fromPartial TouchPanUpdate_json createBaseTouchPanUpdate object"

definition TouchPanEnd_json :: "TouchPanEnd jfield list" where
  "TouchPanEnd_json =
     [j_field ''x'' j_int 0 TouchPanEnd_x TouchPanEnd_x_update,
      j_field ''y'' j_int 0 TouchPanEnd_y TouchPanEnd_y_update]"

definition TouchPanEnd_fromJSON :: "jval \<Rightarrow> TouchPanEnd option" where
  "TouchPanEnd_fromJSON object = fromJSON TouchPanEnd_json createBaseTouchPanEnd object"

definition TouchPanEnd_toJSON :: "TouchPanEnd \<Rightarrow> jval" where
  "TouchPanEnd_toJSON message = toJSON TouchPanEnd_json message"

definition TouchPanEnd_fromPartial :: "jval \<Rightarrow> TouchPanEnd option" where
  "TouchPanEnd_fromPartial object = fromPartial TouchPanEnd_json createBaseTouchPanEnd object"

definition TouchEvent_json :: "TouchEvent jfield list" where
  "TouchEvent_json =
     [j_opt ''scale_update'' (j_msg TouchScaleUpdate_json createBaseTouchScaleUpdate) TouchEvent_scale_update TouchEvent_scale_update_update,
      j_opt ''pan_start'' (j_msg TouchPanStart_json createBaseTouchPanStart) TouchEvent_pan_start TouchEvent_pan_start_update,
      j_opt ''pan_update'' (j_msg TouchPanUpdate_json createBaseTouchPanUpdate) TouchEvent_pan_update TouchEvent_pan_update_update,
      j_opt ''pan_end'' (j_msg TouchPanEnd_json createBaseTouchPanEnd) TouchEvent_pan_end TouchEvent_pan_end_update]"

definition TouchEvent_fromJSON :: "jval \<Rightarrow> TouchEvent option" where
  "TouchEvent_fromJSON object = fromJSON TouchEvent_json createBaseTouchEvent object"

definition TouchEvent_toJSON :: "TouchEvent \<Rightarrow> jval" where
  "TouchEvent_toJSON message = toJSON TouchEvent_json message"

definition TouchEvent_fromPartial :: "jval \<Rightarrow> TouchEvent option" where
  "TouchEvent_fromPartial object = fromPartial TouchEvent_json createBaseTouchEvent object"

definition PointerDeviceEvent_json :: "PointerDeviceEvent jfield list" where
  "PointerDeviceEvent_json =
     [j_opt ''touch_event'' (j_msg TouchEvent_json createBaseTouchEvent) PointerDeviceEvent_touch_event PointerDeviceEvent_touch_event_update,
      j_rep ''modifiers'' (j_enum ControlKey_enum) PointerDeviceEvent_modifiers PointerDeviceEvent_modifiers_update]"

definition PointerDeviceEvent_fromJSON :: "jval \<Rightarrow> PointerDeviceEvent option" where
  "PointerDeviceEvent_fromJSON object = fromJSON PointerDeviceEvent_json createBasePointerDeviceEvent object"

definition PointerDeviceEvent_toJSON :: "PointerDeviceEvent \<Rightarrow> jval" where
  "PointerDeviceEvent_toJSON message = toJSON PointerDeviceEvent_json message"

definition PointerDeviceEvent_fromPartial :: "jval \<Rightarrow> PointerDeviceEvent option" where
  "PointerDeviceEvent_fromPartial object = fromPartial PointerDeviceEvent_json createBasePointerDeviceEvent object"

definition MouseEvent_json :: "MouseEvent jfield list" where
  "MouseEvent_json =
     [j_field ''mask'' j_int 0 MouseEvent_mask MouseEvent_mask_update,
      j_field ''x'' j_int 0 MouseEvent_x MouseEvent_x_update,
      j_field ''y'' j_int 0 MouseEvent_y MouseEvent_y_update,
      j_rep ''modifiers'' (j_enum ControlKey_enum) MouseEvent_modifiers MouseEvent_modifiers_update]"

definition MouseEvent_fromJSON :: "jval \<Rightarrow> MouseEvent option" where
  "MouseEvent_fromJSON object = fromJSON MouseEvent_json createBaseMouseEvent object"

definition MouseEvent_toJSON :: "MouseEvent \<Rightarrow> jval" where
  "MouseEvent_toJSON message = toJSON MouseEvent_json message"

definition MouseEvent_fromPartial :: "jval \<Rightarrow> MouseEvent option" where
  "MouseEvent_fromPartial object = fromPartial MouseEvent_json createBaseMouseEvent object"

definition KeyEvent_json :: "KeyEvent jfield list" where
  "KeyEvent_json =
     [j_field ''down'' j_bool False KeyEvent_down KeyEvent_down_update,
      j_field ''press'' j_bool False KeyEvent_press KeyEvent_press_update,
      j_opt ''control_key'' (j_enum ControlKey_enum) KeyEvent_control_key KeyEvent_control_key_update,
      j_opt ''chr'' j_int KeyEvent_chr KeyEvent_chr_update,
      j_opt ''unicode'' j_int KeyEvent_unicode KeyEvent_unicode_update,
      j_opt ''seq'' j_string KeyEvent_seq KeyEvent_seq_update,
      j_opt ''win2win_hotkey'' j_int KeyEvent_win2win_hotkey KeyEvent_win2win_hotkey_update,
      j_rep ''modifiers'' (j_enum ControlKey_enum) KeyEvent_modifiers KeyEvent_modifiers_update,
      j_field ''mode'' (j_enum KeyboardMode_enum) 0 KeyEvent_mode KeyEvent_mode_update]"

definition KeyEvent_fromJSON :: "jval \<Rightarrow> KeyEvent option" where
  "KeyEvent_fromJSON object = fromJSON KeyEvent_json createBaseKeyEvent object"

definition KeyEvent_toJSON :: "KeyEvent \<Rightarrow> jval" where
  "KeyEvent_toJSON message = toJSON KeyEvent_json message"

definition KeyEvent_fromPartial :: "jval \<Rightarrow> KeyEvent option" where
  "KeyEvent_fromPartial object = fromPartial KeyEvent_json createBaseKeyEvent object"

definition CursorData_json :: "CursorData jfield list" where
  "CursorData_json =
     [j_field ''id'' j_int 0 CursorData_id CursorData_id_update,
      j_field ''hotx'' j_int 0 CursorData_hotx CursorData_hotx_update,
      j_field ''hoty'' j_int 0 CursorData_hoty CursorData_hoty_update,
      j_field ''width'' j_int 0 CursorData_width CursorData_width_update,
      j_field ''height'' j_int 0 CursorData_height CursorData_height_update,
      j_field ''colors'' j_bytes [] CursorData_colors CursorData_colors_update]"

definition CursorData_fromJSON :: "jval \<Rightarrow> CursorData option" where
  "CursorData_fromJSON object = fromJSON CursorData_json createBaseCursorData object"

definition CursorData_toJSON :: "CursorData \<Rightarrow> jval" where
  "CursorData_toJSON message = toJSON CursorData_json message"

definition CursorData_fromPartial :: "jval \<Rightarrow> CursorData option" where
  "CursorData_fromPartial object = fromPartial CursorData_json createBaseCursorData object"

definition CursorPosition_json :: "CursorPosition jfield list" where
  "CursorPosition_json =
     [j_field ''x'' j_int 0 CursorPosition_x CursorPosition_x_update,
      j_field ''y'' j_int 0 CursorPosition_y CursorPosition_y_update]"

definition CursorPosition_fromJSON :: "jval \<Rightarrow> CursorPosition option" where
  "CursorPosition_fromJSON object = fromJSON CursorPosition_json createBaseCursorPosition object"

definition CursorPosition_toJSON :: "CursorPosition \<Rightarrow> jval" where
  "CursorPosition_toJSON message = toJSON CursorPosition_json message"

definition CursorPosition_fromPartial :: "jval \<Rightarrow> CursorPosition option" where
  "CursorPosition_fromPartial object = fromPartial CursorPosition_json createBaseCursorPosition object"

definition Hash_json :: "Hash jfield list" where
  "Hash_json =
     [j_field ''salt'' j_string '''' Hash_salt Hash_salt_update,
      j_field ''challenge'' j_string '''' Hash_challenge Hash_challenge_update]"

definition Hash_fromJSON :: "jval \<Rightarrow> Hash option" where
  "Hash_fromJSON object = fromJSON Hash_json createBaseHash object"

definition Hash_toJSON :: "Hash \<Rightarrow> jval" where
  "Hash_toJSON message = toJSON Hash_json message"

definition Hash_fromPartial :: "jval \<Rightarrow> Hash option" where
  "Hash_fromPartial object = fromPartial Hash_json createBaseHash object"

definition Clipboard_json :: "Clipboard jfield list" where
  "Clipboard_json =
     [j_field ''compress'' j_bool False Clipboard_compress Clipboard_compress_update,
      j_field ''content'' j_bytes [] Clipboard_content Clipboard_content_update,
      j_field ''width'' j_int 0 Clipboard_width Clipboard_width_update,
      j_field ''height'' j_int 0 Clipboard_height Clipboard_height_update,
      j_field ''format'' (j_enum ClipboardFormat_enum) 0 Clipboard_format Clipboard_format_update,
      j_field ''special_name'' j_string '''' Clipboard_special_name Clipboard_special_name_update]"

definition Clipboard_fromJSON :: "jval \<Rightarrow> Clipboard option" where
  "Clipboard_fromJSON object = fromJSON Clipboard_json createBaseClipboard object"

definition Clipboard_toJSON :: "Clipboard \<Rightarrow> jval" where
  "Clipboard_toJSON message = toJSON Clipboard_json message"

definition Clipboard_fromPartial :: "jval \<Rightarrow> Clipboard option" where
  "Clipboard_fromPartial object = fromPartial Clipboard_json createBaseClipboard object"

definition MultiClipboards_json :: "MultiClipboards jfield list" where
  "MultiClipboards_json =
     [j_rep ''clipboards'' (j_msg Clipboard_json createBaseClipboard) MultiClipboards_clipboards MultiClipboards_clipboards_update]"

definition MultiClipboards_fromJSON :: "jval \<Rightarrow> MultiClipboards option" where
  "MultiClipboards_fromJSON object = fromJSON MultiClipboards_json createBaseMultiClipboards object"

definition MultiClipboards_toJSON :: "MultiClipboards \<Rightarrow> jval" where
  "MultiClipboards_toJSON message = toJSON MultiClipboards_json message"

definition MultiClipboards_fromPartial :: "jval \<Rightarrow> MultiClipboards option" where
  "MultiClipboards_fromPartial object = fromPartial MultiClipboards_json createBaseMultiClipboards object"

definition FileEntry_json :: "FileEntry jfield list" where
  "FileEntry_json =
     [j_field ''entry_type'' (j_enum FileType_enum) 0 FileEntry_entry_type FileEntry_entry_type_update,
      j_field ''name'' j_string '''' FileEntry_name FileEntry_name_update,
      j_field ''is_hidden'' j_bool False FileEntry_is_hidden FileEntry_is_hidden_update,
      j_field ''size'' j_int 0 FileEntry_size FileEntry_size_update,
      j_field ''modified_time'' j_int 0 FileEntry_modified_time FileEntry_modified_time_update]"

definition FileEntry_fromJSON :: "jval \<Rightarrow> FileEntry option" where
  "FileEntry_fromJSON object = fromJSON FileEntry_json createBaseFileEntry object"

definition FileEntry_toJSON :: "FileEntry \<Rightarrow> jval" where
  "FileEntry_toJSON message = toJSON FileEntry_json message"

definition FileEntry_fromPartial :: "jval \<Rightarrow> FileEntry option" where
  "FileEntry_fromPartial object = fromPartial FileEntry_json createBaseFileEntry object"

definition FileDirectory_json :: "FileDirectory jfield list" where
  "FileDirectory_json =
     [j_field ''id'' j_int 0 FileDirectory_id FileDirectory_id_update,
      j_field ''path'' j_string '''' FileDirectory_path FileDirectory_path_update,
      j_rep ''entries'' (j_msg FileEntry_json createBaseFileEntry) FileDirectory_entries FileDirectory_entries_update]"

definition FileDirectory_fromJSON :: "jval \<Rightarrow> FileDirectory option" where
  "FileDirectory_fromJSON object = fromJSON FileDirectory_json createBaseFileDirectory object"

definition FileDirectory_toJSON :: "FileDirectory \<Rightarrow> jval" where
  "FileDirectory_toJSON message = toJSON FileDirectory_json message"

definition FileDirectory_fromPartial :: "jval \<Rightarrow> FileDirectory option" where
  "FileDirectory_fromPartial object = fromPartial FileDirectory_json createBaseFileDirectory object"

definition ReadDir_json :: "ReadDir jfield list" where
  "ReadDir_json =
     [j_field ''path'' j_string '''' ReadDir_path ReadDir_path_update,
      j_field ''include_hidden'' j_bool False ReadDir_include_hidden ReadDir_include_hidden_update]"

definition ReadDir_fromJSON :: "jval \<Rightarrow> ReadDir option" where
  "ReadDir_fromJSON object = fromJSON ReadDir_json createBaseReadDir object"

definition ReadDir_toJSON :: "ReadDir \<Rightarrow> jval" where
  "ReadDir_toJSON message = toJSON ReadDir_json message"

definition ReadDir_fromPartial :: "jval \<Rightarrow> ReadDir option" where
  "ReadDir_fromPartial object = fromPartial ReadDir_json createBaseReadDir object"

definition ReadEmptyDirs_json :: "ReadEmptyDirs jfield list" where
  "ReadEmptyDirs_json =
     [j_field ''path'' j_string '''' ReadEmptyDirs_path ReadEmptyDirs_path_update,
      j_field ''include_hidden'' j_bool False ReadEmptyDirs_include_hidden ReadEmptyDirs_include_hidden_update]"

definition ReadEmptyDirs_fromJSON :: "jval \<Rightarrow> ReadEmptyDirs option" where
  "ReadEmptyDirs_fromJSON object = fromJSON ReadEmptyDirs_json createBaseReadEmptyDirs object"

definition ReadEmptyDirs_toJSON :: "ReadEmptyDirs \<Rightarrow> jval" where
  "ReadEmptyDirs_toJSON message = toJSON ReadEmptyDirs_json message"

definition ReadEmptyDirs_fromPartial :: "jval \<Rightarrow> ReadEmptyDirs option" where
  "ReadEmptyDirs_fromPartial object = fromPartial ReadEmptyDirs_json createBaseReadEmptyDirs object"

definition ReadEmptyDirsResponse_json :: "ReadEmptyDirsResponse jfield list" where
  "ReadEmptyDirsResponse_json =
     [j_field ''path'' j_string '''' ReadEmptyDirsResponse_path ReadEmptyDirsResponse_path_update,
      j_rep ''empty_dirs'' (j_msg FileDirectory_json createBaseFileDirectory) ReadEmptyDirsResponse_empty_dirs ReadEmptyDirsResponse_empty_dirs_update]"

definition ReadEmptyDirsResponse_fromJSON :: "jval \<Rightarrow> ReadEmptyDirsResponse option" where
  "ReadEmptyDirsResponse_fromJSON object = fromJSON ReadEmptyDirsResponse_json createBaseReadEmptyDirsResponse object"

definition ReadEmptyDirsResponse_toJSON :: "ReadEmptyDirsResponse \<Rightarrow> jval" where
  "ReadEmptyDirsResponse_toJSON message = toJSON ReadEmptyDirsResponse_json message"

definition ReadEmptyDirsResponse_fromPartial :: "jval \<Rightarrow> ReadEmptyDirsResponse option" where
  "ReadEmptyDirsResponse_fromPartial object = fromPartial ReadEmptyDirsResponse_json createBaseReadEmptyDirsResponse object"

definition ReadAllFiles_json :: "ReadAllFiles jfield list" where
  "ReadAllFiles_json =
     [j_field ''id'' j_int 0 ReadAllFiles_id ReadAllFiles_id_update,
      j_field ''path'' j_string '''' ReadAllFiles_path ReadAllFiles_path_update,
      j_field ''include_hidden'' j_bool False ReadAllFiles_include_hidden ReadAllFiles_include_hidden_update]"

definition ReadAllFiles_fromJSON :: "jval \<Rightarrow> ReadAllFiles option" where
  "ReadAllFiles_fromJSON object = fromJSON ReadAllFiles_json createBaseReadAllFiles object"

definition ReadAllFiles_toJSON :: "ReadAllFiles \<Rightarrow> jval" where
  "ReadAllFiles_toJSON message = toJSON ReadAllFiles_json message"

definition ReadAllFiles_fromPartial :: "jval \<Rightarrow> ReadAllFiles option" where
  "ReadAllFiles_fromPartial object = fromPartial ReadAllFiles_json createBaseReadAllFiles object"

definition FileRename_json :: "FileRename jfield list" where
  "FileRename_json =
     [j_field ''id'' j_int 0 FileRename_id FileRename_id_update,
      j_field ''path'' j_string '''' FileRename_path FileRename_path_update,
      j_field ''new_name'' j_string '''' FileRename_new_name FileRename_new_name_update]"

definition FileRename_fromJSON :: "jval \<Rightarrow> FileRename option" where
  "FileRename_fromJSON object = fromJSON FileRename_json createBaseFileRename object"

definition FileRename_toJSON :: "FileRename \<Rightarrow> jval" where
  "FileRename_toJSON message = toJSON FileRename_json message"

definition FileRename_fromPartial :: "jval \<Rightarrow> FileRename option" where
  "FileRename_fromPartial object = fromPartial FileRename_json createBaseFileRename object"

definition FileTransferSendRequest_json :: "FileTransferSendRequest jfield list" where
  "FileTransferSendRequest_json =
     [j_field ''id'' j_int 0 FileTransferSendRequest_id FileTransferSendRequest_id_update,
      j_field ''path'' j_string '''' FileTransferSendRequest_path FileTransferSendRequest_path_update,
      j_field ''include_hidden'' j_bool False FileTransferSendRequest_include_hidden FileTransferSendRequest_include_hidden_update,
      j_field ''file_num'' j_int 0 FileTransferSendRequest_file_num FileTransferSendRequest_file_num_update]"

definition FileTransferSendRequest_fromJSON :: "jval \<Rightarrow> FileTransferSendRequest option" where
  "FileTransferSendRequest_fromJSON object = fromJSON FileTransferSendRequest_json createBaseFileTransferSendRequest object"

definition FileTransferSendRequest_toJSON :: "FileTransferSendRequest \<Rightarrow> jval" where
  "FileTransferSendRequest_toJSON message = toJSON FileTransferSendRequest_json message"

definition FileTransferSendRequest_fromPartial :: "jval \<Rightarrow> FileTransferSendRequest option" where
  "FileTransferSendRequest_fromPartial object = fromPartial FileTransferSendRequest_json createBaseFileTransferSendRequest object"

definition FileTransferReceiveRequest_json :: "FileTransferReceiveRequest jfield list" where
  "FileTransferReceiveRequest_json =
     [j_field ''id'' j_int 0 FileTransferReceiveRequest_id FileTransferReceiveRequest_id_update,
      j_field ''path'' j_string '''' FileTransferReceiveRequest_path FileTransferReceiveRequest_path_update,
      j_rep ''files'' (j_msg FileEntry_json createBaseFileEntry) FileTransferReceiveRequest_files FileTransferReceiveRequest_files_update,
      j_field ''file_num'' j_int 0 FileTransferReceiveRequest_file_num FileTransferReceiveRequest_file_num_update,
      j_field ''total_size'' j_int 0 FileTransferReceiveRequest_total_size FileTransferReceiveRequest_total_size_update]"

definition FileTransferReceiveRequest_fromJSON :: "jval \<Rightarrow> FileTransferReceiveRequest option" where
  "FileTransferReceiveRequest_fromJSON object = fromJSON FileTransferReceiveRequest_json createBaseFileTransferReceiveRequest object"

definition FileTransferReceiveRequest_toJSON :: "FileTransferReceiveRequest \<Rightarrow> jval" where
  "FileTransferReceiveRequest_toJSON message = toJSON FileTransferReceiveRequest_json message"

definition FileTransferReceiveRequest_fromPartial :: "jval \<Rightarrow> FileTransferReceiveRequest option" where
  "FileTransferReceiveRequest_fromPartial object = fromPartial FileTransferReceiveRequest_json createBaseFileTransferReceiveRequest object"

definition FileDirCreate_json :: "FileDirCreate jfield list" where
  "FileDirCreate_json =
     [j_field ''id'' j_int 0 FileDirCreate_id FileDirCreate_id_update,
      j_field ''path'' j_string '''' FileDirCreate_path FileDirCreate_path_update]"

definition FileDirCreate_fromJSON :: "jval \<Rightarrow> FileDirCreate option" where
  "FileDirCreate_fromJSON object = fromJSON FileDirCreate_json createBaseFileDirCreate object"

definition FileDirCreate_toJSON :: "FileDirCreate \<Rightarrow> jval" where
  "FileDirCreate_toJSON message = toJSON FileDirCreate_json message"

definition FileDirCreate_fromPartial :: "jval \<Rightarrow> FileDirCreate option" where
  "FileDirCreate_fromPartial object = fromPartial FileDirCreate_json createBaseFileDirCreate object"

definition FileRemoveDir_json :: "FileRemoveDir jfield list" where
  "FileRemoveDir_json =
     [j_field ''id'' j_int 0 FileRemoveDir_id FileRemoveDir_id_update,
      j_field ''path'' j_string '''' FileRemoveDir_path FileRemoveDir_path_update,
      j_field ''recursive'' j_bool False FileRemoveDir_recursive FileRemoveDir_recursive_update]"

definition FileRemoveDir_fromJSON :: "jval \<Rightarrow> FileRemoveDir option" where
  "FileRemoveDir_fromJSON object = fromJSON FileRemoveDir_json createBaseFileRemoveDir object"

definition FileRemoveDir_toJSON :: "FileRemoveDir \<Rightarrow> jval" where
  "FileRemoveDir_toJSON message = toJSON FileRemoveDir_json message"

definition FileRemoveDir_fromPartial :: "jval \<Rightarrow> FileRemoveDir option" where
  "FileRemoveDir_fromPartial object = fromPartial FileRemoveDir_json createBaseFileRemoveDir object"

definition FileRemoveFile_json :: "FileRemoveFile jfield list" where
  "FileRemoveFile_json =
     [j_field ''id'' j_int 0 FileRemoveFile_id FileRemoveFile_id_update,
      j_field ''path'' j_string '''' FileRemoveFile_path FileRemoveFile_path_update,
      j_field ''file_num'' j_int 0 FileRemoveFile_file_num FileRemoveFile_file_num_update]"

definition FileRemoveFile_fromJSON :: "jval \<Rightarrow> FileRemoveFile option" where
  "FileRemoveFile_fromJSON object = fromJSON FileRemoveFile_json createBaseFileRemoveFile object"

definition FileRemoveFile_toJSON :: "FileRemoveFile \<Rightarrow> jval" where
  "FileRemoveFile_toJSON message = toJSON FileRemoveFile_json message"

definition FileRemoveFile_fromPartial :: "jval \<Rightarrow> FileRemoveFile option" where
  "FileRemoveFile_fromPartial object = fromPartial FileRemoveFile_json createBaseFileRemoveFile object"

definition FileTransferCancel_json :: "FileTransferCancel jfield list" where
  "FileTransferCancel_json =
     [j_field ''id'' j_int 0 FileTransferCancel_id FileTransferCancel_id_update]"

definition FileTransferCancel_fromJSON :: "jval \<Rightarrow> FileTransferCancel option" where
  "FileTransferCancel_fromJSON object = fromJSON FileTransferCancel_json createBaseFileTransferCancel object"

definition FileTransferCancel_toJSON :: "FileTransferCancel \<Rightarrow> jval" where
  "FileTransferCancel_toJSON message = toJSON FileTransferCancel_json message"

definition FileTransferCancel_fromPartial :: "jval \<Rightarrow> FileTransferCancel option" where
  "FileTransferCancel_fromPartial object = fromPartial FileTransferCancel_json createBaseFileTransferCancel object"

definition FileTransferSendConfirmRequest_json :: "FileTransferSendConfirmRequest jfield list" where
  "FileTransferSendConfirmRequest_json =
     [j_field ''id'' j_int 0 FileTransferSendConfirmRequest_id FileTransferSendConfirmRequest_id_update,
      j_field ''file_num'' j_int 0 FileTransferSendConfirmRequest_file_num FileTransferSendConfirmRequest_file_num_update,
      j_opt ''skip'' j_bool FileTransferSendConfirmRequest_skip FileTransferSendConfirmRequest_skip_update,
      j_opt ''offset_blk'' j_int FileTransferSendConfirmRequest_offset_blk FileTransferSendConfirmRequest_offset_blk_update]"

definition FileTransferSendConfirmRequest_fromJSON :: "jval \<Rightarrow> FileTransferSendConfirmRequest option" where
  "FileTransferSendConfirmRequest_fromJSON object = fromJSON FileTransferSendConfirmRequest_json createBaseFileTransferSendConfirmRequest object"

definition FileTransferSendConfirmRequest_toJSON :: "FileTransferSendConfirmRequest \<Rightarrow> jval" where
  "FileTransferSendConfirmRequest_toJSON message = toJSON FileTransferSendConfirmRequest_json message"

definition FileTransferSendConfirmRequest_fromPartial :: "jval \<Rightarrow> FileTransferSendConfirmRequest option" where
  "FileTransferSendConfirmRequest_fromPartial object = fromPartial FileTransferSendConfirmRequest_json createBaseFileTransferSendConfirmRequest object"

definition FileAction_json :: "FileAction jfield list" where
  "FileAction_json =
     [j_opt ''read_dir'' (j_msg ReadDir_json createBaseReadDir) FileAction_read_dir FileAction_read_dir_update,
      j_opt ''send'' (j_msg FileTransferSendRequest_json createBaseFileTransferSendRequest) FileAction_send FileAction_send_update,
      j_opt ''receive'' (j_msg FileTransferReceiveRequest_json createBaseFileTransferReceiveRequest) FileAction_receive FileAction_receive_update,
      j_opt ''create'' (j_msg FileDirCreate_json createBaseFileDirCreate) FileAction_create FileAction_create_update,
      j_opt ''remove_dir'' (j_msg FileRemoveDir_json createBaseFileRemoveDir) FileAction_remove_dir FileAction_remove_dir_update,
      j_opt ''remove_file'' (j_msg FileRemoveFile_json createBaseFileRemoveFile) FileAction_remove_file FileAction_remove_file_update,
      j_opt ''all_files'' (j_msg ReadAllFiles_json createBaseReadAllFiles) FileAction_all_files FileAction_all_files_update,
      j_opt ''cancel'' (j_msg FileTransferCancel_json createBaseFileTransferCancel) FileAction_cancel FileAction_cancel_update,
      j_opt ''send_confirm'' (j_msg FileTransferSendConfirmRequest_json createBaseFileTransferSendConfirmRequest) FileAction_send_confirm FileAction_send_confirm_update,
      j_opt ''rename'' (j_msg FileRename_json createBaseFileRename) FileAction_rename FileAction_rename_update,
      j_opt ''read_empty_dirs'' (j_msg ReadEmptyDirs_json createBaseReadEmptyDirs) FileAction_read_empty_dirs FileAction_read_empty_dirs_update]"

definition FileAction_fromJSON :: "jval \<Rightarrow> FileAction option" where
  "FileAction_fromJSON object = fromJSON FileAction_json createBaseFileAction object"

definition FileAction_toJSON :: "FileAction \<Rightarrow> jval" where
  "FileAction_toJSON message = toJSON FileAction_json message"

definition FileAction_fromPartial :: "jval \<Rightarrow> FileAction option" where
  "FileAction_fromPartial object = fromPartial FileAction_json createBaseFileAction object"

definition FileTransferBlock_json :: "FileTransferBlock jfield list" where
  "FileTransferBlock_json =
     [j_field ''id'' j_int 0 FileTransferBlock_id FileTransferBlock_id_update,
      j_field ''file_num'' j_int 0 FileTransferBlock_file_num FileTransferBlock_file_num_update,
      j_field ''data'' j_bytes [] FileTransferBlock_data FileTransferBlock_data_update,
      j_field ''compressed'' j_bool False FileTransferBlock_compressed FileTransferBlock_compressed_update,
      j_field ''blk_id'' j_int 0 FileTransferBlock_blk_id FileTransferBlock_blk_id_update]"

definition FileTransferBlock_fromJSON :: "jval \<Rightarrow> FileTransferBlock option" where
  "FileTransferBlock_fromJSON object = fromJSON FileTransferBlock_json createBaseFileTransferBlock object"

definition FileTransferBlock_toJSON :: "FileTransferBlock \<Rightarrow> jval" where
  "FileTransferBlock_toJSON message = toJSON FileTransferBlock_json message"

definition FileTransferBlock_fromPartial :: "jval \<Rightarrow> FileTransferBlock option" where
  "FileTransferBlock_fromPartial object = fromPartial FileTransferBlock_json createBaseFileTransferBlock object"

definition FileTransferError_json :: "FileTransferError jfield list" where
  "FileTransferError_json =
     [j_field ''id'' j_int 0 FileTransferError_id FileTransferError_id_update,
      j_field ''error'' j_string '''' FileTransferError_error FileTransferError_error_update,
      j_field ''file_num'' j_int 0 FileTransferError_file_num FileTransferError_file_num_update]"

definition FileTransferError_fromJSON :: "jval \<Rightarrow> FileTransferError option" where
  "FileTransferError_fromJSON object = fromJSON FileTransferError_json createBaseFileTransferError object"

definition FileTransferError_toJSON :: "FileTransferError \<Rightarrow> jval" where
  "FileTransferError_toJSON message = toJSON FileTransferError_json message"

definition FileTransferError_fromPartial :: "jval \<Rightarrow> FileTransferError option" where
  "FileTransferError_fromPartial object = fromPartial FileTransferError_json createBaseFileTransferError object"

definition FileTransferDone_json :: "FileTransferDone jfield list" where
  "FileTransferDone_json =
     [j_field ''id'' j_int 0 FileTransferDone_id FileTransferDone_id_update,
      j_field ''file_num'' j_int 0 FileTransferDone_file_num FileTransferDone_file_num_update]"

definition FileTransferDone_fromJSON :: "jval \<Rightarrow> FileTransferDone option" where
  "FileTransferDone_fromJSON object = fromJSON FileTransferDone_json createBaseFileTransferDone object"

definition FileTransferDone_toJSON :: "FileTransferDone \<Rightarrow> jval" where
  "FileTransferDone_toJSON message = toJSON FileTransferDone_json message"

definition FileTransferDone_fromPartial :: "jval \<Rightarrow> FileTransferDone option" where
  "FileTransferDone_fromPartial object = fromPartial FileTransferDone_json createBaseFileTransferDone object"

definition FileTransferDigest_json :: "FileTransferDigest jfield list" where
  "FileTransferDigest_json =
     [j_field ''id'' j_int 0 FileTransferDigest_id FileTransferDigest_id_update,
      j_field ''file_num'' j_int 0 FileTransferDigest_file_num FileTransferDigest_file_num_update,
      j_field ''last_modified'' j_int 0 FileTransferDigest_last_modified FileTransferDigest_last_modified_update,
      j_field ''file_size'' j_int 0 FileTransferDigest_file_size FileTransferDigest_file_size_update,
      j_field ''is_upload'' j_bool False FileTransferDigest_is_upload FileTransferDigest_is_upload_update,
      j_field ''is_identical'' j_bool False FileTransferDigest_is_identical FileTransferDigest_is_identical_update]"

definition FileTransferDigest_fromJSON :: "jval \<Rightarrow> FileTransferDigest option" where
  "FileTransferDigest_fromJSON object = fromJSON FileTransferDigest_json createBaseFileTransferDigest object"

definition FileTransferDigest_toJSON :: "FileTransferDigest \<Rightarrow> jval" where
  "FileTransferDigest_toJSON message = toJSON FileTransferDigest_json message"

definition FileTransferDigest_fromPartial :: "jval \<Rightarrow> FileTransferDigest option" where
  "FileTransferDigest_fromPartial object = fromPartial FileTransferDigest_json createBaseFileTransferDigest object"

definition FileResponse_json :: "FileResponse jfield list" where
  "FileResponse_json =
     [j_opt ''dir'' (j_msg FileDirectory_json createBaseFileDirectory) FileResponse_dir FileResponse_dir_update,
      j_opt ''block'' (j_msg FileTransferBlock_json createBaseFileTransferBlock) FileResponse_block FileResponse_block_update,
      j_opt ''error'' (j_msg FileTransferError_json createBaseFileTransferError) FileResponse_error FileResponse_error_update,
      j_opt ''done'' (j_msg FileTransferDone_json createBaseFileTransferDone) FileResponse_done FileResponse_done_update,
      j_opt ''digest'' (j_msg FileTransferDigest_json createBaseFileTransferDigest) FileResponse_digest FileResponse_digest_update,
      j_opt ''empty_dirs'' (j_msg ReadEmptyDirsResponse_json createBaseReadEmptyDirsResponse) FileResponse_empty_dirs FileResponse_empty_dirs_update]"

definition FileResponse_fromJSON :: "jval \<Rightarrow> FileResponse option" where
  "FileResponse_fromJSON object = fromJSON FileResponse_json createBaseFileResponse object"

definition FileResponse_toJSON :: "FileResponse \<Rightarrow> jval" where
  "FileResponse_toJSON message = toJSON FileResponse_json message"

definition FileResponse_fromPartial :: "jval \<Rightarrow> FileResponse option" where
  "FileResponse_fromPartial object = fromPartial FileResponse_json createBaseFileResponse object"

definition CliprdrMonitorReady_json :: "CliprdrMonitorReady jfield list" where
  "CliprdrMonitorReady_json = []"

definition CliprdrMonitorReady_fromJSON :: "jval \<Rightarrow> CliprdrMonitorReady option" where
  "CliprdrMonitorReady_fromJSON object = fromJSON CliprdrMonitorReady_json CliprdrMonitorReady object"

definition CliprdrMonitorReady_toJSON :: "CliprdrMonitorReady \<Rightarrow> jval" where
  "CliprdrMonitorReady_toJSON message = toJSON CliprdrMonitorReady_json message"

definition CliprdrMonitorReady_fromPartial :: "jval \<Rightarrow> CliprdrMonitorReady option" where
  "CliprdrMonitorReady_fromPartial object = fromPartial CliprdrMonitorReady_json CliprdrMonitorReady object"

definition CliprdrFormat_json :: "CliprdrFormat jfield list" where
  "CliprdrFormat_json =
     [j_field ''id'' j_int 0 CliprdrFormat_id CliprdrFormat_id_update,
      j_field ''format'' j_string '''' CliprdrFormat_format CliprdrFormat_format_update]"

definition CliprdrFormat_fromJSON :: "jval \<Rightarrow> CliprdrFormat option" where
  "CliprdrFormat_fromJSON object = fromJSON CliprdrFormat_json createBaseCliprdrFormat object"

definition CliprdrFormat_toJSON :: "CliprdrFormat \<Rightarrow> jval" where
  "CliprdrFormat_toJSON message = toJSON CliprdrFormat_json message"

definition CliprdrFormat_fromPartial :: "jval \<Rightarrow> CliprdrFormat option" where
  "CliprdrFormat_fromPartial object = fromPartial CliprdrFormat_json createBaseCliprdrFormat object"

definition CliprdrServerFormatList_json :: "CliprdrServerFormatList jfield list" where
  "CliprdrServerFormatList_json =
     [j_rep ''formats'' (j_msg CliprdrFormat_json createBaseCliprdrFormat) CliprdrServerFormatList_formats CliprdrServerFormatList_formats_update]"

definition CliprdrServerFormatList_fromJSON :: "jval \<Rightarrow> CliprdrServerFormatList option" where
  "CliprdrServerFormatList_fromJSON object = fromJSON CliprdrServerFormatList_json createBaseCliprdrServerFormatList object"

definition CliprdrServerFormatList_toJSON :: "CliprdrServerFormatList \<Rightarrow> jval" where
  "CliprdrServerFormatList_toJSON message = toJSON CliprdrServerFormatList_json message"

definition CliprdrServerFormatList_fromPartial :: "jval \<Rightarrow> CliprdrServerFormatList option" where
  "CliprdrServerFormatList_fromPartial object = fromPartial CliprdrServerFormatList_json createBaseCliprdrServerFormatList object"

definition CliprdrServerFormatListResponse_json :: "CliprdrServerFormatListResponse jfield list" where
  "CliprdrServerFormatListResponse_json =
     [j_field ''msg_flags'' j_int 0 CliprdrServerFormatListResponse_msg_flags CliprdrServerFormatListResponse_msg_flags_update]"

definition CliprdrServerFormatListResponse_fromJSON :: "jval \<Rightarrow> CliprdrServerFormatListResponse option" where
  "CliprdrServerFormatListResponse_fromJSON object = fromJSON CliprdrServerFormatListResponse_json createBaseCliprdrServerFormatListResponse object"

definition CliprdrServerFormatListResponse_toJSON :: "CliprdrServerFormatListResponse \<Rightarrow> jval" where
  "CliprdrServerFormatListResponse_toJSON message = toJSON CliprdrServerFormatListResponse_json message"

definition CliprdrServerFormatListResponse_fromPartial :: "jval \<Rightarrow> CliprdrServerFormatListResponse option" where
  "CliprdrServerFormatListResponse_fromPartial object = fromPartial CliprdrServerFormatListResponse_json createBaseCliprdrServerFormatListResponse object"

definition CliprdrServerFormatDataRequest_json :: "CliprdrServerFormatDataRequest jfield list" where
  "CliprdrServerFormatDataRequest_json =
     [j_field ''requested_format_id'' j_int 0 CliprdrServerFormatDataRequest_requested_format_id CliprdrServerFormatDataRequest_requested_format_id_update]"

definition CliprdrServerFormatDataRequest_fromJSON :: "jval \<Rightarrow> CliprdrServerFormatDataRequest option" where
  "CliprdrServerFormatDataRequest_fromJSON object = fromJSON CliprdrServerFormatDataRequest_json createBaseCliprdrServerFormatDataRequest object"

definition CliprdrServerFormatDataRequest_toJSON :: "CliprdrServerFormatDataRequest \<Rightarrow> jval" where
  "CliprdrServerFormatDataRequest_toJSON message = toJSON CliprdrServerFormatDataRequest_json message"

definition CliprdrServerFormatDataRequest_fromPartial :: "jval \<Rightarrow> CliprdrServerFormatDataRequest option" where
  "CliprdrServerFormatDataRequest_fromPartial object = fromPartial CliprdrServerFormatDataRequest_json createBaseCliprdrServerFormatDataRequest object"

definition CliprdrServerFormatDataResponse_json :: "CliprdrServerFormatDataResponse jfield list" where
  "CliprdrServerFormatDataResponse_json =
     [j_field ''msg_flags'' j_int 0 CliprdrServerFormatDataResponse_msg_flags CliprdrServerFormatDataResponse_msg_flags_update,
      j_field ''format_data'' j_bytes [] CliprdrServerFormatDataResponse_format_data CliprdrServerFormatDataResponse_format_data_update]"

definition CliprdrServerFormatDataResponse_fromJSON :: "jval \<Rightarrow> CliprdrServerFormatDataResponse option" where
  "CliprdrServerFormatDataResponse_fromJSON object = fromJSON CliprdrServerFormatDataResponse_json createBaseCliprdrServerFormatDataResponse object"

definition CliprdrServerFormatDataResponse_toJSON :: "CliprdrServerFormatDataResponse \<Rightarrow> jval" where
  "CliprdrServerFormatDataResponse_toJSON message = toJSON CliprdrServerFormatDataResponse_json message"

definition CliprdrServerFormatDataResponse_fromPartial :: "jval \<Rightarrow> CliprdrServerFormatDataResponse option" where
  "CliprdrServerFormatDataResponse_fromPartial object = fromPartial CliprdrServerFormatDataResponse_json createBaseCliprdrServerFormatDataResponse object"

definition CliprdrFileContentsRequest_json :: "CliprdrFileContentsRequest jfield list" where
  "CliprdrFileContentsRequest_json =
     [j_field ''stream_id'' j_int 0 CliprdrFileContentsRequest_stream_id CliprdrFileContentsRequest_stream_id_update,
      j_field ''list_index'' j_int 0 CliprdrFileContentsRequest_list_index CliprdrFileContentsRequest_list_index_update,
      j_field ''dw_flags'' j_int 0 CliprdrFileContentsRequest_dw_flags CliprdrFileContentsRequest_dw_flags_update,
      j_field ''n_position_low'' j_int 0 CliprdrFileContentsRequest_n_position_low CliprdrFileContentsRequest_n_position_low_update,
      j_field ''n_position_high'' j_int 0 CliprdrFileContentsRequest_n_position_high CliprdrFileContentsRequest_n_position_high_update,
      j_field ''cb_requested'' j_int 0 CliprdrFileContentsRequest_cb_requested CliprdrFileContentsRequest_cb_requested_update,
      j_field ''have_clip_data_id'' j_bool False CliprdrFileContentsRequest_have_clip_data_id CliprdrFileContentsRequest_have_clip_data_id_update,
      j_field ''clip_data_id'' j_int 0 CliprdrFileContentsRequest_clip_data_id CliprdrFileContentsRequest_clip_data_id_update]"

definition CliprdrFileContentsRequest_fromJSON :: "jval \<Rightarrow> CliprdrFileContentsRequest option" where
  "CliprdrFileContentsRequest_fromJSON object = fromJSON CliprdrFileContentsRequest_json createBaseCliprdrFileContentsRequest object"

definition CliprdrFileContentsRequest_toJSON :: "CliprdrFileContentsRequest \<Rightarrow> jval" where
  "CliprdrFileContentsRequest_toJSON message = toJSON CliprdrFileContentsRequest_json message"

definition CliprdrFileContentsRequest_fromPartial :: "jval \<Rightarrow> CliprdrFileContentsRequest option" where
  "CliprdrFileContentsRequest_fromPartial object = fromPartial CliprdrFileContentsRequest_json createBaseCliprdrFileContentsRequest object"

definition CliprdrFileContentsResponse_json :: "CliprdrFileContentsResponse jfield list" where
  "CliprdrFileContentsResponse_json =
     [j_field ''msg_flags'' j_int 0 CliprdrFileContentsResponse_msg_flags CliprdrFileContentsResponse_msg_flags_update,
      j_field ''stream_id'' j_int 0 CliprdrFileContentsResponse_stream_id CliprdrFileContentsResponse_stream_id_update,
      j_field ''requested_data'' j_bytes [] CliprdrFileContentsResponse_requested_data CliprdrFileContentsResponse_requested_data_update]"

definition CliprdrFileContentsResponse_fromJSON :: "jval \<Rightarrow> CliprdrFileContentsResponse option" where
  "CliprdrFileContentsResponse_fromJSON object = fromJSON CliprdrFileContentsResponse_json createBaseCliprdrFileContentsResponse object"

definition CliprdrFileContentsResponse_toJSON :: "CliprdrFileContentsResponse \<Rightarrow> jval" where
  "CliprdrFileContentsResponse_toJSON message = toJSON CliprdrFileContentsResponse_json message"

definition CliprdrFileContentsResponse_fromPartial :: "jval \<Rightarrow> CliprdrFileContentsResponse option" where
  "CliprdrFileContentsResponse_fromPartial object = fromPartial CliprdrFileContentsResponse_json createBaseCliprdrFileContentsResponse object"

definition CliprdrTryEmpty_json :: "CliprdrTryEmpty jfield list" where
  "CliprdrTryEmpty_json = []"

definition CliprdrTryEmpty_fromJSON :: "jval \<Rightarrow> CliprdrTryEmpty option" where
  "CliprdrTryEmpty_fromJSON object = fromJSON CliprdrTryEmpty_json CliprdrTryEmpty object"

definition CliprdrTryEmpty_toJSON :: "CliprdrTryEmpty \<Rightarrow> jval" where
  "CliprdrTryEmpty_toJSON message = toJSON CliprdrTryEmpty_json message"

definition CliprdrTryEmpty_fromPartial :: "jval \<Rightarrow> CliprdrTryEmpty option" where
  "CliprdrTryEmpty_fromPartial object = fromPartial CliprdrTryEmpty_json CliprdrTryEmpty object"

definition Cliprdr_json :: "Cliprdr jfield list" where
  "Cliprdr_json =
     [j_opt ''ready'' (j_msg CliprdrMonitorReady_json CliprdrMonitorReady) Cliprdr_ready Cliprdr_ready_update,
      j_opt ''format_list'' (j_msg CliprdrServerFormatList_json createBaseCliprdrServerFormatList) Cliprdr_format_list Cliprdr_format_list_update,
      j_opt ''format_list_response'' (j_msg CliprdrServerFormatListResponse_json createBaseCliprdrServerFormatListResponse) Cliprdr_format_list_response Cliprdr_format_list_response_update,
      j_opt ''format_data_request'' (j_msg CliprdrServerFormatDataRequest_json createBaseCliprdrServerFormatDataRequest) Cliprdr_format_data_request Cliprdr_format_data_request_update,
      j_opt ''format_data_response'' (j_msg CliprdrServerFormatDataResponse_json createBaseCliprdrServerFormatDataResponse) Cliprdr_format_data_response Cliprdr_format_data_response_update,
      j_opt ''file_contents_request'' (j_msg CliprdrFileContentsRequest_json createBaseCliprdrFileContentsRequest) Cliprdr_file_contents_request Cliprdr_file_contents_request_update,
      j_opt ''file_contents_response'' (j_msg CliprdrFileContentsResponse_json createBaseCliprdrFileContentsResponse) Cliprdr_file_contents_response Cliprdr_file_contents_response_update,
      j_opt ''try_empty'' (j_msg CliprdrTryEmpty_json CliprdrTryEmpty) Cliprdr_try_empty Cliprdr_try_empty_update]"

definition Cliprdr_fromJSON :: "jval \<Rightarrow> Cliprdr option" where
  "Cliprdr_fromJSON object = fromJSON Cliprdr_json createBaseCliprdr object"

definition Cliprdr_toJSON :: "Cliprdr \<Rightarrow> jval" where
  "Cliprdr_toJSON message = toJSON Cliprdr_json message"

definition Cliprdr_fromPartial :: "jval \<Rightarrow> Cliprdr option" where
  "Cliprdr_fromPartial object = fromPartial Cliprdr_json createBaseCliprdr object"

definition DisplayResolution_json :: "DisplayResolution jfield list" where
  "DisplayResolution_json =
     [j_field ''display'' j_int 0 DisplayResolution_display DisplayResolution_display_update,
      j_opt ''resolution'' (j_msg Resolution_json createBaseResolution) DisplayResolution_resolution DisplayResolution_resolution_update]"

definition DisplayResolution_fromJSON :: "jval \<Rightarrow> DisplayResolution option" where
  "DisplayResolution_fromJSON object = fromJSON DisplayResolution_json createBaseDisplayResolution object"

definition DisplayResolution_toJSON :: "DisplayResolution \<Rightarrow> jval" where
  "DisplayResolution_toJSON message = toJSON DisplayResolution_json message"

definition DisplayResolution_fromPartial :: "jval \<Rightarrow> DisplayResolution option" where
  "DisplayResolution_fromPartial object = fromPartial DisplayResolution_json createBaseDisplayResolution object"

definition SwitchDisplay_json :: "SwitchDisplay jfield list" where
  "SwitchDisplay_json =
     [j_field ''display'' j_int 0 SwitchDisplay_display SwitchDisplay_display_update,
      j_field ''x'' j_int 0 SwitchDisplay_x SwitchDisplay_x_update,
      j_field ''y'' j_int 0 SwitchDisplay_y SwitchDisplay_y_update,
      j_field ''width'' j_int 0 SwitchDisplay_width SwitchDisplay_width_update,
      j_field ''height'' j_int 0 SwitchDisplay_height SwitchDisplay_height_update,
      j_field ''cursor_embedded'' j_bool False SwitchDisplay_cursor_embedded SwitchDisplay_cursor_embedded_update,
      j_opt ''resolutions'' (j_msg SupportedResolutions_json createBaseSupportedResolutions) SwitchDisplay_resolutions SwitchDisplay_resolutions_update,
      j_opt ''original_resolution'' (j_msg Resolution_json createBaseResolution) SwitchDisplay_original_resolution SwitchDisplay_original_resolution_update]"

definition SwitchDisplay_fromJSON :: "jval \<Rightarrow> SwitchDisplay option" where
  "SwitchDisplay_fromJSON object = fromJSON SwitchDisplay_json createBaseSwitchDisplay object"

definition SwitchDisplay_toJSON :: "SwitchDisplay \<Rightarrow> jval" where
  "SwitchDisplay_toJSON message = toJSON SwitchDisplay_json message"

definition SwitchDisplay_fromPartial :: "jval \<Rightarrow> SwitchDisplay option" where
  "SwitchDisplay_fromPartial object = fromPartial SwitchDisplay_json createBaseSwitchDisplay object"

definition CaptureDisplays_json :: "CaptureDisplays jfield list" where
  "CaptureDisplays_json =
     [j_rep ''add'' j_int CaptureDisplays_add CaptureDisplays_add_update,
      j_rep ''sub'' j_int CaptureDisplays_sub CaptureDisplays_sub_update,
      j_rep ''set'' j_int CaptureDisplays_set CaptureDisplays_set_update]"

definition CaptureDisplays_fromJSON :: "jval \<Rightarrow> CaptureDisplays option" where
  "CaptureDisplays_fromJSON object = fromJSON CaptureDisplays_json createBaseCaptureDisplays object"

definition CaptureDisplays_toJSON :: "CaptureDisplays \<Rightarrow> jval" where
  "CaptureDisplays_toJSON message = toJSON CaptureDisplays_json message"

definition CaptureDisplays_fromPartial :: "jval \<Rightarrow> CaptureDisplays option" where
  "CaptureDisplays_fromPartial object = fromPartial CaptureDisplays_json createBaseCaptureDisplays object"

definition ToggleVirtualDisplay_json :: "ToggleVirtualDisplay jfield list" where
  "ToggleVirtualDisplay_json =
     [j_field ''display'' j_int 0 ToggleVirtualDisplay_display ToggleVirtualDisplay_display_update,
      j_field ''on'' j_bool False ToggleVirtualDisplay_on ToggleVirtualDisplay_on_update]"

definition ToggleVirtualDisplay_fromJSON :: "jval \<Rightarrow> ToggleVirtualDisplay option" where
  "ToggleVirtualDisplay_fromJSON object = fromJSON ToggleVirtualDisplay_json createBaseToggleVirtualDisplay object"

definition ToggleVirtualDisplay_toJSON :: "ToggleVirtualDisplay \<Rightarrow> jval" where
  "ToggleVirtualDisplay_toJSON message = toJSON ToggleVirtualDisplay_json message"

definition ToggleVirtualDisplay_fromPartial :: "jval \<Rightarrow> ToggleVirtualDisplay option" where
  "ToggleVirtualDisplay_fromPartial object = fromPartial ToggleVirtualDisplay_json createBaseToggleVirtualDisplay object"

definition TogglePrivacyMode_json :: "TogglePrivacyMode jfield list" where
  "TogglePrivacyMode_json =
     [j_field ''impl_key'' j_string '''' TogglePrivacyMode_impl_key TogglePrivacyMode_impl_key_update,
      j_field ''on'' j_bool False TogglePrivacyMode_on TogglePrivacyMode_on_update]"

definition TogglePrivacyMode_fromJSON :: "jval \<Rightarrow> TogglePrivacyMode option" where
  "TogglePrivacyMode_fromJSON object = fromJSON TogglePrivacyMode_json createBaseTogglePrivacyMode object"

definition TogglePrivacyMode_toJSON :: "TogglePrivacyMode \<Rightarrow> jval" where
  "TogglePrivacyMode_toJSON message = toJSON TogglePrivacyMode_json message"

definition TogglePrivacyMode_fromPartial :: "jval \<Rightarrow> TogglePrivacyMode option" where
  "TogglePrivacyMode_fromPartial object = fromPartial TogglePrivacyMode_json createBaseTogglePrivacyMode object"

definition PermissionInfo_json :: "PermissionInfo jfield list" where
  "PermissionInfo_json =
     [j_field ''permission'' (j_enum PermissionInfo_Permission_enum) 0 PermissionInfo_permission PermissionInfo_permission_update,
      j_field ''enabled'' j_bool False PermissionInfo_enabled PermissionInfo_enabled_update]"

definition PermissionInfo_fromJSON :: "jval \<Rightarrow> PermissionInfo option" where
  "PermissionInfo_fromJSON object = fromJSON PermissionInfo_json createBasePermissionInfo object"

definition PermissionInfo_toJSON :: "PermissionInfo \<Rightarrow> jval" where
  "PermissionInfo_toJSON message = toJSON PermissionInfo_json message"

definition PermissionInfo_fromPartial :: "jval \<Rightarrow> PermissionInfo option" where
  "PermissionInfo_fromPartial object = fromPartial PermissionInfo_json createBasePermissionInfo object"

definition TestDelay_json :: "TestDelay jfield list" where
  "TestDelay_json =
     [j_field ''time'' j_int 0 TestDelay_time TestDelay_time_update,
      j_field ''from_client'' j_bool False TestDelay_from_client TestDelay_from_client_update,
      j_field ''last_delay'' j_int 0 TestDelay_last_delay TestDelay_last_delay_update,
      j_field ''target_bitrate'' j_int 0 TestDelay_target_bitrate TestDelay_target_bitrate_update]"

definition TestDelay_fromJSON :: "jval \<Rightarrow> TestDelay option" where
  "TestDelay_fromJSON object = fromJSON TestDelay_json createBaseTestDelay object"

definition TestDelay_toJSON :: "TestDelay \<Rightarrow> jval" where
  "TestDelay_toJSON message = toJSON TestDelay_json message"

definition TestDelay_fromPartial :: "jval \<Rightarrow> TestDelay option" where
  "TestDelay_fromPartial object = fromPartial TestDelay_json createBaseTestDelay object"

definition PublicKey_json :: "PublicKey jfield list" where
  "PublicKey_json =
     [j_field ''asymmetric_value'' j_bytes [] PublicKey_asymmetric_value PublicKey_asymmetric_value_update,
      j_field ''symmetric_value'' j_bytes [] PublicKey_symmetric_value PublicKey_symmetric_value_update]"

definition PublicKey_fromJSON :: "jval \<Rightarrow> PublicKey option" where
  "PublicKey_fromJSON object = fromJSON PublicKey_json createBasePublicKey object"

definition PublicKey_toJSON :: "PublicKey \<Rightarrow> jval" where
  "PublicKey_toJSON message = toJSON PublicKey_json message"

definition PublicKey_fromPartial :: "jval \<Rightarrow> PublicKey option" where
  "PublicKey_fromPartial object = fromPartial PublicKey_json createBasePublicKey object"

definition SignedId_json :: "SignedId jfield list" where
  "SignedId_json =
     [j_field ''id'' j_bytes [] SignedId_id SignedId_id_update]"

definition SignedId_fromJSON :: "jval \<Rightarrow> SignedId option" where
  "SignedId_fromJSON object = fromJSON SignedId_json createBaseSignedId object"

definition SignedId_toJSON :: "SignedId \<Rightarrow> jval" where
  "SignedId_toJSON message = toJSON SignedId_json message"

definition SignedId_fromPartial :: "jval \<Rightarrow> SignedId option" where
  "SignedId_fromPartial object = fromPartial SignedId_json createBaseSignedId object"

definition AudioFormat_json :: "AudioFormat jfield list" where
  "AudioFormat_json =
     [j_field ''sample_rate'' j_int 0 AudioFormat_sample_rate AudioFormat_sample_rate_update,
      j_field ''channels'' j_int 0 AudioFormat_channels AudioFormat_channels_update]"

definition AudioFormat_fromJSON :: "jval \<Rightarrow> AudioFormat option" where
  "AudioFormat_fromJSON object = fromJSON AudioFormat_json createBaseAudioFormat object"

definition AudioFormat_toJSON :: "AudioFormat \<Rightarrow> jval" where
  "AudioFormat_toJSON message = toJSON AudioFormat_json message"

definition AudioFormat_fromPartial :: "jval \<Rightarrow> AudioFormat option" where
  "AudioFormat_fromPartial object = fromPartial AudioFormat_json createBaseAudioFormat object"

definition AudioFrame_json :: "AudioFrame jfield list" where
  "AudioFrame_json =
     [j_field ''data'' j_bytes [] AudioFrame_data AudioFrame_data_update]"

definition AudioFrame_fromJSON :: "jval \<Rightarrow> AudioFrame option" where
  "AudioFrame_fromJSON object = fromJSON AudioFrame_json createBaseAudioFrame object"

definition AudioFrame_toJSON :: "AudioFrame \<Rightarrow> jval" where
  "AudioFrame_toJSON message = toJSON AudioFrame_json message"

definition AudioFrame_fromPartial :: "jval \<Rightarrow> AudioFrame option" where
  "AudioFrame_fromPartial object = fromPartial AudioFrame_json createBaseAudioFrame object"

definition MessageBox_json :: "MessageBox jfield list" where
  "MessageBox_json =
     [j_field ''msgtype'' j_string '''' MessageBox_msgtype MessageBox_msgtype_update,
      j_field ''title'' j_string '''' MessageBox_title MessageBox_title_update,
      j_field ''text'' j_string '''' MessageBox_text MessageBox_text_update,
      j_field ''link'' j_string '''' MessageBox_link MessageBox_link_update]"

definition MessageBox_fromJSON :: "jval \<Rightarrow> MessageBox option" where
  "MessageBox_fromJSON object = fromJSON MessageBox_json createBaseMessageBox object"

definition MessageBox_toJSON :: "MessageBox \<Rightarrow> jval" where
  "MessageBox_toJSON message = toJSON MessageBox_json message"

definition MessageBox_fromPartial :: "jval \<Rightarrow> MessageBox option" where
  "MessageBox_fromPartial object = fromPartial MessageBox_json createBaseMessageBox object"

definition BackNotification_json :: "BackNotification jfield list" where
  "BackNotification_json =
     [j_opt ''privacy_mode_state'' (j_enum BackNotification_PrivacyModeState_enum) BackNotification_privacy_mode_state BackNotification_privacy_mode_state_update,
      j_opt ''block_input_state'' (j_enum BackNotification_BlockInputState_enum) BackNotification_block_input_state BackNotification_block_input_state_update,
      j_field ''details'' j_string '''' BackNotification_details BackNotification_details_update,
      j_field ''impl_key'' j_string '''' BackNotification_impl_key BackNotification_impl_key_update]"

definition BackNotification_fromJSON :: "jval \<Rightarrow> BackNotification option" where
  "BackNotification_fromJSON object = fromJSON BackNotification_json createBaseBackNotification object"

definition BackNotification_toJSON :: "BackNotification \<Rightarrow> jval" where
  "BackNotification_toJSON message = toJSON BackNotification_json message"

definition BackNotification_fromPartial :: "jval \<Rightarrow> BackNotification option" where
  "BackNotification_fromPartial object = fromPartial BackNotification_json createBaseBackNotification object"

definition ElevationRequestWithLogon_json :: "ElevationRequestWithLogon jfield list" where
  "ElevationRequestWithLogon_json =
     [j_field ''username'' j_string '''' ElevationRequestWithLogon_username ElevationRequestWithLogon_username_update,
      j_field ''password'' j_string '''' ElevationRequestWithLogon_password ElevationRequestWithLogon_password_update]"

definition ElevationRequestWithLogon_fromJSON :: "jval \<Rightarrow> ElevationRequestWithLogon option" where
  "ElevationRequestWithLogon_fromJSON object = fromJSON ElevationRequestWithLogon_json createBaseElevationRequestWithLogon object"

definition ElevationRequestWithLogon_toJSON :: "ElevationRequestWithLogon \<Rightarrow> jval" where
  "ElevationRequestWithLogon_toJSON message = toJSON ElevationRequestWithLogon_json message"

definition ElevationRequestWithLogon_fromPartial :: "jval \<Rightarrow> ElevationRequestWithLogon option" where
  "ElevationRequestWithLogon_fromPartial object = fromPartial ElevationRequestWithLogon_json createBaseElevationRequestWithLogon object"

definition ElevationRequest_json :: "ElevationRequest jfield list" where
  "ElevationRequest_json =
     [j_opt ''direct'' j_bool ElevationRequest_direct ElevationRequest_direct_update,
      j_opt ''logon'' (j_msg ElevationRequestWithLogon_json createBaseElevationRequestWithLogon) ElevationRequest_logon ElevationRequest_logon_update]"

definition ElevationRequest_fromJSON :: "jval \<Rightarrow> ElevationRequest option" where
  "ElevationRequest_fromJSON object = fromJSON ElevationRequest_json createBaseElevationRequest object"

definition ElevationRequest_toJSON :: "ElevationRequest \<Rightarrow> jval" where
  "ElevationRequest_toJSON message = toJSON ElevationRequest_json message"

definition ElevationRequest_fromPartial :: "jval \<Rightarrow> ElevationRequest option" where
  "ElevationRequest_fromPartial object = fromPartial ElevationRequest_json createBaseElevationRequest object"

definition SwitchSidesRequest_json :: "SwitchSidesRequest jfield list" where
  "SwitchSidesRequest_json =
     [j_field ''uuid'' j_bytes [] SwitchSidesRequest_uuid SwitchSidesRequest_uuid_update]"

definition SwitchSidesRequest_fromJSON :: "jval \<Rightarrow> SwitchSidesRequest option" where
  "SwitchSidesRequest_fromJSON object = fromJSON SwitchSidesRequest_json createBaseSwitchSidesRequest object"

definition SwitchSidesRequest_toJSON :: "SwitchSidesRequest \<Rightarrow> jval" where
  "SwitchSidesRequest_toJSON message = toJSON SwitchSidesRequest_json message"

definition SwitchSidesRequest_fromPartial :: "jval \<Rightarrow> SwitchSidesRequest option" where
  "SwitchSidesRequest_fromPartial object = fromPartial SwitchSidesRequest_json createBaseSwitchSidesRequest object"

definition SwitchSidesResponse_json :: "SwitchSidesResponse jfield list" where
  "SwitchSidesResponse_json =
     [j_field ''uuid'' j_bytes [] SwitchSidesResponse_uuid SwitchSidesResponse_uuid_update,
      j_opt ''lr'' (j_msg LoginRequest_json createBaseLoginRequest) SwitchSidesResponse_lr SwitchSidesResponse_lr_update]"

definition SwitchSidesResponse_fromJSON :: "jval \<Rightarrow> SwitchSidesResponse option" where
  "SwitchSidesResponse_fromJSON object = fromJSON SwitchSidesResponse_json createBaseSwitchSidesResponse object"

definition SwitchSidesResponse_toJSON :: "SwitchSidesResponse \<Rightarrow> jval" where
  "SwitchSidesResponse_toJSON message = toJSON SwitchSidesResponse_json message"

definition SwitchSidesResponse_fromPartial :: "jval \<Rightarrow> SwitchSidesResponse option" where
  "SwitchSidesResponse_fromPartial object = fromPartial SwitchSidesResponse_json createBaseSwitchSidesResponse object"

definition SwitchBack_json :: "SwitchBack jfield list" where
  "SwitchBack_json = []"

definition SwitchBack_fromJSON :: "jval \<Rightarrow> SwitchBack option" where
  "SwitchBack_fromJSON object = fromJSON SwitchBack_json SwitchBack object"

definition SwitchBack_toJSON :: "SwitchBack \<Rightarrow> jval" where
  "SwitchBack_toJSON message = toJSON SwitchBack_json message"

definition SwitchBack_fromPartial :: "jval \<Rightarrow> SwitchBack option" where
  "SwitchBack_fromPartial object = fromPartial SwitchBack_json SwitchBack object"

definition PluginRequest_json :: "PluginRequest jfield list" where
  "PluginRequest_json =
     [j_field ''id'' j_string '''' PluginRequest_id PluginRequest_id_update,
      j_field ''content'' j_bytes [] PluginRequest_content PluginRequest_content_update]"

definition PluginRequest_fromJSON :: "jval \<Rightarrow> PluginRequest option" where
  "PluginRequest_fromJSON object = fromJSON PluginRequest_json createBasePluginRequest object"

definition PluginRequest_toJSON :: "PluginRequest \<Rightarrow> jval" where
  "PluginRequest_toJSON message = toJSON PluginRequest_json message"

definition PluginRequest_fromPartial :: "jval \<Rightarrow> PluginRequest option" where
  "PluginRequest_fromPartial object = fromPartial PluginRequest_json createBasePluginRequest object"

definition PluginFailure_json :: "PluginFailure jfield list" where
  "PluginFailure_json =
     [j_field ''id'' j_string '''' PluginFailure_id PluginFailure_id_update,
      j_field ''name'' j_string '''' PluginFailure_name PluginFailure_name_update,
      j_field ''msg'' j_string '''' PluginFailure_msg PluginFailure_msg_update]"

definition PluginFailure_fromJSON :: "jval \<Rightarrow> PluginFailure option" where
  "PluginFailure_fromJSON object = fromJSON PluginFailure_json createBasePluginFailure object"

definition PluginFailure_toJSON :: "PluginFailure \<Rightarrow> jval" where
  "PluginFailure_toJSON message = toJSON PluginFailure_json message"

definition PluginFailure_fromPartial :: "jval \<Rightarrow> PluginFailure option" where
  "PluginFailure_fromPartial object = fromPartial PluginFailure_json createBasePluginFailure object"

definition MessageQuery_json :: "MessageQuery jfield list" where
  "MessageQuery_json =
     [j_field ''switch_display'' j_int 0 MessageQuery_switch_display MessageQuery_switch_display_update]"

definition MessageQuery_fromJSON :: "jval \<Rightarrow> MessageQuery option" where
  "MessageQuery_fromJSON object = fromJSON MessageQuery_json createBaseMessageQuery object"

definition MessageQuery_toJSON :: "MessageQuery \<Rightarrow> jval" where
  "MessageQuery_toJSON message = toJSON MessageQuery_json message"

definition MessageQuery_fromPartial :: "jval \<Rightarrow> MessageQuery option" where
  "MessageQuery_fromPartial object = fromPartial MessageQuery_json createBaseMessageQuery object"

definition Misc_json :: "Misc jfield list" where
  "Misc_json =
     [j_opt ''chat_message'' (j_msg ChatMessage_json createBaseChatMessage) Misc_chat_message Misc_chat_message_update,
      j_opt ''switch_display'' (j_msg SwitchDisplay_json createBaseSwitchDisplay) Misc_switch_display Misc_switch_display_update,
      j_opt ''permission_info'' (j_msg PermissionInfo_json createBasePermissionInfo) Misc_permission_info Misc_permission_info_update,
      j_opt ''option'' (j_msg OptionMessage_json createBaseOptionMessage) Misc_option Misc_option_update,
      j_opt ''audio_format'' (j_msg AudioFormat_json createBaseAudioFormat) Misc_audio_format Misc_audio_format_update,
      j_opt ''close_reason'' j_string Misc_close_reason Misc_close_reason_update,
      j_opt ''refresh_video'' j_bool Misc_refresh_video Misc_refresh_video_update,
      j_opt ''video_received'' j_bool Misc_video_received Misc_video_received_update,
      j_opt ''back_notification'' (j_msg BackNotification_json createBaseBackNotification) Misc_back_notification Misc_back_notification_update,
      j_opt ''restart_remote_device'' j_bool Misc_restart_remote_device Misc_restart_remote_device_update,
      j_opt ''uac'' j_bool Misc_uac Misc_uac_update,
      j_opt ''foreground_window_elevated'' j_bool Misc_foreground_window_elevated Misc_foreground_window_elevated_update,
      j_opt ''stop_service'' j_bool Misc_stop_service Misc_stop_service_update,
      j_opt ''elevation_request'' (j_msg ElevationRequest_json createBaseElevationRequest) Misc_elevation_request Misc_elevation_request_update,
      j_opt ''elevation_response'' j_string Misc_elevation_response Misc_elevation_response_update,
      j_opt ''portable_service_running'' j_bool Misc_portable_service_running Misc_portable_service_running_update,
      j_opt ''switch_sides_request'' (j_msg SwitchSidesRequest_json createBaseSwitchSidesRequest) Misc_switch_sides_request Misc_switch_sides_request_update,
      j_opt ''switch_back'' (j_msg SwitchBack_json SwitchBack) Misc_switch_back Misc_switch_back_update,
      j_opt ''change_resolution'' (j_msg Resolution_json createBaseResolution) Misc_change_resolution Misc_change_resolution_update,
      j_opt ''plugin_request'' (j_msg PluginRequest_json createBasePluginRequest) Misc_plugin_request Misc_plugin_request_update,
      j_opt ''plugin_failure'' (j_msg PluginFailure_json createBasePluginFailure) Misc_plugin_failure Misc_plugin_failure_update,
      j_opt ''full_speed_fps'' j_int Misc_full_speed_fps Misc_full_speed_fps_update,
      j_opt ''auto_adjust_fps'' j_int Misc_auto_adjust_fps Misc_auto_adjust_fps_update,
      j_opt ''client_record_status'' j_bool Misc_client_record_status Misc_client_record_status_update,
      j_opt ''capture_displays'' (j_msg CaptureDisplays_json createBaseCaptureDisplays) Misc_capture_displays Misc_capture_displays_update,
      j_opt ''refresh_video_display'' j_int Misc_refresh_video_display Misc_refresh_video_display_update,
      j_opt ''toggle_virtual_display'' (j_msg ToggleVirtualDisplay_json createBaseToggleVirtualDisplay) Misc_toggle_virtual_display Misc_toggle_virtual_display_update,
      j_opt ''toggle_privacy_mode'' (j_msg TogglePrivacyMode_json createBaseTogglePrivacyMode) Misc_toggle_privacy_mode Misc_toggle_privacy_mode_update,
      j_opt ''supported_encoding'' (j_msg SupportedEncoding_json createBaseSupportedEncoding) Misc_supported_encoding Misc_supported_encoding_update,
      j_opt ''selected_sid'' j_int Misc_selected_sid Misc_selected_sid_update,
      j_opt ''change_display_resolution'' (j_msg DisplayResolution_json createBaseDisplayResolution) Misc_change_display_resolution Misc_change_display_resolution_update,
      j_opt ''message_query'' (j_msg MessageQuery_json createBaseMessageQuery) Misc_message_query Misc_message_query_update,
      j_opt ''follow_current_display'' j_int Misc_follow_current_display Misc_follow_current_display_update]"

definition Misc_fromJSON :: "jval \<Rightarrow> Misc option" where
  "Misc_fromJSON object = fromJSON Misc_json createBaseMisc object"

definition Misc_toJSON :: "Misc \<Rightarrow> jval" where
  "Misc_toJSON message = toJSON Misc_json message"

definition Misc_fromPartial :: "jval \<Rightarrow> Misc option" where
  "Misc_fromPartial object = fromPartial Misc_json createBaseMisc object"

definition VoiceCallRequest_json :: "VoiceCallRequest jfield list" where
  "VoiceCallRequest_json =
     [j_field ''req_timestamp'' j_int 0 VoiceCallRequest_req_timestamp VoiceCallRequest_req_timestamp_update,
      j_field ''is_connect'' j_bool False VoiceCallRequest_is_connect VoiceCallRequest_is_connect_update]"

definition VoiceCallRequest_fromJSON :: "jval \<Rightarrow> VoiceCallRequest option" where
  "VoiceCallRequest_fromJSON object = fromJSON VoiceCallRequest_json createBaseVoiceCallRequest object"

definition VoiceCallRequest_toJSON :: "VoiceCallRequest \<Rightarrow> jval" where
  "VoiceCallRequest_toJSON message = toJSON VoiceCallRequest_json message"

definition VoiceCallRequest_fromPartial :: "jval \<Rightarrow> VoiceCallRequest option" where
  "VoiceCallRequest_fromPartial object = fromPartial VoiceCallRequest_json createBaseVoiceCallRequest object"

definition VoiceCallResponse_json :: "VoiceCallResponse jfield list" where
  "VoiceCallResponse_json =
     [j_field ''accepted'' j_bool False VoiceCallResponse_accepted VoiceCallResponse_accepted_update,
      j_field ''req_timestamp'' j_int 0 VoiceCallResponse_req_timestamp VoiceCallResponse_req_timestamp_update,
      j_field ''ack_timestamp'' j_int 0 VoiceCallResponse_ack_timestamp VoiceCallResponse_ack_timestamp_update]"

definition VoiceCallResponse_fromJSON :: "jval \<Rightarrow> VoiceCallResponse option" where
  "VoiceCallResponse_fromJSON object = fromJSON VoiceCallResponse_json createBaseVoiceCallResponse object"

definition VoiceCallResponse_toJSON :: "VoiceCallResponse \<Rightarrow> jval" where
  "VoiceCallResponse_toJSON message = toJSON VoiceCallResponse_json message"

definition VoiceCallResponse_fromPartial :: "jval \<Rightarrow> VoiceCallResponse option" where
  "VoiceCallResponse_fromPartial object = fromPartial VoiceCallResponse_json createBaseVoiceCallResponse object"

definition Message_json :: "Message jfield list" where
  "Message_json =
     [j_opt ''signed_id'' (j_msg SignedId_json createBaseSignedId) Message_signed_id Message_signed_id_update,
      j_opt ''public_key'' (j_msg PublicKey_json createBasePublicKey) Message_public_key Message_public_key_update,
      j_opt ''test_delay'' (j_msg TestDelay_json createBaseTestDelay) Message_test_delay Message_test_delay_update,
      j_opt ''video_frame'' (j_msg VideoFrame_json createBaseVideoFrame) Message_video_frame Message_video_frame_update,
      j_opt ''login_request'' (j_msg LoginRequest_json createBaseLoginRequest) Message_login_request Message_login_request_update,
      j_opt ''login_response'' (j_msg LoginResponse_json createBaseLoginResponse) Message_login_response Message_login_response_update,
      j_opt ''hash'' (j_msg Hash_json createBaseHash) Message_hash Message_hash_update,
      j_opt ''mouse_event'' (j_msg MouseEvent_json createBaseMouseEvent) Message_mouse_event Message_mouse_event_update,
      j_opt ''audio_frame'' (j_msg AudioFrame_json createBaseAudioFrame) Message_audio_frame Message_audio_frame_update,
      j_opt ''cursor_data'' (j_msg CursorData_json createBaseCursorData) Message_cursor_data Message_cursor_data_update,
      j_opt ''cursor_position'' (j_msg CursorPosition_json createBaseCursorPosition) Message_cursor_position Message_cursor_position_update,
      j_opt ''cursor_id'' j_int Message_cursor_id Message_cursor_id_update,
      j_opt ''key_event'' (j_msg KeyEvent_json createBaseKeyEvent) Message_key_event Message_key_event_update,
      j_opt ''clipboard'' (j_msg Clipboard_json createBaseClipboard) Message_clipboard Message_clipboard_update,
      j_opt ''file_action'' (j_msg FileAction_json createBaseFileAction) Message_file_action Message_file_action_update,
      j_opt ''file_response'' (j_msg FileResponse_json createBaseFileResponse) Message_file_response Message_file_response_update,
      j_opt ''misc'' (j_msg Misc_json createBaseMisc) Message_misc Message_misc_update,
      j_opt ''cliprdr'' (j_msg Cliprdr_json createBaseCliprdr) Message_cliprdr Message_cliprdr_update,
      j_opt ''message_box'' (j_msg MessageBox_json createBaseMessageBox) Message_message_box Message_message_box_update,
      j_opt ''switch_sides_response'' (j_msg SwitchSidesResponse_json createBaseSwitchSidesResponse) Message_switch_sides_response Message_switch_sides_response_update,
      j_opt ''voice_call_request'' (j_msg VoiceCallRequest_json createBaseVoiceCallRequest) Message_voice_call_request Message_voice_call_request_update,
      j_opt ''voice_call_response'' (j_msg VoiceCallResponse_json createBaseVoiceCallResponse) Message_voice_call_response Message_voice_call_response_update,
      j_opt ''peer_info'' (j_msg PeerInfo_json createBasePeerInfo) Message_peer_info Message_peer_info_update,
      j_opt ''pointer_device_event'' (j_msg PointerDeviceEvent_json createBasePointerDeviceEvent) Message_pointer_device_event Message_pointer_device_event_update,
      j_opt ''auth_2fa'' (j_msg Auth2FA_json createBaseAuth2FA) Message_auth_2fa Message_auth_2fa_update,
      j_opt ''multi_clipboards'' (j_msg MultiClipboards_json createBaseMultiClipboards) Message_multi_clipboards Message_multi_clipboards_update]"

definition Message_fromJSON :: "jval \<Rightarrow> Message option" where
  "Message_fromJSON object = fromJSON Message_json createBaseMessage object"

definition Message_toJSON :: "Message \<Rightarrow> jval" where
  "Message_toJSON message = toJSON Message_json message"

definition Message_fromPartial :: "jval \<Rightarrow> Message option" where
  "Message_fromPartial object = fromPartial Message_json createBaseMessage object"

section \<open>Tables that round-trip\<close>

lemma Message_Json_enums:
  "distinct (map fst Chroma_enum)"
  "distinct (map fst KeyboardMode_enum)"
  "distinct (map fst ControlKey_enum)"
  "distinct (map fst ClipboardFormat_enum)"
  "distinct (map fst FileType_enum)"
  "distinct (map fst ImageQuality_enum)"
  "distinct (map fst PermissionInfo_Permission_enum)"
  "distinct (map fst SupportedDecoding_PreferCodec_enum)"
  "distinct (map fst OptionMessage_BoolOption_enum)"
  "distinct (map fst BackNotification_BlockInputState_enum)"
  "distinct (map fst BackNotification_PrivacyModeState_enum)"
  by (simp_all add: Chroma_enum_def KeyboardMode_enum_def ControlKey_enum_def ClipboardFormat_enum_def FileType_enum_def ImageQuality_enum_def PermissionInfo_Permission_enum_def SupportedDecoding_PreferCodec_enum_def OptionMessage_BoolOption_enum_def BackNotification_BlockInputState_enum_def BackNotification_PrivacyModeState_enum_def)

lemma EncodedVideoFrame_json_table: "json_table EncodedVideoFrame_json createBaseEncodedVideoFrame"
  by (rule json_tableI)
    (simp_all add: EncodedVideoFrame_json_def json_intros Message_Json_enums
      createBaseEncodedVideoFrame_def)

lemma EncodedVideoFrames_json_table: "json_table EncodedVideoFrames_json createBaseEncodedVideoFrames"
  by (rule json_tableI)
    (simp_all add: EncodedVideoFrames_json_def json_intros Message_Json_enums
      kind_law_msg [OF EncodedVideoFrame_json_table]
      createBaseEncodedVideoFrames_def)

lemma RGB_json_table: "json_table RGB_json createBaseRGB"
  by (rule json_tableI)
    (simp_all add: RGB_json_def json_intros Message_Json_enums
      createBaseRGB_def)

lemma YUV_json_table: "json_table YUV_json createBaseYUV"
  by (rule json_tableI)
    (simp_all add: YUV_json_def json_intros Message_Json_enums
      createBaseYUV_def)

lemma VideoFrame_json_table: "json_table VideoFrame_json createBaseVideoFrame"
  by (rule json_tableI)
    (simp_all add: VideoFrame_json_def json_intros Message_Json_enums
      kind_law_msg [OF EncodedVideoFrames_json_table]
      kind_law_msg [OF RGB_json_table]
      kind_law_msg [OF YUV_json_table]
      createBaseVideoFrame_def)

lemma IdPk_json_table: "json_table IdPk_json createBaseIdPk"
  by (rule json_tableI)
    (simp_all add: IdPk_json_def json_intros Message_Json_enums
      createBaseIdPk_def)

lemma Resolution_json_table: "json_table Resolution_json createBaseResolution"
  by (rule json_tableI)
    (simp_all add: Resolution_json_def json_intros Message_Json_enums
      createBaseResolution_def)

lemma DisplayInfo_json_table: "json_table DisplayInfo_json createBaseDisplayInfo"
  by (rule json_tableI)
    (simp_all add: DisplayInfo_json_def json_intros Message_Json_enums
      kind_law_msg [OF Resolution_json_table]
      createBaseDisplayInfo_def)

lemma PortForward_json_table: "json_table PortForward_json createBasePortForward"
  by (rule json_tableI)
    (simp_all add: PortForward_json_def json_intros Message_Json_enums
      createBasePortForward_def)

lemma FileTransfer_json_table: "json_table FileTransfer_json createBaseFileTransfer"
  by (rule json_tableI)
    (simp_all add: FileTransfer_json_def json_intros Message_Json_enums
      createBaseFileTransfer_def)

lemma OSLogin_json_table: "json_table OSLogin_json createBaseOSLogin"
  by (rule json_tableI)
    (simp_all add: OSLogin_json_def json_intros Message_Json_enums
      createBaseOSLogin_def)

lemma CodecAbility_json_table: "json_table CodecAbility_json createBaseCodecAbility"
  by (rule json_tableI)
    (simp_all add: CodecAbility_json_def json_intros Message_Json_enums
      createBaseCodecAbility_def)

lemma SupportedDecoding_json_table: "json_table SupportedDecoding_json createBaseSupportedDecoding"
  by (rule json_tableI)
    (simp_all add: SupportedDecoding_json_def json_intros Message_Json_enums
      kind_law_msg [OF CodecAbility_json_table]
      createBaseSupportedDecoding_def)

lemma OptionMessage_json_table: "json_table OptionMessage_json createBaseOptionMessage"
  by (rule json_tableI)
    (simp_all add: OptionMessage_json_def json_intros Message_Json_enums
      kind_law_msg [OF SupportedDecoding_json_table]
      createBaseOptionMessage_def)

lemma LoginRequest_json_table: "json_table LoginRequest_json createBaseLoginRequest"
  by (rule json_tableI)
    (simp_all add: LoginRequest_json_def json_intros Message_Json_enums
      kind_law_msg [OF OptionMessage_json_table]
      kind_law_msg [OF FileTransfer_json_table]
      kind_law_msg [OF PortForward_json_table]
      kind_law_msg [OF OSLogin_json_table]
      createBaseLoginRequest_def)

lemma Auth2FA_json_table: "json_table Auth2FA_json createBaseAuth2FA"
  by (rule json_tableI)
    (simp_all add: Auth2FA_json_def json_intros Message_Json_enums
      createBaseAuth2FA_def)

lemma ChatMessage_json_table: "json_table ChatMessage_json createBaseChatMessage"
  by (rule json_tableI)
    (simp_all add: ChatMessage_json_def json_intros Message_Json_enums
      createBaseChatMessage_def)

lemma Features_json_table: "json_table Features_json createBaseFeatures"
  by (rule json_tableI)
    (simp_all add: Features_json_def json_intros Message_Json_enums
      createBaseFeatures_def)

lemma SupportedEncoding_json_table: "json_table SupportedEncoding_json createBaseSupportedEncoding"
  by (rule json_tableI)
    (simp_all add: SupportedEncoding_json_def json_intros Message_Json_enums
      kind_law_msg [OF CodecAbility_json_table]
      createBaseSupportedEncoding_def)

lemma SupportedResolutions_json_table: "json_table SupportedResolutions_json createBaseSupportedResolutions"
  by (rule json_tableI)
    (simp_all add: SupportedResolutions_json_def json_intros Message_Json_enums
      kind_law_msg [OF Resolution_json_table]
      createBaseSupportedResolutions_def)

lemma WindowsSession_json_table: "json_table WindowsSession_json createBaseWindowsSession"
  by (rule json_tableI)
    (simp_all add: WindowsSession_json_def json_intros Message_Json_enums
      createBaseWindowsSession_def)

lemma WindowsSessions_json_table: "json_table WindowsSessions_json createBaseWindowsSessions"
  by (rule json_tableI)
    (simp_all add: WindowsSessions_json_def json_intros Message_Json_enums
      kind_law_msg [OF WindowsSession_json_table]
      createBaseWindowsSessions_def)

lemma PeerInfo_json_table: "json_table PeerInfo_json createBasePeerInfo"
  by (rule json_tableI)
    (simp_all add: PeerInfo_json_def json_intros Message_Json_enums
      kind_law_msg [OF DisplayInfo_json_table]
      kind_law_msg [OF Features_json_table]
      kind_law_msg [OF SupportedEncoding_json_table]
      kind_law_msg [OF SupportedResolutions_json_table]
      kind_law_msg [OF WindowsSessions_json_table]
      createBasePeerInfo_def)

lemma LoginResponse_json_table: "json_table LoginResponse_json createBaseLoginResponse"
  by (rule json_tableI)
    (simp_all add: LoginResponse_json_def json_intros Message_Json_enums
      kind_law_msg [OF PeerInfo_json_table]
      createBaseLoginResponse_def)

lemma TouchScaleUpdate_json_table: "json_table TouchScaleUpdate_json createBaseTouchScaleUpdate"
  by (rule json_tableI)
    (simp_all add: TouchScaleUpdate_json_def json_intros Message_Json_enums
      createBaseTouchScaleUpdate_def)

lemma TouchPanStart_json_table: "json_table TouchPanStart_json createBaseTouchPanStart"
  by (rule json_tableI)
    (simp_all add: TouchPanStart_json_def json_intros Message_Json_enums
      createBaseTouchPanStart_def)

lemma TouchPanUpdate_json_table: "json_table TouchPanUpdate_json createBaseTouchPanUpdate"
  by (rule json_tableI)
    (simp_all add: TouchPanUpdate_json_def json_intros Message_Json_enums
      createBaseTouchPanUpdate_def)

lemma TouchPanEnd_json_table: "json_table TouchPanEnd_json createBaseTouchPanEnd"
  by (rule json_tableI)
    (simp_all add: TouchPanEnd_json_def json_intros Message_Json_enums
      createBaseTouchPanEnd_def)

lemma TouchEvent_json_table: "json_table TouchEvent_json createBaseTouchEvent"
  by (rule json_tableI)
    (simp_all add: TouchEvent_json_def json_intros Message_Json_enums
      kind_law_msg [OF TouchScaleUpdate_json_table]
      kind_law_msg [OF TouchPanStart_json_table]
      kind_law_msg [OF TouchPanUpdate_json_table]
      kind_law_msg [OF TouchPanEnd_json_table]
      createBaseTouchEvent_def)

lemma PointerDeviceEvent_json_table: "json_table PointerDeviceEvent_json createBasePointerDeviceEvent"
  by (rule json_tableI)
    (simp_all add: PointerDeviceEvent_json_def json_intros Message_Json_enums
      kind_law_msg [OF TouchEvent_json_table]
      createBasePointerDeviceEvent_def)

lemma MouseEvent_json_table: "json_table MouseEvent_json createBaseMouseEvent"
  by (rule json_tableI)
    (simp_all add: MouseEvent_json_def json_intros Message_Json_enums
      createBaseMouseEvent_def)

lemma KeyEvent_json_table: "json_table KeyEvent_json createBaseKeyEvent"
  by (rule json_tableI)
    (simp_all add: KeyEvent_json_def json_intros Message_Json_enums
      createBaseKeyEvent_def)

lemma CursorData_json_table: "json_table CursorData_json createBaseCursorData"
  by (rule json_tableI)
    (simp_all add: CursorData_json_def json_intros Message_Json_enums
      createBaseCursorData_def)

lemma CursorPosition_json_table: "json_table CursorPosition_json createBaseCursorPosition"
  by (rule json_tableI)
    (simp_all add: CursorPosition_json_def json_intros Message_Json_enums
      createBaseCursorPosition_def)

lemma Hash_json_table: "json_table Hash_json createBaseHash"
  by (rule json_tableI)
    (simp_all add: Hash_json_def json_intros Message_Json_enums
      createBaseHash_def)

lemma Clipboard_json_table: "json_table Clipboard_json createBaseClipboard"
  by (rule json_tableI)
    (simp_all add: Clipboard_json_def json_intros Message_Json_enums
      createBaseClipboard_def)

lemma MultiClipboards_json_table: "json_table MultiClipboards_json createBaseMultiClipboards"
  by (rule json_tableI)
    (simp_all add: MultiClipboards_json_def json_intros Message_Json_enums
      kind_law_msg [OF Clipboard_json_table]
      createBaseMultiClipboards_def)

lemma FileEntry_json_table: "json_table FileEntry_json createBaseFileEntry"
  by (rule json_tableI)
    (simp_all add: FileEntry_json_def json_intros Message_Json_enums
      createBaseFileEntry_def)

lemma FileDirectory_json_table: "json_table FileDirectory_json createBaseFileDirectory"
  by (rule json_tableI)
    (simp_all add: FileDirectory_json_def json_intros Message_Json_enums
      kind_law_msg [OF FileEntry_json_table]
      createBaseFileDirectory_def)

lemma ReadDir_json_table: "json_table ReadDir_json createBaseReadDir"
  by (rule json_tableI)
    (simp_all add: ReadDir_json_def json_intros Message_Json_enums
      createBaseReadDir_def)

lemma ReadEmptyDirs_json_table: "json_table ReadEmptyDirs_json createBaseReadEmptyDirs"
  by (rule json_tableI)
    (simp_all add: ReadEmptyDirs_json_def json_intros Message_Json_enums
      createBaseReadEmptyDirs_def)

lemma ReadEmptyDirsResponse_json_table: "json_table ReadEmptyDirsResponse_json createBaseReadEmptyDirsResponse"
  by (rule json_tableI)
    (simp_all add: ReadEmptyDirsResponse_json_def json_intros Message_Json_enums
      kind_law_msg [OF FileDirectory_json_table]
      createBaseReadEmptyDirsResponse_def)

lemma ReadAllFiles_json_table: "json_table ReadAllFiles_json createBaseReadAllFiles"
  by (rule json_tableI)
    (simp_all add: ReadAllFiles_json_def json_intros Message_Json_enums
      createBaseReadAllFiles_def)

lemma FileRename_json_table: "json_table FileRename_json createBaseFileRename"
  by (rule json_tableI)
    (simp_all add: FileRename_json_def json_intros Message_Json_enums
      createBaseFileRename_def)

lemma FileTransferSendRequest_json_table: "json_table FileTransferSendRequest_json createBaseFileTransferSendRequest"
  by (rule json_tableI)
    (simp_all add: FileTransferSendRequest_json_def json_intros Message_Json_enums
      createBaseFileTransferSendRequest_def)

lemma FileTransferReceiveRequest_json_table: "json_table FileTransferReceiveRequest_json createBaseFileTransferReceiveRequest"
  by (rule json_tableI)
    (simp_all add: FileTransferReceiveRequest_json_def json_intros Message_Json_enums
      kind_law_msg [OF FileEntry_json_table]
      createBaseFileTransferReceiveRequest_def)

lemma FileDirCreate_json_table: "json_table FileDirCreate_json createBaseFileDirCreate"
  by (rule json_tableI)
    (simp_all add: FileDirCreate_json_def json_intros Message_Json_enums
      createBaseFileDirCreate_def)

lemma FileRemoveDir_json_table: "json_table FileRemoveDir_json createBaseFileRemoveDir"
  by (rule json_tableI)
    (simp_all add: FileRemoveDir_json_def json_intros Message_Json_enums
      createBaseFileRemoveDir_def)

lemma FileRemoveFile_json_table: "json_table FileRemoveFile_json createBaseFileRemoveFile"
  by (rule json_tableI)
    (simp_all add: FileRemoveFile_json_def json_intros Message_Json_enums
      createBaseFileRemoveFile_def)

lemma FileTransferCancel_json_table: "json_table FileTransferCancel_json createBaseFileTransferCancel"
  by (rule json_tableI)
    (simp_all add: FileTransferCancel_json_def json_intros Message_Json_enums
      createBaseFileTransferCancel_def)

lemma FileTransferSendConfirmRequest_json_table: "json_table FileTransferSendConfirmRequest_json createBaseFileTransferSendConfirmRequest"
  by (rule json_tableI)
    (simp_all add: FileTransferSendConfirmRequest_json_def json_intros Message_Json_enums
      createBaseFileTransferSendConfirmRequest_def)

lemma FileAction_json_table: "json_table FileAction_json createBaseFileAction"
  by (rule json_tableI)
    (simp_all add: FileAction_json_def json_intros Message_Json_enums
      kind_law_msg [OF ReadDir_json_table]
      kind_law_msg [OF FileTransferSendRequest_json_table]
      kind_law_msg [OF FileTransferReceiveRequest_json_table]
      kind_law_msg [OF FileDirCreate_json_table]
      kind_law_msg [OF FileRemoveDir_json_table]
      kind_law_msg [OF FileRemoveFile_json_table]
      kind_law_msg [OF ReadAllFiles_json_table]
      kind_law_msg [OF FileTransferCancel_json_table]
      kind_law_msg [OF FileTransferSendConfirmRequest_json_table]
      kind_law_msg [OF FileRename_json_table]
      kind_law_msg [OF ReadEmptyDirs_json_table]
      createBaseFileAction_def)

lemma FileTransferBlock_json_table: "json_table FileTransferBlock_json createBaseFileTransferBlock"
  by (rule json_tableI)
    (simp_all add: FileTransferBlock_json_def json_intros Message_Json_enums
      createBaseFileTransferBlock_def)

lemma FileTransferError_json_table: "json_table FileTransferError_json createBaseFileTransferError"
  by (rule json_tableI)
    (simp_all add: FileTransferError_json_def json_intros Message_Json_enums
      createBaseFileTransferError_def)

lemma FileTransferDone_json_table: "json_table FileTransferDone_json createBaseFileTransferDone"
  by (rule json_tableI)
    (simp_all add: FileTransferDone_json_def json_intros Message_Json_enums
      createBaseFileTransferDone_def)

lemma FileTransferDigest_json_table: "json_table FileTransferDigest_json createBaseFileTransferDigest"
  by (rule json_tableI)
    (simp_all add: FileTransferDigest_json_def json_intros Message_Json_enums
      createBaseFileTransferDigest_def)

lemma FileResponse_json_table: "json_table FileResponse_json createBaseFileResponse"
  by (rule json_tableI)
    (simp_all add: FileResponse_json_def json_intros Message_Json_enums
      kind_law_msg [OF FileDirectory_json_table]
      kind_law_msg [OF FileTransferBlock_json_table]
      kind_law_msg [OF FileTransferError_json_table]
      kind_law_msg [OF FileTransferDone_json_table]
      kind_law_msg [OF FileTransferDigest_json_table]
      kind_law_msg [OF ReadEmptyDirsResponse_json_table]
      createBaseFileResponse_def)

lemma CliprdrMonitorReady_json_table: "json_table CliprdrMonitorReady_json CliprdrMonitorReady"
proof (rule json_tableI)
  show "fold (\<lambda>f t. jf_put f s t) CliprdrMonitorReady_json CliprdrMonitorReady = s" for s
    by (cases s) (simp add: CliprdrMonitorReady_json_def)
qed (simp_all add: CliprdrMonitorReady_json_def)

lemma CliprdrFormat_json_table: "json_table CliprdrFormat_json createBaseCliprdrFormat"
  by (rule json_tableI)
    (simp_all add: CliprdrFormat_json_def json_intros Message_Json_enums
      createBaseCliprdrFormat_def)

lemma CliprdrServerFormatList_json_table: "json_table CliprdrServerFormatList_json createBaseCliprdrServerFormatList"
  by (rule json_tableI)
    (simp_all add: CliprdrServerFormatList_json_def json_intros Message_Json_enums
      kind_law_msg [OF CliprdrFormat_json_table]
      createBaseCliprdrServerFormatList_def)

lemma CliprdrServerFormatListResponse_json_table: "json_table CliprdrServerFormatListResponse_json createBaseCliprdrServerFormatListResponse"
  by (rule json_tableI)
    (simp_all add: CliprdrServerFormatListResponse_json_def json_intros Message_Json_enums
      createBaseCliprdrServerFormatListResponse_def)

lemma CliprdrServerFormatDataRequest_json_table: "json_table CliprdrServerFormatDataRequest_json createBaseCliprdrServerFormatDataRequest"
  by (rule json_tableI)
    (simp_all add: CliprdrServerFormatDataRequest_json_def json_intros Message_Json_enums
      createBaseCliprdrServerFormatDataRequest_def)

lemma CliprdrServerFormatDataResponse_json_table: "json_table CliprdrServerFormatDataResponse_json createBaseCliprdrServerFormatDataResponse"
  by (rule json_tableI)
    (simp_all add: CliprdrServerFormatDataResponse_json_def json_intros Message_Json_enums
      createBaseCliprdrServerFormatDataResponse_def)

lemma CliprdrFileContentsRequest_json_table: "json_table CliprdrFileContentsRequest_json createBaseCliprdrFileContentsRequest"
  by (rule json_tableI)
    (simp_all add: CliprdrFileContentsRequest_json_def json_intros Message_Json_enums
      createBaseCliprdrFileContentsRequest_def)

lemma CliprdrFileContentsResponse_json_table: "json_table CliprdrFileContentsResponse_json createBaseCliprdrFileContentsResponse"
  by (rule json_tableI)
    (simp_all add: CliprdrFileContentsResponse_json_def json_intros Message_Json_enums
      createBaseCliprdrFileContentsResponse_def)

lemma CliprdrTryEmpty_json_table: "json_table CliprdrTryEmpty_json CliprdrTryEmpty"
proof (rule json_tableI)
  show "fold (\<lambda>f t. jf_put f s t) CliprdrTryEmpty_json CliprdrTryEmpty = s" for s
    by (cases s) (simp add: CliprdrTryEmpty_json_def)
qed (simp_all add: CliprdrTryEmpty_json_def)

lemma Cliprdr_json_table: "json_table Cliprdr_json createBaseCliprdr"
  by (rule json_tableI)
    (simp_all add: Cliprdr_json_def json_intros Message_Json_enums
      kind_law_msg [OF CliprdrMonitorReady_json_table]
      kind_law_msg [OF CliprdrServerFormatList_json_table]
      kind_law_msg [OF CliprdrServerFormatListResponse_json_table]
      kind_law_msg [OF CliprdrServerFormatDataRequest_json_table]
      kind_law_msg [OF CliprdrServerFormatDataResponse_json_table]
      kind_law_msg [OF CliprdrFileContentsRequest_json_table]
      kind_law_msg [OF CliprdrFileContentsResponse_json_table]
      kind_law_msg [OF CliprdrTryEmpty_json_table]
      createBaseCliprdr_def)

lemma DisplayResolution_json_table: "json_table DisplayResolution_json createBaseDisplayResolution"
  by (rule json_tableI)
    (simp_all add: DisplayResolution_json_def json_intros Message_Json_enums
      kind_law_msg [OF Resolution_json_table]
      createBaseDisplayResolution_def)

lemma SwitchDisplay_json_table: "json_table SwitchDisplay_json createBaseSwitchDisplay"
  by (rule json_tableI)
    (simp_all add: SwitchDisplay_json_def json_intros Message_Json_enums
      kind_law_msg [OF SupportedResolutions_json_table]
      kind_law_msg [OF Resolution_json_table]
      createBaseSwitchDisplay_def)

lemma CaptureDisplays_json_table: "json_table CaptureDisplays_json createBaseCaptureDisplays"
  by (rule json_tableI)
    (simp_all add: CaptureDisplays_json_def json_intros Message_Json_enums
      createBaseCaptureDisplays_def)

lemma ToggleVirtualDisplay_json_table: "json_table ToggleVirtualDisplay_json createBaseToggleVirtualDisplay"
  by (rule json_tableI)
    (simp_all add: ToggleVirtualDisplay_json_def json_intros Message_Json_enums
      createBaseToggleVirtualDisplay_def)

lemma TogglePrivacyMode_json_table: "json_table TogglePrivacyMode_json createBaseTogglePrivacyMode"
  by (rule json_tableI)
    (simp_all add: TogglePrivacyMode_json_def json_intros Message_Json_enums
      createBaseTogglePrivacyMode_def)

lemma PermissionInfo_json_table: "json_table PermissionInfo_json createBasePermissionInfo"
  by (rule json_tableI)
    (simp_all add: PermissionInfo_json_def json_intros Message_Json_enums
      createBasePermissionInfo_def)

lemma TestDelay_json_table: "json_table TestDelay_json createBaseTestDelay"
  by (rule json_tableI)
    (simp_all add: TestDelay_json_def json_intros Message_Json_enums
      createBaseTestDelay_def)

lemma PublicKey_json_table: "json_table PublicKey_json createBasePublicKey"
  by (rule json_tableI)
    (simp_all add: PublicKey_json_def json_intros Message_Json_enums
      createBasePublicKey_def)

lemma SignedId_json_table: "json_table SignedId_json createBaseSignedId"
  by (rule json_tableI)
    (simp_all add: SignedId_json_def json_intros Message_Json_enums
      createBaseSignedId_def)

lemma AudioFormat_json_table: "json_table AudioFormat_json createBaseAudioFormat"
  by (rule json_tableI)
    (simp_all add: AudioFormat_json_def json_intros Message_Json_enums
      createBaseAudioFormat_def)

lemma AudioFrame_json_table: "json_table AudioFrame_json createBaseAudioFrame"
  by (rule json_tableI)
    (simp_all add: AudioFrame_json_def json_intros Message_Json_enums
      createBaseAudioFrame_def)

lemma MessageBox_json_table: "json_table MessageBox_json createBaseMessageBox"
  by (rule json_tableI)
    (simp_all add: MessageBox_json_def json_intros Message_Json_enums
      createBaseMessageBox_def)

lemma BackNotification_json_table: "json_table BackNotification_json createBaseBackNotification"
  by (rule json_tableI)
    (simp_all add: BackNotification_json_def json_intros Message_Json_enums
      createBaseBackNotification_def)

lemma ElevationRequestWithLogon_json_table: "json_table ElevationRequestWithLogon_json createBaseElevationRequestWithLogon"
  by (rule json_tableI)
    (simp_all add: ElevationRequestWithLogon_json_def json_intros Message_Json_enums
      createBaseElevationRequestWithLogon_def)

lemma ElevationRequest_json_table: "json_table ElevationRequest_json createBaseElevationRequest"
  by (rule json_tableI)
    (simp_all add: ElevationRequest_json_def json_intros Message_Json_enums
      kind_law_msg [OF ElevationRequestWithLogon_json_table]
      createBaseElevationRequest_def)

lemma SwitchSidesRequest_json_table: "json_table SwitchSidesRequest_json createBaseSwitchSidesRequest"
  by (rule json_tableI)
    (simp_all add: SwitchSidesRequest_json_def json_intros Message_Json_enums
      createBaseSwitchSidesRequest_def)

lemma SwitchSidesResponse_json_table: "json_table SwitchSidesResponse_json createBaseSwitchSidesResponse"
  by (rule json_tableI)
    (simp_all add: SwitchSidesResponse_json_def json_intros Message_Json_enums
      kind_law_msg [OF LoginRequest_json_table]
      createBaseSwitchSidesResponse_def)

lemma SwitchBack_json_table: "json_table SwitchBack_json SwitchBack"
proof (rule json_tableI)
  show "fold (\<lambda>f t. jf_put f s t) SwitchBack_json SwitchBack = s" for s
    by (cases s) (simp add: SwitchBack_json_def)
qed (simp_all add: SwitchBack_json_def)

lemma PluginRequest_json_table: "json_table PluginRequest_json createBasePluginRequest"
  by (rule json_tableI)
    (simp_all add: PluginRequest_json_def json_intros Message_Json_enums
      createBasePluginRequest_def)

lemma PluginFailure_json_table: "json_table PluginFailure_json createBasePluginFailure"
  by (rule json_tableI)
    (simp_all add: PluginFailure_json_def json_intros Message_Json_enums
      createBasePluginFailure_def)

lemma MessageQuery_json_table: "json_table MessageQuery_json createBaseMessageQuery"
  by (rule json_tableI)
    (simp_all add: MessageQuery_json_def json_intros Message_Json_enums
      createBaseMessageQuery_def)

lemma Misc_json_table: "json_table Misc_json createBaseMisc"
  by (rule json_tableI)
    (simp_all add: Misc_json_def json_intros Message_Json_enums
      kind_law_msg [OF ChatMessage_json_table]
      kind_law_msg [OF SwitchDisplay_json_table]
      kind_law_msg [OF PermissionInfo_json_table]
      kind_law_msg [OF OptionMessage_json_table]
      kind_law_msg [OF AudioFormat_json_table]
      kind_law_msg [OF BackNotification_json_table]
      kind_law_msg [OF ElevationRequest_json_table]
      kind_law_msg [OF SwitchSidesRequest_json_table]
      kind_law_msg [OF SwitchBack_json_table]
      kind_law_msg [OF Resolution_json_table]
      kind_law_msg [OF PluginRequest_json_table]
      kind_law_msg [OF PluginFailure_json_table]
      kind_law_msg [OF CaptureDisplays_json_table]
      kind_law_msg [OF ToggleVirtualDisplay_json_table]
      kind_law_msg [OF TogglePrivacyMode_json_table]
      kind_law_msg [OF SupportedEncoding_json_table]
      kind_law_msg [OF DisplayResolution_json_table]
      kind_law_msg [OF MessageQuery_json_table]
      createBaseMisc_def)

lemma VoiceCallRequest_json_table: "json_table VoiceCallRequest_json createBaseVoiceCallRequest"
  by (rule json_tableI)
    (simp_all add: VoiceCallRequest_json_def json_intros Message_Json_enums
      createBaseVoiceCallRequest_def)

lemma VoiceCallResponse_json_table: "json_table VoiceCallResponse_json createBaseVoiceCallResponse"
  by (rule json_tableI)
    (simp_all add: VoiceCallResponse_json_def json_intros Message_Json_enums
      createBaseVoiceCallResponse_def)

lemma Message_json_table: "json_table Message_json createBaseMessage"
  by (rule json_tableI)
    (simp_all add: Message_json_def json_intros Message_Json_enums
      kind_law_msg [OF SignedId_json_table]
      kind_law_msg [OF PublicKey_json_table]
      kind_law_msg [OF TestDelay_json_table]
      kind_law_msg [OF VideoFrame_json_table]
      kind_law_msg [OF LoginRequest_json_table]
      kind_law_msg [OF LoginResponse_json_table]
      kind_law_msg [OF Hash_json_table]
      kind_law_msg [OF MouseEvent_json_table]
      kind_law_msg [OF AudioFrame_json_table]
      kind_law_msg [OF CursorData_json_table]
      kind_law_msg [OF CursorPosition_json_table]
      kind_law_msg [OF KeyEvent_json_table]
      kind_law_msg [OF Clipboard_json_table]
      kind_law_msg [OF FileAction_json_table]
      kind_law_msg [OF FileResponse_json_table]
      kind_law_msg [OF Misc_json_table]
      kind_law_msg [OF Cliprdr_json_table]
      kind_law_msg [OF MessageBox_json_table]
      kind_law_msg [OF SwitchSidesResponse_json_table]
      kind_law_msg [OF VoiceCallRequest_json_table]
      kind_law_msg [OF VoiceCallResponse_json_table]
      kind_law_msg [OF PeerInfo_json_table]
      kind_law_msg [OF PointerDeviceEvent_json_table]
      kind_law_msg [OF Auth2FA_json_table]
      kind_law_msg [OF MultiClipboards_json_table]
      createBaseMessage_def)

lemma Message_json_roundtrip:
  "json_ok Message_json m \<Longrightarrow> Message_fromJSON (Message_toJSON m) = Some m"
  "json_ok Message_json m \<Longrightarrow> Message_fromPartial (partial_object (\<lambda>_. True) Message_json m) = Some m"
  by (simp_all add: Message_fromJSON_def Message_toJSON_def Message_fromPartial_def table_json [OF Message_json_table] table_whole [OF Message_json_table])

end
