(* ===== verification/Rendezvous.thy ===== *)
theory Rendezvous
  imports Prelude
begin

text \<open>
  The data of the rendezvous protocol, from \<open>flutter/js/src/proto/rendezvous.ts\<close>, in the
  same form as the peer protocol's messages.
\<close>

section \<open>Enumerations\<close>

definition ConnType_enum :: "(string \<times> int) list" where
  "ConnType_enum = [(''DEFAULT_CONN'', 0),
     (''FILE_TRANSFER'', 1),
     (''PORT_FORWARD'', 2),
     (''RDP'', 3),
     (''UNRECOGNIZED'', - 1)]"

definition NatType_enum :: "(string \<times> int) list" where
  "NatType_enum = [(''UNKNOWN_NAT'', 0),
     (''ASYMMETRIC'', 1),
     (''SYMMETRIC'', 2),
     (''UNRECOGNIZED'', - 1)]"

definition RegisterPkResponse_Result_enum :: "(string \<times> int) list" where
  "RegisterPkResponse_Result_enum = [(''OK'', 0),
     (''UUID_MISMATCH'', 2),
     (''ID_EXISTS'', 3),
     (''TOO_FREQUENT'', 4),
     (''INVALID_ID_FORMAT'', 5),
     (''NOT_SUPPORT'', 6),
     (''SERVER_ERROR'', 7),
     (''UNRECOGNIZED'', - 1)]"

definition PunchHoleResponse_Failure_enum :: "(string \<times> int) list" where
  "PunchHoleResponse_Failure_enum = [(''ID_NOT_EXIST'', 0),
     (''OFFLINE'', 2),
     (''LICENSE_MISMATCH'', 3),
     (''LICENSE_OVERUSE'', 4),
     (''UNRECOGNIZED'', - 1)]"

section \<open>Message records\<close>

record RegisterPeer =
  RegisterPeer_id :: "string"
  RegisterPeer_serial :: "int"

record RegisterPeerResponse =
  RegisterPeerResponse_request_pk :: "bool"

record PunchHoleRequest =
  PunchHoleRequest_id :: "string"
  PunchHoleRequest_nat_type :: "int"
  PunchHoleRequest_licence_key :: "string"
  PunchHoleRequest_conn_type :: "int"
  PunchHoleRequest_token :: "string"
  PunchHoleRequest_version :: "string"

record PunchHole =
  PunchHole_socket_addr :: "bytes"
  PunchHole_relay_server :: "string"
  PunchHole_nat_type :: "int"

record TestNatRequest =
  TestNatRequest_serial :: "int"

record ConfigUpdate =
  ConfigUpdate_serial :: "int"
  ConfigUpdate_rendezvous_servers :: "string list"

record TestNatResponse =
  TestNatResponse_port :: "int"
  TestNatResponse_cu :: "ConfigUpdate option"

record PunchHoleSent =
  PunchHoleSent_socket_addr :: "bytes"
  PunchHoleSent_id :: "string"
  PunchHoleSent_relay_server :: "string"
  PunchHoleSent_nat_type :: "int"
  PunchHoleSent_version :: "string"

record RegisterPk =
  RegisterPk_id :: "string"
  RegisterPk_uuid :: "bytes"
  RegisterPk_pk :: "bytes"
  RegisterPk_old_id :: "string"

record RegisterPkResponse =
  RegisterPkResponse_result :: "int"
  RegisterPkResponse_keep_alive :: "int"

record PunchHoleResponse =
  PunchHoleResponse_socket_addr :: "bytes"
  PunchHoleResponse_pk :: "bytes"
  PunchHoleResponse_failure :: "int"
  PunchHoleResponse_relay_server :: "string"
  PunchHoleResponse_nat_type :: "int option"
  PunchHoleResponse_is_local :: "bool option"
  PunchHoleResponse_other_failure :: "string"
  PunchHoleResponse_feedback :: "int"

record RequestRelay =
  RequestRelay_id :: "string"
  RequestRelay_uuid :: "string"
  RequestRelay_socket_addr :: "bytes"
  RequestRelay_relay_server :: "string"
  RequestRelay_secure :: "bool"
  RequestRelay_licence_key :: "string"
  RequestRelay_conn_type :: "int"
  RequestRelay_token :: "string"

record RelayResponse =
  RelayResponse_socket_addr :: "bytes"
  RelayResponse_uuid :: "string"
  RelayResponse_relay_server :: "string"
  RelayResponse_id :: "string option"
  RelayResponse_pk :: "bytes option"
  RelayResponse_refuse_reason :: "string"
  RelayResponse_version :: "string"
  RelayResponse_feedback :: "int"

record SoftwareUpdate =
  SoftwareUpdate_url :: "string"

record FetchLocalAddr =
  FetchLocalAddr_socket_addr :: "bytes"
  FetchLocalAddr_relay_server :: "string"

record LocalAddr =
  LocalAddr_socket_addr :: "bytes"
  LocalAddr_local_addr :: "bytes"
  LocalAddr_relay_server :: "string"
  LocalAddr_id :: "string"
  LocalAddr_version :: "string"

record PeerDiscovery =
  PeerDiscovery_cmd :: "string"
  PeerDiscovery_mac :: "string"
  PeerDiscovery_id :: "string"
  PeerDiscovery_username :: "string"
  PeerDiscovery_hostname :: "string"
  PeerDiscovery_platform :: "string"
  PeerDiscovery_misc :: "string"

record OnlineRequest =
  OnlineRequest_id :: "string"
  OnlineRequest_peers :: "string list"

record OnlineResponse =
  OnlineResponse_states :: "bytes"

record KeyExchange =
  KeyExchange_keys :: "bytes list"

record HealthCheck =
  HealthCheck_token :: "string"

record RendezvousMessage =
  RendezvousMessage_register_peer :: "RegisterPeer option"
  RendezvousMessage_register_peer_response :: "RegisterPeerResponse option"
  RendezvousMessage_punch_hole_request :: "PunchHoleRequest option"
  RendezvousMessage_punch_hole :: "PunchHole option"
  RendezvousMessage_punch_hole_sent :: "PunchHoleSent option"
  RendezvousMessage_punch_hole_response :: "PunchHoleResponse option"
  RendezvousMessage_fetch_local_addr :: "FetchLocalAddr option"
  RendezvousMessage_local_addr :: "LocalAddr option"
  RendezvousMessage_configure_update :: "ConfigUpdate option"
  RendezvousMessage_register_pk :: "RegisterPk option"
  RendezvousMessage_register_pk_response :: "RegisterPkResponse option"
  RendezvousMessage_software_update :: "SoftwareUpdate option"
  RendezvousMessage_request_relay :: "RequestRelay option"
  RendezvousMessage_relay_response :: "RelayResponse option"
  RendezvousMessage_test_nat_request :: "TestNatRequest option"
  RendezvousMessage_test_nat_response :: "TestNatResponse option"
  RendezvousMessage_peer_discovery :: "PeerDiscovery option"
  RendezvousMessage_online_request :: "OnlineRequest option"
  RendezvousMessage_online_response :: "OnlineResponse option"
  RendezvousMessage_key_exchange :: "KeyExchange option"
  RendezvousMessage_hc :: "HealthCheck option"

section \<open>Default messages\<close>

definition createBaseRegisterPeer :: RegisterPeer where
  "createBaseRegisterPeer = \<lparr>RegisterPeer_id = '''', RegisterPeer_serial = 0\<rparr>"

definition createBaseRegisterPeerResponse :: RegisterPeerResponse where
  "createBaseRegisterPeerResponse = \<lparr>RegisterPeerResponse_request_pk = False\<rparr>"

definition createBasePunchHoleRequest :: PunchHoleRequest where
  "createBasePunchHoleRequest = \<lparr>PunchHoleRequest_id = '''', PunchHoleRequest_nat_type = 0,
     PunchHoleRequest_licence_key = '''', PunchHoleRequest_conn_type = 0,
     PunchHoleRequest_token = '''', PunchHoleRequest_version = ''''\<rparr>"

definition createBasePunchHole :: PunchHole where
  "createBasePunchHole = \<lparr>PunchHole_socket_addr = [], PunchHole_relay_server = '''',
     PunchHole_nat_type = 0\<rparr>"

definition createBaseTestNatRequest :: TestNatRequest where
  "createBaseTestNatRequest = \<lparr>TestNatRequest_serial = 0\<rparr>"

definition createBaseConfigUpdate :: ConfigUpdate where
  "createBaseConfigUpdate = \<lparr>ConfigUpdate_serial = 0, ConfigUpdate_rendezvous_servers = []\<rparr>"

definition createBaseTestNatResponse :: TestNatResponse where
  "createBaseTestNatResponse = \<lparr>TestNatResponse_port = 0, TestNatResponse_cu = None\<rparr>"

definition createBasePunchHoleSent :: PunchHoleSent where
  "createBasePunchHoleSent = \<lparr>PunchHoleSent_socket_addr = [], PunchHoleSent_id = '''',
     PunchHoleSent_relay_server = '''', PunchHoleSent_nat_type = 0,
     PunchHoleSent_version = ''''\<rparr>"

definition createBaseRegisterPk :: RegisterPk where
  "createBaseRegisterPk = \<lparr>RegisterPk_id = '''', RegisterPk_uuid = [], RegisterPk_pk = [],
     RegisterPk_old_id = ''''\<rparr>"

definition createBaseRegisterPkResponse :: RegisterPkResponse where
  "createBaseRegisterPkResponse = \<lparr>RegisterPkResponse_result = 0,
     RegisterPkResponse_keep_alive = 0\<rparr>"

definition createBasePunchHoleResponse :: PunchHoleResponse where
  "createBasePunchHoleResponse = \<lparr>PunchHoleResponse_socket_addr = [],
     PunchHoleResponse_pk = [], PunchHoleResponse_failure = 0,
     PunchHoleResponse_relay_server = '''', PunchHoleResponse_nat_type = None,
     PunchHoleResponse_is_local = None, PunchHoleResponse_other_failure = '''',
     PunchHoleResponse_feedback = 0\<rparr>"

definition createBaseRequestRelay :: RequestRelay where
  "createBaseRequestRelay = \<lparr>RequestRelay_id = '''', RequestRelay_uuid = '''',
     RequestRelay_socket_addr = [], RequestRelay_relay_server = '''', RequestRelay_secure = False,
     RequestRelay_licence_key = '''', RequestRelay_conn_type = 0, RequestRelay_token = ''''\<rparr>"

definition createBaseRelayResponse :: RelayResponse where
  "createBaseRelayResponse = \<lparr>RelayResponse_socket_addr = [], RelayResponse_uuid = '''',
     RelayResponse_relay_server = '''', RelayResponse_id = None, RelayResponse_pk = None,
     RelayResponse_refuse_reason = '''', RelayResponse_version = '''',
     RelayResponse_feedback = 0\<rparr>"

definition createBaseSoftwareUpdate :: SoftwareUpdate where
  "createBaseSoftwareUpdate = \<lparr>SoftwareUpdate_url = ''''\<rparr>"

definition createBaseFetchLocalAddr :: FetchLocalAddr where
  "createBaseFetchLocalAddr = \<lparr>FetchLocalAddr_socket_addr = [],
     FetchLocalAddr_relay_server = ''''\<rparr>"

definition createBaseLocalAddr :: LocalAddr where
  "createBaseLocalAddr = \<lparr>LocalAddr_socket_addr = [], LocalAddr_local_addr = [],
     LocalAddr_relay_server = '''', LocalAddr_id = '''', LocalAddr_version = ''''\<rparr>"

definition createBasePeerDiscovery :: PeerDiscovery where
  "createBasePeerDiscovery = \<lparr>PeerDiscovery_cmd = '''', PeerDiscovery_mac = '''',
     PeerDiscovery_id = '''', PeerDiscovery_username = '''', PeerDiscovery_hostname = '''',
     PeerDiscovery_platform = '''', PeerDiscovery_misc = ''''\<rparr>"

definition createBaseOnlineRequest :: OnlineRequest where
  "createBaseOnlineRequest = \<lparr>OnlineRequest_id = '''', OnlineRequest_peers = []\<rparr>"

definition createBaseOnlineResponse :: OnlineResponse where
  "createBaseOnlineResponse = \<lparr>OnlineResponse_states = []\<rparr>"

definition createBaseKeyExchange :: KeyExchange where
  "createBaseKeyExchange = \<lparr>KeyExchange_keys = []\<rparr>"

definition createBaseHealthCheck :: HealthCheck where
  "createBaseHealthCheck = \<lparr>HealthCheck_token = ''''\<rparr>"

definition createBaseRendezvousMessage :: RendezvousMessage where
  "createBaseRendezvousMessage = \<lparr>RendezvousMessage_register_peer = None,
     RendezvousMessage_register_peer_response = None, RendezvousMessage_punch_hole_request = None,
     RendezvousMessage_punch_hole = None, RendezvousMessage_punch_hole_sent = None,
     RendezvousMessage_punch_hole_response = None, RendezvousMessage_fetch_local_addr = None,
     RendezvousMessage_local_addr = None, RendezvousMessage_configure_update = None,
     RendezvousMessage_register_pk = None, RendezvousMessage_register_pk_response = None,
     RendezvousMessage_software_update = None, RendezvousMessage_request_relay = None,
     RendezvousMessage_relay_response = None, RendezvousMessage_test_nat_request = None,
     RendezvousMessage_test_nat_response = None, RendezvousMessage_peer_discovery = None,
     RendezvousMessage_online_request = None, RendezvousMessage_online_response = None,
     RendezvousMessage_key_exchange = None, RendezvousMessage_hc = None\<rparr>"

lemmas createBase_rendezvous_defs [record_defs] =
  createBaseRegisterPeer_def
  createBaseRegisterPeerResponse_def
  createBasePunchHoleRequest_def
  createBasePunchHole_def
  createBaseTestNatRequest_def
  createBaseConfigUpdate_def
  createBaseTestNatResponse_def
  createBasePunchHoleSent_def
  createBaseRegisterPk_def
  createBaseRegisterPkResponse_def
  createBasePunchHoleResponse_def
  createBaseRequestRelay_def
  createBaseRelayResponse_def
  createBaseSoftwareUpdate_def
  createBaseFetchLocalAddr_def
  createBaseLocalAddr_def
  createBasePeerDiscovery_def
  createBaseOnlineRequest_def
  createBaseOnlineResponse_def
  createBaseKeyExchange_def
  createBaseHealthCheck_def
  createBaseRendezvousMessage_def

end
