(* ===== verification/Rendezvous_Json.thy ===== *)
theory Rendezvous_Json
  imports Rendezvous Json_Codec
begin

text \<open>
  \<open>toJSON\<close>, \<open>fromJSON\<close> and \<open>fromPartial\<close> of every message and enumeration of
  \<open>flutter/js/src/proto/rendezvous.ts\<close>, in the source's order of fields, and that they read back
  what was written.
\<close>

section \<open>Enumerations\<close>

definition ConnType_fromJSON :: "jval \<Rightarrow> int" where
  "ConnType_fromJSON object = enum_fromJSON ConnType_enum object"

definition ConnType_toJSON :: "int \<Rightarrow> jval" where
  "ConnType_toJSON object = enum_toJSON ConnType_enum object"

definition NatType_fromJSON :: "jval \<Rightarrow> int" where
  "NatType_fromJSON object = enum_fromJSON NatType_enum object"

definition NatType_toJSON :: "int \<Rightarrow> jval" where
  "NatType_toJSON object = enum_toJSON NatType_enum object"

definition RegisterPkResponse_Result_fromJSON :: "jval \<Rightarrow> int" where
  "RegisterPkResponse_Result_fromJSON object = enum_fromJSON RegisterPkResponse_Result_enum object"

definition RegisterPkResponse_Result_toJSON :: "int \<Rightarrow> jval" where
  "RegisterPkResponse_Result_toJSON object = enum_toJSON RegisterPkResponse_Result_enum object"

definition PunchHoleResponse_Failure_fromJSON :: "jval \<Rightarrow> int" where
  "PunchHoleResponse_Failure_fromJSON object = enum_fromJSON PunchHoleResponse_Failure_enum object"

definition PunchHoleResponse_Failure_toJSON :: "int \<Rightarrow> jval" where
  "PunchHoleResponse_Failure_toJSON object = enum_toJSON PunchHoleResponse_Failure_enum object"

section \<open>Messages\<close>

definition RegisterPeer_json :: "RegisterPeer jfield list" where
  "RegisterPeer_json =
     [j_field ''id'' j_string '''' RegisterPeer_id RegisterPeer_id_update,
      j_field ''serial'' j_int 0 RegisterPeer_serial RegisterPeer_serial_update]"

definition RegisterPeer_fromJSON :: "jval \<Rightarrow> RegisterPeer option" where
  "RegisterPeer_fromJSON object = fromJSON RegisterPeer_json createBaseRegisterPeer object"

definition RegisterPeer_toJSON :: "RegisterPeer \<Rightarrow> jval" where
  "RegisterPeer_toJSON message = toJSON RegisterPeer_json message"

definition RegisterPeer_fromPartial :: "jval \<Rightarrow> RegisterPeer option" where
  "RegisterPeer_fromPartial object = fromPartial RegisterPeer_json createBaseRegisterPeer object"

definition RegisterPeerResponse_json :: "RegisterPeerResponse jfield list" where
  "RegisterPeerResponse_json =
     [j_field ''request_pk'' j_bool False RegisterPeerResponse_request_pk RegisterPeerResponse_request_pk_update]"

definition RegisterPeerResponse_fromJSON :: "jval \<Rightarrow> RegisterPeerResponse option" where
  "RegisterPeerResponse_fromJSON object = fromJSON RegisterPeerResponse_json createBaseRegisterPeerResponse object"

definition RegisterPeerResponse_toJSON :: "RegisterPeerResponse \<Rightarrow> jval" where
  "RegisterPeerResponse_toJSON message = toJSON RegisterPeerResponse_json message"

definition RegisterPeerResponse_fromPartial :: "jval \<Rightarrow> RegisterPeerResponse option" where
  "RegisterPeerResponse_fromPartial object = fromPartial RegisterPeerResponse_json createBaseRegisterPeerResponse object"

definition PunchHoleRequest_json :: "PunchHoleRequest jfield list" where
  "PunchHoleRequest_json =
     [j_field ''id'' j_string '''' PunchHoleRequest_id PunchHoleRequest_id_update,
      j_field ''nat_type'' (j_enum NatType_enum) 0 PunchHoleRequest_nat_type PunchHoleRequest_nat_type_update,
      j_field ''licence_key'' j_string '''' PunchHoleRequest_licence_key PunchHoleRequest_licence_key_update,
      j_field ''conn_type'' (j_enum ConnType_enum) 0 PunchHoleRequest_conn_type PunchHoleRequest_conn_type_update,
      j_field ''token'' j_string '''' PunchHoleRequest_token PunchHoleRequest_token_update,
      j_field ''version'' j_string '''' PunchHoleRequest_version PunchHoleRequest_version_update]"

definition PunchHoleRequest_fromJSON :: "jval \<Rightarrow> PunchHoleRequest option" where
  "PunchHoleRequest_fromJSON object = fromJSON PunchHoleRequest_json createBasePunchHoleRequest object"

definition PunchHoleRequest_toJSON :: "PunchHoleRequest \<Rightarrow> jval" where
  "PunchHoleRequest_toJSON message = toJSON PunchHoleRequest_json message"

definition PunchHoleRequest_fromPartial :: "jval \<Rightarrow> PunchHoleRequest option" where
  "PunchHoleRequest_fromPartial object = fromPartial PunchHoleRequest_json createBasePunchHoleRequest object"

definition PunchHole_json :: "PunchHole jfield list" where
  "PunchHole_json =
     [j_field ''socket_addr'' j_bytes [] PunchHole_socket_addr PunchHole_socket_addr_update,
      j_field ''relay_server'' j_string '''' PunchHole_relay_server PunchHole_relay_server_update,
      j_field ''nat_type'' (j_enum NatType_enum) 0 PunchHole_nat_type PunchHole_nat_type_update]"

definition PunchHole_fromJSON :: "jval \<Rightarrow> PunchHole option" where
  "PunchHole_fromJSON object = fromJSON PunchHole_json createBasePunchHole object"

definition PunchHole_toJSON :: "PunchHole \<Rightarrow> jval" where
  "PunchHole_toJSON message = toJSON PunchHole_json message"

definition PunchHole_fromPartial :: "jval \<Rightarrow> PunchHole option" where
  "PunchHole_fromPartial object = fromPartial PunchHole_json createBasePunchHole object"

definition TestNatRequest_json :: "TestNatRequest jfield list" where
  "TestNatRequest_json =
     [j_field ''serial'' j_int 0 TestNatRequest_serial TestNatRequest_serial_update]"

definition TestNatRequest_fromJSON :: "jval \<Rightarrow> TestNatRequest option" where
  "TestNatRequest_fromJSON object = fromJSON TestNatRequest_json createBaseTestNatRequest object"

definition TestNatRequest_toJSON :: "TestNatRequest \<Rightarrow> jval" where
  "TestNatRequest_toJSON message = toJSON TestNatRequest_json message"

definition TestNatRequest_fromPartial :: "jval \<Rightarrow> TestNatRequest option" where
  "TestNatRequest_fromPartial object = fromPartial TestNatRequest_json createBaseTestNatRequest object"

definition ConfigUpdate_json :: "ConfigUpdate jfield list" where
  "ConfigUpdate_json =
     [j_field ''serial'' j_int 0 ConfigUpdate_serial ConfigUpdate_serial_update,
      j_rep ''rendezvous_servers'' j_string ConfigUpdate_rendezvous_servers ConfigUpdate_rendezvous_servers_update]"

definition ConfigUpdate_fromJSON :: "jval \<Rightarrow> ConfigUpdate option" where
  "ConfigUpdate_fromJSON object = fromJSON ConfigUpdate_json createBaseConfigUpdate object"

definition ConfigUpdate_toJSON :: "ConfigUpdate \<Rightarrow> jval" where
  "ConfigUpdate_toJSON message = toJSON ConfigUpdate_json message"

definition ConfigUpdate_fromPartial :: "jval \<Rightarrow> ConfigUpdate option" where
  "ConfigUpdate_fromPartial object = fromPartial ConfigUpdate_json createBaseConfigUpdate object"

definition TestNatResponse_json :: "TestNatResponse jfield list" where
  "TestNatResponse_json =
     [j_field ''port'' j_int 0 TestNatResponse_port TestNatResponse_port_update,
      j_opt ''cu'' (j_msg ConfigUpdate_json createBaseConfigUpdate) TestNatResponse_cu TestNatResponse_cu_update]"

definition TestNatResponse_fromJSON :: "jval \<Rightarrow> TestNatResponse option" where
  "TestNatResponse_fromJSON object = fromJSON TestNatResponse_json createBaseTestNatResponse object"

definition TestNatResponse_toJSON :: "TestNatResponse \<Rightarrow> jval" where
  "TestNatResponse_toJSON message = toJSON TestNatResponse_json message"

definition TestNatResponse_fromPartial :: "jval \<Rightarrow> TestNatResponse option" where
  "TestNatResponse_fromPartial object = fromPartial TestNatResponse_json createBaseTestNatResponse object"

definition PunchHoleSent_json :: "PunchHoleSent jfield list" where
  "PunchHoleSent_json =
     [j_field ''socket_addr'' j_bytes [] PunchHoleSent_socket_addr PunchHoleSent_socket_addr_update,
      j_field ''id'' j_string '''' PunchHoleSent_id PunchHoleSent_id_update,
      j_field ''relay_server'' j_string '''' PunchHoleSent_relay_server PunchHoleSent_relay_server_update,
      j_field ''nat_type'' (j_enum NatType_enum) 0 PunchHoleSent_nat_type PunchHoleSent_nat_type_update,
      j_field ''version'' j_string '''' PunchHoleSent_version PunchHoleSent_version_update]"

definition PunchHoleSent_fromJSON :: "jval \<Rightarrow> PunchHoleSent option" where
  "PunchHoleSent_fromJSON object = fromJSON PunchHoleSent_json createBasePunchHoleSent object"

definition PunchHoleSent_toJSON :: "PunchHoleSent \<Rightarrow> jval" where
  "PunchHoleSent_toJSON message = toJSON PunchHoleSent_json message"

definition PunchHoleSent_fromPartial :: "jval \<Rightarrow> PunchHoleSent option" where
  "PunchHoleSent_fromPartial object = fromPartial PunchHoleSent_json createBasePunchHoleSent object"

definition RegisterPk_json :: "RegisterPk jfield list" where
  "RegisterPk_json =
     [j_field ''id'' j_string '''' RegisterPk_id RegisterPk_id_update,
      j_field ''uuid'' j_bytes [] RegisterPk_uuid RegisterPk_uuid_update,
      j_field ''pk'' j_bytes [] RegisterPk_pk RegisterPk_pk_update,
      j_field ''old_id'' j_string '''' RegisterPk_old_id RegisterPk_old_id_update]"

definition RegisterPk_fromJSON :: "jval \<Rightarrow> RegisterPk option" where
  "RegisterPk_fromJSON object = fromJSON RegisterPk_json createBaseRegisterPk object"

definition RegisterPk_toJSON :: "RegisterPk \<Rightarrow> jval" where
  "RegisterPk_toJSON message = toJSON RegisterPk_json message"

definition RegisterPk_fromPartial :: "jval \<Rightarrow> RegisterPk option" where
  "RegisterPk_fromPartial object = fromPartial RegisterPk_json createBaseRegisterPk object"

definition RegisterPkResponse_json :: "RegisterPkResponse jfield list" where
  "RegisterPkResponse_json =
     [j_field ''result'' (j_enum RegisterPkResponse_Result_enum) 0 RegisterPkResponse_result RegisterPkResponse_result_update,
      j_field ''keep_alive'' j_int 0 RegisterPkResponse_keep_alive RegisterPkResponse_keep_alive_update]"

definition RegisterPkResponse_fromJSON :: "jval \<Rightarrow> RegisterPkResponse option" where
  "RegisterPkResponse_fromJSON object = fromJSON RegisterPkResponse_json createBaseRegisterPkResponse object"

definition RegisterPkResponse_toJSON :: "RegisterPkResponse \<Rightarrow> jval" where
  "RegisterPkResponse_toJSON message = toJSON RegisterPkResponse_json message"

definition RegisterPkResponse_fromPartial :: "jval \<Rightarrow> RegisterPkResponse option" where
  "RegisterPkResponse_fromPartial object = fromPartial RegisterPkResponse_json createBaseRegisterPkResponse object"

definition PunchHoleResponse_json :: "PunchHoleResponse jfield list" where
  "PunchHoleResponse_json =
     [j_field ''socket_addr'' j_bytes [] PunchHoleResponse_socket_addr PunchHoleResponse_socket_addr_update,
      j_field ''pk'' j_bytes [] PunchHoleResponse_pk PunchHoleResponse_pk_update,
      j_field ''failure'' (j_enum PunchHoleResponse_Failure_enum) 0 PunchHoleResponse_failure PunchHoleResponse_failure_update,
      j_field ''relay_server'' j_string '''' PunchHoleResponse_relay_server PunchHoleResponse_relay_server_update,
      j_opt ''nat_type'' (j_enum NatType_enum) PunchHoleResponse_nat_type PunchHoleResponse_nat_type_update,
      j_opt ''is_local'' j_bool PunchHoleResponse_is_local PunchHoleResponse_is_local_update,
      j_field ''other_failure'' j_string '''' PunchHoleResponse_other_failure PunchHoleResponse_other_failure_update,
      j_field ''feedback'' j_int 0 PunchHoleResponse_feedback PunchHoleResponse_feedback_update]"

definition PunchHoleResponse_fromJSON :: "jval \<Rightarrow> PunchHoleResponse option" where
  "PunchHoleResponse_fromJSON object = fromJSON PunchHoleResponse_json createBasePunchHoleResponse object"

definition PunchHoleResponse_toJSON :: "PunchHoleResponse \<Rightarrow> jval" where
  "PunchHoleResponse_toJSON message = toJSON PunchHoleResponse_json message"

definition PunchHoleResponse_fromPartial :: "jval \<Rightarrow> PunchHoleResponse option" where
  "PunchHoleResponse_fromPartial object = fromPartial PunchHoleResponse_json createBasePunchHoleResponse object"

definition RequestRelay_json :: "RequestRelay jfield list" where
  "RequestRelay_json =
     [j_field ''id'' j_string '''' RequestRelay_id RequestRelay_id_update,
      j_field ''uuid'' j_string '''' RequestRelay_uuid RequestRelay_uuid_update,
      j_field ''socket_addr'' j_bytes [] RequestRelay_socket_addr RequestRelay_socket_addr_update,
      j_field ''relay_server'' j_string '''' RequestRelay_relay_server RequestRelay_relay_server_update,
      j_field ''secure'' j_bool False RequestRelay_secure RequestRelay_secure_update,
      j_field ''licence_key'' j_string '''' RequestRelay_licence_key RequestRelay_licence_key_update,
      j_field ''conn_type'' (j_enum ConnType_enum) 0 RequestRelay_conn_type RequestRelay_conn_type_update,
      j_field ''token'' j_string '''' RequestRelay_token RequestRelay_token_update]"

definition RequestRelay_fromJSON :: "jval \<Rightarrow> RequestRelay option" where
  "RequestRelay_fromJSON object = fromJSON RequestRelay_json createBaseRequestRelay object"

definition RequestRelay_toJSON :: "RequestRelay \<Rightarrow> jval" where
  "RequestRelay_toJSON message = toJSON RequestRelay_json message"

definition RequestRelay_fromPartial :: "jval \<Rightarrow> RequestRelay option" where
  "RequestRelay_fromPartial object = fromPartial RequestRelay_json createBaseRequestRelay object"

definition RelayResponse_json :: "RelayResponse jfield list" where
  "RelayResponse_json =
     [j_field ''socket_addr'' j_bytes [] RelayResponse_socket_addr RelayResponse_socket_addr_update,
      j_field ''uuid'' j_string '''' RelayResponse_uuid RelayResponse_uuid_update,
      j_field ''relay_server'' j_string '''' RelayResponse_relay_server RelayResponse_relay_server_update,
      j_opt ''id'' j_string RelayResponse_id RelayResponse_id_update,
      j_opt ''pk'' j_bytes RelayResponse_pk RelayResponse_pk_update,
      j_field ''refuse_reason'' j_string '''' RelayResponse_refuse_reason RelayResponse_refuse_reason_update,
      j_field ''version'' j_string '''' RelayResponse_version RelayResponse_version_update,
      j_field ''feedback'' j_int 0 RelayResponse_feedback RelayResponse_feedback_update]"

definition RelayResponse_fromJSON :: "jval \<Rightarrow> RelayResponse option" where
  "RelayResponse_fromJSON object = fromJSON RelayResponse_json createBaseRelayResponse object"

definition RelayResponse_toJSON :: "RelayResponse \<Rightarrow> jval" where
  "RelayResponse_toJSON message = toJSON RelayResponse_json message"

definition RelayResponse_fromPartial :: "jval \<Rightarrow> RelayResponse option" where
  "RelayResponse_fromPartial object = fromPartial RelayResponse_json createBaseRelayResponse object"

definition SoftwareUpdate_json :: "SoftwareUpdate jfield list" where
  "SoftwareUpdate_json =
     [j_field ''url'' j_string '''' SoftwareUpdate_url SoftwareUpdate_url_update]"

definition SoftwareUpdate_fromJSON :: "jval \<Rightarrow> SoftwareUpdate option" where
  "SoftwareUpdate_fromJSON object = fromJSON SoftwareUpdate_json createBaseSoftwareUpdate object"

definition SoftwareUpdate_toJSON :: "SoftwareUpdate \<Rightarrow> jval" where
  "SoftwareUpdate_toJSON message = toJSON SoftwareUpdate_json message"

definition SoftwareUpdate_fromPartial :: "jval \<Rightarrow> SoftwareUpdate option" where
  "SoftwareUpdate_fromPartial object = fromPartial SoftwareUpdate_json createBaseSoftwareUpdate object"

definition FetchLocalAddr_json :: "FetchLocalAddr jfield list" where
  "FetchLocalAddr_json =
     [j_field ''socket_addr'' j_bytes [] FetchLocalAddr_socket_addr FetchLocalAddr_socket_addr_update,
      j_field ''relay_server'' j_string '''' FetchLocalAddr_relay_server FetchLocalAddr_relay_server_update]"

definition FetchLocalAddr_fromJSON :: "jval \<Rightarrow> FetchLocalAddr option" where
  "FetchLocalAddr_fromJSON object = fromJSON FetchLocalAddr_json createBaseFetchLocalAddr object"

definition FetchLocalAddr_toJSON :: "FetchLocalAddr \<Rightarrow> jval" where
  "FetchLocalAddr_toJSON message = toJSON FetchLocalAddr_json message"

definition FetchLocalAddr_fromPartial :: "jval \<Rightarrow> FetchLocalAddr option" where
  "FetchLocalAddr_fromPartial object = fromPartial FetchLocalAddr_json createBaseFetchLocalAddr object"

definition LocalAddr_json :: "LocalAddr jfield list" where
  "LocalAddr_json =
     [j_field ''socket_addr'' j_bytes [] LocalAddr_socket_addr LocalAddr_socket_addr_update,
      j_field ''local_addr'' j_bytes [] LocalAddr_local_addr LocalAddr_local_addr_update,
      j_field ''relay_server'' j_string '''' LocalAddr_relay_server LocalAddr_relay_server_update,
      j_field ''id'' j_string '''' LocalAddr_id LocalAddr_id_update,
      j_field ''version'' j_string '''' LocalAddr_version LocalAddr_version_update]"

definition LocalAddr_fromJSON :: "jval \<Rightarrow> LocalAddr option" where
  "LocalAddr_fromJSON object = fromJSON LocalAddr_json createBaseLocalAddr object"

definition LocalAddr_toJSON :: "LocalAddr \<Rightarrow> jval" where
  "LocalAddr_toJSON message = toJSON LocalAddr_json message"

definition LocalAddr_fromPartial :: "jval \<Rightarrow> LocalAddr option" where
  "LocalAddr_fromPartial object = fromPartial LocalAddr_json createBaseLocalAddr object"

definition PeerDiscovery_json :: "PeerDiscovery jfield list" where
  "PeerDiscovery_json =
     [j_field ''cmd'' j_string '''' PeerDiscovery_cmd PeerDiscovery_cmd_update,
      j_field ''mac'' j_string '''' PeerDiscovery_mac PeerDiscovery_mac_update,
      j_field ''id'' j_string '''' PeerDiscovery_id PeerDiscovery_id_update,
      j_field ''username'' j_string '''' PeerDiscovery_username PeerDiscovery_username_update,
      j_field ''hostname'' j_string '''' PeerDiscovery_hostname PeerDiscovery_hostname_update,
      j_field ''platform'' j_string '''' PeerDiscovery_platform PeerDiscovery_platform_update,
      j_field ''misc'' j_string '''' PeerDiscovery_misc PeerDiscovery_misc_update]"

definition PeerDiscovery_fromJSON :: "jval \<Rightarrow> PeerDiscovery option" where
  "PeerDiscovery_fromJSON object = fromJSON PeerDiscovery_json createBasePeerDiscovery object"

definition PeerDiscovery_toJSON :: "PeerDiscovery \<Rightarrow> jval" where
  "PeerDiscovery_toJSON message = toJSON PeerDiscovery_json message"

definition PeerDiscovery_fromPartial :: "jval \<Rightarrow> PeerDiscovery option" where
  "PeerDiscovery_fromPartial object = fromPartial PeerDiscovery_json createBasePeerDiscovery object"

definition OnlineRequest_json :: "OnlineRequest jfield list" where
  "OnlineRequest_json =
     [j_field ''id'' j_string '''' OnlineRequest_id OnlineRequest_id_update,
      j_rep ''peers'' j_string OnlineRequest_peers OnlineRequest_peers_update]"

definition OnlineRequest_fromJSON :: "jval \<Rightarrow> OnlineRequest option" where
  "OnlineRequest_fromJSON object = fromJSON OnlineRequest_json createBaseOnlineRequest object"

definition OnlineRequest_toJSON :: "OnlineRequest \<Rightarrow> jval" where
  "OnlineRequest_toJSON message = toJSON OnlineRequest_json message"

definition OnlineRequest_fromPartial :: "jval \<Rightarrow> OnlineRequest option" where
  "OnlineRequest_fromPartial object = fromPartial OnlineRequest_json createBaseOnlineRequest object"

definition OnlineResponse_json :: "OnlineResponse jfield list" where
  "OnlineResponse_json =
     [j_field ''states'' j_bytes [] OnlineResponse_states OnlineResponse_states_update]"

definition OnlineResponse_fromJSON :: "jval \<Rightarrow> OnlineResponse option" where
  "OnlineResponse_fromJSON object = fromJSON OnlineResponse_json createBaseOnlineResponse object"

definition OnlineResponse_toJSON :: "OnlineResponse \<Rightarrow> jval" where
  "OnlineResponse_toJSON message = toJSON OnlineResponse_json message"

definition OnlineResponse_fromPartial :: "jval \<Rightarrow> OnlineResponse option" where
  "OnlineResponse_fromPartial object = fromPartial OnlineResponse_json createBaseOnlineResponse object"

definition KeyExchange_json :: "KeyExchange jfield list" where
  "KeyExchange_json =
     [j_rep ''keys'' j_bytes KeyExchange_keys KeyExchange_keys_update]"

definition KeyExchange_fromJSON :: "jval \<Rightarrow> KeyExchange option" where
  "KeyExchange_fromJSON object = fromJSON KeyExchange_json createBaseKeyExchange object"

definition KeyExchange_toJSON :: "KeyExchange \<Rightarrow> jval" where
  "KeyExchange_toJSON message = toJSON KeyExchange_json message"

definition KeyExchange_fromPartial :: "jval \<Rightarrow> KeyExchange option" where
  "KeyExchange_fromPartial object = fromPartial KeyExchange_json createBaseKeyExchange object"

definition HealthCheck_json :: "HealthCheck jfield list" where
  "HealthCheck_json =
     [j_field ''token'' j_string '''' HealthCheck_token HealthCheck_token_update]"

definition HealthCheck_fromJSON :: "jval \<Rightarrow> HealthCheck option" where
  "HealthCheck_fromJSON object = fromJSON HealthCheck_json createBaseHealthCheck object"

definition HealthCheck_toJSON :: "HealthCheck \<Rightarrow> jval" where
  "HealthCheck_toJSON message = toJSON HealthCheck_json message"

definition HealthCheck_fromPartial :: "jval \<Rightarrow> HealthCheck option" where
  "HealthCheck_fromPartial object = fromPartial HealthCheck_json createBaseHealthCheck object"

definition RendezvousMessage_json :: "RendezvousMessage jfield list" where
  "RendezvousMessage_json =
     [j_opt ''register_peer'' (j_msg RegisterPeer_json createBaseRegisterPeer) RendezvousMessage_register_peer RendezvousMessage_register_peer_update,
      j_opt ''register_peer_response'' (j_msg RegisterPeerResponse_json createBaseRegisterPeerResponse) RendezvousMessage_register_peer_response RendezvousMessage_register_peer_response_update,
      j_opt ''punch_hole_request'' (j_msg PunchHoleRequest_json createBasePunchHoleRequest) RendezvousMessage_punch_hole_request RendezvousMessage_punch_hole_request_update,
      j_opt ''punch_hole'' (j_msg PunchHole_json createBasePunchHole) RendezvousMessage_punch_hole RendezvousMessage_punch_hole_update,
      j_opt ''punch_hole_sent'' (j_msg PunchHoleSent_json createBasePunchHoleSent) RendezvousMessage_punch_hole_sent RendezvousMessage_punch_hole_sent_update,
      j_opt ''punch_hole_response'' (j_msg PunchHoleResponse_json createBasePunchHoleResponse) RendezvousMessage_punch_hole_response RendezvousMessage_punch_hole_response_update,
      j_opt ''fetch_local_addr'' (j_msg FetchLocalAddr_json createBaseFetchLocalAddr) RendezvousMessage_fetch_local_addr RendezvousMessage_fetch_local_addr_update,
      j_opt ''local_addr'' (j_msg LocalAddr_json createBaseLocalAddr) RendezvousMessage_local_addr RendezvousMessage_local_addr_update,
      j_opt ''configure_update'' (j_msg ConfigUpdate_json createBaseConfigUpdate) RendezvousMessage_configure_update RendezvousMessage_configure_update_update,
      j_opt ''register_pk'' (j_msg RegisterPk_json createBaseRegisterPk) RendezvousMessage_register_pk RendezvousMessage_register_pk_update,
      j_opt ''register_pk_response'' (j_msg RegisterPkResponse_json createBaseRegisterPkResponse) RendezvousMessage_register_pk_response RendezvousMessage_register_pk_response_update,
      j_opt ''software_update'' (j_msg SoftwareUpdate_json createBaseSoftwareUpdate) RendezvousMessage_software_update RendezvousMessage_software_update_update,
      j_opt ''request_relay'' (j_msg RequestRelay_json createBaseRequestRelay) RendezvousMessage_request_relay RendezvousMessage_request_relay_update,
      j_opt ''relay_response'' (j_msg RelayResponse_json createBaseRelayResponse) RendezvousMessage_relay_response RendezvousMessage_relay_response_update,
      j_opt ''test_nat_request'' (j_msg TestNatRequest_json createBaseTestNatRequest) RendezvousMessage_test_nat_request RendezvousMessage_test_nat_request_update,
      j_opt ''test_nat_response'' (j_msg TestNatResponse_json createBaseTestNatResponse) RendezvousMessage_test_nat_response RendezvousMessage_test_nat_response_update,
      j_opt ''peer_discovery'' (j_msg PeerDiscovery_json createBasePeerDiscovery) RendezvousMessage_peer_discovery RendezvousMessage_peer_discovery_update,
      j_opt ''online_request'' (j_msg OnlineRequest_json createBaseOnlineRequest) RendezvousMessage_online_request RendezvousMessage_online_request_update,
      j_opt ''online_response'' (j_msg OnlineResponse_json createBaseOnlineResponse) RendezvousMessage_online_response RendezvousMessage_online_response_update,
      j_opt ''key_exchange'' (j_msg KeyExchange_json createBaseKeyExchange) RendezvousMessage_key_exchange RendezvousMessage_key_exchange_update,
      j_opt ''hc'' (j_msg HealthCheck_json createBaseHealthCheck) RendezvousMessage_hc RendezvousMessage_hc_update]"

definition RendezvousMessage_fromJSON :: "jval \<Rightarrow> RendezvousMessage option" where
  "RendezvousMessage_fromJSON object = fromJSON RendezvousMessage_json createBaseRendezvousMessage object"

definition RendezvousMessage_toJSON :: "RendezvousMessage \<Rightarrow> jval" where
  "RendezvousMessage_toJSON message = toJSON RendezvousMessage_json message"

definition RendezvousMessage_fromPartial :: "jval \<Rightarrow> RendezvousMessage option" where
  "RendezvousMessage_fromPartial object = fromPartial RendezvousMessage_json createBaseRendezvousMessage object"

section \<open>Tables that round-trip\<close>

lemma Rendezvous_Json_enums:
  "distinct (map fst ConnType_enum)"
  "distinct (map fst NatType_enum)"
  "distinct (map fst RegisterPkResponse_Result_enum)"
  "distinct (map fst PunchHoleResponse_Failure_enum)"
  by (simp_all add: ConnType_enum_def NatType_enum_def RegisterPkResponse_Result_enum_def PunchHoleResponse_Failure_enum_def)

lemma RegisterPeer_json_table: "json_table RegisterPeer_json createBaseRegisterPeer"
  by (rule json_tableI)
    (simp_all add: RegisterPeer_json_def json_intros Rendezvous_Json_enums
      createBaseRegisterPeer_def)

lemma RegisterPeerResponse_json_table: "json_table RegisterPeerResponse_json createBaseRegisterPeerResponse"
  by (rule json_tableI)
    (simp_all add: RegisterPeerResponse_json_def json_intros Rendezvous_Json_enums
      createBaseRegisterPeerResponse_def)

lemma PunchHoleRequest_json_table: "json_table PunchHoleRequest_json createBasePunchHoleRequest"
  by (rule json_tableI)
    (simp_all add: PunchHoleRequest_json_def json_intros Rendezvous_Json_enums
      createBasePunchHoleRequest_def)

lemma PunchHole_json_table: "json_table PunchHole_json createBasePunchHole"
  by (rule json_tableI)
    (simp_all add: PunchHole_json_def json_intros Rendezvous_Json_enums
      createBasePunchHole_def)

lemma TestNatRequest_json_table: "json_table TestNatRequest_json createBaseTestNatRequest"
  by (rule json_tableI)
    (simp_all add: TestNatRequest_json_def json_intros Rendezvous_Json_enums
      createBaseTestNatRequest_def)

lemma ConfigUpdate_json_table: "json_table ConfigUpdate_json createBaseConfigUpdate"
  by (rule json_tableI)
    (simp_all add: ConfigUpdate_json_def json_intros Rendezvous_Json_enums
      createBaseConfigUpdate_def)

lemma TestNatResponse_json_table: "json_table TestNatResponse_json createBaseTestNatResponse"
  by (rule json_tableI)
    (simp_all add: TestNatResponse_json_def json_intros Rendezvous_Json_enums
      kind_law_msg [OF ConfigUpdate_json_table]
      createBaseTestNatResponse_def)

lemma PunchHoleSent_json_table: "json_table PunchHoleSent_json createBasePunchHoleSent"
  by (rule json_tableI)
    (simp_all add: PunchHoleSent_json_def json_intros Rendezvous_Json_enums
      createBasePunchHoleSent_def)

lemma RegisterPk_json_table: "json_table RegisterPk_json createBaseRegisterPk"
  by (rule json_tableI)
    (simp_all add: RegisterPk_json_def json_intros Rendezvous_Json_enums
      createBaseRegisterPk_def)

lemma RegisterPkResponse_json_table: "json_table RegisterPkResponse_json createBaseRegisterPkResponse"
  by (rule json_tableI)
    (simp_all add: RegisterPkResponse_json_def json_intros Rendezvous_Json_enums
      createBaseRegisterPkResponse_def)

lemma PunchHoleResponse_json_table: "json_table PunchHoleResponse_json createBasePunchHoleResponse"
  by (rule json_tableI)
    (simp_all add: PunchHoleResponse_json_def json_intros Rendezvous_Json_enums
      createBasePunchHoleResponse_def)

lemma RequestRelay_json_table: "json_table RequestRelay_json createBaseRequestRelay"
  by (rule json_tableI)
    (simp_all add: RequestRelay_json_def json_intros Rendezvous_Json_enums
      createBaseRequestRelay_def)

lemma RelayResponse_json_table: "json_table RelayResponse_json createBaseRelayResponse"
  by (rule json_tableI)
    (simp_all add: RelayResponse_json_def json_intros Rendezvous_Json_enums
      createBaseRelayResponse_def)

lemma SoftwareUpdate_json_table: "json_table SoftwareUpdate_json createBaseSoftwareUpdate"
  by (rule json_tableI)
    (simp_all add: SoftwareUpdate_json_def json_intros Rendezvous_Json_enums
      createBaseSoftwareUpdate_def)

lemma FetchLocalAddr_json_table: "json_table FetchLocalAddr_json createBaseFetchLocalAddr"
  by (rule json_tableI)
    (simp_all add: FetchLocalAddr_json_def json_intros Rendezvous_Json_enums
      createBaseFetchLocalAddr_def)

lemma LocalAddr_json_table: "json_table LocalAddr_json createBaseLocalAddr"
  by (rule json_tableI)
    (simp_all add: LocalAddr_json_def json_intros Rendezvous_Json_enums
      createBaseLocalAddr_def)

lemma PeerDiscovery_json_table: "json_table PeerDiscovery_json createBasePeerDiscovery"
  by (rule json_tableI)
    (simp_all add: PeerDiscovery_json_def json_intros Rendezvous_Json_enums
      createBasePeerDiscovery_def)

lemma OnlineRequest_json_table: "json_table OnlineRequest_json createBaseOnlineRequest"
  by (rule json_tableI)
    (simp_all add: OnlineRequest_json_def json_intros Rendezvous_Json_enums
      createBaseOnlineRequest_def)

lemma OnlineResponse_json_table: "json_table OnlineResponse_json createBaseOnlineResponse"
  by (rule json_tableI)
    (simp_all add: OnlineResponse_json_def json_intros Rendezvous_Json_enums
      createBaseOnlineResponse_def)

lemma KeyExchange_json_table: "json_table KeyExchange_json createBaseKeyExchange"
  by (rule json_tableI)
    (simp_all add: KeyExchange_json_def json_intros Rendezvous_Json_enums
      createBaseKeyExchange_def)

lemma HealthCheck_json_table: "json_table HealthCheck_json createBaseHealthCheck"
  by (rule json_tableI)
    (simp_all add: HealthCheck_json_def json_intros Rendezvous_Json_enums
      createBaseHealthCheck_def)

lemma RendezvousMessage_json_table: "json_table RendezvousMessage_json createBaseRendezvousMessage"
  by (rule json_tableI)
    (simp_all add: RendezvousMessage_json_def json_intros Rendezvous_Json_enums
      kind_law_msg [OF RegisterPeer_json_table]
      kind_law_msg [OF RegisterPeerResponse_json_table]
      kind_law_msg [OF PunchHoleRequest_json_table]
      kind_law_msg [OF PunchHole_json_table]
      kind_law_msg [OF PunchHoleSent_json_table]
      kind_law_msg [OF PunchHoleResponse_json_table]
      kind_law_msg [OF FetchLocalAddr_json_table]
      kind_law_msg [OF LocalAddr_json_table]
      kind_law_msg [OF ConfigUpdate_json_table]
      kind_law_msg [OF RegisterPk_json_table]
      kind_law_msg [OF RegisterPkResponse_json_table]
      kind_law_msg [OF SoftwareUpdate_json_table]
      kind_law_msg [OF RequestRelay_json_table]
      kind_law_msg [OF RelayResponse_json_table]
      kind_law_msg [OF TestNatRequest_json_table]
      kind_law_msg [OF TestNatResponse_json_table]
      kind_law_msg [OF PeerDiscovery_json_table]
      kind_law_msg [OF OnlineRequest_json_table]
      kind_law_msg [OF OnlineResponse_json_table]
      kind_law_msg [OF KeyExchange_json_table]
      kind_law_msg [OF HealthCheck_json_table]
      createBaseRendezvousMessage_def)

lemma RendezvousMessage_json_roundtrip:
  "json_ok RendezvousMessage_json m \<Longrightarrow> RendezvousMessage_fromJSON (RendezvousMessage_toJSON m) = Some m"
  "json_ok RendezvousMessage_json m \<Longrightarrow> RendezvousMessage_fromPartial (partial_object (\<lambda>_. True) RendezvousMessage_json m) = Some m"
  by (simp_all add: RendezvousMessage_fromJSON_def RendezvousMessage_toJSON_def RendezvousMessage_fromPartial_def table_json [OF RendezvousMessage_json_table] table_whole [OF RendezvousMessage_json_table])

end
