(* ===== verification/Binary_Helper.thy ===== *)
theory Binary_Helper
  imports Prelude
begin

text \<open>
  \<open>flutter/js/src/helpers/binary.ts\<close>: joining received chunks into one buffer.  The
  loop is kept as written, a zero-filled buffer that \<open>Uint8Array.prototype.set\<close>
  overwrites piece by piece; \<open>None\<close> is the \<open>RangeError\<close> that \<open>set\<close> raises when a
  piece does not fit.
\<close>

definition typed_array_set :: "bytes \<Rightarrow> bytes \<Rightarrow> nat \<Rightarrow> bytes option" where
  "typed_array_set out c off =
     (if off + length c \<le> length out
      then Some (take off out @ c @ drop (off + length c) out) else None)"

fun concat_loop :: "bytes \<Rightarrow> nat \<Rightarrow> bytes list \<Rightarrow> bytes option" where
  "concat_loop out off [] = Some out"
| "concat_loop out off (c # cs) =
     (case typed_array_set out c off of
        None \<Rightarrow> None
      | Some out' \<Rightarrow> concat_loop out' (off + length c) cs)"

definition concatChunks :: "bytes list \<Rightarrow> bytes option" where
  "concatChunks chunks =
     (let total = fold (\<lambda>c n. n + length c) chunks 0
      in concat_loop (replicate total 0) 0 chunks)"

lemma fold_length_sum: "fold (\<lambda>c n. n + length c) cs n = n + length (concat cs)"
  by (induction cs arbitrary: n) auto

lemma concat_loop_fills:
  "length rest = length (concat cs) \<Longrightarrow>
   concat_loop (done @ rest) (length done) cs = Some (done @ concat cs)"
proof (induction cs arbitrary: "done" rest)
  case Nil
  then show ?case by simp
next
  case (Cons c cs)
  have set: "typed_array_set (done @ rest) c (length done) = Some ((done @ c) @ drop (length c) rest)"
    using Cons.prems by (simp add: typed_array_set_def)
  have "length (drop (length c) rest) = length (concat cs)"
    using Cons.prems by simp
  from Cons.IH [OF this, of "done @ c"] show ?case
    by (simp add: set add.commute)
qed

lemma concatChunks_concat [simp]: "concatChunks chunks = Some (concat chunks)"
  using concat_loop_fills [of "replicate (length (concat chunks)) 0" chunks "[]"]
  by (simp add: concatChunks_def fold_length_sum)

text \<open>
  Joining a list of chunks never overruns the buffer and yields exactly the chunks'
  bytes, in order.
\<close>

theorem concatChunks_correct:
  "\<exists>out. concatChunks chunks = Some out \<and> out = concat chunks
     \<and> length out = sum_list (map length chunks)"
  by (simp add: length_concat)

end
