(* ===== verification/Ycbcr.thy ===== *)
theory Ycbcr
  imports Complex_Main Binary_Helper
begin

text \<open>
  \<open>flutter/web/yuv-canvas-1.2.6.js\<close>, the functions \<open>depower\<close> and \<open>convertYCbCr\<close>, which the module
  \<open>helpers/video_draw.js\<close> imports under \<open>yuv-canvas/src/YCbCr\<close>: the conversion of a decoded frame from
  its luma and chroma planes to RGBA.  Numbers that the code coerces with \<open>| 0\<close>, \<open>>>\<close> or \<open><<\<close> are
  integers wrapped to 32 bits at those places and unbounded elsewhere; a typed array answers a read
  outside its bounds with undefined, which every use here turns into 0, and ignores such a write.
  Sizes, strides and lengths are natural numbers; the quotient of two sizes below \<open>2 ^ 53\<close> is an
  integer as a double only if it is one exactly, so a quotient is kept as its two terms.
\<close>

unbundle bit_operations_syntax

section \<open>Frames\<close>

record video_format =
  vf_width :: nat
  vf_height :: nat
  vf_chromaWidth :: nat
  vf_chromaHeight :: nat
  vf_displayWidth :: nat
  vf_displayHeight :: nat
  vf_cropLeft :: nat
  vf_cropTop :: nat

record plane =
  pl_bytes :: bytes
  pl_stride :: nat

record frame =
  fr_format :: video_format
  fr_y :: plane
  fr_u :: plane
  fr_v :: plane

section \<open>Numbers and typed arrays\<close>

definition toInt32 :: "int \<Rightarrow> int" where
  "toInt32 i = signed_take_bit 31 i"

definition js_shr :: "int \<Rightarrow> nat \<Rightarrow> int" where
  "js_shr i n = drop_bit (n mod 32) (toInt32 i)"

definition js_shl :: "int \<Rightarrow> nat \<Rightarrow> int" where
  "js_shl i n = toInt32 (push_bit (n mod 32) (toInt32 i))"

definition byte_at :: "bytes \<Rightarrow> int \<Rightarrow> int" where
  "byte_at b i = (if 0 \<le> i \<and> i < int (length b) then uint (b ! nat i) else 0)"

definition clamp8 :: "int \<Rightarrow> byte" where
  "clamp8 i = word_of_int (max 0 (min 255 i))"

definition clamped_write :: "bytes \<Rightarrow> int \<Rightarrow> int \<Rightarrow> bytes" where
  "clamped_write out i n = (if 0 \<le> i \<and> i < int (length out) then out[nat i := clamp8 n] else out)"

section \<open>The ratio of the planes\<close>

text \<open>The string \<open>depower\<close> throws names the ratio, kept as the two sizes it is the quotient of.\<close>

datatype convert_error = ChromaRatio nat nat

partial_function (option) depower_loop :: "int \<Rightarrow> nat \<Rightarrow> nat option" where
  "depower_loop n shiftCount =
     (if n \<noteq> 0 then depower_loop (js_shr n 1) (shiftCount + 1) else Some shiftCount)"

text \<open>The quotient as a 32-bit integer: not a number and infinity become 0.\<close>

definition ratio_int :: "nat \<Rightarrow> nat \<Rightarrow> int" where
  "ratio_int num den = (if den = 0 then 0 else int (num div den))"

definition depower :: "nat \<Rightarrow> nat \<Rightarrow> (convert_error + nat) option" where
  "depower num den =
     (case depower_loop (js_shr (ratio_int num den) 1) 0 of
        None \<Rightarrow> None
      | Some shiftCount \<Rightarrow>
          Some (if den = 0 \<or> int num \<noteq> js_shl 1 shiftCount * int den then Inl (ChromaRatio num den)
                else Inr shiftCount))"

section \<open>The conversion\<close>

definition multCrR :: "int \<Rightarrow> int" where
  "multCrR colorCr = toInt32 (toInt32 (409 * colorCr) - 57088)"

definition multCbCrG :: "int \<Rightarrow> int \<Rightarrow> int" where
  "multCbCrG colorCb colorCr = toInt32 (toInt32 (100 * colorCb) + toInt32 (208 * colorCr) - 34816)"

definition multCbB :: "int \<Rightarrow> int" where
  "multCbB colorCb = toInt32 (toInt32 (516 * colorCb) - 70912)"

definition multY :: "int \<Rightarrow> int" where
  "multY b = toInt32 (298 * b)"

text \<open>The three writes of a pixel at \<open>outPtr\<close>.\<close>

definition store_rgb :: "bytes \<Rightarrow> int \<Rightarrow> int \<Rightarrow> int \<Rightarrow> int \<Rightarrow> int \<Rightarrow> bytes" where
  "store_rgb out outPtr mY mCrR mCbCrG mCbB =
     clamped_write
       (clamped_write
          (clamped_write out outPtr (js_shr (mY + mCrR) 8))
          (outPtr + 1) (js_shr (mY - mCbCrG) 8))
       (outPtr + 2) (js_shr (mY + mCbB) 8)"

text \<open>The body of the conversion for planes halved in both directions: two rows at a time.\<close>

function fast_row :: "bytes \<Rightarrow> bytes \<Rightarrow> bytes \<Rightarrow> int \<Rightarrow> int \<Rightarrow> int \<Rightarrow> int \<Rightarrow> int \<Rightarrow> int \<Rightarrow> int \<Rightarrow> int
    \<Rightarrow> bytes \<Rightarrow> int \<times> int \<times> bytes" where
  "fast_row bytesY bytesCb bytesCr width x CbPtr CrPtr Y0Ptr Y1Ptr outPtr0 outPtr1 out =
     (if x < width then
        let colorCb = byte_at bytesCb CbPtr;
            colorCr = byte_at bytesCr CrPtr;
            mCrR = multCrR colorCr;
            mCbCrG = multCbCrG colorCb colorCr;
            mCbB = multCbB colorCb;
            out1 = store_rgb out outPtr0 (multY (byte_at bytesY Y0Ptr)) mCrR mCbCrG mCbB;
            out2 = store_rgb out1 (outPtr0 + 4) (multY (byte_at bytesY (Y0Ptr + 1))) mCrR mCbCrG mCbB;
            out3 = store_rgb out2 outPtr1 (multY (byte_at bytesY Y1Ptr)) mCrR mCbCrG mCbB;
            out4 = store_rgb out3 (outPtr1 + 4) (multY (byte_at bytesY (Y1Ptr + 1))) mCrR mCbCrG mCbB
        in fast_row bytesY bytesCb bytesCr width (x + 2) (CbPtr + 1) (CrPtr + 1) (Y0Ptr + 2) (Y1Ptr + 2)
             (outPtr0 + 8) (outPtr1 + 8) out4
      else (outPtr0, outPtr1, out))"
  by pat_completeness auto
termination by (relation "measure (\<lambda>(_, _, _, width, x, _). nat (width - x))") auto

function fast_rows :: "frame \<Rightarrow> int \<Rightarrow> int \<Rightarrow> int \<Rightarrow> int \<Rightarrow> int \<Rightarrow> int \<Rightarrow> bytes \<Rightarrow> bytes" where
  "fast_rows buffer width height y ydec outPtr0 outPtr1 out =
     (if y < height then
        let strideY = toInt32 (int (pl_stride (fr_y buffer)));
            strideCb = toInt32 (int (pl_stride (fr_u buffer)));
            strideCr = toInt32 (int (pl_stride (fr_v buffer)));
            outStride = js_shl width 2;
            Y0Ptr = toInt32 (y * strideY);
            Y1Ptr = toInt32 (Y0Ptr + strideY);
            CbPtr = toInt32 (ydec * strideCb);
            CrPtr = toInt32 (ydec * strideCr);
            (p0, p1, out') = fast_row (pl_bytes (fr_y buffer)) (pl_bytes (fr_u buffer)) (pl_bytes (fr_v buffer))
               width 0 CbPtr CrPtr Y0Ptr Y1Ptr outPtr0 outPtr1 out
        in fast_rows buffer width height (y + 2) (ydec + 1) (p0 + outStride) (p1 + outStride) out'
      else out)"
  by pat_completeness auto
termination by (relation "measure (\<lambda>(_, _, height, y, _). nat (height - y))") auto

text \<open>The body for every other ratio: pixel by pixel.\<close>

function general_row :: "bytes \<Rightarrow> bytes \<Rightarrow> bytes \<Rightarrow> nat \<Rightarrow> int \<Rightarrow> int \<Rightarrow> int \<Rightarrow> int \<Rightarrow> int \<Rightarrow> int
    \<Rightarrow> bytes \<Rightarrow> int \<times> bytes" where
  "general_row bytesY bytesCb bytesCr hdec width x CbPtr CrPtr YPtr outPtr out =
     (if x < width then
        let xdec = js_shr x hdec;
            colorCb = byte_at bytesCb (CbPtr + xdec);
            colorCr = byte_at bytesCr (CrPtr + xdec);
            out' = store_rgb out outPtr (multY (byte_at bytesY YPtr)) (multCrR colorCr) (multCbCrG colorCb colorCr) (multCbB colorCb)
        in general_row bytesY bytesCb bytesCr hdec width (x + 1) CbPtr CrPtr (YPtr + 1) (outPtr + 4) out'
      else (outPtr, out))"
  by pat_completeness auto
termination by (relation "measure (\<lambda>(_, _, _, _, width, x, _). nat (width - x))") auto

function general_rows :: "frame \<Rightarrow> nat \<Rightarrow> nat \<Rightarrow> int \<Rightarrow> int \<Rightarrow> int \<Rightarrow> int \<Rightarrow> bytes \<Rightarrow> bytes" where
  "general_rows buffer hdec vdec width height y outPtr out =
     (if y < height then
        let strideY = toInt32 (int (pl_stride (fr_y buffer)));
            strideCb = toInt32 (int (pl_stride (fr_u buffer)));
            strideCr = toInt32 (int (pl_stride (fr_v buffer)));
            ydec = js_shr y vdec;
            YPtr = toInt32 (y * strideY);
            CbPtr = toInt32 (ydec * strideCb);
            CrPtr = toInt32 (ydec * strideCr);
            (p, out') = general_row (pl_bytes (fr_y buffer)) (pl_bytes (fr_u buffer)) (pl_bytes (fr_v buffer))
               hdec width 0 CbPtr CrPtr YPtr outPtr out
        in general_rows buffer hdec vdec width height (y + 1) p out'
      else out)"
  by pat_completeness auto
termination by (relation "measure (\<lambda>(_, _, _, _, height, y, _). nat (height - y))") auto

text \<open>
  \<open>convertYCbCr\<close>: what it leaves in \<open>output\<close>, or the string it throws before the first write; \<open>None\<close>
  when \<open>depower\<close> does not return.
\<close>

definition convertYCbCr :: "frame \<Rightarrow> bytes \<Rightarrow> (convert_error + bytes) option" where
  "convertYCbCr buffer out =
     (let f = fr_format buffer;
          width = toInt32 (int (vf_width f));
          height = toInt32 (int (vf_height f))
      in case depower (vf_width f) (vf_chromaWidth f) of
           None \<Rightarrow> None
         | Some (Inl e) \<Rightarrow> Some (Inl e)
         | Some (Inr hdec) \<Rightarrow>
             (case depower (vf_height f) (vf_chromaHeight f) of
                None \<Rightarrow> None
              | Some (Inl e) \<Rightarrow> Some (Inl e)
              | Some (Inr vdec) \<Rightarrow>
                  Some (Inr (if hdec = 1 \<and> vdec = 1
                             then fast_rows buffer width height 0 0 0 (js_shl width 2) out
                             else general_rows buffer hdec vdec width height 0 0 out))))"

declare fast_row.simps [simp del] fast_rows.simps [simp del] general_row.simps [simp del] general_rows.simps [simp del]

section \<open>Arithmetic\<close>

lemma toInt32_id: "- (2 ^ 31) \<le> i \<Longrightarrow> i < 2 ^ 31 \<Longrightarrow> toInt32 i = i"
  by (simp add: toInt32_def signed_take_bit_int_eq_self)

lemma toInt32_nat: "n < 2 ^ 31 \<Longrightarrow> toInt32 (int n) = int n"
  by (rule toInt32_id) (simp_all add: less_imp_of_nat_less [of n "2 ^ 31", simplified])

lemma js_shr_nat: "n < 2 ^ 31 \<Longrightarrow> s < 32 \<Longrightarrow> js_shr (int n) s = int (n div 2 ^ s)"
  by (simp add: js_shr_def toInt32_nat drop_bit_int_def zdiv_int)

lemma byte_at_bounds: "0 \<le> byte_at b i" "byte_at b i \<le> 255"
  using uint_lt2p [of "b ! nat i"] by (auto simp: byte_at_def)

lemma byte_at_nth: "i < length b \<Longrightarrow> byte_at b (int i) = uint (b ! i)"
  by (simp add: byte_at_def)

lemma length_clamped_write [simp]: "length (clamped_write out i n) = length out"
  by (simp add: clamped_write_def)

section \<open>The ratio\<close>

lemma js_shr_half: "0 < n \<Longrightarrow> n < 2 ^ 31 \<Longrightarrow> 0 \<le> js_shr n 1 \<and> js_shr n 1 < n"
  by (simp add: js_shr_def toInt32_id drop_bit_int_def)

lemma depower_loop_returns:
  assumes "0 \<le> n" and "n < 2 ^ 31"
  shows "\<exists>c. depower_loop n k = Some c"
  using assms
proof (induction "nat n" arbitrary: n k rule: less_induct)
  case less
  show ?case
  proof (cases "n = 0")
    case True
    then show ?thesis by (simp add: depower_loop.simps)
  next
    case False
    with less.prems have "0 \<le> js_shr n 1" "js_shr n 1 < n" using js_shr_half [of n] by auto
    then show ?thesis
      using less.hyps [of "js_shr n 1" "k + 1"] less.prems False by (simp add: depower_loop.simps [of n])
  qed
qed

lemma js_shr_power: "k < 30 \<Longrightarrow> js_shr (2 ^ Suc k) 1 = 2 ^ k"
  using js_shr_nat [of "2 ^ Suc k" 1] power_strict_increasing [of "Suc k" 31 "2 :: nat"] by simp

lemma depower_loop_power: "k \<le> 30 \<Longrightarrow> depower_loop (js_shr (2 ^ k) 1) c = Some (c + k)"
proof (induction k arbitrary: c)
  case 0
  have "js_shr 1 1 = 0" using js_shr_nat [of 1 1] by simp
  then show ?case by (simp add: depower_loop.simps)
next
  case (Suc k)
  then have "js_shr (2 ^ Suc k) 1 = 2 ^ k" by (intro js_shr_power) simp
  then show ?case
    using Suc by (simp add: depower_loop.simps [of "2 ^ k"] del: power_Suc)
qed

lemma js_shl_one: "k \<le> 30 \<Longrightarrow> js_shl 1 k = 2 ^ k"
  using toInt32_nat [of 1] toInt32_nat [of "2 ^ k"] power_strict_increasing [of k 31 "2 :: nat"]
  by (simp add: js_shl_def push_bit_int_def)

lemma depower_power:
  assumes "num = 2 ^ k * den" and "0 < den" and "k \<le> 30"
  shows "depower num den = Some (Inr k)"
proof -
  have "ratio_int num den = 2 ^ k" using assms by (simp add: ratio_int_def)
  then show ?thesis
    using assms depower_loop_power [of k 0] by (simp add: depower_def js_shl_one)
qed

lemma depower_throws:
  assumes "\<And>k. num \<noteq> 2 ^ k * den \<or> den = 0" and "num < 2 ^ 31"
  shows "depower num den = Some (Inl (ChromaRatio num den))"
proof -
  have "num div den < 2 ^ 31" using assms(2) div_le_dividend [of num den] by linarith
  then have "0 \<le> ratio_int num den" "ratio_int num den < 2 ^ 31"
    using toInt32_nat by (auto simp: ratio_int_def less_imp_of_nat_less [of _ "2 ^ 31", simplified])
  then have "0 \<le> js_shr (ratio_int num den) 1" "js_shr (ratio_int num den) 1 < 2 ^ 31"
    using js_shr_half [of "ratio_int num den"]
    by (cases "ratio_int num den = 0"; simp add: js_shr_def toInt32_id)+
  then obtain c where c: "depower_loop (js_shr (ratio_int num den) 1) 0 = Some c"
    using depower_loop_returns by blast
  have "int num \<noteq> js_shl 1 c * int den \<or> den = 0"
  proof (cases "c mod 32 = 31")
    case True
    then have "js_shl 1 c = - (2 ^ 31)" by (simp add: js_shl_def toInt32_def)
    then show ?thesis using assms(2) assms(1) [of 0] by auto
  next
    case False
    then have "js_shl 1 c = int (2 ^ (c mod 32))"
      using js_shl_one [of "c mod 32"] mod_less_divisor [of 32 c] by (simp add: js_shl_def)
    then show ?thesis using assms(1) [of "c mod 32"] by (metis of_nat_eq_iff of_nat_mult)
  qed
  then show ?thesis using c by (auto simp: depower_def)
qed

section \<open>The colours\<close>

text \<open>The colour channels of a sample, red, green and blue, without wrap-around.\<close>

definition channel_int :: "int \<Rightarrow> int \<Rightarrow> int \<Rightarrow> nat \<Rightarrow> int" where
  "channel_int Y Cb Cr k =
     (if k = 0 then (298 * (Y - 16) + 409 * (Cr - 128) + 32) div 256
      else if k = 1 then (298 * (Y - 16) - 100 * (Cb - 128) - 208 * (Cr - 128) + 160) div 256
      else (298 * (Y - 16) + 516 * (Cb - 128) - 96) div 256)"

definition channel :: "int \<Rightarrow> int \<Rightarrow> int \<Rightarrow> nat \<Rightarrow> byte" where
  "channel Y Cb Cr k = clamp8 (channel_int Y Cb Cr k)"

lemma channel_bounds:
  assumes "0 \<le> Y" "Y \<le> 255" "0 \<le> Cb" "Cb \<le> 255" "0 \<le> Cr" "Cr \<le> 255"
  shows "js_shr (multY Y + multCrR Cr) 8 = channel_int Y Cb Cr 0"
    and "js_shr (multY Y - multCbCrG Cb Cr) 8 = channel_int Y Cb Cr (Suc 0)"
    and "js_shr (multY Y + multCbB Cb) 8 = channel_int Y Cb Cr 2"
  using assms
  by (simp_all add: js_shr_def multY_def multCrR_def multCbCrG_def multCbB_def toInt32_id channel_int_def
      drop_bit_int_def algebra_simps)

text \<open>The buffer with the pixels of \<open>P\<close> coloured by \<open>c\<close>, the fourth byte of each pixel left as it was.\<close>

definition paint :: "(nat \<Rightarrow> nat \<Rightarrow> byte) \<Rightarrow> nat set \<Rightarrow> bytes \<Rightarrow> bytes" where
  "paint c P out = map (\<lambda>i. if i div 4 \<in> P \<and> i mod 4 < 3 then c (i div 4) (i mod 4) else out ! i) [0..<length out]"

lemma length_paint [simp]: "length (paint c P out) = length out"
  by (simp add: paint_def)

lemma nth_paint: "i < length out \<Longrightarrow>
    paint c P out ! i = (if i div 4 \<in> P \<and> i mod 4 < 3 then c (i div 4) (i mod 4) else out ! i)"
  by (simp add: paint_def)

lemma paint_empty [simp]: "paint c {} out = out"
  by (simp add: list_eq_iff_nth_eq nth_paint)

lemma clamped_write_nat:
  "clamped_write out (int j) n = out[j := clamp8 n]"
  by (cases "j < length out") (simp_all add: clamped_write_def list_update_beyond)

lemma nth_list_update_inside: "j < length xs \<Longrightarrow> xs[i := z] ! j = (if i = j then z else xs ! j)"
  by (metis nth_list_update_eq nth_list_update_neq)

lemma store_rgb_paint:
  assumes "\<And>k. k < 3 \<Longrightarrow> c q k = channel Y Cb Cr k"
    and "0 \<le> Y" "Y \<le> 255" "0 \<le> Cb" "Cb \<le> 255" "0 \<le> Cr" "Cr \<le> 255"
  shows "store_rgb (paint c P out) (4 * int q) (multY Y) (multCrR Cr) (multCbCrG Cb Cr) (multCbB Cb)
    = paint c (insert q P) out"
proof -
  have ptr: "4 * int q = int (4 * q)" "int (4 * q) + 1 = int (4 * q + 1)" "int (4 * q) + 2 = int (4 * q + 2)"
    by simp_all
  have "store_rgb (paint c P out) (4 * int q) (multY Y) (multCrR Cr) (multCbCrG Cb Cr) (multCbB Cb)
    = (paint c P out)[4 * q := c q 0, 4 * q + 1 := c q 1, 4 * q + 2 := c q 2]"
    using channel_bounds [OF assms(2-)] assms(1) [of 0] assms(1) [of 1] assms(1) [of 2]
    unfolding store_rgb_def ptr clamped_write_nat by (simp add: channel_def)
  also have "\<dots> = paint c (insert q P) out"
  proof (rule nth_equalityI)
    fix i assume "i < length ((paint c P out)[4 * q := c q 0, 4 * q + 1 := c q 1, 4 * q + 2 := c q 2])"
    then have i: "i < length out" by simp
    obtain p r where pr: "i = 4 * p + r" "r < 4" by (metis mod_less_divisor mult_div_mod_eq zero_less_numeral)
    then have dm: "i div 4 = p" "i mod 4 = r" by simp_all
    consider "r = 0" | "r = 1" | "r = 2" | "r = 3" using pr(2) by linarith
    then have at: "4 * q = i \<longleftrightarrow> r = 0 \<and> p = q" "4 * q + 1 = i \<longleftrightarrow> r = 1 \<and> p = q" "4 * q + 2 = i \<longleftrightarrow> r = 2 \<and> p = q"
      by (cases; use pr(1) in presburger)+
    from \<open>r < 4\<close> show "(paint c P out)[4 * q := c q 0, 4 * q + 1 := c q 1, 4 * q + 2 := c q 2] ! i = paint c (insert q P) out ! i"
      using i by (simp only: nth_list_update_inside length_list_update length_paint at nth_paint dm) auto
  qed simp
  finally show ?thesis .
qed

section \<open>Both bodies paint the frame\<close>

lemma atLeastLessThan_step: "x < (w :: nat) \<Longrightarrow> {b + x..<b + w} = insert (b + x) {b + Suc x..<b + w}"
  by auto

lemma general_row_paint:
  assumes "\<And>x k. x < w \<Longrightarrow> k < 3 \<Longrightarrow> c (b + x) k = channel (byte_at bY (YPtr + int x))
      (byte_at bCb (CbPtr + int (x div 2 ^ h))) (byte_at bCr (CrPtr + int (x div 2 ^ h))) k"
    and "w < 2 ^ 31" and "h < 32" and "x \<le> w"
  shows "general_row bY bCb bCr h (int w) (int x) CbPtr CrPtr (YPtr + int x) (4 * int (b + x)) (paint c P out)
    = (4 * int (b + w), paint c (P \<union> {b + x..<b + w}) out)"
  using assms(4)
proof (induction "w - x" arbitrary: x P)
  case 0
  then show ?case by (simp add: general_row.simps [of _ _ _ _ _ "int x"])
next
  case (Suc d)
  then have x: "x < w" by simp
  have store: "store_rgb (paint c P out) (4 * int (b + x)) (multY (byte_at bY (YPtr + int x)))
      (multCrR (byte_at bCr (CrPtr + int (x div 2 ^ h))))
      (multCbCrG (byte_at bCb (CbPtr + int (x div 2 ^ h))) (byte_at bCr (CrPtr + int (x div 2 ^ h))))
      (multCbB (byte_at bCb (CbPtr + int (x div 2 ^ h)))) = paint c (insert (b + x) P) out"
    using assms(1) x by (intro store_rgb_paint byte_at_bounds) auto
  have "js_shr (int x) h = int (x div 2 ^ h)" using x assms(2,3) by (intro js_shr_nat) auto
  then have "general_row bY bCb bCr h (int w) (int x) CbPtr CrPtr (YPtr + int x) (4 * int (b + x)) (paint c P out)
    = general_row bY bCb bCr h (int w) (int (Suc x)) CbPtr CrPtr (YPtr + int (Suc x)) (4 * int (b + Suc x))
        (paint c (insert (b + x) P) out)"
    using x store by (simp add: general_row.simps [of _ _ _ _ _ "int x"] Let_def algebra_simps)
  also have "\<dots> = (4 * int (b + w), paint c (insert (b + x) P \<union> {b + Suc x..<b + w}) out)"
    using Suc.hyps(1) [of "Suc x" "insert (b + x) P"] Suc.hyps(2) x by simp
  finally show ?case by (simp add: atLeastLessThan_step [OF x])
qed

lemma fast_row_paint:
  assumes "\<And>x k. x < 2 * n \<Longrightarrow> k < 3 \<Longrightarrow> c (b0 + x) k = channel (byte_at bY (Y0Ptr + int x))
      (byte_at bCb (CbPtr + int (x div 2))) (byte_at bCr (CrPtr + int (x div 2))) k"
    and "\<And>x k. x < 2 * n \<Longrightarrow> k < 3 \<Longrightarrow> c (b1 + x) k = channel (byte_at bY (Y1Ptr + int x))
      (byte_at bCb (CbPtr + int (x div 2))) (byte_at bCr (CrPtr + int (x div 2))) k"
    and "i \<le> n"
  shows "fast_row bY bCb bCr (int (2 * n)) (int (2 * i)) (CbPtr + int i) (CrPtr + int i)
      (Y0Ptr + int (2 * i)) (Y1Ptr + int (2 * i)) (4 * int (b0 + 2 * i)) (4 * int (b1 + 2 * i)) (paint c P out)
    = (4 * int (b0 + 2 * n), 4 * int (b1 + 2 * n),
       paint c (P \<union> {b0 + 2 * i..<b0 + 2 * n} \<union> {b1 + 2 * i..<b1 + 2 * n}) out)"
  using assms(3)
proof (induction "n - i" arbitrary: i P)
  case 0
  then show ?case by (subst fast_row.simps) simp
next
  case (Suc d)
  then have i: "i < n" by simp
  have store: "store_rgb (paint c Q out) (4 * int (b + (2 * i + e))) (multY (byte_at bY (p + int (2 * i + e))))
      (multCrR (byte_at bCr (CrPtr + int i)))
      (multCbCrG (byte_at bCb (CbPtr + int i)) (byte_at bCr (CrPtr + int i)))
      (multCbB (byte_at bCb (CbPtr + int i))) = paint c (insert (b + (2 * i + e)) Q) out"
    if "(b, p) = (b0, Y0Ptr) \<or> (b, p) = (b1, Y1Ptr)" and "e < 2" for Q b p e
  proof -
    have "(2 * i + e) div 2 = i" "2 * i + e < 2 * n" using that(2) i by auto
    then show ?thesis
      using that(1) assms(1,2) [of "2 * i + e"] by (intro store_rgb_paint byte_at_bounds) auto
  qed
  let ?P = "insert (b1 + (2 * i + 1)) (insert (b1 + 2 * i) (insert (b0 + (2 * i + 1)) (insert (b0 + 2 * i) P)))"
  have "fast_row bY bCb bCr (int (2 * n)) (int (2 * i)) (CbPtr + int i) (CrPtr + int i)
      (Y0Ptr + int (2 * i)) (Y1Ptr + int (2 * i)) (4 * int (b0 + 2 * i)) (4 * int (b1 + 2 * i)) (paint c P out)
    = fast_row bY bCb bCr (int (2 * n)) (int (2 * Suc i)) (CbPtr + int (Suc i)) (CrPtr + int (Suc i))
      (Y0Ptr + int (2 * Suc i)) (Y1Ptr + int (2 * Suc i)) (4 * int (b0 + 2 * Suc i)) (4 * int (b1 + 2 * Suc i)) (paint c ?P out)"
    using i store [of b0 Y0Ptr 0] store [of b0 Y0Ptr 1] store [of b1 Y1Ptr 0] store [of b1 Y1Ptr 1]
    by (subst fast_row.simps) (simp add: Let_def algebra_simps)
  also have "\<dots> = (4 * int (b0 + 2 * n), 4 * int (b1 + 2 * n),
       paint c (?P \<union> {b0 + 2 * Suc i..<b0 + 2 * n} \<union> {b1 + 2 * Suc i..<b1 + 2 * n}) out)"
    using Suc.hyps(1) [of "Suc i" ?P] Suc.hyps(2) i by simp
  also have "?P \<union> {b0 + 2 * Suc i..<b0 + 2 * n} \<union> {b1 + 2 * Suc i..<b1 + 2 * n}
    = P \<union> {b0 + 2 * i..<b0 + 2 * n} \<union> {b1 + 2 * i..<b1 + 2 * n}"
    using i by auto
  finally show ?case .
qed

text \<open>The colour of the pixel numbered \<open>q\<close> in rows, from the samples of the planes that cover it.\<close>

definition pixel_colour :: "frame \<Rightarrow> nat \<Rightarrow> nat \<Rightarrow> nat \<Rightarrow> nat \<Rightarrow> byte" where
  "pixel_colour fr h v q k =
     (let w = vf_width (fr_format fr); x = q mod w; y = q div w
      in channel (byte_at (pl_bytes (fr_y fr)) (int (y * pl_stride (fr_y fr) + x)))
           (byte_at (pl_bytes (fr_u fr)) (int (y div 2 ^ v * pl_stride (fr_u fr) + x div 2 ^ h)))
           (byte_at (pl_bytes (fr_v fr)) (int (y div 2 ^ v * pl_stride (fr_v fr) + x div 2 ^ h))) k)"

lemma pixel_colour_at: "x < vf_width (fr_format fr) \<Longrightarrow>
    pixel_colour fr h v (y * vf_width (fr_format fr) + x) k
    = channel (byte_at (pl_bytes (fr_y fr)) (int (y * pl_stride (fr_y fr)) + int x))
        (byte_at (pl_bytes (fr_u fr)) (int (y div 2 ^ v * pl_stride (fr_u fr)) + int (x div 2 ^ h)))
        (byte_at (pl_bytes (fr_v fr)) (int (y div 2 ^ v * pl_stride (fr_v fr)) + int (x div 2 ^ h))) k"
  by (simp add: pixel_colour_def Let_def)

text \<open>
  The planes of a frame: each holds its rows, the luma plane those of the frame and the chroma planes
  those of the frame scaled down by powers of two, and all sizes are below \<open>2 ^ 31\<close>.
\<close>

definition plane_holds :: "plane \<Rightarrow> nat \<Rightarrow> nat \<Rightarrow> bool" where
  "plane_holds p w h \<longleftrightarrow> w \<le> pl_stride p \<and> h * pl_stride p \<le> length (pl_bytes p) \<and> length (pl_bytes p) < 2 ^ 31"

definition frame_ok :: "frame \<Rightarrow> nat \<Rightarrow> nat \<Rightarrow> bool" where
  "frame_ok fr h v \<longleftrightarrow>
     (let f = fr_format fr
      in 0 < vf_chromaWidth f \<and> 0 < vf_chromaHeight f
       \<and> vf_width f = 2 ^ h * vf_chromaWidth f \<and> vf_height f = 2 ^ v * vf_chromaHeight f
       \<and> vf_width f * vf_height f * 4 < 2 ^ 31
       \<and> plane_holds (fr_y fr) (vf_width f) (vf_height f)
       \<and> plane_holds (fr_u fr) (vf_chromaWidth f) (vf_chromaHeight f)
       \<and> plane_holds (fr_v fr) (vf_chromaWidth f) (vf_chromaHeight f))"

lemma plane_row:
  assumes "plane_holds p w h" and "y < h"
  shows "y * pl_stride p + pl_stride p \<le> length (pl_bytes p)" and "toInt32 (int y * int (pl_stride p)) = int (y * pl_stride p)"
    and "toInt32 (int (pl_stride p)) = int (pl_stride p)"
proof -
  have "Suc y * pl_stride p \<le> h * pl_stride p" using assms(2) by (intro mult_le_mono1) simp
  then show row: "y * pl_stride p + pl_stride p \<le> length (pl_bytes p)" using assms(1) by (simp add: plane_holds_def)
  with assms(1) have "y * pl_stride p < 2 ^ 31" "pl_stride p < 2 ^ 31" by (auto simp: plane_holds_def)
  then show "toInt32 (int y * int (pl_stride p)) = int (y * pl_stride p)" "toInt32 (int (pl_stride p)) = int (pl_stride p)"
    using toInt32_nat [of "y * pl_stride p"] toInt32_nat by simp_all
qed

lemma power_exponent_bound: "2 ^ h * c < (2 :: nat) ^ 29 \<Longrightarrow> 0 < c \<Longrightarrow> h < 29"
proof (rule ccontr)
  assume a: "2 ^ h * c < (2 :: nat) ^ 29" "0 < c" "\<not> h < 29"
  then have "(2 :: nat) ^ 29 \<le> 2 ^ h * c" using mult_le_mono [of "2 ^ 29" "2 ^ h :: nat" 1 c] power_increasing [of 29 h "2 :: nat"] by simp
  with a(1) show False by simp
qed

lemma below_quarter: "n \<le> p \<Longrightarrow> p * 4 < (2 :: nat) ^ 31 \<Longrightarrow> n < 2 ^ 29"
  by simp

lemma frame_ok_sizes:
  assumes "frame_ok fr h v"
  shows "vf_width (fr_format fr) < 2 ^ 29" and "vf_height (fr_format fr) < 2 ^ 29" and "h < 29" and "v < 29"
    and "0 < vf_width (fr_format fr)" and "0 < vf_height (fr_format fr)"
proof -
  let ?f = "fr_format fr"
  show pos: "0 < vf_width ?f" "0 < vf_height ?f" using assms by (auto simp: frame_ok_def Let_def)
  then have "vf_width ?f \<le> vf_width ?f * vf_height ?f" "vf_height ?f \<le> vf_width ?f * vf_height ?f" by simp_all
  moreover have "vf_width ?f * vf_height ?f * 4 < 2 ^ 31" using assms unfolding frame_ok_def Let_def by blast
  ultimately show b: "vf_width ?f < 2 ^ 29" "vf_height ?f < 2 ^ 29" by (blast intro: below_quarter)+
  have "2 ^ h * vf_chromaWidth ?f < 2 ^ 29" "2 ^ v * vf_chromaHeight ?f < 2 ^ 29" "0 < vf_chromaWidth ?f" "0 < vf_chromaHeight ?f"
    using assms b by (simp_all add: frame_ok_def Let_def)
  then show "h < 29" "v < 29" by (blast intro: power_exponent_bound)+
qed

lemma chroma_row: "y < 2 ^ v * (n :: nat) \<Longrightarrow> y div 2 ^ v < n"
  by (simp add: less_mult_imp_div_less mult.commute)

lemma general_rows_paint:
  assumes ok: "frame_ok fr h v" and "y \<le> vf_height (fr_format fr)"
    and "w = vf_width (fr_format fr)"
  shows "general_rows fr h v (int w) (int (vf_height (fr_format fr))) (int y) (4 * int (y * w))
      (paint (pixel_colour fr h v) {..<y * w} out)
    = paint (pixel_colour fr h v) {..<vf_height (fr_format fr) * w} out"
  using assms(2)
proof (induction "vf_height (fr_format fr) - y" arbitrary: y)
  case 0
  then show ?case by (simp add: general_rows.simps [of _ _ _ _ _ "int y"])
next
  case (Suc d)
  let ?f = "fr_format fr" and ?c = "pixel_colour fr h v"
  have y: "y < vf_height ?f" using Suc.hyps(2) by simp
  have planes: "plane_holds (fr_y fr) (vf_width ?f) (vf_height ?f)" "plane_holds (fr_u fr) (vf_chromaWidth ?f) (vf_chromaHeight ?f)"
      "plane_holds (fr_v fr) (vf_chromaWidth ?f) (vf_chromaHeight ?f)" "y div 2 ^ v < vf_chromaHeight ?f"
    using ok y by (auto simp: frame_ok_def Let_def intro: chroma_row)
  have shr: "js_shr (int y) v = int (y div 2 ^ v)" using y frame_ok_sizes [OF ok] by (intro js_shr_nat) auto
  have row: "general_row (pl_bytes (fr_y fr)) (pl_bytes (fr_u fr)) (pl_bytes (fr_v fr)) h (int w) (int 0)
      (int (y div 2 ^ v * pl_stride (fr_u fr))) (int (y div 2 ^ v * pl_stride (fr_v fr)))
      (int (y * pl_stride (fr_y fr)) + int 0) (4 * int (y * w + 0)) (paint ?c {..<y * w} out)
    = (4 * int (y * w + w), paint ?c ({..<y * w} \<union> {y * w + 0..<y * w + w}) out)"
    using frame_ok_sizes [OF ok] assms(3) pixel_colour_at by (intro general_row_paint) auto
  have "{..<y * w} \<union> {y * w + 0..<y * w + w} = {..<Suc y * w}" by auto
  with row Suc.hyps(1) [of "Suc y"] Suc.hyps(2) y show ?case
    using plane_row [OF planes(1) y] plane_row [OF planes(2) planes(4)] plane_row [OF planes(3) planes(4)]
    by (simp add: general_rows.simps [of _ _ _ _ _ "int y"] Let_def shr add.commute)
qed

lemma fast_rows_paint:
  assumes ok: "frame_ok fr 1 1" and "2 * j \<le> vf_height (fr_format fr)" and w: "w = vf_width (fr_format fr)"
  shows "fast_rows fr (int w) (int (vf_height (fr_format fr))) (int (2 * j)) (int j)
      (4 * int (2 * j * w)) (4 * int (Suc (2 * j) * w)) (paint (pixel_colour fr 1 1) {..<2 * j * w} out)
    = paint (pixel_colour fr 1 1) {..<vf_height (fr_format fr) * w} out"
  using assms(2)
proof (induction "vf_height (fr_format fr) - 2 * j" arbitrary: j rule: less_induct)
  case less
  let ?f = "fr_format fr" and ?c = "pixel_colour fr 1 1"
  obtain n m where even: "w = 2 * n" "vf_height ?f = 2 * m" "vf_chromaWidth ?f = n" "vf_chromaHeight ?f = m"
    using ok w by (simp add: frame_ok_def Let_def)
  show ?case
  proof (cases "j < m")
    case False
    then have "vf_height ?f = 2 * j" using even less.prems by simp
    then show ?thesis by (subst fast_rows.simps) simp
  next
    case True
    have planes: "plane_holds (fr_y fr) w (2 * m)" "plane_holds (fr_u fr) n m" "plane_holds (fr_v fr) n m"
      using ok even w by (simp_all add: frame_ok_def Let_def)
    have ys: "2 * j < 2 * m" "Suc (2 * j) < 2 * m" using True by simp_all
    have "w < 2 ^ 29" using frame_ok_sizes [OF ok] w by simp
    then have stride: "js_shl (int w) 2 = 4 * int w"
      using toInt32_nat [of w] toInt32_nat [of "4 * w"] by (simp add: js_shl_def push_bit_int_def mult.commute)
    have row: "fast_row (pl_bytes (fr_y fr)) (pl_bytes (fr_u fr)) (pl_bytes (fr_v fr)) (int (2 * n)) (int (2 * 0))
        (int (j * pl_stride (fr_u fr)) + int 0) (int (j * pl_stride (fr_v fr)) + int 0)
        (int (2 * j * pl_stride (fr_y fr)) + int (2 * 0)) (int (Suc (2 * j) * pl_stride (fr_y fr)) + int (2 * 0))
        (4 * int (2 * j * w + 2 * 0)) (4 * int (Suc (2 * j) * w + 2 * 0)) (paint ?c {..<2 * j * w} out)
      = (4 * int (2 * j * w + 2 * n), 4 * int (Suc (2 * j) * w + 2 * n),
         paint ?c ({..<2 * j * w} \<union> {2 * j * w + 2 * 0..<2 * j * w + 2 * n} \<union> {Suc (2 * j) * w + 2 * 0..<Suc (2 * j) * w + 2 * n}) out)"
      using pixel_colour_at [of _ fr 1 1 "2 * j"] pixel_colour_at [of _ fr 1 1 "Suc (2 * j)"] w even(1)
      by (intro fast_row_paint) simp_all
    have "{..<2 * j * w} \<union> {2 * j * w + 2 * 0..<2 * j * w + 2 * n} \<union> {Suc (2 * j) * w + 2 * 0..<Suc (2 * j) * w + 2 * n}
        = {..<2 * Suc j * w}"
      using even(1) by auto
    moreover have "toInt32 (int (2 * j * pl_stride (fr_y fr)) + int (pl_stride (fr_y fr))) = int (Suc (2 * j) * pl_stride (fr_y fr))"
      using plane_row(2) [OF planes(1) ys(2)] by (simp add: algebra_simps)
    moreover have "fast_rows fr (int w) (int (vf_height ?f)) (int (2 * Suc j)) (int (Suc j)) (4 * int (2 * Suc j * w))
        (4 * int (Suc (2 * Suc j) * w)) (paint ?c {..<2 * Suc j * w} out) = paint ?c {..<vf_height ?f * w} out"
      using less.hyps [of "Suc j"] True even(2) by simp
    ultimately show ?thesis
      using row True even(1,2) plane_row [OF planes(1) ys(1)] plane_row [OF planes(2) True] plane_row [OF planes(3) True] stride
      by (subst fast_rows.simps) (simp add: Let_def algebra_simps)
  qed
qed

lemma convertYCbCr_paint:
  assumes "frame_ok fr h v"
  shows "convertYCbCr fr out
    = Some (Inr (paint (pixel_colour fr h v) {..<vf_height (fr_format fr) * vf_width (fr_format fr)} out))"
proof -
  let ?f = "fr_format fr"
  have sz: "toInt32 (int (vf_width ?f)) = int (vf_width ?f)" "toInt32 (int (vf_height ?f)) = int (vf_height ?f)"
    using frame_ok_sizes(1,2) [OF assms] by (simp_all add: toInt32_nat)
  have "depower (vf_width ?f) (vf_chromaWidth ?f) = Some (Inr h)" "depower (vf_height ?f) (vf_chromaHeight ?f) = Some (Inr v)"
    using assms frame_ok_sizes(3,4) [OF assms] by (auto simp: frame_ok_def Let_def intro: depower_power)
  moreover have "js_shl (int (vf_width ?f)) 2 = 4 * int (vf_width ?f)"
    using frame_ok_sizes(1) [OF assms] toInt32_nat [of "vf_width ?f"] toInt32_nat [of "4 * vf_width ?f"]
    by (simp add: js_shl_def push_bit_int_def mult.commute)
  ultimately show ?thesis
    using general_rows_paint [OF assms _ refl, of 0 out] fast_rows_paint [OF _ _ refl, of fr 0 out] assms
    by (auto simp: convertYCbCr_def Let_def sz)
qed

section \<open>Whatever the frame, only colours are written\<close>

definition same_alpha :: "bytes \<Rightarrow> bytes \<Rightarrow> bool" where
  "same_alpha a b \<longleftrightarrow> length b = length a \<and> (\<forall>i < length a. i mod 4 = 3 \<longrightarrow> b ! i = a ! i)"

lemma same_alpha_refl [simp]: "same_alpha a a"
  by (simp add: same_alpha_def)

lemma same_alpha_trans: "same_alpha a b \<Longrightarrow> same_alpha b c \<Longrightarrow> same_alpha a c"
  by (simp add: same_alpha_def)

lemma clamped_write_alpha:
  assumes "i mod 4 \<noteq> 3"
  shows "same_alpha out (clamped_write out i n)"
proof (cases "0 \<le> i \<and> i < int (length out)")
  case True
  then obtain j where j: "i = int j" by (metis nat_0_le)
  have "j mod 4 \<noteq> 3" using assms by (simp add: j) presburger
  then show ?thesis unfolding j clamped_write_nat by (auto simp: same_alpha_def nth_list_update_inside)
qed (auto simp: clamped_write_def)

lemma store_rgb_alpha:
  assumes "4 dvd p"
  shows "same_alpha out (store_rgb out p a b c d)"
proof -
  obtain k where "p = 4 * k" using assms by (rule dvdE)
  then have "p mod 4 \<noteq> 3" "(p + 1) mod 4 \<noteq> 3" "(p + 2) mod 4 \<noteq> 3" by presburger+
  then show ?thesis
    unfolding store_rgb_def by (blast intro: same_alpha_trans clamped_write_alpha)
qed

lemma same_alpha_store [simp]: "4 dvd p \<Longrightarrow> same_alpha (store_rgb out p a b c d) out' = same_alpha out out'"
  using store_rgb_alpha [of p out a b c d] by (auto simp: same_alpha_def)

lemma fast_row_alpha:
  "4 dvd p0 \<Longrightarrow> 4 dvd p1 \<Longrightarrow> fast_row bY bCb bCr w x cb cr y0 y1 p0 p1 out = (q0, q1, out')
    \<Longrightarrow> 4 dvd q0 \<and> 4 dvd q1 \<and> same_alpha out out'"
proof (induction bY bCb bCr w x cb cr y0 y1 p0 p1 out rule: fast_row.induct)
  case (1 bY bCb bCr w x cb cr y0 y1 p0 p1 out)
  show ?case
  proof (cases "x < w")
    case True
    have p: "4 dvd p0 + 8" "4 dvd p1 + 8" "4 dvd p0 + 4" "4 dvd p1 + 4" using 1(2,3) by simp_all
    show ?thesis
      using 1(1) [OF True refl refl refl refl refl refl refl refl refl] 1(2-4) True p
      by (subst (asm) (2) fast_row.simps) (simp add: Let_def)
  next
    case False
    then show ?thesis using 1(2-4) by (subst (asm) fast_row.simps) simp
  qed
qed

lemma general_row_alpha:
  "4 dvd p \<Longrightarrow> general_row bY bCb bCr hdec w x cb cr y p out = (q, out') \<Longrightarrow> 4 dvd q \<and> same_alpha out out'"
proof (induction bY bCb bCr hdec w x cb cr y p out rule: general_row.induct)
  case (1 bY bCb bCr hdec w x cb cr y p out)
  show ?case
  proof (cases "x < w")
    case True
    then show ?thesis
      using 1(1) [OF True refl refl refl refl] 1(2,3) by (subst (asm) (2) general_row.simps) (simp add: Let_def)
  next
    case False
    then show ?thesis using 1(2,3) by (subst (asm) general_row.simps) simp
  qed
qed

lemma js_shl_dvd: "4 dvd js_shl i 2"
proof -
  have "take_bit 2 (js_shl i 2) = take_bit 2 (push_bit 2 (toInt32 i))"
    by (simp add: js_shl_def toInt32_def [of "push_bit 2 _"] take_bit_signed_take_bit)
  then show ?thesis by (simp add: take_bit_eq_mod push_bit_int_def dvd_eq_mod_eq_0)
qed

lemma fast_rows_alpha: "4 dvd p0 \<Longrightarrow> 4 dvd p1 \<Longrightarrow> same_alpha out (fast_rows fr w hh y ydec p0 p1 out)"
proof (induction fr w hh y ydec p0 p1 out rule: fast_rows.induct)
  case (1 fr w hh y ydec p0 p1 out)
  show ?case
  proof (cases "y < hh")
    case True
    define yp where "yp = toInt32 (y * toInt32 (int (pl_stride (fr_y fr))))"
    obtain q0 q1 out' where row: "fast_row (pl_bytes (fr_y fr)) (pl_bytes (fr_u fr)) (pl_bytes (fr_v fr)) w 0
        (toInt32 (ydec * toInt32 (int (pl_stride (fr_u fr))))) (toInt32 (ydec * toInt32 (int (pl_stride (fr_v fr))))) yp
        (toInt32 (yp + toInt32 (int (pl_stride (fr_y fr))))) p0 p1 out = (q0, q1, out')"
      by (metis surj_pair)
    note r = fast_row_alpha [OF 1(2,3) row]
    have "same_alpha out' (fast_rows fr w hh (y + 2) (ydec + 1) (q0 + js_shl w 2) (q1 + js_shl w 2) out')"
      by (rule 1(1) [OF True refl refl refl refl refl refl refl refl _ refl]; use row yp_def r js_shl_dvd in simp)
    then show ?thesis
      using r row True by (subst fast_rows.simps) (auto simp: Let_def yp_def intro: same_alpha_trans)
  next
    case False
    then show ?thesis by (subst fast_rows.simps) simp
  qed
qed

lemma general_rows_alpha: "4 dvd p \<Longrightarrow> same_alpha out (general_rows fr hdec vdec w hh y p out)"
proof (induction fr hdec vdec w hh y p out rule: general_rows.induct)
  case (1 fr hdec vdec w hh y p out)
  show ?case
  proof (cases "y < hh")
    case True
    obtain q out' where row: "general_row (pl_bytes (fr_y fr)) (pl_bytes (fr_u fr)) (pl_bytes (fr_v fr)) hdec w 0
        (toInt32 (js_shr y vdec * toInt32 (int (pl_stride (fr_u fr))))) (toInt32 (js_shr y vdec * toInt32 (int (pl_stride (fr_v fr)))))
        (toInt32 (y * toInt32 (int (pl_stride (fr_y fr))))) p out = (q, out')"
      by (metis surj_pair)
    note r = general_row_alpha [OF 1(2) row]
    have "same_alpha out' (general_rows fr hdec vdec w hh (y + 1) q out')"
      by (rule 1(1) [OF True refl refl refl refl refl refl refl _ refl]; use row r in simp)
    then show ?thesis
      using r row True by (subst general_rows.simps) (auto simp: Let_def intro: same_alpha_trans)
  next
    case False
    then show ?thesis by (subst general_rows.simps) simp
  qed
qed

lemma convertYCbCr_alpha: "convertYCbCr fr out = Some (Inr out') \<Longrightarrow> same_alpha out out'"
  by (auto simp: convertYCbCr_def Let_def fast_rows_alpha general_rows_alpha js_shl_dvd split: option.splits sum.splits if_splits)

section \<open>What the conversion promises\<close>

text \<open>
  C33: for planes halved in both directions the body unrolled over squares of four pixels leaves
  the same bytes in the buffer, whatever its length, as the body that goes pixel by pixel.
\<close>

theorem fast_conversion_equals_general:
  assumes "frame_ok fr 1 1" and "width = toInt32 (int (vf_width (fr_format fr)))"
    and "height = toInt32 (int (vf_height (fr_format fr)))"
  shows "fast_rows fr width height 0 0 0 (js_shl width 2) out = general_rows fr 1 1 width height 0 0 out"
proof -
  have sz: "width = int (vf_width (fr_format fr))" "height = int (vf_height (fr_format fr))"
    using assms(2,3) frame_ok_sizes(1,2) [OF assms(1)] by (simp_all add: toInt32_nat)
  moreover have "js_shl width 2 = 4 * width"
    using frame_ok_sizes(1) [OF assms(1)] toInt32_nat [of "vf_width (fr_format fr)"] toInt32_nat [of "4 * vf_width (fr_format fr)"]
    by (simp add: sz js_shl_def push_bit_int_def mult.commute)
  ultimately show ?thesis
    using general_rows_paint [OF assms(1) _ refl, of 0 out] fast_rows_paint [OF assms(1) _ refl, of 0 out] by simp
qed

definition sample_frame :: frame where
  "sample_frame = \<lparr>fr_format = \<lparr>vf_width = 2, vf_height = 2, vf_chromaWidth = 1, vf_chromaHeight = 1,
       vf_displayWidth = 2, vf_displayHeight = 1, vf_cropLeft = 0, vf_cropTop = 1\<rparr>,
     fr_y = \<lparr>pl_bytes = [16, 81, 0, 235, 126, 0], pl_stride = 3\<rparr>,
     fr_u = \<lparr>pl_bytes = [90], pl_stride = 1\<rparr>, fr_v = \<lparr>pl_bytes = [240], pl_stride = 1\<rparr>\<rparr>"

lemma sample_frame_ok: "frame_ok sample_frame 1 1"
  by (simp add: frame_ok_def sample_frame_def plane_holds_def)

theorem fast_conversion_equals_general_witness:
  "fast_rows sample_frame 2 2 0 0 0 8 (replicate 16 255) = general_rows sample_frame 1 1 2 2 0 0 (replicate 16 255)
   \<and> (let out = general_rows sample_frame 1 1 2 2 0 0 (replicate 16 255)
      in out ! 0 = 179 \<and> out ! 1 = 0 \<and> out ! 8 = 255 \<and> out ! 9 = 179 \<and> out ! 11 = 255)"
proof -
  have n: "2 = toInt32 (int (vf_width (fr_format sample_frame)))" "2 = toInt32 (int (vf_height (fr_format sample_frame)))"
    and eight: "js_shl 2 2 = 8"
    and sz: "vf_width (fr_format sample_frame) = 2" "vf_height (fr_format sample_frame) = 2"
    by (simp_all add: sample_frame_def toInt32_def js_shl_def)
  have "fast_rows sample_frame 2 2 0 0 0 8 (replicate 16 255) = general_rows sample_frame 1 1 2 2 0 0 (replicate 16 255)"
    using fast_conversion_equals_general [OF sample_frame_ok n] unfolding eight by blast
  moreover have "general_rows sample_frame 1 1 2 2 0 0 (replicate 16 255) = paint (pixel_colour sample_frame 1 1) {..<4} (replicate 16 255)"
    using general_rows_paint [OF sample_frame_ok _ refl, of 0 "replicate 16 255"] sz by simp
  moreover have "map (pixel_colour sample_frame 1 1 0) [0, 1, 2] = [179, 0, 0]" "map (pixel_colour sample_frame 1 1 2) [0, 1] = [255, 179]"
    by code_simp+
  ultimately show ?thesis
    by (simp only: Let_def nth_paint length_replicate) simp
qed

text \<open>
  The colour of a sample as ITU-R BT.601 defines it for samples of limited range, which the constants
  of the code approximate by fractions of 256.
\<close>

definition bt601 :: "real \<Rightarrow> real \<Rightarrow> real \<Rightarrow> nat \<Rightarrow> real" where
  "bt601 Y Cb Cr k =
     (let luma = 255 / 219 * (Y - 16); cb = 255 / 112 * 0.886 * (Cb - 128); cr = 255 / 112 * 0.701 * (Cr - 128)
      in if k = 0 then luma + cr else if k = 1 then luma - 0.114 / 0.587 * cb - 0.299 / 0.587 * cr else luma + cb)"

lemma div_real_bounds: "real_of_int a / 256 - 1 < real_of_int (a div 256)" "real_of_int (a div 256) \<le> real_of_int a / 256"
  using div_mod_decomp_int [of a 256] pos_mod_bound [of 256 a] pos_mod_sign [of 256 a] by linarith+

lemma channel_int_near:
  assumes "0 \<le> Y" "Y \<le> 255" "0 \<le> Cb" "Cb \<le> 255" "0 \<le> Cr" "Cr \<le> 255" and "k < 3"
  shows "\<bar>real_of_int (channel_int Y Cb Cr k) - bt601 (real_of_int Y) (real_of_int Cb) (real_of_int Cr) k\<bar> < 7 / 4"
proof -
  have r: "0 \<le> real_of_int Y" "real_of_int Y \<le> 255" "0 \<le> real_of_int Cb" "real_of_int Cb \<le> 255" "0 \<le> real_of_int Cr" "real_of_int Cr \<le> 255"
    using assms by simp_all
  consider "k = 0" | "k = 1" | "k = 2" using assms(7) by linarith
  then show ?thesis
  proof cases
    case 1
    then show ?thesis
      using r div_real_bounds [of "298 * (Y - 16) + 409 * (Cr - 128) + 32"]
      by (simp add: channel_int_def bt601_def abs_less_iff field_simps)
  next
    case 2
    then show ?thesis
      using r div_real_bounds [of "298 * (Y - 16) - 100 * (Cb - 128) - 208 * (Cr - 128) + 160"]
      by (simp add: channel_int_def bt601_def abs_less_iff field_simps)
  next
    case 3
    then show ?thesis
      using r div_real_bounds [of "298 * (Y - 16) + 516 * (Cb - 128) - 96"]
      by (simp add: channel_int_def bt601_def abs_less_iff field_simps)
  qed
qed

lemma uint_clamp8: "uint (clamp8 i) = max 0 (min 255 i)"
  by (simp add: clamp8_def uint_word_of_int take_bit_int_eq_self max_def min_def)

lemma channel_near:
  assumes "0 \<le> Y" "Y \<le> 255" "0 \<le> Cb" "Cb \<le> 255" "0 \<le> Cr" "Cr \<le> 255" and "k < 3"
  shows "\<bar>real_of_int (uint (channel Y Cb Cr k)) - max 0 (min 255 (bt601 (real_of_int Y) (real_of_int Cb) (real_of_int Cr) k))\<bar> < 7 / 4"
proof -
  have "real_of_int (uint (channel Y Cb Cr k)) = max 0 (min 255 (real_of_int (channel_int Y Cb Cr k)))"
    unfolding channel_def uint_clamp8 by (simp add: of_int_max of_int_min)
  then show ?thesis using channel_int_near [OF assms] by (auto simp: max_def min_def abs_if split: if_splits)
qed

text \<open>
  C34: the arithmetic of the conversion, done with 32-bit integers, 8-bit fractions and a clamped
  array, never wraps: each channel it writes is within 7/4 of the colour that ITU-R BT.601 gives
  the sample, cut to the range of a byte.
\<close>

theorem conversion_near_bt601:
  assumes "Y \<in> {0..255}" and "Cb \<in> {0..255}" and "Cr \<in> {0..255}"
  shows "\<bar>real_of_int (uint (clamp8 (js_shr (multY Y + multCrR Cr) 8)))
      - max 0 (min 255 (bt601 (real_of_int Y) (real_of_int Cb) (real_of_int Cr) 0))\<bar> < 7 / 4
    \<and> \<bar>real_of_int (uint (clamp8 (js_shr (multY Y - multCbCrG Cb Cr) 8)))
      - max 0 (min 255 (bt601 (real_of_int Y) (real_of_int Cb) (real_of_int Cr) 1))\<bar> < 7 / 4
    \<and> \<bar>real_of_int (uint (clamp8 (js_shr (multY Y + multCbB Cb) 8)))
      - max 0 (min 255 (bt601 (real_of_int Y) (real_of_int Cb) (real_of_int Cr) 2))\<bar> < 7 / 4"
proof -
  have b: "0 \<le> Y" "Y \<le> 255" "0 \<le> Cb" "Cb \<le> 255" "0 \<le> Cr" "Cr \<le> 255" using assms by simp_all
  have k: "0 < (3 :: nat)" "Suc 0 < 3" "2 < (3 :: nat)" by simp_all
  show ?thesis
    using channel_near [OF b k(1)] channel_near [OF b k(2)] channel_near [OF b k(3)]
    unfolding channel_bounds [OF b] channel_def One_nat_def by blast
qed

theorem conversion_near_bt601_witness:
  "\<bar>real_of_int (uint (clamp8 (js_shr (multY 126 + multCrR 240) 8))) - max 0 (min 255 (bt601 126 90 240 0))\<bar> < 7 / 4"
  using conversion_near_bt601 [of 126 90 240] by simp

end
