(* ===== verification/Video_Draw.thy ===== *)
theory Video_Draw
  imports Ycbcr
begin

text \<open>
  \<open>flutter/js/src/helpers/video_draw.js\<close>: a decoded frame is converted to RGBA by \<open>convertYCbCr\<close> of
  yuv-canvas (theory \<open>Ycbcr\<close>) and its visible part copied, row by row, into the buffer that Flutter
  shows.  Both buffers are reused between frames.
\<close>

section \<open>Buffers\<close>

text \<open>The variables of the module and \<open>draw._temp\<close>; \<open>None\<close> is undefined.\<close>

record canvas =
  cv_flipPixels :: "bytes option"
  cv_lastDw :: nat
  cv_lastDh :: nat
  cv_temp :: "bytes option"

definition newCanvas :: canvas where
  "newCanvas = \<lparr>cv_flipPixels = None, cv_lastDw = 0, cv_lastDh = 0, cv_temp = None\<rparr>"

text \<open>What a call hands to \<open>onRgba\<close>, what it throws, or that it does not return.\<close>

datatype draw_error = Raised unknown | ConvertThrew convert_error

datatype draw_result = Rgba string int nat nat "bytes option" | DrawThrew draw_error | DrawHangs

section \<open>Drawing\<close>

definition subarray :: "bytes \<Rightarrow> nat \<Rightarrow> nat \<Rightarrow> bytes" where
  "subarray b s e = take (e - s) (drop s b)"

fun draw_rows :: "nat \<Rightarrow> nat \<Rightarrow> nat \<Rightarrow> nat \<Rightarrow> bytes \<Rightarrow> nat list \<Rightarrow> bytes \<Rightarrow> unknown option \<times> bytes" where
  "draw_rows fw cropLeft cropTop dw temp [] flip = (None, flip)"
| "draw_rows fw cropLeft cropTop dw temp (y # ys) flip =
     (let dstRow = dw * 4;
          srcStart = ((cropTop + y) * fw + cropLeft) * 4;
          dstStart = y * dstRow
      in case typed_array_set flip (subarray temp srcStart (srcStart + dstRow)) dstStart of
           None \<Rightarrow> (Some (UError ''RangeError'' ''offset is out of bounds''), flip)
         | Some flip' \<Rightarrow> draw_rows fw cropLeft cropTop dw temp ys flip')"

definition temp_buffer :: "video_format \<Rightarrow> canvas \<Rightarrow> bytes" where
  "temp_buffer f cv =
     (let fsize = vf_width f * vf_height f * 4
      in case cv_temp cv of
           None \<Rightarrow> replicate fsize 255
         | Some t \<Rightarrow> (if length t \<noteq> fsize then replicate fsize 255 else t))"

text \<open>The part of \<open>draw\<close> after the conversion, which left \<open>temp\<close> in \<open>draw._temp\<close>.\<close>

definition draw_visible :: "int \<Rightarrow> video_format \<Rightarrow> string option \<Rightarrow> bytes \<Rightarrow> canvas \<Rightarrow> draw_result \<times> canvas" where
  "draw_visible display f sessionId temp cv =
     (let dw = vf_displayWidth f; dh = vf_displayHeight f
      in case cv_flipPixels cv of
           None \<Rightarrow> ((if dh = 0 then Rgba (nullish sessionId '''') display dw dh None
                      else DrawThrew (Raised (UError ''TypeError'' ''Cannot read properties of undefined''))), cv)
         | Some flip \<Rightarrow>
             (case draw_rows (vf_width f) (vf_cropLeft f) (vf_cropTop f) dw temp [0..<dh] flip of
                (Some e, flip') \<Rightarrow> (DrawThrew (Raised e), cv\<lparr>cv_flipPixels := Some flip'\<rparr>)
              | (None, flip') \<Rightarrow> (Rgba (nullish sessionId '''') display dw dh (Some flip'), cv\<lparr>cv_flipPixels := Some flip'\<rparr>)))"

definition draw :: "int \<Rightarrow> frame \<Rightarrow> string option \<Rightarrow> canvas \<Rightarrow> draw_result \<times> canvas" where
  "draw display fr sessionId cv =
     (let f = fr_format fr; dw = vf_displayWidth f; dh = vf_displayHeight f;
          cv1 = (if dw \<noteq> cv_lastDw cv \<or> dh \<noteq> cv_lastDh cv
                 then cv\<lparr>cv_lastDw := dw, cv_lastDh := dh, cv_flipPixels := Some (replicate (dw * dh * 4) 0)\<rparr>
                 else cv);
          temp0 = temp_buffer f cv1
      in case convertYCbCr fr temp0 of
           None \<Rightarrow> (DrawHangs, cv1\<lparr>cv_temp := Some temp0\<rparr>)
         | Some (Inl e) \<Rightarrow> (DrawThrew (ConvertThrew e), cv1\<lparr>cv_temp := Some temp0\<rparr>)
         | Some (Inr temp) \<Rightarrow> draw_visible display f sessionId temp (cv1\<lparr>cv_temp := Some temp\<rparr>))"

section \<open>The visible part\<close>

text \<open>The fourth byte of every pixel is 255.\<close>

definition opaque :: "bytes \<Rightarrow> bool" where
  "opaque b \<longleftrightarrow> (\<forall>i < length b. i mod 4 = 3 \<longrightarrow> b ! i = 255)"

definition canvas_ok :: "canvas \<Rightarrow> bool" where
  "canvas_ok cv \<longleftrightarrow>
     (case cv_flipPixels cv of None \<Rightarrow> cv_lastDw cv = 0 \<and> cv_lastDh cv = 0
      | Some p \<Rightarrow> length p = cv_lastDw cv * cv_lastDh cv * 4)
   \<and> (case cv_temp cv of None \<Rightarrow> True | Some t \<Rightarrow> opaque t)"

definition format_ok :: "video_format \<Rightarrow> bool" where
  "format_ok f \<longleftrightarrow> vf_cropLeft f + vf_displayWidth f \<le> vf_width f \<and> vf_cropTop f + vf_displayHeight f \<le> vf_height f"

definition source_row :: "video_format \<Rightarrow> bytes \<Rightarrow> nat \<Rightarrow> bytes" where
  "source_row f temp y =
     (let s = ((vf_cropTop f + y) * vf_width f + vf_cropLeft f) * 4 in subarray temp s (s + vf_displayWidth f * 4))"

lemma row_end:
  assumes "format_ok f" and "y < vf_displayHeight f"
  shows "((vf_cropTop f + y) * vf_width f + vf_cropLeft f) * 4 + vf_displayWidth f * 4 \<le> vf_width f * vf_height f * 4"
proof -
  have "(vf_cropTop f + y) * vf_width f + vf_width f \<le> vf_height f * vf_width f"
    using mult_le_mono1 [of "Suc (vf_cropTop f + y)" "vf_height f" "vf_width f"] assms by (simp add: format_ok_def)
  then show ?thesis using assms(1) by (simp add: format_ok_def mult.commute)
qed

lemma length_source_row:
  assumes "format_ok f" and "y < vf_displayHeight f" and "length temp = vf_width f * vf_height f * 4"
  shows "length (source_row f temp y) = vf_displayWidth f * 4"
  using row_end [OF assms(1,2)] assms(3) by (simp add: source_row_def subarray_def Let_def)

lemma draw_rows_copies:
  assumes "format_ok f" and "length temp = vf_width f * vf_height f * 4" and "m \<le> vf_displayHeight f"
    and "length flip = vf_displayHeight f * (vf_displayWidth f * 4)"
  shows "draw_rows (vf_width f) (vf_cropLeft f) (vf_cropTop f) (vf_displayWidth f) temp [m..<vf_displayHeight f] flip
    = (None, take (m * (vf_displayWidth f * 4)) flip @ concat (map (source_row f temp) [m..<vf_displayHeight f]))"
  using assms(3,4)
proof (induction "vf_displayHeight f - m" arbitrary: m flip)
  case 0
  then show ?case by simp
next
  case (Suc k)
  define R where "R = vf_displayWidth f * 4"
  let ?row = "source_row f temp m"
  have m: "m < vf_displayHeight f" using Suc.hyps(2) by simp
  have len: "length ?row = R" using length_source_row [OF assms(1) m assms(2)] by (simp add: R_def)
  have "Suc m * R \<le> vf_displayHeight f * R" using m by (intro mult_le_mono1) simp
  then have fits: "m * R + R \<le> length flip" using Suc.prems by (simp add: R_def)
  define flip' where "flip' = take (m * R) flip @ ?row @ drop (m * R + R) flip"
  have set: "typed_array_set flip ?row (m * R) = Some flip'"
    using fits len by (simp add: typed_array_set_def flip'_def)
  have len': "length flip' = vf_displayHeight f * (vf_displayWidth f * 4)"
    using fits len Suc.prems by (simp add: flip'_def)
  have "take (Suc m * R) flip' = take (m * R) flip @ ?row"
    using fits len by (simp add: flip'_def add.commute)
  moreover have "[m..<vf_displayHeight f] = m # [Suc m..<vf_displayHeight f]"
    using m by (simp add: upt_conv_Cons)
  ultimately show ?case
    using Suc.hyps(1) [of "Suc m" flip'] Suc.hyps(2) m len' set
    by (simp add: R_def source_row_def Let_def)
qed

lemma length_concat_rows: "\<forall>y < n. length (row y) = R \<Longrightarrow> length (concat (map row [0..<n])) = n * R"
  by (induction n) auto

lemma nth_concat_rows:
  assumes "\<forall>y < n. length (row y) = R" and "y < n" and "i < R"
  shows "concat (map row [0..<n]) ! (y * R + i) = row y ! i"
  using assms(1,2)
proof (induction n)
  case (Suc n)
  have len: "length (concat (map row [0..<n])) = n * R"
    using Suc.prems(1) by (simp add: length_concat_rows)
  show ?case
  proof (cases "y < n")
    case True
    then have "Suc y * R \<le> n * R" by (intro mult_le_mono1) simp
    then show ?thesis
      using Suc.IH Suc.prems(1) True assms(3) by (simp add: nth_append len)
  next
    case False
    then have "y = n" using Suc.prems(2) by simp
    then show ?thesis by (simp add: nth_append len)
  qed
qed simp

lemma source_row_nth:
  assumes "format_ok f" and "y < vf_displayHeight f" and "i < vf_displayWidth f * 4" and "length temp = vf_width f * vf_height f * 4"
  shows "source_row f temp y ! i = temp ! (((vf_cropTop f + y) * vf_width f + vf_cropLeft f) * 4 + i)"
  using row_end [OF assms(1,2)] assms(3,4) by (simp add: source_row_def subarray_def Let_def)

lemma length_temp_buffer [simp]: "length (temp_buffer f cv) = vf_width f * vf_height f * 4"
  by (simp add: temp_buffer_def Let_def split: option.split)

lemma temp_buffer_cong: "cv_temp cv' = cv_temp cv \<Longrightarrow> temp_buffer f cv' = temp_buffer f cv"
  by (simp add: temp_buffer_def)

lemma temp_buffer_opaque: "canvas_ok cv \<Longrightarrow> opaque (temp_buffer f cv)"
  by (auto simp: temp_buffer_def Let_def canvas_ok_def opaque_def split: option.splits)

section \<open>The buffers stay right\<close>

lemma draw_rows_length: "draw_rows fw l t dw temp ys flip = (e, flip') \<Longrightarrow> length flip' = length flip"
  by (induction fw l t dw temp ys flip rule: draw_rows.induct)
    (auto simp: Let_def typed_array_set_def split: option.splits if_splits)

lemma draw_visible_canvas_ok: "canvas_ok cv \<Longrightarrow> canvas_ok (snd (draw_visible display f sessionId temp cv))"
  by (auto simp: draw_visible_def canvas_ok_def Let_def draw_rows_length split: option.splits prod.splits)

lemma opaque_alpha: "opaque a \<Longrightarrow> same_alpha a b \<Longrightarrow> opaque b"
  by (simp add: opaque_def same_alpha_def)

lemma draw_canvas_ok:
  assumes "canvas_ok cv"
  shows "canvas_ok (snd (draw display fr sessionId cv))"
proof -
  let ?f = "fr_format fr"
  define cv1 where "cv1 = (if vf_displayWidth ?f \<noteq> cv_lastDw cv \<or> vf_displayHeight ?f \<noteq> cv_lastDh cv
      then cv\<lparr>cv_lastDw := vf_displayWidth ?f, cv_lastDh := vf_displayHeight ?f,
          cv_flipPixels := Some (replicate (vf_displayWidth ?f * vf_displayHeight ?f * 4) 0)\<rparr> else cv)"
  have ok1: "canvas_ok cv1" using assms by (simp add: cv1_def canvas_ok_def)
  then have temp: "canvas_ok (cv1\<lparr>cv_temp := Some t\<rparr>)" if "opaque t" for t
    using that by (simp add: canvas_ok_def split: option.splits)
  have "opaque t" if "convertYCbCr fr (temp_buffer ?f cv1) = Some (Inr t)" for t
    using temp_buffer_opaque [OF ok1] convertYCbCr_alpha [OF that] by (rule opaque_alpha)
  then show ?thesis
    using temp temp_buffer_opaque [OF ok1] draw_visible_canvas_ok
    unfolding draw_def Let_def cv1_def [symmetric] by (auto split: option.split sum.split)
qed

text \<open>The frames drawn one after the other since the module was loaded.\<close>

fun draw_frames :: "(int \<times> frame \<times> string option) list \<Rightarrow> canvas \<Rightarrow> canvas" where
  "draw_frames [] cv = cv"
| "draw_frames ((display, fr, sessionId) # frs) cv = draw_frames frs (snd (draw display fr sessionId cv))"

lemma draw_frames_canvas_ok: "canvas_ok cv \<Longrightarrow> canvas_ok (draw_frames frs cv)"
  by (induction frs cv rule: draw_frames.induct) (simp_all add: draw_canvas_ok)

lemma newCanvas_ok: "canvas_ok newCanvas"
  by (simp add: canvas_ok_def newCanvas_def)

section \<open>What is shown\<close>

text \<open>The colour of the pixel in column \<open>x\<close> and row \<open>y\<close> of a frame: its own luma sample and the chroma samples that cover it.\<close>

definition source_colour :: "frame \<Rightarrow> nat \<Rightarrow> nat \<Rightarrow> nat \<Rightarrow> nat \<Rightarrow> nat \<Rightarrow> byte" where
  "source_colour fr h v x y k =
     channel (uint (pl_bytes (fr_y fr) ! (y * pl_stride (fr_y fr) + x)))
       (uint (pl_bytes (fr_u fr) ! (y div 2 ^ v * pl_stride (fr_u fr) + x div 2 ^ h)))
       (uint (pl_bytes (fr_v fr) ! (y div 2 ^ v * pl_stride (fr_v fr) + x div 2 ^ h))) k"

lemma plane_index: "plane_holds p w n \<Longrightarrow> y < n \<Longrightarrow> x < w \<Longrightarrow> y * pl_stride p + x < length (pl_bytes p)"
  using plane_row(1) [of p w n y] by (simp add: plane_holds_def)

lemma pixel_colour_source:
  assumes "frame_ok fr h v" and "x < vf_width (fr_format fr)" and "y < vf_height (fr_format fr)"
  shows "pixel_colour fr h v (y * vf_width (fr_format fr) + x) k = source_colour fr h v x y k"
proof -
  let ?f = "fr_format fr"
  have "plane_holds (fr_y fr) (vf_width ?f) (vf_height ?f)" "plane_holds (fr_u fr) (vf_chromaWidth ?f) (vf_chromaHeight ?f)"
      "plane_holds (fr_v fr) (vf_chromaWidth ?f) (vf_chromaHeight ?f)" "y div 2 ^ v < vf_chromaHeight ?f" "x div 2 ^ h < vf_chromaWidth ?f"
    using assms by (auto simp: frame_ok_def Let_def intro: chroma_row)
  then show ?thesis
    using plane_index [of "fr_y fr"] plane_index [of "fr_u fr"] plane_index [of "fr_v fr"] assms(2,3)
    by (simp add: pixel_colour_at source_colour_def byte_at_nth flip: of_nat_add of_nat_mult)
qed

lemma draw_visible_copies:
  assumes "canvas_ok cv" and "format_ok f" and len: "length temp = vf_width f * vf_height f * 4"
    and d: "vf_displayWidth f = dw" "vf_displayHeight f = dh" "cv_lastDw cv = dw" "cv_lastDh cv = dh" "cv_flipPixels cv = Some flip"
  shows "\<exists>px. draw_visible display f sessionId temp cv
      = (Rgba (nullish sessionId '''') display dw dh (Some px), cv\<lparr>cv_flipPixels := Some px\<rparr>) \<and> length px = dw * dh * 4
    \<and> (\<forall>y < dh. \<forall>x < dw. \<forall>k < 4. px ! ((y * dw + x) * 4 + k) = temp ! (((vf_cropTop f + y) * vf_width f + (vf_cropLeft f + x)) * 4 + k))"
proof -
  define px where "px = concat (map (source_row f temp) [0..<dh])"
  have rows: "\<forall>y < dh. length (source_row f temp y) = dw * 4"
    using length_source_row [OF assms(2) _ len] d by simp
  then have lpx: "length px = dw * dh * 4"
    using length_concat_rows [of dh "source_row f temp" "dw * 4"] by (simp add: px_def ac_simps)
  have "length flip = dh * (dw * 4)" using assms(1) d by (simp add: canvas_ok_def ac_simps)
  then have "draw_rows (vf_width f) (vf_cropLeft f) (vf_cropTop f) dw temp [0..<dh] flip = (None, px)"
    using draw_rows_copies [OF assms(2) len, of 0 flip] d by (simp add: px_def)
  then have "draw_visible display f sessionId temp cv
      = (Rgba (nullish sessionId '''') display dw dh (Some px), cv\<lparr>cv_flipPixels := Some px\<rparr>)"
    by (simp add: draw_visible_def d)
  moreover have "px ! ((y * dw + x) * 4 + k) = temp ! (((vf_cropTop f + y) * vf_width f + (vf_cropLeft f + x)) * 4 + k)"
    if "y < dh" "x < dw" "k < 4" for y x k
  proof -
    have i: "x * 4 + k < dw * 4" using that by linarith
    have "px ! (y * (dw * 4) + (x * 4 + k)) = source_row f temp y ! (x * 4 + k)"
      unfolding px_def using rows that(1) i by (rule nth_concat_rows)
    also have "\<dots> = temp ! (((vf_cropTop f + y) * vf_width f + vf_cropLeft f) * 4 + (x * 4 + k))"
      using source_row_nth [OF assms(2) _ _ len] that(1) i d by simp
    finally show ?thesis by (simp add: algebra_simps)
  qed
  ultimately show ?thesis using lpx by blast
qed

lemma painted_pixel:
  assumes "frame_ok fr h v" and "opaque b"
    and "temp = paint (pixel_colour fr h v) {..<vf_height (fr_format fr) * vf_width (fr_format fr)} b"
    and "length b = vf_width (fr_format fr) * vf_height (fr_format fr) * 4"
    and "x < vf_width (fr_format fr)" and "y < vf_height (fr_format fr)" and "k < 4"
  shows "temp ! ((y * vf_width (fr_format fr) + x) * 4 + k) = (if k < 3 then source_colour fr h v x y k else 255)"
proof -
  let ?w = "vf_width (fr_format fr)" and ?i = "(y * vf_width (fr_format fr) + x) * 4 + k"
  have "Suc y * ?w \<le> vf_height (fr_format fr) * ?w" using assms(6) by (intro mult_le_mono1) simp
  then have q: "y * ?w + x < vf_height (fr_format fr) * ?w" using assms(5) by simp
  then have i: "?i < length b" using assms(4,7) by (simp add: mult.commute)
  have "(n * 4 + k) div 4 = n \<and> (n * 4 + k) mod 4 = k" for n using assms(7) by simp
  then have "?i div 4 = y * ?w + x" "?i mod 4 = k" by blast+
  then show ?thesis
    using i q assms(2,7) by (auto simp: assms(3) nth_paint pixel_colour_source [OF assms(1,5,6)] opaque_def)
qed

text \<open>
  C32: whatever frames were drawn before, broken ones included, drawing a frame whose planes hold
  their samples shows its visible part and nothing else, in the buffers' bounds: each pixel handed
  to Flutter has the colour of the frame's pixel at the same place right of and below the cropped
  margins, computed from the luma sample of that pixel and the chroma samples that cover it, and is
  opaque.
\<close>

theorem draw_shows_colours:
  assumes "format_ok (fr_format fr)" and "frame_ok fr h v"
    and "vf_displayWidth (fr_format fr) = dw" and "vf_displayHeight (fr_format fr) = dh" and "0 < dh"
  shows "\<exists>px cv'. draw display fr sessionId (draw_frames earlier newCanvas)
        = (Rgba (nullish sessionId '''') display dw dh (Some px), cv')
    \<and> length px = dw * dh * 4
    \<and> (\<forall>y < dh. \<forall>x < dw.
         (\<forall>k < 3. px ! ((y * dw + x) * 4 + k)
            = source_colour fr h v (vf_cropLeft (fr_format fr) + x) (vf_cropTop (fr_format fr) + y) k)
         \<and> px ! ((y * dw + x) * 4 + 3) = 255)"
proof -
  let ?f = "fr_format fr" and ?cv = "draw_frames earlier newCanvas"
  have ok: "canvas_ok ?cv" by (intro draw_frames_canvas_ok newCanvas_ok)
  define cv1 where "cv1 = (if dw \<noteq> cv_lastDw ?cv \<or> dh \<noteq> cv_lastDh ?cv
      then ?cv\<lparr>cv_lastDw := dw, cv_lastDh := dh, cv_flipPixels := Some (replicate (dw * dh * 4) 0)\<rparr> else ?cv)"
  obtain flip where flip: "cv_flipPixels cv1 = Some flip" "length flip = dw * dh * 4" "cv_lastDw cv1 = dw" "cv_lastDh cv1 = dh"
    using ok assms(5) by (cases "dw \<noteq> cv_lastDw ?cv \<or> dh \<noteq> cv_lastDh ?cv")
      (auto simp: cv1_def canvas_ok_def split: option.splits)
  have "canvas_ok cv1" using ok by (simp add: cv1_def canvas_ok_def)
  then have opq: "opaque (temp_buffer ?f cv1)" by (rule temp_buffer_opaque)
  define temp where "temp = paint (pixel_colour fr h v) {..<vf_height ?f * vf_width ?f} (temp_buffer ?f cv1)"
  have conv: "convertYCbCr fr (temp_buffer ?f cv1) = Some (Inr temp)" by (simp add: temp_def convertYCbCr_paint [OF assms(2)])
  have len: "length temp = vf_width ?f * vf_height ?f * 4" by (simp add: temp_def)
  have "opaque temp" using opq convertYCbCr_alpha [OF conv] by (rule opaque_alpha)
  then have "canvas_ok (cv1\<lparr>cv_temp := Some temp\<rparr>)" using flip by (simp add: canvas_ok_def)
  then obtain px where px: "draw_visible display ?f sessionId temp (cv1\<lparr>cv_temp := Some temp\<rparr>)
        = (Rgba (nullish sessionId '''') display dw dh (Some px), cv1\<lparr>cv_temp := Some temp, cv_flipPixels := Some px\<rparr>)"
      "length px = dw * dh * 4"
    and at: "\<And>y x k. y < dh \<Longrightarrow> x < dw \<Longrightarrow> k < 4 \<Longrightarrow>
        px ! ((y * dw + x) * 4 + k) = temp ! (((vf_cropTop ?f + y) * vf_width ?f + (vf_cropLeft ?f + x)) * 4 + k)"
    using draw_visible_copies [OF _ assms(1) len assms(3,4), of "cv1\<lparr>cv_temp := Some temp\<rparr>" flip display sessionId] flip by auto
  have "draw display fr sessionId ?cv = draw_visible display ?f sessionId temp (cv1\<lparr>cv_temp := Some temp\<rparr>)"
    unfolding draw_def Let_def assms(3,4) cv1_def [symmetric] conv by simp
  moreover have "px ! ((y * dw + x) * 4 + k) = (if k < 3 then source_colour fr h v (vf_cropLeft ?f + x) (vf_cropTop ?f + y) k else 255)"
    if "y < dh" "x < dw" "k < 4" for y x k
    unfolding at [OF that] using that assms(1,3,4)
    by (intro painted_pixel [OF assms(2) opq temp_def length_temp_buffer]) (auto simp: format_ok_def)
  ultimately show ?thesis using px by auto
qed

theorem draw_shows_colours_witness:
  "let broken = sample_frame\<lparr>fr_format := (fr_format sample_frame)\<lparr>vf_chromaWidth := 3\<rparr>\<rparr>
   in \<exists>px cv'. draw 0 sample_frame None (draw_frames [(0, broken, None)] newCanvas) = (Rgba '''' 0 2 1 (Some px), cv')
      \<and> length px = 8 \<and> px ! 0 = 255 \<and> px ! 1 = 179 \<and> px ! 3 = 255"
proof -
  have f: "format_ok (fr_format sample_frame)" "vf_displayWidth (fr_format sample_frame) = 2" "vf_displayHeight (fr_format sample_frame) = 1"
    "vf_cropLeft (fr_format sample_frame) = 0" "vf_cropTop (fr_format sample_frame) = 1"
    by (simp_all add: sample_frame_def format_ok_def)
  have c: "source_colour sample_frame 1 1 0 1 0 = 255" "source_colour sample_frame 1 1 0 1 1 = 179"
    by code_simp+
  let ?broken = "sample_frame\<lparr>fr_format := (fr_format sample_frame)\<lparr>vf_chromaWidth := 3\<rparr>\<rparr>"
  obtain px cv' where px: "draw 0 sample_frame None (draw_frames [(0, ?broken, None)] newCanvas) = (Rgba '''' 0 2 1 (Some px), cv')" "length px = 8"
    and at: "\<forall>y < 1. \<forall>x < 2. (\<forall>k < 3. px ! ((y * 2 + x) * 4 + k) = source_colour sample_frame 1 1 (0 + x) (1 + y) k)
        \<and> px ! ((y * 2 + x) * 4 + 3) = 255"
    using draw_shows_colours [OF f(1) sample_frame_ok f(2,3) zero_less_one, of 0 None "[(0, ?broken, None)]"]
    unfolding f by auto
  have "px ! 0 = 255" "px ! 1 = 179" "px ! 3 = 255"
    using at [rule_format, of 0 0, THEN conjunct1, rule_format, of 0] at [rule_format, of 0 0, THEN conjunct1, rule_format, of 1]
      at [rule_format, of 0 0] c by auto
  with px show ?thesis unfolding Let_def by blast
qed

end
