(* ===== verification/Fifo_Queue.thy ===== *)
theory Fifo_Queue
  imports Prelude
begin

text \<open>
  The contract of a queue that is served one item at a time: requests join at the end, and each
  answer finishes the first pending item.  What a client learns from it is shown once: whatever
  the interleaving of requests and answers, items are served in the order of the requests, each
  exactly once.
\<close>

datatype ('q, 'p) queue_event = Request 'q | Answer 'p

fun requests :: "('q, 'p) queue_event list \<Rightarrow> 'q list" where
  "requests [] = []"
| "requests (Request x # es) = x # requests es"
| "requests (Answer p # es) = requests es"

locale fifo_queue =
  fixes enq :: "'q \<Rightarrow> 's \<Rightarrow> 's"
    and item :: "'q \<Rightarrow> 'a"
    and deq :: "'p \<Rightarrow> 's \<Rightarrow> 's"
    and pending :: "'s \<Rightarrow> 'a list"
    and ok :: "'s \<Rightarrow> bool"
  assumes enq_ok: "ok s \<Longrightarrow> ok (enq x s)"
    and deq_ok: "ok s \<Longrightarrow> ok (deq p s)"
    and enq_pending: "ok s \<Longrightarrow> pending (enq x s) = pending s @ [item x]"
    and deq_pending: "ok s \<Longrightarrow> pending (deq p s) = tl (pending s)"
begin

fun run :: "('q, 'p) queue_event list \<Rightarrow> 's \<Rightarrow> 's" where
  "run [] s = s"
| "run (Request x # es) s = run es (enq x s)"
| "run (Answer p # es) s = run es (deq p s)"

text \<open>The items that are answered on the way, with their answers.\<close>

fun served :: "('q, 'p) queue_event list \<Rightarrow> 's \<Rightarrow> ('a \<times> 'p) list" where
  "served [] s = []"
| "served (Request x # es) s = served es (enq x s)"
| "served (Answer p # es) s =
     (case pending s of [] \<Rightarrow> served es (deq p s) | x # _ \<Rightarrow> (x, p) # served es (deq p s))"

lemma run_ok: "ok s \<Longrightarrow> ok (run es s)"
  by (induction es s rule: run.induct) (simp_all add: enq_ok deq_ok)

lemma served_in_order: "ok s \<Longrightarrow> map fst (served es s) @ pending (run es s) = pending s @ map item (requests es)"
proof (induction es s rule: run.induct)
  case (2 x es s)
  then show ?case by (simp add: enq_ok enq_pending)
next
  case (3 p es s)
  then have "map fst (served es (deq p s)) @ pending (run es (deq p s)) = tl (pending s) @ map item (requests es)"
    by (simp add: deq_ok deq_pending)
  then show ?case by (cases "pending s") simp_all
qed simp

lemma served_prefix: "ok s \<Longrightarrow> pending s = [] \<Longrightarrow> map fst (served es s) = take (length (served es s)) (map item (requests es))"
  using served_in_order [of s es] by (metis append_Nil append_eq_conv_conj length_map)

end

end
