(* ===== verification/Audio.thy ===== *)
theory Audio
  imports Fifo_Queue
begin

text \<open>
  \<open>flutter/js/src/helpers/audio.js\<close>: sound packets go to a worker that decodes them in the order
  of their arrival, and what it answers is fed to the player.  The decoder (\<open>libopus.js\<close>) is
  the parameter \<open>opus\<close>, which gets the format it was told last, if any.
\<close>

section \<open>State\<close>

type_synonym format = "int \<times> int"

record player =
  pl_format :: format
  pl_fed :: "bytes list"

datatype worker_message = Format format | Packet bytes

text \<open>
  \<open>au_inbox\<close> are the messages the worker has not looked at, \<open>au_current\<close> the format it uses;
  \<open>au_raised\<close> counts the exceptions of the answer handler.
\<close>

record audio =
  au_player :: "player option"
  au_bound :: bool
  au_inbox :: "worker_message list"
  au_current :: "format option"
  au_raised :: nat

definition fresh_audio :: audio where
  "fresh_audio = \<lparr>au_player = None, au_bound = False, au_inbox = [], au_current = None, au_raised = 0\<rparr>"

section \<open>Operations\<close>

definition newAudioPlayer :: "int \<Rightarrow> int \<Rightarrow> player" where
  "newAudioPlayer channels sampleRate = \<lparr>pl_format = (channels, sampleRate), pl_fed = []\<rparr>"

definition initAudio :: "int \<Rightarrow> int \<Rightarrow> audio \<Rightarrow> audio" where
  "initAudio channels sampleRate s =
     s\<lparr>au_player := Some (newAudioPlayer channels sampleRate), au_inbox := au_inbox s @ [Format (channels, sampleRate)]\<rparr>"

definition playAudio :: "bytes \<Rightarrow> audio \<Rightarrow> audio" where
  "playAudio packet s = s\<lparr>au_inbox := au_inbox s @ [Packet packet]\<rparr>"

definition bindOpusWorkerOnInit :: "audio \<Rightarrow> audio" where
  "bindOpusWorkerOnInit s = s\<lparr>au_bound := True\<rparr>"

text \<open>\<open>pcmPlayer.feed(e.data)\<close>, which throws while there is no player.\<close>

definition on_pcm :: "bytes \<Rightarrow> audio \<Rightarrow> audio" where
  "on_pcm pcm s =
     (if \<not> au_bound s then s
      else case au_player s of
             None \<Rightarrow> s\<lparr>au_raised := au_raised s + 1\<rparr>
           | Some p \<Rightarrow> s\<lparr>au_player := Some (p\<lparr>pl_fed := pl_fed p @ [pcm]\<rparr>)\<rparr>)"

text \<open>The worker looks at its next message, and its answer arrives.\<close>

definition worker_turn :: "(format option \<Rightarrow> bytes \<Rightarrow> bytes) \<Rightarrow> audio \<Rightarrow> audio" where
  "worker_turn opus s =
     (case au_inbox s of
        [] \<Rightarrow> s
      | Format f # rest \<Rightarrow> s\<lparr>au_inbox := rest, au_current := Some f\<rparr>
      | Packet p # rest \<Rightarrow> on_pcm (opus (au_current s) p) (s\<lparr>au_inbox := rest\<rparr>))"

section \<open>The worker serves packets in order\<close>

text \<open>The worker knows the format of the player, and only packets are on their way to it.\<close>

definition playing :: "audio \<Rightarrow> bool" where
  "playing s \<longleftrightarrow> au_bound s \<and> list_all (\<lambda>m. \<exists>p. m = Packet p) (au_inbox s)
     \<and> (\<exists>p. au_player s = Some p \<and> au_current s = Some (pl_format p))"

interpretation sound: fifo_queue playAudio Packet "\<lambda>_ :: unit. worker_turn opus" au_inbox playing for opus
proof
  show "playing (playAudio x s)" if "playing s" for x s using that by (simp add: playing_def playAudio_def)
  show "playing (worker_turn opus s)" if "playing s" for s
    using that by (auto simp: playing_def worker_turn_def on_pcm_def split: list.split)
  show "au_inbox (playAudio x s) = au_inbox s @ [Packet x]" for x s by (simp add: playAudio_def)
  show "au_inbox (worker_turn opus s) = tl (au_inbox s)" for s
    by (auto simp: worker_turn_def on_pcm_def split: list.split worker_message.split option.split)
qed

definition audio_run :: "(format option \<Rightarrow> bytes \<Rightarrow> bytes) \<Rightarrow> (bytes, unit) queue_event list \<Rightarrow> audio \<Rightarrow> audio" where
  "audio_run opus es s = fold (\<lambda>x. case x of Request p \<Rightarrow> playAudio p | Answer _ \<Rightarrow> worker_turn opus) es s"

lemma audio_run_eq: "audio_run opus es s = sound.run opus es s"
  by (induction es s rule: sound.run.induct [where opus = opus]) (simp_all add: audio_run_def)

fun packet_of :: "worker_message \<Rightarrow> bytes" where
  "packet_of (Packet p) = p"
| "packet_of (Format f) = []"

lemma fed_served:
  assumes "playing s" "au_player s = Some p"
  shows "au_player (sound.run opus es s)
     = Some (p\<lparr>pl_fed := pl_fed p @ map (\<lambda>x. opus (Some (pl_format p)) (packet_of (fst x))) (sound.served opus es s)\<rparr>)"
  using assms
proof (induction es s arbitrary: p rule: sound.run.induct [where opus = opus])
  case (2 x es s)
  then show ?case by (simp add: sound.enq_ok) (simp add: playAudio_def)
next
  case (3 a es s)
  have ok: "playing (worker_turn opus s)" by (rule sound.deq_ok [OF 3(2)])
  show ?case
  proof (cases "au_inbox s")
    case Nil
    then have "worker_turn opus s = s" by (simp add: worker_turn_def)
    with 3 Nil show ?thesis by simp
  next
    case (Cons m rest)
    with 3(2,3) obtain x where m: "m = Packet x" "au_current s = Some (pl_format p)" "au_bound s" by (auto simp: playing_def)
    with Cons 3(3) have "au_player (worker_turn opus s) = Some (p\<lparr>pl_fed := pl_fed p @ [opus (Some (pl_format p)) x]\<rparr>)"
      by (simp add: worker_turn_def on_pcm_def)
    from 3(1) [OF ok this] Cons m show ?thesis by simp
  qed
qed simp



end
