(* ===== verification/Message_Codec.thy ===== *)
theory Message_Codec
  imports Messages Wire
begin

text \<open>
  The field tables of \<open>flutter/js/src/proto/message.ts\<close>: for each message, its branches of
  \<open>encode\<close> and cases of \<open>decode\<close>, in the source's order and with its tags.
\<close>

definition EncodedVideoFrame_fields :: "pb \<Rightarrow> EncodedVideoFrame pbfield list" where
  "EncodedVideoFrame_fields P =
     [f_bytes P 10 EncodedVideoFrame_data EncodedVideoFrame_data_update,
      f_bool P 16 EncodedVideoFrame_key EncodedVideoFrame_key_update,
      f_int64 P 24 EncodedVideoFrame_pts EncodedVideoFrame_pts_update]"

definition EncodedVideoFrames_fields :: "pb \<Rightarrow> EncodedVideoFrames pbfield list" where
  "EncodedVideoFrames_fields P =
     [fr_msg P 10 (EncodedVideoFrame_fields P) createBaseEncodedVideoFrame EncodedVideoFrames_frames EncodedVideoFrames_frames_update]"

definition RGB_fields :: "pb \<Rightarrow> RGB pbfield list" where
  "RGB_fields P =
     [f_bool P 8 RGB_compress RGB_compress_update]"

definition YUV_fields :: "pb \<Rightarrow> YUV pbfield list" where
  "YUV_fields P =
     [f_bool P 8 YUV_compress YUV_compress_update,
      f_int32 P 16 YUV_stride YUV_stride_update]"

definition VideoFrame_fields :: "pb \<Rightarrow> VideoFrame pbfield list" where
  "VideoFrame_fields P =
     [f_msg P 50 (EncodedVideoFrames_fields P) createBaseEncodedVideoFrames VideoFrame_vp9s VideoFrame_vp9s_update,
      f_msg P 58 (RGB_fields P) createBaseRGB VideoFrame_rgb VideoFrame_rgb_update,
      f_msg P 66 (YUV_fields P) createBaseYUV VideoFrame_yuv VideoFrame_yuv_update,
      f_msg P 82 (EncodedVideoFrames_fields P) createBaseEncodedVideoFrames VideoFrame_h264s VideoFrame_h264s_update,
      f_msg P 90 (EncodedVideoFrames_fields P) createBaseEncodedVideoFrames VideoFrame_h265s VideoFrame_h265s_update,
      f_msg P 98 (EncodedVideoFrames_fields P) createBaseEncodedVideoFrames VideoFrame_vp8s VideoFrame_vp8s_update,
      f_msg P 106 (EncodedVideoFrames_fields P) createBaseEncodedVideoFrames VideoFrame_av1s VideoFrame_av1s_update,
      f_int32 P 112 VideoFrame_display VideoFrame_display_update]"

definition IdPk_fields :: "pb \<Rightarrow> IdPk pbfield list" where
  "IdPk_fields P =
     [f_string P 10 IdPk_id IdPk_id_update,
      f_bytes P 18 IdPk_pk IdPk_pk_update]"

definition Resolution_fields :: "pb \<Rightarrow> Resolution pbfield list" where
  "Resolution_fields P =
     [f_int32 P 8 Resolution_width Resolution_width_update,
      f_int32 P 16 Resolution_height Resolution_height_update]"

definition DisplayInfo_fields :: "pb \<Rightarrow> DisplayInfo pbfield list" where
  "DisplayInfo_fields P =
     [f_sint32 P 8 DisplayInfo_x DisplayInfo_x_update,
      f_sint32 P 16 DisplayInfo_y DisplayInfo_y_update,
      f_int32 P 24 DisplayInfo_width DisplayInfo_width_update,
      f_int32 P 32 DisplayInfo_height DisplayInfo_height_update,
      f_string P 42 DisplayInfo_name DisplayInfo_name_update,
      f_bool P 48 DisplayInfo_online DisplayInfo_online_update,
      f_bool P 56 DisplayInfo_cursor_embedded DisplayInfo_cursor_embedded_update,
      f_msg P 66 (Resolution_fields P) createBaseResolution DisplayInfo_original_resolution DisplayInfo_original_resolution_update,
      f_double P 73 DisplayInfo_scale DisplayInfo_scale_update]"

definition PortForward_fields :: "pb \<Rightarrow> PortForward pbfield list" where
  "PortForward_fields P =
     [f_string P 10 PortForward_host PortForward_host_update,
      f_int32 P 16 PortForward_port PortForward_port_update]"

definition FileTransfer_fields :: "pb \<Rightarrow> FileTransfer pbfield list" where
  "FileTransfer_fields P =
     [f_string P 10 FileTransfer_dir FileTransfer_dir_update,
      f_bool P 16 FileTransfer_show_hidden FileTransfer_show_hidden_update]"

definition OSLogin_fields :: "pb \<Rightarrow> OSLogin pbfield list" where
  "OSLogin_fields P =
     [f_string P 10 OSLogin_username OSLogin_username_update,
      f_string P 18 OSLogin_password OSLogin_password_update]"

definition CodecAbility_fields :: "pb \<Rightarrow> CodecAbility pbfield list" where
  "CodecAbility_fields P =
     [f_bool P 8 CodecAbility_vp8 CodecAbility_vp8_update,
      f_bool P 16 CodecAbility_vp9 CodecAbility_vp9_update,
      f_bool P 24 CodecAbility_av1 CodecAbility_av1_update,
      f_bool P 32 CodecAbility_h264 CodecAbility_h264_update,
      f_bool P 40 CodecAbility_h265 CodecAbility_h265_update]"

definition SupportedDecoding_fields :: "pb \<Rightarrow> SupportedDecoding pbfield list" where
  "SupportedDecoding_fields P =
     [f_int32 P 8 SupportedDecoding_ability_vp9 SupportedDecoding_ability_vp9_update,
      f_int32 P 16 SupportedDecoding_ability_h264 SupportedDecoding_ability_h264_update,
      f_int32 P 24 SupportedDecoding_ability_h265 SupportedDecoding_ability_h265_update,
      f_int32 P 32 SupportedDecoding_prefer SupportedDecoding_prefer_update,
      f_int32 P 40 SupportedDecoding_ability_vp8 SupportedDecoding_ability_vp8_update,
      f_int32 P 48 SupportedDecoding_ability_av1 SupportedDecoding_ability_av1_update,
      f_msg P 58 (CodecAbility_fields P) createBaseCodecAbility SupportedDecoding_i444 SupportedDecoding_i444_update,
      f_int32 P 64 SupportedDecoding_prefer_chroma SupportedDecoding_prefer_chroma_update]"

definition OptionMessage_fields :: "pb \<Rightarrow> OptionMessage pbfield list" where
  "OptionMessage_fields P =
     [f_int32 P 8 OptionMessage_image_quality OptionMessage_image_quality_update,
      f_int32 P 16 OptionMessage_lock_after_session_end OptionMessage_lock_after_session_end_update,
      f_int32 P 24 OptionMessage_show_remote_cursor OptionMessage_show_remote_cursor_update,
      f_int32 P 32 OptionMessage_privacy_mode OptionMessage_privacy_mode_update,
      f_int32 P 40 OptionMessage_block_input OptionMessage_block_input_update,
      f_int32 P 48 OptionMessage_custom_image_quality OptionMessage_custom_image_quality_update,
      f_int32 P 56 OptionMessage_disable_audio OptionMessage_disable_audio_update,
      f_int32 P 64 OptionMessage_disable_clipboard OptionMessage_disable_clipboard_update,
      f_int32 P 72 OptionMessage_enable_file_transfer OptionMessage_enable_file_transfer_update,
      f_msg P 82 (SupportedDecoding_fields P) createBaseSupportedDecoding OptionMessage_supported_decoding OptionMessage_supported_decoding_update,
      f_int32 P 88 OptionMessage_custom_fps OptionMessage_custom_fps_update,
      f_int32 P 96 OptionMessage_disable_keyboard OptionMessage_disable_keyboard_update,
      f_int32 P 120 OptionMessage_follow_remote_cursor OptionMessage_follow_remote_cursor_update,
      f_int32 P 128 OptionMessage_follow_remote_window OptionMessage_follow_remote_window_update]"

definition LoginRequest_fields :: "pb \<Rightarrow> LoginRequest pbfield list" where
  "LoginRequest_fields P =
     [f_string P 10 LoginRequest_username LoginRequest_username_update,
      f_bytes P 18 LoginRequest_password LoginRequest_password_update,
      f_string P 34 LoginRequest_my_id LoginRequest_my_id_update,
      f_string P 42 LoginRequest_my_name LoginRequest_my_name_update,
      f_msg P 50 (OptionMessage_fields P) createBaseOptionMessage LoginRequest_option LoginRequest_option_update,
      f_msg P 58 (FileTransfer_fields P) createBaseFileTransfer LoginRequest_file_transfer LoginRequest_file_transfer_update,
      f_msg P 66 (PortForward_fields P) createBasePortForward LoginRequest_port_forward LoginRequest_port_forward_update,
      f_bool P 72 LoginRequest_video_ack_required LoginRequest_video_ack_required_update,
      f_uint64 P 80 LoginRequest_session_id LoginRequest_session_id_update,
      f_string P 90 LoginRequest_version LoginRequest_version_update,
      f_msg P 98 (OSLogin_fields P) createBaseOSLogin LoginRequest_os_login LoginRequest_os_login_update,
      f_string P 106 LoginRequest_my_platform LoginRequest_my_platform_update,
      f_bytes P 114 LoginRequest_hwid LoginRequest_hwid_update]"

definition Auth2FA_fields :: "pb \<Rightarrow> Auth2FA pbfield list" where
  "Auth2FA_fields P =
     [f_string P 10 Auth2FA_code Auth2FA_code_update,
      f_bytes P 18 Auth2FA_hwid Auth2FA_hwid_update]"

definition ChatMessage_fields :: "pb \<Rightarrow> ChatMessage pbfield list" where
  "ChatMessage_fields P =
     [f_string P 10 ChatMessage_text ChatMessage_text_update]"

definition Features_fields :: "pb \<Rightarrow> Features pbfield list" where
  "Features_fields P =
     [f_bool P 8 Features_privacy_mode Features_privacy_mode_update]"

definition SupportedEncoding_fields :: "pb \<Rightarrow> SupportedEncoding pbfield list" where
  "SupportedEncoding_fields P =
     [f_bool P 8 SupportedEncoding_h264 SupportedEncoding_h264_update,
      f_bool P 16 SupportedEncoding_h265 SupportedEncoding_h265_update,
      f_bool P 24 SupportedEncoding_vp8 SupportedEncoding_vp8_update,
      f_bool P 32 SupportedEncoding_av1 SupportedEncoding_av1_update,
      f_msg P 42 (CodecAbility_fields P) createBaseCodecAbility SupportedEncoding_i444 SupportedEncoding_i444_update]"

definition SupportedResolutions_fields :: "pb \<Rightarrow> SupportedResolutions pbfield list" where
  "SupportedResolutions_fields P =
     [fr_msg P 10 (Resolution_fields P) createBaseResolution SupportedResolutions_resolutions SupportedResolutions_resolutions_update]"

definition WindowsSession_fields :: "pb \<Rightarrow> WindowsSession pbfield list" where
  "WindowsSession_fields P =
     [f_uint32 P 8 WindowsSession_sid WindowsSession_sid_update,
      f_string P 18 WindowsSession_name WindowsSession_name_update]"

definition WindowsSessions_fields :: "pb \<Rightarrow> WindowsSessions pbfield list" where
  "WindowsSessions_fields P =
     [fr_msg P 10 (WindowsSession_fields P) createBaseWindowsSession WindowsSessions_sessions WindowsSessions_sessions_update,
      f_uint32 P 16 WindowsSessions_current_sid WindowsSessions_current_sid_update]"

definition PeerInfo_fields :: "pb \<Rightarrow> PeerInfo pbfield list" where
  "PeerInfo_fields P =
     [f_string P 10 PeerInfo_username PeerInfo_username_update,
      f_string P 18 PeerInfo_hostname PeerInfo_hostname_update,
      f_string P 26 PeerInfo_platform PeerInfo_platform_update,
      fr_msg P 34 (DisplayInfo_fields P) createBaseDisplayInfo PeerInfo_displays PeerInfo_displays_update,
      f_int32 P 40 PeerInfo_current_display PeerInfo_current_display_update,
      f_bool P 48 PeerInfo_sas_enabled PeerInfo_sas_enabled_update,
      f_string P 58 PeerInfo_version PeerInfo_version_update,
      f_msg P 74 (Features_fields P) createBaseFeatures PeerInfo_features PeerInfo_features_update,
      f_msg P 82 (SupportedEncoding_fields P) createBaseSupportedEncoding PeerInfo_encoding PeerInfo_encoding_update,
      f_msg P 90 (SupportedResolutions_fields P) createBaseSupportedResolutions PeerInfo_resolutions PeerInfo_resolutions_update,
      f_string P 98 PeerInfo_platform_additions PeerInfo_platform_additions_update,
      f_msg P 106 (WindowsSessions_fields P) createBaseWindowsSessions PeerInfo_windows_sessions PeerInfo_windows_sessions_update]"

definition LoginResponse_fields :: "pb \<Rightarrow> LoginResponse pbfield list" where
  "LoginResponse_fields P =
     [fo_string P 10 LoginResponse_error LoginResponse_error_update,
      f_msg P 18 (PeerInfo_fields P) createBasePeerInfo LoginResponse_peer_info LoginResponse_peer_info_update,
      f_bool P 24 LoginResponse_enable_trusted_devices LoginResponse_enable_trusted_devices_update]"

definition TouchScaleUpdate_fields :: "pb \<Rightarrow> TouchScaleUpdate pbfield list" where
  "TouchScaleUpdate_fields P =
     [f_int32 P 8 TouchScaleUpdate_scale TouchScaleUpdate_scale_update]"

definition TouchPanStart_fields :: "pb \<Rightarrow> TouchPanStart pbfield list" where
  "TouchPanStart_fields P =
     [f_int32 P 8 TouchPanStart_x TouchPanStart_x_update,
      f_int32 P 16 TouchPanStart_y TouchPanStart_y_update]"

definition TouchPanUpdate_fields :: "pb \<Rightarrow> TouchPanUpdate pbfield list" where
  "TouchPanUpdate_fields P =
     [f_int32 P 8 TouchPanUpdate_x TouchPanUpdate_x_update,
      f_int32 P 16 TouchPanUpdate_y TouchPanUpdate_y_update]"

definition TouchPanEnd_fields :: "pb \<Rightarrow> TouchPanEnd pbfield list" where
  "TouchPanEnd_fields P =
     [f_int32 P 8 TouchPanEnd_x TouchPanEnd_x_update,
      f_int32 P 16 TouchPanEnd_y TouchPanEnd_y_update]"

definition TouchEvent_fields :: "pb \<Rightarrow> TouchEvent pbfield list" where
  "TouchEvent_fields P =
     [f_msg P 10 (TouchScaleUpdate_fields P) createBaseTouchScaleUpdate TouchEvent_scale_update TouchEvent_scale_update_update,
      f_msg P 18 (TouchPanStart_fields P) createBaseTouchPanStart TouchEvent_pan_start TouchEvent_pan_start_update,
      f_msg P 26 (TouchPanUpdate_fields P) createBaseTouchPanUpdate TouchEvent_pan_update TouchEvent_pan_update_update,
      f_msg P 34 (TouchPanEnd_fields P) createBaseTouchPanEnd TouchEvent_pan_end TouchEvent_pan_end_update]"

definition PointerDeviceEvent_fields :: "pb \<Rightarrow> PointerDeviceEvent pbfield list" where
  "PointerDeviceEvent_fields P =
     [f_msg P 10 (TouchEvent_fields P) createBaseTouchEvent PointerDeviceEvent_touch_event PointerDeviceEvent_touch_event_update,
      fp_int32 P 16 18 PointerDeviceEvent_modifiers PointerDeviceEvent_modifiers_update]"

definition MouseEvent_fields :: "pb \<Rightarrow> MouseEvent pbfield list" where
  "MouseEvent_fields P =
     [f_int32 P 8 MouseEvent_mask MouseEvent_mask_update,
      f_sint32 P 16 MouseEvent_x MouseEvent_x_update,
      f_sint32 P 24 MouseEvent_y MouseEvent_y_update,
      fp_int32 P 32 34 MouseEvent_modifiers MouseEvent_modifiers_update]"

definition KeyEvent_fields :: "pb \<Rightarrow> KeyEvent pbfield list" where
  "KeyEvent_fields P =
     [f_bool P 8 KeyEvent_down KeyEvent_down_update,
      f_bool P 16 KeyEvent_press KeyEvent_press_update,
      fo_int32 P 24 KeyEvent_control_key KeyEvent_control_key_update,
      fo_uint32 P 32 KeyEvent_chr KeyEvent_chr_update,
      fo_uint32 P 40 KeyEvent_unicode KeyEvent_unicode_update,
      fo_string P 50 KeyEvent_seq KeyEvent_seq_update,
      fo_uint32 P 56 KeyEvent_win2win_hotkey KeyEvent_win2win_hotkey_update,
      fp_int32 P 64 66 KeyEvent_modifiers KeyEvent_modifiers_update,
      f_int32 P 72 KeyEvent_mode KeyEvent_mode_update]"

definition CursorData_fields :: "pb \<Rightarrow> CursorData pbfield list" where
  "CursorData_fields P =
     [f_uint64 P 8 CursorData_id CursorData_id_update,
      f_sint32 P 16 CursorData_hotx CursorData_hotx_update,
      f_sint32 P 24 CursorData_hoty CursorData_hoty_update,
      f_int32 P 32 CursorData_width CursorData_width_update,
      f_int32 P 40 CursorData_height CursorData_height_update,
      f_bytes P 50 CursorData_colors CursorData_colors_update]"

definition CursorPosition_fields :: "pb \<Rightarrow> CursorPosition pbfield list" where
  "CursorPosition_fields P =
     [f_sint32 P 8 CursorPosition_x CursorPosition_x_update,
      f_sint32 P 16 CursorPosition_y CursorPosition_y_update]"

definition Hash_fields :: "pb \<Rightarrow> Hash pbfield list" where
  "Hash_fields P =
     [f_string P 10 Hash_salt Hash_salt_update,
      f_string P 18 Hash_challenge Hash_challenge_update]"

definition Clipboard_fields :: "pb \<Rightarrow> Clipboard pbfield list" where
  "Clipboard_fields P =
     [f_bool P 8 Clipboard_compress Clipboard_compress_update,
      f_bytes P 18 Clipboard_content Clipboard_content_update,
      f_int32 P 24 Clipboard_width Clipboard_width_update,
      f_int32 P 32 Clipboard_height Clipboard_height_update,
      f_int32 P 40 Clipboard_format Clipboard_format_update,
      f_string P 50 Clipboard_special_name Clipboard_special_name_update]"

definition MultiClipboards_fields :: "pb \<Rightarrow> MultiClipboards pbfield list" where
  "MultiClipboards_fields P =
     [fr_msg P 10 (Clipboard_fields P) createBaseClipboard MultiClipboards_clipboards MultiClipboards_clipboards_update]"

definition FileEntry_fields :: "pb \<Rightarrow> FileEntry pbfield list" where
  "FileEntry_fields P =
     [f_int32 P 8 FileEntry_entry_type FileEntry_entry_type_update,
      f_string P 18 FileEntry_name FileEntry_name_update,
      f_bool P 24 FileEntry_is_hidden FileEntry_is_hidden_update,
      f_uint64 P 32 FileEntry_size FileEntry_size_update,
      f_uint64 P 40 FileEntry_modified_time FileEntry_modified_time_update]"

definition FileDirectory_fields :: "pb \<Rightarrow> FileDirectory pbfield list" where
  "FileDirectory_fields P =
     [f_int32 P 8 FileDirectory_id FileDirectory_id_update,
      f_string P 18 FileDirectory_path FileDirectory_path_update,
      fr_msg P 26 (FileEntry_fields P) createBaseFileEntry FileDirectory_entries FileDirectory_entries_update]"

definition ReadDir_fields :: "pb \<Rightarrow> ReadDir pbfield list" where
  "ReadDir_fields P =
     [f_string P 10 ReadDir_path ReadDir_path_update,
      f_bool P 16 ReadDir_include_hidden ReadDir_include_hidden_update]"

definition ReadEmptyDirs_fields :: "pb \<Rightarrow> ReadEmptyDirs pbfield list" where
  "ReadEmptyDirs_fields P =
     [f_string P 10 ReadEmptyDirs_path ReadEmptyDirs_path_update,
      f_bool P 16 ReadEmptyDirs_include_hidden ReadEmptyDirs_include_hidden_update]"

definition ReadEmptyDirsResponse_fields :: "pb \<Rightarrow> ReadEmptyDirsResponse pbfield list" where
  "ReadEmptyDirsResponse_fields P =
     [f_string P 10 ReadEmptyDirsResponse_path ReadEmptyDirsResponse_path_update,
      fr_msg P 18 (FileDirectory_fields P) createBaseFileDirectory ReadEmptyDirsResponse_empty_dirs ReadEmptyDirsResponse_empty_dirs_update]"

definition ReadAllFiles_fields :: "pb \<Rightarrow> ReadAllFiles pbfield list" where
  "ReadAllFiles_fields P =
     [f_int32 P 8 ReadAllFiles_id ReadAllFiles_id_update,
      f_string P 18 ReadAllFiles_path ReadAllFiles_path_update,
      f_bool P 24 ReadAllFiles_include_hidden ReadAllFiles_include_hidden_update]"

definition FileRename_fields :: "pb \<Rightarrow> FileRename pbfield list" where
  "FileRename_fields P =
     [f_int32 P 8 FileRename_id FileRename_id_update,
      f_string P 18 FileRename_path FileRename_path_update,
      f_string P 26 FileRename_new_name FileRename_new_name_update]"

definition FileTransferSendRequest_fields :: "pb \<Rightarrow> FileTransferSendRequest pbfield list" where
  "FileTransferSendRequest_fields P =
     [f_int32 P 8 FileTransferSendRequest_id FileTransferSendRequest_id_update,
      f_string P 18 FileTransferSendRequest_path FileTransferSendRequest_path_update,
      f_bool P 24 FileTransferSendRequest_include_hidden FileTransferSendRequest_include_hidden_update,
      f_int32 P 32 FileTransferSendRequest_file_num FileTransferSendRequest_file_num_update]"

definition FileTransferReceiveRequest_fields :: "pb \<Rightarrow> FileTransferReceiveRequest pbfield list" where
  "FileTransferReceiveRequest_fields P =
     [f_int32 P 8 FileTransferReceiveRequest_id FileTransferReceiveRequest_id_update,
      f_string P 18 FileTransferReceiveRequest_path FileTransferReceiveRequest_path_update,
      fr_msg P 26 (FileEntry_fields P) createBaseFileEntry FileTransferReceiveRequest_files FileTransferReceiveRequest_files_update,
      f_int32 P 32 FileTransferReceiveRequest_file_num FileTransferReceiveRequest_file_num_update,
      f_uint64 P 40 FileTransferReceiveRequest_total_size FileTransferReceiveRequest_total_size_update]"

definition FileDirCreate_fields :: "pb \<Rightarrow> FileDirCreate pbfield list" where
  "FileDirCreate_fields P =
     [f_int32 P 8 FileDirCreate_id FileDirCreate_id_update,
      f_string P 18 FileDirCreate_path FileDirCreate_path_update]"

definition FileRemoveDir_fields :: "pb \<Rightarrow> FileRemoveDir pbfield list" where
  "FileRemoveDir_fields P =
     [f_int32 P 8 FileRemoveDir_id FileRemoveDir_id_update,
      f_string P 18 FileRemoveDir_path FileRemoveDir_path_update,
      f_bool P 24 FileRemoveDir_recursive FileRemoveDir_recursive_update]"

definition FileRemoveFile_fields :: "pb \<Rightarrow> FileRemoveFile pbfield list" where
  "FileRemoveFile_fields P =
     [f_int32 P 8 FileRemoveFile_id FileRemoveFile_id_update,
      f_string P 18 FileRemoveFile_path FileRemoveFile_path_update,
      f_sint32 P 24 FileRemoveFile_file_num FileRemoveFile_file_num_update]"

definition FileTransferCancel_fields :: "pb \<Rightarrow> FileTransferCancel pbfield list" where
  "FileTransferCancel_fields P =
     [f_int32 P 8 FileTransferCancel_id FileTransferCancel_id_update]"

definition FileTransferSendConfirmRequest_fields :: "pb \<Rightarrow> FileTransferSendConfirmRequest pbfield list" where
  "FileTransferSendConfirmRequest_fields P =
     [f_int32 P 8 FileTransferSendConfirmRequest_id FileTransferSendConfirmRequest_id_update,
      f_sint32 P 16 FileTransferSendConfirmRequest_file_num FileTransferSendConfirmRequest_file_num_update,
      fo_bool P 24 FileTransferSendConfirmRequest_skip FileTransferSendConfirmRequest_skip_update,
      fo_uint32 P 32 FileTransferSendConfirmRequest_offset_blk FileTransferSendConfirmRequest_offset_blk_update]"

definition FileAction_fields :: "pb \<Rightarrow> FileAction pbfield list" where
  "FileAction_fields P =
     [f_msg P 10 (ReadDir_fields P) createBaseReadDir FileAction_read_dir FileAction_read_dir_update,
      f_msg P 18 (FileTransferSendRequest_fields P) createBaseFileTransferSendRequest FileAction_send FileAction_send_update,
      f_msg P 26 (FileTransferReceiveRequest_fields P) createBaseFileTransferReceiveRequest FileAction_receive FileAction_receive_update,
      f_msg P 34 (FileDirCreate_fields P) createBaseFileDirCreate FileAction_create FileAction_create_update,
      f_msg P 42 (FileRemoveDir_fields P) createBaseFileRemoveDir FileAction_remove_dir FileAction_remove_dir_update,
      f_msg P 50 (FileRemoveFile_fields P) createBaseFileRemoveFile FileAction_remove_file FileAction_remove_file_update,
      f_msg P 58 (ReadAllFiles_fields P) createBaseReadAllFiles FileAction_all_files FileAction_all_files_update,
      f_msg P 66 (FileTransferCancel_fields P) createBaseFileTransferCancel FileAction_cancel FileAction_cancel_update,
      f_msg P 74 (FileTransferSendConfirmRequest_fields P) createBaseFileTransferSendConfirmRequest FileAction_send_confirm FileAction_send_confirm_update,
      f_msg P 82 (FileRename_fields P) createBaseFileRename FileAction_rename FileAction_rename_update,
      f_msg P 90 (ReadEmptyDirs_fields P) createBaseReadEmptyDirs FileAction_read_empty_dirs FileAction_read_empty_dirs_update]"

definition FileTransferBlock_fields :: "pb \<Rightarrow> FileTransferBlock pbfield list" where
  "FileTransferBlock_fields P =
     [f_int32 P 8 FileTransferBlock_id FileTransferBlock_id_update,
      f_sint32 P 16 FileTransferBlock_file_num FileTransferBlock_file_num_update,
      f_bytes P 26 FileTransferBlock_data FileTransferBlock_data_update,
      f_bool P 32 FileTransferBlock_compressed FileTransferBlock_compressed_update,
      f_uint32 P 40 FileTransferBlock_blk_id FileTransferBlock_blk_id_update]"

definition FileTransferError_fields :: "pb \<Rightarrow> FileTransferError pbfield list" where
  "FileTransferError_fields P =
     [f_int32 P 8 FileTransferError_id FileTransferError_id_update,
      f_string P 18 FileTransferError_error FileTransferError_error_update,
      f_sint32 P 24 FileTransferError_file_num FileTransferError_file_num_update]"

definition FileTransferDone_fields :: "pb \<Rightarrow> FileTransferDone pbfield list" where
  "FileTransferDone_fields P =
     [f_int32 P 8 FileTransferDone_id FileTransferDone_id_update,
      f_sint32 P 16 FileTransferDone_file_num FileTransferDone_file_num_update]"

definition FileTransferDigest_fields :: "pb \<Rightarrow> FileTransferDigest pbfield list" where
  "FileTransferDigest_fields P =
     [f_int32 P 8 FileTransferDigest_id FileTransferDigest_id_update,
      f_sint32 P 16 FileTransferDigest_file_num FileTransferDigest_file_num_update,
      f_uint64 P 24 FileTransferDigest_last_modified FileTransferDigest_last_modified_update,
      f_uint64 P 32 FileTransferDigest_file_size FileTransferDigest_file_size_update,
      f_bool P 40 FileTransferDigest_is_upload FileTransferDigest_is_upload_update,
      f_bool P 48 FileTransferDigest_is_identical FileTransferDigest_is_identical_update]"

definition FileResponse_fields :: "pb \<Rightarrow> FileResponse pbfield list" where
  "FileResponse_fields P =
     [f_msg P 10 (FileDirectory_fields P) createBaseFileDirectory FileResponse_dir FileResponse_dir_update,
      f_msg P 18 (FileTransferBlock_fields P) createBaseFileTransferBlock FileResponse_block FileResponse_block_update,
      f_msg P 26 (FileTransferError_fields P) createBaseFileTransferError FileResponse_error FileResponse_error_update,
      f_msg P 34 (FileTransferDone_fields P) createBaseFileTransferDone FileResponse_done FileResponse_done_update,
      f_msg P 42 (FileTransferDigest_fields P) createBaseFileTransferDigest FileResponse_digest FileResponse_digest_update,
      f_msg P 50 (ReadEmptyDirsResponse_fields P) createBaseReadEmptyDirsResponse FileResponse_empty_dirs FileResponse_empty_dirs_update]"

definition CliprdrMonitorReady_fields :: "pb \<Rightarrow> CliprdrMonitorReady pbfield list" where
  "CliprdrMonitorReady_fields P = []"

definition CliprdrFormat_fields :: "pb \<Rightarrow> CliprdrFormat pbfield list" where
  "CliprdrFormat_fields P =
     [f_int32 P 16 CliprdrFormat_id CliprdrFormat_id_update,
      f_string P 26 CliprdrFormat_format CliprdrFormat_format_update]"

definition CliprdrServerFormatList_fields :: "pb \<Rightarrow> CliprdrServerFormatList pbfield list" where
  "CliprdrServerFormatList_fields P =
     [fr_msg P 18 (CliprdrFormat_fields P) createBaseCliprdrFormat CliprdrServerFormatList_formats CliprdrServerFormatList_formats_update]"

definition CliprdrServerFormatListResponse_fields :: "pb \<Rightarrow> CliprdrServerFormatListResponse pbfield list" where
  "CliprdrServerFormatListResponse_fields P =
     [f_int32 P 16 CliprdrServerFormatListResponse_msg_flags CliprdrServerFormatListResponse_msg_flags_update]"

definition CliprdrServerFormatDataRequest_fields :: "pb \<Rightarrow> CliprdrServerFormatDataRequest pbfield list" where
  "CliprdrServerFormatDataRequest_fields P =
     [f_int32 P 16 CliprdrServerFormatDataRequest_requested_format_id CliprdrServerFormatDataRequest_requested_format_id_update]"

definition CliprdrServerFormatDataResponse_fields :: "pb \<Rightarrow> CliprdrServerFormatDataResponse pbfield list" where
  "CliprdrServerFormatDataResponse_fields P =
     [f_int32 P 16 CliprdrServerFormatDataResponse_msg_flags CliprdrServerFormatDataResponse_msg_flags_update,
      f_bytes P 26 CliprdrServerFormatDataResponse_format_data CliprdrServerFormatDataResponse_format_data_update]"

definition CliprdrFileContentsRequest_fields :: "pb \<Rightarrow> CliprdrFileContentsRequest pbfield list" where
  "CliprdrFileContentsRequest_fields P =
     [f_int32 P 16 CliprdrFileContentsRequest_stream_id CliprdrFileContentsRequest_stream_id_update,
      f_int32 P 24 CliprdrFileContentsRequest_list_index CliprdrFileContentsRequest_list_index_update,
      f_int32 P 32 CliprdrFileContentsRequest_dw_flags CliprdrFileContentsRequest_dw_flags_update,
      f_int32 P 40 CliprdrFileContentsRequest_n_position_low CliprdrFileContentsRequest_n_position_low_update,
      f_int32 P 48 CliprdrFileContentsRequest_n_position_high CliprdrFileContentsRequest_n_position_high_update,
      f_int32 P 56 CliprdrFileContentsRequest_cb_requested CliprdrFileContentsRequest_cb_requested_update,
      f_bool P 64 CliprdrFileContentsRequest_have_clip_data_id CliprdrFileContentsRequest_have_clip_data_id_update,
      f_int32 P 72 CliprdrFileContentsRequest_clip_data_id CliprdrFileContentsRequest_clip_data_id_update]"

definition CliprdrFileContentsResponse_fields :: "pb \<Rightarrow> CliprdrFileContentsResponse pbfield list" where
  "CliprdrFileContentsResponse_fields P =
     [f_int32 P 24 CliprdrFileContentsResponse_msg_flags CliprdrFileContentsResponse_msg_flags_update,
      f_int32 P 32 CliprdrFileContentsResponse_stream_id CliprdrFileContentsResponse_stream_id_update,
      f_bytes P 42 CliprdrFileContentsResponse_requested_data CliprdrFileContentsResponse_requested_data_update]"

definition CliprdrTryEmpty_fields :: "pb \<Rightarrow> CliprdrTryEmpty pbfield list" where
  "CliprdrTryEmpty_fields P = []"

definition Cliprdr_fields :: "pb \<Rightarrow> Cliprdr pbfield list" where
  "Cliprdr_fields P =
     [f_msg P 10 (CliprdrMonitorReady_fields P) CliprdrMonitorReady Cliprdr_ready Cliprdr_ready_update,
      f_msg P 18 (CliprdrServerFormatList_fields P) createBaseCliprdrServerFormatList Cliprdr_format_list Cliprdr_format_list_update,
      f_msg P 26 (CliprdrServerFormatListResponse_fields P) createBaseCliprdrServerFormatListResponse Cliprdr_format_list_response Cliprdr_format_list_response_update,
      f_msg P 34 (CliprdrServerFormatDataRequest_fields P) createBaseCliprdrServerFormatDataRequest Cliprdr_format_data_request Cliprdr_format_data_request_update,
      f_msg P 42 (CliprdrServerFormatDataResponse_fields P) createBaseCliprdrServerFormatDataResponse Cliprdr_format_data_response Cliprdr_format_data_response_update,
      f_msg P 50 (CliprdrFileContentsRequest_fields P) createBaseCliprdrFileContentsRequest Cliprdr_file_contents_request Cliprdr_file_contents_request_update,
      f_msg P 58 (CliprdrFileContentsResponse_fields P) createBaseCliprdrFileContentsResponse Cliprdr_file_contents_response Cliprdr_file_contents_response_update,
      f_msg P 66 (CliprdrTryEmpty_fields P) CliprdrTryEmpty Cliprdr_try_empty Cliprdr_try_empty_update]"

definition DisplayResolution_fields :: "pb \<Rightarrow> DisplayResolution pbfield list" where
  "DisplayResolution_fields P =
     [f_int32 P 8 DisplayResolution_display DisplayResolution_display_update,
      f_msg P 18 (Resolution_fields P) createBaseResolution DisplayResolution_resolution DisplayResolution_resolution_update]"

definition SwitchDisplay_fields :: "pb \<Rightarrow> SwitchDisplay pbfield list" where
  "SwitchDisplay_fields P =
     [f_int32 P 8 SwitchDisplay_display SwitchDisplay_display_update,
      f_sint32 P 16 SwitchDisplay_x SwitchDisplay_x_update,
      f_sint32 P 24 SwitchDisplay_y SwitchDisplay_y_update,
      f_int32 P 32 SwitchDisplay_width SwitchDisplay_width_update,
      f_int32 P 40 SwitchDisplay_height SwitchDisplay_height_update,
      f_bool P 48 SwitchDisplay_cursor_embedded SwitchDisplay_cursor_embedded_update,
      f_msg P 58 (SupportedResolutions_fields P) createBaseSupportedResolutions SwitchDisplay_resolutions SwitchDisplay_resolutions_update,
      f_msg P 66 (Resolution_fields P) createBaseResolution SwitchDisplay_original_resolution SwitchDisplay_original_resolution_update]"

definition CaptureDisplays_fields :: "pb \<Rightarrow> CaptureDisplays pbfield list" where
  "CaptureDisplays_fields P =
     [fp_int32 P 8 10 CaptureDisplays_add CaptureDisplays_add_update,
      fp_int32 P 16 18 CaptureDisplays_sub CaptureDisplays_sub_update,
      fp_int32 P 24 26 CaptureDisplays_set CaptureDisplays_set_update]"

definition ToggleVirtualDisplay_fields :: "pb \<Rightarrow> ToggleVirtualDisplay pbfield list" where
  "ToggleVirtualDisplay_fields P =
     [f_int32 P 8 ToggleVirtualDisplay_display ToggleVirtualDisplay_display_update,
      f_bool P 16 ToggleVirtualDisplay_on ToggleVirtualDisplay_on_update]"

definition TogglePrivacyMode_fields :: "pb \<Rightarrow> TogglePrivacyMode pbfield list" where
  "TogglePrivacyMode_fields P =
     [f_string P 10 TogglePrivacyMode_impl_key TogglePrivacyMode_impl_key_update,
      f_bool P 16 TogglePrivacyMode_on TogglePrivacyMode_on_update]"

definition PermissionInfo_fields :: "pb \<Rightarrow> PermissionInfo pbfield list" where
  "PermissionInfo_fields P =
     [f_int32 P 8 PermissionInfo_permission PermissionInfo_permission_update,
      f_bool P 16 PermissionInfo_enabled PermissionInfo_enabled_update]"

definition TestDelay_fields :: "pb \<Rightarrow> TestDelay pbfield list" where
  "TestDelay_fields P =
     [f_int64 P 8 TestDelay_time TestDelay_time_update,
      f_bool P 16 TestDelay_from_client TestDelay_from_client_update,
      f_uint32 P 24 TestDelay_last_delay TestDelay_last_delay_update,
      f_uint32 P 32 TestDelay_target_bitrate TestDelay_target_bitrate_update]"

definition PublicKey_fields :: "pb \<Rightarrow> PublicKey pbfield list" where
  "PublicKey_fields P =
     [f_bytes P 10 PublicKey_asymmetric_value PublicKey_asymmetric_value_update,
      f_bytes P 18 PublicKey_symmetric_value PublicKey_symmetric_value_update]"

definition SignedId_fields :: "pb \<Rightarrow> SignedId pbfield list" where
  "SignedId_fields P =
     [f_bytes P 10 SignedId_id SignedId_id_update]"

definition AudioFormat_fields :: "pb \<Rightarrow> AudioFormat pbfield list" where
  "AudioFormat_fields P =
     [f_uint32 P 8 AudioFormat_sample_rate AudioFormat_sample_rate_update,
      f_uint32 P 16 AudioFormat_channels AudioFormat_channels_update]"

definition AudioFrame_fields :: "pb \<Rightarrow> AudioFrame pbfield list" where
  "AudioFrame_fields P =
     [f_bytes P 10 AudioFrame_data AudioFrame_data_update]"

definition MessageBox_fields :: "pb \<Rightarrow> MessageBox pbfield list" where
  "MessageBox_fields P =
     [f_string P 10 MessageBox_msgtype MessageBox_msgtype_update,
      f_string P 18 MessageBox_title MessageBox_title_update,
      f_string P 26 MessageBox_text MessageBox_text_update,
      f_string P 34 MessageBox_link MessageBox_link_update]"

definition BackNotification_fields :: "pb \<Rightarrow> BackNotification pbfield list" where
  "BackNotification_fields P =
     [fo_int32 P 8 BackNotification_privacy_mode_state BackNotification_privacy_mode_state_update,
      fo_int32 P 16 BackNotification_block_input_state BackNotification_block_input_state_update,
      f_string P 26 BackNotification_details BackNotification_details_update,
      f_string P 34 BackNotification_impl_key BackNotification_impl_key_update]"

definition ElevationRequestWithLogon_fields :: "pb \<Rightarrow> ElevationRequestWithLogon pbfield list" where
  "ElevationRequestWithLogon_fields P =
     [f_string P 10 ElevationRequestWithLogon_username ElevationRequestWithLogon_username_update,
      f_string P 18 ElevationRequestWithLogon_password ElevationRequestWithLogon_password_update]"

definition ElevationRequest_fields :: "pb \<Rightarrow> ElevationRequest pbfield list" where
  "ElevationRequest_fields P =
     [fo_bool P 8 ElevationRequest_direct ElevationRequest_direct_update,
      f_msg P 18 (ElevationRequestWithLogon_fields P) createBaseElevationRequestWithLogon ElevationRequest_logon ElevationRequest_logon_update]"

definition SwitchSidesRequest_fields :: "pb \<Rightarrow> SwitchSidesRequest pbfield list" where
  "SwitchSidesRequest_fields P =
     [f_bytes P 10 SwitchSidesRequest_uuid SwitchSidesRequest_uuid_update]"

definition SwitchSidesResponse_fields :: "pb \<Rightarrow> SwitchSidesResponse pbfield list" where
  "SwitchSidesResponse_fields P =
     [f_bytes P 10 SwitchSidesResponse_uuid SwitchSidesResponse_uuid_update,
      f_msg P 18 (LoginRequest_fields P) createBaseLoginRequest SwitchSidesResponse_lr SwitchSidesResponse_lr_update]"

definition SwitchBack_fields :: "pb \<Rightarrow> SwitchBack pbfield list" where
  "SwitchBack_fields P = []"

definition PluginRequest_fields :: "pb \<Rightarrow> PluginRequest pbfield list" where
  "PluginRequest_fields P =
     [f_string P 10 PluginRequest_id PluginRequest_id_update,
      f_bytes P 18 PluginRequest_content PluginRequest_content_update]"

definition PluginFailure_fields :: "pb \<Rightarrow> PluginFailure pbfield list" where
  "PluginFailure_fields P =
     [f_string P 10 PluginFailure_id PluginFailure_id_update,
      f_string P 18 PluginFailure_name PluginFailure_name_update,
      f_string P 26 PluginFailure_msg PluginFailure_msg_update]"

definition MessageQuery_fields :: "pb \<Rightarrow> MessageQuery pbfield list" where
  "MessageQuery_fields P =
     [f_int32 P 8 MessageQuery_switch_display MessageQuery_switch_display_update]"

definition Misc_fields :: "pb \<Rightarrow> Misc pbfield list" where
  "Misc_fields P =
     [f_msg P 34 (ChatMessage_fields P) createBaseChatMessage Misc_chat_message Misc_chat_message_update,
      f_msg P 42 (SwitchDisplay_fields P) createBaseSwitchDisplay Misc_switch_display Misc_switch_display_update,
      f_msg P 50 (PermissionInfo_fields P) createBasePermissionInfo Misc_permission_info Misc_permission_info_update,
      f_msg P 58 (OptionMessage_fields P) createBaseOptionMessage Misc_option Misc_option_update,
      f_msg P 66 (AudioFormat_fields P) createBaseAudioFormat Misc_audio_format Misc_audio_format_update,
      fo_string P 74 Misc_close_reason Misc_close_reason_update,
      fo_bool P 80 Misc_refresh_video Misc_refresh_video_update,
      fo_bool P 96 Misc_video_received Misc_video_received_update,
      f_msg P 106 (BackNotification_fields P) createBaseBackNotification Misc_back_notification Misc_back_notification_update,
      fo_bool P 112 Misc_restart_remote_device Misc_restart_remote_device_update,
      fo_bool P 120 Misc_uac Misc_uac_update,
      fo_bool P 128 Misc_foreground_window_elevated Misc_foreground_window_elevated_update,
      fo_bool P 136 Misc_stop_service Misc_stop_service_update,
      f_msg P 146 (ElevationRequest_fields P) createBaseElevationRequest Misc_elevation_request Misc_elevation_request_update,
      fo_string P 154 Misc_elevation_response Misc_elevation_response_update,
      fo_bool P 160 Misc_portable_service_running Misc_portable_service_running_update,
      f_msg P 170 (SwitchSidesRequest_fields P) createBaseSwitchSidesRequest Misc_switch_sides_request Misc_switch_sides_request_update,
      f_msg P 178 (SwitchBack_fields P) SwitchBack Misc_switch_back Misc_switch_back_update,
      f_msg P 194 (Resolution_fields P) createBaseResolution Misc_change_resolution Misc_change_resolution_update,
      f_msg P 202 (PluginRequest_fields P) createBasePluginRequest Misc_plugin_request Misc_plugin_request_update,
      f_msg P 210 (PluginFailure_fields P) createBasePluginFailure Misc_plugin_failure Misc_plugin_failure_update,
      fo_uint32 P 216 Misc_full_speed_fps Misc_full_speed_fps_update,
      fo_uint32 P 224 Misc_auto_adjust_fps Misc_auto_adjust_fps_update,
      fo_bool P 232 Misc_client_record_status Misc_client_record_status_update,
      f_msg P 242 (CaptureDisplays_fields P) createBaseCaptureDisplays Misc_capture_displays Misc_capture_displays_update,
      fo_int32 P 248 Misc_refresh_video_display Misc_refresh_video_display_update,
      f_msg P 258 (ToggleVirtualDisplay_fields P) createBaseToggleVirtualDisplay Misc_toggle_virtual_display Misc_toggle_virtual_display_update,
      f_msg P 266 (TogglePrivacyMode_fields P) createBaseTogglePrivacyMode Misc_toggle_privacy_mode Misc_toggle_privacy_mode_update,
      f_msg P 274 (SupportedEncoding_fields P) createBaseSupportedEncoding Misc_supported_encoding Misc_supported_encoding_update,
      fo_uint32 P 280 Misc_selected_sid Misc_selected_sid_update,
      f_msg P 290 (DisplayResolution_fields P) createBaseDisplayResolution Misc_change_display_resolution Misc_change_display_resolution_update,
      f_msg P 298 (MessageQuery_fields P) createBaseMessageQuery Misc_message_query Misc_message_query_update,
      fo_int32 P 304 Misc_follow_current_display Misc_follow_current_display_update]"

definition VoiceCallRequest_fields :: "pb \<Rightarrow> VoiceCallRequest pbfield list" where
  "VoiceCallRequest_fields P =
     [f_int64 P 8 VoiceCallRequest_req_timestamp VoiceCallRequest_req_timestamp_update,
      f_bool P 16 VoiceCallRequest_is_connect VoiceCallRequest_is_connect_update]"

definition VoiceCallResponse_fields :: "pb \<Rightarrow> VoiceCallResponse pbfield list" where
  "VoiceCallResponse_fields P =
     [f_bool P 8 VoiceCallResponse_accepted VoiceCallResponse_accepted_update,
      f_int64 P 16 VoiceCallResponse_req_timestamp VoiceCallResponse_req_timestamp_update,
      f_int64 P 24 VoiceCallResponse_ack_timestamp VoiceCallResponse_ack_timestamp_update]"

definition Message_fields :: "pb \<Rightarrow> Message pbfield list" where
  "Message_fields P =
     [f_msg P 26 (SignedId_fields P) createBaseSignedId Message_signed_id Message_signed_id_update,
      f_msg P 34 (PublicKey_fields P) createBasePublicKey Message_public_key Message_public_key_update,
      f_msg P 42 (TestDelay_fields P) createBaseTestDelay Message_test_delay Message_test_delay_update,
      f_msg P 50 (VideoFrame_fields P) createBaseVideoFrame Message_video_frame Message_video_frame_update,
      f_msg P 58 (LoginRequest_fields P) createBaseLoginRequest Message_login_request Message_login_request_update,
      f_msg P 66 (LoginResponse_fields P) createBaseLoginResponse Message_login_response Message_login_response_update,
      f_msg P 74 (Hash_fields P) createBaseHash Message_hash Message_hash_update,
      f_msg P 82 (MouseEvent_fields P) createBaseMouseEvent Message_mouse_event Message_mouse_event_update,
      f_msg P 90 (AudioFrame_fields P) createBaseAudioFrame Message_audio_frame Message_audio_frame_update,
      f_msg P 98 (CursorData_fields P) createBaseCursorData Message_cursor_data Message_cursor_data_update,
      f_msg P 106 (CursorPosition_fields P) createBaseCursorPosition Message_cursor_position Message_cursor_position_update,
      fo_uint64 P 112 Message_cursor_id Message_cursor_id_update,
      f_msg P 122 (KeyEvent_fields P) createBaseKeyEvent Message_key_event Message_key_event_update,
      f_msg P 130 (Clipboard_fields P) createBaseClipboard Message_clipboard Message_clipboard_update,
      f_msg P 138 (FileAction_fields P) createBaseFileAction Message_file_action Message_file_action_update,
      f_msg P 146 (FileResponse_fields P) createBaseFileResponse Message_file_response Message_file_response_update,
      f_msg P 154 (Misc_fields P) createBaseMisc Message_misc Message_misc_update,
      f_msg P 162 (Cliprdr_fields P) createBaseCliprdr Message_cliprdr Message_cliprdr_update,
      f_msg P 170 (MessageBox_fields P) createBaseMessageBox Message_message_box Message_message_box_update,
      f_msg P 178 (SwitchSidesResponse_fields P) createBaseSwitchSidesResponse Message_switch_sides_response Message_switch_sides_response_update,
      f_msg P 186 (VoiceCallRequest_fields P) createBaseVoiceCallRequest Message_voice_call_request Message_voice_call_request_update,
      f_msg P 194 (VoiceCallResponse_fields P) createBaseVoiceCallResponse Message_voice_call_response Message_voice_call_response_update,
      f_msg P 202 (PeerInfo_fields P) createBasePeerInfo Message_peer_info Message_peer_info_update,
      f_msg P 210 (PointerDeviceEvent_fields P) createBasePointerDeviceEvent Message_pointer_device_event Message_pointer_device_event_update,
      f_msg P 218 (Auth2FA_fields P) createBaseAuth2FA Message_auth_2fa Message_auth_2fa_update,
      f_msg P 226 (MultiClipboards_fields P) createBaseMultiClipboards Message_multi_clipboards Message_multi_clipboards_update]"

definition IdPk_encode :: "pb \<Rightarrow> IdPk \<Rightarrow> bytes" where
  "IdPk_encode P message = message_encode (IdPk_fields P) message"

definition IdPk_decode :: "pb \<Rightarrow> bytes \<Rightarrow> IdPk option" where
  "IdPk_decode P input = map_option fst (message_decode P (IdPk_fields P) createBaseIdPk input None)"

definition Message_encode :: "pb \<Rightarrow> Message \<Rightarrow> bytes" where
  "Message_encode P message = message_encode (Message_fields P) message"

definition Message_decode :: "pb \<Rightarrow> bytes \<Rightarrow> Message option" where
  "Message_decode P input = map_option fst (message_decode P (Message_fields P) createBaseMessage input None)"

end
