(* ===== verification/Rendezvous_Codec.thy ===== *)
theory Rendezvous_Codec
  imports Rendezvous Wire
begin

text \<open>
  The field tables of \<open>flutter/js/src/proto/rendezvous.ts\<close>: for each message, its branches
  of \<open>encode\<close> and cases of \<open>decode\<close>, in the source's order and with its tags.
\<close>

definition RegisterPeer_fields :: "pb \<Rightarrow> RegisterPeer pbfield list" where
  "RegisterPeer_fields P =
     [f_string P 10 RegisterPeer_id RegisterPeer_id_update,
      f_int32 P 16 RegisterPeer_serial RegisterPeer_serial_update]"

definition RegisterPeerResponse_fields :: "pb \<Rightarrow> RegisterPeerResponse pbfield list" where
  "RegisterPeerResponse_fields P =
     [f_bool P 16 RegisterPeerResponse_request_pk RegisterPeerResponse_request_pk_update]"

definition PunchHoleRequest_fields :: "pb \<Rightarrow> PunchHoleRequest pbfield list" where
  "PunchHoleRequest_fields P =
     [f_string P 10 PunchHoleRequest_id PunchHoleRequest_id_update,
      f_int32 P 16 PunchHoleRequest_nat_type PunchHoleRequest_nat_type_update,
      f_string P 26 PunchHoleRequest_licence_key PunchHoleRequest_licence_key_update,
      f_int32 P 32 PunchHoleRequest_conn_type PunchHoleRequest_conn_type_update,
      f_string P 42 PunchHoleRequest_token PunchHoleRequest_token_update,
      f_string P 50 PunchHoleRequest_version PunchHoleRequest_version_update]"

definition PunchHole_fields :: "pb \<Rightarrow> PunchHole pbfield list" where
  "PunchHole_fields P =
     [f_bytes P 10 PunchHole_socket_addr PunchHole_socket_addr_update,
      f_string P 18 PunchHole_relay_server PunchHole_relay_server_update,
      f_int32 P 24 PunchHole_nat_type PunchHole_nat_type_update]"

definition TestNatRequest_fields :: "pb \<Rightarrow> TestNatRequest pbfield list" where
  "TestNatRequest_fields P =
     [f_int32 P 8 TestNatRequest_serial TestNatRequest_serial_update]"

definition ConfigUpdate_fields :: "pb \<Rightarrow> ConfigUpdate pbfield list" where
  "ConfigUpdate_fields P =
     [f_int32 P 8 ConfigUpdate_serial ConfigUpdate_serial_update,
      fr_string P 18 ConfigUpdate_rendezvous_servers ConfigUpdate_rendezvous_servers_update]"

definition TestNatResponse_fields :: "pb \<Rightarrow> TestNatResponse pbfield list" where
  "TestNatResponse_fields P =
     [f_int32 P 8 TestNatResponse_port TestNatResponse_port_update,
      f_msg P 18 (ConfigUpdate_fields P) createBaseConfigUpdate TestNatResponse_cu TestNatResponse_cu_update]"

definition PunchHoleSent_fields :: "pb \<Rightarrow> PunchHoleSent pbfield list" where
  "PunchHoleSent_fields P =
     [f_bytes P 10 PunchHoleSent_socket_addr PunchHoleSent_socket_addr_update,
      f_string P 18 PunchHoleSent_id PunchHoleSent_id_update,
      f_string P 26 PunchHoleSent_relay_server PunchHoleSent_relay_server_update,
      f_int32 P 32 PunchHoleSent_nat_type PunchHoleSent_nat_type_update,
      f_string P 42 PunchHoleSent_version PunchHoleSent_version_update]"

definition RegisterPk_fields :: "pb \<Rightarrow> RegisterPk pbfield list" where
  "RegisterPk_fields P =
     [f_string P 10 RegisterPk_id RegisterPk_id_update,
      f_bytes P 18 RegisterPk_uuid RegisterPk_uuid_update,
      f_bytes P 26 RegisterPk_pk RegisterPk_pk_update,
      f_string P 34 RegisterPk_old_id RegisterPk_old_id_update]"

definition RegisterPkResponse_fields :: "pb \<Rightarrow> RegisterPkResponse pbfield list" where
  "RegisterPkResponse_fields P =
     [f_int32 P 8 RegisterPkResponse_result RegisterPkResponse_result_update,
      f_int32 P 16 RegisterPkResponse_keep_alive RegisterPkResponse_keep_alive_update]"

definition PunchHoleResponse_fields :: "pb \<Rightarrow> PunchHoleResponse pbfield list" where
  "PunchHoleResponse_fields P =
     [f_bytes P 10 PunchHoleResponse_socket_addr PunchHoleResponse_socket_addr_update,
      f_bytes P 18 PunchHoleResponse_pk PunchHoleResponse_pk_update,
      f_int32 P 24 PunchHoleResponse_failure PunchHoleResponse_failure_update,
      f_string P 34 PunchHoleResponse_relay_server PunchHoleResponse_relay_server_update,
      fo_int32 P 40 PunchHoleResponse_nat_type PunchHoleResponse_nat_type_update,
      fo_bool P 48 PunchHoleResponse_is_local PunchHoleResponse_is_local_update,
      f_string P 58 PunchHoleResponse_other_failure PunchHoleResponse_other_failure_update,
      f_int32 P 64 PunchHoleResponse_feedback PunchHoleResponse_feedback_update]"

definition RequestRelay_fields :: "pb \<Rightarrow> RequestRelay pbfield list" where
  "RequestRelay_fields P =
     [f_string P 10 RequestRelay_id RequestRelay_id_update,
      f_string P 18 RequestRelay_uuid RequestRelay_uuid_update,
      f_bytes P 26 RequestRelay_socket_addr RequestRelay_socket_addr_update,
      f_string P 34 RequestRelay_relay_server RequestRelay_relay_server_update,
      f_bool P 40 RequestRelay_secure RequestRelay_secure_update,
      f_string P 50 RequestRelay_licence_key RequestRelay_licence_key_update,
      f_int32 P 56 RequestRelay_conn_type RequestRelay_conn_type_update,
      f_string P 66 RequestRelay_token RequestRelay_token_update]"

definition RelayResponse_fields :: "pb \<Rightarrow> RelayResponse pbfield list" where
  "RelayResponse_fields P =
     [f_bytes P 10 RelayResponse_socket_addr RelayResponse_socket_addr_update,
      f_string P 18 RelayResponse_uuid RelayResponse_uuid_update,
      f_string P 26 RelayResponse_relay_server RelayResponse_relay_server_update,
      fo_string P 34 RelayResponse_id RelayResponse_id_update,
      fo_bytes P 42 RelayResponse_pk RelayResponse_pk_update,
      f_string P 50 RelayResponse_refuse_reason RelayResponse_refuse_reason_update,
      f_string P 58 RelayResponse_version RelayResponse_version_update,
      f_int32 P 72 RelayResponse_feedback RelayResponse_feedback_update]"

definition SoftwareUpdate_fields :: "pb \<Rightarrow> SoftwareUpdate pbfield list" where
  "SoftwareUpdate_fields P =
     [f_string P 10 SoftwareUpdate_url SoftwareUpdate_url_update]"

definition FetchLocalAddr_fields :: "pb \<Rightarrow> FetchLocalAddr pbfield list" where
  "FetchLocalAddr_fields P =
     [f_bytes P 10 FetchLocalAddr_socket_addr FetchLocalAddr_socket_addr_update,
      f_string P 18 FetchLocalAddr_relay_server FetchLocalAddr_relay_server_update]"

definition LocalAddr_fields :: "pb \<Rightarrow> LocalAddr pbfield list" where
  "LocalAddr_fields P =
     [f_bytes P 10 LocalAddr_socket_addr LocalAddr_socket_addr_update,
      f_bytes P 18 LocalAddr_local_addr LocalAddr_local_addr_update,
      f_string P 26 LocalAddr_relay_server LocalAddr_relay_server_update,
      f_string P 34 LocalAddr_id LocalAddr_id_update,
      f_string P 42 LocalAddr_version LocalAddr_version_update]"

definition PeerDiscovery_fields :: "pb \<Rightarrow> PeerDiscovery pbfield list" where
  "PeerDiscovery_fields P =
     [f_string P 10 PeerDiscovery_cmd PeerDiscovery_cmd_update,
      f_string P 18 PeerDiscovery_mac PeerDiscovery_mac_update,
      f_string P 26 PeerDiscovery_id PeerDiscovery_id_update,
      f_string P 34 PeerDiscovery_username PeerDiscovery_username_update,
      f_string P 42 PeerDiscovery_hostname PeerDiscovery_hostname_update,
      f_string P 50 PeerDiscovery_platform PeerDiscovery_platform_update,
      f_string P 58 PeerDiscovery_misc PeerDiscovery_misc_update]"

definition OnlineRequest_fields :: "pb \<Rightarrow> OnlineRequest pbfield list" where
  "OnlineRequest_fields P =
     [f_string P 10 OnlineRequest_id OnlineRequest_id_update,
      fr_string P 18 OnlineRequest_peers OnlineRequest_peers_update]"

definition OnlineResponse_fields :: "pb \<Rightarrow> OnlineResponse pbfield list" where
  "OnlineResponse_fields P =
     [f_bytes P 10 OnlineResponse_states OnlineResponse_states_update]"

definition KeyExchange_fields :: "pb \<Rightarrow> KeyExchange pbfield list" where
  "KeyExchange_fields P =
     [fr_bytes P 10 KeyExchange_keys KeyExchange_keys_update]"

definition HealthCheck_fields :: "pb \<Rightarrow> HealthCheck pbfield list" where
  "HealthCheck_fields P =
     [f_string P 10 HealthCheck_token HealthCheck_token_update]"

definition RendezvousMessage_fields :: "pb \<Rightarrow> RendezvousMessage pbfield list" where
  "RendezvousMessage_fields P =
     [f_msg P 50 (RegisterPeer_fields P) createBaseRegisterPeer RendezvousMessage_register_peer RendezvousMessage_register_peer_update,
      f_msg P 58 (RegisterPeerResponse_fields P) createBaseRegisterPeerResponse RendezvousMessage_register_peer_response RendezvousMessage_register_peer_response_update,
      f_msg P 66 (PunchHoleRequest_fields P) createBasePunchHoleRequest RendezvousMessage_punch_hole_request RendezvousMessage_punch_hole_request_update,
      f_msg P 74 (PunchHole_fields P) createBasePunchHole RendezvousMessage_punch_hole RendezvousMessage_punch_hole_update,
      f_msg P 82 (PunchHoleSent_fields P) createBasePunchHoleSent RendezvousMessage_punch_hole_sent RendezvousMessage_punch_hole_sent_update,
      f_msg P 90 (PunchHoleResponse_fields P) createBasePunchHoleResponse RendezvousMessage_punch_hole_response RendezvousMessage_punch_hole_response_update,
      f_msg P 98 (FetchLocalAddr_fields P) createBaseFetchLocalAddr RendezvousMessage_fetch_local_addr RendezvousMessage_fetch_local_addr_update,
      f_msg P 106 (LocalAddr_fields P) createBaseLocalAddr RendezvousMessage_local_addr RendezvousMessage_local_addr_update,
      f_msg P 114 (ConfigUpdate_fields P) createBaseConfigUpdate RendezvousMessage_configure_update RendezvousMessage_configure_update_update,
      f_msg P 122 (RegisterPk_fields P) createBaseRegisterPk RendezvousMessage_register_pk RendezvousMessage_register_pk_update,
      f_msg P 130 (RegisterPkResponse_fields P) createBaseRegisterPkResponse RendezvousMessage_register_pk_response RendezvousMessage_register_pk_response_update,
      f_msg P 138 (SoftwareUpdate_fields P) createBaseSoftwareUpdate RendezvousMessage_software_update RendezvousMessage_software_update_update,
      f_msg P 146 (RequestRelay_fields P) createBaseRequestRelay RendezvousMessage_request_relay RendezvousMessage_request_relay_update,
      f_msg P 154 (RelayResponse_fields P) createBaseRelayResponse RendezvousMessage_relay_response RendezvousMessage_relay_response_update,
      f_msg P 162 (TestNatRequest_fields P) createBaseTestNatRequest RendezvousMessage_test_nat_request RendezvousMessage_test_nat_request_update,
      f_msg P 170 (TestNatResponse_fields P) createBaseTestNatResponse RendezvousMessage_test_nat_response RendezvousMessage_test_nat_response_update,
      f_msg P 178 (PeerDiscovery_fields P) createBasePeerDiscovery RendezvousMessage_peer_discovery RendezvousMessage_peer_discovery_update,
      f_msg P 186 (OnlineRequest_fields P) createBaseOnlineRequest RendezvousMessage_online_request RendezvousMessage_online_request_update,
      f_msg P 194 (OnlineResponse_fields P) createBaseOnlineResponse RendezvousMessage_online_response RendezvousMessage_online_response_update,
      f_msg P 202 (KeyExchange_fields P) createBaseKeyExchange RendezvousMessage_key_exchange RendezvousMessage_key_exchange_update,
      f_msg P 210 (HealthCheck_fields P) createBaseHealthCheck RendezvousMessage_hc RendezvousMessage_hc_update]"

definition RendezvousMessage_encode :: "pb \<Rightarrow> RendezvousMessage \<Rightarrow> bytes" where
  "RendezvousMessage_encode P message = message_encode (RendezvousMessage_fields P) message"

definition RendezvousMessage_decode :: "pb \<Rightarrow> bytes \<Rightarrow> RendezvousMessage option" where
  "RendezvousMessage_decode P input = map_option fst (message_decode P (RendezvousMessage_fields P) createBaseRendezvousMessage input None)"

end
