(* ===== verification/Crypto_Sodium.thy ===== *)
theory Crypto_Sodium
  imports Prelude
begin

text \<open>
  \<open>flutter/js/src/helpers/crypto_sodium.js\<close>: the nonces of the encrypted channel.  The
  libsodium primitives themselves are parameters of the definitions that call them.  The
  nonce of the \<open>n\<close>-th frame is the number \<open>n\<close> in little-endian base 256, in 24 bytes.
\<close>

function once_loop :: "nat \<Rightarrow> int \<Rightarrow> bytes \<Rightarrow> bytes" where
  "once_loop index v byteArray =
     (if index < length byteArray \<and> v > 0
      then (let byte = v mod 256
            in once_loop (Suc index) ((v - byte) div 256) (byteArray[index := word_of_int byte]))
      else byteArray)"
  by pat_completeness auto
termination
  by (relation "measure (\<lambda>(index, v, byteArray). length byteArray - index)") auto

declare once_loop.simps [simp del]

definition makeOnce :: "int \<Rightarrow> bytes" where
  "makeOnce v = once_loop 0 v (replicate 24 0)"

definition encrypt :: "(bytes \<Rightarrow> bytes \<Rightarrow> bytes \<Rightarrow> bytes) \<Rightarrow> bytes \<Rightarrow> int \<Rightarrow> bytes \<Rightarrow> bytes" where
  "encrypt secretbox_easy msg nonce key = secretbox_easy msg (makeOnce nonce) key"

definition decrypt ::
    "(bytes \<Rightarrow> bytes \<Rightarrow> bytes \<Rightarrow> bytes option) \<Rightarrow> bytes \<Rightarrow> int \<Rightarrow> bytes \<Rightarrow> bytes option" where
  "decrypt secretbox_open_easy boxed nonce key = secretbox_open_easy boxed (makeOnce nonce) key"

section \<open>Nonces are little-endian numbers\<close>

fun le_value :: "bytes \<Rightarrow> int" where
  "le_value [] = 0"
| "le_value (b # bs) = uint b + 256 * le_value bs"

lemma le_value_append: "le_value (xs @ ys) = le_value xs + 256 ^ length xs * le_value ys"
  by (induction xs) (simp_all add: algebra_simps)

lemma le_value_zeros [simp]: "le_value (replicate n 0) = 0"
  by (induction n) simp_all

lemma uint_low_byte: "uint (word_of_int (v mod 256) :: byte) = v mod 256"
  by (simp add: uint_word_of_int)

lemma once_loop_length [simp]: "length (once_loop i v arr) = length arr"
  by (induction i v arr rule: once_loop.induct) (subst once_loop.simps, simp add: Let_def)

lemma once_loop_value:
  assumes "0 \<le> v" and "v < 256 ^ n"
  shows "le_value (once_loop (length xs) v (xs @ replicate n 0))
           = le_value xs + 256 ^ length xs * v"
  using assms
proof (induction n arbitrary: xs v)
  case 0
  then show ?case by (subst once_loop.simps) simp
next
  case (Suc n)
  show ?case
  proof (cases "v > 0")
    case False
    with Suc.prems show ?thesis
      by (subst once_loop.simps) (simp add: le_value_append flip: replicate_Suc)
  next
    case True
    let ?b = "v mod 256"
    have q: "(v - ?b) div 256 = v div 256"
      by (simp add: minus_mod_eq_mult_div)
    have "v div 256 < 256 ^ n"
      using Suc.prems(2) by (simp add: div_less_iff_less_mult mult.commute)
    then have IH: "le_value (once_loop (length (xs @ [word_of_int ?b])) (v div 256)
        ((xs @ [word_of_int ?b]) @ replicate n 0))
        = le_value (xs @ [word_of_int ?b]) + 256 ^ length (xs @ [word_of_int ?b]) * (v div 256)"
      using True by (intro Suc.IH) auto
    have step: "once_loop (length xs) v (xs @ replicate (Suc n) 0)
        = once_loop (length (xs @ [word_of_int ?b])) (v div 256) ((xs @ [word_of_int ?b]) @ replicate n 0)"
      using True by (subst once_loop.simps) (simp add: Let_def q)
    have "le_value (once_loop (length xs) v (xs @ replicate (Suc n) 0))
        = le_value xs + 256 ^ length xs * (?b + 256 * (v div 256))"
      unfolding step IH by (simp only: le_value_append le_value.simps uint_low_byte
          length_append list.size power_add) (simp only: algebra_simps power_Suc, simp)
    then show ?thesis by simp
  qed
qed

lemma makeOnce_value: "0 \<le> v \<Longrightarrow> v < 256 ^ 24 \<Longrightarrow> le_value (makeOnce v) = v"
  using once_loop_value [of v 24 "[]"] by (simp add: makeOnce_def)

lemma makeOnce_inject:
  "0 \<le> a \<Longrightarrow> a < 256 ^ 24 \<Longrightarrow> 0 \<le> b \<Longrightarrow> b < 256 ^ 24 \<Longrightarrow> makeOnce a = makeOnce b \<longleftrightarrow> a = b"
  by (metis makeOnce_value)

lemma length_makeOnce [simp]: "length (makeOnce v) = 24"
  by (simp add: makeOnce_def)

end
