(* ===== verification/Wire_Instance.thy ===== *)
theory Wire_Instance
  imports Wire_Laws
begin

text \<open>
  The protobuf wire format written out, as an instance of the scalar codec that the
  messages are parametric in: base-128 varints, two's complement for negative \<open>int32\<close>,
  zig-zag for \<open>sint32\<close>, length-prefixed bytes and UTF-8 strings.  It shows that the laws
  of \<open>pb_laws\<close> can hold together and lets the properties be evaluated on concrete
  messages.  Doubles are covered for the display scales of the table only.
\<close>

section \<open>Varints\<close>

fun varint :: "nat \<Rightarrow> bytes" where
  "varint n = (if n < 128 then [of_nat n] else of_nat (n mod 128 + 128) # varint (n div 128))"

declare varint.simps [simp del]

fun read_varint :: "bytes \<Rightarrow> (nat \<times> bytes) option" where
  "read_varint [] = None"
| "read_varint (b # r) =
     (if unat b < 128 then Some (unat b, r)
      else (case read_varint r of None \<Rightarrow> None | Some (n, r') \<Rightarrow> Some (unat b - 128 + 128 * n, r')))"

lemma unat_of_nat_byte: "n < 256 \<Longrightarrow> unat (of_nat n :: byte) = n"
  by (simp add: unat_of_nat take_bit_nat_eq_self)

lemma read_varint_varint: "read_varint (varint n @ rest) = Some (n, rest)"
proof (induction n rule: varint.induct)
  case (1 n)
  show ?case
  proof (cases "n < 128")
    case True
    then show ?thesis by (subst varint.simps) (simp add: unat_of_nat_byte)
  next
    case False
    have "unat (of_nat (n mod 128 + 128) :: byte) = n mod 128 + 128"
      by (rule unat_of_nat_byte) simp
    moreover have "n mod 128 + 128 * (n div 128) = n" by simp
    ultimately show ?thesis
      using False 1 by (subst varint.simps) simp
  qed
qed

lemma varint_not_Nil: "varint n \<noteq> []"
  by (subst varint.simps) simp

section \<open>Integers\<close>

definition read_nat :: "(nat \<Rightarrow> 'v) \<Rightarrow> bytes \<Rightarrow> ('v \<times> bytes) option" where
  "read_nat f r = (case read_varint r of None \<Rightarrow> None | Some (n, r') \<Rightarrow> Some (f n, r'))"

lemma read_nat_varint: "read_nat f (varint n @ rest) = Some (f n, rest)"
  by (simp add: read_nat_def read_varint_varint)

definition twos :: "nat \<Rightarrow> int \<Rightarrow> nat" where
  "twos w n = nat (n mod 2 ^ w)"

definition untwos :: "nat \<Rightarrow> nat \<Rightarrow> int" where
  "untwos w k = (let v = int k mod 2 ^ w in if v < 2 ^ (w - 1) then v else v - 2 ^ w)"

definition zigzag :: "int \<Rightarrow> nat" where
  "zigzag n = nat (if n < 0 then - 2 * n - 1 else 2 * n)"

definition unzigzag :: "nat \<Rightarrow> int" where
  "unzigzag k = (if even k then int (k div 2) else - int (k div 2) - 1)"

lemma unzigzag_zigzag: "unzigzag (zigzag n) = n"
proof (cases "n < 0")
  case True
  then have z: "zigzag n = nat (- 2 * n - 1)" by (simp add: zigzag_def)
  with True have "odd (zigzag n)" "int (zigzag n div 2) = - n - 1"
    by (simp_all add: even_nat_iff zdiv_int)
  then show ?thesis by (simp add: unzigzag_def)
next
  case False
  then have z: "zigzag n = nat (2 * n)" by (simp add: zigzag_def)
  with False have "even (zigzag n)" "int (zigzag n div 2) = n"
    by (simp_all add: even_nat_iff zdiv_int)
  then show ?thesis by (simp add: unzigzag_def)
qed

lemma untwos_signed:
  assumes "0 < w" and "w \<le> W" and "- (2 ^ (w - 1)) \<le> n" and "n < 2 ^ (w - 1)"
  shows "untwos w (twos W n) = n"
proof -
  have p: "(2::int) ^ w = 2 * 2 ^ (w - 1)"
    using assms(1) by (cases w) simp_all
  have "(2::int) ^ w dvd 2 ^ W" using assms(2) by (rule le_imp_power_dvd)
  then have m: "n mod 2 ^ W mod 2 ^ w = n mod 2 ^ w" by (rule mod_mod_cancel)
  have "n mod 2 ^ w = (if n < 0 then n + 2 ^ w else n)"
  proof (cases "n < 0")
    case True
    have "(n + 2 ^ w) mod 2 ^ w = n + 2 ^ w"
      using True assms(3) p by (intro mod_pos_pos_trivial) auto
    then show ?thesis using True by simp
  next
    case False
    then show ?thesis using assms(4) p by (simp add: mod_pos_pos_trivial)
  qed
  then have v: "int (twos W n) mod 2 ^ w = (if n < 0 then n + 2 ^ w else n)"
    by (simp add: twos_def m)
  show ?thesis
    unfolding untwos_def Let_def v using assms(3,4) p by (simp split: if_splits)
qed

section \<open>Strings\<close>

definition utf8_char :: "char \<Rightarrow> bytes" where
  "utf8_char c = (let n = of_char c :: nat
     in if n < 128 then [of_nat n] else [of_nat (192 + n div 64), of_nat (128 + n mod 64)])"

definition utf8 :: "string \<Rightarrow> bytes" where
  "utf8 s = concat (map utf8_char s)"

fun utf8_decode :: "bytes \<Rightarrow> string option" where
  "utf8_decode [] = Some []"
| "utf8_decode (b # r) =
     (if unat b < 128 then map_option ((#) (char_of (unat b))) (utf8_decode r)
      else (case r of
              [] \<Rightarrow> None
            | c # r' \<Rightarrow>
                map_option ((#) (char_of ((unat b - 192) * 64 + (unat c - 128)))) (utf8_decode r')))"

lemma of_char_less: "(of_char c :: nat) < 256"
  using nat_of_char_less_256 by simp

lemma utf8_decode_char: "utf8_decode (utf8_char c @ r) = map_option ((#) c) (utf8_decode r)"
proof (cases "(of_char c :: nat) < 128")
  case True
  then show ?thesis by (simp add: utf8_char_def unat_of_nat_byte)
next
  case False
  let ?n = "of_char c :: nat"
  have n: "?n < 256" by (rule of_char_less)
  then have "?n div 64 < 4" by (simp add: less_mult_imp_div_less)
  then have hi: "unat (of_nat (192 + ?n div 64) :: byte) = 192 + ?n div 64"
    by (intro unat_of_nat_byte) simp
  have lo: "unat (of_nat (128 + ?n mod 64) :: byte) = 128 + ?n mod 64"
    by (intro unat_of_nat_byte) simp
  have "?n div 64 * 64 + ?n mod 64 = ?n" by simp
  then show ?thesis
    using False hi lo by (simp add: utf8_char_def Let_def)
qed

lemma utf8_decode_utf8: "utf8_decode (utf8 s) = Some s"
proof (induction s)
  case Nil
  then show ?case by (simp add: utf8_def)
next
  case (Cons c s)
  have "utf8 (c # s) = utf8_char c @ utf8 s" by (simp add: utf8_def)
  then show ?case by (simp add: utf8_decode_char Cons.IH)
qed

section \<open>Length-prefixed values\<close>

definition write_delimited :: "bytes \<Rightarrow> bytes" where
  "write_delimited d = varint (length d) @ d"

definition read_delimited :: "bytes \<Rightarrow> (bytes \<times> bytes) option" where
  "read_delimited r =
     (case read_varint r of
        None \<Rightarrow> None
      | Some (n, r') \<Rightarrow> (if n \<le> length r' then Some (take n r', drop n r') else None))"

lemma read_write_delimited: "read_delimited (write_delimited d @ rest) = Some (d, rest)"
  by (simp add: read_delimited_def write_delimited_def read_varint_varint)

definition read_utf8 :: "bytes \<Rightarrow> (string \<times> bytes) option" where
  "read_utf8 r =
     (case read_delimited r of
        None \<Rightarrow> None
      | Some (d, r') \<Rightarrow> (case utf8_decode d of None \<Rightarrow> None | Some s \<Rightarrow> Some (s, r')))"

lemma read_utf8_write: "read_utf8 (write_delimited (utf8 s) @ rest) = Some (s, rest)"
  by (simp add: read_utf8_def read_write_delimited utf8_decode_utf8)

text \<open>The eight bytes of some doubles, little-endian.\<close>

definition double_table :: "(rat \<times> bytes) list" where
  "double_table =
     [(0, [0, 0, 0, 0, 0, 0, 0, 0]), (1, [0, 0, 0, 0, 0, 0, 240, 63]),
      (5 / 4, [0, 0, 0, 0, 0, 0, 244, 63]), (3 / 2, [0, 0, 0, 0, 0, 0, 248, 63]),
      (7 / 4, [0, 0, 0, 0, 0, 0, 252, 63]), (2, [0, 0, 0, 0, 0, 0, 0, 64])]"

definition write_double :: "rat \<Rightarrow> bytes" where
  "write_double x = (case map_of double_table x of None \<Rightarrow> [] | Some b \<Rightarrow> b)"

definition read_double :: "bytes \<Rightarrow> (rat \<times> bytes) option" where
  "read_double r =
     (case map_of (map (\<lambda>(x, b). (b, x)) double_table) (take 8 r) of
        None \<Rightarrow> None | Some x \<Rightarrow> Some (x, drop 8 r))"

definition known_double :: "rat \<Rightarrow> bool" where
  "known_double x \<longleftrightarrow> x \<in> set (map fst double_table)"

lemma read_write_double: "known_double x \<Longrightarrow> read_double (write_double x @ rest) = Some (x, rest)"
  by (auto simp: known_double_def write_double_def read_double_def double_table_def)

fun skip_type :: "int \<Rightarrow> bytes \<Rightarrow> bytes option" where
  "skip_type t r =
     (if t = 0 then map_option snd (read_varint r)
      else if t = 1 then (if 8 \<le> length r then Some (drop 8 r) else None)
      else if t = 2 then map_option snd (read_delimited r)
      else if t = 5 then (if 4 \<le> length r then Some (drop 4 r) else None)
      else None)"

section \<open>The instance\<close>

definition wire_pb :: pb where
  "wire_pb =
     \<lparr>w_uint32 = (\<lambda>n. varint (nat n)),
      w_int32 = (\<lambda>n. varint (twos 64 n)),
      w_sint32 = (\<lambda>n. varint (zigzag n)),
      w_uint64 = (\<lambda>n. varint (nat n)),
      w_int64 = (\<lambda>n. varint (twos 64 n)),
      w_bool = (\<lambda>b. varint (if b then 1 else 0)),
      w_string = (\<lambda>s. write_delimited (utf8 s)),
      w_bytes = write_delimited,
      w_double = write_double,
      r_uint32 = read_nat int,
      r_int32 = read_nat (untwos 32),
      r_sint32 = read_nat unzigzag,
      r_uint64 = read_nat int,
      r_int64 = read_nat (untwos 64),
      r_bool = read_nat (\<lambda>n. n \<noteq> 0),
      r_string = read_utf8,
      r_bytes = read_delimited,
      r_double = read_double,
      r_skipType = skip_type,
      is_double = known_double\<rparr>"

lemma int53_twos: "fits_int53 n \<Longrightarrow> untwos 64 (twos 64 n) = n"
  by (rule untwos_signed) (auto simp: fits_int53_def)

lemma int32_twos: "fits_int32 n \<Longrightarrow> untwos 32 (twos 64 n) = n"
  by (rule untwos_signed) (auto simp: fits_int32_def)

interpretation wire: pb_laws wire_pb
  by unfold_locales
     (simp_all add: wire_pb_def read_nat_varint fits_uint32_def fits_uint53_def int53_twos int32_twos
       unzigzag_zigzag read_utf8_write read_write_delimited read_write_double varint_not_Nil)

end
