(* ===== verification/Environment.thy ===== *)
theory Environment
  imports Message_Codec Rendezvous_Codec Crypto_Sodium Wire_Instance
begin

text \<open>
  What the sources call and do not contain, gathered as one parameter \<open>E :: env\<close>: the
  scalar codec of protobufjs, the libsodium primitives, SHA-256, the text encoder, the zstd
  decoder and the zip writer of fflate.  Nothing is assumed about any of them unless a
  statement names the assumption.
\<close>

text \<open>
  The calls made on one \<open>Zip\<close> object, and what a call emits through \<open>ondata\<close>, given the
  calls before it.
\<close>

datatype zip_call = ZipAdd string | ZipPush bytes bool | ZipEnd

datatype zip_data = ZipChunk bytes bool | ZipError unknown

record env =
  env_pb :: pb
  secretbox_easy :: "bytes \<Rightarrow> bytes \<Rightarrow> bytes \<Rightarrow> bytes"
  secretbox_open_easy :: "bytes \<Rightarrow> bytes \<Rightarrow> bytes \<Rightarrow> bytes option"
  sign_open :: "bytes \<Rightarrow> bytes \<Rightarrow> bytes option"
  from_base64 :: "string \<Rightarrow> bytes option"
  box_easy :: "bytes \<Rightarrow> bytes \<Rightarrow> bytes \<Rightarrow> bytes \<Rightarrow> bytes"
  sha256 :: "bytes \<Rightarrow> bytes"
  text_encode :: "string \<Rightarrow> bytes"
  zstd_decode :: "bytes \<Rightarrow> int \<Rightarrow> bytes option"
  zip_emit :: "zip_call list \<Rightarrow> zip_call \<Rightarrow> zip_data list"
  zip_sync :: "(string, bytes) jsmap \<Rightarrow> bytes"

text \<open>Opening a sealed box gives back what was sealed, under the same nonce and key.\<close>

definition secretbox_laws :: "env \<Rightarrow> bool" where
  "secretbox_laws E \<longleftrightarrow>
     (\<forall>m n k. secretbox_open_easy E (secretbox_easy E m n k) n k = Some m)"

text \<open>
  A concrete environment, so that statements about \<open>E\<close> can be evaluated: the wire format of
  protobuf, and simple functions in the place of the cryptographic and compression codes.
\<close>

fun plain_zip :: "zip_call list \<Rightarrow> zip_call \<Rightarrow> zip_data list" where
  "plain_zip _ (ZipAdd name) = []"
| "plain_zip _ (ZipPush bs final) = [ZipChunk bs False]"
| "plain_zip _ ZipEnd = [ZipChunk [] True]"

definition plain_env :: env where
  "plain_env =
     \<lparr>env_pb = wire_pb,
      secretbox_easy = (\<lambda>m n k. n @ m),
      secretbox_open_easy = (\<lambda>b n k. if take (length n) b = n then Some (drop (length n) b) else None),
      sign_open = (\<lambda>signed pk. Some signed),
      from_base64 = (\<lambda>s. Some (map (\<lambda>c. word_of_nat (of_char c)) s)),
      box_easy = (\<lambda>m n pk sk. m),
      sha256 = (\<lambda>bs. take 32 (bs @ replicate 32 0)),
      text_encode = (\<lambda>s. map (\<lambda>c. word_of_nat (of_char c)) s),
      zstd_decode = (\<lambda>bs limit. if int (length bs) \<le> limit then Some bs else None),
      zip_emit = plain_zip,
      zip_sync = (\<lambda>m. concat (map_values m))\<rparr>"

lemma plain_env_pb [simp]: "env_pb plain_env = wire_pb"
  by (simp add: plain_env_def)

lemma plain_env_secretbox: "secretbox_laws plain_env"
  by (simp add: secretbox_laws_def plain_env_def)

end
