(* ===== verification/Message_Laws.thy ===== *)
theory Message_Laws
  imports Message_Codec Wire_Laws
begin

text \<open>
  Every message of \<open>flutter/js/src/proto/message.ts\<close> decodes to what was encoded.
\<close>

section \<open>Fields as lenses\<close>

lemma EncodedVideoFrame_lens:
  "lens EncodedVideoFrame_data EncodedVideoFrame_data_update"
  "lens EncodedVideoFrame_key EncodedVideoFrame_key_update"
  "lens EncodedVideoFrame_pts EncodedVideoFrame_pts_update"
  by (simp_all add: lens_def EncodedVideoFrame.equality)

lemma EncodedVideoFrames_lens:
  "lens EncodedVideoFrames_frames EncodedVideoFrames_frames_update"
  by (simp_all add: lens_def EncodedVideoFrames.equality)

lemma RGB_lens:
  "lens RGB_compress RGB_compress_update"
  by (simp_all add: lens_def RGB.equality)

lemma YUV_lens:
  "lens YUV_compress YUV_compress_update"
  "lens YUV_stride YUV_stride_update"
  by (simp_all add: lens_def YUV.equality)

lemma VideoFrame_lens:
  "lens VideoFrame_vp9s VideoFrame_vp9s_update"
  "lens VideoFrame_rgb VideoFrame_rgb_update"
  "lens VideoFrame_yuv VideoFrame_yuv_update"
  "lens VideoFrame_h264s VideoFrame_h264s_update"
  "lens VideoFrame_h265s VideoFrame_h265s_update"
  "lens VideoFrame_vp8s VideoFrame_vp8s_update"
  "lens VideoFrame_av1s VideoFrame_av1s_update"
  "lens VideoFrame_display VideoFrame_display_update"
  by (simp_all add: lens_def VideoFrame.equality)

lemma IdPk_lens:
  "lens IdPk_id IdPk_id_update"
  "lens IdPk_pk IdPk_pk_update"
  by (simp_all add: lens_def IdPk.equality)

lemma Resolution_lens:
  "lens Resolution_width Resolution_width_update"
  "lens Resolution_height Resolution_height_update"
  by (simp_all add: lens_def Resolution.equality)

lemma DisplayInfo_lens:
  "lens DisplayInfo_x DisplayInfo_x_update"
  "lens DisplayInfo_y DisplayInfo_y_update"
  "lens DisplayInfo_width DisplayInfo_width_update"
  "lens DisplayInfo_height DisplayInfo_height_update"
  "lens DisplayInfo_name DisplayInfo_name_update"
  "lens DisplayInfo_online DisplayInfo_online_update"
  "lens DisplayInfo_cursor_embedded DisplayInfo_cursor_embedded_update"
  "lens DisplayInfo_original_resolution DisplayInfo_original_resolution_update"
  "lens DisplayInfo_scale DisplayInfo_scale_update"
  by (simp_all add: lens_def DisplayInfo.equality)

lemma PortForward_lens:
  "lens PortForward_host PortForward_host_update"
  "lens PortForward_port PortForward_port_update"
  by (simp_all add: lens_def PortForward.equality)

lemma FileTransfer_lens:
  "lens FileTransfer_dir FileTransfer_dir_update"
  "lens FileTransfer_show_hidden FileTransfer_show_hidden_update"
  by (simp_all add: lens_def FileTransfer.equality)

lemma OSLogin_lens:
  "lens OSLogin_username OSLogin_username_update"
  "lens OSLogin_password OSLogin_password_update"
  by (simp_all add: lens_def OSLogin.equality)

lemma CodecAbility_lens:
  "lens CodecAbility_vp8 CodecAbility_vp8_update"
  "lens CodecAbility_vp9 CodecAbility_vp9_update"
  "lens CodecAbility_av1 CodecAbility_av1_update"
  "lens CodecAbility_h264 CodecAbility_h264_update"
  "lens CodecAbility_h265 CodecAbility_h265_update"
  by (simp_all add: lens_def CodecAbility.equality)

lemma SupportedDecoding_lens:
  "lens SupportedDecoding_ability_vp9 SupportedDecoding_ability_vp9_update"
  "lens SupportedDecoding_ability_h264 SupportedDecoding_ability_h264_update"
  "lens SupportedDecoding_ability_h265 SupportedDecoding_ability_h265_update"
  "lens SupportedDecoding_prefer SupportedDecoding_prefer_update"
  "lens SupportedDecoding_ability_vp8 SupportedDecoding_ability_vp8_update"
  "lens SupportedDecoding_ability_av1 SupportedDecoding_ability_av1_update"
  "lens SupportedDecoding_i444 SupportedDecoding_i444_update"
  "lens SupportedDecoding_prefer_chroma SupportedDecoding_prefer_chroma_update"
  by (simp_all add: lens_def SupportedDecoding.equality)

lemma OptionMessage_lens:
  "lens OptionMessage_image_quality OptionMessage_image_quality_update"
  "lens OptionMessage_lock_after_session_end OptionMessage_lock_after_session_end_update"
  "lens OptionMessage_show_remote_cursor OptionMessage_show_remote_cursor_update"
  "lens OptionMessage_privacy_mode OptionMessage_privacy_mode_update"
  "lens OptionMessage_block_input OptionMessage_block_input_update"
  "lens OptionMessage_custom_image_quality OptionMessage_custom_image_quality_update"
  "lens OptionMessage_disable_audio OptionMessage_disable_audio_update"
  "lens OptionMessage_disable_clipboard OptionMessage_disable_clipboard_update"
  "lens OptionMessage_enable_file_transfer OptionMessage_enable_file_transfer_update"
  "lens OptionMessage_supported_decoding OptionMessage_supported_decoding_update"
  "lens OptionMessage_custom_fps OptionMessage_custom_fps_update"
  "lens OptionMessage_disable_keyboard OptionMessage_disable_keyboard_update"
  "lens OptionMessage_follow_remote_cursor OptionMessage_follow_remote_cursor_update"
  "lens OptionMessage_follow_remote_window OptionMessage_follow_remote_window_update"
  by (simp_all add: lens_def OptionMessage.equality)

lemma LoginRequest_lens:
  "lens LoginRequest_username LoginRequest_username_update"
  "lens LoginRequest_password LoginRequest_password_update"
  "lens LoginRequest_my_id LoginRequest_my_id_update"
  "lens LoginRequest_my_name LoginRequest_my_name_update"
  "lens LoginRequest_option LoginRequest_option_update"
  "lens LoginRequest_file_transfer LoginRequest_file_transfer_update"
  "lens LoginRequest_port_forward LoginRequest_port_forward_update"
  "lens LoginRequest_video_ack_required LoginRequest_video_ack_required_update"
  "lens LoginRequest_session_id LoginRequest_session_id_update"
  "lens LoginRequest_version LoginRequest_version_update"
  "lens LoginRequest_os_login LoginRequest_os_login_update"
  "lens LoginRequest_my_platform LoginRequest_my_platform_update"
  "lens LoginRequest_hwid LoginRequest_hwid_update"
  by (simp_all add: lens_def LoginRequest.equality)

lemma Auth2FA_lens:
  "lens Auth2FA_code Auth2FA_code_update"
  "lens Auth2FA_hwid Auth2FA_hwid_update"
  by (simp_all add: lens_def Auth2FA.equality)

lemma ChatMessage_lens:
  "lens ChatMessage_text ChatMessage_text_update"
  by (simp_all add: lens_def ChatMessage.equality)

lemma Features_lens:
  "lens Features_privacy_mode Features_privacy_mode_update"
  by (simp_all add: lens_def Features.equality)

lemma SupportedEncoding_lens:
  "lens SupportedEncoding_h264 SupportedEncoding_h264_update"
  "lens SupportedEncoding_h265 SupportedEncoding_h265_update"
  "lens SupportedEncoding_vp8 SupportedEncoding_vp8_update"
  "lens SupportedEncoding_av1 SupportedEncoding_av1_update"
  "lens SupportedEncoding_i444 SupportedEncoding_i444_update"
  by (simp_all add: lens_def SupportedEncoding.equality)

lemma SupportedResolutions_lens:
  "lens SupportedResolutions_resolutions SupportedResolutions_resolutions_update"
  by (simp_all add: lens_def SupportedResolutions.equality)

lemma WindowsSession_lens:
  "lens WindowsSession_sid WindowsSession_sid_update"
  "lens WindowsSession_name WindowsSession_name_update"
  by (simp_all add: lens_def WindowsSession.equality)

lemma WindowsSessions_lens:
  "lens WindowsSessions_sessions WindowsSessions_sessions_update"
  "lens WindowsSessions_current_sid WindowsSessions_current_sid_update"
  by (simp_all add: lens_def WindowsSessions.equality)

lemma PeerInfo_lens:
  "lens PeerInfo_username PeerInfo_username_update"
  "lens PeerInfo_hostname PeerInfo_hostname_update"
  "lens PeerInfo_platform PeerInfo_platform_update"
  "lens PeerInfo_displays PeerInfo_displays_update"
  "lens PeerInfo_current_display PeerInfo_current_display_update"
  "lens PeerInfo_sas_enabled PeerInfo_sas_enabled_update"
  "lens PeerInfo_version PeerInfo_version_update"
  "lens PeerInfo_features PeerInfo_features_update"
  "lens PeerInfo_encoding PeerInfo_encoding_update"
  "lens PeerInfo_resolutions PeerInfo_resolutions_update"
  "lens PeerInfo_platform_additions PeerInfo_platform_additions_update"
  "lens PeerInfo_windows_sessions PeerInfo_windows_sessions_update"
  by (simp_all add: lens_def PeerInfo.equality)

lemma LoginResponse_lens:
  "lens LoginResponse_error LoginResponse_error_update"
  "lens LoginResponse_peer_info LoginResponse_peer_info_update"
  "lens LoginResponse_enable_trusted_devices LoginResponse_enable_trusted_devices_update"
  by (simp_all add: lens_def LoginResponse.equality)

lemma TouchScaleUpdate_lens:
  "lens TouchScaleUpdate_scale TouchScaleUpdate_scale_update"
  by (simp_all add: lens_def TouchScaleUpdate.equality)

lemma TouchPanStart_lens:
  "lens TouchPanStart_x TouchPanStart_x_update"
  "lens TouchPanStart_y TouchPanStart_y_update"
  by (simp_all add: lens_def TouchPanStart.equality)

lemma TouchPanUpdate_lens:
  "lens TouchPanUpdate_x TouchPanUpdate_x_update"
  "lens TouchPanUpdate_y TouchPanUpdate_y_update"
  by (simp_all add: lens_def TouchPanUpdate.equality)

lemma TouchPanEnd_lens:
  "lens TouchPanEnd_x TouchPanEnd_x_update"
  "lens TouchPanEnd_y TouchPanEnd_y_update"
  by (simp_all add: lens_def TouchPanEnd.equality)

lemma TouchEvent_lens:
  "lens TouchEvent_scale_update TouchEvent_scale_update_update"
  "lens TouchEvent_pan_start TouchEvent_pan_start_update"
  "lens TouchEvent_pan_update TouchEvent_pan_update_update"
  "lens TouchEvent_pan_end TouchEvent_pan_end_update"
  by (simp_all add: lens_def TouchEvent.equality)

lemma PointerDeviceEvent_lens:
  "lens PointerDeviceEvent_touch_event PointerDeviceEvent_touch_event_update"
  "lens PointerDeviceEvent_modifiers PointerDeviceEvent_modifiers_update"
  by (simp_all add: lens_def PointerDeviceEvent.equality)

lemma MouseEvent_lens:
  "lens MouseEvent_mask MouseEvent_mask_update"
  "lens MouseEvent_x MouseEvent_x_update"
  "lens MouseEvent_y MouseEvent_y_update"
  "lens MouseEvent_modifiers MouseEvent_modifiers_update"
  by (simp_all add: lens_def MouseEvent.equality)

lemma KeyEvent_lens:
  "lens KeyEvent_down KeyEvent_down_update"
  "lens KeyEvent_press KeyEvent_press_update"
  "lens KeyEvent_control_key KeyEvent_control_key_update"
  "lens KeyEvent_chr KeyEvent_chr_update"
  "lens KeyEvent_unicode KeyEvent_unicode_update"
  "lens KeyEvent_seq KeyEvent_seq_update"
  "lens KeyEvent_win2win_hotkey KeyEvent_win2win_hotkey_update"
  "lens KeyEvent_modifiers KeyEvent_modifiers_update"
  "lens KeyEvent_mode KeyEvent_mode_update"
  by (simp_all add: lens_def KeyEvent.equality)

lemma CursorData_lens:
  "lens CursorData_id CursorData_id_update"
  "lens CursorData_hotx CursorData_hotx_update"
  "lens CursorData_hoty CursorData_hoty_update"
  "lens CursorData_width CursorData_width_update"
  "lens CursorData_height CursorData_height_update"
  "lens CursorData_colors CursorData_colors_update"
  by (simp_all add: lens_def CursorData.equality)

lemma CursorPosition_lens:
  "lens CursorPosition_x CursorPosition_x_update"
  "lens CursorPosition_y CursorPosition_y_update"
  by (simp_all add: lens_def CursorPosition.equality)

lemma Hash_lens:
  "lens Hash_salt Hash_salt_update"
  "lens Hash_challenge Hash_challenge_update"
  by (simp_all add: lens_def Hash.equality)

lemma Clipboard_lens:
  "lens Clipboard_compress Clipboard_compress_update"
  "lens Clipboard_content Clipboard_content_update"
  "lens Clipboard_width Clipboard_width_update"
  "lens Clipboard_height Clipboard_height_update"
  "lens Clipboard_format Clipboard_format_update"
  "lens Clipboard_special_name Clipboard_special_name_update"
  by (simp_all add: lens_def Clipboard.equality)

lemma MultiClipboards_lens:
  "lens MultiClipboards_clipboards MultiClipboards_clipboards_update"
  by (simp_all add: lens_def MultiClipboards.equality)

lemma FileEntry_lens:
  "lens FileEntry_entry_type FileEntry_entry_type_update"
  "lens FileEntry_name FileEntry_name_update"
  "lens FileEntry_is_hidden FileEntry_is_hidden_update"
  "lens FileEntry_size FileEntry_size_update"
  "lens FileEntry_modified_time FileEntry_modified_time_update"
  by (simp_all add: lens_def FileEntry.equality)

lemma FileDirectory_lens:
  "lens FileDirectory_id FileDirectory_id_update"
  "lens FileDirectory_path FileDirectory_path_update"
  "lens FileDirectory_entries FileDirectory_entries_update"
  by (simp_all add: lens_def FileDirectory.equality)

lemma ReadDir_lens:
  "lens ReadDir_path ReadDir_path_update"
  "lens ReadDir_include_hidden ReadDir_include_hidden_update"
  by (simp_all add: lens_def ReadDir.equality)

lemma ReadEmptyDirs_lens:
  "lens ReadEmptyDirs_path ReadEmptyDirs_path_update"
  "lens ReadEmptyDirs_include_hidden ReadEmptyDirs_include_hidden_update"
  by (simp_all add: lens_def ReadEmptyDirs.equality)

lemma ReadEmptyDirsResponse_lens:
  "lens ReadEmptyDirsResponse_path ReadEmptyDirsResponse_path_update"
  "lens ReadEmptyDirsResponse_empty_dirs ReadEmptyDirsResponse_empty_dirs_update"
  by (simp_all add: lens_def ReadEmptyDirsResponse.equality)

lemma ReadAllFiles_lens:
  "lens ReadAllFiles_id ReadAllFiles_id_update"
  "lens ReadAllFiles_path ReadAllFiles_path_update"
  "lens ReadAllFiles_include_hidden ReadAllFiles_include_hidden_update"
  by (simp_all add: lens_def ReadAllFiles.equality)

lemma FileRename_lens:
  "lens FileRename_id FileRename_id_update"
  "lens FileRename_path FileRename_path_update"
  "lens FileRename_new_name FileRename_new_name_update"
  by (simp_all add: lens_def FileRename.equality)

lemma FileTransferSendRequest_lens:
  "lens FileTransferSendRequest_id FileTransferSendRequest_id_update"
  "lens FileTransferSendRequest_path FileTransferSendRequest_path_update"
  "lens FileTransferSendRequest_include_hidden FileTransferSendRequest_include_hidden_update"
  "lens FileTransferSendRequest_file_num FileTransferSendRequest_file_num_update"
  by (simp_all add: lens_def FileTransferSendRequest.equality)

lemma FileTransferReceiveRequest_lens:
  "lens FileTransferReceiveRequest_id FileTransferReceiveRequest_id_update"
  "lens FileTransferReceiveRequest_path FileTransferReceiveRequest_path_update"
  "lens FileTransferReceiveRequest_files FileTransferReceiveRequest_files_update"
  "lens FileTransferReceiveRequest_file_num FileTransferReceiveRequest_file_num_update"
  "lens FileTransferReceiveRequest_total_size FileTransferReceiveRequest_total_size_update"
  by (simp_all add: lens_def FileTransferReceiveRequest.equality)

lemma FileDirCreate_lens:
  "lens FileDirCreate_id FileDirCreate_id_update"
  "lens FileDirCreate_path FileDirCreate_path_update"
  by (simp_all add: lens_def FileDirCreate.equality)

lemma FileRemoveDir_lens:
  "lens FileRemoveDir_id FileRemoveDir_id_update"
  "lens FileRemoveDir_path FileRemoveDir_path_update"
  "lens FileRemoveDir_recursive FileRemoveDir_recursive_update"
  by (simp_all add: lens_def FileRemoveDir.equality)

lemma FileRemoveFile_lens:
  "lens FileRemoveFile_id FileRemoveFile_id_update"
  "lens FileRemoveFile_path FileRemoveFile_path_update"
  "lens FileRemoveFile_file_num FileRemoveFile_file_num_update"
  by (simp_all add: lens_def FileRemoveFile.equality)

lemma FileTransferCancel_lens:
  "lens FileTransferCancel_id FileTransferCancel_id_update"
  by (simp_all add: lens_def FileTransferCancel.equality)

lemma FileTransferSendConfirmRequest_lens:
  "lens FileTransferSendConfirmRequest_id FileTransferSendConfirmRequest_id_update"
  "lens FileTransferSendConfirmRequest_file_num FileTransferSendConfirmRequest_file_num_update"
  "lens FileTransferSendConfirmRequest_skip FileTransferSendConfirmRequest_skip_update"
  "lens FileTransferSendConfirmRequest_offset_blk FileTransferSendConfirmRequest_offset_blk_update"
  by (simp_all add: lens_def FileTransferSendConfirmRequest.equality)

lemma FileAction_lens:
  "lens FileAction_read_dir FileAction_read_dir_update"
  "lens FileAction_send FileAction_send_update"
  "lens FileAction_receive FileAction_receive_update"
  "lens FileAction_create FileAction_create_update"
  "lens FileAction_remove_dir FileAction_remove_dir_update"
  "lens FileAction_remove_file FileAction_remove_file_update"
  "lens FileAction_all_files FileAction_all_files_update"
  "lens FileAction_cancel FileAction_cancel_update"
  "lens FileAction_send_confirm FileAction_send_confirm_update"
  "lens FileAction_rename FileAction_rename_update"
  "lens FileAction_read_empty_dirs FileAction_read_empty_dirs_update"
  by (simp_all add: lens_def FileAction.equality)

lemma FileTransferBlock_lens:
  "lens FileTransferBlock_id FileTransferBlock_id_update"
  "lens FileTransferBlock_file_num FileTransferBlock_file_num_update"
  "lens FileTransferBlock_data FileTransferBlock_data_update"
  "lens FileTransferBlock_compressed FileTransferBlock_compressed_update"
  "lens FileTransferBlock_blk_id FileTransferBlock_blk_id_update"
  by (simp_all add: lens_def FileTransferBlock.equality)

lemma FileTransferError_lens:
  "lens FileTransferError_id FileTransferError_id_update"
  "lens FileTransferError_error FileTransferError_error_update"
  "lens FileTransferError_file_num FileTransferError_file_num_update"
  by (simp_all add: lens_def FileTransferError.equality)

lemma FileTransferDone_lens:
  "lens FileTransferDone_id FileTransferDone_id_update"
  "lens FileTransferDone_file_num FileTransferDone_file_num_update"
  by (simp_all add: lens_def FileTransferDone.equality)

lemma FileTransferDigest_lens:
  "lens FileTransferDigest_id FileTransferDigest_id_update"
  "lens FileTransferDigest_file_num FileTransferDigest_file_num_update"
  "lens FileTransferDigest_last_modified FileTransferDigest_last_modified_update"
  "lens FileTransferDigest_file_size FileTransferDigest_file_size_update"
  "lens FileTransferDigest_is_upload FileTransferDigest_is_upload_update"
  "lens FileTransferDigest_is_identical FileTransferDigest_is_identical_update"
  by (simp_all add: lens_def FileTransferDigest.equality)

lemma FileResponse_lens:
  "lens FileResponse_dir FileResponse_dir_update"
  "lens FileResponse_block FileResponse_block_update"
  "lens FileResponse_error FileResponse_error_update"
  "lens FileResponse_done FileResponse_done_update"
  "lens FileResponse_digest FileResponse_digest_update"
  "lens FileResponse_empty_dirs FileResponse_empty_dirs_update"
  by (simp_all add: lens_def FileResponse.equality)

lemma CliprdrFormat_lens:
  "lens CliprdrFormat_id CliprdrFormat_id_update"
  "lens CliprdrFormat_format CliprdrFormat_format_update"
  by (simp_all add: lens_def CliprdrFormat.equality)

lemma CliprdrServerFormatList_lens:
  "lens CliprdrServerFormatList_formats CliprdrServerFormatList_formats_update"
  by (simp_all add: lens_def CliprdrServerFormatList.equality)

lemma CliprdrServerFormatListResponse_lens:
  "lens CliprdrServerFormatListResponse_msg_flags CliprdrServerFormatListResponse_msg_flags_update"
  by (simp_all add: lens_def CliprdrServerFormatListResponse.equality)

lemma CliprdrServerFormatDataRequest_lens:
  "lens CliprdrServerFormatDataRequest_requested_format_id CliprdrServerFormatDataRequest_requested_format_id_update"
  by (simp_all add: lens_def CliprdrServerFormatDataRequest.equality)

lemma CliprdrServerFormatDataResponse_lens:
  "lens CliprdrServerFormatDataResponse_msg_flags CliprdrServerFormatDataResponse_msg_flags_update"
  "lens CliprdrServerFormatDataResponse_format_data CliprdrServerFormatDataResponse_format_data_update"
  by (simp_all add: lens_def CliprdrServerFormatDataResponse.equality)

lemma CliprdrFileContentsRequest_lens:
  "lens CliprdrFileContentsRequest_stream_id CliprdrFileContentsRequest_stream_id_update"
  "lens CliprdrFileContentsRequest_list_index CliprdrFileContentsRequest_list_index_update"
  "lens CliprdrFileContentsRequest_dw_flags CliprdrFileContentsRequest_dw_flags_update"
  "lens CliprdrFileContentsRequest_n_position_low CliprdrFileContentsRequest_n_position_low_update"
  "lens CliprdrFileContentsRequest_n_position_high CliprdrFileContentsRequest_n_position_high_update"
  "lens CliprdrFileContentsRequest_cb_requested CliprdrFileContentsRequest_cb_requested_update"
  "lens CliprdrFileContentsRequest_have_clip_data_id CliprdrFileContentsRequest_have_clip_data_id_update"
  "lens CliprdrFileContentsRequest_clip_data_id CliprdrFileContentsRequest_clip_data_id_update"
  by (simp_all add: lens_def CliprdrFileContentsRequest.equality)

lemma CliprdrFileContentsResponse_lens:
  "lens CliprdrFileContentsResponse_msg_flags CliprdrFileContentsResponse_msg_flags_update"
  "lens CliprdrFileContentsResponse_stream_id CliprdrFileContentsResponse_stream_id_update"
  "lens CliprdrFileContentsResponse_requested_data CliprdrFileContentsResponse_requested_data_update"
  by (simp_all add: lens_def CliprdrFileContentsResponse.equality)

lemma Cliprdr_lens:
  "lens Cliprdr_ready Cliprdr_ready_update"
  "lens Cliprdr_format_list Cliprdr_format_list_update"
  "lens Cliprdr_format_list_response Cliprdr_format_list_response_update"
  "lens Cliprdr_format_data_request Cliprdr_format_data_request_update"
  "lens Cliprdr_format_data_response Cliprdr_format_data_response_update"
  "lens Cliprdr_file_contents_request Cliprdr_file_contents_request_update"
  "lens Cliprdr_file_contents_response Cliprdr_file_contents_response_update"
  "lens Cliprdr_try_empty Cliprdr_try_empty_update"
  by (simp_all add: lens_def Cliprdr.equality)

lemma DisplayResolution_lens:
  "lens DisplayResolution_display DisplayResolution_display_update"
  "lens DisplayResolution_resolution DisplayResolution_resolution_update"
  by (simp_all add: lens_def DisplayResolution.equality)

lemma SwitchDisplay_lens:
  "lens SwitchDisplay_display SwitchDisplay_display_update"
  "lens SwitchDisplay_x SwitchDisplay_x_update"
  "lens SwitchDisplay_y SwitchDisplay_y_update"
  "lens SwitchDisplay_width SwitchDisplay_width_update"
  "lens SwitchDisplay_height SwitchDisplay_height_update"
  "lens SwitchDisplay_cursor_embedded SwitchDisplay_cursor_embedded_update"
  "lens SwitchDisplay_resolutions SwitchDisplay_resolutions_update"
  "lens SwitchDisplay_original_resolution SwitchDisplay_original_resolution_update"
  by (simp_all add: lens_def SwitchDisplay.equality)

lemma CaptureDisplays_lens:
  "lens CaptureDisplays_add CaptureDisplays_add_update"
  "lens CaptureDisplays_sub CaptureDisplays_sub_update"
  "lens CaptureDisplays_set CaptureDisplays_set_update"
  by (simp_all add: lens_def CaptureDisplays.equality)

lemma ToggleVirtualDisplay_lens:
  "lens ToggleVirtualDisplay_display ToggleVirtualDisplay_display_update"
  "lens ToggleVirtualDisplay_on ToggleVirtualDisplay_on_update"
  by (simp_all add: lens_def ToggleVirtualDisplay.equality)

lemma TogglePrivacyMode_lens:
  "lens TogglePrivacyMode_impl_key TogglePrivacyMode_impl_key_update"
  "lens TogglePrivacyMode_on TogglePrivacyMode_on_update"
  by (simp_all add: lens_def TogglePrivacyMode.equality)

lemma PermissionInfo_lens:
  "lens PermissionInfo_permission PermissionInfo_permission_update"
  "lens PermissionInfo_enabled PermissionInfo_enabled_update"
  by (simp_all add: lens_def PermissionInfo.equality)

lemma TestDelay_lens:
  "lens TestDelay_time TestDelay_time_update"
  "lens TestDelay_from_client TestDelay_from_client_update"
  "lens TestDelay_last_delay TestDelay_last_delay_update"
  "lens TestDelay_target_bitrate TestDelay_target_bitrate_update"
  by (simp_all add: lens_def TestDelay.equality)

lemma PublicKey_lens:
  "lens PublicKey_asymmetric_value PublicKey_asymmetric_value_update"
  "lens PublicKey_symmetric_value PublicKey_symmetric_value_update"
  by (simp_all add: lens_def PublicKey.equality)

lemma SignedId_lens:
  "lens SignedId_id SignedId_id_update"
  by (simp_all add: lens_def SignedId.equality)

lemma AudioFormat_lens:
  "lens AudioFormat_sample_rate AudioFormat_sample_rate_update"
  "lens AudioFormat_channels AudioFormat_channels_update"
  by (simp_all add: lens_def AudioFormat.equality)

lemma AudioFrame_lens:
  "lens AudioFrame_data AudioFrame_data_update"
  by (simp_all add: lens_def AudioFrame.equality)

lemma MessageBox_lens:
  "lens MessageBox_msgtype MessageBox_msgtype_update"
  "lens MessageBox_title MessageBox_title_update"
  "lens MessageBox_text MessageBox_text_update"
  "lens MessageBox_link MessageBox_link_update"
  by (simp_all add: lens_def MessageBox.equality)

lemma BackNotification_lens:
  "lens BackNotification_privacy_mode_state BackNotification_privacy_mode_state_update"
  "lens BackNotification_block_input_state BackNotification_block_input_state_update"
  "lens BackNotification_details BackNotification_details_update"
  "lens BackNotification_impl_key BackNotification_impl_key_update"
  by (simp_all add: lens_def BackNotification.equality)

lemma ElevationRequestWithLogon_lens:
  "lens ElevationRequestWithLogon_username ElevationRequestWithLogon_username_update"
  "lens ElevationRequestWithLogon_password ElevationRequestWithLogon_password_update"
  by (simp_all add: lens_def ElevationRequestWithLogon.equality)

lemma ElevationRequest_lens:
  "lens ElevationRequest_direct ElevationRequest_direct_update"
  "lens ElevationRequest_logon ElevationRequest_logon_update"
  by (simp_all add: lens_def ElevationRequest.equality)

lemma SwitchSidesRequest_lens:
  "lens SwitchSidesRequest_uuid SwitchSidesRequest_uuid_update"
  by (simp_all add: lens_def SwitchSidesRequest.equality)

lemma SwitchSidesResponse_lens:
  "lens SwitchSidesResponse_uuid SwitchSidesResponse_uuid_update"
  "lens SwitchSidesResponse_lr SwitchSidesResponse_lr_update"
  by (simp_all add: lens_def SwitchSidesResponse.equality)

lemma PluginRequest_lens:
  "lens PluginRequest_id PluginRequest_id_update"
  "lens PluginRequest_content PluginRequest_content_update"
  by (simp_all add: lens_def PluginRequest.equality)

lemma PluginFailure_lens:
  "lens PluginFailure_id PluginFailure_id_update"
  "lens PluginFailure_name PluginFailure_name_update"
  "lens PluginFailure_msg PluginFailure_msg_update"
  by (simp_all add: lens_def PluginFailure.equality)

lemma MessageQuery_lens:
  "lens MessageQuery_switch_display MessageQuery_switch_display_update"
  by (simp_all add: lens_def MessageQuery.equality)

lemma Misc_lens:
  "lens Misc_chat_message Misc_chat_message_update"
  "lens Misc_switch_display Misc_switch_display_update"
  "lens Misc_permission_info Misc_permission_info_update"
  "lens Misc_option Misc_option_update"
  "lens Misc_audio_format Misc_audio_format_update"
  "lens Misc_close_reason Misc_close_reason_update"
  "lens Misc_refresh_video Misc_refresh_video_update"
  "lens Misc_video_received Misc_video_received_update"
  "lens Misc_back_notification Misc_back_notification_update"
  "lens Misc_restart_remote_device Misc_restart_remote_device_update"
  "lens Misc_uac Misc_uac_update"
  "lens Misc_foreground_window_elevated Misc_foreground_window_elevated_update"
  "lens Misc_stop_service Misc_stop_service_update"
  "lens Misc_elevation_request Misc_elevation_request_update"
  "lens Misc_elevation_response Misc_elevation_response_update"
  "lens Misc_portable_service_running Misc_portable_service_running_update"
  "lens Misc_switch_sides_request Misc_switch_sides_request_update"
  "lens Misc_switch_back Misc_switch_back_update"
  "lens Misc_change_resolution Misc_change_resolution_update"
  "lens Misc_plugin_request Misc_plugin_request_update"
  "lens Misc_plugin_failure Misc_plugin_failure_update"
  "lens Misc_full_speed_fps Misc_full_speed_fps_update"
  "lens Misc_auto_adjust_fps Misc_auto_adjust_fps_update"
  "lens Misc_client_record_status Misc_client_record_status_update"
  "lens Misc_capture_displays Misc_capture_displays_update"
  "lens Misc_refresh_video_display Misc_refresh_video_display_update"
  "lens Misc_toggle_virtual_display Misc_toggle_virtual_display_update"
  "lens Misc_toggle_privacy_mode Misc_toggle_privacy_mode_update"
  "lens Misc_supported_encoding Misc_supported_encoding_update"
  "lens Misc_selected_sid Misc_selected_sid_update"
  "lens Misc_change_display_resolution Misc_change_display_resolution_update"
  "lens Misc_message_query Misc_message_query_update"
  "lens Misc_follow_current_display Misc_follow_current_display_update"
  by (simp_all add: lens_def Misc.equality)

lemma VoiceCallRequest_lens:
  "lens VoiceCallRequest_req_timestamp VoiceCallRequest_req_timestamp_update"
  "lens VoiceCallRequest_is_connect VoiceCallRequest_is_connect_update"
  by (simp_all add: lens_def VoiceCallRequest.equality)

lemma VoiceCallResponse_lens:
  "lens VoiceCallResponse_accepted VoiceCallResponse_accepted_update"
  "lens VoiceCallResponse_req_timestamp VoiceCallResponse_req_timestamp_update"
  "lens VoiceCallResponse_ack_timestamp VoiceCallResponse_ack_timestamp_update"
  by (simp_all add: lens_def VoiceCallResponse.equality)

lemma Message_lens:
  "lens Message_signed_id Message_signed_id_update"
  "lens Message_public_key Message_public_key_update"
  "lens Message_test_delay Message_test_delay_update"
  "lens Message_video_frame Message_video_frame_update"
  "lens Message_login_request Message_login_request_update"
  "lens Message_login_response Message_login_response_update"
  "lens Message_hash Message_hash_update"
  "lens Message_mouse_event Message_mouse_event_update"
  "lens Message_audio_frame Message_audio_frame_update"
  "lens Message_cursor_data Message_cursor_data_update"
  "lens Message_cursor_position Message_cursor_position_update"
  "lens Message_cursor_id Message_cursor_id_update"
  "lens Message_key_event Message_key_event_update"
  "lens Message_clipboard Message_clipboard_update"
  "lens Message_file_action Message_file_action_update"
  "lens Message_file_response Message_file_response_update"
  "lens Message_misc Message_misc_update"
  "lens Message_cliprdr Message_cliprdr_update"
  "lens Message_message_box Message_message_box_update"
  "lens Message_switch_sides_response Message_switch_sides_response_update"
  "lens Message_voice_call_request Message_voice_call_request_update"
  "lens Message_voice_call_response Message_voice_call_response_update"
  "lens Message_peer_info Message_peer_info_update"
  "lens Message_pointer_device_event Message_pointer_device_event_update"
  "lens Message_auth_2fa Message_auth_2fa_update"
  "lens Message_multi_clipboards Message_multi_clipboards_update"
  by (simp_all add: lens_def Message.equality)

section \<open>Field tables that round-trip\<close>

context pb_laws
begin

lemma EncodedVideoFrame_codec: "codec P (EncodedVideoFrame_fields P) createBaseEncodedVideoFrame"
  by (rule codecI)
    (simp_all add: EncodedVideoFrame_fields_def field_intros EncodedVideoFrame_lens
      createBaseEncodedVideoFrame_def)

lemma EncodedVideoFrames_codec: "codec P (EncodedVideoFrames_fields P) createBaseEncodedVideoFrames"
  by (rule codecI)
    (simp_all add: EncodedVideoFrames_fields_def field_intros EncodedVideoFrames_lens
      msg_codec [OF EncodedVideoFrame_codec]
      createBaseEncodedVideoFrames_def)

lemma RGB_codec: "codec P (RGB_fields P) createBaseRGB"
  by (rule codecI)
    (simp_all add: RGB_fields_def field_intros RGB_lens
      createBaseRGB_def)

lemma YUV_codec: "codec P (YUV_fields P) createBaseYUV"
  by (rule codecI)
    (simp_all add: YUV_fields_def field_intros YUV_lens
      createBaseYUV_def)

lemma VideoFrame_codec: "codec P (VideoFrame_fields P) createBaseVideoFrame"
  by (rule codecI)
    (simp_all add: VideoFrame_fields_def field_intros VideoFrame_lens
      msg_codec [OF EncodedVideoFrames_codec]
      msg_codec [OF RGB_codec]
      msg_codec [OF YUV_codec]
      createBaseVideoFrame_def)

lemma IdPk_codec: "codec P (IdPk_fields P) createBaseIdPk"
  by (rule codecI)
    (simp_all add: IdPk_fields_def field_intros IdPk_lens
      createBaseIdPk_def)

lemma Resolution_codec: "codec P (Resolution_fields P) createBaseResolution"
  by (rule codecI)
    (simp_all add: Resolution_fields_def field_intros Resolution_lens
      createBaseResolution_def)

lemma DisplayInfo_codec: "codec P (DisplayInfo_fields P) createBaseDisplayInfo"
  by (rule codecI)
    (simp_all add: DisplayInfo_fields_def field_intros DisplayInfo_lens
      msg_codec [OF Resolution_codec]
      createBaseDisplayInfo_def)

lemma PortForward_codec: "codec P (PortForward_fields P) createBasePortForward"
  by (rule codecI)
    (simp_all add: PortForward_fields_def field_intros PortForward_lens
      createBasePortForward_def)

lemma FileTransfer_codec: "codec P (FileTransfer_fields P) createBaseFileTransfer"
  by (rule codecI)
    (simp_all add: FileTransfer_fields_def field_intros FileTransfer_lens
      createBaseFileTransfer_def)

lemma OSLogin_codec: "codec P (OSLogin_fields P) createBaseOSLogin"
  by (rule codecI)
    (simp_all add: OSLogin_fields_def field_intros OSLogin_lens
      createBaseOSLogin_def)

lemma CodecAbility_codec: "codec P (CodecAbility_fields P) createBaseCodecAbility"
  by (rule codecI)
    (simp_all add: CodecAbility_fields_def field_intros CodecAbility_lens
      createBaseCodecAbility_def)

lemma SupportedDecoding_codec: "codec P (SupportedDecoding_fields P) createBaseSupportedDecoding"
  by (rule codecI)
    (simp_all add: SupportedDecoding_fields_def field_intros SupportedDecoding_lens
      msg_codec [OF CodecAbility_codec]
      createBaseSupportedDecoding_def)

lemma OptionMessage_codec: "codec P (OptionMessage_fields P) createBaseOptionMessage"
  by (rule codecI)
    (simp_all add: OptionMessage_fields_def field_intros OptionMessage_lens
      msg_codec [OF SupportedDecoding_codec]
      createBaseOptionMessage_def)

lemma LoginRequest_codec: "codec P (LoginRequest_fields P) createBaseLoginRequest"
  by (rule codecI)
    (simp_all add: LoginRequest_fields_def field_intros LoginRequest_lens
      msg_codec [OF OptionMessage_codec]
      msg_codec [OF FileTransfer_codec]
      msg_codec [OF PortForward_codec]
      msg_codec [OF OSLogin_codec]
      createBaseLoginRequest_def)

lemma Auth2FA_codec: "codec P (Auth2FA_fields P) createBaseAuth2FA"
  by (rule codecI)
    (simp_all add: Auth2FA_fields_def field_intros Auth2FA_lens
      createBaseAuth2FA_def)

lemma ChatMessage_codec: "codec P (ChatMessage_fields P) createBaseChatMessage"
  by (rule codecI)
    (simp_all add: ChatMessage_fields_def field_intros ChatMessage_lens
      createBaseChatMessage_def)

lemma Features_codec: "codec P (Features_fields P) createBaseFeatures"
  by (rule codecI)
    (simp_all add: Features_fields_def field_intros Features_lens
      createBaseFeatures_def)

lemma SupportedEncoding_codec: "codec P (SupportedEncoding_fields P) createBaseSupportedEncoding"
  by (rule codecI)
    (simp_all add: SupportedEncoding_fields_def field_intros SupportedEncoding_lens
      msg_codec [OF CodecAbility_codec]
      createBaseSupportedEncoding_def)

lemma SupportedResolutions_codec: "codec P (SupportedResolutions_fields P) createBaseSupportedResolutions"
  by (rule codecI)
    (simp_all add: SupportedResolutions_fields_def field_intros SupportedResolutions_lens
      msg_codec [OF Resolution_codec]
      createBaseSupportedResolutions_def)

lemma WindowsSession_codec: "codec P (WindowsSession_fields P) createBaseWindowsSession"
  by (rule codecI)
    (simp_all add: WindowsSession_fields_def field_intros WindowsSession_lens
      createBaseWindowsSession_def)

lemma WindowsSessions_codec: "codec P (WindowsSessions_fields P) createBaseWindowsSessions"
  by (rule codecI)
    (simp_all add: WindowsSessions_fields_def field_intros WindowsSessions_lens
      msg_codec [OF WindowsSession_codec]
      createBaseWindowsSessions_def)

lemma PeerInfo_codec: "codec P (PeerInfo_fields P) createBasePeerInfo"
  by (rule codecI)
    (simp_all add: PeerInfo_fields_def field_intros PeerInfo_lens
      msg_codec [OF DisplayInfo_codec]
      msg_codec [OF Features_codec]
      msg_codec [OF SupportedEncoding_codec]
      msg_codec [OF SupportedResolutions_codec]
      msg_codec [OF WindowsSessions_codec]
      createBasePeerInfo_def)

lemma LoginResponse_codec: "codec P (LoginResponse_fields P) createBaseLoginResponse"
  by (rule codecI)
    (simp_all add: LoginResponse_fields_def field_intros LoginResponse_lens
      msg_codec [OF PeerInfo_codec]
      createBaseLoginResponse_def)

lemma TouchScaleUpdate_codec: "codec P (TouchScaleUpdate_fields P) createBaseTouchScaleUpdate"
  by (rule codecI)
    (simp_all add: TouchScaleUpdate_fields_def field_intros TouchScaleUpdate_lens
      createBaseTouchScaleUpdate_def)

lemma TouchPanStart_codec: "codec P (TouchPanStart_fields P) createBaseTouchPanStart"
  by (rule codecI)
    (simp_all add: TouchPanStart_fields_def field_intros TouchPanStart_lens
      createBaseTouchPanStart_def)

lemma TouchPanUpdate_codec: "codec P (TouchPanUpdate_fields P) createBaseTouchPanUpdate"
  by (rule codecI)
    (simp_all add: TouchPanUpdate_fields_def field_intros TouchPanUpdate_lens
      createBaseTouchPanUpdate_def)

lemma TouchPanEnd_codec: "codec P (TouchPanEnd_fields P) createBaseTouchPanEnd"
  by (rule codecI)
    (simp_all add: TouchPanEnd_fields_def field_intros TouchPanEnd_lens
      createBaseTouchPanEnd_def)

lemma TouchEvent_codec: "codec P (TouchEvent_fields P) createBaseTouchEvent"
  by (rule codecI)
    (simp_all add: TouchEvent_fields_def field_intros TouchEvent_lens
      msg_codec [OF TouchScaleUpdate_codec]
      msg_codec [OF TouchPanStart_codec]
      msg_codec [OF TouchPanUpdate_codec]
      msg_codec [OF TouchPanEnd_codec]
      createBaseTouchEvent_def)

lemma PointerDeviceEvent_codec: "codec P (PointerDeviceEvent_fields P) createBasePointerDeviceEvent"
  by (rule codecI)
    (simp_all add: PointerDeviceEvent_fields_def field_intros PointerDeviceEvent_lens
      msg_codec [OF TouchEvent_codec]
      createBasePointerDeviceEvent_def)

lemma MouseEvent_codec: "codec P (MouseEvent_fields P) createBaseMouseEvent"
  by (rule codecI)
    (simp_all add: MouseEvent_fields_def field_intros MouseEvent_lens
      createBaseMouseEvent_def)

lemma KeyEvent_codec: "codec P (KeyEvent_fields P) createBaseKeyEvent"
  by (rule codecI)
    (simp_all add: KeyEvent_fields_def field_intros KeyEvent_lens
      createBaseKeyEvent_def)

lemma CursorData_codec: "codec P (CursorData_fields P) createBaseCursorData"
  by (rule codecI)
    (simp_all add: CursorData_fields_def field_intros CursorData_lens
      createBaseCursorData_def)

lemma CursorPosition_codec: "codec P (CursorPosition_fields P) createBaseCursorPosition"
  by (rule codecI)
    (simp_all add: CursorPosition_fields_def field_intros CursorPosition_lens
      createBaseCursorPosition_def)

lemma Hash_codec: "codec P (Hash_fields P) createBaseHash"
  by (rule codecI)
    (simp_all add: Hash_fields_def field_intros Hash_lens
      createBaseHash_def)

lemma Clipboard_codec: "codec P (Clipboard_fields P) createBaseClipboard"
  by (rule codecI)
    (simp_all add: Clipboard_fields_def field_intros Clipboard_lens
      createBaseClipboard_def)

lemma MultiClipboards_codec: "codec P (MultiClipboards_fields P) createBaseMultiClipboards"
  by (rule codecI)
    (simp_all add: MultiClipboards_fields_def field_intros MultiClipboards_lens
      msg_codec [OF Clipboard_codec]
      createBaseMultiClipboards_def)

lemma FileEntry_codec: "codec P (FileEntry_fields P) createBaseFileEntry"
  by (rule codecI)
    (simp_all add: FileEntry_fields_def field_intros FileEntry_lens
      createBaseFileEntry_def)

lemma FileDirectory_codec: "codec P (FileDirectory_fields P) createBaseFileDirectory"
  by (rule codecI)
    (simp_all add: FileDirectory_fields_def field_intros FileDirectory_lens
      msg_codec [OF FileEntry_codec]
      createBaseFileDirectory_def)

lemma ReadDir_codec: "codec P (ReadDir_fields P) createBaseReadDir"
  by (rule codecI)
    (simp_all add: ReadDir_fields_def field_intros ReadDir_lens
      createBaseReadDir_def)

lemma ReadEmptyDirs_codec: "codec P (ReadEmptyDirs_fields P) createBaseReadEmptyDirs"
  by (rule codecI)
    (simp_all add: ReadEmptyDirs_fields_def field_intros ReadEmptyDirs_lens
      createBaseReadEmptyDirs_def)

lemma ReadEmptyDirsResponse_codec: "codec P (ReadEmptyDirsResponse_fields P) createBaseReadEmptyDirsResponse"
  by (rule codecI)
    (simp_all add: ReadEmptyDirsResponse_fields_def field_intros ReadEmptyDirsResponse_lens
      msg_codec [OF FileDirectory_codec]
      createBaseReadEmptyDirsResponse_def)

lemma ReadAllFiles_codec: "codec P (ReadAllFiles_fields P) createBaseReadAllFiles"
  by (rule codecI)
    (simp_all add: ReadAllFiles_fields_def field_intros ReadAllFiles_lens
      createBaseReadAllFiles_def)

lemma FileRename_codec: "codec P (FileRename_fields P) createBaseFileRename"
  by (rule codecI)
    (simp_all add: FileRename_fields_def field_intros FileRename_lens
      createBaseFileRename_def)

lemma FileTransferSendRequest_codec: "codec P (FileTransferSendRequest_fields P) createBaseFileTransferSendRequest"
  by (rule codecI)
    (simp_all add: FileTransferSendRequest_fields_def field_intros FileTransferSendRequest_lens
      createBaseFileTransferSendRequest_def)

lemma FileTransferReceiveRequest_codec: "codec P (FileTransferReceiveRequest_fields P) createBaseFileTransferReceiveRequest"
  by (rule codecI)
    (simp_all add: FileTransferReceiveRequest_fields_def field_intros FileTransferReceiveRequest_lens
      msg_codec [OF FileEntry_codec]
      createBaseFileTransferReceiveRequest_def)

lemma FileDirCreate_codec: "codec P (FileDirCreate_fields P) createBaseFileDirCreate"
  by (rule codecI)
    (simp_all add: FileDirCreate_fields_def field_intros FileDirCreate_lens
      createBaseFileDirCreate_def)

lemma FileRemoveDir_codec: "codec P (FileRemoveDir_fields P) createBaseFileRemoveDir"
  by (rule codecI)
    (simp_all add: FileRemoveDir_fields_def field_intros FileRemoveDir_lens
      createBaseFileRemoveDir_def)

lemma FileRemoveFile_codec: "codec P (FileRemoveFile_fields P) createBaseFileRemoveFile"
  by (rule codecI)
    (simp_all add: FileRemoveFile_fields_def field_intros FileRemoveFile_lens
      createBaseFileRemoveFile_def)

lemma FileTransferCancel_codec: "codec P (FileTransferCancel_fields P) createBaseFileTransferCancel"
  by (rule codecI)
    (simp_all add: FileTransferCancel_fields_def field_intros FileTransferCancel_lens
      createBaseFileTransferCancel_def)

lemma FileTransferSendConfirmRequest_codec: "codec P (FileTransferSendConfirmRequest_fields P) createBaseFileTransferSendConfirmRequest"
  by (rule codecI)
    (simp_all add: FileTransferSendConfirmRequest_fields_def field_intros FileTransferSendConfirmRequest_lens
      createBaseFileTransferSendConfirmRequest_def)

lemma FileAction_codec: "codec P (FileAction_fields P) createBaseFileAction"
  by (rule codecI)
    (simp_all add: FileAction_fields_def field_intros FileAction_lens
      msg_codec [OF ReadDir_codec]
      msg_codec [OF FileTransferSendRequest_codec]
      msg_codec [OF FileTransferReceiveRequest_codec]
      msg_codec [OF FileDirCreate_codec]
      msg_codec [OF FileRemoveDir_codec]
      msg_codec [OF FileRemoveFile_codec]
      msg_codec [OF ReadAllFiles_codec]
      msg_codec [OF FileTransferCancel_codec]
      msg_codec [OF FileTransferSendConfirmRequest_codec]
      msg_codec [OF FileRename_codec]
      msg_codec [OF ReadEmptyDirs_codec]
      createBaseFileAction_def)

lemma FileTransferBlock_codec: "codec P (FileTransferBlock_fields P) createBaseFileTransferBlock"
  by (rule codecI)
    (simp_all add: FileTransferBlock_fields_def field_intros FileTransferBlock_lens
      createBaseFileTransferBlock_def)

lemma FileTransferError_codec: "codec P (FileTransferError_fields P) createBaseFileTransferError"
  by (rule codecI)
    (simp_all add: FileTransferError_fields_def field_intros FileTransferError_lens
      createBaseFileTransferError_def)

lemma FileTransferDone_codec: "codec P (FileTransferDone_fields P) createBaseFileTransferDone"
  by (rule codecI)
    (simp_all add: FileTransferDone_fields_def field_intros FileTransferDone_lens
      createBaseFileTransferDone_def)

lemma FileTransferDigest_codec: "codec P (FileTransferDigest_fields P) createBaseFileTransferDigest"
  by (rule codecI)
    (simp_all add: FileTransferDigest_fields_def field_intros FileTransferDigest_lens
      createBaseFileTransferDigest_def)

lemma FileResponse_codec: "codec P (FileResponse_fields P) createBaseFileResponse"
  by (rule codecI)
    (simp_all add: FileResponse_fields_def field_intros FileResponse_lens
      msg_codec [OF FileDirectory_codec]
      msg_codec [OF FileTransferBlock_codec]
      msg_codec [OF FileTransferError_codec]
      msg_codec [OF FileTransferDone_codec]
      msg_codec [OF FileTransferDigest_codec]
      msg_codec [OF ReadEmptyDirsResponse_codec]
      createBaseFileResponse_def)

lemma CliprdrMonitorReady_codec: "codec P (CliprdrMonitorReady_fields P) CliprdrMonitorReady"
proof (rule codecI)
  show "chain (CliprdrMonitorReady_fields P) s CliprdrMonitorReady" for s
    by (cases s) (simp add: CliprdrMonitorReady_fields_def)
qed (simp_all add: CliprdrMonitorReady_fields_def)

lemma CliprdrFormat_codec: "codec P (CliprdrFormat_fields P) createBaseCliprdrFormat"
  by (rule codecI)
    (simp_all add: CliprdrFormat_fields_def field_intros CliprdrFormat_lens
      createBaseCliprdrFormat_def)

lemma CliprdrServerFormatList_codec: "codec P (CliprdrServerFormatList_fields P) createBaseCliprdrServerFormatList"
  by (rule codecI)
    (simp_all add: CliprdrServerFormatList_fields_def field_intros CliprdrServerFormatList_lens
      msg_codec [OF CliprdrFormat_codec]
      createBaseCliprdrServerFormatList_def)

lemma CliprdrServerFormatListResponse_codec: "codec P (CliprdrServerFormatListResponse_fields P) createBaseCliprdrServerFormatListResponse"
  by (rule codecI)
    (simp_all add: CliprdrServerFormatListResponse_fields_def field_intros CliprdrServerFormatListResponse_lens
      createBaseCliprdrServerFormatListResponse_def)

lemma CliprdrServerFormatDataRequest_codec: "codec P (CliprdrServerFormatDataRequest_fields P) createBaseCliprdrServerFormatDataRequest"
  by (rule codecI)
    (simp_all add: CliprdrServerFormatDataRequest_fields_def field_intros CliprdrServerFormatDataRequest_lens
      createBaseCliprdrServerFormatDataRequest_def)

lemma CliprdrServerFormatDataResponse_codec: "codec P (CliprdrServerFormatDataResponse_fields P) createBaseCliprdrServerFormatDataResponse"
  by (rule codecI)
    (simp_all add: CliprdrServerFormatDataResponse_fields_def field_intros CliprdrServerFormatDataResponse_lens
      createBaseCliprdrServerFormatDataResponse_def)

lemma CliprdrFileContentsRequest_codec: "codec P (CliprdrFileContentsRequest_fields P) createBaseCliprdrFileContentsRequest"
  by (rule codecI)
    (simp_all add: CliprdrFileContentsRequest_fields_def field_intros CliprdrFileContentsRequest_lens
      createBaseCliprdrFileContentsRequest_def)

lemma CliprdrFileContentsResponse_codec: "codec P (CliprdrFileContentsResponse_fields P) createBaseCliprdrFileContentsResponse"
  by (rule codecI)
    (simp_all add: CliprdrFileContentsResponse_fields_def field_intros CliprdrFileContentsResponse_lens
      createBaseCliprdrFileContentsResponse_def)

lemma CliprdrTryEmpty_codec: "codec P (CliprdrTryEmpty_fields P) CliprdrTryEmpty"
proof (rule codecI)
  show "chain (CliprdrTryEmpty_fields P) s CliprdrTryEmpty" for s
    by (cases s) (simp add: CliprdrTryEmpty_fields_def)
qed (simp_all add: CliprdrTryEmpty_fields_def)

lemma Cliprdr_codec: "codec P (Cliprdr_fields P) createBaseCliprdr"
  by (rule codecI)
    (simp_all add: Cliprdr_fields_def field_intros Cliprdr_lens
      msg_codec [OF CliprdrMonitorReady_codec]
      msg_codec [OF CliprdrServerFormatList_codec]
      msg_codec [OF CliprdrServerFormatListResponse_codec]
      msg_codec [OF CliprdrServerFormatDataRequest_codec]
      msg_codec [OF CliprdrServerFormatDataResponse_codec]
      msg_codec [OF CliprdrFileContentsRequest_codec]
      msg_codec [OF CliprdrFileContentsResponse_codec]
      msg_codec [OF CliprdrTryEmpty_codec]
      createBaseCliprdr_def)

lemma DisplayResolution_codec: "codec P (DisplayResolution_fields P) createBaseDisplayResolution"
  by (rule codecI)
    (simp_all add: DisplayResolution_fields_def field_intros DisplayResolution_lens
      msg_codec [OF Resolution_codec]
      createBaseDisplayResolution_def)

lemma SwitchDisplay_codec: "codec P (SwitchDisplay_fields P) createBaseSwitchDisplay"
  by (rule codecI)
    (simp_all add: SwitchDisplay_fields_def field_intros SwitchDisplay_lens
      msg_codec [OF SupportedResolutions_codec]
      msg_codec [OF Resolution_codec]
      createBaseSwitchDisplay_def)

lemma CaptureDisplays_codec: "codec P (CaptureDisplays_fields P) createBaseCaptureDisplays"
  by (rule codecI)
    (simp_all add: CaptureDisplays_fields_def field_intros CaptureDisplays_lens
      createBaseCaptureDisplays_def)

lemma ToggleVirtualDisplay_codec: "codec P (ToggleVirtualDisplay_fields P) createBaseToggleVirtualDisplay"
  by (rule codecI)
    (simp_all add: ToggleVirtualDisplay_fields_def field_intros ToggleVirtualDisplay_lens
      createBaseToggleVirtualDisplay_def)

lemma TogglePrivacyMode_codec: "codec P (TogglePrivacyMode_fields P) createBaseTogglePrivacyMode"
  by (rule codecI)
    (simp_all add: TogglePrivacyMode_fields_def field_intros TogglePrivacyMode_lens
      createBaseTogglePrivacyMode_def)

lemma PermissionInfo_codec: "codec P (PermissionInfo_fields P) createBasePermissionInfo"
  by (rule codecI)
    (simp_all add: PermissionInfo_fields_def field_intros PermissionInfo_lens
      createBasePermissionInfo_def)

lemma TestDelay_codec: "codec P (TestDelay_fields P) createBaseTestDelay"
  by (rule codecI)
    (simp_all add: TestDelay_fields_def field_intros TestDelay_lens
      createBaseTestDelay_def)

lemma PublicKey_codec: "codec P (PublicKey_fields P) createBasePublicKey"
  by (rule codecI)
    (simp_all add: PublicKey_fields_def field_intros PublicKey_lens
      createBasePublicKey_def)

lemma SignedId_codec: "codec P (SignedId_fields P) createBaseSignedId"
  by (rule codecI)
    (simp_all add: SignedId_fields_def field_intros SignedId_lens
      createBaseSignedId_def)

lemma AudioFormat_codec: "codec P (AudioFormat_fields P) createBaseAudioFormat"
  by (rule codecI)
    (simp_all add: AudioFormat_fields_def field_intros AudioFormat_lens
      createBaseAudioFormat_def)

lemma AudioFrame_codec: "codec P (AudioFrame_fields P) createBaseAudioFrame"
  by (rule codecI)
    (simp_all add: AudioFrame_fields_def field_intros AudioFrame_lens
      createBaseAudioFrame_def)

lemma MessageBox_codec: "codec P (MessageBox_fields P) createBaseMessageBox"
  by (rule codecI)
    (simp_all add: MessageBox_fields_def field_intros MessageBox_lens
      createBaseMessageBox_def)

lemma BackNotification_codec: "codec P (BackNotification_fields P) createBaseBackNotification"
  by (rule codecI)
    (simp_all add: BackNotification_fields_def field_intros BackNotification_lens
      createBaseBackNotification_def)

lemma ElevationRequestWithLogon_codec: "codec P (ElevationRequestWithLogon_fields P) createBaseElevationRequestWithLogon"
  by (rule codecI)
    (simp_all add: ElevationRequestWithLogon_fields_def field_intros ElevationRequestWithLogon_lens
      createBaseElevationRequestWithLogon_def)

lemma ElevationRequest_codec: "codec P (ElevationRequest_fields P) createBaseElevationRequest"
  by (rule codecI)
    (simp_all add: ElevationRequest_fields_def field_intros ElevationRequest_lens
      msg_codec [OF ElevationRequestWithLogon_codec]
      createBaseElevationRequest_def)

lemma SwitchSidesRequest_codec: "codec P (SwitchSidesRequest_fields P) createBaseSwitchSidesRequest"
  by (rule codecI)
    (simp_all add: SwitchSidesRequest_fields_def field_intros SwitchSidesRequest_lens
      createBaseSwitchSidesRequest_def)

lemma SwitchSidesResponse_codec: "codec P (SwitchSidesResponse_fields P) createBaseSwitchSidesResponse"
  by (rule codecI)
    (simp_all add: SwitchSidesResponse_fields_def field_intros SwitchSidesResponse_lens
      msg_codec [OF LoginRequest_codec]
      createBaseSwitchSidesResponse_def)

lemma SwitchBack_codec: "codec P (SwitchBack_fields P) SwitchBack"
proof (rule codecI)
  show "chain (SwitchBack_fields P) s SwitchBack" for s
    by (cases s) (simp add: SwitchBack_fields_def)
qed (simp_all add: SwitchBack_fields_def)

lemma PluginRequest_codec: "codec P (PluginRequest_fields P) createBasePluginRequest"
  by (rule codecI)
    (simp_all add: PluginRequest_fields_def field_intros PluginRequest_lens
      createBasePluginRequest_def)

lemma PluginFailure_codec: "codec P (PluginFailure_fields P) createBasePluginFailure"
  by (rule codecI)
    (simp_all add: PluginFailure_fields_def field_intros PluginFailure_lens
      createBasePluginFailure_def)

lemma MessageQuery_codec: "codec P (MessageQuery_fields P) createBaseMessageQuery"
  by (rule codecI)
    (simp_all add: MessageQuery_fields_def field_intros MessageQuery_lens
      createBaseMessageQuery_def)

lemma Misc_codec: "codec P (Misc_fields P) createBaseMisc"
  by (rule codecI)
    (simp_all add: Misc_fields_def field_intros Misc_lens
      msg_codec [OF ChatMessage_codec]
      msg_codec [OF SwitchDisplay_codec]
      msg_codec [OF PermissionInfo_codec]
      msg_codec [OF OptionMessage_codec]
      msg_codec [OF AudioFormat_codec]
      msg_codec [OF BackNotification_codec]
      msg_codec [OF ElevationRequest_codec]
      msg_codec [OF SwitchSidesRequest_codec]
      msg_codec [OF SwitchBack_codec]
      msg_codec [OF Resolution_codec]
      msg_codec [OF PluginRequest_codec]
      msg_codec [OF PluginFailure_codec]
      msg_codec [OF CaptureDisplays_codec]
      msg_codec [OF ToggleVirtualDisplay_codec]
      msg_codec [OF TogglePrivacyMode_codec]
      msg_codec [OF SupportedEncoding_codec]
      msg_codec [OF DisplayResolution_codec]
      msg_codec [OF MessageQuery_codec]
      createBaseMisc_def)

lemma VoiceCallRequest_codec: "codec P (VoiceCallRequest_fields P) createBaseVoiceCallRequest"
  by (rule codecI)
    (simp_all add: VoiceCallRequest_fields_def field_intros VoiceCallRequest_lens
      createBaseVoiceCallRequest_def)

lemma VoiceCallResponse_codec: "codec P (VoiceCallResponse_fields P) createBaseVoiceCallResponse"
  by (rule codecI)
    (simp_all add: VoiceCallResponse_fields_def field_intros VoiceCallResponse_lens
      createBaseVoiceCallResponse_def)

lemma Message_codec: "codec P (Message_fields P) createBaseMessage"
  by (rule codecI)
    (simp_all add: Message_fields_def field_intros Message_lens
      msg_codec [OF SignedId_codec]
      msg_codec [OF PublicKey_codec]
      msg_codec [OF TestDelay_codec]
      msg_codec [OF VideoFrame_codec]
      msg_codec [OF LoginRequest_codec]
      msg_codec [OF LoginResponse_codec]
      msg_codec [OF Hash_codec]
      msg_codec [OF MouseEvent_codec]
      msg_codec [OF AudioFrame_codec]
      msg_codec [OF CursorData_codec]
      msg_codec [OF CursorPosition_codec]
      msg_codec [OF KeyEvent_codec]
      msg_codec [OF Clipboard_codec]
      msg_codec [OF FileAction_codec]
      msg_codec [OF FileResponse_codec]
      msg_codec [OF Misc_codec]
      msg_codec [OF Cliprdr_codec]
      msg_codec [OF MessageBox_codec]
      msg_codec [OF SwitchSidesResponse_codec]
      msg_codec [OF VoiceCallRequest_codec]
      msg_codec [OF VoiceCallResponse_codec]
      msg_codec [OF PeerInfo_codec]
      msg_codec [OF PointerDeviceEvent_codec]
      msg_codec [OF Auth2FA_codec]
      msg_codec [OF MultiClipboards_codec]
      createBaseMessage_def)

lemma IdPk_decode_encode:
  "message_ok (IdPk_fields P) m \<Longrightarrow> IdPk_decode P (IdPk_encode P m) = Some m"
  by (simp add: IdPk_decode_def IdPk_encode_def message_whole [OF IdPk_codec])

lemma Message_decode_encode:
  "message_ok (Message_fields P) m \<Longrightarrow> Message_decode P (Message_encode P m) = Some m"
  by (simp add: Message_decode_def Message_encode_def message_whole [OF Message_codec])

end

end
