(* ===== verification/Rendezvous_Laws.thy ===== *)
theory Rendezvous_Laws
  imports Rendezvous_Codec Wire_Laws
begin

text \<open>
  Every message of \<open>flutter/js/src/proto/rendezvous.ts\<close> decodes to what was encoded.
\<close>

section \<open>Fields as lenses\<close>

lemma RegisterPeer_lens:
  "lens RegisterPeer_id RegisterPeer_id_update"
  "lens RegisterPeer_serial RegisterPeer_serial_update"
  by (simp_all add: lens_def RegisterPeer.equality)

lemma RegisterPeerResponse_lens:
  "lens RegisterPeerResponse_request_pk RegisterPeerResponse_request_pk_update"
  by (simp_all add: lens_def RegisterPeerResponse.equality)

lemma PunchHoleRequest_lens:
  "lens PunchHoleRequest_id PunchHoleRequest_id_update"
  "lens PunchHoleRequest_nat_type PunchHoleRequest_nat_type_update"
  "lens PunchHoleRequest_licence_key PunchHoleRequest_licence_key_update"
  "lens PunchHoleRequest_conn_type PunchHoleRequest_conn_type_update"
  "lens PunchHoleRequest_token PunchHoleRequest_token_update"
  "lens PunchHoleRequest_version PunchHoleRequest_version_update"
  by (simp_all add: lens_def PunchHoleRequest.equality)

lemma PunchHole_lens:
  "lens PunchHole_socket_addr PunchHole_socket_addr_update"
  "lens PunchHole_relay_server PunchHole_relay_server_update"
  "lens PunchHole_nat_type PunchHole_nat_type_update"
  by (simp_all add: lens_def PunchHole.equality)

lemma TestNatRequest_lens:
  "lens TestNatRequest_serial TestNatRequest_serial_update"
  by (simp_all add: lens_def TestNatRequest.equality)

lemma ConfigUpdate_lens:
  "lens ConfigUpdate_serial ConfigUpdate_serial_update"
  "lens ConfigUpdate_rendezvous_servers ConfigUpdate_rendezvous_servers_update"
  by (simp_all add: lens_def ConfigUpdate.equality)

lemma TestNatResponse_lens:
  "lens TestNatResponse_port TestNatResponse_port_update"
  "lens TestNatResponse_cu TestNatResponse_cu_update"
  by (simp_all add: lens_def TestNatResponse.equality)

lemma PunchHoleSent_lens:
  "lens PunchHoleSent_socket_addr PunchHoleSent_socket_addr_update"
  "lens PunchHoleSent_id PunchHoleSent_id_update"
  "lens PunchHoleSent_relay_server PunchHoleSent_relay_server_update"
  "lens PunchHoleSent_nat_type PunchHoleSent_nat_type_update"
  "lens PunchHoleSent_version PunchHoleSent_version_update"
  by (simp_all add: lens_def PunchHoleSent.equality)

lemma RegisterPk_lens:
  "lens RegisterPk_id RegisterPk_id_update"
  "lens RegisterPk_uuid RegisterPk_uuid_update"
  "lens RegisterPk_pk RegisterPk_pk_update"
  "lens RegisterPk_old_id RegisterPk_old_id_update"
  by (simp_all add: lens_def RegisterPk.equality)

lemma RegisterPkResponse_lens:
  "lens RegisterPkResponse_result RegisterPkResponse_result_update"
  "lens RegisterPkResponse_keep_alive RegisterPkResponse_keep_alive_update"
  by (simp_all add: lens_def RegisterPkResponse.equality)

lemma PunchHoleResponse_lens:
  "lens PunchHoleResponse_socket_addr PunchHoleResponse_socket_addr_update"
  "lens PunchHoleResponse_pk PunchHoleResponse_pk_update"
  "lens PunchHoleResponse_failure PunchHoleResponse_failure_update"
  "lens PunchHoleResponse_relay_server PunchHoleResponse_relay_server_update"
  "lens PunchHoleResponse_nat_type PunchHoleResponse_nat_type_update"
  "lens PunchHoleResponse_is_local PunchHoleResponse_is_local_update"
  "lens PunchHoleResponse_other_failure PunchHoleResponse_other_failure_update"
  "lens PunchHoleResponse_feedback PunchHoleResponse_feedback_update"
  by (simp_all add: lens_def PunchHoleResponse.equality)

lemma RequestRelay_lens:
  "lens RequestRelay_id RequestRelay_id_update"
  "lens RequestRelay_uuid RequestRelay_uuid_update"
  "lens RequestRelay_socket_addr RequestRelay_socket_addr_update"
  "lens RequestRelay_relay_server RequestRelay_relay_server_update"
  "lens RequestRelay_secure RequestRelay_secure_update"
  "lens RequestRelay_licence_key RequestRelay_licence_key_update"
  "lens RequestRelay_conn_type RequestRelay_conn_type_update"
  "lens RequestRelay_token RequestRelay_token_update"
  by (simp_all add: lens_def RequestRelay.equality)

lemma RelayResponse_lens:
  "lens RelayResponse_socket_addr RelayResponse_socket_addr_update"
  "lens RelayResponse_uuid RelayResponse_uuid_update"
  "lens RelayResponse_relay_server RelayResponse_relay_server_update"
  "lens RelayResponse_id RelayResponse_id_update"
  "lens RelayResponse_pk RelayResponse_pk_update"
  "lens RelayResponse_refuse_reason RelayResponse_refuse_reason_update"
  "lens RelayResponse_version RelayResponse_version_update"
  "lens RelayResponse_feedback RelayResponse_feedback_update"
  by (simp_all add: lens_def RelayResponse.equality)

lemma SoftwareUpdate_lens:
  "lens SoftwareUpdate_url SoftwareUpdate_url_update"
  by (simp_all add: lens_def SoftwareUpdate.equality)

lemma FetchLocalAddr_lens:
  "lens FetchLocalAddr_socket_addr FetchLocalAddr_socket_addr_update"
  "lens FetchLocalAddr_relay_server FetchLocalAddr_relay_server_update"
  by (simp_all add: lens_def FetchLocalAddr.equality)

lemma LocalAddr_lens:
  "lens LocalAddr_socket_addr LocalAddr_socket_addr_update"
  "lens LocalAddr_local_addr LocalAddr_local_addr_update"
  "lens LocalAddr_relay_server LocalAddr_relay_server_update"
  "lens LocalAddr_id LocalAddr_id_update"
  "lens LocalAddr_version LocalAddr_version_update"
  by (simp_all add: lens_def LocalAddr.equality)

lemma PeerDiscovery_lens:
  "lens PeerDiscovery_cmd PeerDiscovery_cmd_update"
  "lens PeerDiscovery_mac PeerDiscovery_mac_update"
  "lens PeerDiscovery_id PeerDiscovery_id_update"
  "lens PeerDiscovery_username PeerDiscovery_username_update"
  "lens PeerDiscovery_hostname PeerDiscovery_hostname_update"
  "lens PeerDiscovery_platform PeerDiscovery_platform_update"
  "lens PeerDiscovery_misc PeerDiscovery_misc_update"
  by (simp_all add: lens_def PeerDiscovery.equality)

lemma OnlineRequest_lens:
  "lens OnlineRequest_id OnlineRequest_id_update"
  "lens OnlineRequest_peers OnlineRequest_peers_update"
  by (simp_all add: lens_def OnlineRequest.equality)

lemma OnlineResponse_lens:
  "lens OnlineResponse_states OnlineResponse_states_update"
  by (simp_all add: lens_def OnlineResponse.equality)

lemma KeyExchange_lens:
  "lens KeyExchange_keys KeyExchange_keys_update"
  by (simp_all add: lens_def KeyExchange.equality)

lemma HealthCheck_lens:
  "lens HealthCheck_token HealthCheck_token_update"
  by (simp_all add: lens_def HealthCheck.equality)

lemma RendezvousMessage_lens:
  "lens RendezvousMessage_register_peer RendezvousMessage_register_peer_update"
  "lens RendezvousMessage_register_peer_response RendezvousMessage_register_peer_response_update"
  "lens RendezvousMessage_punch_hole_request RendezvousMessage_punch_hole_request_update"
  "lens RendezvousMessage_punch_hole RendezvousMessage_punch_hole_update"
  "lens RendezvousMessage_punch_hole_sent RendezvousMessage_punch_hole_sent_update"
  "lens RendezvousMessage_punch_hole_response RendezvousMessage_punch_hole_response_update"
  "lens RendezvousMessage_fetch_local_addr RendezvousMessage_fetch_local_addr_update"
  "lens RendezvousMessage_local_addr RendezvousMessage_local_addr_update"
  "lens RendezvousMessage_configure_update RendezvousMessage_configure_update_update"
  "lens RendezvousMessage_register_pk RendezvousMessage_register_pk_update"
  "lens RendezvousMessage_register_pk_response RendezvousMessage_register_pk_response_update"
  "lens RendezvousMessage_software_update RendezvousMessage_software_update_update"
  "lens RendezvousMessage_request_relay RendezvousMessage_request_relay_update"
  "lens RendezvousMessage_relay_response RendezvousMessage_relay_response_update"
  "lens RendezvousMessage_test_nat_request RendezvousMessage_test_nat_request_update"
  "lens RendezvousMessage_test_nat_response RendezvousMessage_test_nat_response_update"
  "lens RendezvousMessage_peer_discovery RendezvousMessage_peer_discovery_update"
  "lens RendezvousMessage_online_request RendezvousMessage_online_request_update"
  "lens RendezvousMessage_online_response RendezvousMessage_online_response_update"
  "lens RendezvousMessage_key_exchange RendezvousMessage_key_exchange_update"
  "lens RendezvousMessage_hc RendezvousMessage_hc_update"
  by (simp_all add: lens_def RendezvousMessage.equality)

section \<open>Field tables that round-trip\<close>

context pb_laws
begin

lemma RegisterPeer_codec: "codec P (RegisterPeer_fields P) createBaseRegisterPeer"
  by (rule codecI)
    (simp_all add: RegisterPeer_fields_def field_intros RegisterPeer_lens
      createBaseRegisterPeer_def)

lemma RegisterPeerResponse_codec: "codec P (RegisterPeerResponse_fields P) createBaseRegisterPeerResponse"
  by (rule codecI)
    (simp_all add: RegisterPeerResponse_fields_def field_intros RegisterPeerResponse_lens
      createBaseRegisterPeerResponse_def)

lemma PunchHoleRequest_codec: "codec P (PunchHoleRequest_fields P) createBasePunchHoleRequest"
  by (rule codecI)
    (simp_all add: PunchHoleRequest_fields_def field_intros PunchHoleRequest_lens
      createBasePunchHoleRequest_def)

lemma PunchHole_codec: "codec P (PunchHole_fields P) createBasePunchHole"
  by (rule codecI)
    (simp_all add: PunchHole_fields_def field_intros PunchHole_lens
      createBasePunchHole_def)

lemma TestNatRequest_codec: "codec P (TestNatRequest_fields P) createBaseTestNatRequest"
  by (rule codecI)
    (simp_all add: TestNatRequest_fields_def field_intros TestNatRequest_lens
      createBaseTestNatRequest_def)

lemma ConfigUpdate_codec: "codec P (ConfigUpdate_fields P) createBaseConfigUpdate"
  by (rule codecI)
    (simp_all add: ConfigUpdate_fields_def field_intros ConfigUpdate_lens
      createBaseConfigUpdate_def)

lemma TestNatResponse_codec: "codec P (TestNatResponse_fields P) createBaseTestNatResponse"
  by (rule codecI)
    (simp_all add: TestNatResponse_fields_def field_intros TestNatResponse_lens
      msg_codec [OF ConfigUpdate_codec]
      createBaseTestNatResponse_def)

lemma PunchHoleSent_codec: "codec P (PunchHoleSent_fields P) createBasePunchHoleSent"
  by (rule codecI)
    (simp_all add: PunchHoleSent_fields_def field_intros PunchHoleSent_lens
      createBasePunchHoleSent_def)

lemma RegisterPk_codec: "codec P (RegisterPk_fields P) createBaseRegisterPk"
  by (rule codecI)
    (simp_all add: RegisterPk_fields_def field_intros RegisterPk_lens
      createBaseRegisterPk_def)

lemma RegisterPkResponse_codec: "codec P (RegisterPkResponse_fields P) createBaseRegisterPkResponse"
  by (rule codecI)
    (simp_all add: RegisterPkResponse_fields_def field_intros RegisterPkResponse_lens
      createBaseRegisterPkResponse_def)

lemma PunchHoleResponse_codec: "codec P (PunchHoleResponse_fields P) createBasePunchHoleResponse"
  by (rule codecI)
    (simp_all add: PunchHoleResponse_fields_def field_intros PunchHoleResponse_lens
      createBasePunchHoleResponse_def)

lemma RequestRelay_codec: "codec P (RequestRelay_fields P) createBaseRequestRelay"
  by (rule codecI)
    (simp_all add: RequestRelay_fields_def field_intros RequestRelay_lens
      createBaseRequestRelay_def)

lemma RelayResponse_codec: "codec P (RelayResponse_fields P) createBaseRelayResponse"
  by (rule codecI)
    (simp_all add: RelayResponse_fields_def field_intros RelayResponse_lens
      createBaseRelayResponse_def)

lemma SoftwareUpdate_codec: "codec P (SoftwareUpdate_fields P) createBaseSoftwareUpdate"
  by (rule codecI)
    (simp_all add: SoftwareUpdate_fields_def field_intros SoftwareUpdate_lens
      createBaseSoftwareUpdate_def)

lemma FetchLocalAddr_codec: "codec P (FetchLocalAddr_fields P) createBaseFetchLocalAddr"
  by (rule codecI)
    (simp_all add: FetchLocalAddr_fields_def field_intros FetchLocalAddr_lens
      createBaseFetchLocalAddr_def)

lemma LocalAddr_codec: "codec P (LocalAddr_fields P) createBaseLocalAddr"
  by (rule codecI)
    (simp_all add: LocalAddr_fields_def field_intros LocalAddr_lens
      createBaseLocalAddr_def)

lemma PeerDiscovery_codec: "codec P (PeerDiscovery_fields P) createBasePeerDiscovery"
  by (rule codecI)
    (simp_all add: PeerDiscovery_fields_def field_intros PeerDiscovery_lens
      createBasePeerDiscovery_def)

lemma OnlineRequest_codec: "codec P (OnlineRequest_fields P) createBaseOnlineRequest"
  by (rule codecI)
    (simp_all add: OnlineRequest_fields_def field_intros OnlineRequest_lens
      createBaseOnlineRequest_def)

lemma OnlineResponse_codec: "codec P (OnlineResponse_fields P) createBaseOnlineResponse"
  by (rule codecI)
    (simp_all add: OnlineResponse_fields_def field_intros OnlineResponse_lens
      createBaseOnlineResponse_def)

lemma KeyExchange_codec: "codec P (KeyExchange_fields P) createBaseKeyExchange"
  by (rule codecI)
    (simp_all add: KeyExchange_fields_def field_intros KeyExchange_lens
      createBaseKeyExchange_def)

lemma HealthCheck_codec: "codec P (HealthCheck_fields P) createBaseHealthCheck"
  by (rule codecI)
    (simp_all add: HealthCheck_fields_def field_intros HealthCheck_lens
      createBaseHealthCheck_def)

lemma RendezvousMessage_codec: "codec P (RendezvousMessage_fields P) createBaseRendezvousMessage"
  by (rule codecI)
    (simp_all add: RendezvousMessage_fields_def field_intros RendezvousMessage_lens
      msg_codec [OF RegisterPeer_codec]
      msg_codec [OF RegisterPeerResponse_codec]
      msg_codec [OF PunchHoleRequest_codec]
      msg_codec [OF PunchHole_codec]
      msg_codec [OF PunchHoleSent_codec]
      msg_codec [OF PunchHoleResponse_codec]
      msg_codec [OF FetchLocalAddr_codec]
      msg_codec [OF LocalAddr_codec]
      msg_codec [OF ConfigUpdate_codec]
      msg_codec [OF RegisterPk_codec]
      msg_codec [OF RegisterPkResponse_codec]
      msg_codec [OF SoftwareUpdate_codec]
      msg_codec [OF RequestRelay_codec]
      msg_codec [OF RelayResponse_codec]
      msg_codec [OF TestNatRequest_codec]
      msg_codec [OF TestNatResponse_codec]
      msg_codec [OF PeerDiscovery_codec]
      msg_codec [OF OnlineRequest_codec]
      msg_codec [OF OnlineResponse_codec]
      msg_codec [OF KeyExchange_codec]
      msg_codec [OF HealthCheck_codec]
      createBaseRendezvousMessage_def)

lemma RendezvousMessage_decode_encode:
  "message_ok (RendezvousMessage_fields P) m \<Longrightarrow> RendezvousMessage_decode P (RendezvousMessage_encode P m) = Some m"
  by (simp add: RendezvousMessage_decode_def RendezvousMessage_encode_def message_whole [OF RendezvousMessage_codec])

end

end
