(* ===== verification/Websock.thy ===== *)
theory Websock
  imports Environment Message_Laws Rendezvous_Laws
begin

text \<open>
  \<open>flutter/js/src/connections/websock.ts\<close>: one WebSocket with its receive buffer, its
  connection status and the optional symmetric key with a send and a receive counter.  The
  browser's socket is represented by its ready state and the frames handed to \<open>send\<close>;
  promises are values that settle once; timers and socket callbacks are operations that the
  browser may invoke at any time.
\<close>

section \<open>State\<close>

datatype ingress_action = Queue | Consume

datatype in_message = PeerMsg Message | RdvMsg RendezvousMessage

datatype ready_state = Connecting | Open | Closing | Closed

text \<open>\<open>_status\<close>: the empty string, \<open>"open"\<close>, or the event a callback stored.\<close>

datatype ws_status = StEmpty | StOpen | StEvent unknown

record websock =
  ws_uri :: string
  ws_status :: ws_status
  ws_buf :: "in_message list"
  ws_secretKey :: "(bytes \<times> int \<times> int) option"
  ws_isRendezvous :: bool
  ws_ingressHandler :: bool
  ws_ready :: ready_state
  ws_onmessage :: bool
  ws_opened :: promise
  ws_sent :: "bytes list"

definition newWebsock :: "string \<Rightarrow> bool \<Rightarrow> websock" where
  "newWebsock uri isRendezvous =
     \<lparr>ws_uri = uri, ws_status = StEmpty, ws_buf = [], ws_secretKey = None,
      ws_isRendezvous = isRendezvous, ws_ingressHandler = False, ws_ready = Connecting,
      ws_onmessage = True, ws_opened = Pending, ws_sent = []\<rparr>"

definition setSecretKey :: "bytes \<Rightarrow> websock \<Rightarrow> websock" where
  "setSecretKey key ws = ws\<lparr>ws_secretKey := Some (key, 0, 0)\<rparr>"

section \<open>Sending\<close>

text \<open>
  \<open>WebSocket.send\<close>: frames are dropped once the socket is closing or closed.  Every send of
  the program follows a resolved \<open>open()\<close>, so the exception of a connecting socket cannot occur.
\<close>

definition socket_send :: "bytes \<Rightarrow> websock \<Rightarrow> websock" where
  "socket_send data ws = (if ws_ready ws = Open then ws\<lparr>ws_sent := ws_sent ws @ [data]\<rparr> else ws)"

definition ws_sendMessage :: "env \<Rightarrow> Message \<Rightarrow> websock \<Rightarrow> websock" where
  "ws_sendMessage E json ws =
     (let data = Message_encode (env_pb E) json
      in case ws_secretKey ws of
           None \<Rightarrow> socket_send data ws
         | Some (key, n1, n2) \<Rightarrow>
             socket_send (encrypt (secretbox_easy E) data (n1 + 1) key)
               (ws\<lparr>ws_secretKey := Some (key, n1 + 1, n2)\<rparr>))"

definition ws_sendRendezvous :: "env \<Rightarrow> RendezvousMessage \<Rightarrow> websock \<Rightarrow> websock" where
  "ws_sendRendezvous E data ws = socket_send (RendezvousMessage_encode (env_pb E) data) ws"

definition setIngressHandler :: "bool \<Rightarrow> websock \<Rightarrow> websock" where
  "setIngressHandler handler ws = ws\<lparr>ws_ingressHandler := handler\<rparr>"

section \<open>Opening\<close>

text \<open>The status as the reason of a rejection; the empty string is falsy.\<close>

fun status_reason :: "ws_status \<Rightarrow> unknown" where
  "status_reason StEmpty = UString ''''"
| "status_reason StOpen = UString ''open''"
| "status_reason (StEvent e) = e"

definition open_timeout :: "websock \<Rightarrow> websock" where
  "open_timeout ws =
     (if ws_status ws \<noteq> StOpen
      then ws\<lparr>ws_opened := settle (ws_opened ws)
                (Rejected (if ws_status ws = StEmpty then UString ''Timeout''
                           else status_reason (ws_status ws)))\<rparr>
      else ws)"

definition on_open :: "websock \<Rightarrow> websock" where
  "on_open ws = ws\<lparr>ws_status := StOpen, ws_ready := Open, ws_opened := settle (ws_opened ws) Resolved\<rparr>"

definition on_close :: "unknown \<Rightarrow> websock \<Rightarrow> websock" where
  "on_close e ws =
     ws\<lparr>ws_status := StEvent e, ws_ready := Closed,
        ws_opened := settle (ws_opened ws) (Rejected (UString ''Reset by the peer''))\<rparr>"

definition on_error :: "unknown \<Rightarrow> websock \<Rightarrow> websock" where
  "on_error e ws =
     (if ws_status ws = StEmpty
      then ws\<lparr>ws_opened := settle (ws_opened ws)
                (Rejected (UString (''Failed to connect to ''
                   @ (if ws_isRendezvous ws then ''rendezvous'' else ''relay'') @ '' server'')))\<rparr>
      else ws\<lparr>ws_status := StEvent e\<rparr>)"

section \<open>Receiving\<close>

text \<open>
  \<open>_recv_message\<close> with a binary frame.  The handler of the connection that owns the socket
  is \<open>handler\<close>: it may send through the socket and decides whether the message is queued.
  An exception of \<open>decrypt\<close> or of the decoder leaves the frame unbuffered, with the receive
  counter already advanced.
\<close>

definition ws_decode :: "env \<Rightarrow> websock \<Rightarrow> bytes \<Rightarrow> bytes option \<times> websock" where
  "ws_decode E ws data =
     (case ws_secretKey ws of
        None \<Rightarrow> (Some data, ws)
      | Some (key, n1, n2) \<Rightarrow>
          (decrypt (secretbox_open_easy E) data (n2 + 1) key,
           ws\<lparr>ws_secretKey := Some (key, n1, n2 + 1)\<rparr>))"

definition recv_message ::
    "env \<Rightarrow> (Message \<Rightarrow> websock \<Rightarrow> ingress_action \<times> websock) \<Rightarrow> bytes \<Rightarrow> websock \<Rightarrow> websock" where
  "recv_message E handler data ws =
     (if \<not> ws_onmessage ws then ws
      else (let (plaintext, ws1) = ws_decode E ws data
            in case plaintext of
                 None \<Rightarrow> ws1
               | Some bs \<Rightarrow>
                   (if ws_isRendezvous ws1 then
                      (case RendezvousMessage_decode (env_pb E) bs of
                         None \<Rightarrow> ws1
                       | Some m \<Rightarrow> ws1\<lparr>ws_buf := ws_buf ws1 @ [RdvMsg m]\<rparr>)
                    else
                      (case Message_decode (env_pb E) bs of
                         None \<Rightarrow> ws1
                       | Some m \<Rightarrow>
                           (let (action, ws2) =
                                  (if ws_ingressHandler ws1 then handler m ws1 else (Queue, ws1))
                            in case action of
                                 Consume \<Rightarrow> ws2
                               | Queue \<Rightarrow> ws2\<lparr>ws_buf := ws_buf ws2 @ [PeerMsg m]\<rparr>)))))"

text \<open>One poll of \<open>next\<close>: the buffer first, then the status, then the timeout.\<close>

datatype next_result = NextMsg in_message | NextReject unknown | NextWait

definition ws_next :: "int \<Rightarrow> int \<Rightarrow> int \<Rightarrow> websock \<Rightarrow> next_result \<times> websock" where
  "ws_next timeout tm0 now ws =
     (case ws_buf ws of
        m # rest \<Rightarrow> (NextMsg m, ws\<lparr>ws_buf := rest\<rparr>)
      | [] \<Rightarrow>
          (if ws_status ws \<noteq> StOpen then (NextReject (status_reason (ws_status ws)), ws)
           else if timeout > 0 \<and> now > tm0 + timeout then (NextReject (UString ''Timeout''), ws)
           else (NextWait, ws)))"

section \<open>Closing\<close>

definition ws_close :: "websock \<Rightarrow> websock" where
  "ws_close ws =
     ws\<lparr>ws_ingressHandler := False, ws_status := StEmpty,
        ws_ready := (if ws_ready ws = Open \<or> ws_ready ws = Connecting then Closing else ws_ready ws),
        ws_onmessage := False\<rparr>"

lemmas websock_defs = newWebsock_def setSecretKey_def socket_send_def ws_sendRendezvous_def
  setIngressHandler_def open_timeout_def on_open_def on_close_def on_error_def ws_close_def

section \<open>The life of a socket\<close>

text \<open>
  What may happen to a socket between two looks at it: the browser's callbacks, a frame
  from the peer, and the operations of the connection that owns it.  The ingress handler of
  a connection answers some messages and decides whether to queue them.
\<close>

definition replying ::
    "env \<Rightarrow> (Message \<Rightarrow> ingress_action) \<Rightarrow> (Message \<Rightarrow> Message list) \<Rightarrow> Message \<Rightarrow> websock
       \<Rightarrow> ingress_action \<times> websock" where
  "replying E act reply m ws = (act m, fold (ws_sendMessage E) (reply m) ws)"

inductive ws_step :: "env \<Rightarrow> websock \<Rightarrow> websock \<Rightarrow> bool" for E where
  step_open: "ws_ready ws = Connecting \<Longrightarrow> ws_step E ws (on_open ws)"
| step_timeout: "ws_step E ws (open_timeout ws)"
| step_close: "ws_step E ws (on_close e ws)"
| step_error: "ws_step E ws (on_error e ws)"
| step_recv: "ws_step E ws (recv_message E (replying E act reply) data ws)"
| step_send: "ws_step E ws (ws_sendMessage E m ws)"
| step_handler: "ws_step E ws (setIngressHandler b ws)"
| step_next: "ws_step E ws (snd (ws_next timeout tm0 now ws))"
| step_ws_close: "ws_step E ws (ws_close ws)"

inductive_cases ws_stepE: "ws_step E ws ws'"

abbreviation ws_run :: "env \<Rightarrow> websock \<Rightarrow> websock \<Rightarrow> bool" where
  "ws_run E \<equiv> (ws_step E)\<^sup>*\<^sup>*"

section \<open>What sending and receiving leave alone\<close>

lemma socket_send_simps [simp]:
  "ws_secretKey (socket_send d ws) = ws_secretKey ws"
  "ws_opened (socket_send d ws) = ws_opened ws"
  "ws_ready (socket_send d ws) = ws_ready ws"
  "ws_buf (socket_send d ws) = ws_buf ws"
  "ws_status (socket_send d ws) = ws_status ws"
  by (simp_all add: socket_send_def)

lemma ws_sendMessage_simps [simp]:
  "ws_opened (ws_sendMessage E m ws) = ws_opened ws"
  "ws_ready (ws_sendMessage E m ws) = ws_ready ws"
  "ws_buf (ws_sendMessage E m ws) = ws_buf ws"
  "ws_status (ws_sendMessage E m ws) = ws_status ws"
  by (simp_all add: ws_sendMessage_def Let_def split: option.split)

lemma fold_send_simps [simp]:
  "ws_opened (fold (ws_sendMessage E) ms ws) = ws_opened ws"
  "ws_ready (fold (ws_sendMessage E) ms ws) = ws_ready ws"
  "ws_buf (fold (ws_sendMessage E) ms ws) = ws_buf ws"
  "ws_status (fold (ws_sendMessage E) ms ws) = ws_status ws"
  by (induction ms arbitrary: ws) simp_all

lemma ws_decode_simps:
  "ws_decode E ws data = (r, ws1) \<Longrightarrow> ws_opened ws1 = ws_opened ws"
  "ws_decode E ws data = (r, ws1) \<Longrightarrow> ws_sent ws1 = ws_sent ws"
  by (auto simp: ws_decode_def split: option.splits)

text \<open>
  A received frame changes the socket only through the decryption counter, the replies of the
  handler and one message at the end of the buffer.
\<close>

lemma recv_message_form:
  "\<exists>ms. ws_opened (recv_message E (replying E act reply) data ws) = ws_opened ws
      \<and> ws_secretKey (recv_message E (replying E act reply) data ws)
          = ws_secretKey (fold (ws_sendMessage E) ms (if ws_onmessage ws then snd (ws_decode E ws data) else ws))
      \<and> ws_sent (recv_message E (replying E act reply) data ws)
          = ws_sent (fold (ws_sendMessage E) ms (if ws_onmessage ws then snd (ws_decode E ws data) else ws))"
proof (cases "ws_onmessage ws")
  case False
  then show ?thesis by (intro exI [of _ "[]"]) (simp add: recv_message_def)
next
  case on: True
  obtain r ws1 where d: "ws_decode E ws data = (r, ws1)" by fastforce
  have o: "ws_opened ws1 = ws_opened ws" using ws_decode_simps(1) [OF d] .
  show ?thesis
  proof (cases "\<exists>bs m. r = Some bs \<and> \<not> ws_isRendezvous ws1 \<and> Message_decode (env_pb E) bs = Some m
                  \<and> ws_ingressHandler ws1")
    case True
    then obtain bs m where "r = Some bs" "\<not> ws_isRendezvous ws1" "ws_ingressHandler ws1"
      "Message_decode (env_pb E) bs = Some m" by blast
    with on d o show ?thesis
      by (intro exI [of _ "reply m"])
         (simp add: recv_message_def replying_def split: ingress_action.split)
  next
    case False
    with on d o show ?thesis
      by (intro exI [of _ "[]"]) (auto simp: recv_message_def split: option.split ingress_action.split)
  qed
qed

section \<open>The promise of open settles once\<close>

lemma ws_step_opened: "ws_step E ws ws' \<Longrightarrow> ws_opened ws \<noteq> Pending \<Longrightarrow> ws_opened ws' = ws_opened ws"
proof (induction rule: ws_step.induct)
  case (step_recv ws act reply data)
  then show ?case using recv_message_form by metis
next
  case (step_next ws timeout tm0 now)
  then show ?case by (simp add: ws_next_def split: list.split)
qed (simp_all add: websock_defs)

text \<open>
  The promise returned by \<open>open\<close> is settled at most once: whatever the browser and the
  owner do afterwards, a resolved connection attempt stays resolved and a rejected one stays
  rejected with its first reason.
\<close>

theorem open_settles_once:
  assumes "ws_run E ws ws'" and "ws_opened ws \<noteq> Pending"
  shows "ws_opened ws' = ws_opened ws"
  using assms by (induction rule: rtranclp_induct) (auto dest: ws_step_opened)

theorem open_settles_once_witness:
  "ws_opened (on_close UNull (on_open (newWebsock ''wss://h/ws/id'' True))) = Resolved"
proof -
  let ?w = "on_open (newWebsock ''wss://h/ws/id'' True)"
  have "ws_run undefined ?w (on_close UNull ?w)"
    by (rule r_into_rtranclp) (rule step_close)
  moreover have "ws_opened ?w = Resolved" by (simp add: websock_defs settle_def)
  ultimately show ?thesis using open_settles_once [of undefined ?w "on_close UNull ?w"] by simp
qed

section \<open>Nonces\<close>

text \<open>
  The frames a keyed socket has sent since some moment: each is the encryption of a message
  under the key and the nonce of a number, the numbers increase, and none is beyond the
  send counter.
\<close>

definition sealed :: "env \<Rightarrow> bytes \<Rightarrow> int \<times> Message \<Rightarrow> bytes" where
  "sealed E key p = encrypt (secretbox_easy E) (Message_encode (env_pb E) (snd p)) (fst p) key"

definition sealed_since :: "env \<Rightarrow> bytes \<Rightarrow> bytes list \<Rightarrow> int \<Rightarrow> (int \<times> Message) list \<Rightarrow> websock \<Rightarrow> bool" where
  "sealed_since E key sent0 n0 ps ws \<longleftrightarrow>
     ws_sent ws = sent0 @ map (sealed E key) ps
     \<and> sorted_wrt (<) (map fst ps)
     \<and> (\<exists>n1 n2. ws_secretKey ws = Some (key, n1, n2) \<and> n0 \<le> n1 \<and> (\<forall>p \<in> set ps. n0 < fst p \<and> fst p \<le> n1))"

lemma sealed_since_cong:
  "sealed_since E key sent0 n0 ps ws \<Longrightarrow> ws_sent ws' = ws_sent ws \<Longrightarrow> ws_secretKey ws' = ws_secretKey ws
     \<Longrightarrow> sealed_since E key sent0 n0 ps ws'"
  by (simp add: sealed_since_def)

lemma sealed_since_send:
  assumes "sealed_since E key sent0 n0 ps ws"
  shows "\<exists>ps'. sealed_since E key sent0 n0 ps' (ws_sendMessage E m ws)"
proof -
  obtain n1 n2 where k: "ws_secretKey ws = Some (key, n1, n2)" "n0 \<le> n1"
    and b: "\<forall>p \<in> set ps. n0 < fst p \<and> fst p \<le> n1"
    using assms by (auto simp: sealed_since_def)
  show ?thesis
  proof (cases "ws_ready ws = Open")
    case True
    have "sealed_since E key sent0 n0 (ps @ [(n1 + 1, m)]) (ws_sendMessage E m ws)"
      using assms k b True
      by (auto simp: sealed_since_def ws_sendMessage_def socket_send_def sealed_def Let_def
          sorted_wrt_append)
    then show ?thesis by blast
  next
    case False
    have "sealed_since E key sent0 n0 ps (ws_sendMessage E m ws)"
      using assms k b False
      by (auto simp: sealed_since_def ws_sendMessage_def socket_send_def Let_def)
    then show ?thesis by blast
  qed
qed

lemma sealed_since_fold:
  "sealed_since E key sent0 n0 ps ws \<Longrightarrow>
     \<exists>ps'. sealed_since E key sent0 n0 ps' (fold (ws_sendMessage E) ms ws)"
proof (induction ms arbitrary: ps ws)
  case (Cons m ms)
  obtain ps1 where "sealed_since E key sent0 n0 ps1 (ws_sendMessage E m ws)"
    using sealed_since_send [OF Cons.prems] by blast
  from Cons.IH [OF this] show ?case by simp
qed auto

lemma sealed_since_decode:
  "sealed_since E key sent0 n0 ps ws \<Longrightarrow> sealed_since E key sent0 n0 ps (snd (ws_decode E ws data))"
  by (auto simp: sealed_since_def ws_decode_def)

lemma sealed_since_step:
  assumes "ws_step E ws ws'" and "\<exists>ps. sealed_since E key sent0 n0 ps ws"
  shows "\<exists>ps. sealed_since E key sent0 n0 ps ws'"
  using assms
proof (induction rule: ws_step.induct)
  case (step_recv ws act reply data)
  then obtain ps where "sealed_since E key sent0 n0 ps
      (if ws_onmessage ws then snd (ws_decode E ws data) else ws)"
    using sealed_since_decode by (cases "ws_onmessage ws") force+
  with recv_message_form [of E act reply data ws] show ?case
    by (metis sealed_since_fold sealed_since_cong)
next
  case (step_send ws m)
  then show ?case using sealed_since_send by blast
next
  case (step_next ws timeout tm0 now)
  have "ws_sent (snd (ws_next timeout tm0 now ws)) = ws_sent ws"
    "ws_secretKey (snd (ws_next timeout tm0 now ws)) = ws_secretKey ws"
    by (simp_all add: ws_next_def split: list.split)
  with step_next show ?case using sealed_since_cong by blast
qed (auto simp: websock_defs sealed_since_def)

lemma sorted_nonces_distinct:
  assumes "sorted_wrt (<) ns" and "\<forall>n \<in> set ns. 0 \<le> n \<and> n < 256 ^ 24"
  shows "distinct (map makeOnce ns)"
  using assms by (auto simp: distinct_map strict_sorted_iff inj_on_def makeOnce_inject)

text \<open>
  C2: however the callbacks, the received frames and the sends interleave, a socket that has
  been given a key never encrypts two messages under the same nonce: every frame it sends
  from then on is a message encrypted under that key, and the 24-byte nonces of the frames
  are pairwise different (as long as the send counter is below \<open>2^53\<close>, where JavaScript
  numbers count exactly).
\<close>

theorem nonces_never_repeat:
  assumes "ws_run E (setSecretKey key ws) ws'"
    and "\<And>n1 n2. ws_secretKey ws' = Some (key, n1, n2) \<Longrightarrow> n1 < 2 ^ 53"
  shows "\<exists>ps. ws_sent ws' = ws_sent ws @ map (sealed E key) ps
    \<and> distinct (map makeOnce (map fst ps))"
proof -
  have "sealed_since E key (ws_sent ws) 0 [] (setSecretKey key ws)"
    by (simp add: sealed_since_def setSecretKey_def)
  then have "\<exists>ps. sealed_since E key (ws_sent ws) 0 ps (setSecretKey key ws)" by blast
  with assms(1) have "\<exists>ps. sealed_since E key (ws_sent ws) 0 ps ws'"
    by (induction rule: rtranclp_induct) (auto dest: sealed_since_step)
  then obtain ps n1 n2 where ps: "ws_sent ws' = ws_sent ws @ map (sealed E key) ps"
    "sorted_wrt (<) (map fst ps)" "ws_secretKey ws' = Some (key, n1, n2)"
    "\<forall>p \<in> set ps. 0 < fst p \<and> fst p \<le> n1"
    by (auto simp: sealed_since_def)
  then have "\<forall>n \<in> set (map fst ps). 0 \<le> n \<and> n < 256 ^ 24"
    using assms(2) [OF ps(3)] by fastforce
  with ps show ?thesis using sorted_nonces_distinct by blast
qed

theorem nonces_never_repeat_witness:
  "\<exists>ps. ws_sent (ws_sendMessage plain_env createBaseMessage
            (setSecretKey [1] (on_open (newWebsock ''wss://h/ws/relay'' False))))
          = map (sealed plain_env [1]) ps
        \<and> distinct (map makeOnce (map fst ps))"
proof -
  let ?w = "on_open (newWebsock ''wss://h/ws/relay'' False)"
  let ?w' = "ws_sendMessage plain_env createBaseMessage (setSecretKey [1] ?w)"
  have "ws_run plain_env (setSecretKey [1] ?w) ?w'"
    by (rule r_into_rtranclp) (rule step_send)
  moreover have "ws_secretKey ?w' = Some ([1], n1, n2) \<Longrightarrow> n1 < 2 ^ 53" for n1 n2
    by (auto simp: websock_defs ws_sendMessage_def Let_def)
  ultimately have "\<exists>ps. ws_sent ?w' = ws_sent ?w @ map (sealed plain_env [1]) ps
      \<and> distinct (map makeOnce (map fst ps))"
    by (rule nonces_never_repeat)
  then show ?thesis by (simp add: websock_defs)
qed

section \<open>The channel between two sockets\<close>

lemma send_all:
  assumes "ws_secretKey a = Some (key, n, n')" and "ws_ready a = Open"
  shows "ws_sent (fold (ws_sendMessage E) ms a)
      = ws_sent a @ map (\<lambda>i. sealed E key (n + 1 + int i, ms ! i)) [0..<length ms]"
  using assms
proof (induction ms arbitrary: a n)
  case (Cons m ms)
  let ?a = "ws_sendMessage E m a"
  have a: "ws_secretKey ?a = Some (key, n + 1, n')" "ws_ready ?a = Open"
    "ws_sent ?a = ws_sent a @ [sealed E key (n + 1, m)]"
    using Cons.prems by (simp_all add: ws_sendMessage_def socket_send_def sealed_def Let_def)
  have "map (\<lambda>i. sealed E key (n + 1 + int i, (m # ms) ! i)) [0..<length (m # ms)]
      = sealed E key (n + 1, m) # map (\<lambda>i. sealed E key (n + 1 + 1 + int i, ms ! i)) [0..<length ms]"
    by (simp add: upt_conv_Cons map_Suc_upt [symmetric] algebra_simps del: upt_Suc)
  with Cons.IH [OF a(1,2)] a(3) show ?case by simp
qed simp

definition listening :: "websock \<Rightarrow> bool" where
  "listening ws \<longleftrightarrow> ws_onmessage ws \<and> \<not> ws_isRendezvous ws \<and> \<not> ws_ingressHandler ws"

lemma recv_sealed:
  assumes "pb_laws (env_pb E)" "secretbox_laws E" "message_ok (Message_fields (env_pb E)) m"
    and "listening b" "ws_secretKey b = Some (key, n', n)"
  shows "recv_message E h (sealed E key (n + 1, m)) b
      = b\<lparr>ws_secretKey := Some (key, n', n + 1), ws_buf := ws_buf b @ [PeerMsg m]\<rparr>"
  using assms pb_laws.Message_decode_encode [OF assms(1,3)]
  by (simp add: recv_message_def ws_decode_def listening_def sealed_def encrypt_def decrypt_def
      secretbox_laws_def)

lemma recv_all:
  assumes "pb_laws (env_pb E)" "secretbox_laws E"
    and "list_all (message_ok (Message_fields (env_pb E))) ms"
    and "listening b" "ws_secretKey b = Some (key, n', n)"
  shows "fold (recv_message E h) (map (\<lambda>i. sealed E key (n + 1 + int i, ms ! i)) [0..<length ms]) b
      = b\<lparr>ws_secretKey := Some (key, n', n + int (length ms)), ws_buf := ws_buf b @ map PeerMsg ms\<rparr>"
  using assms(3-)
proof (induction ms arbitrary: b n)
  case (Cons m ms)
  let ?b = "b\<lparr>ws_secretKey := Some (key, n', n + 1), ws_buf := ws_buf b @ [PeerMsg m]\<rparr>"
  have "recv_message E h (sealed E key (n + 1, m)) b = ?b"
    using Cons.prems by (intro recv_sealed [OF assms(1,2)]) auto
  moreover have "map (\<lambda>i. sealed E key (n + 1 + int i, (m # ms) ! i)) [0..<length (m # ms)]
      = sealed E key (n + 1, m) # map (\<lambda>i. sealed E key (n + 1 + 1 + int i, ms ! i)) [0..<length ms]"
    by (simp add: upt_conv_Cons map_Suc_upt [symmetric] algebra_simps del: upt_Suc)
  moreover have "fold (recv_message E h)
        (map (\<lambda>i. sealed E key (n + 1 + 1 + int i, ms ! i)) [0..<length ms]) ?b
      = ?b\<lparr>ws_secretKey := Some (key, n', n + 1 + int (length ms)), ws_buf := ws_buf ?b @ map PeerMsg ms\<rparr>"
    using Cons.prems by (intro Cons.IH) (auto simp: listening_def)
  ultimately show ?case by (simp add: algebra_simps)
qed simp

text \<open>Polling \<open>next\<close> as often as there are buffered messages hands them out in order.\<close>

fun nexts :: "nat \<Rightarrow> int \<Rightarrow> int \<Rightarrow> int \<Rightarrow> websock \<Rightarrow> next_result list \<times> websock" where
  "nexts 0 timeout tm0 now ws = ([], ws)"
| "nexts (Suc k) timeout tm0 now ws =
     (let (r, ws1) = ws_next timeout tm0 now ws; (rs, ws2) = nexts k timeout tm0 now ws1
      in (r # rs, ws2))"

lemma nexts_buffer:
  "ws_buf ws = ms \<Longrightarrow> nexts (length ms + k) timeout tm0 now ws
     = (let (rs, ws') = nexts k timeout tm0 now (ws\<lparr>ws_buf := []\<rparr>) in (map NextMsg ms @ rs, ws'))"
proof (induction ms arbitrary: ws)
  case Nil
  then have "ws\<lparr>ws_buf := []\<rparr> = ws" by simp
  then show ?case by (simp only: list.size add_0 list.map append_Nil Let_def) simp
qed (simp add: ws_next_def split: prod.split)



end
