(* ===== verification/Config_Helper.thy ===== *)
theory Config_Helper
  imports Prelude
begin

text \<open>
  \<open>flutter/js/src/helpers/config.ts\<close>: the INI text embedded in the page, the settings it
  writes to \<open>localStorage\<close>, and the lookup of an effective option.  A dictionary of
  sections is an insertion-ordered map of insertion-ordered maps; \<open>localStorage\<close> is a map
  from strings to strings.
\<close>

type_synonym ini = "(string, (string, string) jsmap) jsmap"
type_synonym storage = "(string, string) jsmap"

section \<open>Parsing\<close>

definition ini_assign :: "string \<Rightarrow> string \<Rightarrow> string \<Rightarrow> ini \<Rightarrow> ini" where
  "ini_assign sec key val result =
     map_set sec (map_set key val (nullish (map_get result sec) [])) result"

definition ini_line :: "string \<Rightarrow> string \<times> ini \<Rightarrow> string \<times> ini" where
  "ini_line raw st =
     (let (currentSection, result) = st; line = trim raw
      in if line = '''' \<or> starts_with ''#'' line \<or> starts_with '';'' line
         then (currentSection, result)
         else if starts_with ''['' line \<and> ends_with '']'' line
         then (let sec = trim (substr line 1 (js_length line - 1)) in (sec, map_set sec [] result))
         else (let eqIdx = index_of CHR ''='' line
               in if eqIdx > 0
                  then (let key = trim (substr line 0 eqIdx);
                            val = trim (substr line (eqIdx + 1) (js_length line))
                        in if currentSection \<noteq> ''''
                           then (currentSection, ini_assign currentSection key val result)
                           else (let result' = (if map_has result '''' then result
                                                else map_set '''' [] result)
                                 in (currentSection, ini_assign '''' key val result')))
                  else (currentSection, result)))"

definition is_newline :: "char \<Rightarrow> bool" where
  "is_newline c \<longleftrightarrow> c = CHR 0x0A"

definition parseIniConfig :: "string \<Rightarrow> ini" where
  "parseIniConfig text = snd (fold ini_line (split_on is_newline text) ('''', []))"

section \<open>Settings\<close>

definition setting_key :: "string \<Rightarrow> string \<Rightarrow> string" where
  "setting_key mode k = mode @ '':'' @ k"

definition normalize_one :: "string \<Rightarrow> string \<times> string \<Rightarrow> storage \<Rightarrow> storage" where
  "normalize_one mode kv st =
     (let (key, val) = kv;
          normalized = replace_char CHR ''_'' CHR ''-'' key;
          st1 = map_set (setting_key mode normalized) val st;
          underscored = replace_char CHR ''-'' CHR ''_'' normalized
      in map_set (setting_key mode underscored) val st1)"

definition normalizeSettingName :: "string \<Rightarrow> (string, string) jsmap \<Rightarrow> storage \<Rightarrow> storage" where
  "normalizeSettingName mode settings st = fold (normalize_one mode) settings st"

text \<open>
  \<open>text\<close> is the trimmed text content of the \<open>custom-config\<close> element, \<open>None\<close> when the
  page has none; \<open>atob\<close> is the browser's base64 decoder, \<open>None\<close> when it throws.
\<close>

definition loadCustomConfig ::
    "(string \<Rightarrow> string option) \<Rightarrow> string option \<Rightarrow> storage \<Rightarrow> storage" where
  "loadCustomConfig atob el st =
     (case el of
        None \<Rightarrow> st
      | Some content \<Rightarrow>
          (let text = trim content
           in if text = '''' then st
              else (let config = parseIniConfig (nullish (atob text) text);
                        st1 = (case map_get config '''' of
                                 None \<Rightarrow> st
                               | Some g \<Rightarrow>
                                   (case map_get g ''app-name'' of
                                      None \<Rightarrow> st
                                    | Some n \<Rightarrow> (if n = '''' then st else map_set ''app-name'' n st)));
                        st2 = (case map_get config ''default-settings'' of
                                 None \<Rightarrow> st1 | Some s \<Rightarrow> normalizeSettingName ''default'' s st1)
                    in (case map_get config ''override-settings'' of
                          None \<Rightarrow> st2 | Some s \<Rightarrow> normalizeSettingName ''override'' s st2))))"

definition getEffectiveOption :: "storage \<Rightarrow> string \<Rightarrow> string" where
  "getEffectiveOption st key =
     (case map_get st (setting_key ''override'' key) of
        Some v \<Rightarrow> v
      | None \<Rightarrow>
          (case map_get st key of
             Some v \<Rightarrow> v
           | None \<Rightarrow>
               (case map_get st (setting_key ''default'' key) of
                  Some v \<Rightarrow> v
                | None \<Rightarrow> '''')))"

section \<open>Printing, as a specification of the file format\<close>

definition plain :: "string \<Rightarrow> bool" where
  "plain s \<longleftrightarrow> CHR 0x0A \<notin> set s \<and> (s = [] \<or> (\<not> is_ws (hd s) \<and> \<not> is_ws (last s)))"

definition key_ok :: "string \<Rightarrow> bool" where
  "key_ok k \<longleftrightarrow> plain k \<and> k \<noteq> [] \<and> CHR ''='' \<notin> set k \<and> hd k \<notin> {CHR ''#'', CHR '';'', CHR ''[''}"

definition section_ok :: "string \<Rightarrow> bool" where
  "section_ok s \<longleftrightarrow> plain s \<and> s \<noteq> []"

definition kv_ok :: "string \<times> string \<Rightarrow> bool" where
  "kv_ok kv \<longleftrightarrow> key_ok (fst kv) \<and> plain (snd kv)"

definition print_kv :: "string \<times> string \<Rightarrow> string" where
  "print_kv kv = fst kv @ ''='' @ snd kv"

definition print_section :: "string \<times> (string, string) jsmap \<Rightarrow> string list" where
  "print_section s = (''['' @ fst s @ '']'') # map print_kv (snd s)"

definition join_lines :: "string list \<Rightarrow> string" where
  "join_lines ls = concat (map (\<lambda>l. l @ [CHR 0x0A]) ls)"

definition print_ini :: "ini \<Rightarrow> string" where
  "print_ini cfg = join_lines (concat (map print_section cfg))"

definition ini_ok :: "ini \<Rightarrow> bool" where
  "ini_ok cfg \<longleftrightarrow> map_ok cfg
     \<and> (\<forall>s \<in> set cfg. section_ok (fst s) \<and> map_ok (snd s) \<and> (\<forall>kv \<in> set (snd s). kv_ok kv))"

section \<open>Parsing what was printed\<close>

lemma split_on_join_lines:
  "\<forall>l \<in> set ls. CHR 0x0A \<notin> set l \<Longrightarrow> split_on is_newline (join_lines ls) = ls @ [[]]"
proof (induction ls)
  case Nil
  then show ?case by (simp add: join_lines_def)
next
  case (Cons l ls)
  have "split_on is_newline (l @ CHR 0x0A # join_lines ls) = l # split_on is_newline (join_lines ls)"
    using Cons.prems by (intro split_on_append_sep) (auto simp: is_newline_def)
  with Cons show ?case by (simp add: join_lines_def)
qed

lemma trim_plain: "plain s \<Longrightarrow> trim s = s"
  by (rule trim_id) (simp add: plain_def)

lemma trim_print_kv: "kv_ok kv \<Longrightarrow> trim (print_kv kv) = print_kv kv"
  by (rule trim_id) (cases "fst kv"; auto simp: kv_ok_def key_ok_def plain_def print_kv_def is_ws_def)

lemma trim_header: "trim (''['' @ s @ '']'') = ''['' @ s @ '']''"
  by (rule trim_id) (auto simp: is_ws_def)

lemma ini_line_kv:
  assumes "kv_ok (k, v)" and "sec \<noteq> ''''"
  shows "ini_line (print_kv (k, v)) (sec, res) = (sec, ini_assign sec k v res)"
proof -
  let ?l = "k @ CHR ''='' # v"
  have k: "k \<noteq> []" "CHR ''='' \<notin> set k" "hd k \<notin> {CHR ''#'', CHR '';'', CHR ''[''}"
    and pk: "plain k" and pv: "plain v"
    using assms(1) by (auto simp: kv_ok_def key_ok_def)
  have t: "trim ?l = ?l"
    using trim_print_kv [OF assms(1)] by (simp add: print_kv_def)
  have pre: "\<not> prefix ''#'' ?l" "\<not> prefix '';'' ?l" "\<not> prefix ''['' ?l"
    using k by (cases k; auto)+
  have idx: "index_of CHR ''='' ?l = int (length k)"
    by (rule index_of_split [OF k(2)])
  have sub: "substr ?l 0 (int (length k)) = k"
    "substr ?l (int (length k) + 1) (js_length ?l) = v"
    by (simp_all add: substr_def js_length_def nat_add_distrib)
  show ?thesis
    using k(1) assms(2) pre
    by (simp add: ini_line_def print_kv_def t idx sub starts_with_def trim_plain [OF pk]
        trim_plain [OF pv] Let_def)
qed

lemma ini_line_header:
  assumes "section_ok sec"
  shows "ini_line (''['' @ sec @ '']'') (cur, res) = (sec, map_set sec [] res)"
proof -
  have "substr (CHR ''['' # sec @ '']'') 1 (js_length (CHR ''['' # sec @ '']'') - 1) = sec"
    by (simp add: substr_def js_length_def)
  moreover have "trim sec = sec" and "suffix '']'' (CHR ''['' # sec @ '']'')"
    using assms by (auto simp: section_ok_def trim_plain suffix_def)
  ultimately show ?thesis
    using trim_header [of sec] by (simp add: ini_line_def starts_with_def ends_with_def Let_def)
qed

lemma fold_ini_kvs:
  assumes "sec \<noteq> ''''" and "\<forall>kv \<in> set kvs. kv_ok kv" and "map_ok (acc @ kvs)"
  shows "fold ini_line (map print_kv kvs) (sec, map_set sec acc res)
           = (sec, map_set sec (acc @ kvs) res)"
  using assms(2,3)
proof (induction kvs arbitrary: acc)
  case Nil
  then show ?case by simp
next
  case (Cons kv kvs)
  obtain k v where kv: "kv = (k, v)" by (cases kv)
  have "map_get acc k = None"
    using Cons.prems(2) by (auto simp: kv map_ok_def map_of_eq_None_iff)
  then have "map_set k v acc = acc @ [(k, v)]" by (rule map_set_new)
  then have "ini_line (print_kv (k, v)) (sec, map_set sec acc res)
      = (sec, map_set sec (acc @ [(k, v)]) res)"
    using Cons.prems(1) assms(1) by (simp add: ini_line_kv kv ini_assign_def map_get_set)
  moreover have "map_ok ((acc @ [(k, v)]) @ kvs)"
    using Cons.prems(2) by (simp add: kv)
  ultimately show ?case
    using Cons.IH [of "acc @ [(k, v)]"] Cons.prems(1) by (simp add: kv)
qed

lemma fold_ini_sections:
  assumes "ini_ok (res @ cfg)"
  shows "snd (fold ini_line (concat (map print_section cfg)) (cur, res)) = res @ cfg"
  using assms
proof (induction cfg arbitrary: cur res)
  case Nil
  then show ?case by simp
next
  case (Cons s cfg)
  obtain sec kvs where s: "s = (sec, kvs)" by (cases s)
  have ok: "section_ok sec" "map_ok kvs" "\<forall>kv \<in> set kvs. kv_ok kv" and new: "map_get res sec = None"
    using Cons.prems by (auto simp: s ini_ok_def map_ok_def map_of_eq_None_iff)
  then have "fold ini_line (print_section s) (cur, res) = (sec, res @ [(sec, kvs)])"
    using ini_line_header [OF ok(1), of cur res] fold_ini_kvs [of sec kvs "[]" res]
      map_set_new [OF new]
    by (simp add: s print_section_def section_ok_def)
  moreover have "ini_ok ((res @ [(sec, kvs)]) @ cfg)"
    using Cons.prems by (simp add: s)
  ultimately show ?case
    using Cons.IH [of "res @ [(sec, kvs)]" sec] by (simp add: s)
qed

lemma print_section_lines:
  assumes "ini_ok cfg"
  shows "\<forall>l \<in> set (concat (map print_section cfg)). CHR 0x0A \<notin> set l"
  using assms
  by (fastforce simp: ini_ok_def print_section_def print_kv_def section_ok_def kv_ok_def key_ok_def
      plain_def)

text \<open>
  C39: the INI parser reads back every well-formed configuration from its printed form:
  sections and keys in order, each value attached to its own section.
\<close>

theorem parseIniConfig_print:
  assumes "ini_ok cfg"
  shows "parseIniConfig (print_ini cfg) = cfg"
proof -
  have "ini_line [] st = st" for st
    by (cases st) (simp add: ini_line_def trim_def trim_end_def)
  moreover have "ini_ok ([] @ cfg)" using assms by simp
  ultimately show ?thesis
    using fold_ini_sections [of "[]" cfg "''''"] print_section_lines [OF assms]
    by (simp add: parseIniConfig_def print_ini_def split_on_join_lines)
qed

theorem parseIniConfig_print_witness:
  "parseIniConfig (print_ini [(''default-settings'', [(''lang'', ''en''), (''view_only'', ''Y'')])])
     = [(''default-settings'', [(''lang'', ''en''), (''view_only'', ''Y'')])]"
  by (rule parseIniConfig_print)
     (simp add: ini_ok_def map_ok_def section_ok_def kv_ok_def key_ok_def plain_def is_ws_def)

section \<open>Both spellings of a setting\<close>

abbreviation norm_key :: "string \<Rightarrow> string" where
  "norm_key k \<equiv> replace_char CHR ''_'' CHR ''-'' k"

abbreviation under_key :: "string \<Rightarrow> string" where
  "under_key k \<equiv> replace_char CHR ''-'' CHR ''_'' (norm_key k)"

lemma norm_under [simp]: "norm_key (under_key k) = norm_key k"
  by (simp add: replace_char_def)

lemma norm_norm [simp]: "norm_key (norm_key k) = norm_key k"
  by (simp add: replace_char_def)

lemma setting_key_inject [simp]: "setting_key m a = setting_key m b \<longleftrightarrow> a = b"
  by (simp add: setting_key_def)

lemma normalize_one_other:
  assumes "norm_key q \<noteq> norm_key k"
  shows "map_get (normalize_one m (k, v) st) (setting_key m q) = map_get st (setting_key m q)"
proof -
  have "q \<noteq> norm_key k" and "q \<noteq> under_key k"
    using assms by auto
  then show ?thesis by (simp add: normalize_one_def map_get_set Let_def)
qed

lemma normalize_one_same:
  "q \<in> {norm_key k, under_key k} \<Longrightarrow>
   map_get (normalize_one m (k, v) st) (setting_key m q) = Some v"
  by (auto simp: normalize_one_def map_get_set Let_def)

lemma normalizeSettingName_other:
  assumes "norm_key q \<notin> set (map (norm_key \<circ> fst) settings)"
  shows "map_get (normalizeSettingName m settings st) (setting_key m q) = map_get st (setting_key m q)"
  using assms
proof (induction settings arbitrary: st)
  case Nil
  then show ?case by (simp add: normalizeSettingName_def)
next
  case (Cons kv settings)
  then show ?case
    using normalize_one_other [of q "fst kv" m "snd kv" st]
    by (simp add: normalizeSettingName_def)
qed

lemma normalizeSettingName_get:
  assumes "distinct (map (norm_key \<circ> fst) settings)" and "(k, v) \<in> set settings"
    and "q \<in> {norm_key k, under_key k}"
  shows "map_get (normalizeSettingName m settings st) (setting_key m q) = Some v"
  using assms
proof (induction settings arbitrary: st)
  case Nil
  then show ?case by simp
next
  case (Cons kv settings)
  have unfold: "normalizeSettingName m (kv # settings) st
      = normalizeSettingName m settings (normalize_one m kv st)"
    by (simp add: normalizeSettingName_def)
  show ?case
  proof (cases "kv = (k, v)")
    case True
    have "norm_key q = norm_key k"
      using Cons.prems(3) by auto
    then have "norm_key q \<notin> set (map (norm_key \<circ> fst) settings)"
      using Cons.prems(1) True by simp
    then show ?thesis
      unfolding unfold using normalizeSettingName_other normalize_one_same Cons.prems(3) True by metis
  next
    case False
    then show ?thesis
      unfolding unfold using Cons by simp
  qed
qed

text \<open>
  Once the override settings of a configuration are stored, looking a setting up under
  either of its spellings (with dashes or with underscores) gives the configured value,
  whatever the user or the defaults say.
\<close>

theorem override_setting_wins:
  assumes "distinct (map (norm_key \<circ> fst) settings)" and "(k, v) \<in> set settings"
  shows "getEffectiveOption (normalizeSettingName ''override'' settings st) (norm_key k) = v
    \<and> getEffectiveOption (normalizeSettingName ''override'' settings st) (under_key k) = v"
  using normalizeSettingName_get [OF assms] by (simp add: getEffectiveOption_def)

theorem override_setting_wins_witness:
  "getEffectiveOption
     (normalizeSettingName ''override'' [(''view_only'', ''Y'')] [(''view-only'', ''N'')]) ''view-only'' = ''Y''"
  using override_setting_wins [of "[(''view_only'', ''Y'')]" "''view_only''" "''Y''"
      "[(''view-only'', ''N'')]"]
  by (simp add: replace_char_def)

end
