(* ===== verification/Events.thy ===== *)
theory Events
  imports Prelude
begin

text \<open>
  \<open>flutter/js/src/helpers/push_event.js\<close>: what the protocol engine reports to the Flutter
  side.  Everything a connection hands to the outside is an \<open>emission\<close>, in the order the
  code emits it.
\<close>

text \<open>
  \<open>GlobalEvent\<close> is one call of \<open>onGlobalEvent\<close> with the object it serialises;
  \<open>MsgBox\<close> one call of the message-box callback; \<open>SavePeer\<close> one write of a peer's
  options to \<open>localStorage\<close>, \<open>StoreItem\<close> a write of a single item; \<open>PostToParent\<close> is a
  message to the page that opened the viewer and \<open>CloseWindow\<close> the attempt to close it; the
  others are calls of the browser helpers that draw a frame, fill the clipboard and play audio.
\<close>

datatype emission =
    GlobalEvent "(string, jval) jsmap"
  | MsgBox string string string
  | SavePeer string "(string, jval) jsmap"
  | DrawFrame int "string option"
  | CopyToClipboard bytes
  | InitAudio int int
  | PlayAudio bytes
  | StoreItem string string
  | PostToParent "(string, jval) jsmap"
  | CloseWindow

fun dart_value :: "jval \<Rightarrow> jval" where
  "dart_value (JStr s) = JStr s"
| "dart_value (JNumStr n) = JNumStr n"
| "dart_value (JJson v) = JJson v"
| "dart_value (JBytes b) = JJson (JArr (map (\<lambda>x. JInt (uint x)) b))"
| "dart_value v = JJson v"

definition jsonfyForDart :: "(string, jval) jsmap \<Rightarrow> (string, jval) jsmap" where
  "jsonfyForDart payload =
     fold (\<lambda>(key, value) tmp. if key = '''' then tmp else map_set key (dart_value value) tmp)
       payload []"

definition pushEvent :: "string \<Rightarrow> (string, jval) jsmap \<Rightarrow> string option \<Rightarrow> emission" where
  "pushEvent name payload sessionId =
     (let p1 = map_set ''name'' (JStr name) (jsonfyForDart payload)
      in GlobalEvent (case sessionId of
                        None \<Rightarrow> p1
                      | Some s \<Rightarrow> (if s = '''' then p1 else map_set ''session_id'' (JStr s) p1)))"

section \<open>Reading events\<close>

fun event_field :: "string \<Rightarrow> emission \<Rightarrow> jval" where
  "event_field k (GlobalEvent p) = obj_get p k"
| "event_field k _ = JUndefined"

abbreviation event_name :: "emission \<Rightarrow> jval" where
  "event_name \<equiv> event_field ''name''"

lemma jsonfyForDart_get_aux:
  "map_get (fold (\<lambda>(key, value) tmp. if key = '''' then tmp else map_set key (dart_value value) tmp) ps acc) k
     = (if k = '''' then map_get acc k
        else case map_get (rev ps) k of Some v \<Rightarrow> Some (dart_value v) | None \<Rightarrow> map_get acc k)"
  by (induction ps arbitrary: acc) (auto simp: map_get_set map_add_def split: option.splits)

lemma jsonfyForDart_get:
  "k \<noteq> '''' \<Longrightarrow> map_ok ps \<Longrightarrow> map_get (jsonfyForDart ps) k = map_option dart_value (map_get ps k)"
proof -
  assume "k \<noteq> ''''" "map_ok ps"
  then have "map_of (rev ps) k = map_of ps k"
    using map_of_inject_set [of "rev ps" ps] by (simp add: map_ok_def flip: rev_map)
  with \<open>k \<noteq> ''''\<close> show ?thesis
    unfolding jsonfyForDart_def jsonfyForDart_get_aux by (auto split: option.splits)
qed

lemma event_name_pushEvent [simp]: "event_name (pushEvent n p s) = JStr n"
  by (auto simp: pushEvent_def obj_get_def map_get_set Let_def split: option.split)

lemma pushEvent_GlobalEvent: "\<exists>q. pushEvent n p s = GlobalEvent q"
  by (auto simp: pushEvent_def Let_def)

text \<open>
  An event reaches the Flutter side under its own name, with the session it belongs
  to, and with every payload field in its serialised form.
\<close>

theorem pushEvent_fields:
  assumes "map_ok payload" and "sid \<noteq> ''''"
    and "k \<noteq> ''''" and "k \<noteq> ''name''" and "k \<noteq> ''session_id''"
  shows "event_name (pushEvent n payload (Some sid)) = JStr n
    \<and> event_field ''session_id'' (pushEvent n payload (Some sid)) = JStr sid
    \<and> event_field k (pushEvent n payload (Some sid))
           = (case map_get payload k of None \<Rightarrow> JUndefined | Some v \<Rightarrow> dart_value v)"
  using assms
  by (auto simp: pushEvent_def obj_get_def map_get_set jsonfyForDart_get Let_def split: option.split)

theorem pushEvent_fields_witness:
  "event_field ''id'' (pushEvent ''job_done'' [(''id'', JIntStr 3)] (Some ''s1'')) = JIntStr 3"
  using pushEvent_fields [of "[(''id'', JIntStr 3)]" "''s1''" "''id''" "''job_done''"]
  by (simp add: map_ok_def)

end
