(* ===== verification/Session_Connect.thy ===== *)
theory Session_Connect
  imports Websock Config_Helper Events Js_Text
begin

text \<open>
  \<open>flutter/js/src/connections/session_connect.ts\<close>: password hashing, the login session id,
  the rendezvous and relay connections and the key exchange with the peer.  A call that
  throws or a promise that rejects is \<open>Inl e\<close>.  What happens during an \<open>await\<close> is an
  argument: \<open>opened\<close> is what the browser made of a socket when \<open>open()\<close> settled, \<open>await_next\<close>
  the settled outcome of \<open>next()\<close> together with the socket at that moment.
\<close>

type_synonym await_next = "websock \<Rightarrow> (unknown + in_message) \<times> websock"

section \<open>Passwords and session numbers\<close>

datatype hash_part = HString string | HBytes bytes | HUndefined

text \<open>\<open>hasher.update(undefined)\<close> throws a \<open>TypeError\<close>.\<close>

fun hash_bytes :: "env \<Rightarrow> hash_part list \<Rightarrow> bytes option" where
  "hash_bytes E [] = Some []"
| "hash_bytes E (HString s # ps) = map_option (\<lambda>bs. text_encode E s @ bs) (hash_bytes E ps)"
| "hash_bytes E (HBytes b # ps) = map_option (\<lambda>bs. b @ bs) (hash_bytes E ps)"
| "hash_bytes E (HUndefined # ps) = None"

definition hashPassword :: "env \<Rightarrow> hash_part list \<Rightarrow> unknown + bytes" where
  "hashPassword E datas =
     (case hash_bytes E datas of
        None \<Rightarrow> Inl (UError ''TypeError'' '''')
      | Some bs \<Rightarrow> Inr (sha256 E bs))"

text \<open>\<open>rnd\<close> is \<open>(Math.random() * 0xffffffff) >>> 0\<close>.\<close>

definition ensureLoginSessionId :: "int \<Rightarrow> int option \<Rightarrow> int" where
  "ensureLoginSessionId rnd loginSessionId =
     (case loginSessionId of
        Some sid \<Rightarrow> (if sid = 0 then (if rnd = 0 then 1 else rnd) else sid)
      | None \<Rightarrow> (if rnd = 0 then 1 else rnd))"

definition getDefaultUri :: "string \<Rightarrow> bool \<Rightarrow> string" where
  "getDefaultUri host isRelay = ''wss://'' @ host @ ''/ws/'' @ (if isRelay then ''relay'' else ''id'')"

definition punchHoleFailureMessage :: "int \<Rightarrow> string" where
  "punchHoleFailureMessage failure =
     (if failure = 0 then ''ID does not exist''
      else if failure = 2 then ''Remote desktop is offline''
      else if failure = 3 then ''Key mismatch''
      else if failure = 4 then ''Key overuse''
      else ''Unknown error (code: '' @ js_int_string failure @ '')'')"

section \<open>The key exchange\<close>

definition RS_PK :: string where
  "RS_PK = ''1+osBpZv1anmzl0VBLmVJXYvwDp3TN3nX+DS9YOcuXc=''"

text \<open>\<open>verify\<close> of \<open>crypto_sodium.js\<close> with a key given as base64 text.\<close>

definition verify_text :: "env \<Rightarrow> bytes \<Rightarrow> string \<Rightarrow> bytes option" where
  "verify_text E boxed pk = (case from_base64 E pk of None \<Rightarrow> None | Some k \<Rightarrow> sign_open E boxed k)"

text \<open>
  The signing key of the peer out of what the rendezvous server sent: \<open>None\<close> for a key that
  is absent, does not verify, does not decode, or has the wrong length.
\<close>

definition server_pk :: "env \<Rightarrow> storage \<Rightarrow> string \<Rightarrow> bytes option \<Rightarrow> bytes option" where
  "server_pk E st peerId pkIn =
     (case pkIn of
        None \<Rightarrow> None
      | Some pk0 \<Rightarrow>
          (case verify_text E pk0 (str_or (getEffectiveOption st ''key'') RS_PK) of
             None \<Rightarrow> None
           | Some pk1 \<Rightarrow>
               (case IdPk_decode (env_pb E) pk1 of
                  None \<Rightarrow> None
                | Some idpk \<Rightarrow>
                    (let pk = (if IdPk_id idpk = peerId then IdPk_pk idpk else pk1)
                     in if length pk \<noteq> 32 then None else Some pk))))"

definition empty_public_key :: Message where
  "empty_public_key = createBaseMessage\<lparr>Message_public_key := Some createBasePublicKey\<rparr>"

text \<open>The random values of one handshake: our box key pair and the symmetric key.\<close>

record handshake_keys =
  hk_mySk :: bytes
  hk_asymmetric :: bytes
  hk_secret :: bytes

definition seal :: "env \<Rightarrow> bytes \<Rightarrow> bytes \<Rightarrow> bytes \<Rightarrow> bytes" where
  "seal E msg theirPk ourSk = box_easy E msg (replicate 24 0) theirPk ourSk"

definition sealed_public_key :: "env \<Rightarrow> handshake_keys \<Rightarrow> bytes \<Rightarrow> Message" where
  "sealed_public_key E K theirPk =
     createBaseMessage\<lparr>Message_public_key :=
       Some \<lparr>PublicKey_asymmetric_value = hk_asymmetric K,
             PublicKey_symmetric_value = seal E (hk_secret K) theirPk (hk_mySk K)\<rparr>\<rparr>"

text \<open>\<open>msg?.signed_id\<close>; on the relay socket every message is a peer message.\<close>

fun signed_id_of :: "in_message \<Rightarrow> SignedId option" where
  "signed_id_of (PeerMsg m) = Message_signed_id m"
| "signed_id_of (RdvMsg m) = None"

definition secureHandshake ::
    "env \<Rightarrow> storage \<Rightarrow> handshake_keys \<Rightarrow> await_next \<Rightarrow> string \<Rightarrow> bytes option \<Rightarrow> websock
       \<Rightarrow> (unknown + bool) \<times> websock" where
  "secureHandshake E st K await_next peerId pkIn ws =
     (case server_pk E st peerId pkIn of
        None \<Rightarrow> (Inr False, ws_sendMessage E empty_public_key ws)
      | Some pk \<Rightarrow>
          (let (r, ws1) = await_next ws
           in case r of
                Inl e \<Rightarrow> (Inl e, ws1)
              | Inr msg \<Rightarrow>
                  (case signed_id_of msg of
                     None \<Rightarrow> (Inr False, ws_sendMessage E empty_public_key ws1)
                   | Some signedId \<Rightarrow>
                       (case sign_open E (SignedId_id signedId) pk of
                          None \<Rightarrow> (Inr False, ws_sendMessage E empty_public_key ws1)
                        | Some payload \<Rightarrow>
                            (case IdPk_decode (env_pb E) payload of
                               None \<Rightarrow> (Inl (UError ''Error'' ''decode''), ws1)
                             | Some idpk \<Rightarrow>
                                 (if IdPk_id idpk \<noteq> peerId
                                  then (Inr False, ws_sendMessage E empty_public_key ws1)
                                  else if length (IdPk_pk idpk) \<noteq> 32
                                  then (Inr False, ws_sendMessage E empty_public_key ws1)
                                  else (Inr True, setSecretKey (hk_secret K)
                                         (ws_sendMessage E (sealed_public_key E K (IdPk_pk idpk)) ws1))))))))"

section \<open>The relay and the rendezvous server\<close>

text \<open>
  \<open>connectRelay\<close> up to the call of \<open>onReady\<close>: the relay socket, whether it is secure, and the
  emitted event.
\<close>

definition relay_request :: "storage \<Rightarrow> RelayResponse \<Rightarrow> RendezvousMessage" where
  "relay_request st rr =
     createBaseRendezvousMessage\<lparr>RendezvousMessage_request_relay :=
       Some (createBaseRequestRelay\<lparr>RequestRelay_licence_key := getEffectiveOption st ''key'',
                                    RequestRelay_uuid := RelayResponse_uuid rr\<rparr>)\<rparr>"

definition connectRelay ::
    "env \<Rightarrow> storage \<Rightarrow> string \<Rightarrow> handshake_keys \<Rightarrow> (websock \<Rightarrow> websock) \<Rightarrow> await_next
       \<Rightarrow> RelayResponse \<Rightarrow> string \<Rightarrow> string option \<Rightarrow> unknown + (websock \<times> bool \<times> emission)" where
  "connectRelay E st host K opened await_next rr peerId sessionId =
     (let ws = opened (newWebsock (getDefaultUri host True) False)
      in case ws_opened ws of
           Resolved \<Rightarrow>
             (let (r, ws1) = secureHandshake E st K await_next peerId (RelayResponse_pk rr)
                               (ws_sendRendezvous E (relay_request st rr) ws)
              in case r of
                   Inl e \<Rightarrow> Inl e
                 | Inr secure \<Rightarrow>
                     Inr (ws1, secure,
                          pushEvent ''connection_ready''
                            [(''secure'', JBool secure), (''direct'', JBool False)] sessionId))
         | Rejected e \<Rightarrow> Inl e
         | Pending \<Rightarrow> Inl (UString ''Timeout''))"

text \<open>
  \<open>startPunchHole\<close> up to its callbacks: an error to report, a relay to connect to (after which
  it returns \<open>true\<close>), or neither.
\<close>

datatype punch_result = PunchRelay RelayResponse | PunchError string string | PunchNothing

definition punch_hole_request :: "storage \<Rightarrow> string \<Rightarrow> int \<Rightarrow> RendezvousMessage" where
  "punch_hole_request st peer connType =
     createBaseRendezvousMessage\<lparr>RendezvousMessage_punch_hole_request :=
       Some (createBasePunchHoleRequest\<lparr>PunchHoleRequest_id := peer,
               PunchHoleRequest_licence_key := getEffectiveOption st ''key'',
               PunchHoleRequest_conn_type := connType,
               PunchHoleRequest_nat_type := 2,
               PunchHoleRequest_token := getEffectiveOption st ''access_token''\<rparr>)\<rparr>"

definition punch_answer :: "RendezvousMessage \<Rightarrow> punch_result" where
  "punch_answer msg =
     (case RendezvousMessage_punch_hole_response msg of
        Some phr \<Rightarrow>
          (if PunchHoleResponse_other_failure phr \<noteq> ''''
           then PunchError ''Error'' (PunchHoleResponse_other_failure phr)
           else if PunchHoleResponse_failure phr \<noteq> - 1
           then PunchError ''Error'' (punchHoleFailureMessage (PunchHoleResponse_failure phr))
           else PunchNothing)
      | None \<Rightarrow>
          (case RendezvousMessage_relay_response msg of
             Some rr \<Rightarrow>
               (if RelayResponse_version rr = ''''
                then PunchError ''Error'' ''Remote version is low, not support web''
                else PunchRelay rr)
           | None \<Rightarrow> PunchNothing))"

fun rdv_of :: "in_message \<Rightarrow> RendezvousMessage" where
  "rdv_of (RdvMsg m) = m"
| "rdv_of (PeerMsg m) = createBaseRendezvousMessage"

definition startPunchHole ::
    "env \<Rightarrow> storage \<Rightarrow> string \<Rightarrow> (websock \<Rightarrow> websock) \<Rightarrow> await_next \<Rightarrow> string \<Rightarrow> int
       \<Rightarrow> unknown + (punch_result \<times> websock)" where
  "startPunchHole E st host opened await_next peer connType =
     (let ws = opened (newWebsock (getDefaultUri host False) True)
      in case ws_opened ws of
           Resolved \<Rightarrow>
             (let (r, ws1) = await_next (ws_sendRendezvous E (punch_hole_request st peer connType) ws)
              in case r of
                   Inl e \<Rightarrow> Inl e
                 | Inr msg \<Rightarrow> Inr (punch_answer (rdv_of msg), ws_close ws1))
         | Rejected e \<Rightarrow> Inl e
         | Pending \<Rightarrow> Inl (UString ''Timeout''))"

section \<open>What the key exchange guarantees\<close>

text \<open>The signed identity a peer answered with, as far as the handshake checks it.\<close>

definition authentic :: "env \<Rightarrow> string \<Rightarrow> bytes \<Rightarrow> in_message \<Rightarrow> bytes \<Rightarrow> bool" where
  "authentic E peerId pk msg theirPk \<longleftrightarrow>
     (\<exists>signedId payload idpk. signed_id_of msg = Some signedId
        \<and> sign_open E (SignedId_id signedId) pk = Some payload
        \<and> IdPk_decode (env_pb E) payload = Some idpk
        \<and> IdPk_id idpk = peerId \<and> IdPk_pk idpk = theirPk \<and> length theirPk = 32)"

lemma secureHandshake_secure:
  assumes "secureHandshake E st K aw peerId pkIn ws = (Inr True, ws')"
  obtains pk msg ws1 theirPk where "server_pk E st peerId pkIn = Some pk" "aw ws = (Inr msg, ws1)"
    "authentic E peerId pk msg theirPk"
    "ws' = setSecretKey (hk_secret K) (ws_sendMessage E (sealed_public_key E K theirPk) ws1)"
  using assms
  by (auto simp: secureHandshake_def authentic_def Let_def split: option.splits sum.splits if_splits prod.splits)

lemma ws_sendMessage_key_None [simp]:
  "ws_secretKey ws = None \<Longrightarrow> ws_secretKey (ws_sendMessage E m ws) = None"
  by (simp add: ws_sendMessage_def)

lemma secureHandshake_insecure:
  assumes "secureHandshake E st K aw peerId pkIn ws = (r, ws')" and "r \<noteq> Inr True"
    and "ws_secretKey ws = None" and "ws_secretKey (snd (aw ws)) = None"
  shows "ws_secretKey ws' = None"
  using assms
  by (cases "aw ws") (auto simp: secureHandshake_def Let_def split: option.splits sum.splits if_splits)

text \<open>A concrete exchange, in the environment whose signatures are the signed bytes themselves.\<close>

definition sample_id :: IdPk where
  "sample_id = \<lparr>IdPk_id = ''77'', IdPk_pk = replicate 32 9\<rparr>"

definition sample_answer :: await_next where
  "sample_answer ws = (Inr (PeerMsg (createBaseMessage\<lparr>Message_signed_id :=
     Some \<lparr>SignedId_id = IdPk_encode wire_pb sample_id\<rparr>\<rparr>)), ws)"

definition sample_keys :: handshake_keys where
  "sample_keys = \<lparr>hk_mySk = [1], hk_asymmetric = [2], hk_secret = [3]\<rparr>"

lemma sample_id_ok: "message_ok (IdPk_fields wire_pb) sample_id"
  by (simp add: message_ok_def IdPk_fields_def f_scalar_def sample_id_def fits_string_def fits_bytes_def)

lemma sample_id_parts: "IdPk_id sample_id = ''77''" "IdPk_pk sample_id = replicate 32 9"
  by (simp_all add: sample_id_def)

lemma sample_verify: "verify_text plain_env bs k = Some bs" "sign_open plain_env bs k' = Some bs"
  by (simp_all add: verify_text_def plain_env_def)



text \<open>
  C25: an honest exchange succeeds: when the server vouches for the peer's 32-byte key and the
  peer signs its own id and 32-byte box key with it, the connection becomes secure and the
  symmetric key goes out sealed for the peer.
\<close>

theorem honest_handshake_succeeds:
  assumes "pb_laws (env_pb E)"
    and "message_ok (IdPk_fields (env_pb E)) \<lparr>IdPk_id = peerId, IdPk_pk = pk\<rparr>"
    and "message_ok (IdPk_fields (env_pb E)) \<lparr>IdPk_id = peerId, IdPk_pk = boxPk\<rparr>"
    and "length pk = 32" and "length boxPk = 32"
    and "verify_text E pk0 (str_or (getEffectiveOption st ''key'') RS_PK)
           = Some (IdPk_encode (env_pb E) \<lparr>IdPk_id = peerId, IdPk_pk = pk\<rparr>)"
    and "sign_open E (SignedId_id signedId) pk
           = Some (IdPk_encode (env_pb E) \<lparr>IdPk_id = peerId, IdPk_pk = boxPk\<rparr>)"
    and "aw ws = (Inr (PeerMsg m), ws1)" and "Message_signed_id m = Some signedId"
  shows "secureHandshake E st K aw peerId (Some pk0) ws
       = (Inr True, setSecretKey (hk_secret K) (ws_sendMessage E (sealed_public_key E K boxPk) ws1))"
  using assms pb_laws.IdPk_decode_encode [OF assms(1,2)] pb_laws.IdPk_decode_encode [OF assms(1,3)]
  by (simp add: secureHandshake_def server_pk_def)

theorem honest_handshake_succeeds_witness:
  "fst (secureHandshake plain_env [] sample_keys sample_answer ''77''
      (Some (IdPk_encode wire_pb sample_id)) (newWebsock ''u'' False)) = Inr True"
  using honest_handshake_succeeds [of plain_env "''77''" "replicate 32 9" "replicate 32 9"
      "IdPk_encode wire_pb sample_id" "[]" "\<lparr>SignedId_id = IdPk_encode wire_pb sample_id\<rparr>"
      sample_answer "newWebsock ''u'' False"
      "createBaseMessage\<lparr>Message_signed_id := Some \<lparr>SignedId_id = IdPk_encode wire_pb sample_id\<rparr>\<rparr>"
      "newWebsock ''u'' False" sample_keys]
    sample_id_ok wire.pb_laws_axioms
  by (simp add: sample_verify sample_answer_def flip: sample_id_def)

end
