(* ===== verification/Session_Base.thy ===== *)
theory Session_Base
  imports Session_Connect
begin

text \<open>
  \<open>flutter/js/src/connections/session_base.ts\<close>: the state and the operations that remote
  desktop and file transfer connections share.  The record is extended by the two kinds of
  connection; \<open>_passwordSource\<close>, which the session registry attaches to a connection, is a field
  as well.  What a connection reports to the outside is appended to \<open>b_out\<close>.  The abstract
  methods that an operation calls are its arguments.
\<close>

section \<open>State\<close>

type_synonym peer_options = "(string, jval) jsmap"

record base =
  b_sessionId :: "string option"
  b_msgs :: "Message list"
  b_ws :: "websock option"
  b_interval :: bool
  b_id :: string
  b_hash :: "Hash option"
  b_password :: "bytes option"
  b_plaintextPassword :: "string option"
  b_loginSessionId :: "int option"
  b_options :: peer_options
  b_peerInfo :: "PeerInfo option"
  b_passwordSource :: "string option"
  b_out :: "emission list"

text \<open>The initial values of the fields.\<close>

definition newBase :: base where
  "newBase = \<lparr>b_sessionId = None, b_msgs = [], b_ws = None, b_interval = False, b_id = '''',
     b_hash = None, b_password = None, b_plaintextPassword = None, b_loginSessionId = None,
     b_options = [], b_peerInfo = None, b_passwordSource = None, b_out = []\<rparr>"

abbreviation emit :: "emission \<Rightarrow> 'a base_scheme \<Rightarrow> 'a base_scheme" where
  "emit e \<equiv> b_out_update (\<lambda>out. out @ [e])"

definition ev :: "string \<Rightarrow> (string, jval) jsmap \<Rightarrow> 'a base_scheme \<Rightarrow> 'a base_scheme" where
  "ev name payload c = emit (pushEvent name payload (b_sessionId c)) c"

definition setPeerId :: "string \<Rightarrow> 'a base_scheme \<Rightarrow> 'a base_scheme" where
  "setPeerId peer c = c\<lparr>b_id := peer\<rparr>"

definition setPlaintextPassword :: "string \<Rightarrow> 'a base_scheme \<Rightarrow> 'a base_scheme" where
  "setPlaintextPassword pw c = c\<lparr>b_plaintextPassword := Some pw\<rparr>"

section \<open>Options of the peer\<close>

definition getOption :: "string \<Rightarrow> 'a base_scheme \<Rightarrow> jval" where
  "getOption name c = obj_get (b_options c) name"

text \<open>\<open>savePeerOptions\<close> stamps the options with the time and writes them to the peer store.\<close>

definition setOption :: "int \<Rightarrow> string \<Rightarrow> jval \<Rightarrow> 'a base_scheme \<Rightarrow> 'a base_scheme" where
  "setOption now name value c =
     (let opts = (if value = JUndefined \<or> value = JNull then map_delete name (b_options c)
                  else map_set name value (b_options c));
          opts' = map_set ''tm'' (JInt now) opts
      in emit (SavePeer (b_id c) opts') (c\<lparr>b_options := opts'\<rparr>))"

text \<open>\<open>loadPeerOptions\<close> of \<open>peer_store.js\<close>; \<open>peers\<close> is the stored object.\<close>

definition loadPeerOptions :: "(string, peer_options) jsmap \<Rightarrow> string \<Rightarrow> peer_options" where
  "loadPeerOptions peers peer =
     (if peer = '''' then [] else nullish (map_get peers peer) [])"

text \<open>The password stored with a peer is the text of its bytes.\<close>

definition stored_password :: "peer_options \<Rightarrow> bytes option" where
  "stored_password opts =
     (case obj_get opts ''password'' of
        JStr p \<Rightarrow> (if p = '''' then None else map_option uint8_from (json_int_array p))
      | _ \<Rightarrow> None)"

definition startMessagePump :: "'a base_scheme \<Rightarrow> 'a base_scheme" where
  "startMessagePump c = c\<lparr>b_interval := True\<rparr>"

definition prepareConnect ::
    "(string, peer_options) jsmap \<Rightarrow> string \<Rightarrow> 'a base_scheme \<Rightarrow> 'a base_scheme" where
  "prepareConnect peers peer c =
     (let opts = loadPeerOptions peers peer
      in startMessagePump
           (c\<lparr>b_id := peer, b_options := opts,
              b_password := (case b_password c of None \<Rightarrow> stored_password opts | Some p \<Rightarrow> Some p)\<rparr>))"

section \<open>Sending\<close>

definition queueMessage :: "Message \<Rightarrow> 'a base_scheme \<Rightarrow> 'a base_scheme" where
  "queueMessage m c = c\<lparr>b_msgs := b_msgs c @ [m]\<rparr>"

definition sendMessage :: "env \<Rightarrow> Message \<Rightarrow> 'a base_scheme \<Rightarrow> 'a base_scheme" where
  "sendMessage E m c = c\<lparr>b_ws := map_option (ws_sendMessage E m) (b_ws c)\<rparr>"

text \<open>
  One tick of the pump: \<open>while (this._msgs.length) this._ws?.sendMessage(this._msgs.shift()!)\<close>.
  Without a socket the optional call does not evaluate its argument, so nothing is shifted.
  \<open>None\<close> is a tick that does not return.
\<close>

partial_function (option) pump_tick :: "env \<Rightarrow> 'a base_scheme \<Rightarrow> 'a base_scheme option" where
  "pump_tick E c =
     (case b_msgs c of
        [] \<Rightarrow> Some c
      | m # rest \<Rightarrow>
          (case b_ws c of
             None \<Rightarrow> pump_tick E c
           | Some ws \<Rightarrow> pump_tick E (c\<lparr>b_msgs := rest, b_ws := Some (ws_sendMessage E m ws)\<rparr>)))"

section \<open>Receiving\<close>

text \<open>The ingress handler: pings of the peer are echoed at once and not queued.\<close>

definition handleIngressMessage :: "env \<Rightarrow> Message \<Rightarrow> websock \<Rightarrow> ingress_action \<times> websock" where
  "handleIngressMessage E msg ws =
     (case Message_test_delay msg of
        Some td \<Rightarrow>
          (if \<not> TestDelay_from_client td
           then (Consume, ws_sendMessage E (createBaseMessage\<lparr>Message_test_delay := Some td\<rparr>) ws)
           else (Queue, ws))
      | None \<Rightarrow> (Queue, ws))"

definition receive_frame :: "env \<Rightarrow> bytes \<Rightarrow> 'a base_scheme \<Rightarrow> 'a base_scheme" where
  "receive_frame E data c =
     c\<lparr>b_ws := map_option (recv_message E (handleIngressMessage E) data) (b_ws c)\<rparr>"

text \<open>\<open>connectRelay\<close>: the ready socket becomes the connection's, with the ingress handler on.\<close>

definition attach_ws :: "websock \<Rightarrow> 'a base_scheme \<Rightarrow> 'a base_scheme" where
  "attach_ws ws c = c\<lparr>b_ws := Some (setIngressHandler True ws)\<rparr>"

section \<open>Logging in\<close>

definition hash_salt :: "'a base_scheme \<Rightarrow> hash_part" where
  "hash_salt c = (case b_hash c of None \<Rightarrow> HUndefined | Some h \<Rightarrow> HString (Hash_salt h))"

definition hash_challenge :: "'a base_scheme \<Rightarrow> hash_part" where
  "hash_challenge c = (case b_hash c of None \<Rightarrow> HUndefined | Some h \<Rightarrow> HString (Hash_challenge h))"

definition sendLoginMessage ::
    "env \<Rightarrow> (bytes option \<Rightarrow> 'a base_scheme \<Rightarrow> LoginRequest \<times> 'a base_scheme) \<Rightarrow> bytes option
       \<Rightarrow> 'a base_scheme \<Rightarrow> 'a base_scheme" where
  "sendLoginMessage E buildLoginRequest password c =
     (let (login_request, c1) = buildLoginRequest password c
      in sendMessage E (createBaseMessage\<lparr>Message_login_request := Some login_request\<rparr>) c1)"

text \<open>
  \<open>login\<close>; both kinds of connection pass a \<open>"connecting"\<close> message box straight to the callback.
  A missing hash message makes the hashing throw.
\<close>

definition login ::
    "env \<Rightarrow> (bytes option \<Rightarrow> 'a base_scheme \<Rightarrow> LoginRequest \<times> 'a base_scheme) \<Rightarrow> string option
       \<Rightarrow> 'a base_scheme \<Rightarrow> unknown + 'a base_scheme" where
  "login E build password c =
     (if opt_truthy password then
        (case hashPassword E [HString (the password), hash_salt c] of
           Inl e \<Rightarrow> Inl e
         | Inr p \<Rightarrow>
             (let c1 = c\<lparr>b_password := Some p\<rparr>
              in case hashPassword E [HBytes p, hash_challenge c1] of
                   Inl e \<Rightarrow> Inl e
                 | Inr p2 \<Rightarrow>
                     Inr (sendLoginMessage E build (Some p2)
                            (emit (MsgBox ''connecting'' ''Connecting...'' ''Logging in...'') c1))))
      else
        (case b_password c of
           None \<Rightarrow> Inr (sendLoginMessage E build None c)
         | Some p \<Rightarrow>
             (case hashPassword E [HBytes p, hash_challenge c] of
                Inl e \<Rightarrow> Inl e
              | Inr p2 \<Rightarrow> Inr (sendLoginMessage E build (Some p2) c))))"

text \<open>\<open>handleHashMessage\<close>: a login, or the request for a password by the kind of connection.\<close>

datatype 'c hash_result = HashLogin "unknown + 'c" | AskPassword 'c

definition handleHashMessage ::
    "env \<Rightarrow> (bytes option \<Rightarrow> 'a base_scheme \<Rightarrow> LoginRequest \<times> 'a base_scheme)
       \<Rightarrow> 'a base_scheme \<Rightarrow> 'a base_scheme hash_result" where
  "handleHashMessage E build c =
     (if opt_truthy (b_plaintextPassword c) then HashLogin (login E build (b_plaintextPassword c) c)
      else if b_password c \<noteq> None then HashLogin (login E build None c)
      else AskPassword c)"

definition persistPasswordIfRemembered :: "int \<Rightarrow> bool \<Rightarrow> 'a base_scheme \<Rightarrow> 'a base_scheme" where
  "persistPasswordIfRemembered now remember c =
     (case b_password c of
        Some p \<Rightarrow>
          (if remember \<and> p \<noteq> [] then
             (let t = JStr (bytes_toString p)
              in if t \<noteq> getOption ''password'' c then setOption now ''password'' t c else c)
           else c)
      | None \<Rightarrow> c)"

text \<open>The peer information as the object that is stored with the peer's options.\<close>

definition display_json :: "DisplayInfo \<Rightarrow> jval" where
  "display_json d = JObj [(''x'', JInt (DisplayInfo_x d)), (''y'', JInt (DisplayInfo_y d)),
     (''width'', JInt (DisplayInfo_width d)), (''height'', JInt (DisplayInfo_height d)),
     (''name'', JStr (DisplayInfo_name d)), (''online'', JBool (DisplayInfo_online d)),
     (''cursor_embedded'', JBool (DisplayInfo_cursor_embedded d)),
     (''original_resolution'', (case DisplayInfo_original_resolution d of None \<Rightarrow> JUndefined
        | Some r \<Rightarrow> JObj [(''width'', JInt (Resolution_width r)), (''height'', JInt (Resolution_height r))])),
     (''scale'', JNum (DisplayInfo_scale d))]"

definition peer_info_json :: "PeerInfo \<Rightarrow> (string, jval) jsmap" where
  "peer_info_json info =
     [(''username'', JStr (PeerInfo_username info)), (''hostname'', JStr (PeerInfo_hostname info)),
      (''platform'', JStr (PeerInfo_platform info)),
      (''displays'', JArr (map display_json (PeerInfo_displays info))),
      (''current_display'', JInt (PeerInfo_current_display info)),
      (''sas_enabled'', JBool (PeerInfo_sas_enabled info)), (''version'', JStr (PeerInfo_version info)),
      (''features'', (case PeerInfo_features info of None \<Rightarrow> JUndefined
         | Some f \<Rightarrow> JObj [(''privacy_mode'', JBool (Features_privacy_mode f))])),
      (''encoding'', (case PeerInfo_encoding info of None \<Rightarrow> JUndefined
         | Some e \<Rightarrow> JObj [(''h264'', JBool (SupportedEncoding_h264 e)), (''h265'', JBool (SupportedEncoding_h265 e)),
             (''vp8'', JBool (SupportedEncoding_vp8 e)), (''av1'', JBool (SupportedEncoding_av1 e)),
             (''i444'', (case SupportedEncoding_i444 e of None \<Rightarrow> JUndefined
                | Some a \<Rightarrow> JObj [(''vp8'', JBool (CodecAbility_vp8 a)), (''vp9'', JBool (CodecAbility_vp9 a)),
                    (''av1'', JBool (CodecAbility_av1 a)), (''h264'', JBool (CodecAbility_h264 a)),
                    (''h265'', JBool (CodecAbility_h265 a))]))])),
      (''resolutions'', (case PeerInfo_resolutions info of None \<Rightarrow> JUndefined
         | Some rs \<Rightarrow> JObj [(''resolutions'', JArr (map (\<lambda>r. JObj [(''width'', JInt (Resolution_width r)),
             (''height'', JInt (Resolution_height r))]) (SupportedResolutions_resolutions rs)))])),
      (''platform_additions'', JStr (PeerInfo_platform_additions info)),
      (''windows_sessions'', (case PeerInfo_windows_sessions info of None \<Rightarrow> JUndefined
         | Some ws \<Rightarrow> JObj [(''sessions'', JArr (map (\<lambda>s. JObj [(''sid'', JInt (WindowsSession_sid s)),
             (''name'', JStr (WindowsSession_name s))]) (WindowsSessions_sessions ws))),
             (''current_sid'', JInt (WindowsSessions_current_sid ws))]))]"

section \<open>Connecting\<close>

text \<open>
  \<open>establishConnection\<close>: what became of the rendezvous, and then of the relay connection.
  \<open>punched\<close> is the outcome of \<open>startPunchHole\<close>, \<open>relayed\<close> that of \<open>connectRelay\<close>.
\<close>

datatype established =
    Established websock emission
  | ConnectError string string
  | NotEstablished
  | ConnectThrew unknown

definition establishConnection ::
    "unknown + (punch_result \<times> websock) \<Rightarrow> (RelayResponse \<Rightarrow> unknown + (websock \<times> bool \<times> emission)) \<Rightarrow> established" where
  "establishConnection punched relayed =
     (case punched of
        Inl e \<Rightarrow> ConnectThrew e
      | Inr (PunchRelay rr, ws) \<Rightarrow>
          (case relayed rr of
             Inl e \<Rightarrow> ConnectThrew e
           | Inr (relay, secure, ready) \<Rightarrow> Established relay ready)
      | Inr (PunchError title text, ws) \<Rightarrow> ConnectError title text
      | Inr (PunchNothing, ws) \<Rightarrow> NotEstablished)"

section \<open>Status and teardown\<close>

definition ws_is_open :: "'a base_scheme \<Rightarrow> bool" where
  "ws_is_open c = (case b_ws c of None \<Rightarrow> False | Some ws \<Rightarrow> ws_status ws = StOpen)"

definition getStatus :: "'a base_scheme \<Rightarrow> jval" where
  "getStatus c = JJson (JObj [(''status_num'', JInt (if ws_is_open c then 1 else 0)),
                              (''video_conn_count'', JInt 0)])"

definition base_getPlatform :: "'a base_scheme \<Rightarrow> string" where
  "base_getPlatform c = (case b_peerInfo c of None \<Rightarrow> '''' | Some info \<Rightarrow> PeerInfo_platform info)"

definition baseClose :: "'a base_scheme \<Rightarrow> 'a base_scheme" where
  "baseClose c =
     c\<lparr>b_msgs := [], b_interval := False,
       b_ws := map_option (\<lambda>ws. ws_close (setIngressHandler False ws)) (b_ws c)\<rparr>"

lemmas base_defs = ev_def setPeerId_def setPlaintextPassword_def queueMessage_def sendMessage_def
  startMessagePump_def attach_ws_def baseClose_def receive_frame_def

section \<open>The message pump\<close>

lemma fold_send_ws:
  "b_ws c = Some ws \<Longrightarrow>
     pump_tick E c = Some (c\<lparr>b_msgs := [], b_ws := Some (fold (ws_sendMessage E) (b_msgs c) ws)\<rparr>)"
proof (induction "b_msgs c" arbitrary: c ws)
  case Nil
  then have "c\<lparr>b_msgs := [], b_ws := Some ws\<rparr> = c" by (cases c) simp
  with Nil show ?case by (subst pump_tick.simps) simp
next
  case (Cons m rest)
  let ?c = "c\<lparr>b_msgs := rest, b_ws := Some (ws_sendMessage E m ws)\<rparr>"
  have "pump_tick E ?c = Some (?c\<lparr>b_msgs := [], b_ws := Some (fold (ws_sendMessage E) (b_msgs ?c) (ws_sendMessage E m ws))\<rparr>)"
    by (rule Cons.hyps(1)) simp_all
  with Cons.hyps(2) Cons.prems show ?case by (subst pump_tick.simps) (simp flip: Cons.hyps(2))
qed

lemma pump_tick_stuck: "pump_tick E c = Some c' \<Longrightarrow> b_ws c = None \<Longrightarrow> b_msgs c = []"
proof (induction rule: pump_tick.raw_induct [rotated, consumes 1])
  case (1 pump E c c')
  then show ?case by (auto split: list.splits option.splits)
qed

text \<open>
  C26: one tick of the pump sends everything that was queued, in the order it was queued, and
  leaves the queue empty; it does not return at all when a message is queued before the relay
  socket exists.
\<close>

theorem pump_tick_outcome:
  "pump_tick E c =
     (case b_ws c of
        Some ws \<Rightarrow> Some (c\<lparr>b_msgs := [], b_ws := Some (fold (ws_sendMessage E) (b_msgs c) ws)\<rparr>)
      | None \<Rightarrow> (if b_msgs c = [] then Some c else None))"
proof (cases "b_ws c")
  case None
  show ?thesis
  proof (cases "b_msgs c = []")
    case True
    with None show ?thesis by (subst pump_tick.simps) simp
  next
    case False
    with None pump_tick_stuck [of E c] show ?thesis by (cases "pump_tick E c") auto
  qed
next
  case (Some ws)
  then show ?thesis by (simp add: fold_send_ws)
qed

section \<open>Keepalive\<close>

text \<open>
  A ping of the peer is answered with the same ping over the socket and never reaches the
  message loop; every other message is queued behind the ones before it and answered with
  nothing.
\<close>

theorem keepalive_echo:
  assumes "ws_secretKey ws = None" and "ws_onmessage ws" and "\<not> ws_isRendezvous ws"
    and "ws_ingressHandler ws" and "Message_decode (env_pb E) data = Some m"
  shows "recv_message E (handleIngressMessage E) data ws =
     (case Message_test_delay m of
        Some td \<Rightarrow>
          (if TestDelay_from_client td then ws\<lparr>ws_buf := ws_buf ws @ [PeerMsg m]\<rparr>
           else ws_sendMessage E (createBaseMessage\<lparr>Message_test_delay := Some td\<rparr>) ws)
      | None \<Rightarrow> ws\<lparr>ws_buf := ws_buf ws @ [PeerMsg m]\<rparr>)"
  using assms by (simp add: recv_message_def ws_decode_def handleIngressMessage_def split: option.split)

theorem keepalive_echo_witness:
  "ws_buf (recv_message plain_env (handleIngressMessage plain_env) []
      (setIngressHandler True (on_open (newWebsock ''u'' False)))) = [PeerMsg createBaseMessage]"
proof -
  have "Message_decode wire_pb [] = Some createBaseMessage"
    by (simp add: Message_decode_def message_decode_def decode_loop_end)
  then have "recv_message plain_env (handleIngressMessage plain_env) []
      (setIngressHandler True (on_open (newWebsock ''u'' False)))
      = (setIngressHandler True (on_open (newWebsock ''u'' False)))\<lparr>ws_buf := [] @ [PeerMsg createBaseMessage]\<rparr>"
    using keepalive_echo [of "setIngressHandler True (on_open (newWebsock ''u'' False))" plain_env "[]" createBaseMessage]
    by (simp add: websock_defs createBaseMessage_def)
  then show ?thesis by simp
qed

section \<open>Passwords\<close>

text \<open>What the peer is sent for a password hash: the hash of the hash and the challenge.\<close>

definition login_answer :: "env \<Rightarrow> bytes \<Rightarrow> Hash \<Rightarrow> bytes" where
  "login_answer E p h = sha256 E (p @ text_encode E (Hash_challenge h))"

definition password_hash :: "env \<Rightarrow> string \<Rightarrow> Hash \<Rightarrow> bytes" where
  "password_hash E pw h = sha256 E (text_encode E pw @ text_encode E (Hash_salt h))"

lemma login_with_password:
  assumes "b_hash c = Some h" and "pw \<noteq> ''''"
  shows "login E build (Some pw) c = Inr (sendLoginMessage E build (Some (login_answer E (password_hash E pw h) h))
           (emit (MsgBox ''connecting'' ''Connecting...'' ''Logging in...'')
              (c\<lparr>b_password := Some (password_hash E pw h)\<rparr>)))"
  using assms by (simp add: login_def hashPassword_def hash_salt_def hash_challenge_def
      login_answer_def password_hash_def)

lemma login_remembered:
  "b_hash c = Some h \<Longrightarrow> b_password c = Some p \<Longrightarrow>
     login E build None c = Inr (sendLoginMessage E build (Some (login_answer E p h)) c)"
  by (simp add: login_def hashPassword_def hash_challenge_def login_answer_def)

lemma stored_password_bytes:
  "p \<noteq> [] \<Longrightarrow> obj_get opts ''password'' = JStr (bytes_toString p) \<Longrightarrow> stored_password opts = Some p"
  using bytes_toString_clean [of p]
  by (auto simp: stored_password_def json_bytes_toString trim_def trim_end_def)

lemma getOption_setOption:
  "name \<noteq> ''tm'' \<Longrightarrow> getOption k (setOption now name v c) =
     (if k = ''tm'' then JInt now
      else if k = name then (if v = JUndefined \<or> v = JNull then JUndefined else v)
      else getOption k c)"
  by (auto simp: getOption_def setOption_def Let_def obj_get_def map_get_set map_get_delete)

lemma persist_getOption:
  assumes "b_password c = Some p" "p \<noteq> []"
  shows "getOption ''password'' (persistPasswordIfRemembered now True c) = JStr (bytes_toString p)"
  using assms by (auto simp: persistPasswordIfRemembered_def Let_def getOption_setOption)



end
