(* ===== verification/Connection_Interface.thy ===== *)
theory Connection_Interface
  imports Session_Base
begin

text \<open>
  What the session registry relies on in every kind of connection: a closed connection has
  emptied its queue, stopped its pump, and shut its socket.  What follows from that is shown
  once: a closed connection neither takes in frames nor sends anything any more.
\<close>

definition socket_shut :: "websock \<Rightarrow> bool" where
  "socket_shut ws \<longleftrightarrow> \<not> ws_onmessage ws \<and> ws_status ws \<noteq> StOpen \<and> ws_ready ws \<noteq> Open \<and> \<not> ws_ingressHandler ws"

lemma ws_close_shut: "socket_shut (ws_close ws)"
  by (simp add: socket_shut_def ws_close_def)

locale connection =
  fixes close :: "'c \<Rightarrow> 'c"
    and socket :: "'c \<Rightarrow> websock option"
    and queue :: "'c \<Rightarrow> Message list"
    and pumping :: "'c \<Rightarrow> bool"
    and ok :: "'c \<Rightarrow> bool"
  assumes close_ok: "ok c \<Longrightarrow> ok (close c)"
    and close_socket: "ok c \<Longrightarrow> socket (close c) = Some ws \<Longrightarrow> socket_shut ws"
    and close_queue: "ok c \<Longrightarrow> queue (close c) = []"
    and close_pump: "ok c \<Longrightarrow> \<not> pumping (close c)"
begin

lemma closed_ignores_frames:
  "ok c \<Longrightarrow> socket (close c) = Some ws \<Longrightarrow> recv_message E h data ws = ws"
  using close_socket by (auto simp: socket_shut_def recv_message_def)

lemma closed_sends_nothing:
  "ok c \<Longrightarrow> socket (close c) = Some ws \<Longrightarrow> ws_sent (ws_sendMessage E m ws) = ws_sent ws"
  using close_socket by (fastforce simp: socket_shut_def ws_sendMessage_def socket_send_def Let_def split: option.split)

lemma closed_next_rejects:
  "ok c \<Longrightarrow> socket (close c) = Some ws \<Longrightarrow> ws_buf ws = []
     \<Longrightarrow> fst (ws_next timeout tm0 now ws) = NextReject (status_reason (ws_status ws))"
  using close_socket by (auto simp: socket_shut_def ws_next_def)

lemma close_twice_quiet: "ok c \<Longrightarrow> queue (close (close c)) = [] \<and> \<not> pumping (close (close c))"
  using close_ok close_queue close_pump by blast

end

end
