(* ===== verification/Byte_Sink.thy ===== *)
theory Byte_Sink
  imports Prelude
begin

text \<open>
  The contract between what receives file data and what produces it: a sink takes deliveries
  one after the other, does not fail on an acceptable delivery while it is ready, and keeps
  the data of the deliveries in order.  The writable streams of the browser, a download
  streamed to disk and a download collected in memory are all sinks.
\<close>

locale byte_sink =
  fixes put :: "'b \<Rightarrow> 's \<Rightarrow> unknown option \<times> 's"
    and accepts :: "'b \<Rightarrow> bool"
    and payload :: "'b \<Rightarrow> bytes"
    and contents :: "'s \<Rightarrow> bytes"
    and ready :: "'s \<Rightarrow> bool"
  assumes put_ok: "ready s \<Longrightarrow> accepts b \<Longrightarrow> fst (put b s) = None"
    and put_ready: "ready s \<Longrightarrow> accepts b \<Longrightarrow> ready (snd (put b s))"
    and put_contents: "ready s \<Longrightarrow> accepts b \<Longrightarrow> contents (snd (put b s)) = contents s @ payload b"
begin

lemma put_all_ready:
  "ready s \<Longrightarrow> list_all accepts bs \<Longrightarrow> ready (fold (\<lambda>b s. snd (put b s)) bs s)"
  by (induction bs arbitrary: s) (simp_all add: put_ready)

lemma put_all_contents:
  "ready s \<Longrightarrow> list_all accepts bs
     \<Longrightarrow> contents (fold (\<lambda>b s. snd (put b s)) bs s) = contents s @ concat (map payload bs)"
  by (induction bs arbitrary: s) (simp_all add: put_ready put_contents)

lemma put_pair: "ready s \<Longrightarrow> accepts b \<Longrightarrow> put b s = (None, snd (put b s))"
  using put_ok [of s b] by (cases "put b s") simp

end

end
