(* ===== verification/Ft_Browser_IO.thy ===== *)
theory Ft_Browser_IO
  imports Events Byte_Sink "HOL-Library.Sorting_Algorithms"
begin

text \<open>
  \<open>flutter/js/src/connections/ft/ft_browser_io.ts\<close>: the files the user picked, the plan for
  uploading a folder, and the save targets of downloads.  A \<open>File\<close> of the browser is its
  metadata and contents.  The writable streams of the File System Access API live in a store
  from handles to what has been written to them, because a download job and its zip writer
  hold the same stream.
\<close>

section \<open>Picked files\<close>

record jsfile =
  fl_name :: string
  fl_webkitRelativePath :: string
  fl_lastModified :: int
  fl_data :: bytes

definition fl_size :: "jsfile \<Rightarrow> int" where
  "fl_size f = int (length (fl_data f))"

record folder_plan =
  fp_folderName :: string
  fp_files :: "jsfile list"
  fp_relativeNames :: "string list"
  fp_totalSize :: int

text \<open>The module variables \<open>lastPickedFiles\<close> and \<open>lastFolderPlan\<close>.\<close>

record picker =
  pk_lastPickedFiles :: "jsfile list"
  pk_lastFolderPlan :: "folder_plan option"

text \<open>\<open>pickFiles\<close> when the user has chosen \<open>files\<close>.\<close>

definition pickFiles :: "jsfile list \<Rightarrow> picker \<Rightarrow> picker" where
  "pickFiles files pk = pk\<lparr>pk_lastPickedFiles := files\<rparr>"

definition getPickedFile :: "int \<Rightarrow> picker \<Rightarrow> jsfile option" where
  "getPickedFile index pk = js_at (pk_lastPickedFiles pk) index"

definition takeFolderPlan :: "picker \<Rightarrow> folder_plan option \<times> picker" where
  "takeFolderPlan pk = (pk_lastFolderPlan pk, pk\<lparr>pk_lastFolderPlan := None\<rparr>)"

section \<open>Folder plans\<close>

definition relativePath :: "jsfile \<Rightarrow> string" where
  "relativePath f = str_or (fl_webkitRelativePath f) (fl_name f)"

fun folderRootName :: "jsfile list \<Rightarrow> string" where
  "folderRootName [] = ''''"
| "folderRootName (f # fs) =
     (let rel = relativePath f; idx = index_of CHR ''/'' rel
      in if idx > 0 then substr rel 0 idx else folderRootName fs)"

definition hasHiddenPathSegment :: "string \<Rightarrow> bool" where
  "hasHiddenPathSegment rel =
     list_ex (\<lambda>part. starts_with ''.'' part) (split_on (\<lambda>c. c = CHR ''/'') rel)"

fun pick_folder :: "string \<Rightarrow> bool \<Rightarrow> jsfile list \<Rightarrow> (jsfile \<times> string) list" where
  "pick_folder rootName includeHidden [] = []"
| "pick_folder rootName includeHidden (f # fs) =
     (let relPath = relativePath f
      in if \<not> starts_with (rootName @ ''/'') relPath then pick_folder rootName includeHidden fs
         else (let rel = drop (length rootName + 1) relPath
               in if rel = '''' then pick_folder rootName includeHidden fs
                  else if \<not> includeHidden \<and> hasHiddenPathSegment rel then pick_folder rootName includeHidden fs
                  else (f, rel) # pick_folder rootName includeHidden fs))"

text \<open>\<open>localeCompare\<close> is the comparator of the user's locale; \<open>Array.prototype.sort\<close> is stable.\<close>

definition buildFolderUploadPlan ::
    "string comparator \<Rightarrow> jsfile list \<Rightarrow> bool \<Rightarrow> folder_plan option" where
  "buildFolderUploadPlan localeCompare files includeHidden =
     (if files = [] then None
      else (let rootName = folderRootName files
            in if rootName = '''' then None
               else (let picked = pick_folder rootName includeHidden files
                     in if picked = [] then None
                        else (let ordered = Sorting_Algorithms.sort (key snd localeCompare) picked
                              in Some \<lparr>fp_folderName = rootName, fp_files = map fst ordered,
                                       fp_relativeNames = map snd ordered,
                                       fp_totalSize = sum_list (map (\<lambda>p. fl_size (fst p)) ordered)\<rparr>))))"

section \<open>Notifications\<close>

definition modified_seconds :: "jsfile \<Rightarrow> int" where
  "modified_seconds f = fl_lastModified f div 1000"

definition fileToEntryJson :: "jsfile \<Rightarrow> jval" where
  "fileToEntryJson f = JJson (JObj [(''entry_type'', JInt 4), (''name'', JStr (fl_name f)),
     (''size'', JInt (fl_size f)), (''modified_time'', JInt (modified_seconds f))])"

definition notifySelectedFile :: "int \<Rightarrow> jsfile \<Rightarrow> string option \<Rightarrow> emission" where
  "notifySelectedFile handleIndex f sessionId =
     pushEvent ''selected_files''
       [(''handleIndex'', JIntStr handleIndex), (''file'', fileToEntryJson f)] sessionId"

definition notifySelectedFolder :: "folder_plan \<Rightarrow> string option \<Rightarrow> picker \<Rightarrow> emission \<times> picker" where
  "notifySelectedFolder plan sessionId pk =
     (pushEvent ''selected_folder''
        [(''folder_name'', JStr (fp_folderName plan)), (''total_size'', JIntStr (fp_totalSize plan)),
         (''file_count'', JIntStr (int (length (fp_files plan))))] sessionId,
      pk\<lparr>pk_lastFolderPlan := Some plan\<rparr>)"

section \<open>Save targets\<close>

text \<open>
  A writable stream: what has been written, whether it has been closed, and the exceptions its
  next write and its close throw, if any (a full disk, a revoked permission).
\<close>

record stream =
  st_data :: bytes
  st_closed :: bool
  st_failure :: "unknown option"
  st_closeFailure :: "unknown option"

text \<open>
  The disk: the streams by handle, and the blobs the browser downloaded through a link, with
  their names.
\<close>

record disk =
  dk_streams :: "(nat, stream) jsmap"
  dk_next :: nat
  dk_saved :: "(string \<times> bytes) list"

definition stream_error :: "stream \<Rightarrow> unknown option" where
  "stream_error s = (if st_closed s then Some (UError ''TypeError'' ''closed'') else st_failure s)"

definition close_error :: "stream \<Rightarrow> unknown option" where
  "close_error s = (case stream_error s of Some e \<Rightarrow> Some e | None \<Rightarrow> st_closeFailure s)"

definition writeDownloadChunk :: "nat \<Rightarrow> bytes \<Rightarrow> disk \<Rightarrow> unknown option \<times> disk" where
  "writeDownloadChunk target data dk =
     (case map_get (dk_streams dk) target of
        None \<Rightarrow> (Some (UError ''TypeError'' ''closed''), dk)
      | Some s \<Rightarrow>
          (case stream_error s of
             Some e \<Rightarrow> (Some e, dk)
           | None \<Rightarrow> (None, dk\<lparr>dk_streams := map_set target (s\<lparr>st_data := st_data s @ data\<rparr>) (dk_streams dk)\<rparr>)))"

definition closeDownloadTarget :: "nat \<Rightarrow> disk \<Rightarrow> unknown option \<times> disk" where
  "closeDownloadTarget target dk =
     (case map_get (dk_streams dk) target of
        None \<Rightarrow> (Some (UError ''TypeError'' ''closed''), dk)
      | Some s \<Rightarrow>
          (case close_error s of
             Some e \<Rightarrow> (Some e, dk)
           | None \<Rightarrow> (None, dk\<lparr>dk_streams := map_set target (s\<lparr>st_closed := True\<rparr>) (dk_streams dk)\<rparr>)))"

text \<open>
  What the save dialog does: it is missing, it throws (\<open>AbortError\<close> when the user cancels), or
  it opens a new empty stream.
\<close>

datatype picker_behaviour = NoPicker | PickerThrows string | PickerOpens

datatype pick_result = Picked nat | PickCancelled | PickUnsupported

definition openSaveFilePicker :: "picker_behaviour \<Rightarrow> disk \<Rightarrow> pick_result \<times> disk" where
  "openSaveFilePicker behaviour dk =
     (case behaviour of
        NoPicker \<Rightarrow> (PickUnsupported, dk)
      | PickerThrows name \<Rightarrow> (if name = ''AbortError'' then PickCancelled else PickUnsupported, dk)
      | PickerOpens \<Rightarrow>
          (Picked (dk_next dk),
           dk\<lparr>dk_streams := map_set (dk_next dk) \<lparr>st_data = [], st_closed = False, st_failure = None, st_closeFailure = None\<rparr> (dk_streams dk),
              dk_next := dk_next dk + 1\<rparr>))"

definition remoteDownloadSuggestedName :: "string \<Rightarrow> bool \<Rightarrow> string" where
  "remoteDownloadSuggestedName fileName isFolderDownload =
     (let base = str_or fileName ''download'' in if isFolderDownload then base @ ''.zip'' else base)"

text \<open>\<open>write\<close> followed by \<open>close\<close> on one stream.\<close>

definition write_and_close :: "nat \<Rightarrow> bytes \<Rightarrow> disk \<Rightarrow> unknown option \<times> disk" where
  "write_and_close target data dk =
     (case writeDownloadChunk target data dk of
        (Some e, dk1) \<Rightarrow> (Some e, dk1)
      | (None, dk1) \<Rightarrow> closeDownloadTarget target dk1)"

datatype save_result = Saved | SaveCancelled | SaveThrew unknown

definition saveDownload ::
    "picker_behaviour \<Rightarrow> string \<Rightarrow> bytes \<Rightarrow> nat option \<Rightarrow> disk \<Rightarrow> save_result \<times> disk" where
  "saveDownload behaviour filename data target dk =
     (case target of
        Some t \<Rightarrow>
          (case write_and_close t data dk of
             (Some e, dk1) \<Rightarrow> (SaveThrew e, dk1)
           | (None, dk1) \<Rightarrow> (Saved, dk1))
      | None \<Rightarrow>
          (case openSaveFilePicker behaviour dk of
             (PickCancelled, dk1) \<Rightarrow> (SaveCancelled, dk1)
           | (Picked t, dk1) \<Rightarrow>
               (case write_and_close t data dk1 of
                  (Some e, dk2) \<Rightarrow> (SaveThrew e, dk2)
                | (None, dk2) \<Rightarrow> (Saved, dk2))
           | (PickUnsupported, dk1) \<Rightarrow> (Saved, dk1\<lparr>dk_saved := dk_saved dk1 @ [(filename, data)]\<rparr>)))"

text \<open>\<open>file.slice(offset, offset + size)\<close>, for offsets that are not negative.\<close>

definition readFileChunk :: "jsfile \<Rightarrow> int \<Rightarrow> int \<Rightarrow> bytes" where
  "readFileChunk f offset n = take (nat n) (drop (nat offset) (fl_data f))"

lemmas disk_defs = writeDownloadChunk_def closeDownloadTarget_def stream_error_def close_error_def write_and_close_def

section \<open>Streams as sinks\<close>

definition stream_data :: "nat \<Rightarrow> disk \<Rightarrow> bytes" where
  "stream_data t dk = (case map_get (dk_streams dk) t of None \<Rightarrow> [] | Some s \<Rightarrow> st_data s)"

definition stream_ready :: "nat \<Rightarrow> disk \<Rightarrow> bool" where
  "stream_ready t dk \<longleftrightarrow> (case map_get (dk_streams dk) t of None \<Rightarrow> False | Some s \<Rightarrow> close_error s = None)"

definition stream_closed :: "nat \<Rightarrow> disk \<Rightarrow> bool" where
  "stream_closed t dk \<longleftrightarrow> (case map_get (dk_streams dk) t of None \<Rightarrow> False | Some s \<Rightarrow> st_closed s)"

lemmas stream_defs = stream_data_def stream_ready_def stream_closed_def

interpretation disk_sink: byte_sink "writeDownloadChunk t" "\<lambda>b. True" "\<lambda>b. b" "stream_data t" "stream_ready t" for t
  by unfold_locales
     (auto simp: disk_defs stream_defs map_get_set split: option.splits if_splits)

lemma write_other: "t' \<noteq> t \<Longrightarrow> map_get (dk_streams (snd (writeDownloadChunk t b dk))) t' = map_get (dk_streams dk) t'"
  by (simp add: writeDownloadChunk_def map_get_set split: option.split)

lemma close_ready:
  assumes "stream_ready t dk"
  shows "fst (closeDownloadTarget t dk) = None"
    and "stream_data t (snd (closeDownloadTarget t dk)) = stream_data t dk"
    and "stream_closed t (snd (closeDownloadTarget t dk))"
  using assms by (auto simp: disk_defs stream_defs map_get_set split: option.splits if_splits)

lemma open_picker_ready:
  "openSaveFilePicker PickerOpens dk = (Picked t, dk') \<Longrightarrow> stream_ready t dk' \<and> stream_data t dk' = []"
  by (auto simp: openSaveFilePicker_def stream_defs close_error_def stream_error_def map_get_set)

text \<open>
  What was saved under a name or through a stream: the outcome of \<open>saveDownload\<close> when nothing
  fails.
\<close>

lemma write_and_close_ready:
  assumes "stream_ready t dk"
  shows "fst (write_and_close t data dk) = None"
    and "stream_data t (snd (write_and_close t data dk)) = stream_data t dk @ data"
    and "stream_closed t (snd (write_and_close t data dk))"
  using disk_sink.put_pair [OF assms TrueI, of data] disk_sink.put_ready [OF assms TrueI, of data]
    disk_sink.put_contents [OF assms TrueI, of data] close_ready [of t "snd (writeDownloadChunk t data dk)"]
  by (auto simp: write_and_close_def split: prod.splits option.splits)

section \<open>Properties of folder plans\<close>

text \<open>The files of the folder that are to be uploaded.\<close>

definition in_folder :: "string \<Rightarrow> bool \<Rightarrow> jsfile \<Rightarrow> bool" where
  "in_folder rootName includeHidden f \<longleftrightarrow>
     (\<exists>rel. relativePath f = rootName @ ''/'' @ rel \<and> rel \<noteq> '''' \<and> (includeHidden \<or> \<not> hasHiddenPathSegment rel))"

lemma pick_folder_files: "map fst (pick_folder r h fs) = filter (in_folder r h) fs"
  by (induction fs) (auto simp: Let_def in_folder_def starts_with_def prefix_def)

lemma pick_folder_names:
  "(f, rel) \<in> set (pick_folder r h fs) \<Longrightarrow> relativePath f = r @ ''/'' @ rel"
  by (induction fs) (auto simp: Let_def starts_with_def prefix_def split: if_splits)

lemma sorted_key_map:
  "Sorting_Algorithms.sorted (key g cmp) xs \<Longrightarrow> Sorting_Algorithms.sorted cmp (map g xs)"
  by (induction "key g cmp" xs rule: Sorting_Algorithms.sorted.induct) auto

text \<open>
  The plan for a folder upload contains exactly the picked files below the folder's root,
  without the hidden ones unless they are wanted; every file is paired with its own path
  below the root, the paths are in the order of the user's locale, and the announced total
  is the sum of the sizes.
\<close>

theorem folder_plan_correct:
  assumes "buildFolderUploadPlan cmp files includeHidden = Some plan"
  shows "mset (fp_files plan) = mset (filter (in_folder (fp_folderName plan) includeHidden) files)
    \<and> list_all2 (\<lambda>f rel. relativePath f = fp_folderName plan @ ''/'' @ rel) (fp_files plan) (fp_relativeNames plan)
    \<and> Sorting_Algorithms.sorted cmp (fp_relativeNames plan)
    \<and> fp_totalSize plan = sum_list (map fl_size (fp_files plan))"
proof -
  let ?r = "folderRootName files"
  let ?ps = "Sorting_Algorithms.sort (key snd cmp) (pick_folder ?r includeHidden files)"
  have plan: "plan = \<lparr>fp_folderName = ?r, fp_files = map fst ?ps, fp_relativeNames = map snd ?ps,
      fp_totalSize = sum_list (map (\<lambda>p. fl_size (fst p)) ?ps)\<rparr>"
    using assms by (auto simp: buildFolderUploadPlan_def Let_def split: if_splits)
  have "mset (map fst ?ps) = mset (map fst (pick_folder ?r includeHidden files))"
    by (simp only: mset_map mset_sort)
  then have "mset (map fst ?ps) = mset (filter (in_folder ?r includeHidden) files)"
    by (simp only: pick_folder_files)
  moreover have "list_all2 (\<lambda>f rel. relativePath f = ?r @ ''/'' @ rel) (map fst ?ps) (map snd ?ps)"
    by (auto simp only: list.rel_map list_all2_same set_sort fst_conv snd_conv dest!: pick_folder_names)
  moreover have "Sorting_Algorithms.sorted cmp (map snd ?ps)"
    by (rule sorted_key_map) (rule sorted_sort)
  moreover have "sum_list (map (\<lambda>p. fl_size (fst p)) ?ps) = sum_list (map fl_size (map fst ?ps))"
    by (simp add: o_def)
  ultimately show ?thesis by (simp add: plan)
qed

definition sample_files :: "jsfile list" where
  "sample_files =
     [\<lparr>fl_name = ''b'', fl_webkitRelativePath = ''d/b'', fl_lastModified = 5000, fl_data = [1, 2]\<rparr>,
      \<lparr>fl_name = ''.h'', fl_webkitRelativePath = ''d/.h'', fl_lastModified = 7000, fl_data = [3]\<rparr>]"

theorem folder_plan_correct_witness:
  "\<exists>plan. buildFolderUploadPlan flat sample_files False = Some plan
     \<and> mset (fp_files plan) = {#hd sample_files#} \<and> fp_totalSize plan = 2"
proof -
  let ?b = "hd sample_files"
  have p: "buildFolderUploadPlan flat sample_files False = Some \<lparr>fp_folderName = ''d'', fp_files = [?b],
      fp_relativeNames = [''b''], fp_totalSize = 2\<rparr>"
    by (simp add: buildFolderUploadPlan_def sample_files_def Let_def relativePath_def substr_def
        starts_with_def hasHiddenPathSegment_def fl_size_def)
  have "map fst (pick_folder ''d'' False sample_files) = [?b]"
    by (simp add: sample_files_def relativePath_def starts_with_def hasHiddenPathSegment_def Let_def)
  then have "filter (in_folder ''d'' False) sample_files = [?b]" by (simp only: pick_folder_files)
  with folder_plan_correct [OF p] p show ?thesis by auto
qed

end
