(* ===== verification/Ft_Zip.thy ===== *)
theory Ft_Zip
  imports Ft_Browser_IO Environment Binary_Helper Js_Text
begin

text \<open>
  \<open>flutter/js/src/connections/ft/ft_zip_stream.ts\<close> and \<open>ft_folder_zip.ts\<close>: folder downloads
  as a zip, written to the save target while the blocks arrive, or built in memory at the
  end.  The zip encoder of fflate is the parameter \<open>zip_emit\<close>: what one call emits, given the
  calls before it.  The chain of write promises is the queue of writes that have not run yet.
\<close>

definition zipEntryPath :: "string \<Rightarrow> string \<Rightarrow> string" where
  "zipEntryPath rootName relName =
     (let rel = dropWhile (\<lambda>c. c = CHR ''/'') (replace_char (CHR 0x5C) CHR ''/'' relName)
      in if rel = '''' then rootName else rootName @ ''/'' @ rel)"

section \<open>The streaming writer\<close>

record zip_streamer =
  z_target :: nat
  z_root :: string
  z_calls :: "zip_call list"
  z_chain :: "(bytes \<times> bool) list"
  z_currentEntry :: bool
  z_currentFileNum :: "int option"
  z_settled :: bool
  z_finished :: promise

definition newFolderZipStreamer :: "nat \<Rightarrow> string \<Rightarrow> zip_streamer" where
  "newFolderZipStreamer target rootName =
     \<lparr>z_target = target, z_root = rootName, z_calls = [], z_chain = [], z_currentEntry = False,
      z_currentFileNum = None, z_settled = False, z_finished = Pending\<rparr>"

text \<open>The \<open>ondata\<close> callback.\<close>

fun zip_ondata :: "zip_data \<Rightarrow> zip_streamer \<Rightarrow> zip_streamer" where
  "zip_ondata (ZipError err) z =
     (if z_settled z then z else z\<lparr>z_settled := True, z_finished := settle (z_finished z) (Rejected err)\<rparr>)"
| "zip_ondata (ZipChunk chunk final) z =
     (if z_settled z then z else z\<lparr>z_chain := z_chain z @ [(chunk, final)]\<rparr>)"

definition zip_apply :: "env \<Rightarrow> zip_call \<Rightarrow> zip_streamer \<Rightarrow> zip_streamer" where
  "zip_apply E call z =
     fold zip_ondata (zip_emit E (z_calls z) call) (z\<lparr>z_calls := z_calls z @ [call]\<rparr>)"

text \<open>
  The next link of the chain runs: the write, then for the final chunk the close; a failure is
  reported only while the writer is not settled, and the final chunk settles it before closing.
\<close>

definition zip_run_write :: "bytes \<times> bool \<Rightarrow> zip_streamer \<times> disk \<Rightarrow> zip_streamer \<times> disk" where
  "zip_run_write w s =
     (let (chunk, final) = w; (z, dk) = s
      in case writeDownloadChunk (z_target z) chunk dk of
           (Some e, dk1) \<Rightarrow>
             (if z_settled z then (z, dk1)
              else (z\<lparr>z_settled := True, z_finished := settle (z_finished z) (Rejected e)\<rparr>, dk1))
         | (None, dk1) \<Rightarrow>
             (if final then
                (let z1 = z\<lparr>z_settled := True\<rparr>
                 in case closeDownloadTarget (z_target z) dk1 of
                      (Some e, dk2) \<Rightarrow> (z1, dk2)
                    | (None, dk2) \<Rightarrow> (z1\<lparr>z_finished := settle (z_finished z1) Resolved\<rparr>, dk2))
              else (z, dk1)))"

definition zip_tick :: "zip_streamer \<times> disk \<Rightarrow> zip_streamer \<times> disk" where
  "zip_tick s =
     (case z_chain (fst s) of
        [] \<Rightarrow> s
      | w # rest \<Rightarrow> zip_run_write w ((fst s)\<lparr>z_chain := rest\<rparr>, snd s))"

text \<open>\<open>await this.writeChain\<close>: every write queued so far has run.\<close>

definition zip_drain :: "zip_streamer \<times> disk \<Rightarrow> zip_streamer \<times> disk" where
  "zip_drain s = fold zip_run_write (z_chain (fst s)) ((fst s)\<lparr>z_chain := []\<rparr>, snd s)"

definition finishCurrentEntry :: "env \<Rightarrow> zip_streamer \<times> disk \<Rightarrow> zip_streamer \<times> disk" where
  "finishCurrentEntry E s =
     (if \<not> z_currentEntry (fst s) then s
      else zip_drain ((zip_apply E (ZipPush [] True) (fst s))
             \<lparr>z_currentEntry := False, z_currentFileNum := None\<rparr>, snd s))"

definition missing_entry :: "int \<Rightarrow> unknown" where
  "missing_entry fileNum = UError ''Error'' (''Missing folder entry for file_num '' @ js_int_string fileNum)"

definition startEntry ::
    "env \<Rightarrow> int \<Rightarrow> FileEntry list \<Rightarrow> zip_streamer \<Rightarrow> unknown option \<times> zip_streamer" where
  "startEntry E fileNum files z =
     (case js_at files fileNum of
        None \<Rightarrow> (Some (missing_entry fileNum), z)
      | Some entry \<Rightarrow>
          (if FileEntry_name entry = '''' then (Some (missing_entry fileNum), z)
           else (None, (zip_apply E (ZipAdd (zipEntryPath (z_root z) (FileEntry_name entry))) z)
                   \<lparr>z_currentEntry := True, z_currentFileNum := Some fileNum\<rparr>)))"

definition zip_appendBlock ::
    "env \<Rightarrow> int \<Rightarrow> bytes \<Rightarrow> FileEntry list \<Rightarrow> zip_streamer \<times> disk \<Rightarrow> unknown option \<times> zip_streamer \<times> disk" where
  "zip_appendBlock E fileNum bs files s =
     (if z_currentFileNum (fst s) \<noteq> Some fileNum then
        (let (z, dk) = finishCurrentEntry E s
         in case startEntry E fileNum files z of
              (Some e, z1) \<Rightarrow> (Some e, z1, dk)
            | (None, z1) \<Rightarrow> (None, zip_apply E (ZipPush bs False) z1, dk))
      else (None, zip_apply E (ZipPush bs False) (fst s), snd s))"

text \<open>\<open>finish\<close>: \<open>FinishNever\<close> is a promise that is never settled.\<close>

datatype finish_result = FinishOk | FinishThrew unknown | FinishNever

definition zip_finish :: "env \<Rightarrow> zip_streamer \<times> disk \<Rightarrow> finish_result \<times> zip_streamer \<times> disk" where
  "zip_finish E s =
     (let (z, dk) = finishCurrentEntry E s;
          (z1, dk1) = zip_drain (zip_apply E ZipEnd z, dk)
      in (case z_finished z1 of
            Resolved \<Rightarrow> FinishOk
          | Rejected e \<Rightarrow> FinishThrew e
          | Pending \<Rightarrow> FinishNever, z1, dk1))"

section \<open>The zip built in memory\<close>

fun zip_entries ::
    "string \<Rightarrow> FileEntry list \<Rightarrow> (int \<Rightarrow> bytes list) \<Rightarrow> int \<Rightarrow> (string, bytes) jsmap \<Rightarrow> (string, bytes) jsmap" where
  "zip_entries rootName [] chunksFor i acc = acc"
| "zip_entries rootName (f # fs) chunksFor i acc =
     zip_entries rootName fs chunksFor (i + 1)
       (if FileEntry_name f = '''' then acc
        else map_set (zipEntryPath rootName (FileEntry_name f)) (nullish (concatChunks (chunksFor i)) []) acc)"

definition buildFolderZipFromChunks ::
    "env \<Rightarrow> string \<Rightarrow> FileEntry list \<Rightarrow> (int \<Rightarrow> bytes list) \<Rightarrow> bytes" where
  "buildFolderZipFromChunks E rootName files chunksFor =
     zip_sync E (zip_entries (str_or rootName ''download'') files chunksFor 0 [])"

definition folderDownloadFilename :: "string \<Rightarrow> string" where
  "folderDownloadFilename fileName = str_or fileName ''download'' @ ''.zip''"

section \<open>What the streamed zip contains\<close>

text \<open>
  What the sources rely on in the zip encoder: until \<open>end\<close> it emits data that is not final,
  and \<open>end\<close> emits data of which exactly the last piece is final.
\<close>

definition zip_laws :: "env \<Rightarrow> bool" where
  "zip_laws E \<longleftrightarrow>
     (\<forall>calls c. ZipEnd \<notin> set calls \<longrightarrow> c \<noteq> ZipEnd \<longrightarrow>
        (\<exists>bs. zip_emit E calls c = map (\<lambda>b. ZipChunk b False) bs))
     \<and> (\<forall>calls. ZipEnd \<notin> set calls \<longrightarrow>
        (\<exists>bs b. zip_emit E calls ZipEnd = map (\<lambda>b. ZipChunk b False) bs @ [ZipChunk b True]))"

lemma plain_env_zip: "zip_laws plain_env"
proof -
  have "\<exists>bs. plain_zip calls c = map (\<lambda>b. ZipChunk b False) bs" if "c \<noteq> ZipEnd" for calls c
    using that by (cases c) (auto intro: exI [of _ "[]"] exI [of _ "[_]"])
  then show ?thesis by (auto simp: zip_laws_def plain_env_def intro: exI [of _ "[]"])
qed

fun zip_bytes :: "zip_data list \<Rightarrow> bytes" where
  "zip_bytes [] = []"
| "zip_bytes (ZipChunk b final # ds) = b @ zip_bytes ds"
| "zip_bytes (ZipError e # ds) = zip_bytes ds"

text \<open>The file a sequence of calls produces.\<close>

fun zip_file :: "env \<Rightarrow> zip_call list \<Rightarrow> zip_call list \<Rightarrow> bytes" where
  "zip_file E before [] = []"
| "zip_file E before (c # cs) = zip_bytes (zip_emit E before c) @ zip_file E (before @ [c]) cs"

lemma zip_bytes_append: "zip_bytes (ds @ es) = zip_bytes ds @ zip_bytes es"
  by (induction ds rule: zip_bytes.induct) simp_all

lemma zip_bytes_chunks: "zip_bytes (map (\<lambda>b. ZipChunk b False) bs) = concat bs"
  by (induction bs) simp_all

lemma zip_file_append: "zip_file E before (cs @ ds) = zip_file E before cs @ zip_file E (before @ cs) ds"
  by (induction cs arbitrary: before) simp_all

text \<open>
  The state of a writer that has not failed: what has been written and what is waiting to be
  written make up the file produced so far.
\<close>

definition zip_good :: "env \<Rightarrow> bytes \<Rightarrow> zip_streamer \<times> disk \<Rightarrow> bool" where
  "zip_good E d0 s \<longleftrightarrow>
     \<not> z_settled (fst s) \<and> z_finished (fst s) = Pending \<and> ZipEnd \<notin> set (z_calls (fst s))
     \<and> stream_ready (z_target (fst s)) (snd s)
     \<and> (\<forall>w \<in> set (z_chain (fst s)). \<not> snd w)
     \<and> stream_data (z_target (fst s)) (snd s) @ concat (map fst (z_chain (fst s)))
         = d0 @ zip_file E [] (z_calls (fst s))"

lemma zip_good_current [simp]:
  "zip_good E d0 (z\<lparr>z_currentEntry := a, z_currentFileNum := n\<rparr>, dk) = zip_good E d0 (z, dk)"
  by (simp add: zip_good_def)

lemma zip_ondata_chunks:
  "\<not> z_settled z \<Longrightarrow> fold zip_ondata (map (\<lambda>b. ZipChunk b False) bs) z
     = z\<lparr>z_chain := z_chain z @ map (\<lambda>b. (b, False)) bs\<rparr>"
  by (induction bs arbitrary: z) simp_all

lemma zip_apply_frame:
  "z_target (zip_apply E c z) = z_target z" "z_root (zip_apply E c z) = z_root z"
  "z_calls (zip_apply E c z) = z_calls z @ [c]"
  "z_currentEntry (zip_apply E c z) = z_currentEntry z"
  "z_currentFileNum (zip_apply E c z) = z_currentFileNum z"
proof -
  have "z_target (fold zip_ondata ds z) = z_target z \<and> z_root (fold zip_ondata ds z) = z_root z
      \<and> z_calls (fold zip_ondata ds z) = z_calls z \<and> z_currentEntry (fold zip_ondata ds z) = z_currentEntry z
      \<and> z_currentFileNum (fold zip_ondata ds z) = z_currentFileNum z" for ds z
  proof (induction ds arbitrary: z)
    case (Cons d ds)
    then show ?case by (cases d) simp_all
  qed simp
  then show "z_target (zip_apply E c z) = z_target z" "z_root (zip_apply E c z) = z_root z"
    "z_calls (zip_apply E c z) = z_calls z @ [c]"
    "z_currentEntry (zip_apply E c z) = z_currentEntry z"
    "z_currentFileNum (zip_apply E c z) = z_currentFileNum z"
    by (simp_all add: zip_apply_def)
qed

lemma zip_good_apply:
  assumes "zip_laws E" "zip_good E d0 (z, dk)" "c \<noteq> ZipEnd"
  shows "zip_good E d0 (zip_apply E c z, dk)"
proof -
  have "ZipEnd \<notin> set (z_calls z)" using assms(2) by (simp add: zip_good_def)
  then obtain bs where bs: "zip_emit E (z_calls z) c = map (\<lambda>b. ZipChunk b False) bs"
    using assms(1,3) unfolding zip_laws_def by blast
  have "zip_apply E c z = z\<lparr>z_calls := z_calls z @ [c], z_chain := z_chain z @ map (\<lambda>b. (b, False)) bs\<rparr>"
    using assms(2) by (simp add: zip_apply_def bs zip_ondata_chunks zip_good_def)
  then show ?thesis
    using assms(2,3) by (auto simp: zip_good_def zip_file_append bs zip_bytes_chunks o_def)
qed

lemma list_all_True: "list_all (\<lambda>x. True) xs"
  by (simp add: list_all_iff)

lemma zip_run_write_ready:
  assumes "stream_ready (z_target z) dk"
  shows "zip_run_write (b, False) (z, dk) = (z, snd (writeDownloadChunk (z_target z) b dk))"
  using disk_sink.put_pair [OF assms TrueI, of b] by (auto simp: zip_run_write_def split: prod.split)

lemma zip_good_tick: "zip_good E d0 s \<Longrightarrow> zip_good E d0 (zip_tick s)"
proof (cases "z_chain (fst s)")
  case (Cons w rest)
  obtain z dk where s: "s = (z, dk)" by (cases s)
  obtain b where w: "w = (b, snd w)" by (cases w) auto
  assume g: "zip_good E d0 s"
  then have f: "w = (b, False)" and r: "stream_ready (z_target z) dk"
    using Cons w by (auto simp: zip_good_def s)
  have "zip_tick s = (z\<lparr>z_chain := rest\<rparr>, snd (writeDownloadChunk (z_target z) b dk))"
    using Cons zip_run_write_ready [of "z\<lparr>z_chain := rest\<rparr>" dk b] r by (simp add: zip_tick_def s f)
  with g Cons show ?thesis
    using disk_sink.put_ready [OF r TrueI] disk_sink.put_contents [OF r TrueI]
    by (simp add: zip_good_def s f)
qed (simp add: zip_tick_def)

lemma zip_drain_nonfinal:
  assumes "stream_ready (z_target z) dk" "\<forall>w \<in> set ws. \<not> snd w"
  shows "fold zip_run_write ws (z, dk) = (z, fold (\<lambda>b d. snd (writeDownloadChunk (z_target z) b d)) (map fst ws) dk)"
  using assms
proof (induction ws arbitrary: dk)
  case (Cons w ws)
  then obtain b where "w = (b, False)" by (cases w) auto
  with Cons show ?case
    using disk_sink.put_ready by (simp add: zip_run_write_ready)
qed simp

lemma zip_good_drain: "zip_good E d0 s \<Longrightarrow> zip_good E d0 (zip_drain s) \<and> z_chain (fst (zip_drain s)) = []
    \<and> fst (zip_drain s) = (fst s)\<lparr>z_chain := []\<rparr>"
proof -
  assume g: "zip_good E d0 s"
  obtain z dk where s: "s = (z, dk)" by (cases s)
  have r: "stream_ready (z_target z) dk" and nf: "\<forall>w \<in> set (z_chain z). \<not> snd w"
    using g by (auto simp: zip_good_def s)
  have "zip_drain s = (z\<lparr>z_chain := []\<rparr>,
      fold (\<lambda>b d. snd (writeDownloadChunk (z_target z) b d)) (map fst (z_chain z)) dk)"
    using zip_drain_nonfinal [of "z\<lparr>z_chain := []\<rparr>" dk "z_chain z"] r nf by (simp add: zip_drain_def s)
  then show ?thesis
    using g disk_sink.put_all_ready [OF r list_all_True] disk_sink.put_all_contents [OF r list_all_True]
    by (simp add: zip_good_def s)
qed

text \<open>The calls a sequence of blocks amounts to, given the file whose entry is open.\<close>

definition entry_name :: "FileEntry list \<Rightarrow> int \<Rightarrow> string" where
  "entry_name files n = (case js_at files n of None \<Rightarrow> '''' | Some f \<Rightarrow> FileEntry_name f)"

definition close_calls :: "int option \<Rightarrow> zip_call list" where
  "close_calls cur = (if cur = None then [] else [ZipPush [] True])"

definition open_calls :: "string \<Rightarrow> FileEntry list \<Rightarrow> int option \<Rightarrow> int \<Rightarrow> zip_call list" where
  "open_calls r files cur n =
     (if cur = Some n then [] else close_calls cur @ [ZipAdd (zipEntryPath r (entry_name files n))])"

fun block_calls :: "string \<Rightarrow> FileEntry list \<Rightarrow> int option \<Rightarrow> (int \<times> bytes) list \<Rightarrow> zip_call list" where
  "block_calls r files cur [] = close_calls cur"
| "block_calls r files cur ((n, b) # bs) =
     open_calls r files cur n @ ZipPush b False # block_calls r files (Some n) bs"

definition zip_current :: "zip_streamer \<Rightarrow> bool" where
  "zip_current z \<longleftrightarrow> (z_currentEntry z \<longleftrightarrow> z_currentFileNum z \<noteq> None)"

lemma finishCurrentEntry_good:
  assumes "zip_laws E" "zip_good E d0 s" "zip_current (fst s)"
  defines "s' \<equiv> finishCurrentEntry E s"
  shows "zip_good E d0 s' \<and> z_target (fst s') = z_target (fst s) \<and> z_root (fst s') = z_root (fst s)
    \<and> z_calls (fst s') = z_calls (fst s) @ close_calls (z_currentFileNum (fst s))
    \<and> \<not> z_currentEntry (fst s') \<and> z_currentFileNum (fst s') = None"
proof -
  obtain z dk where s: "s = (z, dk)" by (cases s)
  show ?thesis
  proof (cases "z_currentEntry z")
    case True
    let ?z = "(zip_apply E (ZipPush [] True) z)\<lparr>z_currentEntry := False, z_currentFileNum := None\<rparr>"
    have "zip_good E d0 (?z, dk)"
      using zip_good_apply [OF assms(1), of d0 z dk "ZipPush [] True"] assms(2) by (simp add: s)
    from zip_good_drain [OF this] True assms(3) show ?thesis
      by (auto simp: s'_def finishCurrentEntry_def s close_calls_def zip_current_def zip_apply_frame)
  next
    case False
    then have "z_currentFileNum z = None" using assms(3) by (simp add: zip_current_def s)
    with False assms(2) show ?thesis
      by (simp add: s'_def finishCurrentEntry_def s close_calls_def)
  qed
qed

lemma zip_appendBlock_good:
  assumes "zip_laws E" "zip_good E d0 s" "zip_current (fst s)" "entry_name files n \<noteq> ''''"
  obtains s' where "zip_appendBlock E n b files s = (None, s')" "zip_good E d0 s'" "zip_current (fst s')"
    "z_target (fst s') = z_target (fst s)" "z_root (fst s') = z_root (fst s)" "z_currentFileNum (fst s') = Some n"
    "z_calls (fst s') = z_calls (fst s) @ open_calls (z_root (fst s)) files (z_currentFileNum (fst s)) n @ [ZipPush b False]"
proof -
  obtain z dk where s: "s = (z, dk)" by (cases s)
  show thesis
  proof (cases "z_currentFileNum z = Some n")
    case True
    have "zip_good E d0 (zip_apply E (ZipPush b False) z, dk)"
      using zip_good_apply [OF assms(1)] assms(2) by (simp add: s)
    with True assms(3) show thesis
      by (intro that [of "(zip_apply E (ZipPush b False) z, dk)"])
         (simp_all add: zip_appendBlock_def s zip_apply_frame open_calls_def zip_current_def)
  next
    case False
    obtain z1 dk1 where f: "finishCurrentEntry E s = (z1, dk1)" by fastforce
    note g = finishCurrentEntry_good [OF assms(1-3), unfolded f fst_conv]
    obtain e where e: "js_at files n = Some e" "FileEntry_name e \<noteq> ''''" "entry_name files n = FileEntry_name e"
      using assms(4) by (auto simp: entry_name_def split: option.splits)
    let ?z2 = "(zip_apply E (ZipAdd (zipEntryPath (z_root z1) (FileEntry_name e))) z1)
        \<lparr>z_currentEntry := True, z_currentFileNum := Some n\<rparr>"
    have "zip_good E d0 (?z2, dk1)"
      using zip_good_apply [OF assms(1) conjunct1 [OF g]] by simp
    then have "zip_good E d0 (zip_apply E (ZipPush b False) ?z2, dk1)"
      by (intro zip_good_apply [OF assms(1)]) simp_all
    with False f e g show thesis
      by (intro that [of "(zip_apply E (ZipPush b False) ?z2, dk1)"])
         (simp_all add: zip_appendBlock_def startEntry_def s zip_apply_frame open_calls_def zip_current_def)
  qed
qed

text \<open>Blocks arrive while queued writes complete at any time in between.\<close>

datatype zip_event = ZBlock int bytes | ZWrite

fun zip_events :: "env \<Rightarrow> FileEntry list \<Rightarrow> zip_event list \<Rightarrow> zip_streamer \<times> disk \<Rightarrow> (zip_streamer \<times> disk) option" where
  "zip_events E files [] s = Some s"
| "zip_events E files (ZWrite # es) s = zip_events E files es (zip_tick s)"
| "zip_events E files (ZBlock n b # es) s =
     (case zip_appendBlock E n b files s of (None, s') \<Rightarrow> zip_events E files es s' | (Some e, s') \<Rightarrow> None)"

fun event_blocks :: "zip_event list \<Rightarrow> (int \<times> bytes) list" where
  "event_blocks [] = []"
| "event_blocks (ZWrite # es) = event_blocks es"
| "event_blocks (ZBlock n b # es) = (n, b) # event_blocks es"

lemma zip_run_write_frame:
  "z_target (fst (zip_run_write w s)) = z_target (fst s)"
  "z_root (fst (zip_run_write w s)) = z_root (fst s)"
  "z_calls (fst (zip_run_write w s)) = z_calls (fst s)"
  "z_currentFileNum (fst (zip_run_write w s)) = z_currentFileNum (fst s)"
  "z_currentEntry (fst (zip_run_write w s)) = z_currentEntry (fst s)"
  by (cases s; cases w; auto simp: zip_run_write_def Let_def split: prod.splits option.splits if_splits)+

lemma zip_tick_frame:
  "z_target (fst (zip_tick s)) = z_target (fst s)" "z_root (fst (zip_tick s)) = z_root (fst s)"
  "z_calls (fst (zip_tick s)) = z_calls (fst s)"
  "z_currentFileNum (fst (zip_tick s)) = z_currentFileNum (fst s)"
  "zip_current (fst (zip_tick s)) = zip_current (fst s)"
  by (simp_all add: zip_tick_def zip_current_def zip_run_write_frame split: list.split)

lemma zip_events_good:
  assumes "zip_laws E" "zip_good E d0 s" "zip_current (fst s)"
    and "\<forall>p \<in> set (event_blocks es). entry_name files (fst p) \<noteq> ''''"
  shows "\<exists>s'. zip_events E files es s = Some s' \<and> zip_good E d0 s' \<and> zip_current (fst s')
    \<and> z_target (fst s') = z_target (fst s)
    \<and> z_calls (fst s') @ close_calls (z_currentFileNum (fst s'))
        = z_calls (fst s) @ block_calls (z_root (fst s)) files (z_currentFileNum (fst s)) (event_blocks es)"
  using assms(2-)
proof (induction es arbitrary: s)
  case Nil
  then show ?case by simp
next
  case (Cons e es)
  show ?case
  proof (cases e)
    case ZWrite
    then show ?thesis
      using Cons.IH [of "zip_tick s"] Cons.prems zip_good_tick by (simp add: zip_tick_frame)
  next
    case (ZBlock n b)
    then have "entry_name files n \<noteq> ''''" using Cons.prems by simp
    then obtain s1 where s1: "zip_appendBlock E n b files s = (None, s1)" "zip_good E d0 s1" "zip_current (fst s1)"
      "z_target (fst s1) = z_target (fst s)" "z_root (fst s1) = z_root (fst s)" "z_currentFileNum (fst s1) = Some n"
      "z_calls (fst s1) = z_calls (fst s) @ open_calls (z_root (fst s)) files (z_currentFileNum (fst s)) n @ [ZipPush b False]"
      using zip_appendBlock_good [OF assms(1) Cons.prems(1,2)] by blast
    with Cons.IH [of s1] Cons.prems ZBlock show ?thesis by simp
  qed
qed

lemma zip_run_final:
  fixes b :: bytes
  assumes "stream_ready (z_target z) dk" "z_finished z = Pending"
  defines "s' \<equiv> zip_run_write (b, True) (z, dk)"
  shows "z_finished (fst s') = Resolved \<and> stream_closed (z_target z) (snd s')
    \<and> stream_data (z_target z) (snd s') = stream_data (z_target z) dk @ b"
proof -
  obtain dk1 where w: "writeDownloadChunk (z_target z) b dk = (None, dk1)"
    using disk_sink.put_pair [OF assms(1) TrueI] by blast
  have r: "stream_ready (z_target z) dk1" and c: "stream_data (z_target z) dk1 = stream_data (z_target z) dk @ b"
    using disk_sink.put_ready [OF assms(1) TrueI, of b] disk_sink.put_contents [OF assms(1) TrueI, of b] by (simp_all add: w)
  obtain dk2 where d: "closeDownloadTarget (z_target z) dk1 = (None, dk2)"
    using close_ready(1) [OF r] by (cases "closeDownloadTarget (z_target z) dk1") auto
  have "s' = (z\<lparr>z_settled := True, z_finished := Resolved\<rparr>, dk2)"
    using assms(2) by (simp add: s'_def zip_run_write_def w d settle_def)
  then show ?thesis using close_ready(2,3) [OF r] c by (simp add: d)
qed

lemma zip_finish_good:
  assumes "zip_laws E" "zip_good E d0 s" "zip_current (fst s)"
  shows "\<exists>s'. zip_finish E s = (FinishOk, s') \<and> stream_closed (z_target (fst s)) (snd s')
    \<and> stream_data (z_target (fst s)) (snd s')
        = d0 @ zip_file E [] (z_calls (fst s) @ close_calls (z_currentFileNum (fst s)) @ [ZipEnd])"
proof -
  obtain z dk where f: "finishCurrentEntry E s = (z, dk)" by fastforce
  note g = finishCurrentEntry_good [OF assms, unfolded f fst_conv]
  have zg: "\<not> z_settled z" "z_finished z = Pending" "\<forall>w \<in> set (z_chain z). \<not> snd w"
    "stream_data (z_target z) dk @ concat (map fst (z_chain z)) = d0 @ zip_file E [] (z_calls z)"
    and r: "stream_ready (z_target z) dk" and "ZipEnd \<notin> set (z_calls z)"
    using conjunct1 [OF g] by (simp_all add: zip_good_def)
  then obtain bs b where bs: "zip_emit E (z_calls z) ZipEnd = map (\<lambda>b. ZipChunk b False) bs @ [ZipChunk b True]"
    using assms(1) unfolding zip_laws_def by blast
  let ?ws = "z_chain z @ map (\<lambda>b. (b, False)) bs"
  let ?z = "z\<lparr>z_calls := z_calls z @ [ZipEnd], z_chain := []\<rparr>"
  let ?dk = "fold (\<lambda>b d. snd (writeDownloadChunk (z_target z) b d)) (map fst ?ws) dk"
  have "zip_apply E ZipEnd z = z\<lparr>z_calls := z_calls z @ [ZipEnd], z_chain := ?ws @ [(b, True)]\<rparr>"
    using zg by (simp add: zip_apply_def bs zip_ondata_chunks)
  moreover have "\<forall>w \<in> set ?ws. \<not> snd w" using zg(3) by auto
  then have "fold zip_run_write ?ws (?z, dk) = (?z, ?dk)"
    using r zip_drain_nonfinal [of ?z dk ?ws] by simp
  ultimately have d: "zip_drain (zip_apply E ZipEnd z, dk) = zip_run_write (b, True) (?z, ?dk)"
    by (simp add: zip_drain_def)
  have "stream_ready (z_target ?z) ?dk" "z_finished ?z = Pending"
    using disk_sink.put_all_ready [OF r list_all_True, of "map fst ?ws"] zg by simp_all
  note fin = zip_run_final [OF this, of b]
  have "stream_data (z_target z) ?dk @ b = d0 @ zip_file E [] (z_calls z @ [ZipEnd])"
    using zg(4) disk_sink.put_all_contents [OF r list_all_True, of "map fst ?ws"]
    by (simp add: zip_file_append bs zip_bytes_append zip_bytes_chunks o_def)
  with fin g show ?thesis
    by (auto simp: zip_finish_def f d split: prod.splits)
qed

text \<open>
  C21: a folder download that is streamed to disk: however the arriving blocks and the
  completing writes interleave, as long as every block belongs to a named entry and the disk
  accepts the writes, finishing succeeds and the closed file holds exactly the zip of the
  calls that open an entry per file, push its blocks in order and end the archive.
\<close>

theorem folder_zip_streamed:
  assumes "zip_laws E" and "stream_ready t dk"
    and "\<forall>p \<in> set (event_blocks es). entry_name files (fst p) \<noteq> ''''"
  shows "\<exists>s s'. zip_events E files es (newFolderZipStreamer t r, dk) = Some s
    \<and> zip_finish E s = (FinishOk, s')
    \<and> stream_closed t (snd s')
    \<and> stream_data t (snd s')
        = stream_data t dk @ zip_file E [] (block_calls r files None (event_blocks es) @ [ZipEnd])"
proof -
  let ?s0 = "(newFolderZipStreamer t r, dk)"
  have g: "zip_good E (stream_data t dk) ?s0" "zip_current (fst ?s0)"
    using assms(2) by (simp_all add: zip_good_def zip_current_def newFolderZipStreamer_def)
  obtain s where s: "zip_events E files es ?s0 = Some s" "zip_good E (stream_data t dk) s" "zip_current (fst s)"
    "z_target (fst s) = t"
    "z_calls (fst s) @ close_calls (z_currentFileNum (fst s)) = block_calls r files None (event_blocks es)"
    using zip_events_good [OF assms(1) g assms(3)] by (auto simp: newFolderZipStreamer_def)
  with zip_finish_good [OF assms(1) s(2,3)] show ?thesis
    by (simp flip: append_assoc)
qed

theorem folder_zip_streamed_witness:
  "\<exists>s s'. zip_events plain_env [createBaseFileEntry\<lparr>FileEntry_name := ''a''\<rparr>] [ZBlock 0 [1], ZWrite, ZBlock 0 [2]]
        (newFolderZipStreamer 5 ''d'',
         \<lparr>dk_streams = [(5, \<lparr>st_data = [], st_closed = False, st_failure = None, st_closeFailure = None\<rparr>)],
          dk_next = 6, dk_saved = []\<rparr>) = Some s
    \<and> zip_finish plain_env s = (FinishOk, s') \<and> stream_data 5 (snd s') = [1, 2]"
  using folder_zip_streamed [OF plain_env_zip, of 5
      "\<lparr>dk_streams = [(5, \<lparr>st_data = [], st_closed = False, st_failure = None, st_closeFailure = None\<rparr>)],
        dk_next = 6, dk_saved = []\<rparr>"
      "[ZBlock 0 [1], ZWrite, ZBlock 0 [2]]" "[createBaseFileEntry\<lparr>FileEntry_name := ''a''\<rparr>]" "''d''"]
  by (auto simp: stream_defs close_error_def stream_error_def entry_name_def open_calls_def close_calls_def
      plain_env_def)

section \<open>The entries of the archive\<close>

text \<open>The entries a sequence of calls puts into the archive, with their contents.\<close>

fun zip_view :: "zip_call list \<Rightarrow> (string \<times> bytes) list" where
  "zip_view [] = []"
| "zip_view (ZipAdd p # cs) = (p, concat (map (\<lambda>c. case c of ZipPush b _ \<Rightarrow> b | _ \<Rightarrow> []) 
     (takeWhile (\<lambda>c. case c of ZipPush _ _ \<Rightarrow> True | _ \<Rightarrow> False) cs))) # zip_view cs"
| "zip_view (ZipPush b f # cs) = zip_view cs"
| "zip_view (ZipEnd # cs) = zip_view cs"

definition pushes :: "bytes list \<Rightarrow> zip_call list" where
  "pushes bs = map (\<lambda>b. ZipPush b False) bs"

lemma zip_view_pushes: "zip_view (pushes bs @ cs) = zip_view cs"
  by (induction bs) (simp_all add: pushes_def)

lemma block_calls_run:
  "block_calls r files (Some n) (map (Pair n) bs @ rest) = pushes bs @ block_calls r files (Some n) rest"
  by (induction bs) (simp_all add: pushes_def open_calls_def)

text \<open>Blocks grouped by file, as the peer sends them.\<close>

definition grouped :: "(int \<times> bytes list) list \<Rightarrow> (int \<times> bytes) list" where
  "grouped gs = concat (map (\<lambda>(n, bs). map (Pair n) bs) gs)"

lemma takeWhile_pushes:
  "concat (map (\<lambda>c. case c of ZipPush b _ \<Rightarrow> b | _ \<Rightarrow> [])
     (takeWhile (\<lambda>c. case c of ZipPush _ _ \<Rightarrow> True | _ \<Rightarrow> False) (pushes bs @ ZipPush [] True # cs)))
   = concat bs @ concat (map (\<lambda>c. case c of ZipPush b _ \<Rightarrow> b | _ \<Rightarrow> [])
     (takeWhile (\<lambda>c. case c of ZipPush _ _ \<Rightarrow> True | _ \<Rightarrow> False) cs))"
  by (induction bs) (simp_all add: pushes_def)

text \<open>The calls after an entry has been closed never start with a push.\<close>

definition no_push :: "zip_call list \<Rightarrow> bool" where
  "no_push cs \<longleftrightarrow> takeWhile (\<lambda>c. case c of ZipPush _ _ \<Rightarrow> True | _ \<Rightarrow> False) cs = []"

lemma block_calls_grouped:
  assumes "list_all (\<lambda>g. snd g \<noteq> []) gs" "distinct (map fst gs)" "no_push tail"
    and "case cur of None \<Rightarrow> True | Some n \<Rightarrow> n \<notin> set (map fst gs)"
  shows "\<exists>cs. block_calls r files cur (grouped gs) @ tail = close_calls cur @ cs \<and> no_push cs
    \<and> zip_view cs = map (\<lambda>(n, bs). (zipEntryPath r (entry_name files n), concat bs)) gs @ zip_view tail"
  using assms
proof (induction gs arbitrary: cur)
  case Nil
  then show ?case by (simp add: grouped_def)
next
  case (Cons g gs)
  obtain n b bs where g: "g = (n, b # bs)" using Cons.prems(1) by (cases g; cases "snd g") auto
  obtain cs where cs: "block_calls r files (Some n) (grouped gs) @ tail = close_calls (Some n) @ cs" "no_push cs"
    "zip_view cs = map (\<lambda>(n, bs). (zipEntryPath r (entry_name files n), concat bs)) gs @ zip_view tail"
    using Cons.IH [of "Some n"] Cons.prems g by auto
  have "cur \<noteq> Some n" using Cons.prems(4) g by auto
  then have "block_calls r files cur (grouped (g # gs)) @ tail
      = close_calls cur @ ZipAdd (zipEntryPath r (entry_name files n)) # pushes (b # bs) @ ZipPush [] True # cs"
    using cs(1) block_calls_run [of r files n bs "grouped gs"]
    by (simp add: g grouped_def open_calls_def pushes_def close_calls_def)
  moreover have "zip_view (ZipAdd (zipEntryPath r (entry_name files n)) # pushes (b # bs) @ ZipPush [] True # cs)
      = (zipEntryPath r (entry_name files n), concat (b # bs)) # zip_view cs"
    using cs(2) by (simp only: zip_view.simps takeWhile_pushes zip_view_pushes) (simp add: no_push_def)
  moreover have "no_push (ZipAdd (zipEntryPath r (entry_name files n)) # pushes (b # bs) @ ZipPush [] True # cs)"
    by (simp add: no_push_def)
  ultimately show ?case using cs(3) g
    by (intro exI [of _ "ZipAdd (zipEntryPath r (entry_name files n)) # pushes (b # bs) @ ZipPush [] True # cs"])
       simp
qed

text \<open>
  The archive of a streamed folder download has one entry per file that sent data, in the
  order of arrival, under the folder's name and the file's path, with the file's blocks
  concatenated as its contents.
\<close>

theorem folder_zip_entries:
  assumes "list_all (\<lambda>g. snd g \<noteq> []) gs" and "distinct (map fst gs)"
  shows "zip_view (block_calls r files None (grouped gs) @ [ZipEnd])
       = map (\<lambda>(n, bs). (zipEntryPath r (entry_name files n), concat bs)) gs"
  using block_calls_grouped [OF assms, of "[ZipEnd]" None r files]
  by (auto simp: no_push_def close_calls_def)

theorem folder_zip_entries_witness:
  "zip_view (block_calls ''d'' [createBaseFileEntry\<lparr>FileEntry_name := ''a''\<rparr>, createBaseFileEntry\<lparr>FileEntry_name := ''b''\<rparr>]
      None (grouped [(0, [[1], [2]]), (1, [[3]])]) @ [ZipEnd]) = [(''d/a'', [1, 2]), (''d/b'', [3])]"
  using folder_zip_entries [of "[(0, [[1], [2]]), (1, [[3]])]" "''d''"
      "[createBaseFileEntry\<lparr>FileEntry_name := ''a''\<rparr>, createBaseFileEntry\<lparr>FileEntry_name := ''b''\<rparr>]"]
  by (simp add: zipEntryPath_def replace_char_def entry_name_def js_at_def createBaseFileEntry_def)

section \<open>The archive built in memory\<close>

text \<open>The named files of a listing, with their numbers from \<open>i\<close> on.\<close>

fun named_files :: "int \<Rightarrow> FileEntry list \<Rightarrow> (int \<times> FileEntry) list" where
  "named_files i [] = []"
| "named_files i (f # fs) = (if FileEntry_name f = '''' then [] else [(i, f)]) @ named_files (i + 1) fs"

definition entry_path :: "string \<Rightarrow> int \<times> FileEntry \<Rightarrow> string" where
  "entry_path r p = zipEntryPath r (FileEntry_name (snd p))"

lemma zip_entries_named:
  "distinct (map fst acc @ map (entry_path r) (named_files i files)) \<Longrightarrow>
     zip_entries r files chunksFor i acc
       = acc @ map (\<lambda>p. (entry_path r p, concat (chunksFor (fst p)))) (named_files i files)"
proof (induction r files chunksFor i acc rule: zip_entries.induct)
  case (2 r f fs chunksFor i acc)
  show ?case
  proof (cases "FileEntry_name f = ''''")
    case False
    let ?p = "zipEntryPath r (FileEntry_name f)"
    have "?p \<notin> set (map fst acc)" using 2(2) False by (auto simp: entry_path_def)
    then have "map_set ?p v acc = acc @ [(?p, v)]" for v
      by (intro map_set_new) (simp add: map_of_eq_None_iff)
    with 2 False show ?thesis
      by (simp add: entry_path_def concatChunks_concat)
  qed (use 2 in simp)
qed simp

text \<open>
  A folder download collected in memory is zipped with one entry for every named file of
  the listing, empty files included, holding the file's chunks concatenated.
\<close>

theorem folder_zip_in_memory:
  assumes "distinct (map (entry_path (str_or rootName ''download'')) (named_files 0 files))"
  shows "buildFolderZipFromChunks E rootName files chunksFor
       = zip_sync E (map (\<lambda>p. (entry_path (str_or rootName ''download'') p, concat (chunksFor (fst p))))
           (named_files 0 files))"
  using zip_entries_named [of "[]" "str_or rootName ''download''" 0 files chunksFor] assms
  by (simp add: buildFolderZipFromChunks_def)

theorem folder_zip_in_memory_witness:
  "buildFolderZipFromChunks plain_env '''' [createBaseFileEntry\<lparr>FileEntry_name := ''a''\<rparr>]
     (\<lambda>i. [[1], [2]]) = zip_sync plain_env [(''download/a'', [1, 2])]"
  using folder_zip_in_memory [of "''''" "[createBaseFileEntry\<lparr>FileEntry_name := ''a''\<rparr>]" plain_env "\<lambda>i. [[1], [2]]"]
  by (simp add: entry_path_def zipEntryPath_def replace_char_def)

section \<open>A close that fails\<close>

text \<open>
  When the last write succeeds and the close of the save target throws, the writer has already
  settled itself: the failure is dropped, \<open>finished\<close> stays pending and \<open>finish()\<close> never returns.
\<close>

lemma zip_finish_never:
  assumes "z_chain z = []" "\<not> z_currentEntry z" "\<not> z_settled z" "z_finished z = Pending"
    and "zip_emit E (z_calls z) ZipEnd = [ZipChunk b True]"
    and "writeDownloadChunk (z_target z) b dk = (None, dk1)"
    and "closeDownloadTarget (z_target z) dk1 = (Some e, dk2)"
  shows "fst (zip_finish E (z, dk)) = FinishNever"
  using assms
  by (simp add: zip_finish_def finishCurrentEntry_def zip_apply_def zip_drain_def zip_run_write_def)

end
