(* ===== verification/Ft_Protocol.thy ===== *)
theory Ft_Protocol
  imports Messages Events
begin

text \<open>
  \<open>flutter/js/src/connections/ft/ft_protocol.ts\<close>: the messages of the file transfer
  protocol and the JSON texts handed to Flutter.
\<close>

definition BLOCK_SIZE :: int where
  "BLOCK_SIZE = 128 * 1024"

section \<open>Directory listings as JSON\<close>

definition entry_json :: "FileEntry \<Rightarrow> jval" where
  "entry_json e = JObj [(''entry_type'', JInt (FileEntry_entry_type e)), (''name'', JStr (FileEntry_name e)),
     (''size'', JInt (FileEntry_size e)), (''modified_time'', JInt (FileEntry_modified_time e))]"

definition dir_json :: "int \<Rightarrow> string \<Rightarrow> FileEntry list \<Rightarrow> jval" where
  "dir_json i path entries =
     JObj [(''id'', JInt i), (''path'', JStr path), (''entries'', JArr (map entry_json entries))]"

definition fdToJson :: "int \<Rightarrow> string \<Rightarrow> FileEntry list \<Rightarrow> jval" where
  "fdToJson i path entries = JJson (dir_json i path entries)"

definition emptyDirsToJson :: "ReadEmptyDirsResponse \<Rightarrow> jval" where
  "emptyDirsToJson res =
     JJson (JObj [(''path'', JStr (ReadEmptyDirsResponse_path res)),
       (''empty_dirs'', JArr (map (\<lambda>fd. dir_json (FileDirectory_id fd) (FileDirectory_path fd)
          (FileDirectory_entries fd)) (ReadEmptyDirsResponse_empty_dirs res)))])"

definition peerInfoEvent :: "PeerInfo \<Rightarrow> (string, jval) jsmap" where
  "peerInfoEvent info =
     [(''username'', JStr (PeerInfo_username info)),
      (''hostname'', JStr (PeerInfo_hostname info)),
      (''platform'', JStr (PeerInfo_platform info)),
      (''sas_enabled'', JStr (js_bool_string (PeerInfo_sas_enabled info))),
      (''displays'', JStr ''[]''),
      (''version'', JStr (PeerInfo_version info)),
      (''features'', JJson (JObj [(''privacy_mode'',
          JBool (case PeerInfo_features info of None \<Rightarrow> False | Some f \<Rightarrow> Features_privacy_mode f))])),
      (''current_display'', JIntStr (PeerInfo_current_display info)),
      (''resolutions'', JStr ''[]''),
      (''platform_additions'', JStr (PeerInfo_platform_additions info))]"

section \<open>Messages\<close>

definition makeFileAction :: "FileAction \<Rightarrow> Message" where
  "makeFileAction a = createBaseMessage\<lparr>Message_file_action := Some a\<rparr>"

definition makeFileResponse :: "FileResponse \<Rightarrow> Message" where
  "makeFileResponse r = createBaseMessage\<lparr>Message_file_response := Some r\<rparr>"

definition readDirAction :: "string \<Rightarrow> bool \<Rightarrow> Message" where
  "readDirAction path includeHidden =
     makeFileAction (createBaseFileAction\<lparr>FileAction_read_dir :=
       Some \<lparr>ReadDir_path = path, ReadDir_include_hidden = includeHidden\<rparr>\<rparr>)"

definition sendAction :: "int \<Rightarrow> string \<Rightarrow> int \<Rightarrow> bool \<Rightarrow> Message" where
  "sendAction i path fileNum includeHidden =
     makeFileAction (createBaseFileAction\<lparr>FileAction_send :=
       Some \<lparr>FileTransferSendRequest_id = i, FileTransferSendRequest_path = path,
             FileTransferSendRequest_include_hidden = includeHidden,
             FileTransferSendRequest_file_num = fileNum\<rparr>\<rparr>)"

definition receiveAction :: "int \<Rightarrow> string \<Rightarrow> FileEntry list \<Rightarrow> int \<Rightarrow> int \<Rightarrow> Message" where
  "receiveAction i path files fileNum totalSize =
     makeFileAction (createBaseFileAction\<lparr>FileAction_receive :=
       Some \<lparr>FileTransferReceiveRequest_id = i, FileTransferReceiveRequest_path = path,
             FileTransferReceiveRequest_files = files,
             FileTransferReceiveRequest_file_num = fileNum,
             FileTransferReceiveRequest_total_size = totalSize\<rparr>\<rparr>)"

definition digestResponse :: "int \<Rightarrow> int \<Rightarrow> int \<Rightarrow> int \<Rightarrow> Message" where
  "digestResponse i fileNum fileSize lastModified =
     makeFileResponse (createBaseFileResponse\<lparr>FileResponse_digest :=
       Some \<lparr>FileTransferDigest_id = i, FileTransferDigest_file_num = fileNum,
             FileTransferDigest_last_modified = lastModified,
             FileTransferDigest_file_size = fileSize,
             FileTransferDigest_is_upload = True, FileTransferDigest_is_identical = False\<rparr>\<rparr>)"

definition sendConfirmAction :: "int \<Rightarrow> int \<Rightarrow> bool \<Rightarrow> int \<Rightarrow> Message" where
  "sendConfirmAction i fileNum skip offsetBlk =
     makeFileAction (createBaseFileAction\<lparr>FileAction_send_confirm :=
       Some \<lparr>FileTransferSendConfirmRequest_id = i,
             FileTransferSendConfirmRequest_file_num = fileNum,
             FileTransferSendConfirmRequest_skip = (if skip then Some True else None),
             FileTransferSendConfirmRequest_offset_blk = (if skip then None else Some offsetBlk)\<rparr>\<rparr>)"

definition cancelAction :: "int \<Rightarrow> Message" where
  "cancelAction i =
     makeFileAction (createBaseFileAction\<lparr>FileAction_cancel := Some \<lparr>FileTransferCancel_id = i\<rparr>\<rparr>)"

definition removeFileAction :: "int \<Rightarrow> string \<Rightarrow> int \<Rightarrow> Message" where
  "removeFileAction i path fileNum =
     makeFileAction (createBaseFileAction\<lparr>FileAction_remove_file :=
       Some \<lparr>FileRemoveFile_id = i, FileRemoveFile_path = path, FileRemoveFile_file_num = fileNum\<rparr>\<rparr>)"

definition createDirAction :: "int \<Rightarrow> string \<Rightarrow> Message" where
  "createDirAction i path =
     makeFileAction (createBaseFileAction\<lparr>FileAction_create :=
       Some \<lparr>FileDirCreate_id = i, FileDirCreate_path = path\<rparr>\<rparr>)"

definition renameAction :: "int \<Rightarrow> string \<Rightarrow> string \<Rightarrow> Message" where
  "renameAction i path newName =
     makeFileAction (createBaseFileAction\<lparr>FileAction_rename :=
       Some \<lparr>FileRename_id = i, FileRename_path = path, FileRename_new_name = newName\<rparr>\<rparr>)"

definition allFilesAction :: "int \<Rightarrow> string \<Rightarrow> bool \<Rightarrow> Message" where
  "allFilesAction i path includeHidden =
     makeFileAction (createBaseFileAction\<lparr>FileAction_all_files :=
       Some \<lparr>ReadAllFiles_id = i, ReadAllFiles_path = path, ReadAllFiles_include_hidden = includeHidden\<rparr>\<rparr>)"

definition readEmptyDirsAction :: "string \<Rightarrow> bool \<Rightarrow> Message" where
  "readEmptyDirsAction path includeHidden =
     makeFileAction (createBaseFileAction\<lparr>FileAction_read_empty_dirs :=
       Some \<lparr>ReadEmptyDirs_path = path, ReadEmptyDirs_include_hidden = includeHidden\<rparr>\<rparr>)"

definition removeDirAction :: "int \<Rightarrow> string \<Rightarrow> Message" where
  "removeDirAction i path =
     makeFileAction (createBaseFileAction\<lparr>FileAction_remove_dir :=
       Some \<lparr>FileRemoveDir_id = i, FileRemoveDir_path = path, FileRemoveDir_recursive = True\<rparr>\<rparr>)"

definition blockResponse :: "int \<Rightarrow> int \<Rightarrow> bytes \<Rightarrow> bool \<Rightarrow> int \<Rightarrow> Message" where
  "blockResponse i fileNum data compressed blkId =
     makeFileResponse (createBaseFileResponse\<lparr>FileResponse_block :=
       Some \<lparr>FileTransferBlock_id = i, FileTransferBlock_file_num = fileNum,
             FileTransferBlock_data = data, FileTransferBlock_compressed = compressed,
             FileTransferBlock_blk_id = blkId\<rparr>\<rparr>)"

definition doneResponse :: "int \<Rightarrow> int \<Rightarrow> Message" where
  "doneResponse i fileNum =
     makeFileResponse (createBaseFileResponse\<lparr>FileResponse_done :=
       Some \<lparr>FileTransferDone_id = i, FileTransferDone_file_num = fileNum\<rparr>\<rparr>)"

section \<open>Reading the messages\<close>

text \<open>What a queued message carries of the file transfer protocol.\<close>

definition block_of :: "Message \<Rightarrow> FileTransferBlock option" where
  "block_of m = Option.bind (Message_file_response m) FileResponse_block"

definition done_of :: "Message \<Rightarrow> FileTransferDone option" where
  "done_of m = Option.bind (Message_file_response m) FileResponse_done"

definition digest_of :: "Message \<Rightarrow> FileTransferDigest option" where
  "digest_of m = Option.bind (Message_file_response m) FileResponse_digest"

lemma block_of_simps [simp]:
  "block_of (blockResponse i n d z b) = Some \<lparr>FileTransferBlock_id = i, FileTransferBlock_file_num = n,
     FileTransferBlock_data = d, FileTransferBlock_compressed = z, FileTransferBlock_blk_id = b\<rparr>"
  "block_of (doneResponse i n) = None" "block_of (digestResponse i n s t) = None"
  by (simp_all add: block_of_def blockResponse_def doneResponse_def digestResponse_def makeFileResponse_def
      createBaseMessage_def createBaseFileResponse_def)

lemma done_of_simps [simp]:
  "done_of (doneResponse i n) = Some \<lparr>FileTransferDone_id = i, FileTransferDone_file_num = n\<rparr>"
  "done_of (blockResponse i n d z b) = None" "done_of (digestResponse i n s t) = None"
  by (simp_all add: done_of_def blockResponse_def doneResponse_def digestResponse_def makeFileResponse_def
      createBaseMessage_def createBaseFileResponse_def)

end
