(* ===== verification/Common_Helper.thy ===== *)
theory Common_Helper
  imports Messages
begin

text \<open>
  \<open>flutter/js/src/helpers/common.ts\<close>: the size limit put on decompression, text
  translation, and the mapping of key names to key events, with the key table and the
  retry rule of \<open>flutter/js/src/proto/gen_js_from_hbb.ts\<close>.  The zstd decoder is a
  parameter; so are the language dictionaries, which are plain data.
\<close>

section \<open>Decompression\<close>

definition decompress_limit :: "bytes \<Rightarrow> int" where
  "decompress_limit compressedArray =
     (let maxN = 1024 * 1024 * 64; minN = 1024 * 1024;
          n = 30 * js_length compressedArray;
          n1 = (if n > maxN then maxN else n)
      in if n1 < minN then minN else n1)"

text \<open>\<open>zstd data n\<close> decodes into at most \<open>n\<close> bytes, or throws (\<open>None\<close>).\<close>

definition decompress :: "(bytes \<Rightarrow> int \<Rightarrow> bytes option) \<Rightarrow> bytes \<Rightarrow> bytes option" where
  "decompress zstd compressedArray = zstd compressedArray (decompress_limit compressedArray)"

section \<open>Translation\<close>

type_synonym dictionary = "(string, string) jsmap"

definition getLang :: "string option \<Rightarrow> string" where
  "getLang query = (case query of None \<Rightarrow> '''' | Some l \<Rightarrow> l)"

definition translate ::
    "string \<Rightarrow> (string, dictionary) jsmap \<Rightarrow> string \<Rightarrow> string \<Rightarrow> string" where
  "translate LANG LANGS locale text =
     (let lang = str_or LANG (to_lower (drop (length locale - 2) locale));
          en = nullish (map_get LANGS ''en'') [];
          dict = nullish (map_get LANGS lang) en;
          res = map_get dict text;
          res' = (if \<not> opt_truthy res \<and> lang \<noteq> ''en'' then map_get en text else res)
      in if opt_truthy res' then the res' else text)"

section \<open>Keys\<close>

definition KEY_MAP :: "(string \<times> string) list" where
  "KEY_MAP = [(''VK_A'', ''a''), (''VK_B'', ''b''), (''VK_C'', ''c''), (''VK_D'', ''d''),
     (''VK_E'', ''e''), (''VK_F'', ''f''), (''VK_G'', ''g''), (''VK_H'', ''h''),
     (''VK_I'', ''i''), (''VK_J'', ''j''), (''VK_K'', ''k''), (''VK_L'', ''l''),
     (''VK_M'', ''m''), (''VK_N'', ''n''), (''VK_O'', ''o''), (''VK_P'', ''p''),
     (''VK_Q'', ''q''), (''VK_R'', ''r''), (''VK_S'', ''s''), (''VK_T'', ''t''),
     (''VK_U'', ''u''), (''VK_V'', ''v''), (''VK_W'', ''w''), (''VK_X'', ''x''),
     (''VK_Y'', ''y''), (''VK_Z'', ''z''), (''VK_0'', ''0''), (''VK_1'', ''1''),
     (''VK_2'', ''2''), (''VK_3'', ''3''), (''VK_4'', ''4''), (''VK_5'', ''5''),
     (''VK_6'', ''6''), (''VK_7'', ''7''), (''VK_8'', ''8''), (''VK_9'', ''9''),
     (''VK_COMMA'', '',''), (''VK_SLASH'', ''/''), (''VK_SEMICOLON'', '';''),
     (''VK_QUOTE'', [CHR 0x27]), (''VK_LBRACKET'', ''[''), (''VK_RBRACKET'', '']''),
     (''VK_BACKSLASH'', [CHR 0x5C]), (''VK_MINUS'', ''-''), (''VK_PLUS'', ''=''),
     (''VK_DIVIDE'', ''Divide''), (''VK_MULTIPLY'', ''Multiply''),
     (''VK_SUBTRACT'', ''Subtract''), (''VK_ADD'', ''Add''), (''VK_DECIMAL'', ''Decimal''),
     (''VK_F1'', ''F1''), (''VK_F2'', ''F2''), (''VK_F3'', ''F3''), (''VK_F4'', ''F4''),
     (''VK_F5'', ''F5''), (''VK_F6'', ''F6''), (''VK_F7'', ''F7''), (''VK_F8'', ''F8''),
     (''VK_F9'', ''F9''), (''VK_F10'', ''F10''), (''VK_F11'', ''F11''), (''VK_F12'', ''F12''),
     (''VK_ENTER'', ''Return''), (''VK_CANCEL'', ''Cancel''), (''VK_BACK'', ''Backspace''),
     (''VK_TAB'', ''Tab''), (''VK_CLEAR'', ''Clear''), (''VK_RETURN'', ''Return''),
     (''VK_SHIFT'', ''Shift''), (''VK_CONTROL'', ''Control''), (''VK_MENU'', ''Alt''),
     (''VK_PAUSE'', ''Pause''), (''VK_CAPITAL'', ''CapsLock''), (''VK_KANA'', ''Kana''),
     (''VK_HANGUL'', ''Hangul''), (''VK_JUNJA'', ''Junja''), (''VK_FINAL'', ''Final''),
     (''VK_HANJA'', ''Hanja''), (''VK_KANJI'', ''Kanji''), (''VK_ESCAPE'', ''Escape''),
     (''VK_CONVERT'', ''Convert''), (''VK_SPACE'', ''Space''), (''VK_PRIOR'', ''PageUp''),
     (''VK_NEXT'', ''PageDown''), (''VK_END'', ''End''), (''VK_HOME'', ''Home''),
     (''VK_LEFT'', ''LeftArrow''), (''VK_UP'', ''UpArrow''), (''VK_RIGHT'', ''RightArrow''),
     (''VK_DOWN'', ''DownArrow''), (''VK_SELECT'', ''Select''), (''VK_PRINT'', ''Print''),
     (''VK_EXECUTE'', ''Execute''), (''VK_SNAPSHOT'', ''Snapshot''),
     (''VK_SCROLL'', ''Scroll''), (''VK_INSERT'', ''Insert''), (''VK_DELETE'', ''Delete''),
     (''VK_HELP'', ''Help''), (''VK_SLEEP'', ''Sleep''), (''VK_SEPARATOR'', ''Separator''),
     (''VK_NUMPAD0'', ''Numpad0''), (''VK_NUMPAD1'', ''Numpad1''),
     (''VK_NUMPAD2'', ''Numpad2''), (''VK_NUMPAD3'', ''Numpad3''),
     (''VK_NUMPAD4'', ''Numpad4''), (''VK_NUMPAD5'', ''Numpad5''),
     (''VK_NUMPAD6'', ''Numpad6''), (''VK_NUMPAD7'', ''Numpad7''),
     (''VK_NUMPAD8'', ''Numpad8''), (''VK_NUMPAD9'', ''Numpad9''), (''Apps'', ''Apps''),
     (''Meta'', ''Meta''), (''RAlt'', ''RAlt''), (''RWin'', ''RWin''),
     (''RControl'', ''RControl''), (''RShift'', ''RShift''), (''CTRL_ALT_DEL'', ''CtrlAltDel''),
     (''LOCK_SCREEN'', ''LockScreen'')]"

abbreviation (input) ControlKey_UNRECOGNIZED :: int where
  "ControlKey_UNRECOGNIZED \<equiv> - 1"

definition controlKeyFromJSON :: "string \<Rightarrow> int" where
  "controlKeyFromJSON name = nullish (map_get ControlKey_enum name) ControlKey_UNRECOGNIZED"

definition mapKey :: "string \<Rightarrow> bool \<Rightarrow> KeyEvent" where
  "mapKey name isDesktop =
     (let tmp = nullish (map_get KEY_MAP name) name
      in case tmp of
           [c] \<Rightarrow>
             (let chr = int (of_char c)
              in if \<not> isDesktop \<and> (chr > 122 \<or> chr < 97)
                 then createBaseKeyEvent\<lparr>KeyEvent_unicode := Some chr\<rparr>
                 else createBaseKeyEvent\<lparr>KeyEvent_chr := Some chr\<rparr>)
         | _ \<Rightarrow> createBaseKeyEvent\<lparr>KeyEvent_control_key := Some (controlKeyFromJSON tmp)\<rparr>)"

definition checkIfRetry :: "string \<Rightarrow> string \<Rightarrow> string \<Rightarrow> bool \<Rightarrow> bool" where
  "checkIfRetry msgtype title text retry_for_relay \<longleftrightarrow>
     msgtype = ''error'' \<and> title = ''Connection Error''
     \<and> ((\<not> contains ''10054'' text \<or> \<not> contains ''104'' text) \<and> retry_for_relay
        \<or> (\<not> contains ''offline'' (to_lower text)
           \<and> \<not> contains ''exist'' (to_lower text)
           \<and> \<not> contains ''handshake'' (to_lower text)
           \<and> \<not> contains ''failed'' (to_lower text)
           \<and> \<not> contains ''resolve'' (to_lower text)
           \<and> \<not> contains ''mismatch'' (to_lower text)
           \<and> \<not> contains ''manually'' (to_lower text)
           \<and> \<not> contains ''not allowed'' (to_lower text)))"

section \<open>Properties\<close>

lemma decompress_limit_bounds:
  "1024 * 1024 \<le> decompress_limit d" "decompress_limit d \<le> 64 * 1024 * 1024"
  by (simp_all add: decompress_limit_def Let_def)

text \<open>How many of the fields that can name the key are present.\<close>

definition key_fields :: "KeyEvent \<Rightarrow> nat" where
  "key_fields k = (if KeyEvent_chr k \<noteq> None then 1 else 0)
     + (if KeyEvent_unicode k \<noteq> None then 1 else 0)
     + (if KeyEvent_control_key k \<noteq> None then 1 else 0)"

lemma key_fields_mapKey: "key_fields (mapKey name d) = 1"
  by (simp add: key_fields_def mapKey_def createBaseKeyEvent_def Let_def split: list.split)

definition known_key :: "string \<Rightarrow> bool" where
  "known_key s \<longleftrightarrow> length s = 1 \<or> controlKeyFromJSON s \<noteq> ControlKey_UNRECOGNIZED"

text \<open>The position of each control key of the table in the enumeration.\<close>

definition KEY_MAP_controls :: "nat list" where
  "KEY_MAP_controls = [70, 66, 68, 67, 69, 9, 13, 14, 15, 16, 17, 18, 19, 20, 10, 11, 12, 27, 43, 2, 31, 44,
     27, 29, 4, 1, 46, 3, 47, 48, 49, 50, 51, 52, 8, 53, 30, 26, 25, 7, 21, 22, 32, 28, 6,
     54, 55, 56, 57, 62, 58, 5, 59, 60, 61, 33, 34, 35, 36, 37, 38, 39, 40, 41, 42, 65, 23,
     75, 64, 74, 73, 80, 81]"

lemma KEY_MAP_control_names:
  "map snd (filter (\<lambda>kv. length (snd kv) \<noteq> 1) KEY_MAP)
     = map (\<lambda>i. fst (ControlKey_enum ! i)) KEY_MAP_controls"
  by (simp add: KEY_MAP_def KEY_MAP_controls_def ControlKey_enum_def)

lemma KEY_MAP_controls_bound: "list_all (\<lambda>i. i < length (butlast ControlKey_enum)) KEY_MAP_controls"
  by (simp add: KEY_MAP_controls_def ControlKey_enum_def)

lemma ControlKey_enum_nonneg: "list_all (\<lambda>kv. snd kv \<ge> 0) (butlast ControlKey_enum)"
  by (simp add: ControlKey_enum_def)

lemma controlKey_known:
  assumes "s \<in> fst ` set (butlast ControlKey_enum)"
  shows "controlKeyFromJSON s \<noteq> ControlKey_UNRECOGNIZED"
proof -
  let ?xs = "butlast ControlKey_enum"
  have split: "ControlKey_enum = ?xs @ [last ControlKey_enum]"
    by (simp add: ControlKey_enum_def)
  obtain v where v: "map_of ?xs s = Some v"
    using assms by (metis domIff dom_map_of_conv_image_fst not_Some_eq)
  then have "v \<ge> 0"
    using ControlKey_enum_nonneg by (auto simp: list_all_iff dest!: map_of_SomeD)
  moreover have "map_of ControlKey_enum s = Some v"
    by (subst split) (simp add: map_add_Some_iff v)
  ultimately show ?thesis by (simp add: controlKeyFromJSON_def)
qed

lemma KEY_MAP_known: "list_all (\<lambda>kv. known_key (snd kv)) KEY_MAP"
proof -
  have "known_key s" if mem: "s \<in> set (map (\<lambda>i. fst (ControlKey_enum ! i)) KEY_MAP_controls)" for s
  proof -
    obtain i where i: "i < length (butlast ControlKey_enum)" "s = fst (butlast ControlKey_enum ! i)"
      using mem KEY_MAP_controls_bound by (auto simp: list_all_iff nth_butlast)
    then have "s \<in> fst ` set (butlast ControlKey_enum)" by simp
    then show ?thesis by (simp add: known_key_def controlKey_known)
  qed
  then have "\<forall>kv \<in> set KEY_MAP. length (snd kv) \<noteq> 1 \<longrightarrow> known_key (snd kv)"
    unfolding KEY_MAP_control_names [symmetric] by auto
  then show ?thesis by (auto simp: list_all_iff known_key_def)
qed

lemma mapKey_control:
  assumes "known_key (nullish (map_get KEY_MAP name) name)"
  shows "KeyEvent_control_key (mapKey name d) \<noteq> Some ControlKey_UNRECOGNIZED"
  using assms
  by (auto simp: mapKey_def known_key_def createBaseKeyEvent_def Let_def split: list.split)



lemma pick_nonempty: "t \<noteq> [] \<Longrightarrow> (if opt_truthy r then the r else t) \<noteq> []"
  by (cases r) auto

text \<open>
  A translation is never empty for a non-empty text: a missing or empty entry falls
  back to English and then to the text itself.
\<close>

theorem translate_nonempty:
  assumes "text \<noteq> ''''"
  shows "translate LANG LANGS locale text \<noteq> ''''"
  unfolding translate_def Let_def by (rule pick_nonempty [OF assms])

theorem translate_nonempty_witness:
  "translate '''' [(''en'', []), (''de'', [(''Status'', '''')])] ''de_DE'' ''Status'' \<noteq> ''''"
  by (rule translate_nonempty) simp

end
