(* ===== verification/Ft_Jobs.thy ===== *)
theory Ft_Jobs
  imports Ft_Zip Ft_Protocol Common_Helper
begin

text \<open>
  \<open>flutter/js/src/connections/ft/ft_jobs.ts\<close>: the download and upload jobs of a file transfer
  session.  A method that updates a job in place returns the updated job; the manager's maps
  are written back by the caller that holds the job's id.  The clock is an argument.
\<close>

section \<open>Jobs\<close>

record write_job =
  wj_id :: int
  wj_remotePath :: string
  wj_localPath :: string
  wj_fileNum :: int
  wj_fileName :: string
  wj_chunks :: "bytes list"
  wj_fileChunks :: "(int, bytes list) jsmap"
  wj_files :: "FileEntry list"
  wj_isFolderDownload :: bool
  wj_finishedSize :: int
  wj_totalSize :: int
  wj_lastTick :: int
  wj_speed :: rat
  wj_waitingConfirm :: bool
  wj_skipConfirm :: bool
  wj_saveTarget :: "nat option"
  wj_streamingToDisk :: bool
  wj_folderZipStream :: "zip_streamer option"

record read_job =
  rj_id :: int
  rj_remotePath :: string
  rj_localPath :: string
  rj_fileNum :: int
  rj_file :: "jsfile option"
  rj_uploadFiles :: "jsfile list"
  rj_files :: "FileEntry list"
  rj_offset :: int
  rj_finishedSize :: int
  rj_finishedBase :: int
  rj_totalSize :: int
  rj_includeHidden :: bool
  rj_blkId :: int
  rj_lastTick :: int
  rj_speed :: rat
  rj_active :: bool
  rj_waitingConfirm :: bool

record job_manager =
  jm_writeJobs :: "(int, write_job) jsmap"
  jm_readJobs :: "(int, read_job) jsmap"
  jm_pendingUploads :: "(int, jsfile) jsmap"

definition newFileJobManager :: job_manager where
  "newFileJobManager = \<lparr>jm_writeJobs = [], jm_readJobs = [], jm_pendingUploads = []\<rparr>"

section \<open>Creating and removing jobs\<close>

definition path_fileName :: "string \<Rightarrow> string" where
  "path_fileName remotePath =
     str_or (last (split_on (\<lambda>c. c = CHR ''/'' \<or> c = CHR 0x5C) remotePath)) ''download''"

definition newWriteJob :: "int \<Rightarrow> int \<Rightarrow> string \<Rightarrow> string \<Rightarrow> int \<Rightarrow> bool \<Rightarrow> write_job" where
  "newWriteJob now i remotePath localPath fileNum isFolderDownload =
     \<lparr>wj_id = i, wj_remotePath = remotePath, wj_localPath = localPath, wj_fileNum = fileNum,
      wj_fileName = path_fileName remotePath, wj_chunks = [], wj_fileChunks = [], wj_files = [],
      wj_isFolderDownload = isFolderDownload, wj_finishedSize = 0, wj_totalSize = 0,
      wj_lastTick = now, wj_speed = 0, wj_waitingConfirm = False, wj_skipConfirm = False,
      wj_saveTarget = None, wj_streamingToDisk = False, wj_folderZipStream = None\<rparr>"

definition createDownloadJob ::
    "int \<Rightarrow> int \<Rightarrow> string \<Rightarrow> string \<Rightarrow> int \<Rightarrow> bool \<Rightarrow> job_manager \<Rightarrow> write_job \<times> job_manager" where
  "createDownloadJob now i remotePath localPath fileNum isFolderDownload jm =
     (let job = newWriteJob now i remotePath localPath fileNum isFolderDownload
      in (job, jm\<lparr>jm_writeJobs := map_set i job (jm_writeJobs jm)\<rparr>))"

definition setDownloadFiles :: "FileEntry list \<Rightarrow> write_job \<Rightarrow> write_job" where
  "setDownloadFiles entries job =
     job\<lparr>wj_files := entries, wj_totalSize := sum_list (map FileEntry_size entries)\<rparr>"

definition createMultiFileUploadJob ::
    "int \<Rightarrow> int \<Rightarrow> string \<Rightarrow> string \<Rightarrow> int \<Rightarrow> jsfile list \<Rightarrow> FileEntry list \<Rightarrow> int \<Rightarrow> bool
       \<Rightarrow> job_manager \<Rightarrow> read_job \<times> job_manager" where
  "createMultiFileUploadJob now i localPath remotePath fileNum uploadFiles entries totalSize includeHidden jm =
     (let job = \<lparr>rj_id = i, rj_remotePath = remotePath, rj_localPath = localPath, rj_fileNum = fileNum,
                 rj_file = nullish_opt (js_at uploadFiles fileNum) (js_at uploadFiles 0),
                 rj_uploadFiles = uploadFiles, rj_files = entries, rj_offset = 0, rj_finishedSize = 0,
                 rj_finishedBase = 0, rj_totalSize = totalSize, rj_includeHidden = includeHidden,
                 rj_blkId = 0, rj_lastTick = now, rj_speed = 0, rj_active = False,
                 rj_waitingConfirm = False\<rparr>;
          jm1 = jm\<lparr>jm_readJobs := map_set i job (jm_readJobs jm)\<rparr>
      in (job, case uploadFiles of
                 [f] \<Rightarrow> jm1\<lparr>jm_pendingUploads := map_set i f (jm_pendingUploads jm1)\<rparr>
               | _ \<Rightarrow> jm1))"

definition upload_entry :: "string \<Rightarrow> jsfile \<Rightarrow> FileEntry" where
  "upload_entry name f =
     createBaseFileEntry\<lparr>FileEntry_name := name, FileEntry_size := fl_size f,
       FileEntry_modified_time := modified_seconds f, FileEntry_entry_type := 4\<rparr>"

definition createUploadJob ::
    "int \<Rightarrow> int \<Rightarrow> string \<Rightarrow> string \<Rightarrow> int \<Rightarrow> jsfile \<Rightarrow> bool \<Rightarrow> job_manager \<Rightarrow> read_job \<times> job_manager" where
  "createUploadJob now i localPath remotePath fileNum f includeHidden jm =
     createMultiFileUploadJob now i localPath remotePath fileNum [f] [upload_entry '''' f]
       (fl_size f) includeHidden jm"

definition removeJob :: "int \<Rightarrow> job_manager \<Rightarrow> job_manager" where
  "removeJob i jm =
     jm\<lparr>jm_writeJobs := map_delete i (jm_writeJobs jm), jm_readJobs := map_delete i (jm_readJobs jm),
        jm_pendingUploads := map_delete i (jm_pendingUploads jm)\<rparr>"

section \<open>Progress\<close>

definition progress_payload :: "int \<Rightarrow> int \<Rightarrow> rat \<Rightarrow> int \<Rightarrow> (string, jval) jsmap" where
  "progress_payload i fileNum speed finishedSize =
     [(''id'', JIntStr i), (''file_num'', JIntStr fileNum), (''speed'', JNumStr speed),
      (''finished_size'', JIntStr finishedSize)]"

definition write_progressPayload :: "write_job \<Rightarrow> (string, jval) jsmap" where
  "write_progressPayload job =
     progress_payload (wj_id job) (wj_fileNum job) (wj_speed job) (wj_finishedSize job)"

definition read_progressPayload :: "read_job \<Rightarrow> (string, jval) jsmap" where
  "read_progressPayload job =
     progress_payload (rj_id job) (rj_fileNum job) (rj_speed job) (rj_finishedSize job)"

definition speed_after :: "int \<Rightarrow> int \<Rightarrow> rat \<Rightarrow> int \<Rightarrow> rat" where
  "speed_after now lastTick speed delta =
     (let elapsed = of_int (now - lastTick) / 1000
      in if elapsed > 0 then of_int delta / elapsed else speed)"

definition write_updateSpeed :: "int \<Rightarrow> int \<Rightarrow> write_job \<Rightarrow> write_job" where
  "write_updateSpeed now delta job =
     job\<lparr>wj_speed := speed_after now (wj_lastTick job) (wj_speed job) delta, wj_lastTick := now\<rparr>"

definition read_updateSpeed :: "int \<Rightarrow> int \<Rightarrow> read_job \<Rightarrow> read_job" where
  "read_updateSpeed now delta job =
     job\<lparr>rj_speed := speed_after now (rj_lastTick job) (rj_speed job) delta, rj_lastTick := now\<rparr>"

section \<open>Receiving blocks\<close>

definition streamsToDisk :: "write_job \<Rightarrow> bool" where
  "streamsToDisk job \<longleftrightarrow> wj_saveTarget job \<noteq> None \<and> \<not> wj_isFolderDownload job"

definition streamsFolderZip :: "write_job \<Rightarrow> bool" where
  "streamsFolderZip job \<longleftrightarrow> wj_saveTarget job \<noteq> None \<and> wj_isFolderDownload job"

definition block_received :: "int \<Rightarrow> int \<Rightarrow> bytes \<Rightarrow> write_job \<Rightarrow> write_job" where
  "block_received now fileNum bs job =
     (let job1 = write_updateSpeed now (int (length bs)) (job\<lparr>wj_fileNum := fileNum\<rparr>)
      in job1\<lparr>wj_finishedSize := wj_finishedSize job1 + int (length bs)\<rparr>)"

definition append_to_target ::
    "int \<Rightarrow> int \<Rightarrow> bytes \<Rightarrow> nat \<Rightarrow> write_job \<Rightarrow> disk \<Rightarrow> unknown option \<times> write_job \<times> disk" where
  "append_to_target now fileNum bs t job dk =
     (case writeDownloadChunk t bs dk of
        (Some e, dk1) \<Rightarrow> (Some e, job, dk1)
      | (None, dk1) \<Rightarrow> (None, block_received now fileNum bs (job\<lparr>wj_streamingToDisk := True\<rparr>), dk1))"

definition append_to_zip ::
    "env \<Rightarrow> int \<Rightarrow> int \<Rightarrow> bytes \<Rightarrow> nat \<Rightarrow> write_job \<Rightarrow> disk \<Rightarrow> unknown option \<times> write_job \<times> disk" where
  "append_to_zip E now fileNum bs t job dk =
     (let z = nullish (wj_folderZipStream job) (newFolderZipStreamer t (str_or (wj_fileName job) ''download''))
      in case zip_appendBlock E fileNum bs (wj_files job) (z, dk) of
           (Some e, z1, dk1) \<Rightarrow> (Some e, job\<lparr>wj_folderZipStream := Some z1\<rparr>, dk1)
         | (None, z1, dk1) \<Rightarrow> (None, block_received now fileNum bs (job\<lparr>wj_folderZipStream := Some z1\<rparr>), dk1))"

definition chunksForFile :: "write_job \<Rightarrow> int \<Rightarrow> bytes list" where
  "chunksForFile job fileNum = nullish (map_get (wj_fileChunks job) fileNum) []"

definition append_to_memory :: "int \<Rightarrow> int \<Rightarrow> bytes \<Rightarrow> write_job \<Rightarrow> write_job" where
  "append_to_memory now fileNum bs job =
     block_received now fileNum bs
       (if wj_isFolderDownload job \<or> wj_files job \<noteq> []
        then job\<lparr>wj_fileChunks := map_set fileNum (chunksForFile job fileNum @ [bs]) (wj_fileChunks job)\<rparr>
        else job\<lparr>wj_chunks := wj_chunks job @ [bs]\<rparr>)"

definition appendBlock ::
    "env \<Rightarrow> int \<Rightarrow> int \<Rightarrow> bytes \<Rightarrow> bool \<Rightarrow> write_job \<Rightarrow> disk \<Rightarrow> unknown option \<times> write_job \<times> disk" where
  "appendBlock E now fileNum data compressed job dk =
     (case (if compressed then decompress (zstd_decode E) data else Some data) of
        None \<Rightarrow> (Some (UError ''Error'' ''decompress failed''), job, dk)
      | Some bs \<Rightarrow>
          (if streamsToDisk job then append_to_target now fileNum bs (the (wj_saveTarget job)) job dk
           else if streamsFolderZip job then append_to_zip E now fileNum bs (the (wj_saveTarget job)) job dk
           else (None, append_to_memory now fileNum bs job, dk)))"

section \<open>Finishing a download\<close>

definition save_outcome :: "save_result \<Rightarrow> finish_result" where
  "save_outcome r =
     (case r of
        Saved \<Rightarrow> FinishOk
      | SaveCancelled \<Rightarrow> FinishThrew (UError ''Error'' ''Download cancelled'')
      | SaveThrew e \<Rightarrow> FinishThrew e)"

definition finalizeFolderDownloadAsZip ::
    "env \<Rightarrow> picker_behaviour \<Rightarrow> write_job \<Rightarrow> disk \<Rightarrow> finish_result \<times> disk" where
  "finalizeFolderDownloadAsZip E behaviour job dk =
     (case wj_folderZipStream job of
        Some z \<Rightarrow> (case zip_finish E (z, dk) of (r, z1, dk1) \<Rightarrow> (r, dk1))
      | None \<Rightarrow>
          (case saveDownload behaviour (folderDownloadFilename (wj_fileName job))
                  (buildFolderZipFromChunks E (wj_fileName job) (wj_files job) (chunksForFile job))
                  (wj_saveTarget job) dk of
             (r, dk1) \<Rightarrow> (save_outcome r, dk1)))"

definition finalizeDownload ::
    "env \<Rightarrow> picker_behaviour \<Rightarrow> write_job \<Rightarrow> disk \<Rightarrow> finish_result \<times> disk" where
  "finalizeDownload E behaviour job dk =
     (if wj_isFolderDownload job \<and> wj_files job \<noteq> [] then finalizeFolderDownloadAsZip E behaviour job dk
      else if wj_streamingToDisk job \<and> wj_saveTarget job \<noteq> None then
        (case closeDownloadTarget (the (wj_saveTarget job)) dk of
           (Some e, dk1) \<Rightarrow> (FinishThrew e, dk1)
         | (None, dk1) \<Rightarrow> (FinishOk, dk1))
      else
        (let chunks = (if wj_fileChunks job \<noteq> [] then chunksForFile job (wj_fileNum job) else wj_chunks job)
         in case saveDownload behaviour (str_or (wj_fileName job) ''download'')
                   (nullish (concatChunks chunks) []) (wj_saveTarget job) dk of
              (r, dk1) \<Rightarrow> (save_outcome r, dk1)))"

section \<open>Reading blocks to upload\<close>

definition job_file :: "read_job \<Rightarrow> jsfile option" where
  "job_file job = nullish_opt (rj_file job) (js_at (rj_uploadFiles job) (rj_fileNum job))"

definition nextUploadBlock :: "int \<Rightarrow> read_job \<Rightarrow> (bytes \<times> bool) option \<times> read_job" where
  "nextUploadBlock now job =
     (case job_file job of
        None \<Rightarrow> (None, job)
      | Some f \<Rightarrow>
          (if rj_offset job \<ge> fl_size f then (Some ([], True), job)
           else (let data = readFileChunk f (rj_offset job) (min BLOCK_SIZE (fl_size f - rj_offset job));
                     n = int (length data);
                     job1 = job\<lparr>rj_offset := rj_offset job + n,
                                rj_finishedSize := rj_finishedBase job + (rj_offset job + n)\<rparr>;
                     job2 = (read_updateSpeed now n job1)\<lparr>rj_blkId := rj_blkId job + 1\<rparr>
                 in (Some (data, rj_offset job2 \<ge> fl_size f), job2))))"

section \<open>A download as a sink\<close>

text \<open>A block as it arrives: the time, its file number, its data and the compression flag.\<close>

type_synonym arrival = "int \<times> int \<times> bytes \<times> bool"

definition block_put :: "env \<Rightarrow> arrival \<Rightarrow> write_job \<times> disk \<Rightarrow> unknown option \<times> write_job \<times> disk" where
  "block_put E a s = (case a of (now, fileNum, data, compressed) \<Rightarrow>
     appendBlock E now fileNum data compressed (fst s) (snd s))"

definition block_payload :: "env \<Rightarrow> arrival \<Rightarrow> bytes" where
  "block_payload E a = (case a of (now, fileNum, data, compressed) \<Rightarrow>
     if compressed then nullish (decompress (zstd_decode E) data) [] else data)"

definition block_accepted :: "env \<Rightarrow> int \<Rightarrow> arrival \<Rightarrow> bool" where
  "block_accepted E n a = (case a of (now, fileNum, data, compressed) \<Rightarrow>
     fileNum = n \<and> (compressed \<longrightarrow> decompress (zstd_decode E) data \<noteq> None))"

lemma block_received_simps [simp]:
  "wj_saveTarget (block_received now n bs job) = wj_saveTarget job"
  "wj_isFolderDownload (block_received now n bs job) = wj_isFolderDownload job"
  "wj_streamingToDisk (block_received now n bs job) = wj_streamingToDisk job"
  "wj_files (block_received now n bs job) = wj_files job"
  "wj_fileChunks (block_received now n bs job) = wj_fileChunks job"
  "wj_chunks (block_received now n bs job) = wj_chunks job"
  "wj_fileNum (block_received now n bs job) = n"
  "wj_fileName (block_received now n bs job) = wj_fileName job"
  "wj_finishedSize (block_received now n bs job) = wj_finishedSize job + int (length bs)"
  by (simp_all add: block_received_def write_updateSpeed_def Let_def)

lemma block_accepted_payload:
  "block_accepted E n a \<Longrightarrow> block_put E a s =
     (if streamsToDisk (fst s) then append_to_target (fst a) n (block_payload E a) (the (wj_saveTarget (fst s))) (fst s) (snd s)
      else if streamsFolderZip (fst s) then append_to_zip E (fst a) n (block_payload E a) (the (wj_saveTarget (fst s))) (fst s) (snd s)
      else (None, append_to_memory (fst a) n (block_payload E a) (fst s), snd s))"
  by (auto simp: block_accepted_def block_put_def block_payload_def appendBlock_def split: option.splits)

text \<open>A single-file download with a save target.\<close>

definition streams_to :: "nat \<Rightarrow> write_job \<times> disk \<Rightarrow> bool" where
  "streams_to t s \<longleftrightarrow> wj_saveTarget (fst s) = Some t \<and> \<not> wj_isFolderDownload (fst s) \<and> stream_ready t (snd s)"

interpretation streamed_job: byte_sink "block_put E" "block_accepted E n" "block_payload E"
  "\<lambda>s. stream_data t (snd s)" "streams_to t" for E n t
proof
  fix s :: "write_job \<times> disk" and b
  assume r: "streams_to t s" and a: "block_accepted E n b"
  let ?w = "writeDownloadChunk t (block_payload E b) (snd s)"
  have r': "stream_ready t (snd s)" using r by (simp add: streams_to_def)
  have "block_put E b s = append_to_target (fst b) n (block_payload E b) t (fst s) (snd s)"
    using r block_accepted_payload [OF a] by (simp add: streams_to_def streamsToDisk_def)
  then have p: "block_put E b s =
      (None, block_received (fst b) n (block_payload E b) ((fst s)\<lparr>wj_streamingToDisk := True\<rparr>), snd ?w)"
    using disk_sink.put_pair [OF r' TrueI, of "block_payload E b"]
    by (auto simp: append_to_target_def split: prod.split)
  show "fst (block_put E b s) = None" by (simp add: p)
  show "streams_to t (snd (block_put E b s))"
    using r disk_sink.put_ready [OF r' TrueI] by (simp add: p streams_to_def)
  show "stream_data t (snd (snd (block_put E b s))) = stream_data t (snd s) @ block_payload E b"
    using disk_sink.put_contents [OF r' TrueI] by (simp add: p)
qed

text \<open>A single-file download that is collected in memory: all its blocks have one file number.\<close>

definition memory_chunks :: "int \<Rightarrow> write_job \<Rightarrow> bytes list" where
  "memory_chunks n job = (if wj_files job \<noteq> [] then chunksForFile job n else wj_chunks job)"

definition collects :: "int \<Rightarrow> write_job \<times> disk \<Rightarrow> bool" where
  "collects n s \<longleftrightarrow> wj_saveTarget (fst s) = None \<and> \<not> wj_isFolderDownload (fst s)
     \<and> (wj_files (fst s) = [] \<longrightarrow> wj_fileChunks (fst s) = [])
     \<and> (wj_files (fst s) \<noteq> [] \<longrightarrow> wj_chunks (fst s) = [])
     \<and> (wj_fileChunks (fst s) \<noteq> [] \<longrightarrow> wj_fileNum (fst s) = n)"

lemma append_to_memory_collects:
  assumes "collects n s" "block_accepted E n b"
  shows "block_put E b s = (None, append_to_memory (fst b) n (block_payload E b) (fst s), snd s)"
    and "collects n (snd (block_put E b s))"
    and "memory_chunks n (fst (snd (block_put E b s))) = memory_chunks n (fst s) @ [block_payload E b]"
proof -
  show p: "block_put E b s = (None, append_to_memory (fst b) n (block_payload E b) (fst s), snd s)"
    using assms block_accepted_payload [OF assms(2)]
    by (simp add: collects_def streamsToDisk_def streamsFolderZip_def)
  show "collects n (snd (block_put E b s))"
    using assms(1) by (auto simp: p append_to_memory_def collects_def)
  show "memory_chunks n (fst (snd (block_put E b s))) = memory_chunks n (fst s) @ [block_payload E b]"
    using assms(1) by (simp add: p append_to_memory_def memory_chunks_def collects_def chunksForFile_def map_get_set)
qed

interpretation buffered_job: byte_sink "block_put E" "block_accepted E n" "block_payload E"
  "\<lambda>s. concat (memory_chunks n (fst s))" "collects n" for E n
proof
  fix s :: "write_job \<times> disk" and b
  assume a: "collects n s" "block_accepted E n b"
  show "fst (block_put E b s) = None" by (simp add: append_to_memory_collects(1) [OF a])
  show "collects n (snd (block_put E b s))" by (rule append_to_memory_collects(2) [OF a])
  show "concat (memory_chunks n (fst (snd (block_put E b s)))) = concat (memory_chunks n (fst s)) @ block_payload E b"
    by (simp only: append_to_memory_collects(3) [OF a] concat_append concat.simps append_Nil2)
qed

section \<open>Single-file downloads\<close>

definition receive_blocks :: "env \<Rightarrow> arrival list \<Rightarrow> write_job \<times> disk \<Rightarrow> write_job \<times> disk" where
  "receive_blocks E blocks s = fold (\<lambda>b s. snd (block_put E b s)) blocks s"

definition fresh_job :: "write_job \<Rightarrow> bool" where
  "fresh_job job \<longleftrightarrow> wj_chunks job = [] \<and> wj_fileChunks job = [] \<and> \<not> wj_isFolderDownload job
     \<and> \<not> wj_streamingToDisk job"

lemma streamed_job_frame:
  assumes "streams_to t s" "list_all (block_accepted E n) blocks"
  shows "wj_chunks (fst (receive_blocks E blocks s)) = wj_chunks (fst s)
    \<and> wj_fileChunks (fst (receive_blocks E blocks s)) = wj_fileChunks (fst s)
    \<and> (wj_streamingToDisk (fst (receive_blocks E blocks s)) \<longleftrightarrow> wj_streamingToDisk (fst s) \<or> blocks \<noteq> [])"
  using assms
proof (induction blocks arbitrary: s)
  case (Cons b bs)
  have a: "block_accepted E n b" using Cons.prems by simp
  have r: "streams_to t (snd (block_put E b s))" by (rule streamed_job.put_ready [OF Cons.prems(1) a])
  have p: "block_put E b s = append_to_target (fst b) n (block_payload E b) t (fst s) (snd s)"
    using Cons.prems(1) block_accepted_payload [OF a] by (simp add: streams_to_def streamsToDisk_def)
  have "fst (block_put E b s) = None" by (rule streamed_job.put_ok [OF Cons.prems(1) a])
  then have "wj_chunks (fst (snd (block_put E b s))) = wj_chunks (fst s)
      \<and> wj_fileChunks (fst (snd (block_put E b s))) = wj_fileChunks (fst s)
      \<and> wj_streamingToDisk (fst (snd (block_put E b s)))"
    unfolding p by (auto simp: append_to_target_def split: prod.splits option.splits)
  with Cons.IH [OF r] Cons.prems(2) show ?case by (simp add: receive_blocks_def)
qed (simp add: receive_blocks_def)

lemma finalize_streamed:
  assumes "streams_to t (job, dk)" "wj_chunks job = []" "wj_fileChunks job = []"
  shows "fst (finalizeDownload E pb job dk) = FinishOk
    \<and> stream_closed t (snd (finalizeDownload E pb job dk))
    \<and> stream_data t (snd (finalizeDownload E pb job dk)) = stream_data t dk"
proof -
  have r: "stream_ready t dk" using assms(1) by (simp add: streams_to_def)
  show ?thesis
    using assms close_ready [OF r] write_and_close_ready [OF r, of "[]"]
    by (auto simp: finalizeDownload_def streams_to_def saveDownload_def save_outcome_def
        split: prod.splits option.splits)
qed

lemma finalize_collected:
  assumes "collects n (job, dk)" "\<not> wj_streamingToDisk job"
  shows "finalizeDownload E NoPicker job dk
    = (FinishOk, dk\<lparr>dk_saved := dk_saved dk @ [(str_or (wj_fileName job) ''download'', concat (memory_chunks n job))]\<rparr>)"
proof -
  have "(if wj_fileChunks job \<noteq> [] then chunksForFile job (wj_fileNum job) else wj_chunks job) = memory_chunks n job"
    using assms(1) by (auto simp: collects_def memory_chunks_def chunksForFile_def)
  then show ?thesis
    using assms by (simp add: finalizeDownload_def collects_def saveDownload_def openSaveFilePicker_def
        save_outcome_def Let_def)
qed

lemma collected_frame:
  assumes "collects n s" "list_all (block_accepted E n) blocks"
  shows "wj_streamingToDisk (fst (receive_blocks E blocks s)) = wj_streamingToDisk (fst s)
    \<and> wj_fileName (fst (receive_blocks E blocks s)) = wj_fileName (fst s)
    \<and> snd (receive_blocks E blocks s) = snd s"
  using assms
proof (induction blocks arbitrary: s)
  case (Cons b bs)
  have a: "block_accepted E n b" using Cons.prems by simp
  have "wj_streamingToDisk (fst (snd (block_put E b s))) = wj_streamingToDisk (fst s)
      \<and> wj_fileName (fst (snd (block_put E b s))) = wj_fileName (fst s) \<and> snd (snd (block_put E b s)) = snd s"
    unfolding append_to_memory_collects(1) [OF Cons.prems(1) a] by (simp add: append_to_memory_def)
  with Cons.IH [OF append_to_memory_collects(2) [OF Cons.prems(1) a]] Cons.prems(2) show ?case
    by (simp add: receive_blocks_def)
qed (simp add: receive_blocks_def)

lemma streamed_download_saved:
  assumes "fresh_job job" "list_all (block_accepted E n) blocks" "stream_ready t dk"
    and "receive_blocks E blocks (job\<lparr>wj_saveTarget := Some t\<rparr>, dk) = (job1, dk1)"
    and "finalizeDownload E pb job1 dk1 = (r, dk2)"
  shows "r = FinishOk \<and> stream_closed t dk2
    \<and> stream_data t dk2 = stream_data t dk @ concat (map (block_payload E) blocks)"
proof -
  let ?s = "(job\<lparr>wj_saveTarget := Some t\<rparr>, dk)"
  have s: "streams_to t ?s" using assms by (auto simp: streams_to_def fresh_job_def)
  have "streams_to t (job1, dk1)"
    using streamed_job.put_all_ready [OF s assms(2)] assms(4) by (simp add: receive_blocks_def)
  moreover have "stream_data t dk1 = stream_data t dk @ concat (map (block_payload E) blocks)"
    using streamed_job.put_all_contents [OF s assms(2)] assms(4) by (simp add: receive_blocks_def)
  moreover have "wj_chunks job1 = []" "wj_fileChunks job1 = []"
    using streamed_job_frame [OF s assms(2)] assms(1,4) by (simp_all add: fresh_job_def)
  ultimately show ?thesis using finalize_streamed [of t job1 dk1 E pb] assms(5) by simp
qed

lemma collected_download_saved:
  assumes "fresh_job job" "list_all (block_accepted E n) blocks"
    and "receive_blocks E blocks (job\<lparr>wj_saveTarget := None\<rparr>, dk) = (job1, dk1)"
    and "finalizeDownload E NoPicker job1 dk1 = (r, dk2)"
  shows "r = FinishOk \<and> dk_saved dk2 = dk_saved dk
    @ [(str_or (wj_fileName job) ''download'', concat (map (block_payload E) blocks))]"
proof -
  let ?b = "(job\<lparr>wj_saveTarget := None\<rparr>, dk)"
  have b: "collects n ?b" using assms by (auto simp: fresh_job_def collects_def)
  have "collects n (job1, dk1)"
    using buffered_job.put_all_ready [OF b assms(2)] assms(3) by (simp add: receive_blocks_def)
  moreover have "memory_chunks n (fst ?b) = []"
    using assms(1) by (simp add: fresh_job_def memory_chunks_def chunksForFile_def)
  then have "concat (memory_chunks n job1) = concat (map (block_payload E) blocks)"
    using buffered_job.put_all_contents [OF b assms(2)] assms(3) by (simp add: receive_blocks_def)
  moreover have "\<not> wj_streamingToDisk job1" "wj_fileName job1 = wj_fileName job" "dk1 = dk"
    using collected_frame [OF b assms(2)] assms(1,3) by (simp_all add: fresh_job_def)
  ultimately show ?thesis using finalize_collected [of n job1 dk1 E] assms(4) by auto
qed

text \<open>
  C20: a single-file download saves exactly the received data, whichever way it is saved: with
  a save target the blocks are written to it as they arrive and it ends up closed with the
  decompressed blocks in order; without one they are collected and offered as one download of
  the same bytes under the file's name.  This holds for no block at all, and whether or not
  the peer sent a listing first.
\<close>

theorem single_file_download_saved:
  assumes "fresh_job job" and "list_all (block_accepted E n) blocks"
    and "stream_ready t dk" and "stream_data t dk = []"
  shows "(let (job1, dk1) = receive_blocks E blocks (job\<lparr>wj_saveTarget := Some t\<rparr>, dk);
              (r, dk2) = finalizeDownload E pb job1 dk1
          in r = FinishOk \<and> stream_closed t dk2 \<and> stream_data t dk2 = concat (map (block_payload E) blocks))
     \<and> (let (job1, dk1) = receive_blocks E blocks (job\<lparr>wj_saveTarget := None\<rparr>, dk);
              (r, dk2) = finalizeDownload E NoPicker job1 dk1
          in r = FinishOk \<and> dk_saved dk2 = dk_saved dk
               @ [(str_or (wj_fileName job) ''download'', concat (map (block_payload E) blocks))])"
  using streamed_download_saved [OF assms(1-3)] collected_download_saved [OF assms(1,2)] assms(4)
  by (simp add: Let_def split: prod.split)

definition sample_disk :: disk where
  "sample_disk = \<lparr>dk_streams = [(5, \<lparr>st_data = [], st_closed = False, st_failure = None, st_closeFailure = None\<rparr>)],
     dk_next = 6, dk_saved = []\<rparr>"

lemma sample_disk_ready: "stream_ready 5 sample_disk" "stream_data 5 sample_disk = []"
  by (simp_all add: sample_disk_def stream_defs close_error_def stream_error_def)

theorem single_file_download_saved_witness:
  "(let (job1, dk1) = receive_blocks plain_env [(0, 0, [1, 2], False), (9, 0, [3], True)]
          ((newWriteJob 0 7 ''/tmp/f'' '''' 0 False)\<lparr>wj_saveTarget := Some 5\<rparr>, sample_disk);
        (r, dk2) = finalizeDownload plain_env NoPicker job1 dk1
    in stream_data 5 dk2) = [1, 2, 3]"
  using single_file_download_saved [of "newWriteJob 0 7 ''/tmp/f'' '''' 0 False" plain_env 0
      "[(0, 0, [1, 2], False), (9, 0, [3], True)]" 5 sample_disk NoPicker] sample_disk_ready
  by (auto simp: fresh_job_def newWriteJob_def block_accepted_def block_payload_def plain_env_def
      decompress_def decompress_limit_def js_length_def Let_def split: prod.splits)

end
