(* ===== verification/Ft_Connection.thy ===== *)
theory Ft_Connection
  imports Connection_Interface Ft_Jobs
begin

text \<open>
  \<open>flutter/js/src/connections/ft_connection.ts\<close>: the file transfer connection, as far as it
  acts on its own state, the save targets and the socket.  The methods that end the session go
  through the session registry and are in the theory of the sessions.  A method that never
  returns is \<open>None\<close>.
\<close>

section \<open>State\<close>

record download_item =
  di_id :: int
  di_path :: string
  di_to :: string
  di_fileNum :: int
  di_includeHidden :: bool
  di_isDir :: bool

text \<open>
  \<open>ft_awaitingPick\<close> is where \<open>startRemoteDownload\<close> is suspended: the item whose save dialog
  is open.
\<close>

record ftconn = base +
  ft_peerPlatform :: string
  ft_peerHostname :: string
  ft_jobs :: job_manager
  ft_uploadTick :: bool
  ft_remember :: bool
  ft_closing :: bool
  ft_sessionEnded :: bool
  ft_progressInterval :: bool
  ft_downloadQueue :: "download_item list"
  ft_downloadQueueRunning :: bool
  ft_awaitingPick :: "download_item option"

definition newFtConnection :: ftconn where
  "newFtConnection = base.extend newBase
     \<lparr>ft_peerPlatform = '''', ft_peerHostname = '''', ft_jobs = newFileJobManager, ft_uploadTick = False,
      ft_remember = False, ft_closing = False, ft_sessionEnded = False, ft_progressInterval = False,
      ft_downloadQueue = [], ft_downloadQueueRunning = False, ft_awaitingPick = None\<rparr>"

abbreviation read_jobs :: "ftconn \<Rightarrow> (int, read_job) jsmap" where
  "read_jobs c \<equiv> jm_readJobs (ft_jobs c)"

abbreviation write_jobs :: "ftconn \<Rightarrow> (int, write_job) jsmap" where
  "write_jobs c \<equiv> jm_writeJobs (ft_jobs c)"

abbreviation pending_uploads :: "ftconn \<Rightarrow> (int, jsfile) jsmap" where
  "pending_uploads c \<equiv> jm_pendingUploads (ft_jobs c)"

text \<open>A job object is shared with the manager's map: an update of the job is one of the map.\<close>

definition put_read :: "int \<Rightarrow> read_job \<Rightarrow> ftconn \<Rightarrow> ftconn" where
  "put_read i job c = c\<lparr>ft_jobs := (ft_jobs c)\<lparr>jm_readJobs := map_set i job (read_jobs c)\<rparr>\<rparr>"

definition put_write :: "int \<Rightarrow> write_job \<Rightarrow> ftconn \<Rightarrow> ftconn" where
  "put_write i job c = c\<lparr>ft_jobs := (ft_jobs c)\<lparr>jm_writeJobs := map_set i job (write_jobs c)\<rparr>\<rparr>"

definition drop_job :: "int \<Rightarrow> ftconn \<Rightarrow> ftconn" where
  "drop_job i c = c\<lparr>ft_jobs := removeJob i (ft_jobs c)\<rparr>"

definition ft_setRemember :: "bool \<Rightarrow> ftconn \<Rightarrow> ftconn" where
  "ft_setRemember v c = c\<lparr>ft_remember := v\<rparr>"

definition ft_getPlatform :: "ftconn \<Rightarrow> string" where
  "ft_getPlatform c = ft_peerPlatform c"

section \<open>Events\<close>

definition job_error :: "int \<Rightarrow> int \<Rightarrow> string \<Rightarrow> string option \<Rightarrow> emission" where
  "job_error i fileNum err sid =
     pushEvent ''job_error'' [(''id'', JIntStr i), (''file_num'', JIntStr fileNum), (''err'', JStr err)] sid"

definition job_done :: "int \<Rightarrow> int \<Rightarrow> string option \<Rightarrow> emission" where
  "job_done i fileNum sid = pushEvent ''job_done'' [(''id'', JIntStr i), (''file_num'', JIntStr fileNum)] sid"

definition pushJobError :: "int \<Rightarrow> int \<Rightarrow> string \<Rightarrow> ftconn \<Rightarrow> ftconn" where
  "pushJobError i fileNum err c = emit (job_error i fileNum err (b_sessionId c)) c"

definition pushJobDone :: "int \<Rightarrow> int \<Rightarrow> ftconn \<Rightarrow> ftconn" where
  "pushJobDone i fileNum c = emit (job_done i fileNum (b_sessionId c)) c"

definition emitJobProgress :: "ftconn \<Rightarrow> ftconn" where
  "emitJobProgress c =
     (let c1 = fold (\<lambda>job. ev ''job_progress'' (write_progressPayload job)) (map_values (write_jobs c)) c
      in fold (\<lambda>job c. if rj_active job \<or> rj_finishedSize job > 0
                        then ev ''job_progress'' (read_progressPayload job) c else c)
           (map_values (read_jobs c)) c1)"

section \<open>Logging in\<close>

definition ft_buildLoginRequest :: "int \<Rightarrow> bytes option \<Rightarrow> ftconn \<Rightarrow> LoginRequest \<times> ftconn" where
  "ft_buildLoginRequest rnd password c =
     (let sid = ensureLoginSessionId rnd (b_loginSessionId c)
      in (createBaseLoginRequest\<lparr>LoginRequest_username := b_id c, LoginRequest_my_id := ''web'',
            LoginRequest_my_name := ''web'', LoginRequest_password := nullish password [],
            LoginRequest_session_id := sid,
            LoginRequest_file_transfer := Some \<lparr>FileTransfer_dir = '''',
              FileTransfer_show_hidden = truthy (getOption ''remote_show_hidden'' c)\<rparr>,
            LoginRequest_video_ack_required := False\<rparr>,
          c\<lparr>b_loginSessionId := Some sid\<rparr>))"

definition ft_handlePeerInfo :: "int \<Rightarrow> PeerInfo \<Rightarrow> ftconn \<Rightarrow> ftconn" where
  "ft_handlePeerInfo now info c =
     (let c1 = c\<lparr>b_peerInfo := Some info, ft_peerPlatform := PeerInfo_platform info,
                 ft_peerHostname := PeerInfo_hostname info\<rparr>;
          c2 = emit (MsgBox ''success'' ''Successful'' ''Connected'') c1;
          c3 = ev ''peer_info'' (peerInfoEvent info) c2;
          c4 = (if ft_remember c3 then persistPasswordIfRemembered now (ft_remember c3) c3 else c3)
      in setOption now ''info'' (JObj (peer_info_json info)) c4)"

section \<open>Uploads\<close>

definition queueDigestForCurrentFile :: "read_job \<Rightarrow> ftconn \<Rightarrow> ftconn" where
  "queueDigestForCurrentFile job c =
     (case job_file job of
        None \<Rightarrow> c
      | Some f \<Rightarrow> queueMessage (digestResponse (rj_id job) (rj_fileNum job) (fl_size f) (modified_seconds f)) c)"

definition advanceUploadAfterFile :: "int \<Rightarrow> read_job \<Rightarrow> int \<Rightarrow> ftconn \<Rightarrow> ftconn" where
  "advanceUploadAfterFile i job finishedFileNum c =
     (let job1 = (case js_at (rj_uploadFiles job) finishedFileNum of
                    None \<Rightarrow> job
                  | Some f \<Rightarrow> job\<lparr>rj_finishedBase := rj_finishedBase job + fl_size f\<rparr>);
          nextFileNum = finishedFileNum + 1
      in if nextFileNum < int (length (rj_files job1)) then
           (let job2 = job1\<lparr>rj_fileNum := nextFileNum, rj_file := js_at (rj_uploadFiles job1) nextFileNum,
                            rj_offset := 0, rj_blkId := 0, rj_finishedSize := rj_finishedBase job1,
                            rj_active := False, rj_waitingConfirm := True\<rparr>
            in queueDigestForCurrentFile job2 (put_read i job2 c))
         else pushJobDone i finishedFileNum (drop_job i (put_read i job1 c)))"

text \<open>What the pump does when a file is finished, and with a block: \<open>True\<close> when it goes on.\<close>

definition upload_file_finished :: "int \<Rightarrow> read_job \<Rightarrow> ftconn \<Rightarrow> ftconn" where
  "upload_file_finished i job c =
     (if rj_fileNum job + 1 < int (length (rj_files job)) then advanceUploadAfterFile i job (rj_fileNum job) c
      else pushJobDone i (rj_fileNum job) (drop_job i (queueMessage (doneResponse i (rj_fileNum job)) c)))"

definition pump_block :: "int \<Rightarrow> read_job \<Rightarrow> bytes \<Rightarrow> bool \<Rightarrow> ftconn \<Rightarrow> bool \<times> ftconn" where
  "pump_block i job data finished c =
     (let c1 = (if data \<noteq> [] then queueMessage (blockResponse i (rj_fileNum job) data False (rj_blkId job)) c else c)
      in if finished then (False, upload_file_finished i job c1) else (True, c1))"

text \<open>\<open>clk k\<close> is the time of the \<open>k\<close>-th block.\<close>

partial_function (option) pump_loop :: "(nat \<Rightarrow> int) \<Rightarrow> nat \<Rightarrow> int \<Rightarrow> ftconn \<Rightarrow> ftconn option" where
  "pump_loop clk k i c =
     (case map_get (read_jobs c) i of
        None \<Rightarrow> Some c
      | Some job \<Rightarrow>
          (if \<not> rj_active job then Some c
           else (case nextUploadBlock (clk k) job of
                   (None, job1) \<Rightarrow> Some c
                 | (Some (data, finished), job1) \<Rightarrow>
                     (case pump_block i job1 data finished (put_read i job1 c) of
                        (goes_on, c1) \<Rightarrow> (if goes_on then pump_loop clk (Suc k) i c1 else Some c1)))))"

definition pumpUploadBlocks :: "(nat \<Rightarrow> int) \<Rightarrow> int \<Rightarrow> ftconn \<Rightarrow> ftconn option" where
  "pumpUploadBlocks clk i c =
     (if ft_uploadTick c then Some c
      else map_option (\<lambda>c1. c1\<lparr>ft_uploadTick := False\<rparr>) (pump_loop clk 0 i (c\<lparr>ft_uploadTick := True\<rparr>)))"

definition handleFileAction :: "(nat \<Rightarrow> int) \<Rightarrow> FileAction \<Rightarrow> ftconn \<Rightarrow> ftconn option" where
  "handleFileAction clk fa c =
     (case FileAction_send_confirm fa of
        None \<Rightarrow> Some c
      | Some cf \<Rightarrow>
          (let i = FileTransferSendConfirmRequest_id cf
           in case map_get (read_jobs c) i of
                None \<Rightarrow> Some c
              | Some job \<Rightarrow>
                  (if FileTransferSendConfirmRequest_skip cf = Some True
                   then Some (advanceUploadAfterFile i job (FileTransferSendConfirmRequest_file_num cf) c)
                   else
                     (let offsetBlk = nullish (FileTransferSendConfirmRequest_offset_blk cf) 0;
                          job1 = (if offsetBlk > 0
                                  then job\<lparr>rj_offset := offsetBlk * BLOCK_SIZE,
                                           rj_finishedSize := offsetBlk * BLOCK_SIZE, rj_blkId := offsetBlk\<rparr>
                                  else job);
                          job2 = job1\<lparr>rj_active := True, rj_waitingConfirm := False\<rparr>
                      in pumpUploadBlocks clk i (put_read i job2 c)))))"

section \<open>Downloads\<close>

definition handleBlock :: "env \<Rightarrow> int \<Rightarrow> FileTransferBlock \<Rightarrow> ftconn \<times> disk \<Rightarrow> ftconn \<times> disk" where
  "handleBlock E now block s =
     (let (c, dk) = s; i = FileTransferBlock_id block
      in case map_get (write_jobs c) i of
           None \<Rightarrow> s
         | Some job \<Rightarrow>
             (case appendBlock E now (FileTransferBlock_file_num block) (FileTransferBlock_data block)
                     (FileTransferBlock_compressed block) job dk of
                (None, job1, dk1) \<Rightarrow> (put_write i job1 c, dk1)
              | (Some e, job1, dk1) \<Rightarrow>
                  (pushJobError i (FileTransferBlock_file_num block) (js_String e) (put_write i job1 c), dk1)))"

definition handleDone ::
    "env \<Rightarrow> picker_behaviour \<Rightarrow> FileTransferDone \<Rightarrow> ftconn \<times> disk \<Rightarrow> (ftconn \<times> disk) option" where
  "handleDone E behaviour d s =
     (let (c, dk) = s; i = FileTransferDone_id d; fileNum = FileTransferDone_file_num d
      in if map_has (read_jobs c) i then Some s
         else (case map_get (write_jobs c) i of
                 Some job \<Rightarrow>
                   (case finalizeDownload E behaviour job dk of
                      (FinishNever, dk1) \<Rightarrow> None
                    | (FinishThrew e, dk1) \<Rightarrow>
                        Some (drop_job i (pushJobError i fileNum (js_String e) c), dk1)
                    | (FinishOk, dk1) \<Rightarrow>
                        (let n = (if wj_isFolderDownload job \<and> wj_files job \<noteq> []
                                  then int (length (wj_files job)) - 1 else fileNum)
                         in Some (pushJobDone i n (drop_job i c), dk1)))
               | None \<Rightarrow> Some (pushJobDone i fileNum c, dk)))"

definition handleError :: "FileTransferError \<Rightarrow> ftconn \<Rightarrow> ftconn" where
  "handleError e c =
     pushJobError (FileTransferError_id e) (FileTransferError_file_num e) (FileTransferError_error e)
       (drop_job (FileTransferError_id e) c)"

definition sendConfirm :: "env \<Rightarrow> int \<Rightarrow> int \<Rightarrow> bool \<Rightarrow> int \<Rightarrow> ftconn \<Rightarrow> ftconn" where
  "sendConfirm E i fileNum skip offsetBlk c =
     (let c1 = sendMessage E (sendConfirmAction i fileNum skip offsetBlk) c
      in case map_get (read_jobs c1) i of
           Some job \<Rightarrow> (if skip then c1 else put_read i (job\<lparr>rj_active := True\<rparr>) c1)
         | None \<Rightarrow> c1)"

text \<open>\<open>handleDigest\<close>: the paths of the job under the id, a download first.\<close>

definition digest_paths :: "int \<Rightarrow> ftconn \<Rightarrow> (string \<times> string) option" where
  "digest_paths i c =
     (case map_get (write_jobs c) i of
        Some job \<Rightarrow> Some (wj_remotePath job, wj_localPath job)
      | None \<Rightarrow> map_option (\<lambda>job. (rj_remotePath job, rj_localPath job)) (map_get (read_jobs c) i))"

definition handleDigest :: "env \<Rightarrow> FileTransferDigest \<Rightarrow> ftconn \<Rightarrow> ftconn" where
  "handleDigest E d c =
     (case digest_paths (FileTransferDigest_id d) c of
        None \<Rightarrow> c
      | Some (remotePath, localPath) \<Rightarrow>
          (if FileTransferDigest_is_upload d then
             ev ''override_file_confirm''
               [(''id'', JIntStr (FileTransferDigest_id d)), (''file_num'', JIntStr (FileTransferDigest_file_num d)),
                (''read_path'', JStr (str_or remotePath localPath)), (''is_upload'', JStr ''true''),
                (''is_identical'', JStr (js_bool_string (FileTransferDigest_is_identical d)))] c
           else sendConfirm E (FileTransferDigest_id d) (FileTransferDigest_file_num d) False 0 c))"

definition handle_dir :: "FileDirectory \<Rightarrow> ftconn \<Rightarrow> ftconn" where
  "handle_dir fd c =
     (let i = FileDirectory_id fd; entries = FileDirectory_entries fd;
          c1 = (case map_get (write_jobs c) i of
                  Some job \<Rightarrow> (if entries \<noteq> [] then put_write i (setDownloadFiles entries job) c else c)
                | None \<Rightarrow> c)
      in ev ''file_dir'' [(''is_local'', JStr ''false''),
           (''value'', fdToJson i (FileDirectory_path fd) entries)] c1)"

definition handleFileResponse ::
    "env \<Rightarrow> int \<Rightarrow> picker_behaviour \<Rightarrow> FileResponse \<Rightarrow> ftconn \<times> disk \<Rightarrow> (ftconn \<times> disk) option" where
  "handleFileResponse E now behaviour fr s =
     (case FileResponse_dir fr of
        Some fd \<Rightarrow> Some (handle_dir fd (fst s), snd s)
      | None \<Rightarrow>
     (case FileResponse_empty_dirs fr of
        Some ed \<Rightarrow> Some (ev ''empty_dirs'' [(''is_local'', JStr ''false''), (''value'', emptyDirsToJson ed)] (fst s), snd s)
      | None \<Rightarrow>
     (case FileResponse_digest fr of
        Some d \<Rightarrow> Some (handleDigest E d (fst s), snd s)
      | None \<Rightarrow>
     (case FileResponse_block fr of
        Some b \<Rightarrow> Some (handleBlock E now b s)
      | None \<Rightarrow>
     (case FileResponse_done fr of
        Some d \<Rightarrow> handleDone E behaviour d s
      | None \<Rightarrow>
     (case FileResponse_error fr of
        Some e \<Rightarrow> Some (handleError e (fst s), snd s)
      | None \<Rightarrow> Some s))))))"

section \<open>The download queue\<close>

text \<open>
  \<open>processDownloadQueue\<close> runs until the save dialog of the first queued item is open, and goes
  on when the dialog is answered.
\<close>

definition continue_queue :: "int \<Rightarrow> ftconn \<Rightarrow> ftconn" where
  "continue_queue now c =
     (case ft_downloadQueue c of
        [] \<Rightarrow> c\<lparr>ft_downloadQueueRunning := False, ft_awaitingPick := None\<rparr>
      | item # rest \<Rightarrow>
          (let (job, jm) = createDownloadJob now (di_id item) (di_path item) (di_to item) (di_fileNum item)
                             (di_isDir item) (ft_jobs c)
           in c\<lparr>ft_downloadQueue := rest, ft_jobs := jm, ft_awaitingPick := Some item\<rparr>))"

definition processDownloadQueue :: "int \<Rightarrow> ftconn \<Rightarrow> ftconn" where
  "processDownloadQueue now c =
     (if ft_downloadQueueRunning c then c else continue_queue now (c\<lparr>ft_downloadQueueRunning := True\<rparr>))"

text \<open>\<open>ensureDownloadSaveTarget\<close> on the job under the id: \<open>False\<close> when the user cancelled.\<close>

definition ensureDownloadSaveTarget ::
    "picker_behaviour \<Rightarrow> int \<Rightarrow> ftconn \<times> disk \<Rightarrow> bool \<times> ftconn \<times> disk" where
  "ensureDownloadSaveTarget behaviour i s =
     (let (c, dk) = s
      in case map_get (write_jobs c) i of
           Some job \<Rightarrow>
             (if wj_saveTarget job \<noteq> None then (True, s)
              else (case openSaveFilePicker behaviour dk of
                      (PickCancelled, dk1) \<Rightarrow> (False, c, dk1)
                    | (PickUnsupported, dk1) \<Rightarrow> (True, c, dk1)
                    | (Picked t, dk1) \<Rightarrow> (True, put_write i (job\<lparr>wj_saveTarget := Some t\<rparr>) c, dk1)))
         | None \<Rightarrow>
             (case openSaveFilePicker behaviour dk of
                (PickCancelled, dk1) \<Rightarrow> (False, c, dk1)
              | (_, dk1) \<Rightarrow> (True, c, dk1)))"

text \<open>The user answers the dialog of the item that is being started.\<close>

definition dialog_answered ::
    "env \<Rightarrow> int \<Rightarrow> picker_behaviour \<Rightarrow> ftconn \<times> disk \<Rightarrow> ftconn \<times> disk" where
  "dialog_answered E now behaviour s =
     (case ft_awaitingPick (fst s) of
        None \<Rightarrow> s
      | Some item \<Rightarrow>
          (case ensureDownloadSaveTarget behaviour (di_id item) s of
             (ok, c, dk) \<Rightarrow>
               (continue_queue now
                  (if ok then sendMessage E (sendAction (di_id item) (di_path item) (di_fileNum item) (di_includeHidden item)) c
                   else pushJobError (di_id item) (di_fileNum item) ''Download cancelled'' (drop_job (di_id item) c)),
                dk)))"

definition resumeRemoteDownload ::
    "env \<Rightarrow> picker_behaviour \<Rightarrow> int \<Rightarrow> ftconn \<times> disk \<Rightarrow> ftconn \<times> disk" where
  "resumeRemoteDownload E behaviour i s =
     (case map_get (write_jobs (fst s)) i of
        None \<Rightarrow> s
      | Some job \<Rightarrow>
          (case ensureDownloadSaveTarget behaviour i s of
             (ok, c, dk) \<Rightarrow>
               (if ok then sendMessage E (sendAction i (wj_remotePath job) (wj_fileNum job) False) c
                else pushJobError i (wj_fileNum job) ''Download cancelled'' c, dk)))"

section \<open>Requests of the user\<close>

definition readRemoteDir :: "string \<Rightarrow> bool \<Rightarrow> ftconn \<Rightarrow> ftconn" where
  "readRemoteDir path includeHidden c = queueMessage (readDirAction path includeHidden) c"

definition sendFiles ::
    "int \<Rightarrow> int \<Rightarrow> string \<Rightarrow> string \<Rightarrow> int \<Rightarrow> bool \<Rightarrow> bool \<Rightarrow> bool \<Rightarrow> ftconn \<Rightarrow> ftconn" where
  "sendFiles now i path to fileNum includeHidden isRemote isDir c =
     (if isRemote then
        processDownloadQueue now
          (c\<lparr>ft_downloadQueue := ft_downloadQueue c
               @ [\<lparr>di_id = i, di_path = path, di_to = to, di_fileNum = fileNum,
                   di_includeHidden = includeHidden, di_isDir = isDir\<rparr>]\<rparr>)
      else
        (case map_get (pending_uploads c) i of
           None \<Rightarrow> pushJobError i fileNum ''No local file selected'' c
         | Some f \<Rightarrow>
             (let (job, jm) = createUploadJob now i path to fileNum f includeHidden (ft_jobs c)
              in queueMessage (digestResponse i fileNum (fl_size f) (modified_seconds f))
                   (queueMessage (receiveAction i to (rj_files job) fileNum (rj_totalSize job))
                      (c\<lparr>ft_jobs := jm\<rparr>)))))"

definition addJob :: "int \<Rightarrow> int \<Rightarrow> string \<Rightarrow> string \<Rightarrow> int \<Rightarrow> bool \<Rightarrow> bool \<Rightarrow> ftconn \<Rightarrow> ftconn" where
  "addJob now i path to fileNum includeHidden isRemote c =
     (if isRemote then c\<lparr>ft_jobs := snd (createDownloadJob now i path to fileNum False (ft_jobs c))\<rparr>
      else (case map_get (pending_uploads c) i of
              None \<Rightarrow> c
            | Some f \<Rightarrow> c\<lparr>ft_jobs := snd (createUploadJob now i path to fileNum f includeHidden (ft_jobs c))\<rparr>))"

definition resumeJob ::
    "env \<Rightarrow> (nat \<Rightarrow> int) \<Rightarrow> picker_behaviour \<Rightarrow> int \<Rightarrow> bool \<Rightarrow> ftconn \<times> disk \<Rightarrow> (ftconn \<times> disk) option" where
  "resumeJob E clk behaviour i isRemote s =
     (if isRemote then Some (resumeRemoteDownload E behaviour i s)
      else (case map_get (read_jobs (fst s)) i of
              None \<Rightarrow> Some s
            | Some job \<Rightarrow>
                (if rj_file job \<noteq> None
                 then map_option (\<lambda>c. (c, snd s))
                        (pumpUploadBlocks clk i (put_read i (job\<lparr>rj_active := True\<rparr>) (fst s)))
                 else Some s)))"

definition confirmOverrideFile :: "env \<Rightarrow> int \<Rightarrow> int \<Rightarrow> bool \<Rightarrow> bool \<Rightarrow> ftconn \<Rightarrow> ftconn" where
  "confirmOverrideFile E i fileNum needOverride isUpload c =
     (let c1 = sendConfirm E i fileNum (\<not> needOverride) 0 c
      in if isUpload \<and> needOverride then
           (case map_get (read_jobs c1) i of
              None \<Rightarrow> c1
            | Some job \<Rightarrow> put_read i (job\<lparr>rj_active := True\<rparr>) c1)
         else c1)"

definition cancelJob :: "env \<Rightarrow> int \<Rightarrow> ftconn \<Rightarrow> ftconn" where
  "cancelJob E i c = sendMessage E (cancelAction i) (drop_job i c)"

definition removeFile :: "env \<Rightarrow> int \<Rightarrow> string \<Rightarrow> int \<Rightarrow> bool \<Rightarrow> ftconn \<Rightarrow> ftconn" where
  "removeFile E i path fileNum isRemote c =
     (if isRemote then sendMessage E (removeFileAction i path fileNum) c else pushJobDone i fileNum c)"

definition createDir :: "env \<Rightarrow> int \<Rightarrow> string \<Rightarrow> bool \<Rightarrow> ftconn \<Rightarrow> ftconn" where
  "createDir E i path isRemote c =
     (if isRemote then sendMessage E (createDirAction i path) c else pushJobDone i (- 1) c)"

definition renameFile :: "env \<Rightarrow> int \<Rightarrow> string \<Rightarrow> string \<Rightarrow> bool \<Rightarrow> ftconn \<Rightarrow> ftconn" where
  "renameFile E i path newName isRemote c =
     (if isRemote then sendMessage E (renameAction i path newName) c else pushJobDone i (- 1) c)"

definition readDirToRemoveRecursive :: "env \<Rightarrow> int \<Rightarrow> string \<Rightarrow> bool \<Rightarrow> bool \<Rightarrow> ftconn \<Rightarrow> ftconn" where
  "readDirToRemoveRecursive E i path isRemote showHidden c =
     (if isRemote then sendMessage E (allFilesAction i path showHidden) c else c)"

definition removeAllEmptyDirs :: "env \<Rightarrow> int \<Rightarrow> string \<Rightarrow> bool \<Rightarrow> ftconn \<Rightarrow> ftconn" where
  "removeAllEmptyDirs E i path isRemote c =
     (if isRemote then sendMessage E (removeDirAction i path) c else c)"

definition readEmptyDirs :: "env \<Rightarrow> string \<Rightarrow> bool \<Rightarrow> ftconn \<Rightarrow> ftconn" where
  "readEmptyDirs E path includeHidden c = sendMessage E (readEmptyDirsAction path includeHidden) c"

definition sendFolderUpload :: "int \<Rightarrow> int \<Rightarrow> string \<Rightarrow> bool \<Rightarrow> ftconn \<times> picker \<Rightarrow> ftconn \<times> picker" where
  "sendFolderUpload now i to includeHidden s =
     (let (c, pk) = s; (plan, pk1) = takeFolderPlan pk
      in case plan of
           None \<Rightarrow> (pushJobError i 0 ''No folder selected'' c, pk1)
         | Some p \<Rightarrow>
             (let entries = map2 upload_entry (fp_relativeNames p) (fp_files p);
                  (job, jm) = createMultiFileUploadJob now i (fp_folderName p) to 0 (fp_files p) entries
                                (fp_totalSize p) includeHidden (ft_jobs c)
              in (queueDigestForCurrentFile job
                    (queueMessage (receiveAction i to (rj_files job) 0 (rj_totalSize job)) (c\<lparr>ft_jobs := jm\<rparr>)),
                  pk1)))"

definition sendLocalFiles ::
    "picker \<Rightarrow> int \<Rightarrow> int \<Rightarrow> int \<Rightarrow> string \<Rightarrow> string \<Rightarrow> int \<Rightarrow> bool \<Rightarrow> bool \<Rightarrow> ftconn \<Rightarrow> ftconn" where
  "sendLocalFiles pk now i handleIndex path to fileNum includeHidden isRemote c =
     (case getPickedFile handleIndex pk of
        None \<Rightarrow> pushJobError i fileNum ''Local file not found'' c
      | Some f \<Rightarrow>
          sendFiles now i path to fileNum includeHidden isRemote False
            (c\<lparr>ft_jobs := (ft_jobs c)\<lparr>jm_pendingUploads := map_set i f (pending_uploads c)\<rparr>\<rparr>))"

section \<open>Teardown\<close>

definition clear_jobs :: "ftconn \<Rightarrow> ftconn" where
  "clear_jobs c = c\<lparr>ft_jobs := newFileJobManager\<rparr>"

definition failActiveJobs :: "string \<Rightarrow> ftconn \<Rightarrow> ftconn" where
  "failActiveJobs err c =
     (let c1 = fold (\<lambda>job. pushJobError (rj_id job) (rj_fileNum job) err) (map_values (read_jobs c)) c;
          c2 = fold (\<lambda>job. pushJobError (wj_id job) (wj_fileNum job) err) (map_values (write_jobs c)) c1
      in clear_jobs c2)"

text \<open>The ids in the insertion order of the \<open>Set\<close>.\<close>

definition active_ids :: "ftconn \<Rightarrow> int list" where
  "active_ids c = map_keys (read_jobs c) @ filter (\<lambda>i. \<not> map_has (read_jobs c) i) (map_keys (write_jobs c))"

definition cancelAllJobs :: "env \<Rightarrow> ftconn \<Rightarrow> ftconn" where
  "cancelAllJobs E c =
     (let wsOpen = ws_is_open c
      in clear_jobs (fold (\<lambda>i c. if wsOpen then sendMessage E (cancelAction i) c else c) (active_ids c) c))"

definition ft_close :: "env \<Rightarrow> ftconn \<Rightarrow> ftconn" where
  "ft_close E c =
     (if ft_closing c then c
      else baseClose (cancelAllJobs E (c\<lparr>ft_closing := True, ft_progressInterval := False\<rparr>)))"

lemmas ft_frame_defs = put_read_def put_write_def drop_job_def clear_jobs_def pushJobError_def pushJobDone_def

section \<open>Teardown\<close>

lemma ws_unchanged [simp]: "c\<lparr>b_ws := map_option id (b_ws c)\<rparr> = (c :: 'a base_scheme)"
  by (cases c) (simp add: option.map_id)

lemma fold_sendMessage:
  "fold (sendMessage E) ms c = c\<lparr>b_ws := map_option (fold (ws_sendMessage E) ms) (b_ws c)\<rparr>"
  by (induction ms arbitrary: c) (simp_all add: sendMessage_def option.map_comp o_def flip: id_def)

lemma fold_when: "fold (\<lambda>i c. if b then f i c else c) xs c = (if b then fold f xs c else c)"
  by (induction xs arbitrary: c) auto

text \<open>What closing a connection sends over its socket before the socket is shut.\<close>

definition farewell :: "ftconn \<Rightarrow> Message list" where
  "farewell c = (if ws_is_open c then map cancelAction (active_ids c) else [])"

lemma fold_cancel:
  "fold (\<lambda>i. sendMessage E (cancelAction i)) is c = fold (sendMessage E) (map cancelAction is) c"
  by (simp add: fold_map o_def)

lemma cancelAllJobs_sends:
  "cancelAllJobs E c = c\<lparr>ft_jobs := newFileJobManager, b_ws := map_option (fold (ws_sendMessage E) (farewell c)) (b_ws c)\<rparr>"
  by (auto simp: cancelAllJobs_def Let_def fold_when fold_cancel fold_sendMessage clear_jobs_def farewell_def
      option.map_id simp flip: id_def)

lemma farewell_closing [simp]: "farewell (c\<lparr>ft_closing := x, ft_progressInterval := y\<rparr>) = farewell c"
  by (simp add: farewell_def ws_is_open_def active_ids_def)

lemma ft_close_closes:
  "\<not> ft_closing c \<Longrightarrow> ft_close E c =
     c\<lparr>ft_closing := True, ft_progressInterval := False, ft_jobs := newFileJobManager, b_msgs := [], b_interval := False,
       b_ws := map_option (\<lambda>ws. ws_close (setIngressHandler False (fold (ws_sendMessage E) (farewell c) ws))) (b_ws c)\<rparr>"
  by (simp add: ft_close_def cancelAllJobs_sends baseClose_def option.map_comp o_def)

text \<open>A connection that is closing has been shut already.\<close>

definition ft_shut :: "ftconn \<Rightarrow> bool" where
  "ft_shut c \<longleftrightarrow> b_msgs c = [] \<and> \<not> b_interval c \<and> (case b_ws c of None \<Rightarrow> True | Some ws \<Rightarrow> socket_shut ws)"

definition ft_ok :: "ftconn \<Rightarrow> bool" where
  "ft_ok c \<longleftrightarrow> (ft_closing c \<longrightarrow> ft_shut c)"

lemma ft_close_shut: "ft_ok c \<Longrightarrow> ft_shut (ft_close E c)"
proof (cases "ft_closing c")
  case False
  then show ?thesis by (simp add: ft_close_closes ft_shut_def ws_close_shut split: option.split)
qed (simp add: ft_ok_def ft_close_def)

interpretation ft: connection "ft_close E" b_ws b_msgs b_interval ft_ok for E
proof
  fix c ws assume "ft_ok c"
  then have s: "ft_shut (ft_close E c)" by (rule ft_close_shut)
  then show "ft_ok (ft_close E c)" by (simp add: ft_ok_def)
  show "b_msgs (ft_close E c) = []" "\<not> b_interval (ft_close E c)" using s by (simp_all add: ft_shut_def)
  show "socket_shut ws" if "b_ws (ft_close E c) = Some ws" using s that by (simp add: ft_shut_def)
qed

lemma fold_pushJobError:
  "fold (\<lambda>job. pushJobError (f job) (g job) err) js c
     = c\<lparr>b_out := b_out c @ map (\<lambda>job. job_error (f job) (g job) err (b_sessionId c)) js\<rparr>"
  by (induction js arbitrary: c) (simp_all add: pushJobError_def)

text \<open>The errors that are reported for the jobs of a connection.\<close>

definition job_errors :: "string \<Rightarrow> ftconn \<Rightarrow> emission list" where
  "job_errors err c =
     map (\<lambda>job. job_error (rj_id job) (rj_fileNum job) err (b_sessionId c)) (map_values (read_jobs c))
     @ map (\<lambda>job. job_error (wj_id job) (wj_fileNum job) err (b_sessionId c)) (map_values (write_jobs c))"

lemma failActiveJobs_reports:
  "failActiveJobs err c = c\<lparr>ft_jobs := newFileJobManager, b_out := b_out c @ job_errors err c\<rparr>"
  by (simp add: failActiveJobs_def Let_def fold_pushJobError clear_jobs_def job_errors_def)

end
