(* ===== verification/Rd_Connection.thy ===== *)
theory Rd_Connection
  imports Connection_Interface Common_Helper
begin

text \<open>
  \<open>flutter/js/src/connections/rd_connection.ts\<close>, \<open>rd_options.ts\<close> and \<open>rd_video.ts\<close>: the remote
  desktop connection.  A message box is recorded as an emission; what the bridge does with it
  (closing the viewer on a fatal error) is outside the connection.  A handle stands for a
  video decoder.
\<close>

section \<open>State\<close>

record rdconn = base +
  rd_firstFrame :: bool
  rd_videoDecoder :: "nat option"
  rd_closedDecoders :: "nat list"
  rd_videoTestSpeed :: "int \<times> int"
  rd_lastKeyDownEvent :: "int option"

definition newRdConnection :: rdconn where
  "newRdConnection = base.extend newBase
     \<lparr>rd_firstFrame = False, rd_videoDecoder = None, rd_closedDecoders = [], rd_videoTestSpeed = (0, 0),
      rd_lastKeyDownEvent = None\<rparr>"

definition rd_msgbox :: "string \<Rightarrow> string \<Rightarrow> string \<Rightarrow> rdconn \<Rightarrow> rdconn" where
  "rd_msgbox t title text c = emit (MsgBox t title text) c"

definition send_misc :: "env \<Rightarrow> Misc \<Rightarrow> rdconn \<Rightarrow> rdconn" where
  "send_misc E misc c = sendMessage E (createBaseMessage\<lparr>Message_misc := Some misc\<rparr>) c"

definition send_option :: "env \<Rightarrow> OptionMessage \<Rightarrow> rdconn \<Rightarrow> rdconn" where
  "send_option E opt c = send_misc E (createBaseMisc\<lparr>Misc_option := Some opt\<rparr>) c"

definition send_key :: "env \<Rightarrow> KeyEvent \<Rightarrow> rdconn \<Rightarrow> rdconn" where
  "send_key E key c = sendMessage E (createBaseMessage\<lparr>Message_key_event := Some key\<rparr>) c"

section \<open>Options\<close>

text \<open>\<open>OptionMessage_BoolOption\<close> and \<open>ImageQuality\<close>.\<close>

abbreviation bool_No :: int where "bool_No \<equiv> 1"
abbreviation bool_Yes :: int where "bool_Yes \<equiv> 2"

definition getImageQuality :: "rdconn \<Rightarrow> jval" where
  "getImageQuality c = getOption ''image-quality'' c"

definition getImageQualityEnum :: "jval \<Rightarrow> bool \<Rightarrow> int option" where
  "getImageQualityEnum value ignoreDefault =
     (if value = JStr ''low'' then Some 2
      else if value = JStr ''best'' then Some 4
      else if value = JStr ''balanced'' then (if ignoreDefault then None else Some 3)
      else None)"

definition yes_if :: "string \<Rightarrow> rdconn \<Rightarrow> int" where
  "yes_if name c = (if truthy (getOption name c) then bool_Yes else 0)"

definition getOptionMessage :: "rdconn \<Rightarrow> OptionMessage option" where
  "getOptionMessage c =
     (let q = getImageQualityEnum (getImageQuality c) True;
          names = [''show-remote-cursor'', ''lock-after-session-end'', ''privacy-mode'', ''disable-audio'', ''disable-clipboard''];
          n = (if q \<noteq> None then 1 else 0) + length (filter (\<lambda>name. truthy (getOption name c)) names);
          msg = createBaseOptionMessage\<lparr>OptionMessage_image_quality := nullish q 0,
                  OptionMessage_show_remote_cursor := yes_if ''show-remote-cursor'' c,
                  OptionMessage_lock_after_session_end := yes_if ''lock-after-session-end'' c,
                  OptionMessage_privacy_mode := yes_if ''privacy-mode'' c,
                  OptionMessage_disable_audio := yes_if ''disable-audio'' c,
                  OptionMessage_disable_clipboard := yes_if ''disable-clipboard'' c\<rparr>
      in if n > 0 then Some msg else None)"

definition setImageQuality :: "env \<Rightarrow> int \<Rightarrow> string \<Rightarrow> rdconn \<Rightarrow> rdconn" where
  "setImageQuality E now value c =
     (let c1 = setOption now ''image-quality'' (JStr value) c
      in case getImageQualityEnum (JStr value) False of
           None \<Rightarrow> c1
         | Some q \<Rightarrow> send_option E (createBaseOptionMessage\<lparr>OptionMessage_image_quality := q\<rparr>) c1)"

definition toggle_message :: "string \<Rightarrow> bool \<Rightarrow> OptionMessage option" where
  "toggle_message name v =
     (let v2 = (if v then bool_Yes else bool_No); opt = createBaseOptionMessage
      in if name = ''show-remote-cursor'' then Some (opt\<lparr>OptionMessage_show_remote_cursor := v2\<rparr>)
         else if name = ''disable-audio'' then Some (opt\<lparr>OptionMessage_disable_audio := v2\<rparr>)
         else if name = ''disable-clipboard'' then Some (opt\<lparr>OptionMessage_disable_clipboard := v2\<rparr>)
         else if name = ''lock-after-session-end'' then Some (opt\<lparr>OptionMessage_lock_after_session_end := v2\<rparr>)
         else if name = ''privacy-mode'' then Some (opt\<lparr>OptionMessage_privacy_mode := v2\<rparr>)
         else if name = ''block-input'' then Some (opt\<lparr>OptionMessage_block_input := bool_Yes\<rparr>)
         else if name = ''unblock-input'' then Some (opt\<lparr>OptionMessage_block_input := bool_No\<rparr>)
         else if name = ''view-only'' then
           Some (opt\<lparr>OptionMessage_disable_keyboard := (if v then v2 else bool_No),
                     OptionMessage_disable_clipboard := (if v then v2 else bool_No),
                     OptionMessage_show_remote_cursor := (if v then v2 else bool_No),
                     OptionMessage_enable_file_transfer := (if v then v2 else bool_Yes),
                     OptionMessage_lock_after_session_end := (if v then v2 else bool_Yes)\<rparr>)
         else None)"

definition toggleOption :: "env \<Rightarrow> int \<Rightarrow> string \<Rightarrow> rdconn \<Rightarrow> rdconn" where
  "toggleOption E now name c =
     (let v = (\<not> truthy (getOption name c))
      in case toggle_message name v of
           None \<Rightarrow> c
         | Some opt \<Rightarrow>
             send_option E opt
               (if \<not> contains ''block-input'' name then setOption now name (JBool v) c else c))"

definition togglePrivacyMode :: "env \<Rightarrow> string \<Rightarrow> rdconn \<Rightarrow> rdconn" where
  "togglePrivacyMode E value c =
     send_option E (createBaseOptionMessage\<lparr>OptionMessage_privacy_mode :=
       (if value = ''true'' then bool_Yes else bool_No)\<rparr>) c"

definition PREFER_CODECS :: "(string \<times> int) list" where
  "PREFER_CODECS = [(''auto'', 0), (''vp8'', 4), (''vp9'', 1), (''av1'', 5), (''h264'', 2), (''h265'', 3)]"

definition prefer_codec :: "jval \<Rightarrow> int" where
  "prefer_codec pref = (case pref of JStr s \<Rightarrow> nullish (map_get PREFER_CODECS s) 0 | _ \<Rightarrow> 0)"

definition changePreferCodec :: "env \<Rightarrow> rdconn \<Rightarrow> rdconn" where
  "changePreferCodec E c =
     send_option E (createBaseOptionMessage\<lparr>OptionMessage_supported_decoding :=
       Some (createBaseSupportedDecoding\<lparr>SupportedDecoding_prefer :=
               prefer_codec (getOption ''codec-preference'' c)\<rparr>)\<rparr>) c"

definition getToggleOption :: "string \<Rightarrow> rdconn \<Rightarrow> jval" where
  "getToggleOption name c =
     (let v = getOption name c in if truthy v then v else JBool False)"

definition rd_getRemember :: "rdconn \<Rightarrow> bool" where
  "rd_getRemember c = truthy (getOption ''remember'' c)"

definition rd_setRemember :: "int \<Rightarrow> bool \<Rightarrow> rdconn \<Rightarrow> rdconn" where
  "rd_setRemember now v c = setOption now ''remember'' (JBool v) c"

section \<open>Video\<close>

text \<open>The decoder arrives: it replaces the current one, and the one known at the request is closed.\<close>

definition decoder_loaded :: "nat option \<Rightarrow> nat \<Rightarrow> rdconn \<Rightarrow> rdconn" where
  "decoder_loaded old new c =
     c\<lparr>rd_videoDecoder := Some new,
       rd_closedDecoders := rd_closedDecoders c @ (case old of None \<Rightarrow> [] | Some d \<Rightarrow> [d])\<rparr>"

definition sendVideoReceived :: "env \<Rightarrow> rdconn \<Rightarrow> rdconn" where
  "sendVideoReceived E c = send_misc E (createBaseMisc\<lparr>Misc_video_received := Some True\<rparr>) c"

text \<open>
  How the decoder answers for one frame, in the order of the answers: \<open>processFrame\<close> throws, or
  calls back with the result, whether a frame buffer is available, and the time since the
  batch arrived.
\<close>

datatype frame_answer = FrameThrew | FrameDecoded bool bool int

definition frame_drawn :: "int \<Rightarrow> int \<Rightarrow> rdconn \<Rightarrow> rdconn" where
  "frame_drawn display elapsed c =
     (let c1 = emit (DrawFrame display (b_sessionId c)) c;
          (count, total) = rd_videoTestSpeed c1;
          speed = (count + 1, total + elapsed)
      in c1\<lparr>rd_videoTestSpeed := (if fst speed \<ge> 30 then (0, 0) else speed)\<rparr>)"

definition frame_answered :: "env \<Rightarrow> int \<Rightarrow> nat \<Rightarrow> frame_answer \<Rightarrow> nat \<times> rdconn \<Rightarrow> nat \<times> rdconn" where
  "frame_answered E display n a s =
     (let (i, c) = s; i1 = i + 1;
          c1 = (if i1 = n then sendVideoReceived E c else c)
      in case a of
           FrameThrew \<Rightarrow> (i1, c1)
         | FrameDecoded ok buffer elapsed \<Rightarrow>
             (i1, if ok \<and> buffer \<and> n = i1 then frame_drawn display elapsed c1 else c1))"

definition handleVideoFrame :: "env \<Rightarrow> VideoFrame \<Rightarrow> frame_answer list \<Rightarrow> rdconn \<Rightarrow> rdconn" where
  "handleVideoFrame E vf answers c =
     (let c1 = (if rd_firstFrame c then c else (rd_msgbox '''' '''' '''' c)\<lparr>rd_firstFrame := True\<rparr>)
      in case VideoFrame_vp9s vf of
           None \<Rightarrow> c1
         | Some vp9s \<Rightarrow>
             (if rd_videoDecoder c1 = None then c1
              else snd (fold (frame_answered E (VideoFrame_display vf) (length (EncodedVideoFrames_frames vp9s)))
                          answers (0, c1))))"

section \<open>Input\<close>

definition getMod :: "bool \<Rightarrow> bool \<Rightarrow> bool \<Rightarrow> bool \<Rightarrow> int list" where
  "getMod alt ctrl shift command =
     (if alt then [controlKeyFromJSON ''Alt''] else [])
     @ (if ctrl then [controlKeyFromJSON ''Control''] else [])
     @ (if shift then [controlKeyFromJSON ''Shift''] else [])
     @ (if command then [controlKeyFromJSON ''Meta''] else [])"

text \<open>\<open>!key_event.chr\<close>: undefined or zero.\<close>

definition no_chr :: "KeyEvent \<Rightarrow> bool" where
  "no_chr k \<longleftrightarrow> KeyEvent_chr k = None \<or> KeyEvent_chr k = Some 0"

definition inputKey ::
    "env \<Rightarrow> bool \<Rightarrow> string \<Rightarrow> bool \<Rightarrow> bool \<Rightarrow> bool \<Rightarrow> bool \<Rightarrow> bool \<Rightarrow> bool \<Rightarrow> rdconn \<Rightarrow> rdconn" where
  "inputKey E isDesktop name down press alt ctrl shift command c =
     (let key = mapKey name isDesktop;
          c1 = (if down then c\<lparr>rd_lastKeyDownEvent := KeyEvent_chr key\<rparr> else c);
          (key1, c2) = (if \<not> down \<and> no_chr key
                        then (key\<lparr>KeyEvent_chr := rd_lastKeyDownEvent c1\<rparr>, c1\<lparr>rd_lastKeyDownEvent := None\<rparr>)
                        else (key, c1))
      in send_key E (key1\<lparr>KeyEvent_down := down, KeyEvent_press := press,
                          KeyEvent_modifiers := getMod alt ctrl shift command\<rparr>) c2)"

definition ctrlAltDel :: "env \<Rightarrow> rdconn \<Rightarrow> rdconn" where
  "ctrlAltDel E c =
     (let key = createBaseKeyEvent\<lparr>KeyEvent_down := True\<rparr>
      in send_key E
           (if map_option PeerInfo_platform (b_peerInfo c) = Some ''Windows''
            then key\<lparr>KeyEvent_control_key := Some (controlKeyFromJSON ''CtrlAltDel'')\<rparr>
            else key\<lparr>KeyEvent_control_key := Some (controlKeyFromJSON ''Delete''),
                     KeyEvent_modifiers := getMod True True False False\<rparr>) c)"

definition inputString :: "env \<Rightarrow> string \<Rightarrow> rdconn \<Rightarrow> rdconn" where
  "inputString E sq c = send_key E (createBaseKeyEvent\<lparr>KeyEvent_seq := Some sq\<rparr>) c"

definition switchDisplay :: "env \<Rightarrow> int \<Rightarrow> rdconn \<Rightarrow> rdconn" where
  "switchDisplay E display c =
     send_misc E (createBaseMisc\<lparr>Misc_switch_display :=
       Some (createBaseSwitchDisplay\<lparr>SwitchDisplay_display := display\<rparr>)\<rparr>) c"

definition inputMouse ::
    "env \<Rightarrow> int \<Rightarrow> int \<Rightarrow> int \<Rightarrow> bool \<Rightarrow> bool \<Rightarrow> bool \<Rightarrow> bool \<Rightarrow> rdconn \<Rightarrow> rdconn" where
  "inputMouse E buttons x y alt ctrl shift command c =
     sendMessage E (createBaseMessage\<lparr>Message_mouse_event :=
       Some \<lparr>MouseEvent_mask = buttons, MouseEvent_x = x, MouseEvent_y = y,
             MouseEvent_modifiers = getMod alt ctrl shift command\<rparr>\<rparr>) c"

text \<open>The steps of \<open>inputOsPassword\<close>, which pauses between them.\<close>

definition inputOsPassword_steps :: "env \<Rightarrow> string \<Rightarrow> (rdconn \<Rightarrow> rdconn) list" where
  "inputOsPassword_steps E sq =
     [inputMouse E 0 0 0 False False False False,
      inputMouse E 0 3 3 False False False False,
      \<lambda>c. inputMouse E 10 0 0 False False False False (inputMouse E 9 0 0 False False False False c),
      send_key E (createBaseKeyEvent\<lparr>KeyEvent_press := True, KeyEvent_seq := Some sq\<rparr>)]"

definition lockScreen :: "env \<Rightarrow> rdconn \<Rightarrow> rdconn" where
  "lockScreen E c =
     send_key E (createBaseKeyEvent\<lparr>KeyEvent_down := True,
       KeyEvent_control_key := Some (controlKeyFromJSON ''LockScreen'')\<rparr>) c"

definition refresh :: "env \<Rightarrow> rdconn \<Rightarrow> rdconn" where
  "refresh E c = send_misc E (createBaseMisc\<lparr>Misc_refresh_video := Some True\<rparr>) c"

definition send2fa :: "env \<Rightarrow> string \<Rightarrow> rdconn \<Rightarrow> rdconn" where
  "send2fa E value c =
     send_misc E (createBaseMisc\<lparr>Misc_chat_message := Some \<lparr>ChatMessage_text = value\<rparr>\<rparr>) c"

text \<open>\<open>logon\<close> is what \<open>JSON.parse\<close> made of the value, \<open>None\<close> when it threw.\<close>

definition elevateWithLogon :: "env \<Rightarrow> ElevationRequestWithLogon option \<Rightarrow> rdconn \<Rightarrow> rdconn" where
  "elevateWithLogon E logon c =
     (case logon of
        None \<Rightarrow> c
      | Some l \<Rightarrow> send_misc E (createBaseMisc\<lparr>Misc_elevation_request :=
          Some (createBaseElevationRequest\<lparr>ElevationRequest_logon := Some l\<rparr>)\<rparr>) c)"

section \<open>Teardown\<close>

definition rd_close :: "rdconn \<Rightarrow> rdconn" where
  "rd_close c =
     (let c1 = baseClose c
      in c1\<lparr>rd_closedDecoders := rd_closedDecoders c1 @ (case rd_videoDecoder c1 of None \<Rightarrow> [] | Some d \<Rightarrow> [d])\<rparr>)"

section \<open>Messages of the peer\<close>

definition shouldAutoLogin :: "rdconn \<Rightarrow> string" where
  "shouldAutoLogin c =
     (case getOption ''os-password'' c of
        JStr p \<Rightarrow> (if p \<noteq> '''' \<and> truthy (getOption ''lock-after-session-end'' c) \<and> truthy (getOption ''auto-login'' c)
                   then p else '''')
      | _ \<Rightarrow> '''')"

text \<open>\<open>getOption("info")?.username\<close>, when it is a non-empty string.\<close>

definition stored_username :: "rdconn \<Rightarrow> string" where
  "stored_username c =
     (case getOption ''info'' c of
        JObj flds \<Rightarrow> (case obj_get flds ''username'' of JStr u \<Rightarrow> u | _ \<Rightarrow> '''')
      | _ \<Rightarrow> '''')"

text \<open>The first step of \<open>inputOsPassword\<close> runs at once, the others after the pauses.\<close>

definition rd_handlePeerInfo :: "env \<Rightarrow> int \<Rightarrow> PeerInfo \<Rightarrow> rdconn \<Rightarrow> rdconn" where
  "rd_handlePeerInfo E now info c =
     (let c1 = c\<lparr>b_peerInfo := Some info\<rparr>
      in if PeerInfo_displays info = [] then rd_msgbox ''error'' ''Remote Error'' ''No Display'' c1
         else (let c2 = ev ''peer_info'' (peer_info_json info)
                          (rd_msgbox ''success'' ''Successful'' ''Connected, waiting for image...'' c1);
                   c3 = (if shouldAutoLogin c2 \<noteq> '''' then hd (inputOsPassword_steps E (shouldAutoLogin c2)) c2 else c2);
                   info1 = (if stored_username c3 \<noteq> '''' \<and> PeerInfo_username info = ''''
                            then info\<lparr>PeerInfo_username := stored_username c3\<rparr> else info);
                   c4 = setOption now ''info'' (JObj (peer_info_json info1)) (c3\<lparr>b_peerInfo := Some info1\<rparr>)
               in if rd_getRemember c4 then persistPasswordIfRemembered now True c4
                  else setOption now ''password'' JUndefined c4))"

definition permission_name :: "int \<Rightarrow> string option" where
  "permission_name p =
     (if p = 0 then Some ''keyboard'' else if p = 2 then Some ''clipboard'' else if p = 3 then Some ''audio'' else None)"

definition switch_display_json :: "SwitchDisplay \<Rightarrow> (string, jval) jsmap" where
  "switch_display_json sd =
     [(''display'', JInt (SwitchDisplay_display sd)), (''x'', JInt (SwitchDisplay_x sd)), (''y'', JInt (SwitchDisplay_y sd)),
      (''width'', JInt (SwitchDisplay_width sd)), (''height'', JInt (SwitchDisplay_height sd)),
      (''cursor_embedded'', JBool (SwitchDisplay_cursor_embedded sd)),
      (''resolutions'', (case SwitchDisplay_resolutions sd of None \<Rightarrow> JUndefined
         | Some rs \<Rightarrow> JObj [(''resolutions'', JArr (map (\<lambda>r. JObj [(''width'', JInt (Resolution_width r)),
             (''height'', JInt (Resolution_height r))]) (SupportedResolutions_resolutions rs)))])),
      (''original_resolution'', (case SwitchDisplay_original_resolution sd of None \<Rightarrow> JUndefined
         | Some r \<Rightarrow> JObj [(''width'', JInt (Resolution_width r)), (''height'', JInt (Resolution_height r))]))]"

text \<open>The new size of the display in the peer information, when there is such a display.\<close>

definition resize_display :: "SwitchDisplay \<Rightarrow> PeerInfo \<Rightarrow> PeerInfo" where
  "resize_display sd info =
     (case js_at (PeerInfo_displays info) (SwitchDisplay_display sd) of
        None \<Rightarrow> info
      | Some d \<Rightarrow>
          info\<lparr>PeerInfo_displays := (PeerInfo_displays info)[nat (SwitchDisplay_display sd) :=
            d\<lparr>DisplayInfo_width := SwitchDisplay_width sd, DisplayInfo_height := SwitchDisplay_height sd\<rparr>]\<rparr>)"

text \<open>\<open>handleMisc\<close>: \<open>False\<close> ends the message loop.\<close>

definition handleMisc :: "int \<Rightarrow> Misc \<Rightarrow> rdconn \<Rightarrow> bool \<times> rdconn" where
  "handleMisc now misc c =
     (case Misc_audio_format misc of
        Some af \<Rightarrow> (True, emit (InitAudio (AudioFormat_channels af) (AudioFormat_sample_rate af)) c)
      | None \<Rightarrow>
     (case Misc_chat_message misc of
        Some m \<Rightarrow> (True, ev ''chat'' [(''text'', JStr (ChatMessage_text m))] c)
      | None \<Rightarrow>
     (case Misc_permission_info misc of
        Some p \<Rightarrow>
          (case permission_name (PermissionInfo_permission p) of
             None \<Rightarrow> (True, c)
           | Some name \<Rightarrow> (True, ev ''permission'' [(name, JBool (PermissionInfo_enabled p))] c))
      | None \<Rightarrow>
     (case Misc_switch_display misc of
        Some sd \<Rightarrow>
          (let c1 = ev ''switch_display'' (switch_display_json sd) c;
               c2 = c1\<lparr>b_peerInfo := map_option (resize_display sd) (b_peerInfo c1)\<rparr>
           in (True, setOption now ''info'' (case b_peerInfo c2 of None \<Rightarrow> JUndefined
                       | Some info \<Rightarrow> JObj (peer_info_json info)) c2))
      | None \<Rightarrow>
     (case Misc_close_reason misc of
        Some reason \<Rightarrow>
          (if reason = '''' then (True, c)
           else (False, rd_close (rd_msgbox ''error'' ''Connection Error'' reason c)))
      | None \<Rightarrow> (True, c))))))"

definition rd_buildLoginRequest :: "int \<Rightarrow> bytes option \<Rightarrow> rdconn \<Rightarrow> LoginRequest \<times> rdconn" where
  "rd_buildLoginRequest rnd password c =
     (let sid = ensureLoginSessionId rnd (b_loginSessionId c)
      in (createBaseLoginRequest\<lparr>LoginRequest_username := b_id c, LoginRequest_my_id := ''web'',
            LoginRequest_my_name := ''web'', LoginRequest_password := nullish password [],
            LoginRequest_session_id := sid, LoginRequest_option := getOptionMessage c,
            LoginRequest_video_ack_required := True\<rparr>,
          c\<lparr>b_loginSessionId := Some sid\<rparr>))"

definition rd_handleLoginResponse :: "env \<Rightarrow> int \<Rightarrow> LoginResponse \<Rightarrow> rdconn \<Rightarrow> rdconn" where
  "rd_handleLoginResponse E now r c =
     (if opt_truthy (LoginResponse_error r) then
        (let err = the (LoginResponse_error r)
         in if err = ''Wrong Password''
            then rd_msgbox ''re-input-password'' err ''Do you want to enter again?'' (c\<lparr>b_password := None\<rparr>)
            else rd_msgbox ''error'' ''Login Error'' err c)
      else (case LoginResponse_peer_info r of
              None \<Rightarrow> c
            | Some info \<Rightarrow> rd_handlePeerInfo E now info c))"

definition cursor_data_json :: "CursorData \<Rightarrow> bytes \<Rightarrow> (string, jval) jsmap" where
  "cursor_data_json cd colors =
     [(''id'', JInt (CursorData_id cd)), (''hotx'', JInt (CursorData_hotx cd)), (''hoty'', JInt (CursorData_hoty cd)),
      (''width'', JInt (CursorData_width cd)), (''height'', JInt (CursorData_height cd)), (''colors'', JBytes colors)]"

text \<open>
  One round of the message loop: \<open>Inl e\<close> when the handler throws, otherwise whether the loop
  goes on.  \<open>answers\<close> are the answers of the video decoder.
\<close>

definition rd_handleMessage ::
    "env \<Rightarrow> int \<Rightarrow> int \<Rightarrow> frame_answer list \<Rightarrow> Message \<Rightarrow> rdconn \<Rightarrow> unknown + bool \<times> rdconn" where
  "rd_handleMessage E now rnd answers msg c =
     (case Message_hash msg of
        Some h \<Rightarrow>
          (case handleHashMessage E (rd_buildLoginRequest rnd) (c\<lparr>b_hash := Some h\<rparr>) of
             HashLogin (Inl e) \<Rightarrow> Inl e
           | HashLogin (Inr c1) \<Rightarrow> Inr (True, c1)
           | AskPassword c1 \<Rightarrow> Inr (True, rd_msgbox ''input-password'' ''Password Required'' '''' c1))
      | None \<Rightarrow>
     (case Message_login_response msg of
        Some r \<Rightarrow> Inr (True, rd_handleLoginResponse E now r c)
      | None \<Rightarrow>
     (case Message_video_frame msg of
        Some vf \<Rightarrow> Inr (True, handleVideoFrame E vf answers c)
      | None \<Rightarrow>
     (case Message_clipboard msg of
        Some cb \<Rightarrow>
          (case (if Clipboard_compress cb then decompress (zstd_decode E) (Clipboard_content cb)
                 else Some (Clipboard_content cb)) of
             None \<Rightarrow> Inr (True, c)
           | Some content \<Rightarrow> Inr (True, emit (CopyToClipboard content) c))
      | None \<Rightarrow>
     (case Message_cursor_data msg of
        Some cd \<Rightarrow>
          (case decompress (zstd_decode E) (CursorData_colors cd) of
             None \<Rightarrow> Inr (True, c)
           | Some colors \<Rightarrow> Inr (True, ev ''cursor_data'' (cursor_data_json cd colors) c))
      | None \<Rightarrow>
     (if Message_cursor_id msg \<noteq> None \<and> Message_cursor_id msg \<noteq> Some 0
      then Inr (True, ev ''cursor_id'' [(''id'', JInt (the (Message_cursor_id msg)))] c)
      else
     (case Message_cursor_position msg of
        Some p \<Rightarrow> Inr (True, ev ''cursor_position'' [(''x'', JInt (CursorPosition_x p)), (''y'', JInt (CursorPosition_y p))] c)
      | None \<Rightarrow>
     (case Message_misc msg of
        Some misc \<Rightarrow> Inr (handleMisc now misc c)
      | None \<Rightarrow>
     (case Message_audio_frame msg of
        Some af \<Rightarrow> Inr (True, emit (PlayAudio (AudioFrame_data af)) c)
      | None \<Rightarrow> Inr (True, c))))))))))"

text \<open>\<open>start\<close> up to the message loop, and what happens when the loop throws.\<close>

definition rd_loop_failed :: "unknown \<Rightarrow> rdconn \<Rightarrow> rdconn" where
  "rd_loop_failed error c = rd_msgbox ''error'' ''Connection Error'' (js_String error) c"

definition rd_start ::
    "(string, peer_options) jsmap \<Rightarrow> established \<Rightarrow> string option \<Rightarrow> string option \<Rightarrow> rdconn \<Rightarrow> rdconn" where
  "rd_start peers conn peer password c =
     (let c1 = (if opt_truthy peer then c\<lparr>b_id := the peer\<rparr> else c);
          c2 = (if opt_truthy password then c1\<lparr>b_plaintextPassword := password\<rparr> else c1);
          c3 = prepareConnect peers (b_id c2) c2
      in case conn of
           Established ws ready \<Rightarrow> attach_ws ws (emit ready c3)
         | ConnectError title text \<Rightarrow> rd_msgbox ''error'' title text c3
         | NotEstablished \<Rightarrow> c3
         | ConnectThrew e \<Rightarrow>
             rd_msgbox ''error'' ''Connection Error''
               (if exn_type e = JStr ''close'' then ''Reset by the peer'' else js_String e) c3)"

section \<open>Properties of the options\<close>

lemma send_option_options [simp]: "b_options (send_option E opt c) = b_options c"
  by (simp add: send_option_def send_misc_def sendMessage_def)

lemma send_option_getOption [simp]: "getOption k (send_option E opt c) = getOption k c"
  by (simp add: getOption_def)

definition toggle_names :: "string list" where
  "toggle_names = [''show-remote-cursor'', ''disable-audio'', ''disable-clipboard'',
     ''lock-after-session-end'', ''privacy-mode'', ''view-only'']"

lemma toggle_names_simps:
  assumes "name \<in> set toggle_names"
  shows "toggle_message name v \<noteq> None" "\<not> contains ''block-input'' name" "name \<noteq> ''tm''"
  using assms by (auto simp: toggle_names_def toggle_message_def Let_def)

text \<open>
  Toggling a display option flips what the options say about it and nothing else besides
  the time stamp, and toggling it again restores it; blocking the input of the peer is a
  command, not an option, and a name that is no option changes nothing.
\<close>

theorem toggleOption_flips:
  assumes "name \<in> set toggle_names" and "k \<noteq> ''tm''"
  shows "truthy (getOption name (toggleOption E now name c)) = (\<not> truthy (getOption name c))
    \<and> (k \<noteq> name \<longrightarrow> getOption k (toggleOption E now name c) = getOption k c)
    \<and> truthy (getOption name (toggleOption E now' name (toggleOption E now name c))) = truthy (getOption name c)
    \<and> b_options (toggleOption E now ''block-input'' c) = b_options c
    \<and> b_options (toggleOption E now ''unblock-input'' c) = b_options c"
proof -
  have flip: "getOption k' (toggleOption E t name d) =
      (if k' = ''tm'' then JInt t else if k' = name then JBool (\<not> truthy (getOption name d)) else getOption k' d)" for k' t d
    using toggle_names_simps(1) [OF assms(1), of "\<not> truthy (getOption name d)"] toggle_names_simps(2,3) [OF assms(1)]
    by (auto simp: toggleOption_def Let_def getOption_setOption split: option.split)
  have "b_options (toggleOption E now ''block-input'' c) = b_options c"
    "b_options (toggleOption E now ''unblock-input'' c) = b_options c"
    by (simp_all add: toggleOption_def toggle_message_def)
  then show ?thesis
    using assms(2) toggle_names_simps(3) [OF assms(1)] by (simp add: flip)
qed

theorem toggleOption_flips_witness:
  "truthy (getOption ''disable-audio'' (toggleOption plain_env 5 ''disable-audio'' newRdConnection))"
  using toggleOption_flips [of "''disable-audio''" "''x''" plain_env 5 newRdConnection 6]
  by (simp add: toggle_names_def newRdConnection_def base.defs newBase_def getOption_def obj_get_def)

section \<open>Properties of the video acknowledgement\<close>

text \<open>The acknowledgements among the messages sent: sends without a socket are lost.\<close>

lemma frame_answered_count: "fst (fold (frame_answered E d n) as (i, c)) = i + length as"
  by (induction as arbitrary: i c) (auto simp: frame_answered_def Let_def split: frame_answer.split)

lemma frame_drawn_ws [simp]: "b_ws (frame_drawn d e c) = b_ws c"
  by (simp add: frame_drawn_def Let_def split: prod.split)

lemma frame_answered_ws:
  "b_ws (snd (frame_answered E d n a (i, c)))
     = (if i + 1 = n then b_ws (sendVideoReceived E c) else b_ws c)"
  by (simp add: frame_answered_def Let_def split: frame_answer.split)

lemma sendVideoReceived_cong: "b_ws c = b_ws c' \<Longrightarrow> b_ws (sendVideoReceived E c) = b_ws (sendVideoReceived E c')"
  by (simp add: sendVideoReceived_def send_misc_def sendMessage_def)

lemma frames_answered_ws:
  "b_ws (snd (fold (frame_answered E d n) as (i, c)))
     = (if i < n \<and> n \<le> i + length as then b_ws (sendVideoReceived E c) else b_ws c)"
proof (induction as arbitrary: i c)
  case (Cons a as)
  obtain c1 where c1: "frame_answered E d n a (i, c) = (i + 1, c1)"
    using frame_answered_count [of E d n "[a]" i c] by (cases "frame_answered E d n a (i, c)") simp
  have w: "b_ws c1 = (if i + 1 = n then b_ws (sendVideoReceived E c) else b_ws c)"
    using frame_answered_ws [of E d n a i c] by (simp add: c1)
  show ?case
  proof (cases "i + 1 = n")
    case False
    then have "b_ws (sendVideoReceived E c1) = b_ws (sendVideoReceived E c)"
      using w by (intro sendVideoReceived_cong) simp
    with False w Cons.IH [of "i + 1" c1] show ?thesis by (auto simp: c1)
  qed (use w Cons.IH [of "i + 1" c1] in \<open>simp add: c1\<close>)
qed auto

text \<open>
  C31: flow control of the video: a batch of frames that reaches a loaded decoder is
  acknowledged to the peer exactly once, after the last of its frames has been answered,
  whether the decoder decoded or rejected the frames; before that nothing is sent.
\<close>

theorem video_acknowledged_once:
  assumes "VideoFrame_vp9s vf = Some vp9s" and "rd_videoDecoder c \<noteq> None"
    and "length answers \<le> length (EncodedVideoFrames_frames vp9s)" and "EncodedVideoFrames_frames vp9s \<noteq> []"
  shows "b_ws (handleVideoFrame E vf answers c) =
     (if length answers = length (EncodedVideoFrames_frames vp9s)
      then map_option (ws_sendMessage E (createBaseMessage\<lparr>Message_misc :=
             Some (createBaseMisc\<lparr>Misc_video_received := Some True\<rparr>)\<rparr>)) (b_ws c)
      else b_ws c)"
proof -
  let ?c1 = "if rd_firstFrame c then c else (rd_msgbox '''' '''' '''' c)\<lparr>rd_firstFrame := True\<rparr>"
  have "b_ws ?c1 = b_ws c" "rd_videoDecoder ?c1 \<noteq> None" using assms(2) by (simp_all add: rd_msgbox_def)
  moreover have "b_ws (sendVideoReceived E ?c1) = b_ws (sendVideoReceived E c)"
    by (rule sendVideoReceived_cong) (simp add: rd_msgbox_def)
  ultimately show ?thesis
    using assms(1,3,4) unfolding handleVideoFrame_def Let_def
    by (auto simp: frames_answered_ws sendVideoReceived_def send_misc_def sendMessage_def)
qed

theorem video_acknowledged_once_witness:
  "b_ws (handleVideoFrame plain_env (createBaseVideoFrame\<lparr>VideoFrame_vp9s := Some \<lparr>EncodedVideoFrames_frames = [createBaseEncodedVideoFrame]\<rparr>\<rparr>)
      [FrameThrew] (newRdConnection\<lparr>rd_videoDecoder := Some 0, b_ws := Some (on_open (newWebsock ''u'' False))\<rparr>))
   = Some (ws_sendMessage plain_env (createBaseMessage\<lparr>Message_misc :=
       Some (createBaseMisc\<lparr>Misc_video_received := Some True\<rparr>)\<rparr>) (on_open (newWebsock ''u'' False)))"
  using video_acknowledged_once [of "createBaseVideoFrame\<lparr>VideoFrame_vp9s := Some \<lparr>EncodedVideoFrames_frames = [createBaseEncodedVideoFrame]\<rparr>\<rparr>"
      "\<lparr>EncodedVideoFrames_frames = [createBaseEncodedVideoFrame]\<rparr>"
      "newRdConnection\<lparr>rd_videoDecoder := Some 0, b_ws := Some (on_open (newWebsock ''u'' False))\<rparr>" "[FrameThrew]" plain_env]
  by simp

section \<open>Teardown\<close>

interpretation rd: connection rd_close b_ws b_msgs b_interval "\<lambda>_. True"
  by unfold_locales (auto simp: rd_close_def Let_def baseClose_def ws_close_shut)

end
