(* ===== verification/Sessions.thy ===== *)
theory Sessions
  imports Connection_Interface Ft_Connection Rd_Connection
begin

text \<open>
  \<open>flutter/js/src/connections/sessions.ts\<close>: the registry of the open sessions.  Connections are
  objects: they live in a store under an address, and the registry and \<open>window.curConn\<close> hold
  addresses.  The world also has the disk, the file picker's state and the log of everything
  that was reported, in order.
\<close>

section \<open>State\<close>

datatype conn = FtC ftconn | RdC rdconn

record world =
  w_conns :: "(nat, conn) jsmap"
  w_sessions :: "(string, nat) jsmap"
  w_curConn :: "nat option"
  w_disk :: disk
  w_picker :: picker
  w_out :: "emission list"

fun conn_out :: "conn \<Rightarrow> emission list" where
  "conn_out (FtC c) = b_out c"
| "conn_out (RdC c) = b_out c"

fun conn_quiet :: "conn \<Rightarrow> conn" where
  "conn_quiet (FtC c) = FtC (c\<lparr>b_out := []\<rparr>)"
| "conn_quiet (RdC c) = RdC (c\<lparr>b_out := []\<rparr>)"

text \<open>An operation on the connection at an address; what it reports goes to the log.\<close>

definition on_conn :: "nat \<Rightarrow> (conn \<Rightarrow> conn) \<Rightarrow> world \<Rightarrow> world" where
  "on_conn a f w =
     (case map_get (w_conns w) a of
        None \<Rightarrow> w
      | Some k \<Rightarrow>
          w\<lparr>w_conns := map_set a (conn_quiet (f k)) (w_conns w), w_out := w_out w @ conn_out (f k)\<rparr>)"

fun conn_ft :: "(ftconn \<Rightarrow> ftconn) \<Rightarrow> conn \<Rightarrow> conn" where
  "conn_ft f (FtC c) = FtC (f c)"
| "conn_ft f (RdC c) = RdC c"

section \<open>Kinds\<close>

fun isRemoteDesktop :: "conn option \<Rightarrow> bool" where
  "isRemoteDesktop (Some (RdC c)) = True"
| "isRemoteDesktop _ = False"

fun isFileTransfer :: "conn option \<Rightarrow> bool" where
  "isFileTransfer (Some (FtC c)) = True"
| "isFileTransfer _ = False"

fun isFtSessionEnded :: "conn \<Rightarrow> bool" where
  "isFtSessionEnded (FtC c) = ft_sessionEnded c"
| "isFtSessionEnded (RdC c) = False"

section \<open>The registry\<close>

definition session_conn :: "string \<Rightarrow> world \<Rightarrow> conn option" where
  "session_conn sid w = Option.bind (map_get (w_sessions w) sid) (map_get (w_conns w))"

definition advanceCurConn :: "nat option \<Rightarrow> world \<Rightarrow> world" where
  "advanceCurConn closedConn w =
     (if w_curConn w \<noteq> closedConn then w
      else w\<lparr>w_curConn := (case map_values (w_sessions w) of [] \<Rightarrow> None | a # _ \<Rightarrow> Some a)\<rparr>)"

fun set_sessionId :: "string \<Rightarrow> conn \<Rightarrow> conn" where
  "set_sessionId sid (FtC c) = FtC (c\<lparr>b_sessionId := Some sid\<rparr>)"
| "set_sessionId sid (RdC c) = RdC (c\<lparr>b_sessionId := Some sid\<rparr>)"

definition addSession :: "string \<Rightarrow> nat \<Rightarrow> world \<Rightarrow> world" where
  "addSession sid a w =
     (on_conn a (set_sessionId sid) w)\<lparr>w_sessions := map_set sid a (w_sessions w), w_curConn := Some a\<rparr>"

definition getSession :: "string option \<Rightarrow> world \<Rightarrow> nat option" where
  "getSession sid w =
     (case sid of
        Some s \<Rightarrow> (if s \<noteq> '''' \<and> map_has (w_sessions w) s then map_get (w_sessions w) s else w_curConn w)
      | None \<Rightarrow> w_curConn w)"

definition requireRemoteDesktop :: "string option \<Rightarrow> world \<Rightarrow> nat option" where
  "requireRemoteDesktop sid w =
     (let a = getSession sid w
      in if isRemoteDesktop (Option.bind a (map_get (w_conns w))) then a else None)"

definition requireFileTransfer :: "string option \<Rightarrow> world \<Rightarrow> nat option" where
  "requireFileTransfer sid w =
     (let a = getSession sid w
      in if isFileTransfer (Option.bind a (map_get (w_conns w))) then a else None)"

fun conn_close :: "env \<Rightarrow> conn \<Rightarrow> conn" where
  "conn_close E (FtC c) = FtC (ft_close E c)"
| "conn_close E (RdC c) = RdC (rd_close c)"

definition removeSession :: "env \<Rightarrow> string \<Rightarrow> world \<Rightarrow> world" where
  "removeSession E sid w =
     (case map_get (w_sessions w) sid of
        None \<Rightarrow> advanceCurConn None w
      | Some a \<Rightarrow>
          (let w1 = on_conn a (conn_close E) w
           in advanceCurConn (Some a) (w1\<lparr>w_sessions := map_delete sid (w_sessions w1)\<rparr>)))"

fun conn_ws :: "conn \<Rightarrow> websock option" where
  "conn_ws (FtC c) = b_ws c"
| "conn_ws (RdC c) = b_ws c"

definition hasOpenRemoteDesktopSession :: "world \<Rightarrow> bool" where
  "hasOpenRemoteDesktopSession w =
     list_ex (\<lambda>a. case map_get (w_conns w) a of
                    Some (RdC c) \<Rightarrow> (case b_ws c of Some ws \<Rightarrow> ws_status ws = StOpen | None \<Rightarrow> False)
                  | _ \<Rightarrow> False) (map_values (w_sessions w))"

definition FT_SESSION_ENDED :: string where
  "FT_SESSION_ENDED = ''ft-session-ended''"

definition session_ended_event :: "string \<Rightarrow> string \<Rightarrow> string \<Rightarrow> emission" where
  "session_ended_event title message sid =
     pushEvent ''msgbox''
       [(''type'', JStr FT_SESSION_ENDED), (''title'', JStr title), (''text'', JStr message),
        (''link'', JStr ''''), (''hasRetry'', JStr '''')] (Some sid)"

definition end_ft_conn :: "env \<Rightarrow> ftconn \<Rightarrow> ftconn" where
  "end_ft_conn E c = ft_close E (failActiveJobs ''Connection lost'' (c\<lparr>ft_sessionEnded := True\<rparr>))"

text \<open>\<open>title\<close> and \<open>message\<close> are the optional fields of \<open>opts\<close>.\<close>

definition endFileTransferSession ::
    "env \<Rightarrow> string option \<Rightarrow> string option \<Rightarrow> string option \<Rightarrow> world \<Rightarrow> world" where
  "endFileTransferSession E sid title message w =
     (case sid of
        None \<Rightarrow> w
      | Some s \<Rightarrow>
          (if s = '''' then w
           else (case map_get (w_sessions w) s of
                   None \<Rightarrow> w
                 | Some a \<Rightarrow>
                     (case map_get (w_conns w) a of
                        Some (FtC c) \<Rightarrow>
                          (if ft_sessionEnded c then w
                           else (let w1 = on_conn a (conn_ft (end_ft_conn E)) w;
                                     w2 = advanceCurConn (Some a) (w1\<lparr>w_sessions := map_delete s (w_sessions w1)\<rparr>)
                                 in w2\<lparr>w_out := w_out w2 @ [session_ended_event (nullish title ''File transfer'')
                                          (nullish message ''File transfer session ended'') s]\<rparr>))
                      | _ \<Rightarrow> w))))"

definition allSessionIds :: "world \<Rightarrow> string list" where
  "allSessionIds w = map_keys (w_sessions w)"

section \<open>Connection tokens\<close>

text \<open>The fields of a connection that a token carries.\<close>

fun conn_credentials :: "conn \<Rightarrow> bytes option \<times> string option \<times> int option" where
  "conn_credentials (FtC c) = (b_password c, b_passwordSource c, b_loginSessionId c)"
| "conn_credentials (RdC c) = (b_password c, b_passwordSource c, b_loginSessionId c)"

definition connTokenFor :: "string \<Rightarrow> world \<Rightarrow> jval option" where
  "connTokenFor sid w =
     (case session_conn sid w of
        None \<Rightarrow> None
      | Some k \<Rightarrow>
          (case conn_credentials k of
             (Some p, source, loginId) \<Rightarrow>
               (if p = [] then None
                else Some (JJson (JObj [(''password'', JArr (map (\<lambda>b. JInt (uint b)) p)),
                             (''password_source'', JStr (nullish source '''')),
                             (''session_id'', JInt (nullish loginId 0))])))
           | (None, _, _) \<Rightarrow> None))"

text \<open>\<open>JSON.parse\<close> on texts that \<open>JSON.stringify\<close> wrote; any other text throws here.\<close>

fun json_parse :: "jval \<Rightarrow> jval option" where
  "json_parse (JJson v) = Some v"
| "json_parse _ = None"

text \<open>\<open>Uint8Array.from\<close> on an array of numbers: each is taken modulo 256.\<close>

definition uint8_from_json :: "jval list \<Rightarrow> bytes" where
  "uint8_from_json vs =
     map (\<lambda>v. case v of JNum n \<Rightarrow> word_of_int (if n < 0 then - floor (- n) else floor n) | _ \<Rightarrow> 0) vs"

text \<open>Session ids are integers; a source that is not a text is not taken over.\<close>

definition token_field :: "jval \<Rightarrow> string \<Rightarrow> jval" where
  "token_field token name = (case token of JObj fs \<Rightarrow> obj_get fs name | _ \<Rightarrow> JUndefined)"

fun apply_password :: "jval \<Rightarrow> 'a base_scheme \<Rightarrow> 'a base_scheme" where
  "apply_password (JArr vs) c = c\<lparr>b_password := Some (uint8_from_json vs)\<rparr>"
| "apply_password _ c = c"

fun apply_source :: "jval \<Rightarrow> 'a base_scheme \<Rightarrow> 'a base_scheme" where
  "apply_source (JStr s) c = (if s \<noteq> '''' then c\<lparr>b_passwordSource := Some s\<rparr> else c)"
| "apply_source _ c = c"

fun apply_session :: "jval \<Rightarrow> 'a base_scheme \<Rightarrow> 'a base_scheme" where
  "apply_session (JNum n) c = (if n \<noteq> 0 then c\<lparr>b_loginSessionId := Some (floor n)\<rparr> else c)"
| "apply_session _ c = c"

definition apply_token :: "jval \<Rightarrow> 'a base_scheme \<Rightarrow> 'a base_scheme" where
  "apply_token token c =
     apply_session (token_field token ''session_id'')
       (apply_source (token_field token ''password_source'')
          (apply_password (token_field token ''password'') c))"

fun conn_apply_token :: "jval \<Rightarrow> conn \<Rightarrow> conn" where
  "conn_apply_token t (FtC c) = FtC (apply_token t c)"
| "conn_apply_token t (RdC c) = RdC (apply_token t c)"

definition applyConnToken :: "jval option \<Rightarrow> conn \<Rightarrow> conn" where
  "applyConnToken tokenJson k =
     (case tokenJson of
        None \<Rightarrow> k
      | Some t \<Rightarrow>
          (if \<not> truthy t then k
           else (case json_parse t of None \<Rightarrow> k | Some token \<Rightarrow> conn_apply_token token k)))"

section \<open>The registry invariant\<close>

fun conn_sessionId :: "conn \<Rightarrow> string option" where
  "conn_sessionId (FtC c) = b_sessionId c"
| "conn_sessionId (RdC c) = b_sessionId c"

text \<open>
  Every registered session is a live connection that knows its own session id, and the current
  connection is a registered one; there is none only when nothing is registered.
\<close>

definition current_ok :: "world \<Rightarrow> bool" where
  "current_ok w =
     (case w_curConn w of None \<Rightarrow> w_sessions w = [] | Some a \<Rightarrow> a \<in> set (map_values (w_sessions w)))"

definition registry_ok :: "world \<Rightarrow> bool" where
  "registry_ok w \<longleftrightarrow> map_ok (w_sessions w)
     \<and> list_all (\<lambda>(sid, a). map_option conn_sessionId (map_get (w_conns w) a) = Some (Some sid)) (w_sessions w)
     \<and> current_ok w"

text \<open>
  What happens to the registry: a connection is created, registered under a session id,
  works on its own state, becomes the current one when its session is started, is removed, or
  ends its own file transfer.
\<close>

inductive registry_step :: "env \<Rightarrow> world \<Rightarrow> world \<Rightarrow> bool" for E where
  rs_create: "map_get (w_conns w) a = None \<Longrightarrow> registry_step E w (w\<lparr>w_conns := map_set a k (w_conns w)\<rparr>)"
| rs_add: "map_get (w_conns w) a \<noteq> None \<Longrightarrow> a \<notin> set (map_values (w_sessions w))
    \<Longrightarrow> registry_step E w (addSession sid a w)"
| rs_work: "(\<And>k. conn_sessionId (f k) = conn_sessionId k) \<Longrightarrow> registry_step E w (on_conn a f w)"
| rs_select: "getSession sid w = Some a \<Longrightarrow> registry_step E w (w\<lparr>w_curConn := Some a\<rparr>)"
| rs_remove: "registry_step E w (removeSession E sid w)"
| rs_end: "registry_step E w (endFileTransferSession E s title message w)"

inductive_cases registry_stepE: "registry_step E w w'"

definition no_sessions :: world where
  "no_sessions = \<lparr>w_conns = [], w_sessions = [], w_curConn = None,
     w_disk = \<lparr>dk_streams = [], dk_next = 0, dk_saved = []\<rparr>,
     w_picker = \<lparr>pk_lastPickedFiles = [], pk_lastFolderPlan = None\<rparr>, w_out = []\<rparr>"

lemma conn_sessionId_quiet [simp]: "conn_sessionId (conn_quiet k) = conn_sessionId k"
  by (cases k) simp_all

lemma on_conn_simps [simp]:
  "w_sessions (on_conn a f w) = w_sessions w" "w_curConn (on_conn a f w) = w_curConn w"
  by (simp_all add: on_conn_def split: option.split)

lemma on_conn_get:
  "map_get (w_conns (on_conn a f w)) b =
     (if b = a then map_option (\<lambda>k. conn_quiet (f k)) (map_get (w_conns w) a) else map_get (w_conns w) b)"
  by (simp add: on_conn_def map_get_set split: option.split)

lemma registry_ok_get: "registry_ok w \<Longrightarrow> map_get (w_sessions w) sid = Some a
    \<Longrightarrow> map_option conn_sessionId (map_get (w_conns w) a) = Some (Some sid)"
  by (auto simp: registry_ok_def list_all_iff dest: map_of_SomeD)

lemma registry_ok_work: "registry_ok w \<Longrightarrow> (\<And>k. conn_sessionId (f k) = conn_sessionId k)
    \<Longrightarrow> registry_ok (on_conn a f w)"
  unfolding registry_ok_def current_ok_def on_conn_simps on_conn_get
  by (auto simp: list_all_iff option.map_comp o_def cong: option.case_cong)

lemma advanceCurConn_ok:
  assumes "registry_ok w" "map_get (w_sessions w) sid = Some a"
  shows "registry_ok (advanceCurConn (Some a) (w\<lparr>w_sessions := map_delete sid (w_sessions w)\<rparr>))"
proof -
  let ?s = "map_delete sid (w_sessions w)"
  have keep: "b \<in> set (map_values ?s)" if "b \<in> set (map_values (w_sessions w))" "b \<noteq> a" for b
    using that assms by (force simp: set_map_delete registry_ok_def map_values_get)
  have "current_ok (advanceCurConn (Some a) (w\<lparr>w_sessions := ?s\<rparr>))"
    using assms keep by (cases "?s") (auto simp: current_ok_def advanceCurConn_def registry_ok_def
        split: option.splits list.split)
  with assms(1) show ?thesis
    by (auto simp: registry_ok_def advanceCurConn_def list_all_iff set_map_delete intro: map_ok_delete)
qed

lemma shut_session_ok:
  assumes "registry_ok w" "map_get (w_sessions w) sid = Some a" "\<And>k. conn_sessionId (f k) = conn_sessionId k"
  shows "registry_ok (advanceCurConn (Some a) ((on_conn a f w)\<lparr>w_sessions := map_delete sid (w_sessions w)\<rparr>))"
  using advanceCurConn_ok [of "on_conn a f w" sid a] registry_ok_work assms by simp

lemma conn_close_sessionId [simp]: "conn_sessionId (conn_close E k) = conn_sessionId k"
  by (cases k) (auto simp: ft_close_def cancelAllJobs_sends rd_close_def Let_def baseClose_def)

lemma end_ft_sessionId [simp]: "conn_sessionId (conn_ft (end_ft_conn E) k) = conn_sessionId k"
  by (cases k) (auto simp: end_ft_conn_def failActiveJobs_reports ft_close_def cancelAllJobs_sends baseClose_def)

lemma registry_ok_out [simp]: "registry_ok (w\<lparr>w_out := es\<rparr>) = registry_ok w"
  by (simp add: registry_ok_def current_ok_def split: option.split)

lemma removeSession_ok: "registry_ok w \<Longrightarrow> registry_ok (removeSession E sid w)"
proof (cases "map_get (w_sessions w) sid")
  case (Some a)
  assume "registry_ok w"
  with Some show ?thesis by (simp add: removeSession_def shut_session_ok)
next
  case None
  assume "registry_ok w"
  with None show ?thesis
    by (auto simp: removeSession_def advanceCurConn_def registry_ok_def current_ok_def split: option.splits)
qed

lemma endFileTransferSession_ok: "registry_ok w \<Longrightarrow> registry_ok (endFileTransferSession E s title message w)"
  by (simp add: endFileTransferSession_def Let_def shut_session_ok split: option.split conn.split)

lemma addSession_ok:
  assumes "registry_ok w" "map_get (w_conns w) a = Some k" "a \<notin> set (map_values (w_sessions w))"
  shows "registry_ok (addSession sid a w)"
proof -
  have m: "map_ok (w_sessions w)" using assms(1) by (simp add: registry_ok_def)
  have "conn_sessionId (set_sessionId sid k) = Some sid" by (cases k) simp_all
  moreover have "b \<noteq> a" if "(s, b) \<in> set (w_sessions w)" for s b using assms(3) that by force
  ultimately show ?thesis
    using assms m unfolding registry_ok_def current_ok_def addSession_def
    by (force simp: list_all_iff set_map_set on_conn_get intro: map_ok_set)
qed

lemma getSession_registered:
  "registry_ok w \<Longrightarrow> getSession sid w = Some a \<Longrightarrow> a \<in> set (map_values (w_sessions w))"
  by (auto simp: getSession_def registry_ok_def current_ok_def map_has_def split: option.splits if_splits
      dest!: map_of_SomeD) force

lemma registry_step_ok: "registry_step E w w' \<Longrightarrow> registry_ok w \<Longrightarrow> registry_ok w'"
proof (induction rule: registry_step.induct)
  case (rs_create w a k)
  then show ?case
    by (auto simp: registry_ok_def current_ok_def list_all_iff map_get_set cong: option.case_cong)
next
  case (rs_select sid w a)
  with getSession_registered [OF rs_select(2,1)] show ?case by (simp add: registry_ok_def current_ok_def)
qed (auto intro: addSession_ok registry_ok_work removeSession_ok endFileTransferSession_ok)

text \<open>
  Whatever the bridge and the connections do to the session registry, every registered
  session stays a live connection under its own session id, and the current connection is a
  registered one as long as there is one.
\<close>

theorem registry_invariant: "(registry_step E)\<^sup>*\<^sup>* no_sessions w \<Longrightarrow> registry_ok w"
proof (induction rule: rtranclp_induct)
  case base
  show ?case by (simp add: no_sessions_def registry_ok_def current_ok_def)
next
  case (step w w')
  then show ?case using registry_step_ok by blast
qed

theorem registry_invariant_witness:
  "registry_ok (removeSession plain_env ''a''
     (addSession ''a'' 1 (no_sessions\<lparr>w_conns := map_set 1 (RdC newRdConnection) (w_conns no_sessions)\<rparr>)))"
proof (rule registry_invariant)
  let ?w = "no_sessions\<lparr>w_conns := map_set 1 (RdC newRdConnection) (w_conns no_sessions)\<rparr>"
  have "registry_step plain_env no_sessions ?w" by (rule rs_create) (simp add: no_sessions_def)
  moreover have "registry_step plain_env ?w (addSession ''a'' 1 ?w)" by (rule rs_add) (simp_all add: no_sessions_def)
  moreover have "registry_step plain_env (addSession ''a'' 1 ?w) (removeSession plain_env ''a'' (addSession ''a'' 1 ?w))"
    by (rule rs_remove)
  ultimately show "(registry_step plain_env)\<^sup>*\<^sup>* no_sessions (removeSession plain_env ''a'' (addSession ''a'' 1 ?w))"
    by (meson converse_rtranclp_into_rtranclp rtranclp.rtrancl_refl)
qed

section \<open>Ending sessions\<close>

fun conn_ok :: "conn \<Rightarrow> bool" where
  "conn_ok (FtC c) = ft_ok c"
| "conn_ok (RdC c) = True"

text \<open>A connection that is dead: whatever is still called on its socket has no effect.\<close>

definition conn_dead :: "env \<Rightarrow> conn \<Rightarrow> bool" where
  "conn_dead E k \<longleftrightarrow>
     (\<forall>ws. conn_ws k = Some ws \<longrightarrow>
        (\<forall>m. ws_sent (ws_sendMessage E m ws) = ws_sent ws) \<and> (\<forall>h data. recv_message E h data ws = ws))"

lemma conn_ws_quiet [simp]: "conn_ws (conn_quiet k) = conn_ws k"
  by (cases k) simp_all

lemma conn_dead_quiet [simp]: "conn_dead E (conn_quiet k) = conn_dead E k"
  by (simp add: conn_dead_def)

lemma conn_close_dead: "conn_ok k \<Longrightarrow> conn_dead E (conn_close E k)"
  using ft.closed_sends_nothing ft.closed_ignores_frames rd.closed_sends_nothing rd.closed_ignores_frames
  by (cases k) (simp_all add: conn_dead_def)

lemma advanceCurConn_simps [simp]:
  "w_sessions (advanceCurConn a w) = w_sessions w" "w_conns (advanceCurConn a w) = w_conns w"
  "w_out (advanceCurConn a w) = w_out w"
  by (simp_all add: advanceCurConn_def)

lemma registered_once:
  assumes "registry_ok w" "map_get (w_sessions w) sid = Some a"
  shows "a \<notin> set (map_values (map_delete sid (w_sessions w)))"
proof
  assume "a \<in> set (map_values (map_delete sid (w_sessions w)))"
  then obtain s where "(s, a) \<in> set (w_sessions w)" "s \<noteq> sid" by (auto simp: set_map_delete)
  with assms(1) have "map_option conn_sessionId (map_get (w_conns w) a) = Some (Some s)"
    by (auto simp: registry_ok_def list_all_iff)
  with registry_ok_get [OF assms] \<open>s \<noteq> sid\<close> show False by auto
qed

lemma advanceCurConn_moves:
  assumes "registry_ok w" "map_get (w_sessions w) sid = Some a"
  shows "w_curConn (advanceCurConn (Some a) ((on_conn a f w)\<lparr>w_sessions := map_delete sid (w_sessions w)\<rparr>))
     = (if w_curConn w = Some a
        then (case map_values (map_delete sid (w_sessions w)) of [] \<Rightarrow> None | b # _ \<Rightarrow> Some b)
        else w_curConn w)"
  by (simp add: advanceCurConn_def)

lemma remove_session_outcome:
  assumes "registry_ok w" and "map_get (w_sessions w) sid = Some a"
    and "map_get (w_conns w) a = Some k" and "conn_ok k"
  shows "(\<forall>s. map_get (w_sessions (removeSession E sid w)) s = (if s = sid then None else map_get (w_sessions w) s))
    \<and> (\<forall>b. b \<noteq> a \<longrightarrow> map_get (w_conns (removeSession E sid w)) b = map_get (w_conns w) b)
    \<and> (\<exists>k'. map_get (w_conns (removeSession E sid w)) a = Some k' \<and> conn_dead E k')
    \<and> w_curConn (removeSession E sid w) \<noteq> Some a
    \<and> (w_curConn w = Some a \<longrightarrow> w_curConn (removeSession E sid w)
         = (case w_sessions (removeSession E sid w) of [] \<Rightarrow> None | p # _ \<Rightarrow> Some (snd p)))"
proof -
  have r: "removeSession E sid w
      = advanceCurConn (Some a) ((on_conn a (conn_close E) w)\<lparr>w_sessions := map_delete sid (w_sessions w)\<rparr>)"
    using assms(2) by (simp add: removeSession_def)
  have "w_curConn (removeSession E sid w) \<noteq> Some a"
    using registered_once [OF assms(1,2)] unfolding r advanceCurConn_moves [OF assms(1,2)]
    by (auto split: list.split)
  moreover have "conn_dead E (conn_quiet (conn_close E k))" using conn_close_dead assms(4) by simp
  ultimately show ?thesis
    using assms(3) unfolding r advanceCurConn_moves [OF assms(1,2)]
    by (auto simp: map_get_delete on_conn_get split: list.split)
qed

text \<open>
  Removing a session unregisters it and leaves every other session and connection as it
  was; the closed connection is dead: it sends nothing more and takes in no more frames; and it
  is no longer the current one, which is then the oldest session that is left.
\<close>

theorem removeSession_closes:
  assumes "registry_ok w" and "map_get (w_sessions w) sid = Some a"
    and "map_get (w_conns w) a = Some k" and "conn_ok k"
  shows "(\<forall>s. map_get (w_sessions (removeSession E sid w)) s = (if s = sid then None else map_get (w_sessions w) s))
    \<and> (\<forall>b. b \<noteq> a \<longrightarrow> map_get (w_conns (removeSession E sid w)) b = map_get (w_conns w) b)
    \<and> (\<exists>k'. map_get (w_conns (removeSession E sid w)) a = Some k' \<and> conn_dead E k')
    \<and> w_curConn (removeSession E sid w) \<noteq> Some a
    \<and> (w_curConn w = Some a \<longrightarrow> w_curConn (removeSession E sid w)
         = (case w_sessions (removeSession E sid w) of [] \<Rightarrow> None | p # _ \<Rightarrow> Some (snd p)))"
  using assms by (rule remove_session_outcome)

text \<open>A world with a remote desktop session and a file transfer session with one download.\<close>

definition sample_ft :: ftconn where
  "sample_ft = addJob 0 7 ''/r/f'' ''f'' 0 False True newFtConnection"

definition sample_world :: world where
  "sample_world = addSession ''ft'' 3 (addSession ''rd'' 2
     (no_sessions\<lparr>w_conns := [(2, RdC newRdConnection), (3, FtC sample_ft)]\<rparr>))"

lemma sample_world_simps:
  "w_sessions sample_world = [(''rd'', 2), (''ft'', 3)]" "w_curConn sample_world = Some 3" "w_out sample_world = []"
  "map_get (w_conns sample_world) 3 = Some (FtC (sample_ft\<lparr>b_sessionId := Some ''ft''\<rparr>))"
  "map_get (w_conns sample_world) 2 = Some (RdC (newRdConnection\<lparr>b_sessionId := Some ''rd''\<rparr>))"
  by (simp_all add: sample_world_def sample_ft_def addSession_def no_sessions_def on_conn_def map_get_set addJob_def
      newFtConnection_def newRdConnection_def base.defs newBase_def createDownloadJob_def Let_def)

lemma sample_world_ok: "registry_ok sample_world"
  by (simp add: registry_ok_def current_ok_def sample_world_simps map_ok_def)

lemma sample_ft_simps: "ft_ok (sample_ft\<lparr>b_sessionId := s\<rparr>)" "\<not> ft_sessionEnded sample_ft" "b_out sample_ft = []"
  by (simp_all add: ft_ok_def sample_ft_def addJob_def newFtConnection_def base.defs newBase_def)

theorem removeSession_closes_witness:
  "w_curConn (removeSession plain_env ''ft'' sample_world) = Some 2"
  using removeSession_closes [OF sample_world_ok, of "''ft''" 3 "FtC (sample_ft\<lparr>b_sessionId := Some ''ft''\<rparr>)" plain_env]
  by (simp add: sample_world_simps sample_ft_simps removeSession_def)

lemma end_session_outcome:
  assumes "registry_ok w" and "sid \<noteq> ''''" and "map_get (w_sessions w) sid = Some a"
    and "map_get (w_conns w) a = Some (FtC c)" and "ft_ok c" and "\<not> ft_sessionEnded c" and "b_out c = []"
  shows "let w' = endFileTransferSession E (Some sid) title message w in
      (\<forall>s. map_get (w_sessions w') s = (if s = sid then None else map_get (w_sessions w) s))
    \<and> w_out w' = w_out w @ job_errors ''Connection lost'' c
        @ [session_ended_event (nullish title ''File transfer'') (nullish message ''File transfer session ended'') sid]
    \<and> (\<exists>c'. map_get (w_conns w') a = Some (FtC c') \<and> ft_sessionEnded c' \<and> ft_jobs c' = newFileJobManager
          \<and> b_msgs c' = [] \<and> \<not> b_interval c' \<and> conn_dead E (FtC c'))
    \<and> (\<forall>b. b \<noteq> a \<longrightarrow> map_get (w_conns w') b = map_get (w_conns w) b)
    \<and> w_curConn w' \<noteq> Some a
    \<and> endFileTransferSession E (Some sid) title' message' w' = w'"
proof -
  let ?c = "failActiveJobs ''Connection lost'' (c\<lparr>ft_sessionEnded := True\<rparr>)"
  let ?w1 = "advanceCurConn (Some a) ((on_conn a (conn_ft (end_ft_conn E)) w)\<lparr>w_sessions := map_delete sid (w_sessions w)\<rparr>)"
  let ?w' = "endFileTransferSession E (Some sid) title message w"
  have w': "?w' = ?w1\<lparr>w_out := w_out ?w1 @ [session_ended_event (nullish title ''File transfer'')
      (nullish message ''File transfer session ended'') sid]\<rparr>"
    using assms by (simp add: endFileTransferSession_def Let_def)
  have ok: "ft_ok ?c" using assms(5) by (simp add: ft_ok_def ft_shut_def failActiveJobs_reports)
  have e: "end_ft_conn E c = ft_close E ?c" by (simp add: end_ft_conn_def)
  have jobs: "ft_jobs (end_ft_conn E c) = newFileJobManager" "ft_sessionEnded (end_ft_conn E c)"
    "b_out (end_ft_conn E c) = job_errors ''Connection lost'' c"
    using assms(7) by (simp_all add: e ft_close_def failActiveJobs_reports cancelAllJobs_sends baseClose_def job_errors_def)
  have dead: "conn_dead E (FtC (end_ft_conn E c))" using conn_close_dead [of "FtC ?c" E] ok by (simp add: e)
  have quiet: "b_msgs (end_ft_conn E c) = []" "\<not> b_interval (end_ft_conn E c)"
    using ft.close_queue [OF ok] ft.close_pump [OF ok] by (simp_all add: e)
  have "w_curConn ?w1 \<noteq> Some a"
    using registered_once [OF assms(1,3)] unfolding advanceCurConn_moves [OF assms(1,3)] by (auto split: list.split)
  moreover have "map_get (w_sessions ?w') sid = None" by (simp add: w' map_get_delete)
  then have "endFileTransferSession E (Some sid) title' message' ?w' = ?w'"
    by (subst endFileTransferSession_def) simp
  moreover have "w_out ?w1 = w_out w @ job_errors ''Connection lost'' c"
    using assms(4) jobs(3) by (simp add: on_conn_def)
  moreover have "map_get (w_conns ?w1) a = Some (FtC ((end_ft_conn E c)\<lparr>b_out := []\<rparr>))"
    using assms(4) by (simp add: on_conn_get)
  ultimately show ?thesis
    using jobs quiet dead conn_dead_quiet [of E "FtC (end_ft_conn E c)"]
    by (auto simp: Let_def w' map_get_delete on_conn_get)
qed

text \<open>
  C8: ending a file transfer session unregisters it, reports the loss of every upload and then
  of every download once, and after them the end of the session once, with the default texts
  where none are given; the connection has no jobs, queues nothing and is dead, it is not the
  current one any more, and no other session changes.  Ending it again does nothing.
\<close>

theorem endFileTransferSession_ends:
  assumes "registry_ok w" and "sid \<noteq> ''''" and "map_get (w_sessions w) sid = Some a"
    and "map_get (w_conns w) a = Some (FtC c)" and "ft_ok c" and "\<not> ft_sessionEnded c" and "b_out c = []"
  shows "let w' = endFileTransferSession E (Some sid) title message w in
      (\<forall>s. map_get (w_sessions w') s = (if s = sid then None else map_get (w_sessions w) s))
    \<and> w_out w' = w_out w @ job_errors ''Connection lost'' c
        @ [session_ended_event (nullish title ''File transfer'') (nullish message ''File transfer session ended'') sid]
    \<and> (\<exists>c'. map_get (w_conns w') a = Some (FtC c') \<and> ft_sessionEnded c' \<and> ft_jobs c' = newFileJobManager
          \<and> b_msgs c' = [] \<and> \<not> b_interval c' \<and> conn_dead E (FtC c'))
    \<and> (\<forall>b. b \<noteq> a \<longrightarrow> map_get (w_conns w') b = map_get (w_conns w) b)
    \<and> w_curConn w' \<noteq> Some a
    \<and> endFileTransferSession E (Some sid) title' message' w' = w'"
  using assms by (rule end_session_outcome)

theorem endFileTransferSession_ends_witness:
  "w_out (endFileTransferSession plain_env (Some ''ft'') None (Some ''Timeout'') sample_world)
     = [job_error 7 0 ''Connection lost'' (Some ''ft''), session_ended_event ''File transfer'' ''Timeout'' ''ft'']"
proof -
  let ?c = "sample_ft\<lparr>b_sessionId := Some ''ft''\<rparr>"
  have "job_errors ''Connection lost'' ?c = [job_error 7 0 ''Connection lost'' (Some ''ft'')]"
    by (simp add: job_errors_def sample_ft_def addJob_def createDownloadJob_def newFtConnection_def base.defs
        newFileJobManager_def newWriteJob_def Let_def)
  then show ?thesis
    using endFileTransferSession_ends [OF sample_world_ok, of "''ft''" 3 ?c plain_env None "Some ''Timeout''" None None]
    by (simp add: sample_world_simps sample_ft_simps Let_def)
qed

section \<open>Finding sessions\<close>

text \<open>
  A request for a session reaches the connection registered under its id when that is of
  the kind the request needs, and nothing when it is of the other kind, whichever session is
  the current one; a request never reaches a connection of the wrong kind.
\<close>

theorem requests_reach_their_kind:
  assumes "registry_ok w" and "sid \<noteq> ''''" and "map_get (w_sessions w) sid = Some a"
  shows "(case map_get (w_conns w) a of
       Some (FtC c) \<Rightarrow> requireFileTransfer (Some sid) w = Some a \<and> requireRemoteDesktop (Some sid) w = None
     | Some (RdC c) \<Rightarrow> requireFileTransfer (Some sid) w = None \<and> requireRemoteDesktop (Some sid) w = Some a
     | None \<Rightarrow> False)
    \<and> (\<forall>s b. requireFileTransfer s w = Some b \<longrightarrow> (\<exists>c. map_get (w_conns w) b = Some (FtC c)))
    \<and> (\<forall>s b. requireRemoteDesktop s w = Some b \<longrightarrow> (\<exists>c. map_get (w_conns w) b = Some (RdC c)))"
proof -
  have g: "getSession (Some sid) w = Some a" using assms(2,3) by (simp add: getSession_def map_has_def)
  obtain k where k: "map_get (w_conns w) a = Some k" using registry_ok_get [OF assms(1,3)] by auto
  have kinds: "isFileTransfer k' \<longleftrightarrow> (\<exists>c. k' = Some (FtC c))" "isRemoteDesktop k' \<longleftrightarrow> (\<exists>c. k' = Some (RdC c))" for k'
    by (cases k' rule: isFileTransfer.cases; simp)+
  show ?thesis
    using k by (auto simp: requireFileTransfer_def requireRemoteDesktop_def Let_def kinds g
        split: if_splits conn.split option.splits bind_splits)
qed

theorem requests_reach_their_kind_witness:
  "requireFileTransfer (Some ''ft'') sample_world = Some 3 \<and> requireRemoteDesktop (Some ''ft'') sample_world = None"
  using requests_reach_their_kind [OF sample_world_ok, of "''ft''" 3] by (simp add: sample_world_simps)

section \<open>Connection tokens\<close>

text \<open>The token of a connection with the given credentials.\<close>

definition token_of :: "bytes \<Rightarrow> string option \<Rightarrow> int option \<Rightarrow> jval" where
  "token_of p source loginId =
     JObj [(''password'', JArr (map (\<lambda>b. JInt (uint b)) p)), (''password_source'', JStr (nullish source '''')),
           (''session_id'', JInt (nullish loginId 0))]"

lemma uint8_from_json_byte: "uint8_from_json [JInt (uint (b :: 8 word))] = [b]"
proof -
  have "(of_int (uint b) :: rat) \<ge> 0" by (simp only: of_int_0_le_iff uint_nonnegative)
  then show ?thesis unfolding uint8_from_json_def by (simp only: list.map jval.case floor_of_int not_less [symmetric]) simp
qed

lemma uint8_from_json_bytes: "uint8_from_json (map (\<lambda>b. JInt (uint (b :: 8 word))) p) = p"
proof (induction p)
  case (Cons b p)
  then show ?case using uint8_from_json_byte [of b] by (simp only: uint8_from_json_def list.map list.inject)
qed (simp add: uint8_from_json_def)

lemma apply_token_of:
  "apply_token (token_of p source loginId) c =
     c\<lparr>b_password := Some p,
       b_passwordSource := (if opt_truthy source then source else b_passwordSource c),
       b_loginSessionId := (if nullish loginId 0 \<noteq> 0 then loginId else b_loginSessionId c)\<rparr>"
proof -
  have "token_field (token_of p source loginId) ''password'' = JArr (map (\<lambda>b. JInt (uint b)) p)"
    "token_field (token_of p source loginId) ''password_source'' = JStr (nullish source '''')"
    "token_field (token_of p source loginId) ''session_id'' = JInt (nullish loginId 0)"
    unfolding token_of_def token_field_def obj_get_def by simp_all
  then show ?thesis
    unfolding apply_token_def by (cases source; cases loginId) (simp_all only: apply_password.simps uint8_from_json_bytes, simp_all)
qed

text \<open>
  The token of a session hands its login to another connection: applied there, the other
  connection has the same password hash, and the same password source and login session id
  where the session had them; it keeps its own otherwise.
\<close>

theorem conn_token_roundtrip:
  assumes "session_conn sid w = Some k" and "conn_credentials k = (Some p, source, loginId)" and "p \<noteq> []"
    and "conn_credentials k' = (p', source', loginId')"
  shows "conn_credentials (applyConnToken (connTokenFor sid w) k') =
     (Some p, if opt_truthy source then source else source',
      if nullish loginId 0 \<noteq> 0 then loginId else loginId')"
proof -
  have "applyConnToken (connTokenFor sid w) k' = conn_apply_token (token_of p source loginId) k'"
    using assms(1-3) by (simp add: connTokenFor_def applyConnToken_def token_of_def)
  then show ?thesis using assms(4) by (cases k') (simp_all add: apply_token_of)
qed

theorem conn_token_roundtrip_witness:
  "conn_credentials (applyConnToken (connTokenFor ''ft''
        (sample_world\<lparr>w_conns := [(3, FtC (sample_ft\<lparr>b_password := Some [1, 200], b_loginSessionId := Some 77\<rparr>))]\<rparr>))
      (RdC newRdConnection)) = (Some [1, 200], None, Some 77)"
  using conn_token_roundtrip [of "''ft''" "sample_world\<lparr>w_conns := [(3, FtC (sample_ft\<lparr>b_password := Some [1, 200],
        b_loginSessionId := Some 77\<rparr>))]\<rparr>" "FtC (sample_ft\<lparr>b_password := Some [1, 200], b_loginSessionId := Some 77\<rparr>)"
      "[1, 200]" None "Some 77" "RdC newRdConnection" None None None]
  by (simp add: session_conn_def sample_world_simps sample_ft_def addJob_def newFtConnection_def newRdConnection_def
      base.defs newBase_def opt_truthy_def)

end
