(* ===== verification/Ft_Upload.thy ===== *)
theory Ft_Upload
  imports Ft_Connection
begin

text \<open>
  Uploads: what the upload pump queues for a file, that it returns, and how a job of several
  files advances.  The specification of a file upload is \<open>file_blocks\<close>: the contents cut into
  blocks of \<open>BLOCK_SIZE\<close> bytes with consecutive numbers.
\<close>

section \<open>The blocks of a file\<close>

function file_blocks :: "int \<Rightarrow> int \<Rightarrow> int \<Rightarrow> bytes \<Rightarrow> Message list" where
  "file_blocks i n blk data =
     (if data = [] then []
      else blockResponse i n (take (nat BLOCK_SIZE) data) False (blk + 1)
             # file_blocks i n (blk + 1) (drop (nat BLOCK_SIZE) data))"
  by pat_completeness auto
termination
  by (relation "measure (\<lambda>(i, n, blk, data). length data)") (auto simp: BLOCK_SIZE_def)

declare file_blocks.simps [simp del]

lemma file_blocks_Nil [simp]: "file_blocks i n blk [] = []"
  by (simp add: file_blocks.simps)

lemma file_blocks_step:
  "data \<noteq> [] \<Longrightarrow> file_blocks i n blk data =
     blockResponse i n (take (nat BLOCK_SIZE) data) False (blk + 1)
       # file_blocks i n (blk + 1) (drop (nat BLOCK_SIZE) data)"
  by (subst file_blocks.simps) simp

abbreviation block_data :: "Message \<Rightarrow> bytes" where
  "block_data m \<equiv> FileTransferBlock_data (the (block_of m))"

abbreviation block_number :: "Message \<Rightarrow> int" where
  "block_number m \<equiv> FileTransferBlock_blk_id (the (block_of m))"

lemma file_blocks_data: "concat (map block_data (file_blocks i n blk data)) = data"
proof (induction i n blk data rule: file_blocks.induct)
  case (1 i n blk data)
  then show ?case by (subst file_blocks.simps) simp
qed

lemma file_blocks_bounds:
  "m \<in> set (file_blocks i n blk data) \<Longrightarrow> \<exists>b. block_of m = Some b \<and> FileTransferBlock_id b = i
     \<and> FileTransferBlock_file_num b = n \<and> \<not> FileTransferBlock_compressed b
     \<and> 0 < length (FileTransferBlock_data b) \<and> int (length (FileTransferBlock_data b)) \<le> BLOCK_SIZE"
proof (induction i n blk data rule: file_blocks.induct)
  case (1 i n blk data)
  show ?case
  proof (cases "data = []")
    case False
    with 1 show ?thesis by (auto simp: file_blocks_step BLOCK_SIZE_def)
  qed (use 1 in simp)
qed

lemma file_blocks_numbers:
  "map block_number (file_blocks i n blk data) = [blk + 1 .. blk + int (length (file_blocks i n blk data))]"
proof (induction i n blk data rule: file_blocks.induct)
  case (1 i n blk data)
  show ?case
  proof (cases "data = []")
    case False
    let ?r = "file_blocks i n (blk + 1) (drop (nat BLOCK_SIZE) data)"
    have "map block_number ?r = [blk + 1 + 1 .. blk + 1 + int (length ?r)]" using 1 False by simp
    moreover have "[blk + 1 .. blk + int (length (file_blocks i n blk data))]
        = (blk + 1) # [blk + 1 + 1 .. blk + 1 + int (length ?r)]"
      using False by (subst upto_rec1) (simp_all add: file_blocks_step algebra_simps)
    ultimately show ?thesis using False by (simp add: file_blocks_step)
  qed simp
qed

section \<open>The pump\<close>

text \<open>What reading blocks does not change in a job.\<close>

definition same_upload :: "read_job \<Rightarrow> read_job \<Rightarrow> bool" where
  "same_upload job job' \<longleftrightarrow> rj_id job' = rj_id job \<and> rj_fileNum job' = rj_fileNum job
     \<and> rj_files job' = rj_files job \<and> rj_uploadFiles job' = rj_uploadFiles job \<and> rj_file job' = rj_file job
     \<and> rj_finishedBase job' = rj_finishedBase job \<and> rj_active job' = rj_active job
     \<and> rj_totalSize job' = rj_totalSize job"

lemma same_upload_refl [simp]: "same_upload job job"
  by (simp add: same_upload_def)

lemma same_upload_trans: "same_upload a b \<Longrightarrow> same_upload b c \<Longrightarrow> same_upload a c"
  by (simp add: same_upload_def)

lemma put_read_simps [simp]:
  "map_get (read_jobs (put_read i job c)) i = Some job"
  "put_read i job (put_read i job' c) = put_read i job c"
  "put_read i job (queueMessage m c) = queueMessage m (put_read i job c)"
  "put_read i job (c\<lparr>b_msgs := ms\<rparr>) = (put_read i job c)\<lparr>b_msgs := ms\<rparr>"
  "b_msgs (put_read i job c) = b_msgs c" "b_out (put_read i job c) = b_out c"
  "write_jobs (put_read i job c) = write_jobs c" "pending_uploads (put_read i job c) = pending_uploads c"
  by (simp_all add: put_read_def queueMessage_def map_get_set)

text \<open>One call of \<open>nextUploadBlock\<close> on a file that is not finished.\<close>

lemma nextUploadBlock_reads:
  assumes "job_file job = Some f" "0 \<le> rj_offset job" "rj_offset job < fl_size f"
  defines "rest \<equiv> drop (nat (rj_offset job)) (fl_data f)"
  obtains job1 where "nextUploadBlock now job
      = (Some (take (nat BLOCK_SIZE) rest, length rest \<le> nat BLOCK_SIZE), job1)"
    and "same_upload job job1" "rj_blkId job1 = rj_blkId job + 1" "0 \<le> rj_offset job1"
    and "drop (nat (rj_offset job1)) (fl_data f) = drop (nat BLOCK_SIZE) rest"
proof -
  let ?n = "int (length (take (nat BLOCK_SIZE) rest))"
  let ?job1 = "job\<lparr>rj_offset := rj_offset job + ?n, rj_finishedSize := rj_finishedBase job + (rj_offset job + ?n)\<rparr>"
  let ?job2 = "(read_updateSpeed now ?n ?job1)\<lparr>rj_blkId := rj_blkId job + 1\<rparr>"
  have l: "length rest = nat (fl_size f - rj_offset job)"
    using assms(2,3) by (simp add: rest_def fl_size_def nat_diff_distrib)
  have "nat (min BLOCK_SIZE (fl_size f - rj_offset job)) = min (nat BLOCK_SIZE) (length rest)"
    by (simp add: l min_def)
  then have chunk: "readFileChunk f (rj_offset job) (min BLOCK_SIZE (fl_size f - rj_offset job)) = take (nat BLOCK_SIZE) rest"
    unfolding readFileChunk_def rest_def [symmetric] by (simp add: min_def)
  have fin: "rj_offset job + ?n \<ge> fl_size f \<longleftrightarrow> length rest \<le> nat BLOCK_SIZE"
    using assms(3) l by (auto simp: min_def BLOCK_SIZE_def split: if_splits)
  have nx: "nextUploadBlock now job = (Some (take (nat BLOCK_SIZE) rest, length rest \<le> nat BLOCK_SIZE), ?job2)"
    using assms(1,3) unfolding nextUploadBlock_def Let_def chunk
    by (simp add: read_updateSpeed_def fin chunk del: length_take)
  have "drop (nat (rj_offset job + ?n)) (fl_data f) = drop (nat BLOCK_SIZE) rest"
    using assms(2) by (simp add: rest_def nat_add_distrib min_def add.commute)
  with nx show thesis
    using assms(2) by (intro that [of ?job2]) (simp_all add: same_upload_def read_updateSpeed_def)
qed

lemma pump_loop_file:
  assumes "map_get (read_jobs c) i = Some job" "rj_active job" "job_file job = Some f" "0 \<le> rj_offset job"
  shows "\<exists>job'. same_upload job job' \<and> pump_loop clk k i c = Some (upload_file_finished i job'
      (put_read i job' (c\<lparr>b_msgs := b_msgs c
          @ file_blocks i (rj_fileNum job) (rj_blkId job) (drop (nat (rj_offset job)) (fl_data f))\<rparr>)))"
  using assms
proof (induction "length (drop (nat (rj_offset job)) (fl_data f))" arbitrary: c job k rule: less_induct)
  case less
  let ?rest = "drop (nat (rj_offset job)) (fl_data f)"
  show ?case
  proof (cases "rj_offset job < fl_size f")
    case False
    then have "?rest = []" using less.prems(4) by (simp add: fl_size_def)
    moreover have "nextUploadBlock (clk k) job = (Some ([], True), job)"
      using False less.prems(3) by (simp add: nextUploadBlock_def)
    ultimately show ?thesis
      using less.prems by (intro exI [of _ job], subst pump_loop.simps) (simp add: pump_block_def)
  next
    case True
    obtain job1 where job1: "nextUploadBlock (clk k) job
        = (Some (take (nat BLOCK_SIZE) ?rest, length ?rest \<le> nat BLOCK_SIZE), job1)"
      "same_upload job job1" "rj_blkId job1 = rj_blkId job + 1" "0 \<le> rj_offset job1"
      "drop (nat (rj_offset job1)) (fl_data f) = drop (nat BLOCK_SIZE) ?rest"
      using nextUploadBlock_reads [OF less.prems(3,4) True] by metis
    have ne: "?rest \<noteq> []" "take (nat BLOCK_SIZE) ?rest \<noteq> []"
      using True less.prems(4) by (auto simp: fl_size_def BLOCK_SIZE_def)
    have fn: "rj_fileNum job1 = rj_fileNum job" "rj_active job1" "job_file job1 = Some f"
      using job1(2) less.prems(2,3) by (simp_all add: same_upload_def job_file_def)
    let ?m = "blockResponse i (rj_fileNum job) (take (nat BLOCK_SIZE) ?rest) False (rj_blkId job + 1)"
    let ?c1 = "put_read i job1 (queueMessage ?m c)"
    show ?thesis
    proof (cases "length ?rest \<le> nat BLOCK_SIZE")
      case last: True
      then have "file_blocks i (rj_fileNum job) (rj_blkId job) ?rest = [?m]" using ne by (simp add: file_blocks_step)
      with last job1 less.prems ne fn show ?thesis
        by (intro exI [of _ job1], subst pump_loop.simps) (simp add: pump_block_def queueMessage_def)
    next
      case more: False
      have shorter: "length (drop (nat (rj_offset job1)) (fl_data f)) < length ?rest"
        using ne more unfolding job1(5) by (simp add: BLOCK_SIZE_def)
      have "map_get (read_jobs ?c1) i = Some job1" by (simp add: queueMessage_def)
      from less.hyps [OF shorter this fn(2,3) job1(4)] obtain job' where
        j: "same_upload job1 job'" "pump_loop clk (Suc k) i ?c1 = Some (upload_file_finished i job'
          (put_read i job' (?c1\<lparr>b_msgs := b_msgs ?c1 @ file_blocks i (rj_fileNum job1) (rj_blkId job1)
             (drop (nat BLOCK_SIZE) ?rest)\<rparr>)))"
        unfolding job1(5) by blast
      have "put_read i job' (?c1\<lparr>b_msgs := b_msgs ?c1 @ file_blocks i (rj_fileNum job1) (rj_blkId job1) (drop (nat BLOCK_SIZE) ?rest)\<rparr>)
          = put_read i job' (c\<lparr>b_msgs := b_msgs c @ file_blocks i (rj_fileNum job) (rj_blkId job) ?rest\<rparr>)"
        using ne fn job1(3) by (simp add: file_blocks_step put_read_def queueMessage_def)
      moreover have "pump_loop clk k i c = pump_loop clk (Suc k) i ?c1"
        using more job1 less.prems ne fn by (subst pump_loop.simps) (simp add: pump_block_def)
      ultimately show ?thesis
        using j(2) same_upload_trans [OF job1(2) j(1)] by (intro exI [of _ job'] conjI) (simp_all only:)
    qed
  qed
qed

lemma pump_file:
  assumes "map_get (read_jobs c) i = Some job" "rj_active job" "job_file job = Some f" "0 \<le> rj_offset job"
    and "\<not> ft_uploadTick c"
  shows "\<exists>job'. same_upload job job' \<and> pumpUploadBlocks clk i c = Some ((upload_file_finished i job'
      (put_read i job' (c\<lparr>ft_uploadTick := True, b_msgs := b_msgs c
          @ file_blocks i (rj_fileNum job) (rj_blkId job) (drop (nat (rj_offset job)) (fl_data f))\<rparr>)))
        \<lparr>ft_uploadTick := False\<rparr>)"
proof -
  have "map_get (read_jobs (c\<lparr>ft_uploadTick := True\<rparr>)) i = Some job" using assms(1) by simp
  from pump_loop_file [OF this assms(2-4), of clk 0] assms(5) show ?thesis
    by (auto simp: pumpUploadBlocks_def)
qed


text \<open>A connection with one upload job, and the upload of a file of three bytes.\<close>

definition sample_file :: "bytes \<Rightarrow> jsfile" where
  "sample_file data = \<lparr>fl_name = ''f'', fl_webkitRelativePath = '''', fl_lastModified = 5000, fl_data = data\<rparr>"

definition sample_upload :: "bytes \<Rightarrow> ftconn" where
  "sample_upload data =
     newFtConnection\<lparr>ft_jobs := snd (createUploadJob 0 7 ''f'' ''/tmp/f'' 0 (sample_file data) False newFileJobManager)\<rparr>"


section \<open>Uploads of several files\<close>

text \<open>The peer's go-ahead for a file, from its beginning.\<close>

definition go_ahead :: "int \<Rightarrow> int \<Rightarrow> FileAction" where
  "go_ahead i n = createBaseFileAction\<lparr>FileAction_send_confirm :=
     Some \<lparr>FileTransferSendConfirmRequest_id = i, FileTransferSendConfirmRequest_file_num = n,
           FileTransferSendConfirmRequest_skip = None, FileTransferSendConfirmRequest_offset_blk = None\<rparr>\<rparr>"

fun run_actions :: "(nat \<Rightarrow> int) \<Rightarrow> FileAction list \<Rightarrow> ftconn \<Rightarrow> ftconn option" where
  "run_actions clk [] c = Some c"
| "run_actions clk (a # as) c = Option.bind (handleFileAction clk a c) (run_actions clk as)"

fun folder_messages :: "int \<Rightarrow> int \<Rightarrow> jsfile list \<Rightarrow> Message list" where
  "folder_messages i n [] = []"
| "folder_messages i n [f] = file_blocks i n 0 (fl_data f) @ [doneResponse i n]"
| "folder_messages i n (f # g # fs) =
     file_blocks i n 0 (fl_data f) @ digestResponse i (n + 1) (fl_size g) (modified_seconds g)
       # folder_messages i (n + 1) (g # fs)"

text \<open>The job stands at the beginning of file \<open>n\<close>.\<close>

definition at_file :: "int \<Rightarrow> nat \<Rightarrow> read_job \<Rightarrow> bool" where
  "at_file i n job \<longleftrightarrow> rj_id job = i \<and> rj_fileNum job = int n \<and> n < length (rj_uploadFiles job)
     \<and> rj_file job = Some (rj_uploadFiles job ! n) \<and> rj_offset job = 0 \<and> rj_blkId job = 0
     \<and> length (rj_files job) = length (rj_uploadFiles job)"

lemma go_ahead_pumps:
  assumes "map_get (read_jobs c) i = Some job" "at_file i n job" "\<not> ft_uploadTick c"
  shows "\<exists>job'. same_upload (job\<lparr>rj_active := True\<rparr>) job'
    \<and> handleFileAction clk (go_ahead i (int n)) c = Some ((upload_file_finished i job'
        (put_read i job' (c\<lparr>ft_uploadTick := True, b_msgs := b_msgs c
            @ file_blocks i (int n) 0 (fl_data (rj_uploadFiles job ! n))\<rparr>)))\<lparr>ft_uploadTick := False\<rparr>)"
proof -
  let ?job = "job\<lparr>rj_active := True, rj_waitingConfirm := False\<rparr>"
  let ?c = "put_read i ?job c"
  have "map_get (read_jobs ?c) i = Some ?job" "rj_active ?job" "job_file ?job = Some (rj_uploadFiles job ! n)"
    "0 \<le> rj_offset ?job" "\<not> ft_uploadTick ?c"
    using assms(2,3) by (simp_all add: at_file_def job_file_def put_read_def map_get_set)
  from pump_file [OF this, of clk] obtain job' where
    j: "same_upload ?job job'" "pumpUploadBlocks clk i ?c = Some ((upload_file_finished i job'
      (put_read i job' (?c\<lparr>ft_uploadTick := True, b_msgs := b_msgs ?c
          @ file_blocks i (rj_fileNum ?job) (rj_blkId ?job) (drop (nat (rj_offset ?job)) (fl_data (rj_uploadFiles job ! n)))\<rparr>)))
        \<lparr>ft_uploadTick := False\<rparr>)" by blast
  have "handleFileAction clk (go_ahead i (int n)) c = pumpUploadBlocks clk i ?c"
    using assms(1) by (simp add: handleFileAction_def go_ahead_def)
  moreover have "put_read i job' (?c\<lparr>ft_uploadTick := True, b_msgs := ms\<rparr>)
      = put_read i job' (c\<lparr>ft_uploadTick := True, b_msgs := ms\<rparr>)" for ms
    by (simp add: put_read_def)
  ultimately show ?thesis
    using j assms(2) by (intro exI [of _ job']) (simp add: at_file_def same_upload_def)
qed

lemma advance_to_next_file:
  assumes "same_upload (job\<lparr>rj_active := True\<rparr>) job'" "at_file i n job" "Suc n < length (rj_uploadFiles job)"
  shows "\<exists>job2. upload_file_finished i job' (put_read i job' c)
      = queueMessage (digestResponse i (int (Suc n)) (fl_size (rj_uploadFiles job ! Suc n))
          (modified_seconds (rj_uploadFiles job ! Suc n))) (put_read i job2 c)
    \<and> at_file i (Suc n) job2 \<and> rj_uploadFiles job2 = rj_uploadFiles job"
proof -
  have next_file: "js_at (rj_uploadFiles job) (int n + 1) = Some (rj_uploadFiles job ! Suc n)"
    using assms(3) js_at_nth [of "Suc n" "rj_uploadFiles job"] by (simp add: algebra_simps)
  have this_file: "js_at (rj_uploadFiles job) (int n) = Some (rj_uploadFiles job ! n)"
    using assms(3) by (intro js_at_nth) simp
  show ?thesis
    using assms next_file this_file
    by (auto simp: upload_file_finished_def advanceUploadAfterFile_def same_upload_def at_file_def
        queueDigestForCurrentFile_def job_file_def Let_def algebra_simps)
qed

lemma finish_last_file:
  assumes "same_upload (job\<lparr>rj_active := True\<rparr>) job'" "at_file i n job" "Suc n = length (rj_uploadFiles job)"
  shows "upload_file_finished i job' (put_read i job' c)
      = pushJobDone i (int n) (drop_job i (queueMessage (doneResponse i (int n)) (put_read i job' c)))"
  using assms by (simp add: upload_file_finished_def same_upload_def at_file_def)

lemma go_ahead_more:
  assumes "map_get (read_jobs c) i = Some job" "at_file i n job" "\<not> ft_uploadTick c"
    and "Suc n < length (rj_uploadFiles job)"
  obtains c' job2 where "handleFileAction clk (go_ahead i (int n)) c = Some c'"
    "b_msgs c' = b_msgs c @ file_blocks i (int n) 0 (fl_data (rj_uploadFiles job ! n))
       @ [digestResponse i (int (Suc n)) (fl_size (rj_uploadFiles job ! Suc n)) (modified_seconds (rj_uploadFiles job ! Suc n))]"
    "b_out c' = b_out c" "b_sessionId c' = b_sessionId c" "map_get (read_jobs c') i = Some job2"
    "at_file i (Suc n) job2" "rj_uploadFiles job2 = rj_uploadFiles job" "\<not> ft_uploadTick c'"
proof -
  let ?d = "c\<lparr>ft_uploadTick := True, b_msgs := b_msgs c @ file_blocks i (int n) 0 (fl_data (rj_uploadFiles job ! n))\<rparr>"
  obtain job' where j: "same_upload (job\<lparr>rj_active := True\<rparr>) job'"
    "handleFileAction clk (go_ahead i (int n)) c = Some ((upload_file_finished i job' (put_read i job' ?d))\<lparr>ft_uploadTick := False\<rparr>)"
    using go_ahead_pumps [OF assms(1-3)] by blast
  from advance_to_next_file [OF j(1) assms(2,4), of ?d] obtain job2 where
    "upload_file_finished i job' (put_read i job' ?d)
      = queueMessage (digestResponse i (int (Suc n)) (fl_size (rj_uploadFiles job ! Suc n))
          (modified_seconds (rj_uploadFiles job ! Suc n))) (put_read i job2 ?d)"
    "at_file i (Suc n) job2" "rj_uploadFiles job2 = rj_uploadFiles job" by blast
  with j(2) show thesis
    by (intro that [of "(queueMessage (digestResponse i (int (Suc n)) (fl_size (rj_uploadFiles job ! Suc n))
          (modified_seconds (rj_uploadFiles job ! Suc n))) (put_read i job2 ?d))\<lparr>ft_uploadTick := False\<rparr>" job2])
       (simp_all add: queueMessage_def put_read_def map_get_set)
qed

lemma go_ahead_last:
  assumes "map_get (read_jobs c) i = Some job" "at_file i n job" "\<not> ft_uploadTick c"
    and "Suc n = length (rj_uploadFiles job)"
  shows "\<exists>c'. handleFileAction clk (go_ahead i (int n)) c = Some c'
    \<and> b_msgs c' = b_msgs c @ file_blocks i (int n) 0 (fl_data (rj_uploadFiles job ! n)) @ [doneResponse i (int n)]
    \<and> b_out c' = b_out c @ [job_done i (int n) (b_sessionId c)]
    \<and> map_get (read_jobs c') i = None \<and> \<not> ft_uploadTick c'"
proof -
  let ?d = "c\<lparr>ft_uploadTick := True, b_msgs := b_msgs c @ file_blocks i (int n) 0 (fl_data (rj_uploadFiles job ! n))\<rparr>"
  obtain job' where j: "same_upload (job\<lparr>rj_active := True\<rparr>) job'"
    "handleFileAction clk (go_ahead i (int n)) c = Some ((upload_file_finished i job' (put_read i job' ?d))\<lparr>ft_uploadTick := False\<rparr>)"
    using go_ahead_pumps [OF assms(1-3)] by blast
  show ?thesis
    unfolding j(2) finish_last_file [OF j(1) assms(2,4)]
    by (simp add: pushJobDone_def drop_job_def queueMessage_def removeJob_def put_read_def map_get_delete)
qed

lemma drop_eq_ConsD: "drop n xs = y # ys \<Longrightarrow> n < length xs \<and> xs ! n = y \<and> drop (Suc n) xs = ys"
  by (cases "n < length xs") (simp_all flip: Cons_nth_drop_Suc)

lemma folder_upload_from:
  assumes "map_get (read_jobs c) i = Some job" "at_file i n job" "\<not> ft_uploadTick c"
    and "drop n (rj_uploadFiles job) = f # fs"
  shows "\<exists>c'. run_actions clk (map (\<lambda>k. go_ahead i (int k)) [n..<n + length (f # fs)]) c = Some c'
    \<and> b_msgs c' = b_msgs c @ folder_messages i (int n) (f # fs)
    \<and> b_out c' = b_out c @ [job_done i (int (n + length fs)) (b_sessionId c)]
    \<and> map_get (read_jobs c') i = None \<and> \<not> ft_uploadTick c'"
  using assms
proof (induction fs arbitrary: n c job f)
  case Nil
  have "rj_uploadFiles job ! n = f" "Suc n = length (rj_uploadFiles job)"
    using drop_eq_ConsD [OF Nil.prems(4)] by auto
  then obtain c' where "handleFileAction clk (go_ahead i (int n)) c = Some c'"
    "b_msgs c' = b_msgs c @ file_blocks i (int n) 0 (fl_data f) @ [doneResponse i (int n)]"
    "b_out c' = b_out c @ [job_done i (int n) (b_sessionId c)]"
    "map_get (read_jobs c') i = None" "\<not> ft_uploadTick c'"
    using go_ahead_last [OF Nil.prems(1-3), of clk] by blast
  then show ?case by simp
next
  case (Cons g fs)
  have f: "rj_uploadFiles job ! n = f" and g: "drop (Suc n) (rj_uploadFiles job) = g # fs"
    using drop_eq_ConsD [OF Cons.prems(4)] by auto
  have gn: "rj_uploadFiles job ! Suc n = g" and lt: "Suc n < length (rj_uploadFiles job)"
    using drop_eq_ConsD [OF g] by auto
  obtain c1 job2 where c1: "handleFileAction clk (go_ahead i (int n)) c = Some c1"
    "b_msgs c1 = b_msgs c @ file_blocks i (int n) 0 (fl_data f)
       @ [digestResponse i (int (Suc n)) (fl_size g) (modified_seconds g)]"
    "b_out c1 = b_out c" "b_sessionId c1 = b_sessionId c" "map_get (read_jobs c1) i = Some job2"
    "at_file i (Suc n) job2" "rj_uploadFiles job2 = rj_uploadFiles job" "\<not> ft_uploadTick c1"
    using go_ahead_more [OF Cons.prems(1-3) lt, of clk, unfolded f gn] by blast
  have g2: "drop (Suc n) (rj_uploadFiles job2) = g # fs" using g c1(7) by simp
  have "[n..<n + length (f # g # fs)] = n # [Suc n..<Suc n + length (g # fs)]"
    by (subst upt_conv_Cons) simp_all
  then show ?case
    using Cons.IH [OF c1(5,6,8) g2] c1(1-4) by (auto simp del: upt_Suc simp: add.commute)
qed

lemma createMultiFileUploadJob_parts:
  fixes now i n tot :: int and lp rp :: string and fs :: "jsfile list" and es :: "FileEntry list" and h :: bool and jm :: job_manager
  defines "r \<equiv> createMultiFileUploadJob now i lp rp n fs es tot h jm"
  shows "map_get (jm_readJobs (snd r)) i = Some (fst r)"
    and "rj_id (fst r) = i" "rj_fileNum (fst r) = n" "rj_uploadFiles (fst r) = fs" "rj_files (fst r) = es"
    and "rj_file (fst r) = nullish_opt (js_at fs n) (js_at fs 0)" "rj_offset (fst r) = 0" "rj_blkId (fst r) = 0"
    and "rj_totalSize (fst r) = tot"
  by (simp_all add: r_def createMultiFileUploadJob_def Let_def map_get_set split: list.split)

text \<open>
  C3: a folder upload sends the folder.  After the user has started the upload of a picked
  folder, and the peer gives its go-ahead file by file, every go-ahead returns, the peer is
  sent the announcement of all files, then for each file its digest and its complete contents
  in blocks, with one \<open>Done\<close> at the very end, and the job is reported as done exactly once.
\<close>

theorem folder_upload_complete:
  assumes "fp_files plan \<noteq> []" and "length (fp_relativeNames plan) = length (fp_files plan)"
    and "pk_lastFolderPlan pk = Some plan" and "\<not> ft_uploadTick c"
  shows "\<exists>c'. run_actions clk (map (\<lambda>k. go_ahead i (int k)) [0..<length (fp_files plan)])
               (fst (sendFolderUpload now i to includeHidden (c, pk))) = Some c'
    \<and> b_msgs c' = b_msgs c
        @ [receiveAction i to (map2 upload_entry (fp_relativeNames plan) (fp_files plan)) 0 (fp_totalSize plan),
           digestResponse i 0 (fl_size (hd (fp_files plan))) (modified_seconds (hd (fp_files plan)))]
        @ folder_messages i 0 (fp_files plan)
    \<and> b_out c' = b_out c @ [job_done i (int (length (fp_files plan)) - 1) (b_sessionId c)]
    \<and> map_get (read_jobs c') i = None"
proof -
  obtain f fs where fs: "fp_files plan = f # fs" using assms(1) by (cases "fp_files plan") auto
  let ?c = "fst (sendFolderUpload now i to includeHidden (c, pk))"
  obtain job where job: "map_get (read_jobs ?c) i = Some job" "at_file i 0 job" "rj_uploadFiles job = f # fs"
    and c: "\<not> ft_uploadTick ?c" "b_sessionId ?c = b_sessionId c" "b_out ?c = b_out c"
    "b_msgs ?c = b_msgs c @ [receiveAction i to (map2 upload_entry (fp_relativeNames plan) (fp_files plan)) 0 (fp_totalSize plan),
         digestResponse i 0 (fl_size f) (modified_seconds f)]"
    using assms fs
    by (intro that [of "fst (createMultiFileUploadJob now i (fp_folderName plan) to 0 (fp_files plan)
            (map2 upload_entry (fp_relativeNames plan) (fp_files plan)) (fp_totalSize plan) includeHidden (ft_jobs c))"])
       (simp_all add: sendFolderUpload_def takeFolderPlan_def queueDigestForCurrentFile_def case_prod_unfold
        createMultiFileUploadJob_parts job_file_def queueMessage_def at_file_def Let_def)
  from folder_upload_from [OF job(1,2) c(1), of f fs clk] job(3) c fs show ?thesis by auto
qed

theorem folder_upload_complete_witness:
  "\<exists>c'. run_actions int (map (\<lambda>k. go_ahead 3 (int k)) [0..<2])
      (fst (sendFolderUpload 0 3 ''/tmp'' False
         (newFtConnection, \<lparr>pk_lastPickedFiles = [],
            pk_lastFolderPlan = Some \<lparr>fp_folderName = ''d'', fp_files = [sample_file [1], sample_file [2, 3]],
              fp_relativeNames = [''a'', ''b''], fp_totalSize = 3\<rparr>\<rparr>))) = Some c'
     \<and> b_out c' = [job_done 3 1 None]"
  using folder_upload_complete [of "\<lparr>fp_folderName = ''d'', fp_files = [sample_file [1], sample_file [2, 3]],
        fp_relativeNames = [''a'', ''b''], fp_totalSize = 3\<rparr>"
      "\<lparr>pk_lastPickedFiles = [], pk_lastFolderPlan = Some \<lparr>fp_folderName = ''d'',
         fp_files = [sample_file [1], sample_file [2, 3]], fp_relativeNames = [''a'', ''b''], fp_totalSize = 3\<rparr>\<rparr>"
      newFtConnection int 3 0 "''/tmp''" False]
  by (auto simp: newFtConnection_def base.defs newBase_def numeral_2_eq_2)

end
