(* ===== verification/Format_Error.thy ===== *)
theory Format_Error
  imports Prelude
begin

text \<open>
  \<open>flutter/js/src/helpers/format_error.ts\<close>: turning a caught value into the text shown to
  the user.
\<close>

definition default_fallback :: string where
  "default_fallback = ''An unknown error occurred.''"

text \<open>A field that holds a non-empty string.\<close>

definition str_field :: "(string, jval) jsmap \<Rightarrow> string \<Rightarrow> string option" where
  "str_field obj k =
     (case obj_get obj k of JStr s \<Rightarrow> (if s = '''' then None else Some s) | _ \<Rightarrow> None)"

definition finish_text :: "string \<Rightarrow> string \<Rightarrow> string" where
  "finish_text fallback s = (if s = ''[object Object]'' then fallback else s)"

fun formatErrorMessage :: "unknown \<Rightarrow> string \<Rightarrow> string" where
  "formatErrorMessage UUndefined fallback = fallback"
| "formatErrorMessage UNull fallback = fallback"
| "formatErrorMessage (UString s) fallback = (if s = '''' then fallback else s)"
| "formatErrorMessage (UError n m) fallback = str_or m fallback"
| "formatErrorMessage (UObject obj t) fallback =
     (case str_field obj ''message'' of
        Some s \<Rightarrow> s
      | None \<Rightarrow>
          (case str_field obj ''reason'' of
             Some s \<Rightarrow> s
           | None \<Rightarrow>
               (case str_field obj ''text'' of
                  Some s \<Rightarrow> s
                | None \<Rightarrow> finish_text fallback t)))"
| "formatErrorMessage (UOther t) fallback = finish_text fallback t"

lemma str_field_nonempty: "str_field obj k = Some s \<Longrightarrow> s \<noteq> ''''"
  by (auto simp: str_field_def split: jval.splits if_splits)

lemma finish_text_nonempty:
  "fallback \<noteq> '''' \<Longrightarrow> t \<noteq> '''' \<Longrightarrow> finish_text fallback t \<noteq> ''''"
  by (simp add: finish_text_def)

text \<open>A value whose own text is not empty; the text of \<open>[]\<close>, for instance, is empty.\<close>

fun has_text :: "unknown \<Rightarrow> bool" where
  "has_text (UObject obj t) = (t \<noteq> '''')"
| "has_text (UOther t) = (t \<noteq> '''')"
| "has_text _ = True"

lemma formatErrorMessage_nonempty_aux:
  "fallback \<noteq> '''' \<Longrightarrow> has_text v \<Longrightarrow> formatErrorMessage v fallback \<noteq> ''''"
  by (cases v)
     (auto simp: str_or_nonempty finish_text_nonempty dest: str_field_nonempty split: option.splits)

lemma formatErrorMessage_plain_object:
  assumes "str_field obj ''message'' = None" "str_field obj ''reason'' = None"
    "str_field obj ''text'' = None"
  shows "formatErrorMessage (UObject obj ''[object Object]'') fallback = fallback"
  using assms by (simp add: finish_text_def)

text \<open>
  With a non-empty fallback the formatted message of any caught value that has a text
  of its own is never empty, and a plain object without a usable field shows the fallback
  and never the text of the object itself.
\<close>

theorem formatErrorMessage_usable:
  assumes "fallback \<noteq> ''''" and "has_text v"
  shows "formatErrorMessage v fallback \<noteq> ''''
    \<and> (\<forall>obj. v = UObject obj ''[object Object]'' \<and> str_field obj ''message'' = None
          \<and> str_field obj ''reason'' = None \<and> str_field obj ''text'' = None
          \<longrightarrow> formatErrorMessage v fallback = fallback)"
  using assms formatErrorMessage_nonempty_aux formatErrorMessage_plain_object by blast

theorem formatErrorMessage_usable_witness:
  "formatErrorMessage (UObject [(''code'', JInt 7)] ''[object Object]'') default_fallback
     = default_fallback"
proof -
  have "default_fallback \<noteq> ''''" and "has_text (UObject [(''code'', JInt 7)] ''[object Object]'')"
    by (simp_all add: default_fallback_def)
  from formatErrorMessage_usable [OF this] show ?thesis
    by (simp add: str_field_def obj_get_def)
qed

end
