(* ===== verification/Ft_Session.thy ===== *)
theory Ft_Session
  imports Sessions Ft_Upload Format_Error
begin

text \<open>
  The part of \<open>flutter/js/src/connections/ft_connection.ts\<close> that goes through the session
  registry: the start of a file transfer session, its message loop, and the message boxes that
  end it.  The connection is the one at an address of the world.  Every operation takes the
  moment at which it runs: the clock, the random number it draws and what the user does with a
  save dialog.
\<close>

section \<open>Operations on the connection of a session\<close>

record moment =
  mo_now :: int
  mo_rnd :: int
  mo_clk :: "nat \<Rightarrow> int"
  mo_dialog :: picker_behaviour

definition ft_at :: "nat \<Rightarrow> world \<Rightarrow> ftconn option" where
  "ft_at a w = (case map_get (w_conns w) a of Some (FtC c) \<Rightarrow> Some c | _ \<Rightarrow> None)"

definition put_ft :: "nat \<Rightarrow> ftconn \<Rightarrow> world \<Rightarrow> world" where
  "put_ft a c w = on_conn a (\<lambda>_. FtC c) w"

definition ft_sid :: "nat \<Rightarrow> world \<Rightarrow> string option" where
  "ft_sid a w = Option.bind (ft_at a w) b_sessionId"

text \<open>\<open>!this._closing && !this._ftSessionEnded\<close>\<close>

definition ft_alive :: "ftconn \<Rightarrow> bool" where
  "ft_alive c \<longleftrightarrow> \<not> ft_closing c \<and> \<not> ft_sessionEnded c"

definition FT_DISCONNECT_FALLBACK :: string where
  "FT_DISCONNECT_FALLBACK = ''File transfer session ended''"

definition ft_msgbox :: "env \<Rightarrow> nat \<Rightarrow> string \<Rightarrow> string \<Rightarrow> string \<Rightarrow> world \<Rightarrow> world" where
  "ft_msgbox E a typ title text w =
     (if typ = '''' \<or> typ = ''connecting'' \<or> typ = ''success''
      then w\<lparr>w_out := w_out w @ [MsgBox typ title text]\<rparr>
      else endFileTransferSession E (ft_sid a w) (Some (str_or title ''File transfer''))
             (Some (str_or text (str_or title ''File transfer session ended''))) w)"

definition ft_onPasswordRequired :: "env \<Rightarrow> nat \<Rightarrow> world \<Rightarrow> world" where
  "ft_onPasswordRequired E a w = ft_msgbox E a ''input-password'' ''Password Required'' '''' w"

definition ft_reportConnectError :: "env \<Rightarrow> nat \<Rightarrow> string \<Rightarrow> string \<Rightarrow> world \<Rightarrow> world" where
  "ft_reportConnectError E a title text w =
     endFileTransferSession E (ft_sid a w) (Some title) (Some text) w"

definition selectFiles ::
    "env \<Rightarrow> nat \<Rightarrow> string comparator \<Rightarrow> jsfile list \<Rightarrow> bool \<Rightarrow> world \<Rightarrow> world" where
  "selectFiles E a localeCompare files isFolder w =
     (case ft_at a w of
        None \<Rightarrow> w
      | Some c \<Rightarrow>
          (let w1 = w\<lparr>w_picker := pickFiles files (w_picker w)\<rparr>
           in if files = [] then w1
              else if isFolder then
                (case buildFolderUploadPlan localeCompare files (truthy (getOption ''remote_show_hidden'' c)) of
                   None \<Rightarrow> ft_msgbox E a ''error'' ''Error'' ''No files found in selected folder'' w1
                 | Some plan \<Rightarrow>
                     (let (e, pk) = notifySelectedFolder plan (b_sessionId c) (w_picker w1)
                      in w1\<lparr>w_picker := pk, w_out := w_out w1 @ [e]\<rparr>))
              else w1\<lparr>w_out := w_out w1 @ map (\<lambda>i. notifySelectedFile (int i) (files ! i) (b_sessionId c)) [0..<length files]\<rparr>))"

section \<open>The message loop\<close>

definition ft_handleLoginResponse :: "env \<Rightarrow> int \<Rightarrow> nat \<Rightarrow> LoginResponse \<Rightarrow> ftconn \<Rightarrow> world \<Rightarrow> world" where
  "ft_handleLoginResponse E now a r c w =
     (if opt_truthy (LoginResponse_error r)
      then endFileTransferSession E (b_sessionId c) (Some ''Login Error'') (LoginResponse_error r) w
      else (case LoginResponse_peer_info r of
              None \<Rightarrow> w
            | Some info \<Rightarrow> put_ft a (ft_handlePeerInfo now info c) w))"

text \<open>One round of the loop: it goes on, a handler throws, or a handler never returns.\<close>

datatype loop_round = Goes world | Throws unknown world | Hangs

definition ft_round :: "nat \<Rightarrow> (ftconn \<times> disk) option \<Rightarrow> world \<Rightarrow> loop_round" where
  "ft_round a r w =
     (case r of None \<Rightarrow> Hangs | Some (c, dk) \<Rightarrow> Goes ((put_ft a c w)\<lparr>w_disk := dk\<rparr>))"

definition ft_permission :: "PermissionInfo \<Rightarrow> ftconn \<Rightarrow> ftconn" where
  "ft_permission p c =
     ev ''permission'' [(''permission'', JIntStr (PermissionInfo_permission p)),
                        (''enabled'', JStr (js_bool_string (PermissionInfo_enabled p)))] c"

definition ft_handleMessage :: "env \<Rightarrow> moment \<Rightarrow> nat \<Rightarrow> Message \<Rightarrow> ftconn \<Rightarrow> world \<Rightarrow> loop_round" where
  "ft_handleMessage E mo a msg c w =
     (case Message_hash msg of
        Some h \<Rightarrow>
          (case handleHashMessage E (ft_buildLoginRequest (mo_rnd mo)) (c\<lparr>b_hash := Some h\<rparr>) of
             HashLogin (Inl e) \<Rightarrow> Throws e (put_ft a (c\<lparr>b_hash := Some h\<rparr>) w)
           | HashLogin (Inr c1) \<Rightarrow> Goes (put_ft a c1 w)
           | AskPassword c1 \<Rightarrow> Goes (ft_onPasswordRequired E a (put_ft a c1 w)))
      | None \<Rightarrow>
     (case Message_login_response msg of
        Some r \<Rightarrow> Goes (ft_handleLoginResponse E (mo_now mo) a r c w)
      | None \<Rightarrow>
     (case Message_file_response msg of
        Some fr \<Rightarrow> ft_round a (handleFileResponse E (mo_now mo) (mo_dialog mo) fr (c, w_disk w)) w
      | None \<Rightarrow>
     (case Message_file_action msg of
        Some fa \<Rightarrow> ft_round a (map_option (\<lambda>c1. (c1, w_disk w)) (handleFileAction (mo_clk mo) fa c)) w
      | None \<Rightarrow>
     (case Option.bind (Message_misc msg) Misc_permission_info of
        Some p \<Rightarrow> Goes (put_ft a (ft_permission p c) w)
      | None \<Rightarrow> Goes w)))))"

text \<open>
  The end of the loop: \<open>next\<close> was rejected, or a handler threw.  Unless the session is closing
  already, the jobs are reported lost and the session ends.
\<close>

definition ft_disconnected :: "env \<Rightarrow> nat \<Rightarrow> unknown \<Rightarrow> world \<Rightarrow> world" where
  "ft_disconnected E a e w =
     (case ft_at a w of
        None \<Rightarrow> w
      | Some c \<Rightarrow>
          (if \<not> ft_alive c then w
           else (let w1 = put_ft a (failActiveJobs ''Connection lost'' c) w;
                     disconnectMessage = formatErrorMessage e FT_DISCONNECT_FALLBACK
                 in endFileTransferSession E (b_sessionId c)
                      (Some (if disconnectMessage \<noteq> '''' then ''Connection Error'' else ''File transfer''))
                      (Some disconnectMessage) w1)))"

text \<open>
  The loop over the messages that the socket delivers until \<open>next\<close> rejects with \<open>e\<close>; \<open>None\<close>
  when a handler never returns.
\<close>

fun ft_msgLoop :: "env \<Rightarrow> nat \<Rightarrow> (moment \<times> Message) list \<Rightarrow> unknown \<Rightarrow> world \<Rightarrow> world option" where
  "ft_msgLoop E a [] e w = Some (ft_disconnected E a e w)"
| "ft_msgLoop E a ((mo, msg) # ms) e w =
     (case ft_at a w of
        None \<Rightarrow> Some w
      | Some c \<Rightarrow>
          (case ft_handleMessage E mo a msg c w of
             Goes w1 \<Rightarrow> ft_msgLoop E a ms e w1
           | Throws e1 w1 \<Rightarrow> Some (ft_disconnected E a e1 w1)
           | Hangs \<Rightarrow> None))"

section \<open>Starting\<close>

text \<open>
  \<open>start\<close> up to the message loop.  \<open>conn\<close> is the outcome of \<open>establishConnection\<close>; an
  exception on the way is reported unless the session is over.
\<close>

definition ft_prepare ::
    "(string, peer_options) jsmap \<Rightarrow> string option \<Rightarrow> string option \<Rightarrow> ftconn \<Rightarrow> ftconn" where
  "ft_prepare peers peer password c =
     (let c1 = (if opt_truthy peer then c\<lparr>b_id := the peer\<rparr> else c);
          c2 = (if opt_truthy password then c1\<lparr>b_plaintextPassword := password\<rparr> else c1)
      in (prepareConnect peers (b_id c2) c2)\<lparr>ft_progressInterval := True\<rparr>)"

definition ft_not_connected :: "env \<Rightarrow> nat \<Rightarrow> string \<Rightarrow> world \<Rightarrow> world" where
  "ft_not_connected E a message w =
     (case ft_at a w of
        None \<Rightarrow> w
      | Some c \<Rightarrow>
          (if ft_alive c then endFileTransferSession E (b_sessionId c) (Some ''Connection Error'') (Some message) w
           else w))"

definition ft_start ::
    "env \<Rightarrow> (string, peer_options) jsmap \<Rightarrow> established \<Rightarrow> string option \<Rightarrow> string option \<Rightarrow> nat \<Rightarrow> world \<Rightarrow> world" where
  "ft_start E peers conn peer password a w =
     (case ft_at a w of
        None \<Rightarrow> w
      | Some c \<Rightarrow>
          (let c1 = ft_prepare peers peer password c; w1 = put_ft a c1 w;
               failed = (\<lambda>w. if b_ws c1 = None
                             then ft_not_connected E a ''Failed to connect file transfer session'' w else w)
           in case conn of
                Established ws ready \<Rightarrow> put_ft a (attach_ws ws (emit ready c1)) w
              | ConnectError title text \<Rightarrow> failed (ft_reportConnectError E a title text w1)
              | NotEstablished \<Rightarrow> failed w1
              | ConnectThrew e \<Rightarrow>
                  ft_not_connected E a
                    (if exn_type e = JStr ''close'' then ''Reset by the peer''
                     else formatErrorMessage e FT_DISCONNECT_FALLBACK) w1))"

section \<open>What the handlers leave alone\<close>

text \<open>
  The handlers of the connection itself never touch its place in the registry, and of what
  they report nothing is a \<open>msgbox\<close> event: only \<open>endFileTransferSession\<close> reports the end.
\<close>

definition ft_frame :: "ftconn \<Rightarrow> ftconn \<Rightarrow> bool" where
  "ft_frame c c' \<longleftrightarrow> b_sessionId c' = b_sessionId c \<and> ft_closing c' = ft_closing c \<and> ft_sessionEnded c' = ft_sessionEnded c
     \<and> (\<exists>es. b_out c' = b_out c @ es \<and> list_all (\<lambda>e. event_name e \<noteq> JStr ''msgbox'') es)"

named_theorems frame_intros \<open>what keeps the frame of a connection\<close>

lemma ft_frame_silent:
  "b_sessionId c' = b_sessionId c \<Longrightarrow> ft_closing c' = ft_closing c \<Longrightarrow> ft_sessionEnded c' = ft_sessionEnded c
     \<Longrightarrow> b_out c' = b_out c \<Longrightarrow> ft_frame c c'"
  by (simp add: ft_frame_def)

lemma ft_frame_trans: "ft_frame c c1 \<Longrightarrow> ft_frame c1 c2 \<Longrightarrow> ft_frame c c2"
  by (auto simp: ft_frame_def)

lemma ft_frame_emit [frame_intros]: "event_name e \<noteq> JStr ''msgbox'' \<Longrightarrow> ft_frame c c1 \<Longrightarrow> ft_frame c (emit e c1)"
  by (auto simp: ft_frame_def)

lemma ft_frame_ev [frame_intros]: "name \<noteq> ''msgbox'' \<Longrightarrow> ft_frame c c1 \<Longrightarrow> ft_frame c (ev name payload c1)"
  by (simp add: ev_def ft_frame_emit)

lemma ft_frame_refl [frame_intros]: "ft_frame c c"
  by (simp add: ft_frame_silent)

lemma ft_frame_steps [frame_intros]:
  assumes "ft_frame c c1"
  shows "ft_frame c (put_read i job c1)" "ft_frame c (put_write i wjob c1)" "ft_frame c (drop_job i c1)"
    "ft_frame c (queueMessage m c1)" "ft_frame c (sendMessage E m c1)" "ft_frame c (c1\<lparr>ft_uploadTick := b\<rparr>)"
    "ft_frame c (c1\<lparr>b_hash := h\<rparr>)" "ft_frame c (c1\<lparr>b_password := p\<rparr>)" "ft_frame c (c1\<lparr>b_loginSessionId := l\<rparr>)"
    "ft_frame c (c1\<lparr>b_peerInfo := pi'\<rparr>)" "ft_frame c (c1\<lparr>ft_peerPlatform := s\<rparr>)" "ft_frame c (c1\<lparr>ft_peerHostname := s\<rparr>)"
  by (rule ft_frame_trans [OF assms ft_frame_silent];
      simp add: put_read_def put_write_def drop_job_def queueMessage_def sendMessage_def)+

lemma ft_frame_setOption [frame_intros]: "ft_frame c c1 \<Longrightarrow> ft_frame c (setOption now name v c1)"
  by (erule ft_frame_trans) (auto simp: ft_frame_def setOption_def Let_def)

lemma ft_frame_jobs [frame_intros]:
  assumes "ft_frame c c1"
  shows "ft_frame c (pushJobError i n err c1)" "ft_frame c (pushJobDone i n c1)"
  using assms by (simp_all add: pushJobError_def pushJobDone_def job_error_def job_done_def frame_intros)

lemma ft_frame_if [frame_intros]: "ft_frame c x \<Longrightarrow> ft_frame c y \<Longrightarrow> ft_frame c (if b then x else y)"
  by simp

lemma ft_frame_handlePeerInfo: "ft_frame c (ft_handlePeerInfo now info c)"
  unfolding ft_handlePeerInfo_def Let_def persistPasswordIfRemembered_def
  by (auto intro!: frame_intros split: option.split)

lemma ft_frame_login:
  "login E (ft_buildLoginRequest rnd) pw c = Inr c' \<Longrightarrow> ft_frame c c'"
  by (auto simp: login_def sendLoginMessage_def ft_buildLoginRequest_def Let_def split: if_splits sum.splits option.splits
      intro!: frame_intros)

lemma ft_frame_queueDigest [frame_intros]: "ft_frame c c1 \<Longrightarrow> ft_frame c (queueDigestForCurrentFile job c1)"
  by (auto simp: queueDigestForCurrentFile_def intro!: frame_intros split: option.split)

lemma ft_frame_advance [frame_intros]: "ft_frame c c1 \<Longrightarrow> ft_frame c (advanceUploadAfterFile i job n c1)"
  by (auto simp: advanceUploadAfterFile_def Let_def intro!: frame_intros split: option.split)

lemma ft_frame_pump_block: "ft_frame c c1 \<Longrightarrow> ft_frame c (snd (pump_block i job data fin c1))"
  by (auto simp: pump_block_def upload_file_finished_def Let_def intro!: frame_intros)

lemma ft_frame_pump_loop: "pump_loop clk k i c = Some c' \<Longrightarrow> ft_frame c c'"
proof (induction rule: pump_loop.raw_induct [rotated, consumes 1])
  case (1 pump clk k i c c')
  show ?case
  proof (cases "map_get (read_jobs c) i")
    case (Some job)
    obtain nx job1 where nx: "nextUploadBlock (clk k) job = (nx, job1)" by force
    show ?thesis
    proof (cases "\<exists>d f. rj_active job \<and> nx = Some (d, f)")
      case True
      then obtain d f where d: "rj_active job" "nx = Some (d, f)" by blast
      obtain g c1 where pb: "pump_block i job1 d f (put_read i job1 c) = (g, c1)" by force
      have "ft_frame c c1"
        using ft_frame_pump_block [of c "put_read i job1 c" i job1 d f] by (simp add: pb frame_intros)
      with 1 Some nx d pb show ?thesis by (auto split: if_splits intro: ft_frame_trans)
    qed (use 1 Some nx in \<open>auto split: if_splits option.splits intro: frame_intros\<close>)
  qed (use 1 in \<open>simp add: frame_intros\<close>)
qed

lemma ft_frame_pump: "pumpUploadBlocks clk i c = Some c' \<Longrightarrow> ft_frame c c'"
  by (auto simp: pumpUploadBlocks_def split: if_splits intro!: frame_intros dest!: ft_frame_pump_loop
      elim: ft_frame_trans [rotated])

lemma ft_frame_fileAction: "handleFileAction clk fa c = Some c' \<Longrightarrow> ft_frame c c'"
  by (auto simp: handleFileAction_def Let_def split: option.splits if_splits intro!: frame_intros
      dest!: ft_frame_pump elim!: ft_frame_trans [rotated])

lemma ft_frame_digest: "ft_frame c (handleDigest E d c)"
  by (auto simp: handleDigest_def sendConfirm_def Let_def intro!: frame_intros split: option.split prod.split)

lemma ft_frame_block: "ft_frame c (fst (handleBlock E now b (c, dk)))"
  by (auto simp: handleBlock_def Let_def intro!: frame_intros split: option.split prod.split)

lemma ft_frame_done: "handleDone E bh d (c, dk) = Some s' \<Longrightarrow> ft_frame c (fst s')"
  by (auto simp: handleDone_def Let_def intro!: frame_intros split: if_splits option.splits prod.splits finish_result.splits)

lemma ft_frame_fileResponse: "handleFileResponse E now bh fr (c, dk) = Some s' \<Longrightarrow> ft_frame c (fst s')"
  using ft_frame_digest [of c] ft_frame_block [of c] ft_frame_done [of E bh _ c dk s']
  by (auto simp: handleFileResponse_def handle_dir_def handleError_def Let_def intro!: frame_intros split: option.splits)

section \<open>Uploads in the loop return\<close>

text \<open>The offset of an upload never lies before the file.\<close>

definition reads_ok :: "ftconn \<Rightarrow> bool" where
  "reads_ok c \<longleftrightarrow> list_all (\<lambda>p. 0 \<le> rj_offset (snd p)) (read_jobs c)"

lemma list_all_delete: "list_all P m \<Longrightarrow> list_all P (map_delete k m)"
  by (auto simp: list_all_iff set_map_delete)

lemma list_all_set: "list_all P m \<Longrightarrow> P (k, v) \<Longrightarrow> list_all P (map_set k v m)"
  by (induction m) auto

lemma reads_ok_get: "reads_ok c \<Longrightarrow> map_get (read_jobs c) i = Some job \<Longrightarrow> 0 \<le> rj_offset job"
  by (fastforce simp: reads_ok_def list_all_iff dest: map_of_SomeD)

lemma reads_ok_put: "reads_ok c \<Longrightarrow> 0 \<le> rj_offset job \<Longrightarrow> reads_ok (put_read i job c)"
  by (simp add: reads_ok_def put_read_def list_all_set)

lemma reads_ok_drop: "reads_ok c \<Longrightarrow> reads_ok (drop_job i c)"
  by (simp add: reads_ok_def drop_job_def removeJob_def list_all_delete)

lemma jobs_sendMessage [simp]: "ft_jobs (sendMessage E m c) = ft_jobs c"
  by (simp add: sendMessage_def)

lemma reads_ok_kept [simp]:
  "reads_ok (queueMessage m c) = reads_ok c" "reads_ok (sendMessage E m c) = reads_ok c" "reads_ok (ev nm pl c) = reads_ok c"
  "reads_ok (pushJobDone i n c) = reads_ok c" "reads_ok (pushJobError i n err c) = reads_ok c"
  "reads_ok (put_write i job c) = reads_ok c"
  by (simp_all add: reads_ok_def base_defs pushJobDone_def pushJobError_def put_write_def)

lemma reads_ok_digest [simp]: "reads_ok (queueDigestForCurrentFile job c) = reads_ok c"
  by (simp add: queueDigestForCurrentFile_def split: option.split)

lemmas reads_intros = reads_ok_put reads_ok_drop

lemma reads_ok_advance: "reads_ok c \<Longrightarrow> 0 \<le> rj_offset job \<Longrightarrow> reads_ok (advanceUploadAfterFile i job n c)"
  by (auto simp: advanceUploadAfterFile_def Let_def intro!: reads_intros split: option.split)

lemma drop_put_read [simp]: "drop_job i (put_read i job c) = drop_job i c"
  by (simp add: drop_job_def put_read_def removeJob_def)

lemma drop_put_msgs [simp]: "drop_job i (queueMessage m (put_read i job c)) = drop_job i (queueMessage m c)"
  by (simp add: drop_job_def put_read_def removeJob_def queueMessage_def)

lemma reads_ok_file_finished: "reads_ok c \<Longrightarrow> reads_ok (upload_file_finished i job (put_read i job c))"
proof -
  assume c: "reads_ok c"
  have "reads_ok (drop_job i (queueMessage m c))" for m using c by (intro reads_intros) simp
  moreover have "put_read i j1 (put_read i job c) = put_read i j1 c" for j1 by simp
  ultimately show ?thesis
    using c by (auto simp: upload_file_finished_def advanceUploadAfterFile_def Let_def intro!: reads_intros
        split: option.split)
qed

lemma pump_returns:
  assumes "reads_ok c"
  shows "\<exists>c'. pumpUploadBlocks clk i c = Some c' \<and> reads_ok c'"
proof (cases "ft_uploadTick c \<or> map_get (read_jobs c) i = None
    \<or> \<not> rj_active (the (map_get (read_jobs c) i)) \<or> job_file (the (map_get (read_jobs c) i)) = None")
  case True
  then have "pump_loop clk 0 i (c\<lparr>ft_uploadTick := True\<rparr>) = Some (c\<lparr>ft_uploadTick := True\<rparr>) \<or> ft_uploadTick c"
    by (subst pump_loop.simps) (auto simp: nextUploadBlock_def split: option.split)
  then show ?thesis using assms by (auto simp: pumpUploadBlocks_def reads_ok_def)
next
  case False
  then obtain job f where j: "map_get (read_jobs c) i = Some job" "rj_active job" "job_file job = Some f" "\<not> ft_uploadTick c"
    by auto
  let ?c = "\<lambda>bs. c\<lparr>ft_uploadTick := True, b_msgs := b_msgs c @ bs\<rparr>"
  obtain job' bs where "pumpUploadBlocks clk i c
      = Some ((upload_file_finished i job' (put_read i job' (?c bs)))\<lparr>ft_uploadTick := False\<rparr>)"
    using pump_file [OF j(1-3) reads_ok_get [OF assms j(1)] j(4)] by blast
  moreover have "reads_ok (upload_file_finished i job' (put_read i job' (?c bs)))"
    by (rule reads_ok_file_finished) (use assms in \<open>simp add: reads_ok_def\<close>)
  ultimately show ?thesis by (simp add: reads_ok_def)
qed

lemma fileAction_returns:
  assumes "reads_ok c"
  shows "\<exists>c'. handleFileAction clk fa c = Some c' \<and> reads_ok c'"
proof (cases "FileAction_send_confirm fa")
  case (Some cf)
  show ?thesis
  proof (cases "map_get (read_jobs c) (FileTransferSendConfirmRequest_id cf)")
    case job: (Some job)
    have o: "0 \<le> rj_offset job" by (rule reads_ok_get [OF assms job])
    show ?thesis
      using assms o Some job
      by (auto simp: handleFileAction_def Let_def BLOCK_SIZE_def intro!: reads_ok_advance pump_returns reads_ok_put)
  qed (use assms Some in \<open>simp add: handleFileAction_def Let_def\<close>)
qed (use assms in \<open>simp add: handleFileAction_def\<close>)

lemma reads_ok_fileResponse:
  assumes "reads_ok c" "handleFileResponse E now bh fr (c, dk) = Some s'"
  shows "reads_ok (fst s')"
proof -
  have "reads_ok (handleDigest E d c)" for d
    using assms(1) by (auto simp: handleDigest_def sendConfirm_def Let_def intro!: reads_intros
        dest: reads_ok_get split: option.split prod.split)
  moreover have "reads_ok (fst (handleBlock E now b (c, dk)))" for b
    using assms(1) by (auto simp: handleBlock_def Let_def split: option.split prod.split)
  moreover have "reads_ok (fst s')" if "handleDone E bh d (c, dk) = Some s'" for d
    using assms(1) that by (auto simp: handleDone_def Let_def intro!: reads_ok_drop
        split: if_splits option.splits prod.splits finish_result.splits)
  ultimately show ?thesis
    using assms by (auto simp: handleFileResponse_def handle_dir_def handleError_def Let_def intro!: reads_ok_drop
        split: option.splits if_splits)
qed

section \<open>The life of a session\<close>

text \<open>A session that is under way, and one that is over.\<close>

definition session_live :: "string \<Rightarrow> nat \<Rightarrow> world \<Rightarrow> bool" where
  "session_live sid a w \<longleftrightarrow> registry_ok w \<and> sid \<noteq> '''' \<and> map_get (w_sessions w) sid = Some a
     \<and> (\<exists>c. map_get (w_conns w) a = Some (FtC c) \<and> ft_alive c \<and> b_out c = [] \<and> reads_ok c)"

definition session_over :: "string \<Rightarrow> nat \<Rightarrow> world \<Rightarrow> bool" where
  "session_over sid a w \<longleftrightarrow> registry_ok w \<and> map_get (w_sessions w) sid = None
     \<and> (\<exists>c. map_get (w_conns w) a = Some (FtC c) \<and> \<not> ft_alive c \<and> b_sessionId c = Some sid \<and> b_out c = [] \<and> reads_ok c)"

definition ended_event :: "string \<Rightarrow> emission \<Rightarrow> bool" where
  "ended_event sid e \<longleftrightarrow> event_name e = JStr ''msgbox'' \<and> event_field ''type'' e = JStr FT_SESSION_ENDED
     \<and> event_field ''session_id'' e = JStr sid"

text \<open>The ends of the session that were reported on the way from one world to another.\<close>

definition reported_ends :: "string \<Rightarrow> world \<Rightarrow> world \<Rightarrow> nat \<Rightarrow> bool" where
  "reported_ends sid w w' n \<longleftrightarrow> (\<exists>es. w_out w' = w_out w @ es \<and> length (filter (ended_event sid) es) = n)
     \<and> (\<forall>s. s \<noteq> sid \<longrightarrow> map_get (w_sessions w') s = map_get (w_sessions w) s)"

lemma reported_ends_refl: "reported_ends sid w w 0"
  by (simp add: reported_ends_def)

lemma reported_ends_trans:
  "reported_ends sid w w1 m \<Longrightarrow> reported_ends sid w1 w2 n \<Longrightarrow> reported_ends sid w w2 (m + n)"
  by (auto simp: reported_ends_def)

lemma ended_event_session_ended: "sid \<noteq> '''' \<Longrightarrow> ended_event sid (session_ended_event t m sid)"
  by (simp add: ended_event_def session_ended_event_def pushEvent_def jsonfyForDart_def obj_get_def map_get_set)

lemma no_ended_events: "list_all (\<lambda>e. event_name e \<noteq> JStr ''msgbox'') es \<Longrightarrow> filter (ended_event sid) es = []"
  by (induction es) (auto simp: ended_event_def)

lemma put_ft_simps [simp]:
  "w_sessions (put_ft a c w) = w_sessions w" "w_curConn (put_ft a c w) = w_curConn w"
  by (simp_all add: put_ft_def)

lemma put_ft_frame:
  assumes "map_get (w_conns w) a = Some (FtC c)" "b_out c = []" "ft_frame c c'"
  shows "map_get (w_conns (put_ft a c' w)) a = Some (FtC (c'\<lparr>b_out := []\<rparr>))"
    and "registry_ok w \<Longrightarrow> registry_ok (put_ft a c' w)"
    and "reported_ends sid w (put_ft a c' w) 0"
proof -
  show "map_get (w_conns (put_ft a c' w)) a = Some (FtC (c'\<lparr>b_out := []\<rparr>))"
    using assms(1) by (simp add: put_ft_def on_conn_get)
  have sid: "b_sessionId c' = b_sessionId c" using assms(3) by (simp add: ft_frame_def)
  show "registry_ok (put_ft a c' w)" if "registry_ok w"
    using that assms(1) sid
    by (auto simp: registry_ok_def current_ok_def put_ft_def on_conn_get list_all_iff cong: option.case_cong)
  obtain es where "b_out c' = es" "list_all (\<lambda>e. event_name e \<noteq> JStr ''msgbox'') es"
    using assms(2,3) by (auto simp: ft_frame_def)
  then show "reported_ends sid w (put_ft a c' w) 0"
    using assms(1) no_ended_events [of es sid] by (auto simp: reported_ends_def put_ft_def on_conn_def)
qed

lemma session_put:
  assumes "map_get (w_conns w) a = Some (FtC c)" "b_out c = []" "ft_frame c c'" "reads_ok c'"
  shows "session_live sid a w \<Longrightarrow> session_live sid a (put_ft a c' w)"
    and "session_over sid a w \<Longrightarrow> session_over sid a (put_ft a c' w)"
  using put_ft_frame [OF assms(1-3)] assms
  by (auto simp: session_live_def session_over_def ft_frame_def ft_alive_def reads_ok_def)

lemma session_disk [simp]:
  "session_live sid a (w\<lparr>w_disk := dk\<rparr>) = session_live sid a w"
  "session_over sid a (w\<lparr>w_disk := dk\<rparr>) = session_over sid a w"
  "reported_ends sid w0 (w\<lparr>w_disk := dk\<rparr>) n = reported_ends sid w0 w n"
  by (simp_all add: session_live_def session_over_def reported_ends_def registry_ok_def current_ok_def cong: option.case_cong)

lemma job_errors_no_end: "list_all (\<lambda>e. event_name e \<noteq> JStr ''msgbox'') (job_errors err c)"
  by (auto simp: job_errors_def job_error_def list_all_iff)

lemma end_live:
  assumes "session_live sid a w"
  shows "session_over sid a (endFileTransferSession E (Some sid) (Some t) (Some m) w)"
    and "reported_ends sid w (endFileTransferSession E (Some sid) (Some t) (Some m) w) 1"
proof -
  let ?w' = "endFileTransferSession E (Some sid) (Some t) (Some m) w"
  obtain c where c: "registry_ok w" "sid \<noteq> ''''" "map_get (w_sessions w) sid = Some a"
    "map_get (w_conns w) a = Some (FtC c)" "ft_alive c" "b_out c = []"
    using assms by (auto simp: session_live_def)
  have alive: "ft_ok c" "\<not> ft_sessionEnded c" using c(5) by (simp_all add: ft_ok_def ft_alive_def)
  note out = end_session_outcome [OF c(1-4) alive c(6), of E "Some t" "Some m", unfolded Let_def]
  have ok: "registry_ok ?w'" using c(1) by (rule endFileTransferSession_ok)
  have sid: "b_sessionId c = Some sid" using registry_ok_get [OF c(1,3)] c(4) by simp
  have conn: "map_get (w_conns ?w') a = Some (FtC ((end_ft_conn E c)\<lparr>b_out := []\<rparr>))"
    using c alive by (simp add: endFileTransferSession_def Let_def on_conn_get)
  have "conn_sessionId (FtC (end_ft_conn E c)) = Some sid" using end_ft_sessionId [of E "FtC c"] sid by simp
  moreover have "\<not> ft_alive (end_ft_conn E c)" "reads_ok (end_ft_conn E c)"
    by (simp_all add: end_ft_conn_def ft_close_def cancelAllJobs_sends baseClose_def failActiveJobs_reports ft_alive_def
        reads_ok_def newFileJobManager_def)
  ultimately show "session_over sid a ?w'"
    using ok conn out by (simp add: session_over_def ft_alive_def reads_ok_def)
  show "reported_ends sid w ?w' 1"
    using out c(2) no_ended_events [OF job_errors_no_end, of sid "''Connection lost''" c]
    by (auto simp: reported_ends_def ended_event_session_ended)
qed

lemma end_over: "session_over sid a w \<Longrightarrow> endFileTransferSession E (Some sid) t m w = w"
  by (auto simp: session_over_def endFileTransferSession_def)

text \<open>A session has been reported as ended \<open>k\<close> times: not at all while it is live, once when it is over.\<close>

definition session_at :: "string \<Rightarrow> nat \<Rightarrow> nat \<Rightarrow> world \<Rightarrow> bool" where
  "session_at sid a k w \<longleftrightarrow> (k = 0 \<and> session_live sid a w) \<or> (k = 1 \<and> session_over sid a w)"

definition session_step :: "string \<Rightarrow> nat \<Rightarrow> nat \<Rightarrow> world \<Rightarrow> world \<Rightarrow> bool" where
  "session_step sid a k w w' \<longleftrightarrow> (\<exists>n. session_at sid a (k + n) w' \<and> reported_ends sid w w' n)"

lemma session_at_conn:
  assumes "session_at sid a k w"
  obtains c where "map_get (w_conns w) a = Some (FtC c)" "ft_at a w = Some c" "b_out c = []" "reads_ok c"
    "b_sessionId c = Some sid" "registry_ok w"
proof -
  obtain c where c: "map_get (w_conns w) a = Some (FtC c)" "b_out c = []" "reads_ok c" "registry_ok w"
    "b_sessionId c = Some sid"
  proof (cases "k = 0")
    case True
    with assms have l: "registry_ok w" "map_get (w_sessions w) sid = Some a"
      "\<exists>c. map_get (w_conns w) a = Some (FtC c) \<and> b_out c = [] \<and> reads_ok c"
      by (auto simp: session_at_def session_live_def)
    with registry_ok_get [OF l(1,2)] that show thesis by fastforce
  qed (use assms that in \<open>auto simp: session_at_def session_over_def\<close>)
  then show thesis using that by (simp add: ft_at_def)
qed

lemma step_end:
  assumes "session_at sid a k w"
  shows "session_step sid a k w (endFileTransferSession E (Some sid) (Some t) (Some m) w)"
proof (cases "k = 0")
  case True
  with assms have "session_live sid a w" by (simp add: session_at_def)
  from end_live [OF this] show ?thesis using True by (auto simp: session_step_def session_at_def intro!: exI [of _ 1])
next
  case False
  with assms have "session_over sid a w" by (simp add: session_at_def)
  from end_over [OF this] assms show ?thesis using reported_ends_refl by (auto simp: session_step_def intro!: exI [of _ 0])
qed

lemma step_put:
  assumes "session_at sid a k w" "map_get (w_conns w) a = Some (FtC c)" "ft_frame c c'" "reads_ok c'"
  shows "session_step sid a k w (put_ft a c' w)" "session_at sid a k (put_ft a c' w)"
proof -
  have o: "b_out c = []" using session_at_conn [OF assms(1)] assms(2) by fastforce
  show "session_at sid a k (put_ft a c' w)"
    using session_put [OF assms(2) o assms(3,4)] assms(1) by (auto simp: session_at_def)
  then show "session_step sid a k w (put_ft a c' w)"
    using put_ft_frame(3) [OF assms(2) o assms(3)] by (auto simp: session_step_def intro!: exI [of _ 0])
qed

lemma step_refl: "session_at sid a k w \<Longrightarrow> session_step sid a k w w"
  by (auto simp: session_step_def reported_ends_refl intro!: exI [of _ 0])

lemma step_trans:
  "session_step sid a k w w1 \<Longrightarrow> (\<And>k'. session_at sid a k' w1 \<Longrightarrow> session_step sid a k' w1 w2) \<Longrightarrow> session_step sid a k w w2"
  unfolding session_step_def by (metis add.assoc reported_ends_trans)

lemma step_put_trans:
  assumes "session_at sid a k w" "map_get (w_conns w) a = Some (FtC c)" "ft_frame c c'" "reads_ok c'"
    and "\<And>k'. session_at sid a k' (put_ft a c' w) \<Longrightarrow> session_step sid a k' (put_ft a c' w) w'"
  shows "session_step sid a k w w'"
  using step_trans [OF step_put(1) [OF assms(1-4)] assms(5)] .

lemma step_disk: "session_step sid a k w w' \<Longrightarrow> session_step sid a k w (w'\<lparr>w_disk := dk\<rparr>)"
  by (simp add: session_step_def session_at_def)

lemma hash_login_returns: "b_hash c = Some h \<Longrightarrow> \<exists>c'. login E build pw c = Inr c'"
  by (auto simp: login_def hashPassword_def hash_salt_def hash_challenge_def Let_def split: option.split)

definition is_done :: "Message \<Rightarrow> bool" where
  "is_done msg \<longleftrightarrow> done_of msg \<noteq> None"

lemma reads_ok_jobs: "ft_jobs c' = ft_jobs c \<Longrightarrow> reads_ok c \<Longrightarrow> reads_ok c'"
  by (simp add: reads_ok_def)

lemma login_jobs: "login E (ft_buildLoginRequest rnd) pw c = Inr c' \<Longrightarrow> ft_jobs c' = ft_jobs c"
  by (auto simp: login_def sendLoginMessage_def ft_buildLoginRequest_def Let_def split: if_splits sum.splits option.splits)

lemma handlePeerInfo_jobs: "ft_jobs (ft_handlePeerInfo now info c) = ft_jobs c"
  by (auto simp: ft_handlePeerInfo_def persistPasswordIfRemembered_def setOption_def ev_def Let_def split: option.split)

lemma round_hash:
  assumes "session_at sid a k w" "map_get (w_conns w) a = Some (FtC c)" "reads_ok c" "Message_hash msg = Some h"
  shows "\<exists>w1. ft_handleMessage E mo a msg c w = Goes w1 \<and> session_step sid a k w w1"
proof -
  let ?c = "c\<lparr>b_hash := Some h\<rparr>" and ?build = "ft_buildLoginRequest (mo_rnd mo)"
  have in1: "\<exists>w1. ft_handleMessage E mo a msg c w = Goes w1 \<and> session_step sid a k w w1"
    if "handleHashMessage E ?build ?c = HashLogin (login E ?build pw ?c)" for pw
  proof -
    obtain c1 where c1: "login E ?build pw ?c = Inr c1" using hash_login_returns [of ?c h E ?build pw] by auto
    have "ft_frame c c1" using ft_frame_login [OF c1] by (rule ft_frame_trans [rotated]) (intro frame_intros)
    moreover have "reads_ok c1" using login_jobs [OF c1] assms(3) by (intro reads_ok_jobs [of c1 c]) simp_all
    ultimately show ?thesis using step_put(1) [OF assms(1,2)] that c1 assms(4) by (simp add: ft_handleMessage_def)
  qed
  moreover have "\<exists>w1. ft_handleMessage E mo a msg c w = Goes w1 \<and> session_step sid a k w w1"
    if "handleHashMessage E ?build ?c = AskPassword ?c"
  proof -
    have f: "ft_frame c ?c" "reads_ok ?c" using assms(3) by (auto simp: reads_ok_def intro!: frame_intros)
    have "session_step sid a k' (put_ft a ?c w) (ft_onPasswordRequired E a (put_ft a ?c w))"
      if "session_at sid a k' (put_ft a ?c w)" for k'
    proof -
      have "ft_sid a (put_ft a ?c w) = Some sid" by (rule session_at_conn [OF that]) (simp add: ft_sid_def)
      then show ?thesis using step_end [OF that] by (simp add: ft_onPasswordRequired_def ft_msgbox_def)
    qed
    with step_put_trans [OF assms(1,2) f] that assms(4) show ?thesis by (simp add: ft_handleMessage_def)
  qed
  moreover consider pw where "handleHashMessage E ?build ?c = HashLogin (login E ?build pw ?c)"
    | "handleHashMessage E ?build ?c = AskPassword ?c"
    unfolding handleHashMessage_def by metis
  ultimately show ?thesis by cases blast+
qed

lemma round_login_response:
  assumes "session_at sid a k w" "map_get (w_conns w) a = Some (FtC c)" "reads_ok c" "b_sessionId c = Some sid"
  shows "session_step sid a k w (ft_handleLoginResponse E now a r c w)"
proof (cases "opt_truthy (LoginResponse_error r)")
  case True
  then show ?thesis
    using assms step_end by (cases "LoginResponse_error r") (auto simp: ft_handleLoginResponse_def)
next
  case False
  have "session_step sid a k w (put_ft a (ft_handlePeerInfo now info c) w)" for info
    using step_put(1) [OF assms(1,2) ft_frame_handlePeerInfo] reads_ok_jobs [OF handlePeerInfo_jobs assms(3)] by blast
  with False assms(1) step_refl show ?thesis by (auto simp: ft_handleLoginResponse_def split: option.split)
qed

text \<open>Every round goes on, unless a \<open>Done\<close> of the peer never finishes.\<close>

lemma round_outcome:
  assumes "session_at sid a k w" "ft_at a w = Some c"
  shows "(\<exists>w1. ft_handleMessage E mo a msg c w = Goes w1 \<and> session_step sid a k w w1)
     \<or> (ft_handleMessage E mo a msg c w = Hangs \<and> is_done msg)"
proof -
  have c: "map_get (w_conns w) a = Some (FtC c)" "reads_ok c" "b_sessionId c = Some sid" "b_out c = []"
    by (rule session_at_conn [OF assms(1)]; use assms(2) in simp)+
  show ?thesis
  proof (cases "Message_hash msg = None \<and> Message_login_response msg = None")
    case True
    show ?thesis
    proof (cases "Message_file_response msg")
      case (Some fr)
      have hm: "ft_handleMessage E mo a msg c w = ft_round a (handleFileResponse E (mo_now mo) (mo_dialog mo) fr (c, w_disk w)) w"
        using True Some by (simp add: ft_handleMessage_def)
      show ?thesis
      proof (cases "handleFileResponse E (mo_now mo) (mo_dialog mo) fr (c, w_disk w)")
        case None
        then have "FileResponse_done fr \<noteq> None" by (auto simp: handleFileResponse_def split: option.splits)
        with Some None hm show ?thesis by (auto simp: ft_round_def is_done_def done_of_def)
      next
        case r: (Some s')
        have "ft_frame c (fst s')" "reads_ok (fst s')"
          using ft_frame_fileResponse [OF r] reads_ok_fileResponse [OF c(2) r] by blast+
        with step_put(1) [OF assms(1) c(1)] r hm show ?thesis
          by (auto simp: ft_round_def step_disk split: prod.split)
      qed
    next
      case None
      show ?thesis
      proof (cases "Message_file_action msg")
        case (Some fa)
        obtain c1 where c1: "handleFileAction (mo_clk mo) fa c = Some c1" "reads_ok c1"
          using fileAction_returns [OF c(2)] by blast
        with step_put(1) [OF assms(1) c(1) ft_frame_fileAction [OF c1(1)] c1(2)] True None Some show ?thesis
          by (auto simp: ft_handleMessage_def ft_round_def step_disk)
      next
        case na: None
        have "session_step sid a k w (put_ft a (ft_permission p c) w)" for p
          using c(2) by (intro step_put(1) [OF assms(1) c(1)]) (auto simp: ft_permission_def intro!: frame_intros)
        with True None na step_refl [OF assms(1)] show ?thesis
          by (auto simp: ft_handleMessage_def split: option.split)
      qed
    qed
  next
    case False
    with round_hash [OF assms(1) c(1,2), of msg] round_login_response [OF assms(1) c(1-3)] show ?thesis
      by (cases "Message_hash msg") (auto simp: ft_handleMessage_def)
  qed
qed

lemma step_disconnected:
  assumes "session_at sid a k w"
  shows "\<exists>n. k + n = 1 \<and> session_over sid a (ft_disconnected E a e w) \<and> reported_ends sid w (ft_disconnected E a e w) n"
proof -
  obtain c where c: "map_get (w_conns w) a = Some (FtC c)" "ft_at a w = Some c" "b_out c = []" "reads_ok c" "b_sessionId c = Some sid"
    using session_at_conn [OF assms] by metis
  show ?thesis
  proof (cases "ft_alive c")
    case True
    with assms c(1) have k: "k = 0" by (auto simp: session_at_def session_over_def)
    let ?c = "failActiveJobs ''Connection lost'' c"
    have f: "ft_frame c ?c" "reads_ok ?c"
      using job_errors_no_end by (auto simp: failActiveJobs_reports ft_frame_def reads_ok_def newFileJobManager_def)
    have "session_at sid a 0 (put_ft a ?c w)" using step_put(2) [OF assms c(1) f] k by simp
    then have "session_live sid a (put_ft a ?c w)" by (simp add: session_at_def)
    note e = end_live [OF this]
    have "ft_disconnected E a e w = endFileTransferSession E (Some sid)
        (Some (if formatErrorMessage e FT_DISCONNECT_FALLBACK \<noteq> '''' then ''Connection Error'' else ''File transfer''))
        (Some (formatErrorMessage e FT_DISCONNECT_FALLBACK)) (put_ft a ?c w)"
      using True c by (simp add: ft_disconnected_def Let_def)
    with e reported_ends_trans [OF put_ft_frame(3) [OF c(1,3) f(1)] e(2)] k show ?thesis by auto
  next
    case False
    then have "k = 1" "session_over sid a w" using assms c(1) by (auto simp: session_at_def session_live_def)
    with False c(2) reported_ends_refl show ?thesis by (auto simp: ft_disconnected_def)
  qed
qed

lemma msgLoop_step:
  assumes "session_at sid a k w"
  shows "case ft_msgLoop E a ms e w of
      Some w' \<Rightarrow> (\<exists>n. k + n = 1 \<and> session_over sid a w' \<and> reported_ends sid w w' n)
    | None \<Rightarrow> list_ex (\<lambda>p. is_done (snd p)) ms"
  using assms
proof (induction ms arbitrary: k w)
  case Nil
  then show ?case using step_disconnected by simp
next
  case (Cons p ms)
  obtain mo msg where p: "p = (mo, msg)" by (cases p)
  obtain c where c: "ft_at a w = Some c" using session_at_conn [OF Cons.prems] by metis
  consider w1 where "ft_handleMessage E mo a msg c w = Goes w1" "session_step sid a k w w1"
    | "ft_handleMessage E mo a msg c w = Hangs" "is_done msg"
    using round_outcome [OF Cons.prems c] by blast
  then show ?case
  proof cases
    case 1
    then obtain n where n: "session_at sid a (k + n) w1" "reported_ends sid w w1 n" by (auto simp: session_step_def)
    have "ft_msgLoop E a (p # ms) e w = ft_msgLoop E a ms e w1" using p c 1 by simp
    moreover have "\<exists>m. k + m = 1 \<and> session_over sid a w' \<and> reported_ends sid w w' m"
      if "k + n + m' = 1" "session_over sid a w'" "reported_ends sid w1 w' m'" for w' m'
      using that reported_ends_trans [OF n(2) that(3)] by (auto simp: add.assoc)
    ultimately show ?thesis
      using Cons.IH [OF n(1)] by (auto split: option.splits)
  next
    case 2
    then show ?thesis using p c by simp
  qed
qed

text \<open>
  C5: whatever messages the peer sends, the message loop of a file transfer session comes to its
  end when the channel does, the session is then unregistered and its end has been reported to
  the user exactly once, by whichever of the ways it ended: a login error, a missing password
  or the loss of the channel; no other session is touched.  The loop can only get stuck on a
  \<open>Done\<close> of the peer, whose save target never finishes.
\<close>

theorem session_ends_once:
  assumes "session_live sid a w"
  shows "case ft_msgLoop E a ms e w of
      Some w' \<Rightarrow> registry_ok w' \<and> map_get (w_sessions w') sid = None
        \<and> (\<forall>s. s \<noteq> sid \<longrightarrow> map_get (w_sessions w') s = map_get (w_sessions w) s)
        \<and> (\<exists>es. w_out w' = w_out w @ es \<and> length (filter (ended_event sid) es) = 1)
    | None \<Rightarrow> list_ex (\<lambda>p. is_done (snd p)) ms"
proof -
  have "session_at sid a 0 w" using assms by (simp add: session_at_def)
  from msgLoop_step [OF this, of ms E e] show ?thesis
    by (auto simp: session_over_def reported_ends_def split: option.splits)
qed

lemma sample_live: "session_live ''ft'' 3 sample_world"
  using sample_world_ok
  by (simp add: session_live_def sample_world_simps ft_alive_def sample_ft_def addJob_def createDownloadJob_def
      newFtConnection_def base.defs newBase_def reads_ok_def newFileJobManager_def Let_def)

text \<open>A peer that refuses the login.\<close>

definition refused :: Message where
  "refused = createBaseMessage\<lparr>Message_login_response :=
     Some (createBaseLoginResponse\<lparr>LoginResponse_error := Some ''Offline''\<rparr>)\<rparr>"

definition sample_moment :: moment where
  "sample_moment = \<lparr>mo_now = 5, mo_rnd = 9, mo_clk = int, mo_dialog = NoPicker\<rparr>"

theorem session_ends_once_witness:
  "\<exists>w'. ft_msgLoop plain_env 3 [(sample_moment, refused)] (UString ''Timeout'') sample_world = Some w'
     \<and> map_get (w_sessions w') ''ft'' = None \<and> map_get (w_sessions w') ''rd'' = Some 2
     \<and> length (filter (ended_event ''ft'') (w_out w')) = 1"
proof -
  have "done_of refused = None" by (simp add: refused_def done_of_def createBaseMessage_def)
  then show ?thesis
    using session_ends_once [OF sample_live, of "[(sample_moment, refused)]" plain_env "UString ''Timeout''"]
    by (auto simp: is_done_def sample_world_simps split: option.splits)
qed

end
