(* ===== verification/Bridge_Errors.thy ===== *)
theory Bridge_Errors
  imports Ft_Session Common_Helper
begin

text \<open>
  \<open>flutter/js/src/bridge/errors.js\<close> and \<open>flutter/js/src/bridge/conn_registry.js\<close>: the message
  boxes of the connections.  A box is shown by Flutter, or is fatal: then it is handed to the
  page that opened the viewer, and the session is closed.  \<open>parent\<close> tells whether there is
  such a page (\<open>getParentTarget\<close> with a known origin).
\<close>

section \<open>The current connection\<close>

definition connFor :: "string option \<Rightarrow> world \<Rightarrow> nat option" where
  "connFor sid w = (case getSession sid w of Some a \<Rightarrow> Some a | None \<Rightarrow> w_curConn w)"

definition setConn :: "nat option \<Rightarrow> world \<Rightarrow> world" where
  "setConn a w = w\<lparr>w_curConn := a\<rparr>"

definition getConn :: "world \<Rightarrow> nat option" where
  "getConn w = w_curConn w"

definition current_sessionId :: "world \<Rightarrow> string option" where
  "current_sessionId w = Option.bind (Option.bind (getConn w) (map_get (w_conns w))) conn_sessionId"

definition bridge_close :: "env \<Rightarrow> world \<Rightarrow> world" where
  "bridge_close E w =
     (if opt_truthy (current_sessionId w) then removeSession E (the (current_sessionId w)) w
      else setConn None (case getConn w of None \<Rightarrow> w | Some a \<Rightarrow> on_conn a (conn_close E) w))"

section \<open>Message boxes\<close>

definition notifyParentError :: "bool \<Rightarrow> string \<Rightarrow> string \<Rightarrow> string \<Rightarrow> emission list" where
  "notifyParentError parent title message msgboxType =
     (if \<not> parent then []
      else (let cleanTitle = formatErrorMessage (UString title) ''Error'';
                cleanMessage = formatErrorMessage (UString message) cleanTitle
            in [PostToParent [(''type'', JStr ''VIEWER_ERROR''), (''title'', JStr cleanTitle),
                  (''message'', JStr cleanMessage), (''msgboxType'', JStr msgboxType)]]))"

definition viewer_fatal :: emission where
  "viewer_fatal = GlobalEvent [(''name'', JStr ''viewer_fatal'')]"

definition current_is_ft :: "world \<Rightarrow> bool" where
  "current_is_ft w = isFileTransfer (Option.bind (getConn w) (map_get (w_conns w)))"

definition showFatalError :: "env \<Rightarrow> bool \<Rightarrow> string \<Rightarrow> string \<Rightarrow> string \<Rightarrow> world \<Rightarrow> world" where
  "showFatalError E parent title text msgboxType w =
     (if current_is_ft w \<and> hasOpenRemoteDesktopSession w
      then endFileTransferSession E (current_sessionId w) (Some title) (Some (str_or text title)) w
      else (let w1 = bridge_close E w
            in w1\<lparr>w_out := w_out w1 @ notifyParentError parent title (str_or text title) msgboxType
                     @ [viewer_fatal, CloseWindow]\<rparr>))"

definition PARENT_IGNORE_MSGBOX_TYPES :: "string list" where
  "PARENT_IGNORE_MSGBOX_TYPES = [''connecting'', ''success'']"

definition isParentHandledMsgbox :: "string \<Rightarrow> string \<Rightarrow> string \<Rightarrow> bool \<Rightarrow> bool" where
  "isParentHandledMsgbox typ title text retry =
     (if typ = '''' \<or> typ \<in> set PARENT_IGNORE_MSGBOX_TYPES then False
      else if typ = ''error'' then True
      else if typ \<in> {''re-input-password'', ''input-password'', ''input-2fa''} \<or> starts_with ''session-login'' typ
      then True
      else if typ \<in> {''relay-hint'', ''relay-hint2'', ''elevation-error'', ''wait-remote-accept-nook'', ''on-uac'',
                     ''on-foreground-elevated'', ''wait-uac'', ''restarting''} then True
      else if title = ''Privacy mode'' then True
      else if contains ''error'' typ then True
      else retry)"

definition msgbox :: "env \<Rightarrow> bool \<Rightarrow> string \<Rightarrow> string \<Rightarrow> string \<Rightarrow> string option \<Rightarrow> world \<Rightarrow> world" where
  "msgbox E parent typ title text link w =
     (if typ = '''' \<or> (typ = ''error'' \<and> text = '''') then w
      else (let retry = checkIfRetry typ title text False
            in if isParentHandledMsgbox typ title text retry
               then showFatalError E parent title (str_or text title) typ w
               else w\<lparr>w_out := w_out w
                        @ [GlobalEvent [(''name'', JStr ''msgbox''), (''type'', JStr typ), (''title'', JStr title),
                             (''text'', JStr text), (''link'', JStr (nullish link '''')),
                             (''hasRetry'', JStr (if retry then ''true'' else ''''))]]\<rparr>))"

text \<open>
  What a connection reports when it has run: a message box goes through \<open>msgbox\<close>, everything
  else to the log.  Every method that shows a fatal box does nothing more that depends on it.
\<close>

fun deliver :: "env \<Rightarrow> bool \<Rightarrow> emission list \<Rightarrow> world \<Rightarrow> world" where
  "deliver E parent [] w = w"
| "deliver E parent (MsgBox typ title text # es) w = deliver E parent es (msgbox E parent typ title text None w)"
| "deliver E parent (e # es) w = deliver E parent es (w\<lparr>w_out := w_out w @ [e]\<rparr>)"

definition rd_work :: "env \<Rightarrow> bool \<Rightarrow> nat \<Rightarrow> (rdconn \<Rightarrow> rdconn) \<Rightarrow> world \<Rightarrow> world" where
  "rd_work E parent a f w =
     (case map_get (w_conns w) a of
        Some (RdC c) \<Rightarrow>
          deliver E parent (b_out (f c)) (w\<lparr>w_conns := map_set a (RdC ((f c)\<lparr>b_out := []\<rparr>)) (w_conns w)\<rparr>)
      | _ \<Rightarrow> w)"

section \<open>Fatal boxes\<close>

lemma formatErrorMessage_string: "fallback \<noteq> '''' \<Longrightarrow> formatErrorMessage (UString s) fallback \<noteq> ''''"
  by simp

lemma current_registered:
  assumes "registry_ok w" "w_curConn w = Some a" "map_get (w_conns w) a = Some k" "conn_sessionId k = Some sid"
  shows "map_get (w_sessions w) sid = Some a"
proof -
  obtain s where s: "(s, a) \<in> set (w_sessions w)"
    using assms(1,2) by (auto simp: registry_ok_def current_ok_def)
  then have "map_get (w_sessions w) s = Some a" using assms(1) by (simp add: registry_ok_def map_values_get)
  with registry_ok_get [OF assms(1) this] assms(3,4) show ?thesis by simp
qed

lemma close_out: "conn_out k = [] \<Longrightarrow> conn_out (conn_close E k) = []"
  by (cases k) (auto simp: ft_close_def cancelAllJobs_sends rd_close_def Let_def baseClose_def)

lemma removeSession_out:
  assumes "map_get (w_sessions w) sid = Some a" "map_get (w_conns w) a = Some k" "conn_out k = []"
  shows "w_out (removeSession E sid w) = w_out w"
  using assms by (simp add: removeSession_def on_conn_def close_out)

text \<open>A box that is fatal.\<close>

definition fatal_box :: "string \<Rightarrow> string \<Rightarrow> string \<Rightarrow> bool" where
  "fatal_box typ title text \<longleftrightarrow> isParentHandledMsgbox typ title text (checkIfRetry typ title text False)
     \<and> (typ = ''error'' \<longrightarrow> text \<noteq> '''')"

lemma msgbox_fatal:
  "fatal_box typ title text \<Longrightarrow> msgbox E parent typ title text link w = showFatalError E parent title (str_or text title) typ w"
proof -
  assume f: "fatal_box typ title text"
  have "\<not> isParentHandledMsgbox '''' title text retry" for retry by (simp add: isParentHandledMsgbox_def)
  with f have "typ \<noteq> ''''" by (auto simp: fatal_box_def)
  with f have "\<not> (typ = '''' \<or> (typ = ''error'' \<and> text = ''''))" by (auto simp: fatal_box_def)
  then show ?thesis using f unfolding msgbox_def Let_def by (simp only: fatal_box_def if_not_P if_P simp_thms)
qed

text \<open>
  C15: a fatal message box closes the viewer: the current session is unregistered and its
  connection is dead, the page that opened the viewer gets exactly one error message, whose
  title and text are never empty, then Flutter is told to clean up and the window is closed;
  no other session is touched.
\<close>

theorem fatal_box_closes_viewer:
  assumes "registry_ok w" and "w_curConn w = Some a" and "map_get (w_conns w) a = Some k"
    and "conn_sessionId k = Some sid" and "sid \<noteq> ''''" and "conn_ok k" and "conn_out k = []"
    and "\<not> (current_is_ft w \<and> hasOpenRemoteDesktopSession w)" and "fatal_box typ title text"
  shows "let w' = msgbox E True typ title text link w in
      (\<forall>s. map_get (w_sessions w') s = (if s = sid then None else map_get (w_sessions w) s))
    \<and> (\<exists>k'. map_get (w_conns w') a = Some k' \<and> conn_dead E k')
    \<and> (\<exists>t m. t \<noteq> '''' \<and> m \<noteq> '''' \<and> w_out w' = w_out w
          @ [PostToParent [(''type'', JStr ''VIEWER_ERROR''), (''title'', JStr t), (''message'', JStr m),
               (''msgboxType'', JStr typ)], viewer_fatal, CloseWindow])"
proof -
  let ?w1 = "removeSession E sid w"
  have reg: "map_get (w_sessions w) sid = Some a" by (rule current_registered [OF assms(1-4)])
  have "bridge_close E w = ?w1"
    using assms(2-5) by (simp add: bridge_close_def current_sessionId_def getConn_def)
  then have w': "msgbox E True typ title text link w = ?w1\<lparr>w_out := w_out ?w1
      @ notifyParentError True title (str_or (str_or text title) title) typ @ [viewer_fatal, CloseWindow]\<rparr>"
    unfolding msgbox_fatal [OF assms(9)] showFatalError_def if_not_P [OF assms(8)] by (simp add: Let_def)
  obtain t m where "t \<noteq> ''''" "m \<noteq> ''''" "notifyParentError True title (str_or (str_or text title) title) typ
      = [PostToParent [(''type'', JStr ''VIEWER_ERROR''), (''title'', JStr t), (''message'', JStr m), (''msgboxType'', JStr typ)]]"
    using formatErrorMessage_string [of "''Error''" title]
      formatErrorMessage_string [of "formatErrorMessage (UString title) ''Error''" "str_or (str_or text title) title"]
    unfolding notifyParentError_def Let_def by (metis list.distinct(1))
  with remove_session_outcome [OF assms(1) reg assms(3,6), of E] removeSession_out [OF reg assms(3,7)] show ?thesis
    by (auto simp: w' Let_def)
qed

theorem fatal_box_closes_viewer_witness:
  "\<exists>t m. w_out (msgbox plain_env True ''error'' ''Login Error'' ''Offline'' None sample_world)
     = [PostToParent [(''type'', JStr ''VIEWER_ERROR''), (''title'', JStr t), (''message'', JStr m),
          (''msgboxType'', JStr ''error'')], viewer_fatal, CloseWindow]"
proof -
  let ?c = "sample_ft\<lparr>b_sessionId := Some ''ft''\<rparr>"
  have "fatal_box ''error'' ''Login Error'' ''Offline''"
    by (simp add: fatal_box_def isParentHandledMsgbox_def PARENT_IGNORE_MSGBOX_TYPES_def)
  moreover have "\<not> hasOpenRemoteDesktopSession sample_world"
    by (simp add: hasOpenRemoteDesktopSession_def sample_world_simps newRdConnection_def base.defs newBase_def)
  ultimately show ?thesis
    using fatal_box_closes_viewer [OF sample_world_ok, of 3 "FtC ?c" "''ft''" "''error''" "''Login Error''" "''Offline''" plain_env None]
    by (auto simp: sample_world_simps sample_ft_simps Let_def)
qed

text \<open>
  C16: while a remote desktop session is open and a file transfer is the current session, a fatal
  message box, whichever connection shows it, ends the file transfer and nothing else: every
  other session and every other connection stays as it is, and neither the parent page nor
  Flutter's fatal clean-up is invoked.
\<close>

theorem fatal_box_spares_desktop:
  assumes "registry_ok w" and "w_curConn w = Some a" and "map_get (w_conns w) a = Some (FtC c)"
    and "b_sessionId c = Some sid" and "sid \<noteq> ''''" and "ft_alive c" and "b_out c = []"
    and "hasOpenRemoteDesktopSession w" and "fatal_box typ title text"
  shows "let w' = msgbox E parent typ title text link w in
      (\<forall>s. map_get (w_sessions w') s = (if s = sid then None else map_get (w_sessions w) s))
    \<and> (\<forall>b. b \<noteq> a \<longrightarrow> map_get (w_conns w') b = map_get (w_conns w) b)
    \<and> w_out w' = w_out w @ job_errors ''Connection lost'' c
        @ [session_ended_event title (str_or text title) sid]"
proof -
  have reg: "map_get (w_sessions w) sid = Some a" by (rule current_registered [OF assms(1-3)]) (simp add: assms(4))
  have "current_is_ft w" "current_sessionId w = Some sid"
    using assms(2-4) by (simp_all add: current_is_ft_def current_sessionId_def getConn_def)
  then have w': "msgbox E parent typ title text link w
      = endFileTransferSession E (Some sid) (Some title) (Some (str_or text title)) w"
    using assms(8) unfolding msgbox_fatal [OF assms(9)] showFatalError_def by (simp add: str_or_def)
  have "ft_ok c" "\<not> ft_sessionEnded c" using assms(6) by (simp_all add: ft_ok_def ft_alive_def)
  from end_session_outcome [OF assms(1,5) reg assms(3) this assms(7), of E "Some title" "Some (str_or text title)"] show ?thesis
    by (simp add: w' Let_def)
qed

text \<open>The sample world with the remote desktop's socket open.\<close>

definition open_world :: world where
  "open_world = on_conn 2 (\<lambda>_. RdC (newRdConnection\<lparr>b_sessionId := Some ''rd'', b_ws := Some (on_open (newWebsock ''u'' False))\<rparr>))
     sample_world"

lemma open_world_simps:
  "w_sessions open_world = [(''rd'', 2), (''ft'', 3)]" "w_curConn open_world = Some 3" "w_out open_world = []"
  "map_get (w_conns open_world) 3 = Some (FtC (sample_ft\<lparr>b_sessionId := Some ''ft''\<rparr>))"
  "map_get (w_conns open_world) 2
     = Some (RdC (newRdConnection\<lparr>b_sessionId := Some ''rd'', b_ws := Some (on_open (newWebsock ''u'' False))\<rparr>))"
  by (simp_all add: open_world_def sample_world_simps on_conn_def map_get_set newRdConnection_def base.defs newBase_def)

theorem fatal_box_spares_desktop_witness:
  "w_out (msgbox plain_env True ''error'' ''Login Error'' ''Offline'' None open_world)
     = [job_error 7 0 ''Connection lost'' (Some ''ft''), session_ended_event ''Login Error'' ''Offline'' ''ft'']"
proof -
  let ?c = "sample_ft\<lparr>b_sessionId := Some ''ft''\<rparr>"
  have "registry_ok open_world" by (simp add: registry_ok_def current_ok_def open_world_simps map_ok_def)
  moreover have "fatal_box ''error'' ''Login Error'' ''Offline''"
    by (simp add: fatal_box_def isParentHandledMsgbox_def PARENT_IGNORE_MSGBOX_TYPES_def)
  moreover have "hasOpenRemoteDesktopSession open_world"
    by (simp add: hasOpenRemoteDesktopSession_def open_world_simps on_open_def)
  moreover have "ft_alive ?c" by (simp add: ft_alive_def sample_ft_def addJob_def newFtConnection_def base.defs)
  moreover have "job_errors ''Connection lost'' ?c = [job_error 7 0 ''Connection lost'' (Some ''ft'')]"
    by (simp add: job_errors_def sample_ft_def addJob_def createDownloadJob_def newFtConnection_def base.defs
        newFileJobManager_def newWriteJob_def Let_def)
  ultimately show ?thesis
    using fatal_box_spares_desktop [of open_world 3 ?c "''ft''" "''error''" "''Login Error''" "''Offline''" plain_env True None]
    by (simp add: open_world_simps sample_ft_simps Let_def)
qed

end
