(* ===== verification/Bridge.thy ===== *)
theory Bridge
  imports Bridge_Errors
begin

text \<open>
  The bridge that Flutter calls: \<open>flutter/js/src/bridge/session_handlers.js\<close>,
  \<open>connection_lifecycle.js\<close> and the handlers under \<open>bridge/handlers/\<close>.  Flutter passes JSON
  texts; a request here is such a text after \<open>JSON.parse\<close>, with the fields its handler reads.
  A request that fits the kind of the addressed session is carried out on its connection.
\<close>

section \<open>Sessions\<close>

record session_data =
  sd_session_id :: string
  sd_id :: string
  sd_isFileTransfer :: bool
  sd_conn_token :: "jval option"
  sd_password :: string

text \<open>The address of a new object.\<close>

definition fresh_addr :: "world \<Rightarrow> nat" where
  "fresh_addr w = Suc (fold max (map_keys (w_conns w)) 0)"

fun conn_setPlaintextPassword :: "string \<Rightarrow> conn \<Rightarrow> conn" where
  "conn_setPlaintextPassword pw (FtC c) = FtC (setPlaintextPassword pw c)"
| "conn_setPlaintextPassword pw (RdC c) = RdC (setPlaintextPassword pw c)"

definition token_given :: "jval option \<Rightarrow> bool" where
  "token_given t = (case t of None \<Rightarrow> False | Some v \<Rightarrow> truthy v)"

definition sessionAdd :: "session_data \<Rightarrow> world \<Rightarrow> string \<times> world" where
  "sessionAdd d w =
     (if sd_session_id d = '''' then (''missing session_id'', w)
      else (let a = fresh_addr w;
                k = (if sd_isFileTransfer d then FtC newFtConnection else RdC newRdConnection);
                w1 = addSession (sd_session_id d) a (w\<lparr>w_conns := map_set a k (w_conns w)\<rparr>)
            in ('''', if token_given (sd_conn_token d) then on_conn a (applyConnToken (sd_conn_token d)) w1
                      else if sd_password d \<noteq> '''' then on_conn a (conn_setPlaintextPassword (sd_password d)) w1
                      else w1)))"

text \<open>\<open>startConn\<close> up to the message loop of the connection.\<close>

definition startConn ::
    "env \<Rightarrow> bool \<Rightarrow> (string, peer_options) jsmap \<Rightarrow> established \<Rightarrow> string \<Rightarrow> string option \<Rightarrow> string option \<Rightarrow> world \<Rightarrow> world" where
  "startConn E parent peers conn peer password sid w =
     (let w1 = w\<lparr>w_out := w_out w @ [StoreItem ''remote-id'' peer]\<rparr>
      in case connFor sid w1 of
           None \<Rightarrow> w1
         | Some a \<Rightarrow>
             (case map_get (w_conns w1) a of
                Some (FtC c) \<Rightarrow> ft_start E peers conn (Some peer) password a w1
              | Some (RdC c) \<Rightarrow> rd_work E parent a (rd_start peers conn (Some peer) password) w1
              | None \<Rightarrow> w1))"

definition sessionStart ::
    "env \<Rightarrow> bool \<Rightarrow> (string, peer_options) jsmap \<Rightarrow> established \<Rightarrow> string \<Rightarrow> session_data \<Rightarrow> world \<Rightarrow> world" where
  "sessionStart E parent peers conn value d w =
     (case getSession (Some (sd_session_id d)) w of
        None \<Rightarrow> w
      | Some a \<Rightarrow>
          (let w1 = w\<lparr>w_curConn := Some a\<rparr>
           in if sd_id d \<noteq> ''''
              then startConn E parent peers conn (sd_id d) (if sd_password d = '''' then None else Some (sd_password d))
                     (Some (sd_session_id d)) w1
              else msgbox E parent ''error'' ''Error'' (''No id found in session data '' @ value) (Some '''') w1))"

definition sessionClose :: "env \<Rightarrow> string \<Rightarrow> world \<Rightarrow> world" where
  "sessionClose E sid w = (if sid \<noteq> '''' then removeSession E sid w else bridge_close E w)"

section \<open>Requests to a file transfer session\<close>

datatype ft_request =
    ReadRemoteDir string bool
  | SendFiles int string string int bool bool bool
  | ConfirmOverrideFile int int bool bool bool
  | RemoveFile int string int bool
  | ReadDirToRemoveRecursive int string bool bool
  | RemoveAllEmptyDirs int string bool
  | CancelJob int
  | CreateDir int string bool
  | RenameFile int string string bool
  | SelectFiles bool
  | SendLocalFiles int int string string int bool bool
  | SendFolderUpload int string bool
  | AddJob int string string int bool bool
  | ResumeJob int bool
  | ReadRemoteEmptyDirs string bool

text \<open>
  The handlers of \<open>set_ft.js\<close> on the connection \<open>c\<close> at address \<open>a\<close>; \<open>files\<close> are the files the
  user picks when asked.
\<close>

fun run_ft ::
    "env \<Rightarrow> moment \<Rightarrow> string comparator \<Rightarrow> jsfile list \<Rightarrow> ft_request \<Rightarrow> nat \<Rightarrow> ftconn \<Rightarrow> world \<Rightarrow> world option" where
  "run_ft E mo cmp files (ReadRemoteDir path hidden) a c w = Some (put_ft a (readRemoteDir path hidden c) w)"
| "run_ft E mo cmp files (SendFiles i path to n hidden isRemote isDir) a c w =
     Some (put_ft a (sendFiles (mo_now mo) i path to n hidden isRemote isDir c) w)"
| "run_ft E mo cmp files (ConfirmOverrideFile i n needOverride rem isUpload) a c w =
     Some (put_ft a (confirmOverrideFile E i n needOverride isUpload c) w)"
| "run_ft E mo cmp files (RemoveFile i path n isRemote) a c w = Some (put_ft a (removeFile E i path n isRemote c) w)"
| "run_ft E mo cmp files (ReadDirToRemoveRecursive i path isRemote showHidden) a c w =
     Some (put_ft a (readDirToRemoveRecursive E i path isRemote showHidden c) w)"
| "run_ft E mo cmp files (RemoveAllEmptyDirs i path isRemote) a c w =
     Some (put_ft a (removeAllEmptyDirs E i path isRemote c) w)"
| "run_ft E mo cmp files (CancelJob i) a c w = Some (put_ft a (cancelJob E i c) w)"
| "run_ft E mo cmp files (CreateDir i path isRemote) a c w = Some (put_ft a (createDir E i path isRemote c) w)"
| "run_ft E mo cmp files (RenameFile i path newName isRemote) a c w =
     Some (put_ft a (renameFile E i path newName isRemote c) w)"
| "run_ft E mo cmp files (SelectFiles isFolder) a c w = Some (selectFiles E a cmp files isFolder w)"
| "run_ft E mo cmp files (SendLocalFiles i handleIndex path to n hidden isRemote) a c w =
     Some (put_ft a (sendLocalFiles (w_picker w) (mo_now mo) i handleIndex path to n hidden isRemote c) w)"
| "run_ft E mo cmp files (SendFolderUpload i to hidden) a c w =
     (case sendFolderUpload (mo_now mo) i to hidden (c, w_picker w) of
        (c1, pk) \<Rightarrow> Some ((put_ft a c1 w)\<lparr>w_picker := pk\<rparr>))"
| "run_ft E mo cmp files (AddJob i path to n hidden isRemote) a c w =
     Some (put_ft a (addJob (mo_now mo) i path to n hidden isRemote c) w)"
| "run_ft E mo cmp files (ResumeJob i isRemote) a c w =
     map_option (\<lambda>(c1, dk). (put_ft a c1 w)\<lparr>w_disk := dk\<rparr>)
       (resumeJob E (mo_clk mo) (mo_dialog mo) i isRemote (c, w_disk w))"
| "run_ft E mo cmp files (ReadRemoteEmptyDirs path hidden) a c w = Some (put_ft a (readEmptyDirs E path hidden c) w)"

definition withFt ::
    "env \<Rightarrow> moment \<Rightarrow> string comparator \<Rightarrow> jsfile list \<Rightarrow> string option \<Rightarrow> ft_request \<Rightarrow> world \<Rightarrow> world option" where
  "withFt E mo cmp files sid req w =
     (case requireFileTransfer sid w of
        None \<Rightarrow> Some w
      | Some a \<Rightarrow> (case ft_at a w of None \<Rightarrow> Some w | Some c \<Rightarrow> run_ft E mo cmp files req a c w))"

section \<open>Requests to a remote desktop session\<close>

definition physicalButtonsMap :: "int \<Rightarrow> string" where
  "physicalButtonsMap hid =
     (if hid = 102 then ''Power'' else if hid = 128 then ''VolumeUp'' else if hid = 129 then ''VolumeDown'' else ''unknown'')"

text \<open>\<open>send_mouse\<close>: the kind of the event in the low three bits, the buttons above them.\<close>

definition mouse_kind :: "string \<Rightarrow> int" where
  "mouse_kind typ = (if typ = ''down'' then 1 else if typ = ''up'' then 2 else if typ = ''wheel'' then 3 else 0)"

definition mouse_buttons :: "string \<Rightarrow> int" where
  "mouse_buttons buttons =
     (if buttons = ''left'' then push_bit 3 1 else if buttons = ''right'' then push_bit 3 2
      else if buttons = ''wheel'' then push_bit 3 4 else 0)"

definition mouse_mask :: "string \<Rightarrow> string \<Rightarrow> int" where
  "mouse_mask typ buttons = or (mouse_kind typ) (mouse_buttons buttons)"

record key_data =
  kd_name :: string
  kd_usb_hid :: int
  kd_down :: bool
  kd_press :: bool
  kd_alt :: bool
  kd_ctrl :: bool
  kd_shift :: bool
  kd_command :: bool

definition dispatchRdInputKey :: "env \<Rightarrow> bool \<Rightarrow> bool \<Rightarrow> key_data \<Rightarrow> rdconn \<Rightarrow> rdconn" where
  "dispatchRdInputKey E isDesktop mapFlutterKey v c =
     (let name = (if mapFlutterKey \<and> kd_name v = ''flutter_key'' then physicalButtonsMap (kd_usb_hid v) else kd_name v)
      in inputKey E isDesktop name (kd_down v) (kd_press v) (kd_alt v) (kd_ctrl v) (kd_shift v) (kd_command v) c)"

datatype rd_request =
    Refresh
  | ToggleOption string
  | TogglePrivacyMode string
  | ImageQuality string
  | LockScreen
  | CtrlAltDel
  | SwitchDisplay int
  | InputKey key_data
  | FlutterKeyEvent key_data
  | InputString string
  | SendMouse string string int int bool bool bool bool
  | Send2fa string
  | ElevateWithLogon "ElevationRequestWithLogon option"
  | ChangePreferCodec

text \<open>The handlers of \<open>set_rd.js\<close> that act on the connection at once.\<close>

fun run_rd :: "env \<Rightarrow> int \<Rightarrow> bool \<Rightarrow> rd_request \<Rightarrow> rdconn \<Rightarrow> rdconn" where
  "run_rd E now isDesktop Refresh c = refresh E c"
| "run_rd E now isDesktop (ToggleOption name) c = toggleOption E now name c"
| "run_rd E now isDesktop (TogglePrivacyMode value) c = togglePrivacyMode E value c"
| "run_rd E now isDesktop (ImageQuality value) c = setImageQuality E now value c"
| "run_rd E now isDesktop LockScreen c = lockScreen E c"
| "run_rd E now isDesktop CtrlAltDel c = ctrlAltDel E c"
| "run_rd E now isDesktop (SwitchDisplay display) c = switchDisplay E display c"
| "run_rd E now isDesktop (InputKey v) c = dispatchRdInputKey E isDesktop False v c"
| "run_rd E now isDesktop (FlutterKeyEvent v) c = dispatchRdInputKey E isDesktop True v c"
| "run_rd E now isDesktop (InputString sq) c = inputString E sq c"
| "run_rd E now isDesktop (SendMouse typ buttons x y alt ctrl shift command) c =
     inputMouse E (mouse_mask typ buttons) x y alt ctrl shift command c"
| "run_rd E now isDesktop (Send2fa value) c = send2fa E value c"
| "run_rd E now isDesktop (ElevateWithLogon logon) c = elevateWithLogon E logon c"
| "run_rd E now isDesktop ChangePreferCodec c = changePreferCodec E c"

definition withRd :: "env \<Rightarrow> bool \<Rightarrow> int \<Rightarrow> bool \<Rightarrow> string option \<Rightarrow> rd_request \<Rightarrow> world \<Rightarrow> world" where
  "withRd E parent now isDesktop sid req w =
     (case requireRemoteDesktop sid w of
        None \<Rightarrow> w
      | Some a \<Rightarrow> rd_work E parent a (run_rd E now isDesktop req) w)"

section \<open>Login and status\<close>

text \<open>The \<open>login\<close> handler: \<open>os_username\<close> is not supported and ends it early.\<close>

definition ft_login :: "env \<Rightarrow> int \<Rightarrow> bool \<Rightarrow> string \<Rightarrow> string \<Rightarrow> ftconn \<Rightarrow> unknown + ftconn" where
  "ft_login E rnd rem os_username password c =
     (let c1 = ft_setRemember rem c
      in if os_username \<noteq> '''' then Inr c1 else login E (ft_buildLoginRequest rnd) (Some password) c1)"

definition rd_login :: "env \<Rightarrow> int \<Rightarrow> int \<Rightarrow> bool \<Rightarrow> string \<Rightarrow> string \<Rightarrow> rdconn \<Rightarrow> unknown + rdconn" where
  "rd_login E now rnd rem os_username password c =
     (let c1 = rd_setRemember now rem c
      in if os_username \<noteq> '''' then Inr c1 else login E (rd_buildLoginRequest rnd) (Some password) c1)"

fun conn_status :: "conn \<Rightarrow> int" where
  "conn_status (FtC c) = (if ws_is_open c then 1 else 0)"
| "conn_status (RdC c) = (if ws_is_open c then 1 else 0)"

definition get_conn_status :: "world \<Rightarrow> jval" where
  "get_conn_status w =
     (let statusNum = fold (\<lambda>sid n. case Option.bind (getSession (Some sid) w) (map_get (w_conns w)) of
                              None \<Rightarrow> n | Some k \<Rightarrow> max n (conn_status k)) (allSessionIds w) 0
      in JJson (JObj [(''status_num'', JInt statusNum), (''video_conn_count'', JInt 0)]))"

section \<open>Adding sessions\<close>

lemma fold_max_le: "x \<in> set xs \<or> x \<le> (m :: nat) \<Longrightarrow> x \<le> fold max xs m"
proof (induction xs arbitrary: m)
  case (Cons a xs)
  have "x \<in> set xs \<or> x \<le> max a m" using Cons.prems by auto
  then show ?case using Cons.IH [of "max a m"] by simp
qed simp

lemma fresh_addr_new: "map_get (w_conns w) (fresh_addr w) = None"
proof (rule ccontr)
  assume "map_get (w_conns w) (fresh_addr w) \<noteq> None"
  then have "fresh_addr w \<in> set (map_keys (w_conns w))" by (force dest: map_of_SomeD)
  then have "fresh_addr w \<le> fold max (map_keys (w_conns w)) 0" using fold_max_le by blast
  then show False by (simp add: fresh_addr_def)
qed

lemma fresh_addr_unregistered: "registry_ok w \<Longrightarrow> fresh_addr w \<notin> set (map_values (w_sessions w))"
  using fresh_addr_new [of w] by (fastforce simp: registry_ok_def list_all_iff)

lemma apply_token_sessionId [simp]: "b_sessionId (apply_token t c) = b_sessionId c"
proof -
  have "b_sessionId (apply_password v c) = b_sessionId c" for v and c :: "'a base_scheme" by (cases v) simp_all
  moreover have "b_sessionId (apply_source v c) = b_sessionId c" for v and c :: "'a base_scheme" by (cases v) simp_all
  moreover have "b_sessionId (apply_session v c) = b_sessionId c" for v and c :: "'a base_scheme" by (cases v) simp_all
  ultimately show ?thesis by (simp add: apply_token_def)
qed

lemma applyConnToken_sessionId: "conn_sessionId (applyConnToken t k) = conn_sessionId k"
  by (cases k) (simp_all add: applyConnToken_def split: option.split)

fun same_kind :: "conn \<Rightarrow> conn \<Rightarrow> bool" where
  "same_kind (FtC _) (FtC _) = True"
| "same_kind (RdC _) (RdC _) = True"
| "same_kind _ _ = False"

lemma same_kind_setup: "same_kind (applyConnToken t k) k" "same_kind (conn_setPlaintextPassword pw k) k"
  "same_kind (conn_quiet k) k" "same_kind (set_sessionId sid k) k"
  by (cases k; simp add: applyConnToken_def split: option.split)+

lemma same_kind_trans: "same_kind x y \<Longrightarrow> same_kind y z \<Longrightarrow> same_kind x z"
  by (cases x; cases y; cases z) simp_all

text \<open>An operation on one connection that keeps its kind and its session id.\<close>

definition changes_only :: "nat \<Rightarrow> world \<Rightarrow> world \<Rightarrow> bool" where
  "changes_only a w w' \<longleftrightarrow> w_sessions w' = w_sessions w \<and> w_curConn w' = w_curConn w
     \<and> (\<forall>b. b \<noteq> a \<longrightarrow> map_get (w_conns w') b = map_get (w_conns w) b)
     \<and> (\<forall>k. map_get (w_conns w) a = Some k \<longrightarrow>
          (\<exists>k'. map_get (w_conns w') a = Some k' \<and> same_kind k' k \<and> conn_sessionId k' = conn_sessionId k))"

lemma same_kind_refl [simp]: "same_kind k k"
  by (cases k) simp_all

lemma changes_only_refl: "changes_only a w w"
  by (simp add: changes_only_def)

lemma changes_only_on_conn:
  assumes "\<And>k. map_get (w_conns w) a = Some k \<Longrightarrow> same_kind (f k) k \<and> conn_sessionId (f k) = conn_sessionId k"
  shows "changes_only a w (on_conn a f w)"
  using assms same_kind_setup(3) same_kind_trans by (fastforce simp: changes_only_def on_conn_get)

lemma changes_only_ok:
  assumes "changes_only a w w'" "registry_ok w"
  shows "registry_ok w'"
proof -
  have "map_option conn_sessionId (map_get (w_conns w') b) = Some (Some s)"
    if "map_option conn_sessionId (map_get (w_conns w) b) = Some (Some s)" for b s
    using that assms(1) by (cases "b = a") (fastforce simp: changes_only_def)+
  with assms show ?thesis
    by (auto simp: registry_ok_def current_ok_def changes_only_def list_all_iff cong: option.case_cong)
qed

text \<open>
  C19: adding a session registers a new connection of the wanted kind under the id and makes it
  the current one; requests of its kind for that id reach it and requests of the other kind
  reach nothing; no connection that existed before changes and no other id changes its session.
  Without an id nothing happens and the caller is told so.
\<close>

theorem session_add_registers:
  assumes "registry_ok w"
  shows "let (r, w') = sessionAdd d w; a = fresh_addr w; sid = sd_session_id d in
     if sid = '''' then r = ''missing session_id'' \<and> w' = w
     else r = '''' \<and> registry_ok w' \<and> w_curConn w' = Some a \<and> getSession (Some sid) w' = Some a
       \<and> requireFileTransfer (Some sid) w' = (if sd_isFileTransfer d then Some a else None)
       \<and> requireRemoteDesktop (Some sid) w' = (if sd_isFileTransfer d then None else Some a)
       \<and> (\<forall>b k. map_get (w_conns w) b = Some k \<longrightarrow> map_get (w_conns w') b = Some k)
       \<and> (\<forall>s. s \<noteq> sid \<longrightarrow> map_get (w_sessions w') s = map_get (w_sessions w) s)"
proof (cases "sd_session_id d = ''''")
  case False
  let ?a = "fresh_addr w" and ?sid = "sd_session_id d"
  let ?k = "if sd_isFileTransfer d then FtC newFtConnection else RdC newRdConnection"
  let ?w0 = "w\<lparr>w_conns := map_set ?a ?k (w_conns w)\<rparr>"
  let ?w1 = "addSession ?sid ?a ?w0"
  obtain w' where w': "sessionAdd d w = ('''', w')" "changes_only ?a ?w1 w'"
  proof -
    have "changes_only ?a ?w1 (on_conn ?a (applyConnToken t) ?w1)" for t
      using same_kind_setup by (intro changes_only_on_conn) (simp add: applyConnToken_sessionId)
    moreover have "conn_sessionId (conn_setPlaintextPassword pw k) = conn_sessionId k" for pw k
      by (cases k) (simp_all add: setPlaintextPassword_def)
    then have "changes_only ?a ?w1 (on_conn ?a (conn_setPlaintextPassword pw) ?w1)" for pw
      using same_kind_setup by (intro changes_only_on_conn) simp
    ultimately show thesis using False changes_only_refl that by (auto simp: sessionAdd_def Let_def)
  qed
  have ok0: "registry_ok ?w0" by (rule registry_step_ok [OF rs_create assms]) (simp add: fresh_addr_new)
  have "registry_ok ?w1"
    using fresh_addr_unregistered [OF assms] by (intro addSession_ok [OF ok0, of ?a ?k]) (simp_all add: map_get_set)
  with w'(2) have ok: "registry_ok w'" by (rule changes_only_ok)
  have k1: "map_get (w_conns ?w1) ?a = Some (conn_quiet (set_sessionId ?sid ?k))"
    by (simp add: addSession_def on_conn_get map_get_set)
  then obtain k' where k': "map_get (w_conns w') ?a = Some k'" "same_kind k' (conn_quiet (set_sessionId ?sid ?k))"
    using w'(2) by (auto simp: changes_only_def)
  have s: "w_sessions w' = map_set ?sid ?a (w_sessions w)" "w_curConn w' = Some ?a"
    using w'(2) by (simp_all add: changes_only_def addSession_def)
  have g: "getSession (Some ?sid) w' = Some ?a" using s(1) False by (simp add: getSession_def map_has_def map_get_set)
  have kinds: "isFileTransfer (Some k') = sd_isFileTransfer d" "isRemoteDesktop (Some k') = (\<not> sd_isFileTransfer d)"
    using k'(2) by (cases k'; simp split: if_splits)+
  have "map_get (w_conns w') b = Some k" if "map_get (w_conns w) b = Some k" for b k
  proof -
    have "b \<noteq> ?a" using that fresh_addr_new [of w] by auto
    with that w'(2) show ?thesis by (simp add: changes_only_def addSession_def on_conn_get map_get_set)
  qed
  then show ?thesis
    using False w'(1) ok g k'(1) kinds s
    by (simp add: Let_def requireFileTransfer_def requireRemoteDesktop_def map_get_set)
qed (simp add: sessionAdd_def)

theorem session_add_registers_witness:
  "requireFileTransfer (Some ''x'') (snd (sessionAdd \<lparr>sd_session_id = ''x'', sd_id = '''', sd_isFileTransfer = True,
      sd_conn_token = None, sd_password = ''pw''\<rparr> sample_world)) = Some (fresh_addr sample_world)"
  using session_add_registers [OF sample_world_ok, of "\<lparr>sd_session_id = ''x'', sd_id = '''', sd_isFileTransfer = True,
      sd_conn_token = None, sd_password = ''pw''\<rparr>"]
  by (simp add: Let_def split: prod.splits)

section \<open>Sessions do not disturb each other\<close>

lemma ft_at_conn: "ft_at a w = Some c \<longleftrightarrow> map_get (w_conns w) a = Some (FtC c)"
  by (auto simp: ft_at_def split: option.splits conn.splits)

lemma changes_only_put:
  "ft_at a w = Some c \<Longrightarrow> b_sessionId c' = b_sessionId c \<Longrightarrow> changes_only a w (put_ft a c' w)"
  unfolding put_ft_def by (rule changes_only_on_conn) (auto simp: ft_at_conn)

lemma changes_only_other [simp]:
  "changes_only a w (w'\<lparr>w_disk := dk\<rparr>) = changes_only a w w'" "changes_only a w (w'\<lparr>w_picker := pk\<rparr>) = changes_only a w w'"
  "changes_only a w (w'\<lparr>w_out := es\<rparr>) = changes_only a w w'"
  by (simp_all add: changes_only_def)

lemma requests_keep_sessionId [simp]:
  "b_sessionId (queueMessage m c) = b_sessionId c" "b_sessionId (sendMessage E m c) = b_sessionId c"
  "b_sessionId (pushJobError i n err fc) = b_sessionId fc" "b_sessionId (pushJobDone i n fc) = b_sessionId fc"
  "b_sessionId (put_read i rj fc) = b_sessionId fc" "b_sessionId (drop_job i fc) = b_sessionId fc"
  "b_sessionId (put_write i wj fc) = b_sessionId fc"
  by (simp_all add: queueMessage_def sendMessage_def pushJobError_def pushJobDone_def put_read_def drop_job_def put_write_def)

lemma continue_queue_sessionId [simp]: "b_sessionId (continue_queue now c) = b_sessionId c"
  by (simp add: continue_queue_def split: list.split prod.split)

lemma sendFiles_sessionId [simp]: "b_sessionId (sendFiles now i path to n hidden isRemote isDir c) = b_sessionId c"
  by (simp add: sendFiles_def processDownloadQueue_def Let_def split: option.split prod.split)

lemma sendConfirm_sessionId [simp]: "b_sessionId (sendConfirm E i n skip blk c) = b_sessionId c"
  by (simp add: sendConfirm_def Let_def split: option.split)

lemma ensureTarget_sessionId: "ensureDownloadSaveTarget bh i (c, dk) = (ok, c', dk') \<Longrightarrow> b_sessionId c' = b_sessionId c"
  by (auto simp: ensureDownloadSaveTarget_def Let_def split: option.splits if_splits prod.splits pick_result.splits)

lemma resumeJob_sessionId:
  "resumeJob E clk bh i isRemote (c, dk) = Some (c', dk') \<Longrightarrow> b_sessionId c' = b_sessionId c"
  using ft_frame_pump [of clk i _ c']
  by (auto simp: resumeJob_def resumeRemoteDownload_def ft_frame_def split: if_splits option.splits prod.splits
      dest!: ensureTarget_sessionId)

lemma resumeJob_returns: "reads_ok c \<Longrightarrow> \<exists>c' dk'. resumeJob E clk bh i isRemote (c, dk) = Some (c', dk')"
proof -
  assume ok: "reads_ok c"
  have "\<exists>c'. pumpUploadBlocks clk i (put_read i (job\<lparr>rj_active := True\<rparr>) c) = Some c'"
    if "map_get (read_jobs c) i = Some job" for job
    using pump_returns [OF reads_ok_put [OF ok, of "job\<lparr>rj_active := True\<rparr>" i]] reads_ok_get [OF ok that] by fastforce
  then show ?thesis by (fastforce simp: resumeJob_def split: option.split)
qed

text \<open>Every request but the selection of files works on the connection alone.\<close>

lemma run_ft_changes_only:
  assumes "ft_at a w = Some c" "reads_ok c" "\<And>f. req \<noteq> SelectFiles f"
  shows "\<exists>w'. run_ft E mo cmp files req a c w = Some w' \<and> changes_only a w w'"
proof -
  note put = changes_only_put [OF assms(1)]
  show ?thesis
  proof (cases req)
    case (ResumeJob i isRemote)
    obtain c' dk' where r: "resumeJob E (mo_clk mo) (mo_dialog mo) i isRemote (c, w_disk w) = Some (c', dk')"
      using resumeJob_returns [OF assms(2)] by blast
    with put [OF resumeJob_sessionId [OF r]] ResumeJob show ?thesis by simp
  next
    case (SendFolderUpload i to hidden)
    have "b_sessionId (fst (sendFolderUpload (mo_now mo) i to hidden (c, w_picker w))) = b_sessionId c"
      by (auto simp: sendFolderUpload_def queueDigestForCurrentFile_def Let_def split: option.split prod.split)
    with put SendFolderUpload show ?thesis by (auto split: prod.split)
  next
    case (SendLocalFiles i handleIndex path to n hidden isRemote)
    then show ?thesis using put by (auto simp: sendLocalFiles_def split: option.split)
  next
    case (AddJob i path to n hidden isRemote)
    then show ?thesis using put by (auto simp: addJob_def split: option.split)
  next
    case (ConfirmOverrideFile i n needOverride rem isUpload)
    then show ?thesis using put by (auto simp: confirmOverrideFile_def Let_def split: option.split)
  qed (use put assms(3) in \<open>simp_all add: readRemoteDir_def removeFile_def readDirToRemoveRecursive_def
      removeAllEmptyDirs_def cancelJob_def createDir_def renameFile_def readEmptyDirs_def\<close>)
qed

text \<open>A session may at most end itself.\<close>

definition ends_at_most :: "nat \<Rightarrow> world \<Rightarrow> world \<Rightarrow> bool" where
  "ends_at_most a w w' \<longleftrightarrow> registry_ok w'
     \<and> (\<forall>b. b \<noteq> a \<longrightarrow> map_get (w_conns w') b = map_get (w_conns w) b)
     \<and> (\<forall>s. map_get (w_sessions w) s \<noteq> Some a \<longrightarrow> map_get (w_sessions w') s = map_get (w_sessions w) s)"

lemma changes_only_ends: "changes_only a w w' \<Longrightarrow> registry_ok w \<Longrightarrow> ends_at_most a w w'"
  using changes_only_ok by (fastforce simp: ends_at_most_def changes_only_def)

lemma endFileTransfer_ends:
  assumes "registry_ok w" "map_get (w_sessions w) sid = Some a"
  shows "ends_at_most a w (endFileTransferSession E (Some sid) t m w)"
proof -
  let ?w' = "endFileTransferSession E (Some sid) t m w"
  have "map_get (w_conns ?w') b = map_get (w_conns w) b" if "b \<noteq> a" for b
    using assms(2) that by (simp add: endFileTransferSession_def Let_def on_conn_get split: option.split conn.split)
  moreover have "map_get (w_sessions ?w') s = map_get (w_sessions w) s" if "map_get (w_sessions w) s \<noteq> Some a" for s
    using assms(2) that by (auto simp: endFileTransferSession_def Let_def map_get_delete split: option.split conn.split)
  ultimately show ?thesis using endFileTransferSession_ok [OF assms(1)] by (simp add: ends_at_most_def)
qed

lemma selectFiles_ends:
  assumes "registry_ok w" "map_get (w_sessions w) sid = Some a" "ft_at a w = Some c"
  shows "ends_at_most a w (selectFiles E a cmp files isFolder w)"
proof -
  let ?w1 = "w\<lparr>w_picker := pickFiles files (w_picker w)\<rparr>"
  have sid: "b_sessionId c = Some sid" using registry_ok_get [OF assms(1,2)] assms(3) by (simp add: ft_at_conn)
  have quiet: "ends_at_most a w (?w1\<lparr>w_picker := pk, w_out := es\<rparr>)" "ends_at_most a w (?w1\<lparr>w_out := es\<rparr>)"
      "ends_at_most a w ?w1" for pk es
    by (intro changes_only_ends; use assms(1) in \<open>simp add: changes_only_refl\<close>)+
  have "ends_at_most a ?w1 (ft_msgbox E a ''error'' ''Error'' ''No files found in selected folder'' ?w1)"
  proof -
    have "registry_ok ?w1" using assms(1) by (simp add: registry_ok_def current_ok_def cong: option.case_cong)
    moreover have "ft_sid a ?w1 = Some sid" using assms(3) sid by (simp add: ft_sid_def ft_at_def)
    ultimately show ?thesis using endFileTransfer_ends [of ?w1 sid a] assms(2) by (simp add: ft_msgbox_def)
  qed
  then have "ends_at_most a w (ft_msgbox E a ''error'' ''Error'' ''No files found in selected folder'' ?w1)"
    by (simp add: ends_at_most_def)
  with quiet assms(3) show ?thesis
    by (auto simp: selectFiles_def Let_def split: option.split prod.split)
qed



section \<open>Mouse events\<close>

text \<open>
  The mask of a mouse event keeps its kind and its buttons apart: the peer reads the kind
  from the low three bits and the buttons from the bits above, and the mask fits in six bits.
\<close>

lemma mouse_mask_separates:
  "and (mouse_mask typ buttons) 7 = mouse_kind typ \<and> push_bit 3 (drop_bit 3 (mouse_mask typ buttons)) = mouse_buttons buttons
     \<and> 0 \<le> mouse_mask typ buttons \<and> mouse_mask typ buttons < 64"
  by (simp add: mouse_mask_def mouse_kind_def mouse_buttons_def)

end
