(* ===== verification/Peer_Store.thy ===== *)
theory Peer_Store
  imports Session_Base "HOL-Library.Char_ord" "HOL-Library.List_Lexorder" "HOL-Library.Multiset"
begin

text \<open>
  What the viewer keeps in \<open>localStorage\<close> about peers and options:
  \<open>flutter/js/src/helpers/storage.js\<close>, \<open>peer_store.js\<close>, \<open>options.js\<close> and \<open>peers.js\<close>, and the
  storage handlers of \<open>bridge/handlers/set_common.js\<close> and \<open>get_storage.js\<close>.  The items that hold
  JSON (\<open>peers\<close>, \<open>user-default-options\<close>, \<open>fav\<close>) are represented by the parsed value, all others
  by their text; names inherited from \<open>Object.prototype\<close> are not used as keys.
\<close>

section \<open>The store\<close>

text \<open>An item that should hold JSON: missing, not parsable, or the parsed value.\<close>

datatype 'a stored_json = NoItem | BadText | Stored 'a

record store =
  ls_items :: storage
  ls_peers :: "(string, peer_options) jsmap stored_json"
  ls_userDefaults :: "(string, jval) jsmap stored_json"
  ls_fav :: "string list stored_json"

text \<open>\<open>getJsonObj\<close>: a missing or broken item is the empty object.\<close>

definition getJsonObj :: "('k, 'v) jsmap stored_json \<Rightarrow> ('k, 'v) jsmap" where
  "getJsonObj item = (case item of Stored m \<Rightarrow> m | _ \<Rightarrow> [])"

text \<open>\<open>JSON.parse(localStorage.getItem(key)) || {}\<close> outside a handler for the parse error.\<close>

definition parse_item :: "'a \<Rightarrow> 'a stored_json \<Rightarrow> unknown + 'a" where
  "parse_item d item =
     (case item of NoItem \<Rightarrow> Inr d | BadText \<Rightarrow> Inl (UError ''SyntaxError'' ''JSON'') | Stored m \<Rightarrow> Inr m)"

definition getPeers :: "store \<Rightarrow> (string, peer_options) jsmap" where
  "getPeers st = getJsonObj (ls_peers st)"

text \<open>
  \<open>writePeers\<close>: printing the object as JSON drops the fields that are undefined.
\<close>

definition json_fields :: "peer_options \<Rightarrow> peer_options" where
  "json_fields opts = filter (\<lambda>p. snd p \<noteq> JUndefined) opts"

definition writePeers :: "(string, peer_options) jsmap \<Rightarrow> store \<Rightarrow> store" where
  "writePeers peers st = st\<lparr>ls_peers := Stored (map (\<lambda>(k, v). (k, json_fields v)) peers)\<rparr>"

definition savePeerOptions :: "int \<Rightarrow> string \<Rightarrow> peer_options \<Rightarrow> store \<Rightarrow> peer_options \<times> store" where
  "savePeerOptions now peerId options st =
     (let options1 = map_set ''tm'' (JInt now) options
      in (options1, writePeers (map_set peerId options1 (getPeers st)) st))"

definition removePeer :: "string \<Rightarrow> store \<Rightarrow> store" where
  "removePeer peerId st = writePeers (map_delete peerId (getPeers st)) st"

definition peerExists :: "string \<Rightarrow> store \<Rightarrow> bool" where
  "peerExists peerId st = map_has (getPeers st) peerId"

definition peerHasPassword :: "string \<Rightarrow> store \<Rightarrow> bool" where
  "peerHasPassword peerId st =
     (let pw = obj_get (loadPeerOptions (getPeers st) peerId) ''password''
      in (if pw = JUndefined \<or> pw = JNull then JStr '''' else pw) \<noteq> JStr '''')"

definition setPeerField :: "int \<Rightarrow> string \<Rightarrow> string \<Rightarrow> jval \<Rightarrow> store \<Rightarrow> peer_options \<times> store" where
  "setPeerField now peerId name value st =
     (let options = loadPeerOptions (getPeers st) peerId;
          options1 = (if value = JUndefined \<or> value = JNull then map_delete name options
                      else map_set name value options)
      in savePeerOptions now peerId options1 st)"

section \<open>Options\<close>

definition setUserDefaultOption :: "string \<Rightarrow> jval \<Rightarrow> store \<Rightarrow> store" where
  "setUserDefaultOption name value st =
     (case parse_item [] (ls_userDefaults st) of
        Inl e \<Rightarrow> st
      | Inr m \<Rightarrow> st\<lparr>ls_userDefaults := Stored (json_fields (map_set name value m))\<rparr>)"

definition defaultOptions :: "(string, jval) jsmap" where
  "defaultOptions =
     [(''view_style'', JStr ''original''), (''scroll_style'', JStr ''scrollauto''), (''image_quality'', JStr ''balanced''),
      (''codec-preference'', JStr ''auto''), (''custom_image_quality'', JStr ''50''), (''custom-fps'', JStr ''30'')]"

text \<open>\<open>a || b\<close> of values.\<close>

definition jor :: "jval \<Rightarrow> jval \<Rightarrow> jval" where
  "jor a b = (if truthy a then a else b)"

definition getUserDefaultOption :: "store \<Rightarrow> string \<Rightarrow> jval" where
  "getUserDefaultOption st name =
     (let configValue = getEffectiveOption (ls_items st) name
      in if configValue \<noteq> '''' then JStr configValue
         else case parse_item [] (ls_userDefaults st) of
                Inr m \<Rightarrow> jor (obj_get m name) (jor (obj_get defaultOptions name) (JStr ''''))
              | Inl e \<Rightarrow> jor (obj_get defaultOptions name) (JStr ''''))"

definition getPeerOption :: "store \<Rightarrow> string \<Rightarrow> string \<Rightarrow> jval" where
  "getPeerOption st peerId name =
     (let v = obj_get (loadPeerOptions (getPeers st) peerId) name
      in if v = JUndefined \<or> v = JNull then getUserDefaultOption st name else v)"

definition setPeerOption :: "int \<Rightarrow> string \<Rightarrow> string \<Rightarrow> jval \<Rightarrow> store \<Rightarrow> store" where
  "setPeerOption now peerId name value st = snd (setPeerField now peerId name value st)"

section \<open>Recent and favourite peers\<close>

text \<open>\<open>v[name]\<close>: a \<open>TypeError\<close> when \<open>v\<close> is null or undefined.\<close>

fun prop_of :: "jval \<Rightarrow> string \<Rightarrow> unknown + jval" where
  "prop_of JUndefined name = Inl (UError ''TypeError'' ''Cannot read properties of undefined'')"
| "prop_of JNull name = Inl (UError ''TypeError'' ''Cannot read properties of null'')"
| "prop_of (JObj fs) name = Inr (obj_get fs name)"
| "prop_of v name = Inr JUndefined"

record peer_card =
  pc_id :: string
  pc_username :: jval
  pc_hostname :: jval
  pc_platform :: jval
  pc_alias :: jval

definition cardInfo :: "string \<Rightarrow> peer_options \<Rightarrow> unknown + peer_card" where
  "cardInfo i value =
     (let info = obj_get value ''info''
      in case prop_of info ''username'' of
           Inl e \<Rightarrow> Inl e
         | Inr username \<Rightarrow>
             (case prop_of info ''hostname'' of
                Inl e \<Rightarrow> Inl e
              | Inr hostname \<Rightarrow>
                  (case prop_of info ''platform'' of
                     Inl e \<Rightarrow> Inl e
                   | Inr platform \<Rightarrow>
                       Inr \<lparr>pc_id = i, pc_username = jor username (JStr ''''), pc_hostname = jor hostname (JStr ''''),
                            pc_platform = jor platform (JStr ''''), pc_alias = jor (obj_get value ''alias'') (JStr '''')\<rparr>)))"

text \<open>
  The time stamp: only \<open>savePeerOptions\<close> writes it, as the whole number of \<open>getTime()\<close>.  A
  missing one is \<open>0\<close> here, as falsy as \<open>undefined\<close>.
\<close>

definition peer_tm :: "peer_options \<Rightarrow> int" where
  "peer_tm value = (case obj_get value ''tm'' of JNum n \<Rightarrow> \<lfloor>n\<rfloor> | _ \<Rightarrow> 0)"

fun recent_entries :: "(string, peer_options) jsmap \<Rightarrow> unknown + (int \<times> string \<times> peer_card) list" where
  "recent_entries [] = Inr []"
| "recent_entries ((i, value) # ps) =
     (if i = '''' then recent_entries ps
      else case cardInfo i value of
             Inl e \<Rightarrow> Inl e
           | Inr pc \<Rightarrow>
               (case recent_entries ps of
                  Inl e \<Rightarrow> Inl e
                | Inr xs \<Rightarrow> Inr (if peer_tm value = 0 then xs else (peer_tm value, i, pc) # xs)))"

text \<open>Without a comparison function \<open>sort()\<close> compares the texts of the triples.\<close>

definition entry_text :: "int \<times> string \<times> peer_card \<Rightarrow> string" where
  "entry_text x = js_int_string (fst x) @ '','' @ fst (snd x) @ '',[object Object]''"

definition getRecentPeers :: "(string, peer_options) jsmap \<Rightarrow> unknown + peer_card list" where
  "getRecentPeers peers =
     (case recent_entries peers of
        Inl e \<Rightarrow> Inl e
      | Inr xs \<Rightarrow> Inr (map (\<lambda>x. snd (snd x)) (rev (sort_key entry_text xs))))"

text \<open>
  The events carry a list of cards.  \<open>loadFavPeers\<close> logs an exception and sends nothing.
\<close>

definition loadRecentPeers :: "store \<Rightarrow> unknown + string \<times> peer_card list" where
  "loadRecentPeers st =
     (case getRecentPeers (getPeers st) of Inl e \<Rightarrow> Inl e | Inr cards \<Rightarrow> Inr (''load_recent_peers'', cards))"

definition loadFavPeers :: "store \<Rightarrow> (string \<times> peer_card list) option" where
  "loadFavPeers st =
     (case parse_item [] (ls_fav st) of
        Inl e \<Rightarrow> None
      | Inr favs \<Rightarrow>
          (case getRecentPeers (getPeers st) of
             Inl e \<Rightarrow> None
           | Inr cards \<Rightarrow> Some (''load_fav_peers'', filter (\<lambda>x. pc_id x \<in> set favs) cards)))"

section \<open>Storage handlers\<close>

text \<open>The three name spaces of options kept by Flutter.\<close>

datatype option_space = LocalOption | FlutterLocal | FlutterPeer

fun space_name :: "option_space \<Rightarrow> string" where
  "space_name LocalOption = ''option:local''"
| "space_name FlutterLocal = ''option:flutter:local''"
| "space_name FlutterPeer = ''option:flutter:peer''"

definition space_key :: "option_space \<Rightarrow> string \<Rightarrow> string" where
  "space_key sp name = space_name sp @ '':'' @ name"

definition setItem :: "string \<Rightarrow> string \<Rightarrow> store \<Rightarrow> store" where
  "setItem key value st = st\<lparr>ls_items := map_set key value (ls_items st)\<rparr>"

definition getItem :: "store \<Rightarrow> string \<Rightarrow> string option" where
  "getItem st key = map_get (ls_items st) key"

datatype set_request =
    RemoteId string
  | SetOption string string
  | SetOptions "(string \<times> string) list"
  | SetSpace option_space string string
  | SetUserDefault string jval
  | SetPeer string string jval
  | RemovePeer string
  | SetFav "string list stored_json"

fun run_set :: "int \<Rightarrow> set_request \<Rightarrow> store \<Rightarrow> store" where
  "run_set now (RemoteId value) st = setItem ''remote-id'' value st"
| "run_set now (SetOption name value) st = setItem name value st"
| "run_set now (SetOptions kvs) st = fold (\<lambda>(k, v). setItem k v) kvs st"
| "run_set now (SetSpace sp name value) st = setItem (space_key sp name) value st"
| "run_set now (SetUserDefault name value) st = setUserDefaultOption name value st"
| "run_set now (SetPeer peerId name value) st = setPeerOption now peerId name value st"
| "run_set now (RemovePeer peerId) st = removePeer peerId st"
| "run_set now (SetFav fav) st = st\<lparr>ls_fav := fav\<rparr>"

datatype get_request =
    AppName | GetRemoteId
  | GetOption string
  | GetOptions
  | GetSpace option_space string
  | GetUserDefault string
  | GetPeer string string
  | PeerExists string
  | PeerHasPassword string
  | IsUsingPublicServer

definition opt_item :: "string option \<Rightarrow> jval" where
  "opt_item v = (case v of None \<Rightarrow> JNull | Some s \<Rightarrow> JStr s)"

fun run_get :: "store \<Rightarrow> get_request \<Rightarrow> jval" where
  "run_get st AppName = JStr (nullish (getItem st ''app-name'') '''')"
| "run_get st GetRemoteId = opt_item (getItem st ''remote-id'')"
| "run_get st (GetOption name) = opt_item (getItem st name)"
| "run_get st GetOptions =
     JJson (JObj (map (\<lambda>k. (k, JStr (getEffectiveOption (ls_items st) k)))
       (filter (\<lambda>k. getEffectiveOption (ls_items st) k \<noteq> '''')
          [''custom-rendezvous-server'', ''relay-server'', ''api-server'', ''key''])))"
| "run_get st (GetSpace sp name) = opt_item (getItem st (space_key sp name))"
| "run_get st (GetUserDefault name) = getUserDefaultOption st name"
| "run_get st (GetPeer peerId name) = getPeerOption st peerId name"
| "run_get st (PeerExists peerId) = JBool (peerExists peerId st)"
| "run_get st (PeerHasPassword peerId) = JBool (peerHasPassword peerId st)"
| "run_get st IsUsingPublicServer = JBool (getEffectiveOption (ls_items st) ''custom-rendezvous-server'' = '''')"

text \<open>\<open>window.getByName\<close> gives Flutter a text: strings as they are, null as empty, the rest as JSON.\<close>

fun getByName_text :: "jval \<Rightarrow> jval" where
  "getByName_text (JStr s) = JStr s"
| "getByName_text (JJson v) = JJson v"
| "getByName_text (JNumStr n) = JNumStr n"
| "getByName_text JUndefined = JStr ''''"
| "getByName_text JNull = JStr ''''"
| "getByName_text v = JJson v"

section \<open>Reading back what was stored\<close>

lemma map_get_filter_None: "k \<notin> fst ` set m \<Longrightarrow> map_get (filter P m) k = None"
  by (auto simp: map_of_eq_None_iff)

lemma map_get_json_fields:
  "map_ok opts \<Longrightarrow> map_get (json_fields opts) k = (if map_get opts k = Some JUndefined then None else map_get opts k)"
  unfolding json_fields_def map_ok_def
  by (induction opts) (auto simp: map_get_filter_None)

lemma map_get_map_snd: "map_get (map (\<lambda>(k, v). (k, f v)) m) k = map_option f (map_get m k)"
  by (induction m) auto

definition store_ok :: "store \<Rightarrow> bool" where
  "store_ok st \<longleftrightarrow> map_ok (getPeers st) \<and> (\<forall>p \<in> set (getPeers st). map_ok (snd p))"

lemma map_ok_json_fields [inv_intros]: "map_ok opts \<Longrightarrow> map_ok (json_fields opts)"
  by (simp add: map_ok_def json_fields_def distinct_map_filter)

lemma getPeers_write [simp]: "getPeers (writePeers peers st) = map (\<lambda>(k, v). (k, json_fields v)) peers"
  by (simp add: getPeers_def writePeers_def getJsonObj_def)

lemma map_ok_nil [simp]: "map_ok []"
  by (simp add: map_ok_def)

lemma loaded_ok: "store_ok st \<Longrightarrow> map_ok (loadPeerOptions (getPeers st) peerId)"
  by (auto simp: store_ok_def loadPeerOptions_def nullish_def dest!: map_of_SomeD split: option.splits)

lemma write_store_ok: "map_ok peers \<Longrightarrow> \<forall>p \<in> set peers. map_ok (snd p) \<Longrightarrow> store_ok (writePeers peers st)"
  unfolding store_ok_def getPeers_write
  by (auto simp: comp_def case_prod_unfold map_ok_def [of peers] map_ok_def [of "map _ peers"] intro: map_ok_json_fields)

lemma save_store_ok: "store_ok st \<Longrightarrow> map_ok options \<Longrightarrow> store_ok (snd (savePeerOptions now peerId options st))"
  unfolding savePeerOptions_def Let_def snd_conv
  by (rule write_store_ok) (auto simp: store_ok_def set_map_set intro: inv_intros)

lemma remove_store_ok: "store_ok st \<Longrightarrow> store_ok (removePeer peerId st)"
  unfolding removePeer_def
  by (rule write_store_ok) (auto simp: store_ok_def set_map_delete intro: inv_intros)

lemma setItem_peers [simp]: "getPeers (setItem k v st) = getPeers st"
  by (simp add: setItem_def getPeers_def)

lemma setItems_peers [simp]: "getPeers (fold (\<lambda>(k, v). setItem k v) kvs st) = getPeers st"
  by (induction kvs arbitrary: st) auto

lemma store_ok_peers: "getPeers st' = getPeers st \<Longrightarrow> store_ok st' = store_ok st"
  by (simp add: store_ok_def)

lemma setUserDefault_peers [simp]: "getPeers (setUserDefaultOption name value st) = getPeers st"
  by (simp add: setUserDefaultOption_def getPeers_def split: sum.splits)

lemma setPeerField_ok: "store_ok st \<Longrightarrow> store_ok (snd (setPeerField now peerId name value st))"
  unfolding setPeerField_def Let_def
  by (rule save_store_ok) (auto intro!: inv_intros loaded_ok)

lemma run_set_ok: "store_ok st \<Longrightarrow> store_ok (run_set now req st)"
proof (cases req)
  case (SetFav fav)
  then show "store_ok st \<Longrightarrow> ?thesis" by (simp add: store_ok_def getPeers_def)
qed (simp_all add: setPeerOption_def setPeerField_ok remove_store_ok store_ok_def [of "setItem _ _ _"]
      store_ok_def [of "fold _ _ _"] store_ok_def [of "setUserDefaultOption _ _ _"], simp_all add: store_ok_def)

lemma saved_field:
  assumes "store_ok st" and "map_ok options"
  shows "map_get (getPeers (snd (savePeerOptions now peerId options st))) p' =
    (if p' = peerId then Some (json_fields (map_set ''tm'' (JInt now) options)) else map_option json_fields (map_get (getPeers st) p'))"
  by (simp add: savePeerOptions_def Let_def map_get_map_snd map_get_set)

lemma obj_get_json_fields: "map_ok opts \<Longrightarrow> obj_get (json_fields opts) k = obj_get opts k"
  by (simp add: obj_get_def map_get_json_fields)

lemma loaded_after_save:
  assumes "store_ok st" and "map_ok options" and "p' \<noteq> ''''"
  shows "obj_get (loadPeerOptions (getPeers (snd (savePeerOptions now peerId options st))) p') k =
    (if p' = peerId then (if k = ''tm'' then JInt now else obj_get options k)
     else obj_get (loadPeerOptions (getPeers st) p') k)"
proof -
  have "map_ok v" if "map_get (getPeers st) p' = Some v" for v
    using that assms(1) by (auto simp: store_ok_def dest!: map_of_SomeD)
  moreover have "map_ok (map_set ''tm'' (JInt now) options)"
    using assms(2) by (rule inv_intros)
  ultimately show ?thesis
    using assms(3) by (simp add: loadPeerOptions_def saved_field [OF assms(1,2)] obj_get_json_fields nullish_def split: option.split)
      (simp add: obj_get_def map_get_set)
qed

lemma setPeerField_load:
  assumes "store_ok st" and "peerId \<noteq> ''''" and "p' \<noteq> ''''"
  shows "obj_get (loadPeerOptions (getPeers (snd (setPeerField now peerId name value st))) p') k =
    (if p' = peerId then
       (if k = ''tm'' then JInt now
        else if k = name then (if value = JNull then JUndefined else value)
        else obj_get (loadPeerOptions (getPeers st) p') k)
     else obj_get (loadPeerOptions (getPeers st) p') k)"
  unfolding setPeerField_def Let_def
  using assms(2,3)
  by (subst loaded_after_save [OF assms(1)])
    (auto intro!: inv_intros loaded_ok assms(1) simp: obj_get_def map_get_set map_get_delete split: option.splits)

lemma setPeerField_defaults [simp]:
  "getUserDefaultOption (snd (setPeerField now peerId name value st)) n = getUserDefaultOption st n"
  by (simp add: setPeerField_def savePeerOptions_def writePeers_def getUserDefaultOption_def Let_def)

text \<open>
  An option set for a peer is read back as it was set, and one that is cleared falls back to
  the user's default; no other option of the peer but its time stamp changes, and no option of
  any other peer.
\<close>

theorem peer_option_readback:
  assumes "store_ok st" and "peerId \<noteq> ''''" and "name \<noteq> ''tm''"
  shows "let st' = setPeerOption now peerId name value st in
      getPeerOption st' peerId name = (if value = JUndefined \<or> value = JNull then getUserDefaultOption st name else value)
    \<and> (\<forall>n. n \<noteq> name \<longrightarrow> n \<noteq> ''tm'' \<longrightarrow> getPeerOption st' peerId n = getPeerOption st peerId n)
    \<and> (\<forall>q n. q \<noteq> peerId \<longrightarrow> getPeerOption st' q n = getPeerOption st q n)
    \<and> peerExists peerId st' \<and> store_ok st'"
proof -
  have "getPeerOption (snd (setPeerField now peerId name value st)) q n = getPeerOption st q n" if "q \<noteq> peerId" for q n
    using that by (cases "q = ''''") (simp_all add: getPeerOption_def setPeerField_load [OF assms(1,2)] Let_def,
      simp add: loadPeerOptions_def)
  moreover have "peerExists peerId (snd (setPeerField now peerId name value st))"
    by (simp add: peerExists_def map_has_def setPeerField_def saved_field assms inv_intros loaded_ok Let_def)
  ultimately show ?thesis
    using assms setPeerField_ok [OF assms(1), of now peerId name "value"]
    by (simp add: setPeerOption_def getPeerOption_def setPeerField_load Let_def)
qed

theorem peer_option_readback_witness:
  "let st = \<lparr>ls_items = [], ls_peers = NoItem, ls_userDefaults = NoItem, ls_fav = NoItem\<rparr>;
       st' = setPeerOption 5 ''123'' ''view_style'' (JStr ''adaptive'') st
   in getPeerOption st' ''123'' ''view_style'' = JStr ''adaptive''
      \<and> getPeerOption st' ''456'' ''view_style'' = getPeerOption st ''456'' ''view_style''"
  using peer_option_readback [of "\<lparr>ls_items = [], ls_peers = NoItem, ls_userDefaults = NoItem, ls_fav = NoItem\<rparr>"
      "''123''" "''view_style''" 5 "JStr ''adaptive''"]
  by (simp add: Let_def store_ok_def getPeers_def getJsonObj_def)

text \<open>The name spaces of the options that Flutter keeps do not interfere.\<close>

lemma space_key_inject: "space_key sp name = space_key sp' name' \<longleftrightarrow> sp = sp' \<and> name = name'"
  by (cases sp; cases sp') (auto simp: space_key_def)

lemma space_readback:
  "run_get (run_set now (SetSpace sp name value) st) (GetSpace sp' name') =
     (if sp' = sp \<and> name' = name then JStr value else run_get st (GetSpace sp' name'))"
  by (auto simp: getItem_def setItem_def map_get_set opt_item_def space_key_inject)

section \<open>The order of the recent peers\<close>

lemma append_less_append:
  fixes u v :: string
  assumes "length u = length v"
  shows "u @ x < v @ y \<longleftrightarrow> u < v \<or> u = v \<and> x < y"
  using assms by (induction u v rule: list_induct2) auto

lemma digit_less: "m < 10 \<Longrightarrow> k < 10 \<Longrightarrow> digit m < digit k \<longleftrightarrow> m < k"
  by (simp add: less_char_def of_char_digit)


text \<open>Texts of numbers with equally many digits are ordered as the numbers.\<close>

lemma digits_less:
  "length (digits a) = length (digits b) \<Longrightarrow> digits a < digits b \<longleftrightarrow> a < b"
proof (induction a arbitrary: b rule: digits.induct)
  case (1 a)
  show ?case
  proof (cases "a < 10 \<or> b < 10")
    case True
    have "length (digits (n div 10)) \<noteq> 0" for n by simp
    with True 1(2) have "a < 10 \<and> b < 10"
      by (subst (asm) (1 2) digits.simps) (auto split: if_splits)
    then show ?thesis by (subst (1 2) digits.simps) (auto simp: digit_less)
  next
    case False
    then have eqs: "digits a = digits (a div 10) @ [digit (a mod 10)]" "digits b = digits (b div 10) @ [digit (b mod 10)]"
      by (auto simp: digits.simps [of a] digits.simps [of b])
    with 1(2) have len: "length (digits (a div 10)) = length (digits (b div 10))" by simp
    have "digits (a div 10) = digits (b div 10) \<longleftrightarrow> a div 10 = b div 10"
      by (metis digits_value_digits)
    then have "digits a < digits b \<longleftrightarrow> a div 10 < b div 10 \<or> a div 10 = b div 10 \<and> a mod 10 < b mod 10"
      using 1(1) [OF _ len] False by (simp add: eqs append_less_append [OF len] digit_less)
    also have "\<dots> \<longleftrightarrow> a < b"
      by (smt (verit) div_le_mono div_mult_mod_eq linorder_not_less nat_add_left_cancel_less order_le_less)
    finally show ?thesis .
  qed
qed

lemma length_digits:
  "10 ^ k \<le> n \<Longrightarrow> n < 10 ^ Suc k \<Longrightarrow> length (digits n) = Suc k"
proof (induction k arbitrary: n)
  case 0
  then show ?case by (subst digits.simps) simp
next
  case (Suc k)
  have "10 \<le> n" using Suc.prems(1) by (simp add: order_trans [OF _ Suc.prems(1)])
  moreover have "10 ^ k \<le> n div 10" "n div 10 < 10 ^ Suc k"
    using Suc.prems by (simp_all add: less_mult_imp_div_less less_eq_div_iff_mult_less_eq)
  ultimately show ?case
    by (subst digits.simps) (simp add: Suc.IH)
qed

text \<open>The time stamps of \<open>getTime()\<close> between the years 2001 and 2286 have thirteen digits.\<close>

definition millis :: "int \<Rightarrow> bool" where
  "millis t \<longleftrightarrow> 10 ^ 12 \<le> t \<and> t < 10 ^ 13"

lemma entry_text_less:
  assumes "millis (fst x)" and "millis (fst y)" and "fst x < fst y"
  shows "entry_text x < entry_text y"
proof -
  have "length (digits (nat (fst z))) = 13" if "millis (fst z)" for z :: "int \<times> string \<times> peer_card"
    using length_digits [of 12 "nat (fst z)"] that by (simp add: millis_def le_nat_iff nat_less_iff)
  then have "digits (nat (fst x)) < digits (nat (fst y))" and "length (digits (nat (fst x))) = length (digits (nat (fst y)))"
    using assms digits_less [of "nat (fst x)" "nat (fst y)"] by (auto simp: millis_def)
  moreover have "js_int_string (fst z) = digits (nat (fst z))" if "millis (fst z)" for z :: "int \<times> string \<times> peer_card"
    using that by (simp add: millis_def js_int_string_def)
  ultimately show ?thesis
    using assms by (simp add: entry_text_def append_less_append)
qed

definition has_info :: "peer_options \<Rightarrow> bool" where
  "has_info v \<longleftrightarrow> obj_get v ''info'' \<noteq> JUndefined \<and> obj_get v ''info'' \<noteq> JNull"

lemma prop_of_Inl_iff: "isl (prop_of v n) \<longleftrightarrow> v = JUndefined \<or> v = JNull"
  by (cases v) simp_all

lemma cardInfo_outcome:
  "if has_info v then \<exists>pc. cardInfo i v = Inr pc \<and> pc_id pc = i else \<exists>e. cardInfo i v = Inl e"
  using prop_of_Inl_iff [of "obj_get v ''info''"]
  by (auto simp: cardInfo_def has_info_def Let_def isl_def split: sum.splits)

definition recent :: "string \<times> peer_options \<Rightarrow> bool" where
  "recent p \<longleftrightarrow> fst p \<noteq> '''' \<and> peer_tm (snd p) \<noteq> 0"

lemma recent_entries_outcome:
  "if \<forall>p \<in> set peers. fst p \<noteq> '''' \<longrightarrow> has_info (snd p)
   then recent_entries peers = Inr (map (\<lambda>(i, v). (peer_tm v, i, projr (cardInfo i v))) (filter recent peers))
   else \<exists>e. recent_entries peers = Inl e"
proof (induction peers)
  case (Cons p peers)
  obtain i v where p: "p = (i, v)" by (cases p)
  show ?case
    using Cons cardInfo_outcome [of v i] by (auto simp: p recent_def split: if_splits)
qed simp

lemma sort_newest_first:
  assumes "\<forall>x \<in> set xs. millis (fst x)"
  shows "sorted_wrt (\<lambda>x y. fst y \<le> fst x) (rev (sort_key entry_text xs))"
proof -
  have "sorted_wrt (\<lambda>x y. entry_text y \<le> entry_text x) (rev (sort_key entry_text xs))"
    using sorted_sort_key [of entry_text xs] by (simp add: sorted_wrt_rev sorted_map)
  moreover have "fst y \<le> fst x" if "x \<in> set xs" "y \<in> set xs" "entry_text y \<le> entry_text x" for x y
    using entry_text_less [of x y] that assms by (meson leD leI)
  ultimately show ?thesis
    by (elim sorted_wrt_mono_rel [rotated]) simp
qed

text \<open>
  C36: the list of recent peers shows every stored peer that has a name and a time stamp, exactly
  once and the most recently used first; it fails exactly when a stored peer lacks the
  information its card shows, and then nothing is listed at all.
\<close>

theorem recent_peers_newest_first:
  assumes "map_ok peers" and "\<forall>p \<in> set peers. peer_tm (snd p) = 0 \<or> millis (peer_tm (snd p))"
  shows "case getRecentPeers peers of
      Inl e \<Rightarrow> \<exists>p \<in> set peers. fst p \<noteq> '''' \<and> \<not> has_info (snd p)
    | Inr cards \<Rightarrow> (\<forall>p \<in> set peers. fst p \<noteq> '''' \<longrightarrow> has_info (snd p))
        \<and> mset (map pc_id cards) = mset (map fst (filter recent peers))
        \<and> sorted_wrt (\<lambda>x y. peer_tm (loadPeerOptions peers (pc_id y)) \<le> peer_tm (loadPeerOptions peers (pc_id x))) cards"
proof (cases "\<forall>p \<in> set peers. fst p \<noteq> '''' \<longrightarrow> has_info (snd p)")
  case False
  then obtain e where "recent_entries peers = Inl e" using recent_entries_outcome [of peers] by metis
  with False show ?thesis by (simp add: getRecentPeers_def)
next
  case True
  define xs where "xs = map (\<lambda>(i, v). (peer_tm v, i, projr (cardInfo i v))) (filter recent peers)"
  have cards: "getRecentPeers peers = Inr (map (\<lambda>x. snd (snd x)) (rev (sort_key entry_text xs)))"
    using recent_entries_outcome [of peers] True by (simp add: getRecentPeers_def xs_def)
  have ids: "pc_id (snd (snd x)) = fst (snd x) \<and> peer_tm (loadPeerOptions peers (fst (snd x))) = fst x \<and> millis (fst x)" if "x \<in> set xs" for x
  proof -
    obtain i v where iv: "(i, v) \<in> set peers" "recent (i, v)" "x = (peer_tm v, i, projr (cardInfo i v))"
      using \<open>x \<in> set xs\<close> by (auto simp: xs_def)
    then have "map_get peers i = Some v" using assms(1) by (simp add: map_values_get)
    moreover have "pc_id (projr (cardInfo i v)) = i"
      using cardInfo_outcome [of v i] True iv by (fastforce simp: recent_def)
    moreover have "millis (peer_tm v)"
      using bspec [OF assms(2) iv(1)] iv(2) by (simp add: recent_def)
    ultimately show ?thesis
      using iv(2) by (simp add: iv(3) loadPeerOptions_def recent_def)
  qed
  have "mset (map (\<lambda>x. pc_id (snd (snd x))) (rev (sort_key entry_text xs))) = mset (map (\<lambda>x. fst (snd x)) xs)"
    by (simp, rule image_mset_cong) (simp add: ids)
  also have "map (\<lambda>x. fst (snd x)) xs = map fst (filter recent peers)"
    by (simp add: xs_def comp_def case_prod_unfold)
  finally have "mset (map pc_id (map (\<lambda>x. snd (snd x)) (rev (sort_key entry_text xs)))) = mset (map fst (filter recent peers))"
    by (simp add: comp_def)
  moreover have "sorted_wrt (\<lambda>x y. peer_tm (loadPeerOptions peers (pc_id (snd (snd y)))) \<le> peer_tm (loadPeerOptions peers (pc_id (snd (snd x)))))
      (rev (sort_key entry_text xs))"
    by (rule sorted_wrt_mono_rel [OF _ sort_newest_first]) (use ids in auto)
  ultimately show ?thesis
    using True by (simp add: cards sorted_wrt_map)
qed

theorem recent_peers_newest_first_witness:
  "let peer = (\<lambda>t. [(''tm'', JInt t), (''info'', JObj [(''username'', JStr ''u'')])]);
       peers = [(''11'', peer 1700000000000), (''22'', peer 1700000000001), (''33'', [(''info'', JObj [])])]
   in map_sum id (map pc_id) (getRecentPeers peers) = Inr [''22'', ''11'']
      \<and> (\<forall>p \<in> set peers. fst p \<noteq> '''' \<longrightarrow> has_info (snd p))"
proof -
  define peer where "peer = (\<lambda>t. [(''tm'', JInt t), (''info'', JObj [(''username'', JStr ''u'')])])"
  define peers where "peers = [(''11'', peer 1700000000000), (''22'', peer 1700000000001), (''33'', [(''info'', JObj [])])]"
  have tm: "peer_tm (peer t) = t" for t by (simp add: peer_def peer_tm_def obj_get_def)
  have tm0: "peer_tm [(''info'', JObj [])] = 0" by (simp add: peer_tm_def obj_get_def)
  have info: "\<forall>p \<in> set peers. fst p \<noteq> '''' \<longrightarrow> has_info (snd p)"
    by (simp add: peers_def peer_def has_info_def obj_get_def)
  then obtain cards where cards: "getRecentPeers peers = Inr cards"
    using recent_entries_outcome [of peers] by (auto simp: getRecentPeers_def)
  have hyps: "map_ok peers" "\<forall>p \<in> set peers. peer_tm (snd p) = 0 \<or> millis (peer_tm (snd p))"
    by (simp_all add: peers_def tm tm0 millis_def map_ok_def)
  have "map fst (filter recent peers) = [''11'', ''22'']"
    by (simp add: peers_def recent_def tm tm0)
  then have m: "mset (map pc_id cards) = {#''11'', ''22''#}"
    and s: "sorted_wrt (\<lambda>x y. peer_tm (loadPeerOptions peers (pc_id y)) \<le> peer_tm (loadPeerOptions peers (pc_id x))) cards"
    using recent_peers_newest_first [OF hyps] by (simp_all add: cards)
  have "length cards = 2" using arg_cong [OF m, of size] by simp
  then obtain a b where ab: "cards = [a, b]" by (auto simp: length_Suc_conv numeral_2_eq_2)
  have "{#pc_id a, pc_id b#} = {#''11'', ''22''#}" using m by (simp add: ab)
  then have "pc_id a = ''11'' \<and> pc_id b = ''22'' \<or> pc_id a = ''22'' \<and> pc_id b = ''11''"
    by (auto simp: add_eq_conv_ex)
  then have "map pc_id cards = [''22'', ''11'']"
    using s by (auto simp: ab peers_def loadPeerOptions_def tm)
  then show ?thesis
    unfolding Let_def peer_def [symmetric] peers_def [symmetric] using info by (simp add: cards)
qed

end
