(* ===== verification/Server_Config.thy ===== *)
theory Server_Config
  imports Config_Helper Common_Helper Js_Text "HOL-Library.Product_Lexorder"
begin

text \<open>
  \<open>flutter/js/src/helpers/server_config.js\<close> and \<open>version.js\<close>: the addresses of the API and audit
  servers, derived from the settings, the codecs the browser offers, and version numbers.
  Numbers are exact, as they are in JavaScript below \<open>2 ^ 53\<close>.
\<close>

section \<open>Numbers and separators in texts\<close>

definition is_hex :: "char \<Rightarrow> bool" where
  "is_hex c \<longleftrightarrow> is_digit c \<or> (let n = of_char c :: nat in (65 \<le> n \<and> n \<le> 70) \<or> (97 \<le> n \<and> n \<le> 102))"

definition hex_digit :: "char \<Rightarrow> nat" where
  "hex_digit c = (let n = of_char c in if is_digit c then n - 48 else if n \<le> 70 then n - 55 else n - 87)"

definition hex_value :: "string \<Rightarrow> nat" where
  "hex_value s = foldl (\<lambda>n c. 16 * n + hex_digit c) 0 s"

text \<open>\<open>parseInt(s)\<close>, with \<open>None\<close> for \<open>NaN\<close>.\<close>

definition parseInt :: "string \<Rightarrow> int option" where
  "parseInt s =
     (let s1 = dropWhile is_ws s;
          neg = (s1 \<noteq> [] \<and> hd s1 = CHR ''-'');
          s2 = (if s1 \<noteq> [] \<and> hd s1 \<in> {CHR ''-'', CHR ''+''} then tl s1 else s1);
          hex = (prefix ''0x'' s2 \<or> prefix ''0X'' s2);
          ds = (if hex then takeWhile is_hex (drop 2 s2) else takeWhile is_digit s2);
          n = int (if hex then hex_value ds else digits_value ds)
      in if ds = [] then None else Some (if neg then - n else n))"

text \<open>\<open>s.split(sep)\<close> for a text \<open>sep\<close>.\<close>

fun split_str :: "string \<Rightarrow> string \<Rightarrow> string list" where
  "split_str sep [] = [[]]"
| "split_str sep (c # s) =
     (if sep \<noteq> [] \<and> prefix sep (c # s) then [] # split_str sep (drop (length sep - 1) s)
      else (case split_str sep s of [] \<Rightarrow> [[c]] | w # ws \<Rightarrow> (c # w) # ws))"

section \<open>Server addresses\<close>

definition PORT :: int where
  "PORT = 21116"

text \<open>The pattern \<open>^([0-9a-fA-F]{0,4}:){1,7}[0-9a-fA-F]{0,4}$\<close>.\<close>

definition isIPv6 :: "string \<Rightarrow> bool" where
  "isIPv6 s =
     (let ps = split_on (\<lambda>c. c = CHR '':'') s
      in 2 \<le> length ps \<and> length ps \<le> 8 \<and> list_all (\<lambda>p. length p \<le> 4 \<and> list_all is_hex p) ps)"

definition increasePort :: "string \<Rightarrow> int \<Rightarrow> string" where
  "increasePort host offset =
     (if isIPv6 host then
        (if starts_with ''['' host then
           (case split_str '']:'' host of
              [a, b] \<Rightarrow>
                (let port = nullish (parseInt b) 0
                 in if 0 < port then a @ '']:'' @ js_int_string (port + offset) else host)
            | _ \<Rightarrow> host)
         else host)
      else if CHR '':'' \<in> set host then
        (case split_on (\<lambda>c. c = CHR '':'') host of
           [a, b] \<Rightarrow>
             (let port = nullish (parseInt b) 0
              in if 0 < port then a @ '':'' @ js_int_string (port + offset) else host)
         | _ \<Rightarrow> host)
      else host)"

text \<open>The MIME types that \<open>RTCRtpSender.getCapabilities\<close> reports, \<open>None\<close> when the call throws.\<close>

definition getAlternativeCodecs :: "string list option \<Rightarrow> (string \<times> bool) list" where
  "getAlternativeCodecs caps =
     (let mts = map to_lower (nullish caps [])
      in [(''vp8'', True), (''vp9'', True), (''av1'', list_ex (contains ''av1'') mts),
          (''h264'', list_ex (contains ''h264'') mts), (''h265'', list_ex (contains ''h265'') mts)])"

definition getApiServer :: "storage \<Rightarrow> string" where
  "getApiServer st =
     (let api_server = getEffectiveOption st ''api-server'';
          custom_rendezvous_server = getEffectiveOption st ''custom-rendezvous-server''
      in if api_server \<noteq> '''' then api_server
         else if custom_rendezvous_server \<noteq> '''' then
           (let s = increasePort custom_rendezvous_server (- 2)
            in if s = custom_rendezvous_server then ''http://'' @ s @ '':'' @ js_int_string (PORT - 2)
               else ''http://'' @ s)
         else ''https://admin.rustdesk.com'')"

definition getAuditServer :: "storage \<Rightarrow> string \<Rightarrow> string" where
  "getAuditServer st typ =
     (if getEffectiveOption st ''access_token'' = '''' then ''''
      else (let api_server = getApiServer st
            in if api_server = '''' \<or> contains ''rustdesk.com'' api_server then ''''
               else api_server @ ''/api/audit/'' @ typ))"

section \<open>Version numbers\<close>

text \<open>The loop over the components: the number so far and the last component.\<close>

fun version_loop :: "string list \<Rightarrow> int \<Rightarrow> int \<Rightarrow> int \<times> int" where
  "version_loop [] n lst = (n, lst)"
| "version_loop (x # xs) n lst = (let l = nullish (parseInt x) 0 in version_loop xs (n * 1000 + l) l)"

text \<open>\<open>None\<close> is a value without \<open>split\<close>: the exception is logged and the number is \<open>0\<close>.\<close>

definition getVersionNumber :: "string option \<Rightarrow> int" where
  "getVersionNumber v =
     (case v of
        None \<Rightarrow> 0
      | Some s \<Rightarrow>
          (let versions = split_on (\<lambda>c. c = CHR ''-'') s;
               (n, lst) = version_loop (split_on (\<lambda>c. c = CHR ''.'') (hd versions)) 0 0;
               n1 = n - lst + lst * 10
           in if 1 < length versions then n1 + nullish (parseInt (versions ! 1)) 0 else n1))"

section \<open>Reading back printed numbers\<close>

lemma parseInt_digits [simp]: "parseInt (digits n) = Some (int n)"
proof -
  have h: "\<not> is_ws (hd (digits n)) \<and> hd (digits n) \<noteq> CHR ''-''" and d: "list_all is_digit (digits n)"
    using digits_clean [of "hd (digits n)" n] digits_all [of n] by simp_all
  have "hd (digits n) \<noteq> CHR ''+''"
    using d by (cases "digits n") (auto simp: is_digit_def)
  moreover have "\<not> prefix ''0x'' (digits n)" "\<not> prefix ''0X'' (digits n)"
    using d by (auto simp: prefix_def is_digit_def list_all_iff)
  moreover have "dropWhile is_ws (digits n) = digits n"
    using h by (cases "digits n") auto
  ultimately show ?thesis
    using h d by (simp add: parseInt_def Let_def list_all_iff takeWhile_eq_all_conv [THEN iffD2])
qed

lemma digits_no_sep: "c \<in> set (digits n) \<Longrightarrow> c \<noteq> CHR '':'' \<and> c \<noteq> CHR ''.'' \<and> c \<noteq> CHR ''-''"
  using digits_all [of n] by (auto simp: list_all_iff is_digit_def)

text \<open>A version as it is written: \<open>a.b.c\<close>, or \<open>a.b.c-d\<close> for a build of it.\<close>

definition version_text :: "nat \<times> nat \<times> nat \<Rightarrow> string" where
  "version_text v = digits (fst v) @ CHR ''.'' # digits (fst (snd v)) @ CHR ''.'' # digits (snd (snd v))"

lemma version_text_clean: "c \<in> set (version_text v) \<Longrightarrow> c \<noteq> CHR ''-''"
  using digits_no_sep by (auto simp: version_text_def)

lemma split_version:
  "split_on (\<lambda>c. c = CHR ''.'') (version_text v) = [digits (fst v), digits (fst (snd v)), digits (snd (snd v))]"
  using digits_no_sep by (simp add: version_text_def split_on_append_sep split_on_none)

lemma version_number:
  "getVersionNumber (Some (version_text v)) = 1000000 * int (fst v) + 1000 * int (fst (snd v)) + 10 * int (snd (snd v))"
  "getVersionNumber (Some (version_text v @ CHR ''-'' # digits d)) = getVersionNumber (Some (version_text v)) + int d"
  using version_text_clean [of _ v] digits_no_sep [of _ d]
  by (simp_all add: getVersionNumber_def split_on_append_sep split_on_none split_version Let_def)

lemma radix_less:
  fixes x y :: nat
  assumes "c < k" and "d < k"
  shows "x * k + c < y * k + d \<longleftrightarrow> x < y \<or> x = y \<and> c < d"
proof -
  have "x * k + c < y * k + d" if "x < y" "c < k" for x y c d :: nat
  proof -
    have "x * k + c < Suc x * k" using that(2) by simp
    also have "\<dots> \<le> y * k" using that(1) by (intro mult_le_mono1) simp
    finally show ?thesis by simp
  qed
  then show ?thesis
    using assms by (metis add_less_cancel_left linorder_neqE_nat order_less_asym)
qed

lemma version_order:
  fixes a b c a' b' c' :: nat
  assumes "b < 1000" "c < 100" "b' < 1000" "c' < 100"
  shows "(1000000 * a + 1000 * b + 10 * c < 1000000 * a' + 1000 * b' + 10 * c') \<longleftrightarrow> (a, b, c) < (a', b', c')"
  using radix_less [of "b * 1000 + 10 * c" 1000000 "b' * 1000 + 10 * c'" a a'] radix_less [of "10 * c" 1000 "10 * c'" b b'] assms
  by (simp add: less_prod_def ac_simps) (auto simp: le_less)

text \<open>
  Version numbers are ordered as versions are: for minor versions below a thousand and patch
  levels below a hundred, one version has a smaller number than another exactly when it is the
  earlier one, and the builds of a version, up to the ninth, come after it and before the next.
\<close>

theorem version_numbers_ordered:
  assumes "fst (snd v) < 1000" and "snd (snd v) < 100" and "fst (snd v') < 1000" and "snd (snd v') < 100" and "d < 10"
  shows "(getVersionNumber (Some (version_text v)) < getVersionNumber (Some (version_text v')) \<longleftrightarrow> v < v')
    \<and> (v < v' \<longrightarrow> getVersionNumber (Some (version_text v @ CHR ''-'' # digits d)) < getVersionNumber (Some (version_text v')))"
proof -
  obtain a b c a' b' c' where v: "v = (a, b, c)" "v' = (a', b', c')" by (cases v, cases v')
  define n n' where "n = 100000 * a + 100 * b + c" and "n' = 100000 * a' + 100 * b' + c'"
  have "getVersionNumber (Some (version_text v)) = int (10 * n)" "getVersionNumber (Some (version_text v')) = int (10 * n')"
    and "10 * n < 10 * n' \<longleftrightarrow> v < v'"
    using assms version_order [of b c b' c' a a'] by (simp_all add: version_number v n_def n'_def)
  then show ?thesis
    using assms(5) by (auto simp: version_number(2))
qed

theorem version_numbers_ordered_witness:
  "getVersionNumber (Some ''1.3.9'') < getVersionNumber (Some ''1.4.0'')
   \<and> getVersionNumber (Some ''1.3.9-7'') < getVersionNumber (Some ''1.4.0'')"
proof -
  have "version_text (1, 3, 9) = ''1.3.9''" "version_text (1, 4, 0) = ''1.4.0''" "digits 7 = ''7''"
    by code_simp+
  then show ?thesis
    using version_numbers_ordered [of "(1, 3, 9)" "(1, 4, 0)" 7] by simp
qed

section \<open>The API server\<close>

lemma digit_chars_eq:
  "digit 0 = CHR ''0''" "digit (Suc 0) = CHR ''1''" "digit 1 = CHR ''1''" "digit 2 = CHR ''2''" "digit 3 = CHR ''3''"
  "digit 4 = CHR ''4''" "digit 5 = CHR ''5''" "digit 6 = CHR ''6''" "digit 7 = CHR ''7''" "digit 8 = CHR ''8''" "digit 9 = CHR ''9''"
  by code_simp+


lemma split_on_length: "length (split_on p s) = Suc (length (filter p s))"
  by (induction s) (auto split: list.splits)

lemma split_char_none: "c \<notin> set s \<Longrightarrow> split_on (\<lambda>d. d = c) s = [s]"
  by (rule split_on_none) auto

lemma split_char_sep: "c \<notin> set w \<Longrightarrow> split_on (\<lambda>d. d = c) (w @ c # s) = w # split_on (\<lambda>d. d = c) s"
  by (rule split_on_append_sep) auto

lemma split_on_keeps: "c \<in> set s \<Longrightarrow> \<not> p c \<Longrightarrow> \<exists>w \<in> set (split_on p s). c \<in> set w"
proof (induction s)
  case (Cons d s)
  then show ?case by (cases "split_on p s") auto
qed simp

lemma IPv6_chars: "isIPv6 s \<Longrightarrow> c \<in> set s \<Longrightarrow> c \<noteq> CHR '':'' \<Longrightarrow> is_hex c"
  using split_on_keeps [of c s "\<lambda>c. c = CHR '':''"] by (auto simp: isIPv6_def list_all_iff Let_def)

lemma increasePort_none: "CHR '':'' \<notin> set h \<Longrightarrow> increasePort h k = h"
  by (simp add: increasePort_def isIPv6_def split_char_none)

lemma increasePort_port:
  assumes "CHR '':'' \<notin> set h" and "0 < p" and "\<not> isIPv6 (h @ CHR '':'' # digits p)"
  shows "increasePort (h @ CHR '':'' # digits p) k = h @ CHR '':'' # js_int_string (int p + k)"
proof -
  have "split_on (\<lambda>c. c = CHR '':'') (h @ CHR '':'' # digits p) = [h, digits p]"
    using digits_no_sep [of "CHR '':''" p] by (subst split_char_sep [OF assms(1)], subst split_char_none) auto
  then show ?thesis
    using assms by (simp add: increasePort_def)
qed

lemma bracket_not_IPv6: "\<not> isIPv6 (CHR ''['' # r)"
  using IPv6_chars [of "CHR ''['' # r" "CHR ''[''"] by (auto simp: is_hex_def is_digit_def)

lemma increasePort_bracket:
  assumes "2 \<le> length (filter (\<lambda>c. c = CHR '':'') r)"
  shows "increasePort (CHR ''['' # r) k = CHR ''['' # r"
proof -
  have "Suc (Suc (Suc 0)) \<le> length (split_on (\<lambda>c. c = CHR '':'') (CHR ''['' # r))"
    using assms by (subst split_on_length) simp
  then obtain a b c d where "split_on (\<lambda>c. c = CHR '':'') (CHR ''['' # r) = a # b # c # d"
    unfolding Suc_le_length_iff by blast
  then show ?thesis
    by (simp add: increasePort_def bracket_not_IPv6 del: split_on.simps)
qed

text \<open>
  Without an API server of its own the client derives one from the rendezvous server: a host
  without a port is asked on port 21114, a host with a port on the port two below it.  A
  bracketed IPv6 address is not recognised: its port stays and a second one is appended.
\<close>

theorem api_server_address:
  assumes "getEffectiveOption st ''api-server'' = ''''" and "getEffectiveOption st ''custom-rendezvous-server'' = srv" and "srv \<noteq> ''''"
  shows "(CHR '':'' \<notin> set srv \<longrightarrow> getApiServer st = ''http://'' @ srv @ '':21114'')
    \<and> (\<forall>h p. srv = h @ CHR '':'' # digits p \<longrightarrow> CHR '':'' \<notin> set h \<longrightarrow> 0 < p \<longrightarrow> \<not> isIPv6 srv
         \<longrightarrow> getApiServer st = ''http://'' @ h @ CHR '':'' # js_int_string (int p - 2))
    \<and> (\<forall>r. srv = CHR ''['' # r \<longrightarrow> 2 \<le> length (filter (\<lambda>c. c = CHR '':'') r)
         \<longrightarrow> getApiServer st = ''http://'' @ srv @ '':21114'')"
proof -
  have port: "js_int_string (PORT - 2) = ''21114''"
    by (simp add: PORT_def js_int_string_def digits.simps digit_chars_eq)
  have "js_int_string (int p - 2) \<noteq> digits p" for p
  proof (cases "p < 2")
    case True
    then show ?thesis
      using digits_clean [of "CHR ''-''" p] list.set_intros(1) [of "CHR ''-''"] by (auto simp: js_int_string_def)
        (metis list.set_intros(1))
  next
    case False
    then have "nat (int p - 2) \<noteq> p" by linarith
    then have "digits (nat (int p - 2)) \<noteq> digits p" by (metis digits_value_digits)
    with False show ?thesis by (simp add: js_int_string_def)
  qed
  then show ?thesis
    using assms increasePort_none [of srv] increasePort_bracket increasePort_port [of _ _ "- 2"]
    by (auto simp: getApiServer_def Let_def port)
qed

theorem api_server_address_witness:
  "getApiServer [(''custom-rendezvous-server'', ''host:21116'')] = ''http://host:21114''
   \<and> getApiServer [(''custom-rendezvous-server'', ''[::1]:21116'')] = ''http://[::1]:21116:21114''"
proof -
  let ?st = "\<lambda>srv. [(''custom-rendezvous-server'', srv)]"
  have st: "getEffectiveOption (?st srv) ''api-server'' = ''''" "getEffectiveOption (?st srv) ''custom-rendezvous-server'' = srv" for srv
    by (simp_all add: getEffectiveOption_def setting_key_def)
  have h: "''host:21116'' = ''host'' @ CHR '':'' # digits 21116" "js_int_string (int 21116 - 2) = ''21114''"
    by (simp_all add: js_int_string_def digits.simps digit_chars_eq)
  have "\<not> isIPv6 ''host:21116''" by code_simp
  then have "getApiServer (?st ''host:21116'') = ''http://'' @ ''host'' @ CHR '':'' # js_int_string (int 21116 - 2)"
    using api_server_address [OF st(1) st(2) [of "''host:21116''"]] h(1) by fastforce
  moreover have "getApiServer (?st ''[::1]:21116'') = ''http://'' @ ''[::1]:21116'' @ '':21114''"
    using api_server_address [OF st(1) st(2) [of "''[::1]:21116''"]] by simp
  ultimately show ?thesis
    using h(2) by simp
qed

end
