(* ===== verification/Requests.thy ===== *)
theory Requests
  imports Bridge Peer_Store Server_Config "HOL-Library.Monad_Syntax"
begin

text \<open>
  How the bridge reads the calls of Flutter: the handler tables of
  \<open>flutter/js/src/bridge/handlers/\<close> (\<open>set_common.js\<close>, \<open>set_rd.js\<close>, \<open>set_ft.js\<close>, \<open>stubs.js\<close>,
  merged by \<open>dispatch.js\<close>) as functions from the text that Flutter passes to the request that
  is carried out, and the calls as \<open>flutter/lib/web/bridge.dart\<close> and \<open>web_unique.dart\<close> write
  them.  A text that is JSON is \<open>JJson v\<close>, the decimal text of a number \<open>JNumStr n\<close>, any other
  text \<open>JStr s\<close>.
\<close>

section \<open>Texts\<close>

text \<open>A character of a JSON string.\<close>

definition hex_char :: "nat \<Rightarrow> char" where
  "hex_char n = char_of (if n < 10 then 48 + n else 87 + n)"

definition json_char :: "char \<Rightarrow> string" where
  "json_char c =
     (let n = of_char c :: nat
      in if n = 34 \<or> n = 92 then [char_of (92 :: nat), c]
         else if n = 8 then char_of (92 :: nat) # ''b'' else if n = 9 then char_of (92 :: nat) # ''t''
         else if n = 10 then char_of (92 :: nat) # ''n'' else if n = 12 then char_of (92 :: nat) # ''f''
         else if n = 13 then char_of (92 :: nat) # ''r''
         else if n < 32 then char_of (92 :: nat) # ''u00'' @ [hex_char (n div 16), hex_char (n mod 16)]
         else [c])"

definition json_quote :: "string \<Rightarrow> string" where
  "json_quote s = char_of (34 :: nat) # concat (map json_char s) @ [char_of (34 :: nat)]"

definition as_int :: "jval \<Rightarrow> int option" where
  "as_int v = (case v of JNum n \<Rightarrow> (if of_int \<lfloor>n\<rfloor> = n then Some \<lfloor>n\<rfloor> else None) | _ \<Rightarrow> None)"

text \<open>
  \<open>JSON.stringify\<close>; fields that are undefined are left out.  \<open>None\<close> for values whose text
  is not given here: numbers that are not whole, and byte arrays.
\<close>

fun json_text :: "jval \<Rightarrow> string option" where
  "json_text JNull = Some ''null''"
| "json_text (JBool b) = Some (js_bool_string b)"
| "json_text (JNum n) = map_option js_int_string (as_int (JNum n))"
| "json_text (JStr s) = Some (json_quote s)"
| "json_text (JNumStr n) = map_option (\<lambda>i. json_quote (js_int_string i)) (as_int (JNum n))"
| "json_text (JJson v) = map_option json_quote (json_text v)"
| "json_text (JArr vs) = map_option (\<lambda>ts. ''['' @ join CHR '','' ts @ '']'') (those (map json_text vs))"
| "json_text (JObj fs) =
     map_option (\<lambda>ts. ''{'' @ join CHR '','' ts @ ''}'')
       (those (map (\<lambda>(k, v). map_option (\<lambda>t. json_quote k @ '':'' @ t) (json_text v))
          (filter (\<lambda>p. snd p \<noteq> JUndefined) fs)))"
| "json_text _ = None"

text \<open>The text of a text.\<close>

definition text_of :: "jval \<Rightarrow> string option" where
  "text_of v =
     (case v of
        JStr s \<Rightarrow> Some s
      | JNumStr n \<Rightarrow> map_option js_int_string (as_int (JNum n))
      | JJson w \<Rightarrow> json_text w
      | _ \<Rightarrow> None)"

text \<open>The text \<open>localStorage.setItem\<close> makes of its second argument.\<close>

definition stored_text :: "jval \<Rightarrow> string option" where
  "stored_text v =
     (case v of
        JUndefined \<Rightarrow> Some ''undefined''
      | JNull \<Rightarrow> Some ''null''
      | JBool b \<Rightarrow> Some (js_bool_string b)
      | JNum n \<Rightarrow> map_option js_int_string (as_int v)
      | _ \<Rightarrow> text_of v)"

definition syntax_error :: unknown where
  "syntax_error = UError ''SyntaxError'' ''JSON''"

text \<open>\<open>JSON.parse\<close> of a text.\<close>

fun parse_text :: "jval \<Rightarrow> unknown + jval" where
  "parse_text (JJson v) = Inr v"
| "parse_text (JNumStr n) = Inr (JNum n)"
| "parse_text (JStr s) =
     (if s = ''true'' then Inr (JBool True) else if s = ''false'' then Inr (JBool False)
      else if s = ''null'' then Inr JNull else Inl syntax_error)"
| "parse_text v = Inl syntax_error"

fun is_text :: "jval \<Rightarrow> bool" where
  "is_text (JStr s) = True"
| "is_text (JNumStr n) = True"
| "is_text (JJson v) = True"
| "is_text v = False"

definition parseJson :: "jval \<Rightarrow> unknown + jval" where
  "parseJson value = (if is_text value then parse_text value else Inr value)"

section \<open>Reading arguments\<close>

text \<open>
  What a handler makes of the value: the request, an exception, or values that are not of the
  types which the called method declares.
\<close>

datatype 'r arg = Args 'r | Throw unknown | IllTyped

text \<open>A property of the parsed value; reading one of null throws.\<close>

definition fld :: "jval \<Rightarrow> string \<Rightarrow> jval" where
  "fld d name = (case d of JObj fs \<Rightarrow> obj_get fs name | _ \<Rightarrow> JUndefined)"

definition str_fld :: "jval \<Rightarrow> string \<Rightarrow> string option" where
  "str_fld d name = (case fld d name of JStr s \<Rightarrow> Some s | _ \<Rightarrow> None)"

definition int_fld :: "jval \<Rightarrow> string \<Rightarrow> int option" where
  "int_fld d name = as_int (fld d name)"

definition bool_fld :: "jval \<Rightarrow> string \<Rightarrow> bool option" where
  "bool_fld d name = (case fld d name of JBool b \<Rightarrow> Some b | _ \<Rightarrow> None)"

text \<open>A text that may be missing or empty.\<close>

definition text_fld :: "jval \<Rightarrow> string \<Rightarrow> string option" where
  "text_fld d name = (let v = fld d name in if \<not> truthy v then Some '''' else case v of JStr s \<Rightarrow> Some s | _ \<Rightarrow> None)"

text \<open>\<open>d.name == "true"\<close>\<close>

definition true_fld :: "jval \<Rightarrow> string \<Rightarrow> bool" where
  "true_fld d name \<longleftrightarrow> fld d name = JStr ''true''"

definition arg_of :: "'r option \<Rightarrow> 'r arg" where
  "arg_of r = (case r of None \<Rightarrow> IllTyped | Some x \<Rightarrow> Args x)"

text \<open>A handler that parses the value and reads properties of the result.\<close>

definition read_json :: "(jval \<Rightarrow> unknown + jval) \<Rightarrow> (jval \<Rightarrow> 'r option) \<Rightarrow> jval \<Rightarrow> 'r arg" where
  "read_json parse f value =
     (case parse value of
        Inl e \<Rightarrow> Throw e
      | Inr d \<Rightarrow> (case prop_of d '''' of Inl e \<Rightarrow> Throw e | Inr _ \<Rightarrow> arg_of (f d)))"

text \<open>\<open>catch (e)\<close>\<close>

definition catching :: "(unknown \<Rightarrow> 'r) \<Rightarrow> 'r arg \<Rightarrow> 'r arg" where
  "catching h a = (case a of Throw e \<Rightarrow> Args (h e) | _ \<Rightarrow> a)"

text \<open>\<open>parseInt\<close> of a value.\<close>

definition parseInt_value :: "jval \<Rightarrow> int option" where
  "parseInt_value v =
     (case v of
        JStr s \<Rightarrow> parseInt s
      | JNumStr n \<Rightarrow> as_int (JNum n)
      | JNum n \<Rightarrow> as_int v
      | _ \<Rightarrow> None)"

section \<open>The handlers of file transfers\<close>

definition setFtHandlers :: "(string \<times> (jval \<Rightarrow> ft_request arg)) list" where
  "setFtHandlers =
     [(''read_remote_dir'', read_json parseJson (\<lambda>d. do {
          path \<leftarrow> str_fld d ''path''; hidden \<leftarrow> bool_fld d ''include_hidden'';
          Some (ReadRemoteDir path hidden) })),
      (''send_files'', read_json parseJson (\<lambda>d. do {
          i \<leftarrow> int_fld d ''id''; path \<leftarrow> str_fld d ''path''; to \<leftarrow> str_fld d ''to''; n \<leftarrow> int_fld d ''file_num'';
          hidden \<leftarrow> bool_fld d ''include_hidden''; isRemote \<leftarrow> bool_fld d ''is_remote''; isDir \<leftarrow> bool_fld d ''is_dir'';
          Some (SendFiles i path to n hidden isRemote isDir) })),
      (''confirm_override_file'', read_json parseJson (\<lambda>d. do {
          i \<leftarrow> int_fld d ''id''; n \<leftarrow> int_fld d ''file_num''; need \<leftarrow> bool_fld d ''need_override'';
          rem \<leftarrow> bool_fld d ''remember''; up \<leftarrow> bool_fld d ''is_upload'';
          Some (ConfirmOverrideFile i n need rem up) })),
      (''remove_file'', read_json parseJson (\<lambda>d. do {
          i \<leftarrow> int_fld d ''id''; path \<leftarrow> str_fld d ''path''; n \<leftarrow> int_fld d ''file_num''; isRemote \<leftarrow> bool_fld d ''is_remote'';
          Some (RemoveFile i path n isRemote) })),
      (''read_dir_to_remove_recursive'', read_json parseJson (\<lambda>d. do {
          i \<leftarrow> int_fld d ''id''; path \<leftarrow> str_fld d ''path''; isRemote \<leftarrow> bool_fld d ''is_remote'';
          showHidden \<leftarrow> bool_fld d ''show_hidden'';
          Some (ReadDirToRemoveRecursive i path isRemote showHidden) })),
      (''remove_all_empty_dirs'', read_json parseJson (\<lambda>d. do {
          i \<leftarrow> int_fld d ''id''; path \<leftarrow> str_fld d ''path''; isRemote \<leftarrow> bool_fld d ''is_remote'';
          Some (RemoveAllEmptyDirs i path isRemote) })),
      (''cancel_job'', \<lambda>value. map_arg CancelJob (arg_of (parseInt_value value))),
      (''create_dir'', read_json parseJson (\<lambda>d. do {
          i \<leftarrow> int_fld d ''id''; path \<leftarrow> str_fld d ''path''; isRemote \<leftarrow> bool_fld d ''is_remote'';
          Some (CreateDir i path isRemote) })),
      (''rename_file'', read_json parseJson (\<lambda>d. do {
          i \<leftarrow> int_fld d ''id''; path \<leftarrow> str_fld d ''path''; newName \<leftarrow> str_fld d ''new_name'';
          isRemote \<leftarrow> bool_fld d ''is_remote'';
          Some (RenameFile i path newName isRemote) })),
      (''select_files'', \<lambda>value. Args (SelectFiles (value = JStr ''true'' \<or> value = JBool True))),
      (''send_local_files'', read_json parseJson (\<lambda>d. do {
          i \<leftarrow> int_fld d ''id''; h \<leftarrow> int_fld d ''handle_index''; path \<leftarrow> str_fld d ''path''; to \<leftarrow> str_fld d ''to'';
          n \<leftarrow> int_fld d ''file_num''; hidden \<leftarrow> bool_fld d ''include_hidden''; isRemote \<leftarrow> bool_fld d ''is_remote'';
          Some (SendLocalFiles i h path to n hidden isRemote) })),
      (''send_folder_upload'', read_json parseJson (\<lambda>d. do {
          i \<leftarrow> int_fld d ''id''; to \<leftarrow> str_fld d ''to''; hidden \<leftarrow> bool_fld d ''include_hidden'';
          Some (SendFolderUpload i to hidden) })),
      (''add_job'', read_json parseJson (\<lambda>d. do {
          i \<leftarrow> int_fld d ''id''; path \<leftarrow> str_fld d ''path''; to \<leftarrow> str_fld d ''to''; n \<leftarrow> int_fld d ''file_num'';
          hidden \<leftarrow> bool_fld d ''include_hidden''; isRemote \<leftarrow> bool_fld d ''is_remote'';
          Some (AddJob i path to n hidden isRemote) })),
      (''resume_job'', read_json parseJson (\<lambda>d. do {
          i \<leftarrow> int_fld d ''id''; isRemote \<leftarrow> bool_fld d ''is_remote''; Some (ResumeJob i isRemote) })),
      (''read_remote_empty_dirs'', read_json parseJson (\<lambda>d. do {
          path \<leftarrow> str_fld d ''path''; hidden \<leftarrow> bool_fld d ''include_hidden'';
          Some (ReadRemoteEmptyDirs path hidden) }))]"

section \<open>The handlers of remote desktops\<close>

text \<open>\<open>dispatchRdInputKey\<close> reads the key and the modifiers, which Flutter sends as the text \<open>true\<close>.\<close>

definition read_key :: "jval \<Rightarrow> key_data option" where
  "read_key d = do {
     name \<leftarrow> str_fld d ''name'';
     hid \<leftarrow> (if truthy (fld d ''usb_hid'') then int_fld d ''usb_hid'' else Some 0);
     Some \<lparr>kd_name = name, kd_usb_hid = hid, kd_down = true_fld d ''down'', kd_press = true_fld d ''press'',
           kd_alt = true_fld d ''alt'', kd_ctrl = true_fld d ''ctrl'', kd_shift = true_fld d ''shift'',
           kd_command = true_fld d ''command''\<rparr> }"

text \<open>A word that the handler compares with the words it knows; any other value is none of them.\<close>

definition word_fld :: "jval \<Rightarrow> string \<Rightarrow> string" where
  "word_fld d name = (case fld d name of JStr s \<Rightarrow> s | _ \<Rightarrow> '''')"

definition coord_fld :: "jval \<Rightarrow> string \<Rightarrow> int option" where
  "coord_fld d name = (if truthy (fld d name) then parseInt_value (fld d name) else Some 0)"

definition read_mouse :: "jval \<Rightarrow> rd_request option" where
  "read_mouse d = do {
     x \<leftarrow> coord_fld d ''x''; y \<leftarrow> coord_fld d ''y'';
     Some (SendMouse (word_fld d ''type'') (word_fld d ''buttons'') x y (true_fld d ''alt'') (true_fld d ''ctrl'')
       (true_fld d ''shift'') (true_fld d ''command'')) }"

text \<open>The logon data; a value that is not JSON is logged and nothing is sent.\<close>

definition read_logon :: "jval \<Rightarrow> rd_request option" where
  "read_logon d = (case d of JObj fs \<Rightarrow> do {
       username \<leftarrow> text_fld d ''username''; password \<leftarrow> text_fld d ''password'';
       Some (ElevateWithLogon (Some \<lparr>ElevationRequestWithLogon_username = username,
               ElevationRequestWithLogon_password = password\<rparr>)) }
     | _ \<Rightarrow> None)"

text \<open>Two handlers do more than one step: they have their own requests.\<close>

datatype rd_call = RdReq rd_request | RestartReq | OsPasswordReq string

text \<open>All that \<open>togglePrivacyMode\<close> looks at is whether the text is \<open>true\<close>.\<close>

definition privacy_text :: "jval \<Rightarrow> string" where
  "privacy_text value = (if value = JStr ''true'' \<or> value = JJson (JBool True) then ''true'' else ''false'')"

definition setRdHandlers :: "(string \<times> (jval \<Rightarrow> rd_call arg)) list" where
  "setRdHandlers =
     [(''refresh'', \<lambda>_. Args (RdReq Refresh)),
      (''toggle_option'', \<lambda>value. map_arg (RdReq \<circ> ToggleOption) (arg_of (text_of value))),
      (''toggle_privacy_mode'', \<lambda>value. Args (RdReq (TogglePrivacyMode (privacy_text value)))),
      (''image_quality'', \<lambda>value. map_arg (RdReq \<circ> ImageQuality) (arg_of (text_of value))),
      (''lock_screen'', \<lambda>_. Args (RdReq LockScreen)),
      (''ctrl_alt_del'', \<lambda>_. Args (RdReq CtrlAltDel)),
      (''switch_display'', \<lambda>value. map_arg (RdReq \<circ> SwitchDisplay) (arg_of (as_int value))),
      (''input_key'', map_arg (RdReq \<circ> InputKey) \<circ> read_json parseJson read_key),
      (''input_string'', \<lambda>value. map_arg (RdReq \<circ> InputString) (arg_of (text_of value))),
      (''send_mouse'', map_arg RdReq \<circ> read_json parseJson read_mouse),
      (''send_2fa'', \<lambda>value. map_arg (RdReq \<circ> Send2fa) (arg_of (text_of value))),
      (''input_os_password'', \<lambda>value. map_arg OsPasswordReq (arg_of (text_of value))),
      (''elevate_with_logon'', \<lambda>value.
         catching (\<lambda>_. RdReq (ElevateWithLogon None)) (map_arg RdReq (read_json parse_text read_logon value))),
      (''restart'', \<lambda>_. Args RestartReq),
      (''change_prefer_codec'', \<lambda>_. Args (RdReq ChangePreferCodec)),
      (''option:toggle'', \<lambda>value. map_arg (RdReq \<circ> ToggleOption) (arg_of (text_of value)))]"

section \<open>The shared handlers\<close>

text \<open>
  \<open>AddFailed\<close> and \<open>StartFailed\<close> are the exceptions that \<open>sessionAdd\<close> and \<open>sessionStart\<close> catch;
  \<open>Nothing\<close> is a handler without effect, \<open>NotImplemented\<close> one that warns.
\<close>

datatype request =
    FtRequest ft_request
  | RdRequest rd_call
  | StoreRequest set_request
  | LoginCall bool string string
  | CloseRequest
  | SessionOption string jval
  | Forget
  | CursorRequest string
  | SessionAddSync session_data
  | AddFailed string
  | SessionStart session_data string
  | StartFailed string
  | SessionClose string
  | Nothing
  | NotImplemented string

text \<open>The items of \<open>localStorage\<close> that hold JSON are written by their own handlers only.\<close>

definition JSON_ITEMS :: "string list" where
  "JSON_ITEMS = [''peers'', ''user-default-options'', ''fav'']"

definition item_key :: "string \<Rightarrow> string option" where
  "item_key k = (if k \<in> set JSON_ITEMS then None else Some k)"

definition read_item :: "jval \<Rightarrow> (string \<times> string) option" where
  "read_item d = do { name \<leftarrow> Option.bind (str_fld d ''name'') item_key; value \<leftarrow> stored_text (fld d ''value''); Some (name, value) }"

definition read_items :: "jval \<Rightarrow> (string \<times> string) list option" where
  "read_items d =
     (case d of
        JObj fs \<Rightarrow> those (map (\<lambda>(k, v). do { k1 \<leftarrow> item_key k; t \<leftarrow> stored_text v; Some (k1, t) }) fs)
      | _ \<Rightarrow> None)"

definition setNamespacedLocalOption :: "option_space \<Rightarrow> jval \<Rightarrow> request arg" where
  "setNamespacedLocalOption sp =
     read_json parse_text (\<lambda>d. do { name \<leftarrow> str_fld d ''name''; value \<leftarrow> stored_text (fld d ''value'');
       Some (StoreRequest (SetSpace sp name value)) })"

definition read_session :: "jval \<Rightarrow> session_data option" where
  "read_session d = do {
     sid \<leftarrow> text_fld d ''session_id''; i \<leftarrow> text_fld d ''id''; password \<leftarrow> text_fld d ''password'';
     Some \<lparr>sd_session_id = sid, sd_id = i, sd_isFileTransfer = truthy (fld d ''isFileTransfer''),
           sd_conn_token = (case fld d ''conn_token'' of JUndefined \<Rightarrow> None | v \<Rightarrow> Some v), sd_password = password\<rparr> }"

definition error_message :: "unknown \<Rightarrow> string" where
  "error_message e = (case e of UError n m \<Rightarrow> m | _ \<Rightarrow> '''')"

definition read_fav :: "jval \<Rightarrow> string list stored_json option" where
  "read_fav value =
     (case parse_text value of
        Inl e \<Rightarrow> Some BadText
      | Inr (JArr vs) \<Rightarrow> map_option Stored (those (map (\<lambda>v. case v of JStr s \<Rightarrow> Some s | _ \<Rightarrow> None) vs))
      | Inr _ \<Rightarrow> None)"

text \<open>\<open>setCustomCursor\<close>: the style, or nothing when the value is not JSON.\<close>

definition cursor_style :: "jval \<Rightarrow> string option" where
  "cursor_style d = do {
     url \<leftarrow> stored_text (fld d ''url''); x \<leftarrow> stored_text (fld d ''hotx''); y \<leftarrow> stored_text (fld d ''hoty'');
     Some (''url('' @ url @ '') '' @ x @ '' '' @ y @ '', auto'') }"

text \<open>What a handler needs before it looks at its value; without it, it returns at once.\<close>

datatype needs = Always | NeedsFt | NeedsRd | NeedsConn

type_synonym handler = "needs \<times> (jval \<Rightarrow> request arg)"

definition setCommonHandlers :: "(string \<times> handler) list" where
  "setCommonHandlers =
     [(''remote_id'', Always, \<lambda>value. map_arg (StoreRequest \<circ> RemoteId) (arg_of (stored_text value))),
      (''login'', NeedsConn, read_json parse_text (\<lambda>d. do {
          rem \<leftarrow> bool_fld d ''remember''; os \<leftarrow> text_fld d ''os_username''; pw \<leftarrow> text_fld d ''password'';
          Some (LoginCall rem os pw) })),
      (''close'', Always, \<lambda>_. Args CloseRequest),
      (''option'', Always, read_json parse_text (\<lambda>d. map_option (\<lambda>(k, v). StoreRequest (SetOption k v)) (read_item d))),
      (''options'', Always, read_json parse_text (\<lambda>d. map_option (StoreRequest \<circ> SetOptions) (read_items d))),
      (''option:local'', Always, setNamespacedLocalOption LocalOption),
      (''option:flutter:local'', Always, setNamespacedLocalOption FlutterLocal),
      (''option:flutter:peer'', Always, setNamespacedLocalOption FlutterPeer),
      (''option:user:default'', Always, \<lambda>value. catching (\<lambda>_. Nothing) (read_json parse_text (\<lambda>d. do {
          name \<leftarrow> str_fld d ''name''; Some (StoreRequest (SetUserDefault name (fld d ''value''))) }) value)),
      (''option:session'', Always, read_json parse_text (\<lambda>d. do {
          name \<leftarrow> str_fld d ''name''; Some (SessionOption name (fld d ''value'')) })),
      (''option:peer'', Always, \<lambda>value. catching (\<lambda>_. Nothing) (read_json parse_text (\<lambda>d. do {
          i \<leftarrow> str_fld d ''id''; name \<leftarrow> str_fld d ''name''; Some (StoreRequest (SetPeer i name (fld d ''value''))) }) value)),
      (''remove'', Always, \<lambda>value. map_arg (StoreRequest \<circ> RemovePeer) (arg_of (text_of value))),
      (''forget'', Always, \<lambda>_. Args Forget),
      (''fav'', Always, \<lambda>value. map_arg (StoreRequest \<circ> SetFav) (arg_of (read_fav value))),
      (''query_onlines'', Always, \<lambda>_. Args Nothing),
      (''cursor'', Always, \<lambda>value. catching (\<lambda>_. Nothing)
          (map_arg CursorRequest (read_json parse_text cursor_style value))),
      (''session_add_sync'', Always, \<lambda>value. catching (AddFailed \<circ> error_message)
          (map_arg SessionAddSync (read_json parse_text read_session value))),
      (''session_start'', Always, \<lambda>value. catching (StartFailed \<circ> error_message)
          (map_arg (\<lambda>(d, t). SessionStart d t)
             (read_json parse_text (\<lambda>d. do { s \<leftarrow> read_session d; t \<leftarrow> text_of value; Some (s, t) }) value))),
      (''session_close'', Always, \<lambda>value. map_arg SessionClose (arg_of (text_of value))),
      (''flutter_key_event'', NeedsRd, map_arg (RdRequest \<circ> RdReq \<circ> FlutterKeyEvent) \<circ> read_json parseJson read_key)]"

definition setStubHandlers :: "(string \<times> handler) list" where
  "setStubHandlers =
     [(''connect'', Always, \<lambda>_. Args (NotImplemented ''connect'')),
      (''remove_peer'', Always, \<lambda>value. map_arg (StoreRequest \<circ> RemovePeer) (arg_of (text_of value))),
      (''reconnect'', Always, \<lambda>_. Args Nothing),
      (''save_ab'', Always, \<lambda>_. Args (NotImplemented ''save_ab'')),
      (''clear_ab'', Always, \<lambda>_. Args (NotImplemented ''clear_ab'')),
      (''load_ab'', Always, \<lambda>_. Args (NotImplemented ''load_ab'')),
      (''save_group'', Always, \<lambda>_. Args (NotImplemented ''save_group'')),
      (''clear_group'', Always, \<lambda>_. Args (NotImplemented ''clear_group'')),
      (''load_group'', Always, \<lambda>_. Args (NotImplemented ''load_group''))]"

section \<open>The merged table\<close>

definition rd_table :: "(string \<times> handler) list" where
  "rd_table = map (\<lambda>(name, h). (name, NeedsRd, map_arg RdRequest \<circ> h)) setRdHandlers"

definition ft_table :: "(string \<times> handler) list" where
  "ft_table = map (\<lambda>(name, h). (name, NeedsFt, map_arg FtRequest \<circ> h)) setFtHandlers"

text \<open>An object literal of spreads: later entries replace earlier ones under the same name.\<close>

definition spread :: "('k \<times> 'v) list list \<Rightarrow> ('k, 'v) jsmap" where
  "spread tables = fold (\<lambda>t m. fold (\<lambda>(k, v). map_set k v) t m) tables []"

definition setByNameHandlers :: "(string, handler) jsmap" where
  "setByNameHandlers = spread [setCommonHandlers, rd_table, ft_table, setStubHandlers]"

text \<open>
  A name that no table has is looked up in \<open>Object.prototype\<close>, whose functions are then called
  without a receiver.
\<close>

definition PROTOTYPE_NAMES :: "string list" where
  "PROTOTYPE_NAMES = [''constructor'', ''toString'', ''toLocaleString'', ''valueOf'', ''hasOwnProperty'', ''isPrototypeOf'',
     ''propertyIsEnumerable'', ''__proto__'', ''__defineGetter__'', ''__defineSetter__'', ''__lookupGetter__'', ''__lookupSetter__'']"

datatype 'h lookup_result = Own 'h | Inherited string | Missing

definition lookup_handler :: "(string, 'h) jsmap \<Rightarrow> string \<Rightarrow> 'h lookup_result" where
  "lookup_handler table name =
     (case map_get table name of
        Some h \<Rightarrow> Own h
      | None \<Rightarrow> (if name \<in> set PROTOTYPE_NAMES then Inherited name else Missing))"

section \<open>The calls of Flutter\<close>

text \<open>
  The methods of \<open>RustdeskImpl\<close> in \<open>bridge.dart\<close>, and the functions of \<open>web_unique.dart\<close>, that
  call \<open>setByName\<close> for a session.
\<close>

datatype flutter_call =
    CallFt ft_request
  | CallRefresh
  | CallToggleOption string
  | CallTogglePrivacyMode string bool
  | CallSetImageQuality string
  | CallLockScreen
  | CallCtrlAltDel
  | CallSwitchDisplay bool string "int list"
  | CallInputKey string bool bool bool bool bool bool
  | CallFlutterKeyEvent string int int bool
  | CallInputString string
  | CallSend2Fa string bool
  | CallInputOsPassword string
  | CallElevateWithLogon string string
  | CallRestart
  | CallChangePreferCodec
  | CallLogin string string string bool
  | CallAddSync string string string bool bool "jval option"
  | CallStart string string "string option"
  | CallClose string
  | CallSetOption string string

text \<open>The texts of the file transfer calls.\<close>

fun ft_call_text :: "ft_request \<Rightarrow> string \<times> jval" where
  "ft_call_text (ReadRemoteDir path hidden) =
     (''read_remote_dir'', JJson (JObj [(''path'', JStr path), (''include_hidden'', JBool hidden)]))"
| "ft_call_text (SendFiles i path to n hidden isRemote isDir) =
     (''send_files'', JJson (JObj [(''id'', JInt i), (''path'', JStr path), (''to'', JStr to), (''file_num'', JInt n),
        (''include_hidden'', JBool hidden), (''is_remote'', JBool isRemote), (''is_dir'', JBool isDir)]))"
| "ft_call_text (ConfirmOverrideFile i n needOverride rem isUpload) =
     (''confirm_override_file'', JJson (JObj [(''id'', JInt i), (''file_num'', JInt n), (''need_override'', JBool needOverride),
        (''remember'', JBool rem), (''is_upload'', JBool isUpload)]))"
| "ft_call_text (RemoveFile i path n isRemote) =
     (''remove_file'', JJson (JObj [(''id'', JInt i), (''path'', JStr path), (''file_num'', JInt n), (''is_remote'', JBool isRemote)]))"
| "ft_call_text (ReadDirToRemoveRecursive i path isRemote showHidden) =
     (''read_dir_to_remove_recursive'', JJson (JObj [(''id'', JInt i), (''path'', JStr path), (''is_remote'', JBool isRemote),
        (''show_hidden'', JBool showHidden)]))"
| "ft_call_text (RemoveAllEmptyDirs i path isRemote) =
     (''remove_all_empty_dirs'', JJson (JObj [(''id'', JInt i), (''path'', JStr path), (''is_remote'', JBool isRemote)]))"
| "ft_call_text (CancelJob i) = (''cancel_job'', JIntStr i)"
| "ft_call_text (CreateDir i path isRemote) =
     (''create_dir'', JJson (JObj [(''id'', JInt i), (''path'', JStr path), (''is_remote'', JBool isRemote)]))"
| "ft_call_text (RenameFile i path newName isRemote) =
     (''rename_file'', JJson (JObj [(''id'', JInt i), (''path'', JStr path), (''new_name'', JStr newName), (''is_remote'', JBool isRemote)]))"
| "ft_call_text (SelectFiles isFolder) = (''select_files'', JStr (js_bool_string isFolder))"
| "ft_call_text (SendLocalFiles i h path to n hidden isRemote) =
     (''send_local_files'', JJson (JObj [(''id'', JInt i), (''handle_index'', JInt h), (''path'', JStr path), (''to'', JStr to),
        (''file_num'', JInt n), (''include_hidden'', JBool hidden), (''is_remote'', JBool isRemote)]))"
| "ft_call_text (SendFolderUpload i to hidden) =
     (''send_folder_upload'', JJson (JObj [(''id'', JInt i), (''to'', JStr to), (''include_hidden'', JBool hidden)]))"
| "ft_call_text (AddJob i path to n hidden isRemote) =
     (''add_job'', JJson (JObj [(''id'', JInt i), (''path'', JStr path), (''to'', JStr to), (''file_num'', JInt n),
        (''include_hidden'', JBool hidden), (''is_remote'', JBool isRemote)]))"
| "ft_call_text (ResumeJob i isRemote) = (''resume_job'', JJson (JObj [(''id'', JInt i), (''is_remote'', JBool isRemote)]))"
| "ft_call_text (ReadRemoteEmptyDirs path hidden) =
     (''read_remote_empty_dirs'', JJson (JObj [(''path'', JStr path), (''include_hidden'', JBool hidden)]))"

text \<open>\<open>if (down) 'down': 'true'\<close>\<close>

definition flag_field :: "string \<Rightarrow> bool \<Rightarrow> (string \<times> jval) list" where
  "flag_field name b = (if b then [(name, JStr ''true'')] else [])"

fun flutter_text :: "flutter_call \<Rightarrow> string \<times> jval" where
  "flutter_text (CallFt req) = ft_call_text req"
| "flutter_text CallRefresh = (''refresh'', JStr '''')"
| "flutter_text (CallToggleOption v) = (''option:toggle'', JStr v)"
| "flutter_text (CallTogglePrivacyMode implKey b) =
     (''toggle_privacy_mode'', JJson (JObj [(''impl_key'', JStr implKey), (''on'', JBool b)]))"
| "flutter_text (CallSetImageQuality v) = (''image_quality'', JStr v)"
| "flutter_text CallLockScreen = (''lock_screen'', JStr '''')"
| "flutter_text CallCtrlAltDel = (''ctrl_alt_del'', JStr '''')"
| "flutter_text (CallSwitchDisplay isDesktop sid displays) =
     (''switch_display'', JJson (JObj [(''isDesktop'', JBool isDesktop), (''sessionId'', JStr sid),
        (''value'', JArr (map JInt displays))]))"
| "flutter_text (CallInputKey name down press alt ctrl shift command) =
     (''input_key'', JJson (JObj ((''name'', JStr name) # flag_field ''down'' down @ flag_field ''press'' press
        @ flag_field ''alt'' alt @ flag_field ''ctrl'' ctrl @ flag_field ''shift'' shift @ flag_field ''command'' command)))"
| "flutter_text (CallFlutterKeyEvent character usbHid lockModes down) =
     (''flutter_key_event'', JJson (JObj ([(''name'', JStr character), (''usb_hid'', JInt usbHid), (''lock_modes'', JInt lockModes)]
        @ flag_field ''down'' down)))"
| "flutter_text (CallInputString v) = (''input_string'', JStr v)"
| "flutter_text (CallSend2Fa code trust) =
     (''send_2fa'', JJson (JObj [(''code'', JStr code), (''trust_this_device'', JBool trust)]))"
| "flutter_text (CallInputOsPassword v) = (''input_os_password'', JStr v)"
| "flutter_text (CallElevateWithLogon username password) =
     (''elevate_with_logon'', JJson (JObj [(''username'', JStr username), (''password'', JStr password)]))"
| "flutter_text CallRestart = (''restart'', JStr '''')"
| "flutter_text CallChangePreferCodec = (''change_prefer_codec'', JStr '''')"
| "flutter_text (CallLogin osUsername osPassword password rem) =
     (''login'', JJson (JObj [(''os_username'', JStr osUsername), (''os_password'', JStr osPassword),
        (''password'', JStr password), (''remember'', JBool rem)]))"
| "flutter_text (CallAddSync sid i password shared ft connToken) =
     (''session_add_sync'', JJson (JObj ([(''session_id'', JStr sid), (''id'', JStr i), (''password'', JStr password),
        (''is_shared_password'', JBool shared), (''isFileTransfer'', JBool ft)]
        @ (case connToken of None \<Rightarrow> [] | Some t \<Rightarrow> [(''conn_token'', t)]))))"
| "flutter_text (CallStart sid i password) =
     (''session_start'', JJson (JObj [(''session_id'', JStr sid), (''id'', JStr i),
        (''password'', (case password of None \<Rightarrow> JNull | Some p \<Rightarrow> JStr p))]))"
| "flutter_text (CallClose sid) = (''session_close'', JStr sid)"
| "flutter_text (CallSetOption name v) =
     (''option:session'', JJson (JObj [(''name'', JStr name), (''value'', JStr v)]))"

text \<open>
  What each call asks for.  A session start carries its own text for the message about a missing id.
\<close>

definition start_text :: "string \<Rightarrow> string \<Rightarrow> string option \<Rightarrow> string" where
  "start_text sid i password = the (text_of (snd (flutter_text (CallStart sid i password))))"

definition pressed_key :: "string \<Rightarrow> int \<Rightarrow> bool \<Rightarrow> bool \<Rightarrow> bool \<Rightarrow> bool \<Rightarrow> bool \<Rightarrow> bool \<Rightarrow> key_data" where
  "pressed_key name hid down press alt ctrl shift command =
     \<lparr>kd_name = name, kd_usb_hid = hid, kd_down = down, kd_press = press, kd_alt = alt, kd_ctrl = ctrl, kd_shift = shift,
      kd_command = command\<rparr>"

fun flutter_meaning :: "flutter_call \<Rightarrow> request" where
  "flutter_meaning (CallFt req) = FtRequest req"
| "flutter_meaning CallRefresh = RdRequest (RdReq Refresh)"
| "flutter_meaning (CallToggleOption v) = RdRequest (RdReq (ToggleOption v))"
| "flutter_meaning (CallTogglePrivacyMode implKey b) = RdRequest (RdReq (TogglePrivacyMode (js_bool_string b)))"
| "flutter_meaning (CallSetImageQuality v) = RdRequest (RdReq (ImageQuality v))"
| "flutter_meaning CallLockScreen = RdRequest (RdReq LockScreen)"
| "flutter_meaning CallCtrlAltDel = RdRequest (RdReq CtrlAltDel)"
| "flutter_meaning (CallSwitchDisplay isDesktop sid displays) = RdRequest (RdReq (SwitchDisplay (hd displays)))"
| "flutter_meaning (CallInputKey name down press alt ctrl shift command) =
     RdRequest (RdReq (InputKey (pressed_key name 0 down press alt ctrl shift command)))"
| "flutter_meaning (CallFlutterKeyEvent character usbHid lockModes down) =
     RdRequest (RdReq (FlutterKeyEvent (pressed_key character usbHid down False False False False False)))"
| "flutter_meaning (CallInputString v) = RdRequest (RdReq (InputString v))"
| "flutter_meaning (CallSend2Fa code trust) = RdRequest (RdReq (Send2fa code))"
| "flutter_meaning (CallInputOsPassword v) = RdRequest (OsPasswordReq v)"
| "flutter_meaning (CallElevateWithLogon username password) =
     RdRequest (RdReq (ElevateWithLogon (Some \<lparr>ElevationRequestWithLogon_username = username,
       ElevationRequestWithLogon_password = password\<rparr>)))"
| "flutter_meaning CallRestart = RdRequest RestartReq"
| "flutter_meaning CallChangePreferCodec = RdRequest (RdReq ChangePreferCodec)"
| "flutter_meaning (CallLogin osUsername osPassword password rem) = LoginCall rem osUsername password"
| "flutter_meaning (CallAddSync sid i password shared ft connToken) =
     SessionAddSync \<lparr>sd_session_id = sid, sd_id = i, sd_isFileTransfer = ft, sd_conn_token = connToken,
       sd_password = password\<rparr>"
| "flutter_meaning (CallStart sid i password) =
     SessionStart \<lparr>sd_session_id = sid, sd_id = i, sd_isFileTransfer = False, sd_conn_token = None,
       sd_password = nullish password ''''\<rparr> (start_text sid i password)"
| "flutter_meaning (CallClose sid) = SessionClose sid"
| "flutter_meaning (CallSetOption name v) = SessionOption name (JStr v)"

section \<open>No handler hides another\<close>

lemmas handler_tables = setCommonHandlers_def rd_table_def setRdHandlers_def ft_table_def setFtHandlers_def setStubHandlers_def

lemma handler_names_distinct:
  "distinct (map fst (setCommonHandlers @ rd_table @ ft_table @ setStubHandlers))"
  by (simp add: handler_tables)

lemma fold_map_set_new:
  "distinct (map fst (m @ t)) \<Longrightarrow> fold (\<lambda>(k, v). map_set k v) t m = m @ t"
proof (induction t arbitrary: m)
  case (Cons p t)
  obtain k v where p: "p = (k, v)" by (cases p)
  have "map_get m k = None" using Cons.prems by (auto simp: p map_of_eq_None_iff)
  then show ?case using Cons by (simp add: p map_set_new)
qed simp

lemma spread_distinct: "distinct (map fst (concat ts)) \<Longrightarrow> spread ts = concat ts"
proof -
  have "distinct (map fst (m @ concat ts)) \<Longrightarrow> fold (\<lambda>t m. fold (\<lambda>(k, v). map_set k v) t m) ts m = m @ concat ts"
    for m :: "('a \<times> 'b) list"
  proof (induction ts arbitrary: m)
    case (Cons t ts)
    from Cons.prems have "fold (\<lambda>(k, v). map_set k v) t m = m @ t" by (intro fold_map_set_new) auto
    moreover have "fold (\<lambda>t m. fold (\<lambda>(k, v). map_set k v) t m) ts (m @ t) = (m @ t) @ concat ts"
      using Cons.prems by (intro Cons.IH) auto
    ultimately show ?case by simp
  qed simp
  from this [of "[]"] show "distinct (map fst (concat ts)) \<Longrightarrow> spread ts = concat ts" by (simp add: spread_def)
qed

lemma setByNameHandlers_concat: "setByNameHandlers = setCommonHandlers @ rd_table @ ft_table @ setStubHandlers"
  using spread_distinct [of "[setCommonHandlers, rd_table, ft_table, setStubHandlers]"] handler_names_distinct
  by (simp add: setByNameHandlers_def)

section \<open>Calls are understood\<close>

text \<open>What the handler under the name of a call makes of its text.\<close>

definition read_call :: "string \<times> jval \<Rightarrow> request arg" where
  "read_call p = (case lookup_handler setByNameHandlers (fst p) of Own (n, h) \<Rightarrow> h (snd p) | _ \<Rightarrow> IllTyped)"

lemma table_get:
  "map_get setCommonHandlers name = Some h \<Longrightarrow> map_get setByNameHandlers name = Some h"
  "map_get rd_table name = Some h \<Longrightarrow> map_get setByNameHandlers name = Some h"
  "map_get ft_table name = Some h \<Longrightarrow> map_get setByNameHandlers name = Some h"
  using handler_names_distinct
  by (auto simp: setByNameHandlers_concat simp del: map_append map_of_append intro!: map_of_is_SomeI dest!: map_of_SomeD)

lemma read_call_get: "map_get setByNameHandlers (fst p) = Some (n, h) \<Longrightarrow> read_call p = h (snd p)"
  by (simp add: read_call_def lookup_handler_def)

lemmas read_common = read_call_get [OF table_get(1)]
lemmas read_rd = read_call_get [OF table_get(2)]
lemmas read_ft = read_call_get [OF table_get(3)]

lemmas reading = read_json_def parseJson_def arg_of_def catching_def int_fld_def str_fld_def bool_fld_def
  text_fld_def true_fld_def fld_def obj_get_def as_int_def

lemma read_ft_call: "read_call (ft_call_text req) = Args (FtRequest req)"
proof -
  have "\<exists>h. map_get ft_table (fst (ft_call_text req)) = Some (NeedsFt, h) \<and> h (snd (ft_call_text req)) = Args (FtRequest req)"
    by (cases req) (simp_all add: ft_table_def setFtHandlers_def reading parseInt_value_def js_bool_string_def)
  then show ?thesis by (auto simp: read_ft)
qed

lemma map_get_flag: "map_get (flag_field n b @ m) k = (if k = n \<and> b then Some (JStr ''true'') else map_get m k)"
  "map_get (flag_field n b) k = (if k = n \<and> b then Some (JStr ''true'') else None)"
  by (simp_all add: flag_field_def)

lemma read_key_flags:
  "read_key (JObj ((''name'', JStr name) # flag_field ''down'' down @ flag_field ''press'' press
        @ flag_field ''alt'' alt @ flag_field ''ctrl'' ctrl @ flag_field ''shift'' shift @ flag_field ''command'' command))
     = Some (pressed_key name 0 down press alt ctrl shift command)"
  by (simp add: read_key_def pressed_key_def str_fld_def true_fld_def fld_def obj_get_def map_get_flag del: map_of_append)

lemma read_flutter_key:
  "read_key (JObj ([(''name'', JStr character), (''usb_hid'', JInt hid), (''lock_modes'', JInt lockModes)] @ flag_field ''down'' down))
     = Some (pressed_key character hid down False False False False False)"
  by (simp add: read_key_def pressed_key_def str_fld_def int_fld_def true_fld_def fld_def obj_get_def as_int_def map_get_flag)

lemma start_text_Some:
  "text_of (snd (flutter_text (CallStart sid i password))) = Some (start_text sid i password)"
  by (cases password) (simp_all add: start_text_def text_of_def)

text \<open>A connection token is a text.\<close>

definition token_text :: "jval option \<Rightarrow> bool" where
  "token_text t \<longleftrightarrow> (case t of None \<Rightarrow> True | Some v \<Rightarrow> is_text v)"

text \<open>The calls that are not read as they were meant.\<close>

definition misread :: "flutter_call \<Rightarrow> bool" where
  "misread c = (case c of CallTogglePrivacyMode _ b \<Rightarrow> b | CallSwitchDisplay _ _ _ \<Rightarrow> True | CallSend2Fa _ _ \<Rightarrow> True
     | CallAddSync _ _ _ _ _ t \<Rightarrow> \<not> token_text t | _ \<Rightarrow> False)"

lemma read_rd_call:
  assumes "\<exists>r. flutter_meaning c = RdRequest r" "\<not> misread c" "case c of CallFlutterKeyEvent _ _ _ _ \<Rightarrow> False | _ \<Rightarrow> True"
  shows "read_call (flutter_text c) = Args (flutter_meaning c)"
proof -
  have "\<exists>h. map_get rd_table (fst (flutter_text c)) = Some (NeedsRd, h) \<and> h (snd (flutter_text c)) = Args (flutter_meaning c)"
    using assms by (cases c) (simp_all add: rd_table_def setRdHandlers_def misread_def privacy_text_def js_bool_string_def
        text_of_def arg_of_def read_json_def parseJson_def catching_def read_logon_def text_fld_def fld_def obj_get_def read_key_flags)
  then show ?thesis by (auto simp: read_rd)
qed

lemma text_fld_cases: "fld d name = JStr s \<Longrightarrow> text_fld d name = Some s" "fld d name = JNull \<Longrightarrow> text_fld d name = Some ''''"
  by (simp_all add: text_fld_def)

lemma read_session_start:
  "read_session (JObj [(''session_id'', JStr sid), (''id'', JStr i), (''password'', (case password of None \<Rightarrow> JNull | Some p \<Rightarrow> JStr p))])
     = Some \<lparr>sd_session_id = sid, sd_id = i, sd_isFileTransfer = False, sd_conn_token = None, sd_password = nullish password ''''\<rparr>"
  by (cases password) (simp_all add: read_session_def text_fld_cases fld_def obj_get_def)

lemma read_session_add:
  "token_text connToken \<Longrightarrow>
   read_session (JObj ([(''session_id'', JStr sid), (''id'', JStr i), (''password'', JStr password),
        (''is_shared_password'', JBool shared), (''isFileTransfer'', JBool ft)]
        @ (case connToken of None \<Rightarrow> [] | Some t \<Rightarrow> [(''conn_token'', t)])))
     = Some \<lparr>sd_session_id = sid, sd_id = i, sd_isFileTransfer = ft, sd_conn_token = connToken, sd_password = password\<rparr>"
  by (cases connToken) (auto simp: read_session_def text_fld_cases fld_def obj_get_def token_text_def split: jval.split)

lemma read_common_call:
  assumes "\<nexists>r. flutter_meaning c = RdRequest r" "\<And>req. c \<noteq> CallFt req"
    and "\<And>sid i pw shared ft t. c = CallAddSync sid i pw shared ft t \<Longrightarrow> token_text t"
  shows "read_call (flutter_text c) = Args (flutter_meaning c)"
proof -
  have "\<exists>n h. map_get setCommonHandlers (fst (flutter_text c)) = Some (n, h) \<and> h (snd (flutter_text c)) = Args (flutter_meaning c)"
  proof (cases c)
    case (CallStart sid i password)
    then show ?thesis
      using start_text_Some [of sid i password] read_session_start [of sid i password]
      by (simp add: setCommonHandlers_def read_json_def arg_of_def catching_def)
  next
    case (CallAddSync sid i password shared ft connToken)
    then show ?thesis
      using assms(3) read_session_add [of connToken sid i password shared ft]
      by (simp add: setCommonHandlers_def read_json_def arg_of_def catching_def)
  qed (use assms in \<open>simp_all add: setCommonHandlers_def reading text_of_def\<close>)
  then show ?thesis by (auto simp: read_common)
qed



text \<open>
  C30: whatever the user asks for, the privacy mode call of Flutter switches the privacy mode of
  the peer off: Flutter sends an object, the bridge compares its text with \<open>true\<close>.
\<close>

theorem privacy_mode_call_switches_off:
  "\<exists>r. read_call (flutter_text (CallTogglePrivacyMode implKey b)) = Args (RdRequest (RdReq r))
     \<and> run_rd E now isDesktop r c = send_option E (createBaseOptionMessage\<lparr>OptionMessage_privacy_mode := bool_No\<rparr>) c"
proof -
  have "\<exists>h. map_get rd_table ''toggle_privacy_mode'' = Some (NeedsRd, h)
      \<and> h (JJson (JObj [(''impl_key'', JStr implKey), (''on'', JBool b)])) = Args (RdRequest (RdReq (TogglePrivacyMode ''false'')))"
    by (simp add: rd_table_def setRdHandlers_def privacy_text_def)
  then have "read_call (flutter_text (CallTogglePrivacyMode implKey b)) = Args (RdRequest (RdReq (TogglePrivacyMode ''false'')))"
    by (auto simp: read_rd)
  then show ?thesis by (simp add: togglePrivacyMode_def)
qed

text \<open>
  The display to switch to is not read from the object that Flutter sends, and the second factor
  goes to the peer as the whole object.
\<close>

lemma misread_display_and_code:
  "read_call (flutter_text (CallSwitchDisplay isDesktop sid displays)) = IllTyped"
  "read_call (flutter_text (CallSend2Fa ''123'' trust)) = Args (RdRequest (RdReq (Send2fa
     (''{'' @ json_quote ''code'' @ '':'' @ json_quote ''123'' @ '','' @ json_quote ''trust_this_device'' @ '':'' @ js_bool_string trust @ ''}''))))"
proof -
  have "\<exists>h. map_get rd_table ''switch_display'' = Some (NeedsRd, h) \<and> (\<forall>v. h (JJson v) = IllTyped)"
    by (simp add: rd_table_def setRdHandlers_def as_int_def arg_of_def)
  then show "read_call (flutter_text (CallSwitchDisplay isDesktop sid displays)) = IllTyped" by (auto simp: read_rd)
  have "\<exists>h. map_get rd_table ''send_2fa'' = Some (NeedsRd, h)
      \<and> (\<forall>v. h v = map_arg RdRequest (map_arg (RdReq \<circ> Send2fa) (arg_of (text_of v))))"
    by (simp add: rd_table_def setRdHandlers_def)
  then show "read_call (flutter_text (CallSend2Fa ''123'' trust)) = Args (RdRequest (RdReq (Send2fa
     (''{'' @ json_quote ''code'' @ '':'' @ json_quote ''123'' @ '','' @ json_quote ''trust_this_device'' @ '':'' @ js_bool_string trust @ ''}''))))"
    by (auto simp: read_rd text_of_def arg_of_def)
qed

end
