(* ===== verification/Ft_Download.thy ===== *)
theory Ft_Download
  imports Fifo_Queue Ft_Connection
begin

text \<open>
  The download queue of \<open>flutter/js/src/connections/ft_connection.ts\<close>: requested downloads are
  asked for one save dialog at a time.  The queue satisfies the contract of a first-in-first-out
  queue, with the item whose dialog is open at its head.
\<close>

section \<open>The queue\<close>

type_synonym answer = "int \<times> picker_behaviour"

definition request_download :: "int \<Rightarrow> download_item \<Rightarrow> ftconn \<times> disk \<Rightarrow> ftconn \<times> disk" where
  "request_download now item s =
     (sendFiles now (di_id item) (di_path item) (di_to item) (di_fileNum item) (di_includeHidden item) True
        (di_isDir item) (fst s), snd s)"

definition answer_dialog :: "env \<Rightarrow> answer \<Rightarrow> ftconn \<times> disk \<Rightarrow> ftconn \<times> disk" where
  "answer_dialog E ans s = dialog_answered E (fst ans) (snd ans) s"

text \<open>The items that are not finished: the one whose dialog is open, and those behind it.\<close>

definition pending_downloads :: "ftconn \<times> disk \<Rightarrow> download_item list" where
  "pending_downloads s =
     (case ft_awaitingPick (fst s) of None \<Rightarrow> [] | Some item \<Rightarrow> [item]) @ ft_downloadQueue (fst s)"

text \<open>
  A dialog is open exactly while the queue runs, nothing waits without one, and the job of
  the open dialog has no save target yet.
\<close>

definition queue_ok :: "ftconn \<Rightarrow> bool" where
  "queue_ok c \<longleftrightarrow> ft_downloadQueueRunning c = (ft_awaitingPick c \<noteq> None)
     \<and> (ft_awaitingPick c = None \<longrightarrow> ft_downloadQueue c = [])
     \<and> (case ft_awaitingPick c of None \<Rightarrow> True
        | Some item \<Rightarrow> (case map_get (write_jobs c) (di_id item) of None \<Rightarrow> True | Some job \<Rightarrow> wj_saveTarget job = None))"

lemma continue_queue_ok: "ft_downloadQueueRunning c \<Longrightarrow> queue_ok (continue_queue now c)"
  by (simp add: queue_ok_def continue_queue_def createDownloadJob_def newWriteJob_def map_get_set Let_def split: list.split)

lemma continue_queue_pending: "pending_downloads (continue_queue now c, dk) = ft_downloadQueue c"
  by (simp add: pending_downloads_def continue_queue_def split: list.split prod.split)

lemma ensureTarget_kept:
  assumes "ensureDownloadSaveTarget bh i (c, dk) = (ok, c', dk')"
  shows "ft_downloadQueue c' = ft_downloadQueue c" "ft_downloadQueueRunning c' = ft_downloadQueueRunning c"
    "b_ws c' = b_ws c" "b_out c' = b_out c" "b_sessionId c' = b_sessionId c"
  using assms by (auto simp: ensureDownloadSaveTarget_def Let_def put_write_def
      split: option.splits if_splits prod.splits pick_result.splits)

text \<open>The dialog is refused exactly when the user aborts it.\<close>

definition refused_by_user :: "picker_behaviour \<Rightarrow> bool" where
  "refused_by_user bh \<longleftrightarrow> bh = PickerThrows ''AbortError''"

lemma ensureTarget_outcome:
  assumes "case map_get (write_jobs c) i of None \<Rightarrow> True | Some job \<Rightarrow> wj_saveTarget job = None"
  shows "fst (ensureDownloadSaveTarget bh i (c, dk)) = (\<not> refused_by_user bh)"
  using assms by (cases bh)
    (auto simp: ensureDownloadSaveTarget_def openSaveFilePicker_def refused_by_user_def Let_def split: option.splits)

text \<open>What answering the dialog of an item does.\<close>

definition download_outcome :: "env \<Rightarrow> download_item \<Rightarrow> picker_behaviour \<Rightarrow> ftconn \<Rightarrow> ftconn \<Rightarrow> bool" where
  "download_outcome E item bh c c' \<longleftrightarrow> b_sessionId c' = b_sessionId c
     \<and> (if refused_by_user bh
        then b_ws c' = b_ws c \<and> b_out c' = b_out c @ [job_error (di_id item) (di_fileNum item) ''Download cancelled'' (b_sessionId c)]
        else b_ws c' = map_option (ws_sendMessage E (sendAction (di_id item) (di_path item) (di_fileNum item) (di_includeHidden item))) (b_ws c)
          \<and> b_out c' = b_out c)"

lemma continue_queue_kept [simp]:
  "b_ws (continue_queue now c) = b_ws c" "b_out (continue_queue now c) = b_out c"
  "b_sessionId (continue_queue now c) = b_sessionId c"
  by (simp_all add: continue_queue_def split: list.split prod.split)

lemma answer_outcome:
  assumes "queue_ok (fst s)" "ft_awaitingPick (fst s) = Some item"
  shows "queue_ok (fst (answer_dialog E (now, bh) s))"
    and "pending_downloads (answer_dialog E (now, bh) s) = ft_downloadQueue (fst s)"
    and "download_outcome E item bh (fst s) (fst (answer_dialog E (now, bh) s))"
proof -
  obtain c dk where s: "s = (c, dk)" by (cases s)
  obtain ok c1 dk1 where e: "ensureDownloadSaveTarget bh (di_id item) (c, dk) = (ok, c1, dk1)" by (metis prod_cases3)
  have ok: "ok = (\<not> refused_by_user bh)"
    using ensureTarget_outcome [of c "di_id item" bh dk] assms s e by (simp add: queue_ok_def)
  let ?c2 = "if ok then sendMessage E (sendAction (di_id item) (di_path item) (di_fileNum item) (di_includeHidden item)) c1
     else pushJobError (di_id item) (di_fileNum item) ''Download cancelled'' (drop_job (di_id item) c1)"
  have a: "answer_dialog E (now, bh) s = (continue_queue now ?c2, dk1)"
    using assms(2) s e by (simp add: answer_dialog_def dialog_answered_def)
  have kept: "ft_downloadQueue ?c2 = ft_downloadQueue c" "ft_downloadQueueRunning ?c2"
    using ensureTarget_kept [OF e] assms s by (simp_all add: sendMessage_def pushJobError_def drop_job_def queue_ok_def)
  show "queue_ok (fst (answer_dialog E (now, bh) s))" using continue_queue_ok [OF kept(2)] by (simp add: a)
  show "pending_downloads (answer_dialog E (now, bh) s) = ft_downloadQueue (fst s)"
    unfolding a continue_queue_pending by (simp only: kept s fst_conv)
  show "download_outcome E item bh (fst s) (fst (answer_dialog E (now, bh) s))"
    using ensureTarget_kept [OF e] ok
    by (simp add: download_outcome_def a [unfolded s] s sendMessage_def pushJobError_def drop_job_def)
qed

lemma answer_nothing: "ft_awaitingPick (fst s) = None \<Longrightarrow> answer_dialog E ans s = s"
  by (simp add: answer_dialog_def dialog_answered_def)

lemma request_queued:
  assumes "queue_ok (fst s)"
  shows "queue_ok (fst (request_download now item s))" "pending_downloads (request_download now item s) = pending_downloads s @ [item]"
proof -
  obtain c dk where s: "s = (c, dk)" by (cases s)
  let ?c = "c\<lparr>ft_downloadQueue := ft_downloadQueue c @ [item]\<rparr>"
  have r: "request_download now item (c, dk) = (processDownloadQueue now ?c, dk)"
    by (cases item) (simp add: request_download_def sendFiles_def)
  show "queue_ok (fst (request_download now item s))"
  proof (cases "ft_downloadQueueRunning c")
    case True
    then show ?thesis using assms unfolding s r by (auto simp: processDownloadQueue_def queue_ok_def)
  next
    case False
    then show ?thesis using continue_queue_ok unfolding s r by (simp add: processDownloadQueue_def)
  qed
  show "pending_downloads (request_download now item s) = pending_downloads s @ [item]"
  proof (cases "ft_downloadQueueRunning c")
    case True
    then show ?thesis unfolding s r by (simp add: processDownloadQueue_def pending_downloads_def)
  next
    case False
    then show ?thesis using assms continue_queue_pending [of now "?c\<lparr>ft_downloadQueueRunning := True\<rparr>" dk]
      unfolding s r by (simp add: processDownloadQueue_def pending_downloads_def queue_ok_def)
  qed
qed

interpretation downloads: fifo_queue "\<lambda>q. request_download (fst q) (snd q)" snd "answer_dialog E"
  pending_downloads "\<lambda>s. queue_ok (fst s)" for E
proof
  fix s :: "ftconn \<times> disk" and q :: "int \<times> download_item" and ans :: answer assume ok: "queue_ok (fst s)"
  show "queue_ok (fst (request_download (fst q) (snd q) s))"
    "pending_downloads (request_download (fst q) (snd q) s) = pending_downloads s @ [snd q]"
    using request_queued [OF ok] by simp_all
  show "queue_ok (fst (answer_dialog E ans s))" "pending_downloads (answer_dialog E ans s) = tl (pending_downloads s)"
  proof -
    have "queue_ok (fst (answer_dialog E ans s)) \<and> pending_downloads (answer_dialog E ans s) = tl (pending_downloads s)"
    proof (cases "ft_awaitingPick (fst s)")
      case None
      then show ?thesis using ok by (simp add: answer_nothing pending_downloads_def queue_ok_def)
    next
      case (Some item)
      then show ?thesis using answer_outcome(1,2) [OF ok Some, where E = E and now = "fst ans" and bh = "snd ans"]
        by (simp add: pending_downloads_def)
    qed
    then show "queue_ok (fst (answer_dialog E ans s))"
      "pending_downloads (answer_dialog E ans s) = tl (pending_downloads s)" by simp_all
  qed
qed

section \<open>Downloads in the order of the requests\<close>

text \<open>Requests of the user and answers to save dialogs, as they come.\<close>

type_synonym download_event = "(int \<times> download_item, answer) queue_event"

fun download_step :: "env \<Rightarrow> download_event \<Rightarrow> ftconn \<times> disk \<Rightarrow> ftconn \<times> disk" where
  "download_step E (Request q) s = request_download (fst q) (snd q) s"
| "download_step E (Answer ans) s = answer_dialog E ans s"

definition run_downloads :: "env \<Rightarrow> download_event list \<Rightarrow> ftconn \<times> disk \<Rightarrow> ftconn \<times> disk" where
  "run_downloads E es s = fold (download_step E) es s"

lemma run_downloads_run: "run_downloads E es s = downloads.run E es s"
  by (induction es s rule: downloads.run.induct [of _ E]) (simp_all add: run_downloads_def)

text \<open>The requests that go to the peer, and the refusals that are reported.\<close>

definition sent_requests :: "(download_item \<times> answer) list \<Rightarrow> Message list" where
  "sent_requests ps = map (\<lambda>(item, ans). sendAction (di_id item) (di_path item) (di_fileNum item) (di_includeHidden item))
     (filter (\<lambda>(item, ans). \<not> refused_by_user (snd ans)) ps)"

definition reported_refusals :: "string option \<Rightarrow> (download_item \<times> answer) list \<Rightarrow> emission list" where
  "reported_refusals sid ps = map (\<lambda>(item, ans). job_error (di_id item) (di_fileNum item) ''Download cancelled'' sid)
     (filter (\<lambda>(item, ans). refused_by_user (snd ans)) ps)"

definition downloads_outcome :: "env \<Rightarrow> (download_item \<times> answer) list \<Rightarrow> ftconn \<Rightarrow> ftconn \<Rightarrow> bool" where
  "downloads_outcome E ps c c' \<longleftrightarrow> b_sessionId c' = b_sessionId c
     \<and> b_ws c' = map_option (fold (ws_sendMessage E) (sent_requests ps)) (b_ws c)
     \<and> b_out c' = b_out c @ reported_refusals (b_sessionId c) ps"

lemma outcome_cons:
  "download_outcome E item (snd ans) c c1 \<Longrightarrow> downloads_outcome E ps c1 c' \<Longrightarrow> downloads_outcome E ((item, ans) # ps) c c'"
  by (auto simp: download_outcome_def downloads_outcome_def sent_requests_def reported_refusals_def option.map_comp o_def
      split: if_splits)

lemma request_silent:
  "b_sessionId (fst (request_download now item s)) = b_sessionId (fst s)"
  "b_ws (fst (request_download now item s)) = b_ws (fst s)" "b_out (fst (request_download now item s)) = b_out (fst s)"
  by (simp_all add: request_download_def sendFiles_def processDownloadQueue_def)

lemma run_outcome:
  "queue_ok (fst s) \<Longrightarrow> downloads_outcome E (downloads.served E es s) (fst s) (fst (downloads.run E es s))"
proof (induction es s rule: downloads.run.induct [of _ E])
  case (1 s)
  then show ?case
    by (simp add: downloads_outcome_def sent_requests_def reported_refusals_def option.map_id flip: id_def)
next
  case (2 q es s)
  then show ?case using request_queued(1) [OF 2(2)] by (simp add: downloads_outcome_def request_silent)
next
  case (3 ans es s)
  show ?case
  proof (cases "ft_awaitingPick (fst s)")
    case None
    then have "pending_downloads s = []" using 3(2) by (simp add: pending_downloads_def queue_ok_def)
    with None 3 show ?thesis by (simp add: answer_nothing)
  next
    case (Some item)
    note a = answer_outcome [OF 3(2) Some, where E = E and now = "fst ans" and bh = "snd ans", unfolded prod.collapse]
    have p: "pending_downloads s = item # ft_downloadQueue (fst s)" using Some by (simp add: pending_downloads_def)
    show ?thesis using outcome_cons [OF a(3) 3(1) [OF a(1)]] p by simp
  qed
qed


definition sample_item :: "int \<Rightarrow> download_item" where
  "sample_item i = \<lparr>di_id = i, di_path = ''/f'', di_to = ''f'', di_fileNum = 0, di_includeHidden = False, di_isDir = False\<rparr>"


end
