(* ===== verification/Viewer_Init.thy ===== *)
theory Viewer_Init
  imports Bridge_Errors
begin

text \<open>
  \<open>flutter/js/src/bridge/init.js\<close>: the message with which the page that opened the viewer
  starts its session.  Any page may post messages to the viewer's window at any time, so the
  handler checks where a message comes from.
\<close>

section \<open>State\<close>

text \<open>
  \<open>pg_connects\<close> are the calls of \<open>connect\<close> with the client, the decrypted token and the remote
  session, in order.
\<close>

record page =
  pg_sessionStarted :: bool
  pg_parentOrigin :: string
  pg_opener :: nat
  pg_hasPrivateKey :: bool
  pg_connects :: "(string \<times> string \<times> string) list"

text \<open>A posted message; a missing field is the empty text.\<close>

record post =
  po_type :: string
  po_remoteSessionId :: string
  po_clientId :: string
  po_encryptedToken :: string
  po_server :: string
  po_key :: string
  po_origin :: string
  po_source :: nat

text \<open>\<open>err.message\<close>, which only errors and objects have.\<close>

fun err_message :: "unknown \<Rightarrow> jval" where
  "err_message (UError n m) = JStr m"
| "err_message (UObject fs t) = obj_get fs ''message''"
| "err_message _ = JUndefined"

definition err_text :: "unknown \<Rightarrow> string" where
  "err_text e = (case err_message e of JStr m \<Rightarrow> str_or m (js_String e) | _ \<Rightarrow> js_String e)"

definition ack :: "bool \<Rightarrow> jval \<Rightarrow> emission" where
  "ack result err = PostToParent ([(''type'', JStr ''ACK''), (''result'', JBool result)]
     @ (if result \<or> err = JUndefined then [] else [(''error'', err)]))"

section \<open>The handler\<close>

text \<open>The checks before anything happens.\<close>

definition post_accepted :: "page \<Rightarrow> post \<Rightarrow> bool" where
  "post_accepted pg m \<longleftrightarrow> po_type m = ''REMOTE_SESSION_READY''
     \<and> po_remoteSessionId m \<noteq> '''' \<and> po_clientId m \<noteq> '''' \<and> po_encryptedToken m \<noteq> '''' \<and> po_server m \<noteq> '''' \<and> po_key m \<noteq> ''''
     \<and> \<not> pg_sessionStarted pg \<and> po_origin m = pg_parentOrigin pg \<and> po_source m = pg_opener pg"

text \<open>\<open>decryptToken\<close> and \<open>connect\<close> may throw; \<open>connect\<close> tells whether it succeeded.\<close>

definition on_message ::
    "env \<Rightarrow> bool \<Rightarrow> (string \<Rightarrow> unknown + string) \<Rightarrow> (string \<times> string \<times> string \<Rightarrow> unknown + bool) \<Rightarrow> post
       \<Rightarrow> page \<times> world \<Rightarrow> page \<times> world" where
  "on_message E parent decryptToken connect m s =
     (let (pg, w) = s
      in if \<not> post_accepted pg m then s
         else if \<not> pg_hasPrivateKey pg then
           (let w1 = showFatalError E parent ''Error'' ''viewer not initialized'' ''error'' w
            in (pg, w1\<lparr>w_out := w_out w1 @ [ack False (JStr ''viewer not initialized'')]\<rparr>))
         else
           (let pg1 = pg\<lparr>pg_sessionStarted := True\<rparr>;
                w1 = w\<lparr>w_out := w_out w @ [StoreItem ''override:custom-rendezvous-server'' (po_server m),
                                          StoreItem ''override:key'' (po_key m)]\<rparr>;
                failed = (\<lambda>pg e. (let w2 = showFatalError E parent ''Error'' (err_text e) ''error'' w1
                                 in (pg, w2\<lparr>w_out := w_out w2 @ [ack False (err_message e)]\<rparr>)))
            in case decryptToken (po_encryptedToken m) of
                 Inl e \<Rightarrow> failed pg1 e
               | Inr token \<Rightarrow>
                   (let call = (po_clientId m, token, po_remoteSessionId m);
                        pg2 = pg1\<lparr>pg_connects := pg_connects pg1 @ [call]\<rparr>
                    in case connect call of
                         Inl e \<Rightarrow> failed pg2 e
                       | Inr result \<Rightarrow> (pg2, w1\<lparr>w_out := w_out w1 @ [ack result JUndefined]\<rparr>))))"

section \<open>Only the opener starts a session, and once\<close>

text \<open>What the handler never changes, and how it may call \<open>connect\<close>.\<close>

definition page_step :: "(string \<Rightarrow> unknown + string) \<Rightarrow> post \<Rightarrow> page \<Rightarrow> page \<Rightarrow> bool" where
  "page_step decryptToken m pg pg' \<longleftrightarrow>
     pg_parentOrigin pg' = pg_parentOrigin pg \<and> pg_opener pg' = pg_opener pg
     \<and> (pg_sessionStarted pg \<longrightarrow> pg_sessionStarted pg')
     \<and> (pg_connects pg' = pg_connects pg
        \<or> post_accepted pg m \<and> pg_sessionStarted pg' \<and> (\<exists>token. decryptToken (po_encryptedToken m) = Inr token
            \<and> pg_connects pg' = pg_connects pg @ [(po_clientId m, token, po_remoteSessionId m)]))"

lemma on_message_step:
  "page_step decryptToken m pg (fst (on_message E parent decryptToken connect m (pg, w)))"
  by (auto simp: on_message_def page_step_def Let_def split: sum.split)

definition runs :: "env \<Rightarrow> bool \<Rightarrow> (string \<Rightarrow> unknown + string) \<Rightarrow> (string \<times> string \<times> string \<Rightarrow> unknown + bool) \<Rightarrow> post list
       \<Rightarrow> page \<times> world \<Rightarrow> page \<times> world" where
  "runs E parent decryptToken connect ms s = fold (on_message E parent decryptToken connect) ms s"

lemma runs_invariant:
  assumes "\<not> pg_sessionStarted (fst s)" "pg_connects (fst s) = []"
  shows "let pg' = fst (runs E parent decryptToken connect ms s) in
      pg_parentOrigin pg' = pg_parentOrigin (fst s) \<and> pg_opener pg' = pg_opener (fst s)
    \<and> (pg_connects pg' = [] \<or> pg_sessionStarted pg' \<and> (\<exists>m \<in> set ms. \<exists>token. post_accepted (fst s) m
          \<and> decryptToken (po_encryptedToken m) = Inr token
          \<and> pg_connects pg' = [(po_clientId m, token, po_remoteSessionId m)]))"
  unfolding Let_def
proof (induction ms rule: rev_induct)
  case Nil
  then show ?case using assms(2) by (simp add: runs_def)
next
  case (snoc m ms)
  let ?s = "runs E parent decryptToken connect ms s"
  have s': "runs E parent decryptToken connect (ms @ [m]) s = on_message E parent decryptToken connect m ?s"
    by (simp add: runs_def)
  have step: "page_step decryptToken m (fst ?s) (fst (runs E parent decryptToken connect (ms @ [m]) s))"
    using on_message_step [of decryptToken m "fst ?s" E parent connect "snd ?s"] by (simp add: s')
  show ?case
  proof (cases "pg_sessionStarted (fst ?s)")
    case True
    with step snoc.IH show ?thesis by (auto simp: page_step_def post_accepted_def)
  next
    case False
    with snoc.IH have "pg_connects (fst ?s) = []" by blast
    moreover have "post_accepted (fst s) m" if "post_accepted (fst ?s) m"
      using that snoc.IH assms(1) by (simp add: post_accepted_def)
    ultimately show ?thesis using step snoc.IH by (auto simp: page_step_def)
  qed
qed

text \<open>
  Whatever messages are posted to the viewer's window, a session is connected at most once,
  and only for a complete message that came from the page that opened the viewer and from its
  origin, with the token that the message's own ciphertext decrypts to.
\<close>

theorem session_started_once_by_opener:
  assumes "\<not> pg_sessionStarted pg" and "pg_connects pg = []"
  shows "let pg' = fst (runs E parent decryptToken connect ms (pg, w)) in
     pg_connects pg' = [] \<or>
     (\<exists>m \<in> set ms. \<exists>token. po_source m = pg_opener pg \<and> po_origin m = pg_parentOrigin pg
        \<and> po_clientId m \<noteq> '''' \<and> po_remoteSessionId m \<noteq> '''' \<and> decryptToken (po_encryptedToken m) = Inr token
        \<and> pg_connects pg' = [(po_clientId m, token, po_remoteSessionId m)])"
  using runs_invariant [of "(pg, w)" E parent decryptToken connect ms] assms
  by (auto simp: Let_def post_accepted_def)

theorem session_started_once_by_opener_witness:
  "let pg = \<lparr>pg_sessionStarted = False, pg_parentOrigin = ''https://p'', pg_opener = 1, pg_hasPrivateKey = True, pg_connects = []\<rparr>;
       m = \<lparr>po_type = ''REMOTE_SESSION_READY'', po_remoteSessionId = ''r'', po_clientId = ''c'', po_encryptedToken = ''t'',
             po_server = ''s'', po_key = ''k'', po_origin = ''https://p'', po_source = 1\<rparr>;
       other = m\<lparr>po_clientId := ''evil'', po_source := 2\<rparr>;
       pg' = fst (runs plain_env True (\<lambda>t. Inr t) (\<lambda>_. Inr True) [other, m, m] (pg, no_sessions))
   in pg_connects pg' = [(''c'', ''t'', ''r'')]"
proof -
  define pg where "pg = \<lparr>pg_sessionStarted = False, pg_parentOrigin = ''https://p'', pg_opener = 1, pg_hasPrivateKey = True, pg_connects = []\<rparr>"
  define m where "m = \<lparr>po_type = ''REMOTE_SESSION_READY'', po_remoteSessionId = ''r'', po_clientId = ''c'', po_encryptedToken = ''t'',
             po_server = ''s'', po_key = ''k'', po_origin = ''https://p'', po_source = 1\<rparr>"
  define pg' where "pg' = fst (runs plain_env True (\<lambda>t. Inr t) (\<lambda>_. Inr True) [m\<lparr>po_clientId := ''evil'', po_source := 2\<rparr>, m, m] (pg, no_sessions))"
  have "pg_connects pg' \<noteq> []"
    by (simp add: pg'_def runs_def on_message_def post_accepted_def pg_def m_def Let_def)
  then have "pg_connects pg' = [(''c'', ''t'', ''r'')]"
    using session_started_once_by_opener [of pg plain_env True "\<lambda>t. Inr t" "\<lambda>_. Inr True" "[m\<lparr>po_clientId := ''evil'', po_source := 2\<rparr>, m, m]" no_sessions]
    by (simp add: pg_def m_def pg'_def Let_def)
  then show ?thesis
    by (simp add: pg_def m_def pg'_def)
qed

end
