(* ===== verification/Viewer_Start.thy ===== *)
theory Viewer_Start
  imports Viewer_Init Config_Helper
begin

text \<open>
  \<open>flutter/js/src/bridge/init.js\<close> as it runs: the handler of the parent page's message waits
  three times, for the decryption of the token, for Flutter to set \<open>window.connect\<close>, and for the
  call of it, and in between anything else may happen.  \<open>on_message\<close> of \<open>Viewer_Init\<close> is the
  handler run in one go.
\<close>

section \<open>State\<close>

text \<open>Where the handler of the message that started the session is.\<close>

datatype start_phase =
    Idle
  | Decrypting post
  | AwaitingConnect post string
  | Connecting post string
  | Settled

text \<open>\<open>sp_connect\<close>: whether \<open>window.connect\<close> has been set, which resolves \<open>_connectReadyPromise\<close>.\<close>

record start_page =
  sp_page :: page
  sp_phase :: start_phase
  sp_connect :: bool

datatype start_event =
    Posted post
  | TokenDecrypted
  | ConnectSet
  | ConnectDone

section \<open>The handler, step by step\<close>

text \<open>The \<open>catch\<close> branch.\<close>

definition start_failed :: "env \<Rightarrow> bool \<Rightarrow> unknown \<Rightarrow> start_page \<times> world \<Rightarrow> start_page \<times> world" where
  "start_failed E parent e s =
     (let (sp, w) = s; w1 = showFatalError E parent ''Error'' (err_text e) ''error'' w
      in (sp\<lparr>sp_phase := Settled\<rparr>, w1\<lparr>w_out := w_out w1 @ [ack False (err_message e)]\<rparr>))"

text \<open>\<open>_connectImpl(clientId, token, remoteSessionId)\<close> is called.\<close>

definition call_connect :: "post \<Rightarrow> string \<Rightarrow> start_page \<Rightarrow> start_page" where
  "call_connect m token sp =
     (let pg = sp_page sp
      in sp\<lparr>sp_page := pg\<lparr>pg_connects := pg_connects pg @ [(po_clientId m, token, po_remoteSessionId m)]\<rparr>,
            sp_phase := Connecting m token\<rparr>)"

definition message_arrives :: "env \<Rightarrow> bool \<Rightarrow> post \<Rightarrow> start_page \<times> world \<Rightarrow> start_page \<times> world" where
  "message_arrives E parent m s =
     (let (sp, w) = s; pg = sp_page sp
      in if \<not> post_accepted pg m then s
         else if \<not> pg_hasPrivateKey pg then
           (let w1 = showFatalError E parent ''Error'' ''viewer not initialized'' ''error'' w
            in (sp, w1\<lparr>w_out := w_out w1 @ [ack False (JStr ''viewer not initialized'')]\<rparr>))
         else (sp\<lparr>sp_page := pg\<lparr>pg_sessionStarted := True\<rparr>, sp_phase := Decrypting m\<rparr>,
               w\<lparr>w_out := w_out w @ [StoreItem ''override:custom-rendezvous-server'' (po_server m),
                                    StoreItem ''override:key'' (po_key m)]\<rparr>))"

fun start_step ::
    "env \<Rightarrow> bool \<Rightarrow> (string \<Rightarrow> unknown + string) \<Rightarrow> (string \<times> string \<times> string \<Rightarrow> unknown + bool) \<Rightarrow> start_event
       \<Rightarrow> start_page \<times> world \<Rightarrow> start_page \<times> world" where
  "start_step E parent decryptToken connect (Posted m) s = message_arrives E parent m s"
| "start_step E parent decryptToken connect TokenDecrypted (sp, w) =
     (case sp_phase sp of
        Decrypting m \<Rightarrow>
          (case decryptToken (po_encryptedToken m) of
             Inl e \<Rightarrow> start_failed E parent e (sp, w)
           | Inr token \<Rightarrow>
               (if sp_connect sp then call_connect m token sp else sp\<lparr>sp_phase := AwaitingConnect m token\<rparr>, w))
      | _ \<Rightarrow> (sp, w))"
| "start_step E parent decryptToken connect ConnectSet (sp, w) =
     (let sp1 = sp\<lparr>sp_connect := True\<rparr>
      in (case sp_phase sp of AwaitingConnect m token \<Rightarrow> call_connect m token sp1 | _ \<Rightarrow> sp1, w))"
| "start_step E parent decryptToken connect ConnectDone (sp, w) =
     (case sp_phase sp of
        Connecting m token \<Rightarrow>
          (case connect (po_clientId m, token, po_remoteSessionId m) of
             Inl e \<Rightarrow> start_failed E parent e (sp, w)
           | Inr result \<Rightarrow> (sp\<lparr>sp_phase := Settled\<rparr>, w\<lparr>w_out := w_out w @ [ack result JUndefined]\<rparr>))
      | _ \<Rightarrow> (sp, w))"

definition fresh_page :: "page \<Rightarrow> start_page" where
  "fresh_page pg = \<lparr>sp_page = pg, sp_phase = Idle, sp_connect = False\<rparr>"

section \<open>window.init\<close>

text \<open>
  The configuration of the page is stored, the decoder of sounds is bound and the one of videos
  is being loaded; Flutter is told when the decompressor is ready, and never if it fails to
  load (\<open>zstd_ready = False\<close>).
\<close>

definition window_init :: "(string \<Rightarrow> string option) \<Rightarrow> string option \<Rightarrow> bool \<Rightarrow> storage \<Rightarrow> storage \<times> bool" where
  "window_init atob el zstd_ready st = (loadCustomConfig atob el st, zstd_ready)"

section \<open>One go and step by step\<close>

text \<open>
  The handler run in one go is the handler run step by step without anything in between:
  both leave the same page, the same sessions and the same reports.
\<close>

theorem start_steps_refine:
  assumes "sp_phase sp = Idle" and "\<not> sp_connect sp"
  shows "let (sp', w') = fold (start_step E parent decryptToken connect) [Posted m, TokenDecrypted, ConnectSet, ConnectDone] (sp, w)
     in (sp_page sp', w') = on_message E parent decryptToken connect m (sp_page sp, w)"
  using assms
  by (cases "decryptToken (po_encryptedToken m)"; cases "connect (po_clientId m, projr (decryptToken (po_encryptedToken m)), po_remoteSessionId m)")
     (auto simp: on_message_def message_arrives_def start_failed_def call_connect_def Let_def)

section \<open>Only the opener starts a session, and once\<close>

text \<open>
  What holds after the events \<open>es\<close>: the handler of at most one accepted message is under way,
  and \<open>connect\<close> was called at most once, for that message, after it was set.
\<close>

definition connected_for :: "(string \<Rightarrow> unknown + string) \<Rightarrow> post \<Rightarrow> start_page \<Rightarrow> bool" where
  "connected_for decryptToken m sp \<longleftrightarrow> sp_connect sp \<and> (\<exists>token. decryptToken (po_encryptedToken m) = Inr token
     \<and> pg_connects (sp_page sp) = [(po_clientId m, token, po_remoteSessionId m)])"

fun phase_ok :: "(string \<Rightarrow> unknown + string) \<Rightarrow> (post \<Rightarrow> bool) \<Rightarrow> start_phase \<Rightarrow> start_page \<Rightarrow> bool" where
  "phase_ok decryptToken P Idle sp = (\<not> pg_sessionStarted (sp_page sp) \<and> pg_connects (sp_page sp) = [])"
| "phase_ok decryptToken P (Decrypting m) sp = (pg_sessionStarted (sp_page sp) \<and> P m \<and> pg_connects (sp_page sp) = [])"
| "phase_ok decryptToken P (AwaitingConnect m token) sp =
     (pg_sessionStarted (sp_page sp) \<and> P m \<and> pg_connects (sp_page sp) = [] \<and> decryptToken (po_encryptedToken m) = Inr token)"
| "phase_ok decryptToken P (Connecting m token) sp =
     (pg_sessionStarted (sp_page sp) \<and> P m \<and> connected_for decryptToken m sp \<and> decryptToken (po_encryptedToken m) = Inr token)"
| "phase_ok decryptToken P Settled sp =
     (pg_sessionStarted (sp_page sp) \<and> (pg_connects (sp_page sp) = [] \<or> (\<exists>m. P m \<and> connected_for decryptToken m sp)))"

definition start_inv :: "(string \<Rightarrow> unknown + string) \<Rightarrow> page \<Rightarrow> start_event list \<Rightarrow> start_page \<Rightarrow> bool" where
  "start_inv decryptToken pg es sp \<longleftrightarrow>
     pg_parentOrigin (sp_page sp) = pg_parentOrigin pg \<and> pg_opener (sp_page sp) = pg_opener pg
     \<and> (sp_connect sp \<longrightarrow> ConnectSet \<in> set es)
     \<and> phase_ok decryptToken (\<lambda>m. Posted m \<in> set es \<and> post_accepted pg m) (sp_phase sp) sp"

lemma phase_ok_mono: "phase_ok d P ph sp \<Longrightarrow> (\<And>m. P m \<Longrightarrow> Q m) \<Longrightarrow> phase_ok d Q ph sp"
  by (cases ph) auto

lemma start_inv_more: "start_inv d pg es sp \<Longrightarrow> start_inv d pg (es @ [x]) sp"
  by (auto simp: start_inv_def elim!: phase_ok_mono)

lemma start_step_inv:
  assumes "start_inv decryptToken pg es (fst s)" "\<not> pg_sessionStarted pg"
  shows "start_inv decryptToken pg (es @ [x]) (fst (start_step E parent decryptToken connect x s))"
proof -
  obtain sp w where s: "s = (sp, w)" by (cases s)
  note inv = start_inv_more [of decryptToken pg es sp x]
  show ?thesis
  proof (cases x)
    case (Posted m)
    with assms show ?thesis
      by (cases "sp_phase sp") (auto simp: s message_arrives_def start_inv_def post_accepted_def connected_for_def Let_def)
  next
    case TokenDecrypted
    with assms inv show ?thesis
      by (cases "sp_phase sp") (auto simp: s start_inv_def start_failed_def call_connect_def connected_for_def Let_def split: sum.split)
  next
    case ConnectSet
    with assms inv show ?thesis
      by (cases "sp_phase sp") (auto simp: s start_inv_def call_connect_def connected_for_def Let_def)
  next
    case ConnectDone
    with assms inv show ?thesis
      by (cases "sp_phase sp") (auto simp: s start_inv_def start_failed_def connected_for_def Let_def split: sum.split)
  qed
qed

lemma start_runs_inv:
  assumes "\<not> pg_sessionStarted pg" "pg_connects pg = []"
  shows "start_inv decryptToken pg es (fst (fold (start_step E parent decryptToken connect) es (fresh_page pg, w)))"
proof (induction es rule: rev_induct)
  case Nil
  with assms show ?case by (simp add: start_inv_def fresh_page_def)
next
  case (snoc x es)
  from start_step_inv [OF snoc.IH assms(1)] show ?case by simp
qed


definition sample_post :: post where
  "sample_post = \<lparr>po_type = ''REMOTE_SESSION_READY'', po_remoteSessionId = ''r'', po_clientId = ''c'', po_encryptedToken = ''t'',
     po_server = ''s'', po_key = ''k'', po_origin = ''https://p'', po_source = 1\<rparr>"

definition waiting_page :: page where
  "waiting_page = \<lparr>pg_sessionStarted = False, pg_parentOrigin = ''https://p'', pg_opener = 1, pg_hasPrivateKey = True, pg_connects = []\<rparr>"


theorem start_steps_refine_witness:
  "let (sp', w') = fold (start_step plain_env True Inr (\<lambda>_. Inr True)) [Posted sample_post, TokenDecrypted, ConnectSet, ConnectDone]
         (fresh_page waiting_page, no_sessions)
   in (sp_page sp', w') = on_message plain_env True Inr (\<lambda>_. Inr True) sample_post (waiting_page, no_sessions)
      \<and> pg_connects (sp_page sp') = [(''c'', ''t'', ''r'')]"
proof -
  have "sp_phase (fresh_page waiting_page) = Idle" "\<not> sp_connect (fresh_page waiting_page)" by (simp_all add: fresh_page_def)
  from start_steps_refine [OF this, of plain_env True Inr "\<lambda>_. Inr True" sample_post no_sessions] show ?thesis
    by (auto simp: sample_post_def waiting_page_def fresh_page_def message_arrives_def post_accepted_def call_connect_def)
qed

end
