(* ===== verification/Viewer_App.thy ===== *)
theory Viewer_App
  imports Requests Ft_Download Viewer_Start
begin

text \<open>
  The running viewer: the session registry with its connections, \<open>localStorage\<close>, the page, and
  the asynchronous activities that are under way.  \<open>window.setByName\<close>
  (\<open>bridge/flutter_bridge.js\<close>, \<open>bridge_context.js\<close>, \<open>dispatch.js\<close>) is one operation on it; the
  others are what the browser runs on its own: sockets that connect, receive and close, the
  timers of the message pump and of the progress reports, the polls of the message loops, save
  dialogs, the video decoder, and the start of a session by another page.
\<close>

section \<open>Connecting in two parts\<close>

text \<open>
  \<open>start\<close> of a connection up to the point where it waits for the relay, and what happens when
  the wait is over.  In between, anything else may happen to the connection.
\<close>

definition rd_prepare ::
    "(string, peer_options) jsmap \<Rightarrow> string option \<Rightarrow> string option \<Rightarrow> rdconn \<Rightarrow> rdconn" where
  "rd_prepare peers peer password c =
     (let c1 = (if opt_truthy peer then c\<lparr>b_id := the peer\<rparr> else c);
          c2 = (if opt_truthy password then c1\<lparr>b_plaintextPassword := password\<rparr> else c1)
      in prepareConnect peers (b_id c2) c2)"

definition rd_connected :: "established \<Rightarrow> rdconn \<Rightarrow> rdconn" where
  "rd_connected conn c =
     (case conn of
        Established ws ready \<Rightarrow> attach_ws ws (emit ready c)
      | ConnectError title text \<Rightarrow> rd_msgbox ''error'' title text c
      | NotEstablished \<Rightarrow> c
      | ConnectThrew e \<Rightarrow>
          rd_msgbox ''error'' ''Connection Error''
            (if exn_type e = JStr ''close'' then ''Reset by the peer'' else js_String e) c)"

lemma rd_start_parts: "rd_start peers conn peer password c = rd_connected conn (rd_prepare peers peer password c)"
  by (simp add: rd_start_def rd_connected_def rd_prepare_def Let_def)

definition ft_connected :: "env \<Rightarrow> established \<Rightarrow> nat \<Rightarrow> world \<Rightarrow> world" where
  "ft_connected E conn a w =
     (case ft_at a w of
        None \<Rightarrow> w
      | Some c \<Rightarrow>
          (let failed = (\<lambda>w. if b_ws c = None
                             then ft_not_connected E a ''Failed to connect file transfer session'' w else w)
           in case conn of
                Established ws ready \<Rightarrow> put_ft a (attach_ws ws (emit ready c)) w
              | ConnectError title text \<Rightarrow> failed (ft_reportConnectError E a title text w)
              | NotEstablished \<Rightarrow> failed w
              | ConnectThrew e \<Rightarrow>
                  ft_not_connected E a
                    (if exn_type e = JStr ''close'' then ''Reset by the peer''
                     else formatErrorMessage e FT_DISCONNECT_FALLBACK) w))"

lemma put_ft_twice:
  "ft_at a w = Some c \<Longrightarrow> b_out c1 = [] \<Longrightarrow> put_ft a c2 (put_ft a c1 w) = put_ft a c2 w"
  by (auto simp: put_ft_def on_conn_def ft_at_def map_get_set split: option.splits conn.splits)

lemma ft_at_put: "ft_at a w = Some c \<Longrightarrow> ft_at a (put_ft a c1 w) = Some (c1\<lparr>b_out := []\<rparr>)"
  by (auto simp: ft_at_def put_ft_def on_conn_get split: option.splits conn.splits)

lemma ft_start_parts:
  assumes "ft_at a w = Some c" "b_out c = []"
  shows "ft_start E peers conn peer password a w
     = ft_connected E conn a (put_ft a (ft_prepare peers peer password c) w)"
proof -
  let ?c1 = "ft_prepare peers peer password c"
  have o: "b_out ?c1 = []" using assms(2) by (simp add: ft_prepare_def prepareConnect_def startMessagePump_def Let_def)
  then have c1: "ft_at a (put_ft a ?c1 w) = Some ?c1" using ft_at_put [OF assms(1)] by simp
  show ?thesis
    using assms(1) put_ft_twice [OF assms(1) o] by (simp add: ft_start_def ft_connected_def c1 Let_def split: established.split)
qed

section \<open>State\<close>

text \<open>
  \<open>ap_views\<close> are the children of the document's body with their cursor; \<open>ap_starting\<close> the
  connections whose \<open>start\<close> waits for the relay, \<open>ap_loops\<close> those whose message loop runs,
  \<open>ap_typing\<close> the pauses of \<open>inputOsPassword\<close> with the number of the step that follows.
  Everything that was reported is in \<open>ap_log\<close>; between two events the log of the world is empty.
\<close>

record app =
  ap_world :: world
  ap_store :: store
  ap_page :: start_page
  ap_views :: "(string \<times> string) list"
  ap_starting :: "nat list"
  ap_loops :: "nat list"
  ap_typing :: "(nat \<times> string \<times> nat) list"
  ap_log :: "emission list"

text \<open>
  What a call finds in the browser: whether there is a parent page to report errors to, the
  clock and the user's answers, the order of file names, the files that are picked, and the
  kind of device.
\<close>

record input =
  in_parent :: bool
  in_moment :: moment
  in_compare :: "string comparator"
  in_files :: "jsfile list"
  in_isDesktop :: bool

definition getParentTarget :: "string \<Rightarrow> nat option \<Rightarrow> nat option \<Rightarrow> nat option" where
  "getParentTarget parentOrigin opener framing =
     (if parentOrigin \<noteq> '''' \<and> opener \<noteq> None then opener
      else if parentOrigin \<noteq> '''' \<and> framing \<noteq> None then framing
      else None)"

text \<open>The reports that write to \<open>localStorage\<close>.\<close>

fun write_back :: "emission \<Rightarrow> store \<Rightarrow> store" where
  "write_back (SavePeer peer opts) st = writePeers (map_set peer opts (getPeers st)) st"
| "write_back (StoreItem k v) st = setItem k v st"
| "write_back _ st = st"

definition absorb :: "env \<Rightarrow> bool \<Rightarrow> world \<Rightarrow> app \<Rightarrow> app" where
  "absorb E parent w s =
     (let w1 = deliver E parent (w_out w) (w\<lparr>w_out := []\<rparr>)
      in s\<lparr>ap_world := w1\<lparr>w_out := []\<rparr>, ap_store := fold write_back (w_out w1) (ap_store s),
           ap_log := ap_log s @ w_out w1\<rparr>)"

section \<open>Requests\<close>

text \<open>
  \<open>Returned\<close> with the value the caller gets, \<open>Raised\<close> with the exception that reaches it, \<open>Stuck\<close>
  when the handler does not return; \<open>Unread\<close> when the arguments are not of the declared types.
\<close>

datatype outcome = Returned jval app | Raised unknown app | Stuck | Unread

abbreviation finished :: "app \<Rightarrow> outcome" where
  "finished s \<equiv> Returned JUndefined s"

definition conn_begin ::
    "env \<Rightarrow> bool \<Rightarrow> (string, peer_options) jsmap \<Rightarrow> string \<Rightarrow> string option \<Rightarrow> nat \<Rightarrow> world \<Rightarrow> world" where
  "conn_begin E parent peers peer password a w =
     (case map_get (w_conns w) a of
        Some (FtC c) \<Rightarrow> put_ft a (ft_prepare peers (Some peer) password c) w
      | Some (RdC c) \<Rightarrow> rd_work E parent a (rd_prepare peers (Some peer) password) w
      | None \<Rightarrow> w)"

definition app_startConn :: "env \<Rightarrow> bool \<Rightarrow> string \<Rightarrow> string option \<Rightarrow> string option \<Rightarrow> app \<Rightarrow> app" where
  "app_startConn E parent peer password sid s =
     (let s1 = s\<lparr>ap_store := setItem ''remote-id'' peer (ap_store s)\<rparr>
      in case connFor sid (ap_world s1) of
           None \<Rightarrow> s1
         | Some a \<Rightarrow>
             (absorb E parent (conn_begin E parent (getPeers (ap_store s1)) peer password a (ap_world s1)) s1)
               \<lparr>ap_starting := ap_starting s1 @ [a]\<rparr>)"

definition app_sessionStart :: "env \<Rightarrow> bool \<Rightarrow> session_data \<Rightarrow> string \<Rightarrow> app \<Rightarrow> app" where
  "app_sessionStart E parent d value s =
     (case getSession (Some (sd_session_id d)) (ap_world s) of
        None \<Rightarrow> s
      | Some a \<Rightarrow>
          (let s1 = s\<lparr>ap_world := (ap_world s)\<lparr>w_curConn := Some a\<rparr>\<rparr>
           in if sd_id d \<noteq> ''''
              then app_startConn E parent (sd_id d) (if sd_password d = '''' then None else Some (sd_password d))
                     (Some (sd_session_id d)) s1
              else absorb E parent (msgbox E parent ''error'' ''Error'' (''No id found in session data '' @ value)
                     (Some '''') (ap_world s1)) s1))"

text \<open>A call of \<open>login\<close> may throw after the options have been changed.\<close>

definition app_login :: "env \<Rightarrow> input \<Rightarrow> bool \<Rightarrow> string \<Rightarrow> string \<Rightarrow> nat \<Rightarrow> app \<Rightarrow> outcome" where
  "app_login E inp rem os_username password a s =
     (let w = ap_world s; parent = in_parent inp; now = mo_now (in_moment inp); rnd = mo_rnd (in_moment inp)
      in case map_get (w_conns w) a of
           Some (FtC c) \<Rightarrow>
             (case ft_login E rnd rem os_username password c of
                Inl e \<Rightarrow> Raised e (absorb E parent (put_ft a (ft_setRemember rem c) w) s)
              | Inr c1 \<Rightarrow> finished (absorb E parent (put_ft a c1 w) s))
         | Some (RdC c) \<Rightarrow>
             (case rd_login E now rnd rem os_username password c of
                Inl e \<Rightarrow> Raised e (absorb E parent (rd_work E parent a (rd_setRemember now rem) w) s)
              | Inr c1 \<Rightarrow> finished (absorb E parent (rd_work E parent a (\<lambda>_. c1) w) s))
         | None \<Rightarrow> finished s)"

fun conn_setOption :: "int \<Rightarrow> string \<Rightarrow> jval \<Rightarrow> conn \<Rightarrow> conn" where
  "conn_setOption now name v (FtC c) = FtC (setOption now name v c)"
| "conn_setOption now name v (RdC c) = RdC (setOption now name v c)"

fun conn_setRemember :: "int \<Rightarrow> bool \<Rightarrow> conn \<Rightarrow> conn" where
  "conn_setRemember now b (FtC c) = FtC (ft_setRemember b c)"
| "conn_setRemember now b (RdC c) = RdC (rd_setRemember now b c)"

text \<open>\<open>ctx.curConn?.f()\<close>\<close>

definition on_current :: "env \<Rightarrow> bool \<Rightarrow> string option \<Rightarrow> (conn \<Rightarrow> conn) \<Rightarrow> app \<Rightarrow> app" where
  "on_current E parent sid f s =
     (case connFor sid (ap_world s) of None \<Rightarrow> s | Some a \<Rightarrow> absorb E parent (on_conn a f (ap_world s)) s)"

definition set_cursor :: "string \<Rightarrow> (string \<times> string) list \<Rightarrow> (string \<times> string) list" where
  "set_cursor style views = map (\<lambda>(tag, cur). (tag, if tag = ''FLUTTER-VIEW'' then style else cur)) views"

definition rd_restart :: "(string, peer_options) jsmap \<Rightarrow> rdconn \<Rightarrow> rdconn" where
  "rd_restart peers c = rd_prepare peers (Some (b_id c)) None (rd_close c)"

text \<open>\<open>restart\<close> and \<open>inputOsPassword\<close> go on later.\<close>

fun run_rd_call :: "env \<Rightarrow> input \<Rightarrow> string option \<Rightarrow> rd_call \<Rightarrow> app \<Rightarrow> app" where
  "run_rd_call E inp sid (RdReq req) s =
     absorb E (in_parent inp) (withRd E (in_parent inp) (mo_now (in_moment inp)) (in_isDesktop inp) sid req (ap_world s)) s"
| "run_rd_call E inp sid RestartReq s =
     (case requireRemoteDesktop sid (ap_world s) of
        None \<Rightarrow> s
      | Some a \<Rightarrow>
          (absorb E (in_parent inp) (rd_work E (in_parent inp) a (rd_restart (getPeers (ap_store s))) (ap_world s)) s)
            \<lparr>ap_starting := ap_starting s @ [a]\<rparr>)"
| "run_rd_call E inp sid (OsPasswordReq p) s =
     (case requireRemoteDesktop sid (ap_world s) of
        None \<Rightarrow> s
      | Some a \<Rightarrow>
          (absorb E (in_parent inp) (rd_work E (in_parent inp) a (inputOsPassword_steps E p ! 0) (ap_world s)) s)
            \<lparr>ap_typing := ap_typing s @ [(a, p, 1)]\<rparr>)"

fun run_request :: "env \<Rightarrow> input \<Rightarrow> string option \<Rightarrow> request \<Rightarrow> app \<Rightarrow> outcome" where
  "run_request E inp sid (FtRequest req) s =
     (case withFt E (in_moment inp) (in_compare inp) (in_files inp) sid req (ap_world s) of
        None \<Rightarrow> Stuck
      | Some w \<Rightarrow> finished (absorb E (in_parent inp) w s))"
| "run_request E inp sid (RdRequest r) s = finished (run_rd_call E inp sid r s)"
| "run_request E inp sid (StoreRequest r) s =
     finished (s\<lparr>ap_store := run_set (mo_now (in_moment inp)) r (ap_store s)\<rparr>)"
| "run_request E inp sid (LoginCall rem os_username password) s =
     (case connFor sid (ap_world s) of None \<Rightarrow> finished s | Some a \<Rightarrow> app_login E inp rem os_username password a s)"
| "run_request E inp sid CloseRequest s = finished (absorb E (in_parent inp) (bridge_close E (ap_world s)) s)"
| "run_request E inp sid (SessionOption name v) s =
     finished (on_current E (in_parent inp) sid (conn_setOption (mo_now (in_moment inp)) name v) s)"
| "run_request E inp sid Forget s =
     finished (on_current E (in_parent inp) sid (conn_setRemember (mo_now (in_moment inp)) False) s)"
| "run_request E inp sid (CursorRequest style) s = finished (s\<lparr>ap_views := set_cursor style (ap_views s)\<rparr>)"
| "run_request E inp sid (SessionAddSync d) s =
     (let (r, w) = sessionAdd d (ap_world s) in Returned (JStr r) (absorb E (in_parent inp) w s))"
| "run_request E inp sid (AddFailed m) s = Returned (JStr m) s"
| "run_request E inp sid (SessionStart d value) s = finished (app_sessionStart E (in_parent inp) d value s)"
| "run_request E inp sid (StartFailed m) s =
     finished (absorb E (in_parent inp) (msgbox E (in_parent inp) ''error'' ''Error'' m (Some '''') (ap_world s)) s)"
| "run_request E inp sid (SessionClose target) s =
     finished (absorb E (in_parent inp) (sessionClose E target (ap_world s)) s)"
| "run_request E inp sid Nothing s = finished s"
| "run_request E inp sid (NotImplemented name) s = finished s"

section \<open>setByName\<close>

fun lacks :: "needs \<Rightarrow> string option \<Rightarrow> world \<Rightarrow> bool" where
  "lacks Always sid w = False"
| "lacks NeedsFt sid w = (requireFileTransfer sid w = None)"
| "lacks NeedsRd sid w = (requireRemoteDesktop sid w = None)"
| "lacks NeedsConn sid w = (connFor sid w = None)"

text \<open>
  The functions of \<open>Object.prototype\<close> called without a receiver: \<open>toString\<close> names it, \<open>Object\<close>
  gives back the context, the others throw.
\<close>

definition call_inherited :: "string \<Rightarrow> app \<Rightarrow> outcome" where
  "call_inherited name s =
     (if name = ''toString'' then Returned (JStr ''[object Undefined]'') s
      else if name = ''constructor'' then Unread
      else Raised (UError ''TypeError'' name) s)"

definition setByName :: "env \<Rightarrow> input \<Rightarrow> string \<Rightarrow> jval \<Rightarrow> string option \<Rightarrow> app \<Rightarrow> outcome" where
  "setByName E inp name value sid s =
     (case lookup_handler setByNameHandlers name of
        Missing \<Rightarrow> finished s
      | Inherited n \<Rightarrow> call_inherited n s
      | Own (needs, handler) \<Rightarrow>
          (if lacks needs sid (ap_world s) then finished s
           else case handler value of
                  Throw e \<Rightarrow> Raised e s
                | IllTyped \<Rightarrow> Unread
                | Args r \<Rightarrow> run_request E inp sid r s))"

section \<open>The message loops\<close>

definition stop_loop :: "nat \<Rightarrow> app \<Rightarrow> app" where
  "stop_loop a s = s\<lparr>ap_loops := remove1 a (ap_loops s)\<rparr>"

text \<open>\<open>ws.setIngressHandler(undefined)\<close> when a loop is over.\<close>

definition detach :: "'a base_scheme \<Rightarrow> 'a base_scheme" where
  "detach c = c\<lparr>b_ws := map_option (setIngressHandler False) (b_ws c)\<rparr>"

fun conn_detach :: "conn \<Rightarrow> conn" where
  "conn_detach (FtC c) = FtC (detach c)"
| "conn_detach (RdC c) = RdC (detach c)"

text \<open>The end of a loop, with what it reports.\<close>

definition end_loop :: "env \<Rightarrow> bool \<Rightarrow> nat \<Rightarrow> world \<Rightarrow> app \<Rightarrow> app" where
  "end_loop E parent a w s = stop_loop a (absorb E parent (on_conn a conn_detach w) s)"

text \<open>
  Logging in to the remote operating system when the peer shows its displays: the steps that
  follow the first one.
\<close>

definition auto_login :: "Message \<Rightarrow> rdconn \<Rightarrow> string" where
  "auto_login msg c =
     (case Message_hash msg of
        Some h \<Rightarrow> ''''
      | None \<Rightarrow>
          (case Message_login_response msg of
             None \<Rightarrow> ''''
           | Some r \<Rightarrow>
               (if opt_truthy (LoginResponse_error r) then ''''
                else case LoginResponse_peer_info r of
                       None \<Rightarrow> ''''
                     | Some info \<Rightarrow> (if PeerInfo_displays info = [] then '''' else shouldAutoLogin c))))"

text \<open>
  One round of \<open>msgLoop\<close> of a remote desktop, with the message taken from the socket.  A
  rendezvous message cannot arrive on the socket of a connection; it would match no branch.
\<close>

definition rd_round :: "env \<Rightarrow> bool \<Rightarrow> moment \<Rightarrow> frame_answer list \<Rightarrow> nat \<Rightarrow> Message \<Rightarrow> rdconn \<Rightarrow> app \<Rightarrow> app" where
  "rd_round E parent mo answers a msg c s =
     (case rd_handleMessage E (mo_now mo) (mo_rnd mo) answers msg c of
        Inl e \<Rightarrow> end_loop E parent a (rd_work E parent a (\<lambda>_. rd_loop_failed e c) (ap_world s)) s
      | Inr (True, c1) \<Rightarrow>
          (absorb E parent (rd_work E parent a (\<lambda>_. c1) (ap_world s)) s)
            \<lparr>ap_typing := ap_typing s @ (if auto_login msg c = '''' then [] else [(a, auto_login msg c, 1)])\<rparr>
      | Inr (False, c1) \<Rightarrow> end_loop E parent a (rd_work E parent a (\<lambda>_. c1) (ap_world s)) s)"

definition rd_poll :: "env \<Rightarrow> bool \<Rightarrow> moment \<Rightarrow> frame_answer list \<Rightarrow> nat \<Rightarrow> rdconn \<Rightarrow> app \<Rightarrow> app" where
  "rd_poll E parent mo answers a c s =
     (case b_ws c of
        None \<Rightarrow> stop_loop a s
      | Some ws \<Rightarrow>
          (case ws_next 0 0 (mo_now mo) ws of
             (NextWait, ws1) \<Rightarrow> s
           | (NextReject e, ws1) \<Rightarrow> end_loop E parent a (rd_work E parent a (rd_loop_failed e) (ap_world s)) s
           | (NextMsg (PeerMsg msg), ws1) \<Rightarrow> rd_round E parent mo answers a msg (c\<lparr>b_ws := Some ws1\<rparr>) s
           | (NextMsg (RdvMsg _), ws1) \<Rightarrow>
               absorb E parent (rd_work E parent a (\<lambda>c. c\<lparr>b_ws := Some ws1\<rparr>) (ap_world s)) s))"

text \<open>The same for a file transfer; \<open>None\<close> when a handler never returns.\<close>

definition ft_round_app :: "env \<Rightarrow> bool \<Rightarrow> moment \<Rightarrow> nat \<Rightarrow> Message \<Rightarrow> ftconn \<Rightarrow> app \<Rightarrow> app option" where
  "ft_round_app E parent mo a msg c s =
     (case ft_handleMessage E mo a msg c (put_ft a c (ap_world s)) of
        Goes w \<Rightarrow> Some (absorb E parent w s)
      | Throws e w \<Rightarrow> Some (end_loop E parent a (ft_disconnected E a e w) s)
      | Hangs \<Rightarrow> None)"

definition ft_poll :: "env \<Rightarrow> bool \<Rightarrow> moment \<Rightarrow> nat \<Rightarrow> ftconn \<Rightarrow> app \<Rightarrow> app option" where
  "ft_poll E parent mo a c s =
     (case b_ws c of
        None \<Rightarrow> Some (stop_loop a s)
      | Some ws \<Rightarrow>
          (case ws_next 0 0 (mo_now mo) ws of
             (NextWait, ws1) \<Rightarrow> Some s
           | (NextReject e, ws1) \<Rightarrow> Some (end_loop E parent a (ft_disconnected E a e (ap_world s)) s)
           | (NextMsg (PeerMsg msg), ws1) \<Rightarrow> ft_round_app E parent mo a msg (c\<lparr>b_ws := Some ws1\<rparr>) s
           | (NextMsg (RdvMsg _), ws1) \<Rightarrow> Some (absorb E parent (put_ft a (c\<lparr>b_ws := Some ws1\<rparr>) (ap_world s)) s)))"

definition app_poll :: "env \<Rightarrow> bool \<Rightarrow> moment \<Rightarrow> frame_answer list \<Rightarrow> nat \<Rightarrow> app \<Rightarrow> app option" where
  "app_poll E parent mo answers a s =
     (case map_get (w_conns (ap_world s)) a of
        None \<Rightarrow> Some (stop_loop a s)
      | Some (RdC c) \<Rightarrow> Some (rd_poll E parent mo answers a c s)
      | Some (FtC c) \<Rightarrow> ft_poll E parent mo a c s)"

section \<open>What the browser runs\<close>

text \<open>The wait of \<open>start\<close> is over; with a socket, the message loop begins.\<close>

definition app_connected :: "env \<Rightarrow> bool \<Rightarrow> established \<Rightarrow> nat \<Rightarrow> app \<Rightarrow> app" where
  "app_connected E parent conn a s =
     (let w = (case map_get (w_conns (ap_world s)) a of
                 Some (RdC c) \<Rightarrow> rd_work E parent a (rd_connected conn) (ap_world s)
               | Some (FtC c) \<Rightarrow> ft_connected E conn a (ap_world s)
               | None \<Rightarrow> ap_world s)
      in (absorb E parent w s)
           \<lparr>ap_starting := remove1 a (ap_starting s),
            ap_loops := (case conn of Established ws ready \<Rightarrow> ap_loops s @ [a] | _ \<Rightarrow> ap_loops s)\<rparr>)"

text \<open>Callbacks and timers of one connection.\<close>

datatype conn_event =
    Frame bytes
  | SocketClosed unknown
  | SocketError unknown
  | PumpTick
  | ProgressTick
  | DecoderLoaded "nat option" nat

definition on_ws :: "(websock \<Rightarrow> websock) \<Rightarrow> 'a base_scheme \<Rightarrow> 'a base_scheme" where
  "on_ws f c = c\<lparr>b_ws := map_option f (b_ws c)\<rparr>"

text \<open>A tick of the pump that does not end changes nothing that is seen later.\<close>

definition pumped :: "env \<Rightarrow> 'a base_scheme \<Rightarrow> 'a base_scheme" where
  "pumped E c = (if b_interval c then nullish (pump_tick E c) c else c)"

fun rd_event :: "env \<Rightarrow> conn_event \<Rightarrow> rdconn \<Rightarrow> rdconn" where
  "rd_event E (Frame data) c = receive_frame E data c"
| "rd_event E (SocketClosed e) c = on_ws (on_close e) c"
| "rd_event E (SocketError e) c = on_ws (on_error e) c"
| "rd_event E PumpTick c = pumped E c"
| "rd_event E ProgressTick c = c"
| "rd_event E (DecoderLoaded old new) c = decoder_loaded old new c"

fun ft_event :: "env \<Rightarrow> conn_event \<Rightarrow> ftconn \<Rightarrow> ftconn" where
  "ft_event E (Frame data) c = receive_frame E data c"
| "ft_event E (SocketClosed e) c = on_ws (on_close e) c"
| "ft_event E (SocketError e) c = on_ws (on_error e) c"
| "ft_event E PumpTick c = pumped E c"
| "ft_event E ProgressTick c = (if ft_progressInterval c then emitJobProgress c else c)"
| "ft_event E (DecoderLoaded old new) c = c"

fun run_event :: "env \<Rightarrow> conn_event \<Rightarrow> conn \<Rightarrow> conn" where
  "run_event E x (FtC c) = FtC (ft_event E x c)"
| "run_event E x (RdC c) = RdC (rd_event E x c)"

definition app_event :: "env \<Rightarrow> bool \<Rightarrow> conn_event \<Rightarrow> nat \<Rightarrow> app \<Rightarrow> app" where
  "app_event E parent x a s = absorb E parent (on_conn a (run_event E x) (ap_world s)) s"

text \<open>The user answers the open save dialog of a file transfer.\<close>

definition app_dialog :: "env \<Rightarrow> bool \<Rightarrow> answer \<Rightarrow> nat \<Rightarrow> app \<Rightarrow> app" where
  "app_dialog E parent ans a s =
     (case ft_at a (ap_world s) of
        None \<Rightarrow> s
      | Some c \<Rightarrow>
          (let (c1, dk) = answer_dialog E ans (c, w_disk (ap_world s))
           in absorb E parent ((put_ft a c1 (ap_world s))\<lparr>w_disk := dk\<rparr>) s))"

text \<open>A pause of \<open>inputOsPassword\<close> is over.\<close>

definition app_typing :: "env \<Rightarrow> bool \<Rightarrow> nat \<times> string \<times> nat \<Rightarrow> app \<Rightarrow> app" where
  "app_typing E parent p s =
     (let (a, pw, n) = p; rest = remove1 p (ap_typing s)
      in (absorb E parent (rd_work E parent a (inputOsPassword_steps E pw ! n) (ap_world s)) s)
           \<lparr>ap_typing := (if n < 3 then rest @ [(a, pw, n + 1)] else rest)\<rparr>)"

text \<open>A message is posted to the window, or the handler of one goes on.\<close>

definition app_start ::
    "env \<Rightarrow> bool \<Rightarrow> (string \<Rightarrow> unknown + string) \<Rightarrow> (string \<times> string \<times> string \<Rightarrow> unknown + bool) \<Rightarrow> start_event \<Rightarrow> app \<Rightarrow> app" where
  "app_start E parent decryptToken connect x s =
     (let (pg, w) = start_step E parent decryptToken connect x (ap_page s, ap_world s)
      in (absorb E parent w s)\<lparr>ap_page := pg\<rparr>)"

text \<open>
  The steps of the viewer.  A connection that is being restarted has one message loop at a
  time: the poll that ends the old one runs every millisecond, long before the new socket is
  ready.
\<close>

definition ready_event :: "established \<Rightarrow> bool" where
  "ready_event conn \<longleftrightarrow> (case conn of Established ws ready \<Rightarrow> \<exists>p sid. ready = pushEvent ''connection_ready'' p sid | _ \<Rightarrow> True)"

inductive app_step :: "env \<Rightarrow> app \<Rightarrow> app \<Rightarrow> bool" for E where
  call: "setByName E inp name value sid s = Returned v s' \<Longrightarrow> app_step E s s'"
| call_raises: "setByName E inp name value sid s = Raised e s' \<Longrightarrow> app_step E s s'"
| connected: "a \<in> set (ap_starting s) \<Longrightarrow> a \<notin> set (ap_loops s) \<Longrightarrow> ready_event conn \<Longrightarrow> app_step E s (app_connected E parent conn a s)"
| poll: "a \<in> set (ap_loops s) \<Longrightarrow> app_poll E parent mo answers a s = Some s' \<Longrightarrow> app_step E s s'"
| event: "app_step E s (app_event E parent x a s)"
| dialog: "app_step E s (app_dialog E parent ans a s)"
| typing: "p \<in> set (ap_typing s) \<Longrightarrow> app_step E s (app_typing E parent p s)"
| start: "app_step E s (app_start E parent decryptToken connect x s)"

inductive_cases app_stepE: "app_step E s s'"

text \<open>The viewer when its page has been loaded.\<close>

definition fresh_app :: "store \<Rightarrow> page \<Rightarrow> (string \<times> string) list \<Rightarrow> app" where
  "fresh_app st pg views =
     \<lparr>ap_world = no_sessions, ap_store = st, ap_page = fresh_page pg, ap_views = views, ap_starting = [], ap_loops = [],
      ap_typing = [], ap_log = []\<rparr>"

section \<open>Reports without message boxes\<close>

lemma absorb_silent: "w_out w = [] \<Longrightarrow> absorb E parent w s = s\<lparr>ap_world := w\<rparr>"
  by (simp add: absorb_def)

lemma deliver_plain: "list_all (\<lambda>e. \<forall>t ti tx. e \<noteq> MsgBox t ti tx) es \<Longrightarrow> deliver E parent es w = w\<lparr>w_out := w_out w @ es\<rparr>"
proof (induction es arbitrary: w)
  case (Cons e es)
  then show ?case by (cases e) simp_all
qed simp

lemma absorb_plain:
  assumes "list_all (\<lambda>e. \<forall>t ti tx. e \<noteq> MsgBox t ti tx) (w_out w)"
  shows "ap_world (absorb E parent w s) = w\<lparr>w_out := []\<rparr>" "ap_store (absorb E parent w s) = fold write_back (w_out w) (ap_store s)"
  using assms by (simp_all add: absorb_def deliver_plain Let_def)

end
