(* ===== verification/Viewer_Invariant.thy ===== *)
theory Viewer_Invariant
  imports Viewer_App
begin

text \<open>
  What holds in every state the viewer reaches, whatever Flutter calls, the peers send, the
  browser reports and other pages post, in whatever order: the registry is consistent, the
  stored peers are well-formed, and the connections keep what the operations on them rely on.
\<close>

section \<open>What operations on a connection keep\<close>

fun saves_ok :: "emission \<Rightarrow> bool" where
  "saves_ok (SavePeer peer opts) = map_ok opts"
| "saves_ok _ = True"

definition base_ok :: "'a base_scheme \<Rightarrow> bool" where
  "base_ok c \<longleftrightarrow> map_ok (b_options c) \<and> list_all saves_ok (b_out c)"

definition keeps :: "'a base_scheme \<Rightarrow> 'a base_scheme \<Rightarrow> bool" where
  "keeps c c' \<longleftrightarrow> b_sessionId c' = b_sessionId c \<and> (base_ok c \<longrightarrow> base_ok c')"

named_theorems keep_intros \<open>operations that keep the session id and well-formed options\<close>

lemma keeps_refl [keep_intros]: "keeps c c"
  by (simp add: keeps_def)

lemma keeps_trans: "keeps c c1 \<Longrightarrow> keeps c1 c2 \<Longrightarrow> keeps c c2"
  by (simp add: keeps_def)

lemma keeps_silent:
  "b_sessionId c' = b_sessionId c1 \<Longrightarrow> b_options c' = b_options c1 \<Longrightarrow> b_out c' = b_out c1 \<Longrightarrow> keeps c c1 \<Longrightarrow> keeps c c'"
  by (simp add: keeps_def base_ok_def)

lemma keeps_emit [keep_intros]: "saves_ok e \<Longrightarrow> keeps c c1 \<Longrightarrow> keeps c (emit e c1)"
  by (simp add: keeps_def base_ok_def)

lemma saves_ok_event [simp]: "saves_ok (pushEvent n p s)"
  by (simp add: pushEvent_def Let_def split: option.split)

lemma saves_ok_job [simp]: "saves_ok (job_error i n err s)" "saves_ok (job_done i n s)"
  by (simp_all add: job_error_def job_done_def)

lemma keeps_ev [keep_intros]: "keeps c c1 \<Longrightarrow> keeps c (ev name payload c1)"
  by (simp add: ev_def keeps_emit)

lemma keeps_setOption [keep_intros]: "keeps c c1 \<Longrightarrow> keeps c (setOption now name v c1)"
  by (auto simp: keeps_def base_ok_def setOption_def Let_def intro: inv_intros)

lemma keeps_if [keep_intros]: "keeps c x \<Longrightarrow> keeps c y \<Longrightarrow> keeps c (if b then x else y)"
  by simp

lemma keeps_base [keep_intros]:
  assumes "keeps c c1"
  shows "keeps c (queueMessage m c1)" "keeps c (sendMessage E m c1)" "keeps c (baseClose c1)"
    "keeps c (startMessagePump c1)" "keeps c (attach_ws ws c1)" "keeps c (detach c1)" "keeps c (on_ws f c1)"
    "keeps c (receive_frame E data c1)" "keeps c (setPlaintextPassword pw c1)"
    "keeps c (c1\<lparr>b_hash := h\<rparr>)" "keeps c (c1\<lparr>b_password := p\<rparr>)" "keeps c (c1\<lparr>b_loginSessionId := l\<rparr>)"
    "keeps c (c1\<lparr>b_peerInfo := info\<rparr>)" "keeps c (c1\<lparr>b_ws := w\<rparr>)" "keeps c (c1\<lparr>b_id := i\<rparr>)"
    "keeps c (c1\<lparr>b_plaintextPassword := pp\<rparr>)" "keeps c (c1\<lparr>b_msgs := ms\<rparr>)"
  by (rule keeps_silent [OF _ _ _ assms]; simp add: base_defs detach_def on_ws_def)+

lemma keeps_prepare [keep_intros]:
  "store_ok st \<Longrightarrow> keeps c c1 \<Longrightarrow> keeps c (prepareConnect (getPeers st) peer c1)"
  using loaded_ok [of st peer] by (auto simp: prepareConnect_def startMessagePump_def keeps_def base_ok_def Let_def)

lemma keeps_persist [keep_intros]: "keeps c c1 \<Longrightarrow> keeps c (persistPasswordIfRemembered now b c1)"
  by (auto simp: persistPasswordIfRemembered_def Let_def intro!: keep_intros split: option.split)

lemma keeps_pumped [keep_intros]: "keeps c c1 \<Longrightarrow> keeps c (pumped E c1)"
proof -
  assume k: "keeps c c1"
  have "keeps c c'" if "pump_tick E c1 = Some c'" for c'
  proof (cases "b_ws c1")
    case None
    with that pump_tick_stuck [OF that] have "c' = c1" by (subst (asm) pump_tick.simps) simp
    with k show ?thesis by simp
  next
    case (Some ws)
    with that fold_send_ws [OF Some, of E] have c': "c' = c1\<lparr>b_msgs := [], b_ws := Some (fold (ws_sendMessage E) (b_msgs c1) ws)\<rparr>" by simp
    show ?thesis unfolding c' by (intro keep_intros k)
  qed
  with k show ?thesis by (cases "pump_tick E c1") (simp_all add: pumped_def)
qed

lemma keeps_login:
  assumes "\<And>p d. keeps c d \<Longrightarrow> keeps c (snd (build p d))" "keeps c c1" "login E build pw c1 = Inr c'"
  shows "keeps c c'"
proof -
  have send: "keeps c (sendLoginMessage E build p d)" if "keeps c d" for p d
    using assms(1) [OF that, of p] by (auto simp: sendLoginMessage_def split: prod.split intro!: keep_intros)
  show ?thesis
    using assms(2,3) by (auto simp: login_def Let_def split: if_splits sum.splits option.splits intro!: send keep_intros)
qed

section \<open>Operations of a remote desktop\<close>

lemma keeps_rd_fields [keep_intros]:
  assumes "keeps c c1"
  shows "keeps c (c1\<lparr>rd_firstFrame := x1\<rparr>)" "keeps c (c1\<lparr>rd_videoDecoder := x2\<rparr>)" "keeps c (c1\<lparr>rd_closedDecoders := x3\<rparr>)"
    "keeps c (c1\<lparr>rd_videoTestSpeed := x4\<rparr>)" "keeps c (c1\<lparr>rd_lastKeyDownEvent := x5\<rparr>)"
  by (rule keeps_silent [OF _ _ _ assms]; simp)+

lemma keeps_rd_sends [keep_intros]:
  assumes "keeps c c1"
  shows "keeps c (send_misc E misc c1)" "keeps c (send_option E opt c1)" "keeps c (send_key E k c1)"
    "keeps c (rd_msgbox t ti tx c1)" "keeps c (rd_loop_failed e c1)"
  using assms by (auto simp: send_misc_def send_option_def send_key_def rd_msgbox_def rd_loop_failed_def intro!: keep_intros)

lemma keeps_inputMouse [keep_intros]: "keeps c c1 \<Longrightarrow> keeps c (inputMouse E b x y a1 a2 a3 a4 c1)"
  by (simp add: inputMouse_def keep_intros)

lemma keeps_os_password: "n < 4 \<Longrightarrow> keeps c c1 \<Longrightarrow> keeps c ((inputOsPassword_steps E p ! n) c1)"
  by (auto simp: inputOsPassword_steps_def less_Suc_eq numeral_eq_Suc intro!: keep_intros)

lemma keeps_inputKey [keep_intros]: "keeps c c1 \<Longrightarrow> keeps c (inputKey E d name x1 x2 x3 x4 x5 x6 c1)"
  by (auto simp: inputKey_def Let_def intro!: keep_intros split: prod.split)

lemma keeps_rd_close [keep_intros]: "keeps c c1 \<Longrightarrow> keeps c (rd_close c1)"
  by (simp add: rd_close_def Let_def keep_intros)

lemma keeps_run_rd: "keeps c (run_rd E now isDesktop req c)"
  by (cases req)
     (auto simp: refresh_def toggleOption_def togglePrivacyMode_def setImageQuality_def lockScreen_def ctrlAltDel_def switchDisplay_def
       dispatchRdInputKey_def inputString_def send2fa_def elevateWithLogon_def changePreferCodec_def Let_def
       intro!: keep_intros split: option.split)

lemma keeps_rd_prepare: "store_ok st \<Longrightarrow> keeps c c1 \<Longrightarrow> keeps c (rd_prepare (getPeers st) peer pw c1)"
  by (auto simp: rd_prepare_def Let_def intro!: keep_intros)

lemma keeps_rd_connected: "ready_event conn \<Longrightarrow> keeps c (rd_connected conn c)"
  by (auto simp: rd_connected_def ready_event_def split: established.splits intro!: keep_intros)

lemma keeps_rd_build: "keeps c d \<Longrightarrow> keeps c (snd (rd_buildLoginRequest rnd p d))"
  by (simp add: rd_buildLoginRequest_def Let_def keep_intros)

lemma keeps_rd_login: "rd_login E now rnd rem os pw c = Inr c' \<Longrightarrow> keeps c c'"
proof -
  assume r: "rd_login E now rnd rem os pw c = Inr c'"
  have k: "keeps c (rd_setRemember now rem c)" by (simp add: rd_setRemember_def keep_intros)
  show ?thesis
    using r k keeps_login [OF keeps_rd_build k] by (auto simp: rd_login_def Let_def split: if_splits)
qed

lemma keeps_frame_answered: "keeps c (snd s) \<Longrightarrow> keeps c (snd (frame_answered E d n a s))"
  by (auto simp: frame_answered_def sendVideoReceived_def frame_drawn_def Let_def intro!: keep_intros
      split: prod.split frame_answer.split)

lemma keeps_frames: "keeps c (snd s) \<Longrightarrow> keeps c (snd (fold (frame_answered E d n) answers s))"
  by (induction answers arbitrary: s) (simp_all add: keeps_frame_answered)

lemma keeps_video: "keeps c (handleVideoFrame E vf answers c)"
  by (auto simp: handleVideoFrame_def Let_def intro!: keep_intros keeps_frames split: option.split)

lemma keeps_rd_peerInfo: "keeps c (rd_handlePeerInfo E now info c)"
proof -
  have first: "keeps c (hd (inputOsPassword_steps E p) d)" if "keeps c d" for p d
    using keeps_os_password [of 0 c d E p] that by (simp add: inputOsPassword_steps_def)
  show ?thesis unfolding rd_handlePeerInfo_def Let_def by (intro first keep_intros)
qed

lemma keeps_rd_misc: "handleMisc now misc c = (b, c') \<Longrightarrow> keeps c c'"
  by (auto simp: handleMisc_def Let_def intro!: keep_intros split: option.splits if_splits)

lemma keeps_rd_message: "rd_handleMessage E now rnd answers msg c = Inr (b, c') \<Longrightarrow> keeps c c'"
proof -
  assume m: "rd_handleMessage E now rnd answers msg c = Inr (b, c')"
  have hash: "keeps c d'" if "login E (rd_buildLoginRequest rnd) pw (c\<lparr>b_hash := h\<rparr>) = Inr d'" for pw h d'
    by (rule keeps_login [OF _ _ that]) (simp_all add: keeps_rd_build keep_intros)
  show ?thesis
  proof (cases "Message_hash msg")
    case (Some h)
    with m show ?thesis
      by (auto simp: rd_handleMessage_def handleHashMessage_def split: if_splits sum.splits intro!: keep_intros dest!: hash)
  next
    case None
    with m keeps_video [of c] keeps_rd_misc [of now _ c] keeps_rd_peerInfo [of c] show ?thesis
      by (auto simp: rd_handleMessage_def rd_handleLoginResponse_def Let_def split: option.splits if_splits intro!: keep_intros)
  qed
qed

lemma keeps_rd_event: "keeps c (rd_event E x c)"
  by (cases x) (auto simp: decoder_loaded_def intro!: keep_intros)

section \<open>Operations of a file transfer\<close>

definition ft_keeps :: "ftconn \<Rightarrow> ftconn \<Rightarrow> bool" where
  "ft_keeps c c' \<longleftrightarrow> keeps c c' \<and> (reads_ok c \<longrightarrow> reads_ok c')"

lemma ft_keeps_base: "keeps c c' \<Longrightarrow> ft_jobs c' = ft_jobs c \<Longrightarrow> ft_keeps c c'"
  by (simp add: ft_keeps_def reads_ok_def)

lemma keeps_ft_fields [keep_intros]:
  assumes "keeps c c1"
  shows "keeps c (c1\<lparr>ft_jobs := x1\<rparr>)" "keeps c (c1\<lparr>ft_uploadTick := x2\<rparr>)" "keeps c (c1\<lparr>ft_closing := x3\<rparr>)"
    "keeps c (c1\<lparr>ft_sessionEnded := x4\<rparr>)" "keeps c (c1\<lparr>ft_progressInterval := x5\<rparr>)" "keeps c (c1\<lparr>ft_downloadQueue := x6\<rparr>)"
    "keeps c (c1\<lparr>ft_downloadQueueRunning := x7\<rparr>)" "keeps c (c1\<lparr>ft_awaitingPick := x8\<rparr>)" "keeps c (c1\<lparr>ft_remember := x9\<rparr>)"
    "keeps c (c1\<lparr>ft_peerPlatform := y1\<rparr>)" "keeps c (c1\<lparr>ft_peerHostname := y2\<rparr>)"
  by (rule keeps_silent [OF _ _ _ assms]; simp)+

lemma keeps_ft_jobs [keep_intros]:
  assumes "keeps c c1"
  shows "keeps c (put_read i job c1)" "keeps c (put_write i wj c1)" "keeps c (drop_job i c1)" "keeps c (clear_jobs c1)"
    "keeps c (pushJobError i n err c1)" "keeps c (pushJobDone i n c1)"
  using assms by (simp_all add: ft_frame_defs keep_intros)

lemma keeps_fold: "(\<And>x d. keeps c d \<Longrightarrow> keeps c (f x d)) \<Longrightarrow> keeps c c1 \<Longrightarrow> keeps c (fold f xs c1)"
  by (induction xs arbitrary: c1) simp_all

lemma keeps_failActive [keep_intros]: "keeps c c1 \<Longrightarrow> keeps c (failActiveJobs err c1)"
  by (auto simp: failActiveJobs_def Let_def intro!: keep_intros keeps_fold)

lemma keeps_ft_close [keep_intros]: "keeps c c1 \<Longrightarrow> keeps c (ft_close E c1)"
  by (auto simp: ft_close_def cancelAllJobs_def Let_def intro!: keep_intros keeps_fold)

lemma ft_keeps_close: "ft_keeps c (ft_close E c)" "ft_keeps c (end_ft_conn E c)"
  by (auto simp: ft_keeps_def end_ft_conn_def intro!: keep_intros)
     (auto simp: ft_close_def baseClose_def cancelAllJobs_sends failActiveJobs_reports reads_ok_def newFileJobManager_def)

lemma fold_ev_jobs: "ft_jobs (fold (\<lambda>job. ev n (f job)) js d) = ft_jobs d"
  "ft_jobs (fold (\<lambda>job d. if P job then ev n (f job) d else d) js d) = ft_jobs d"
  by (induction js arbitrary: d) (simp_all add: ev_def)

lemma ft_keeps_progress: "ft_keeps c (emitJobProgress c)"
proof (rule ft_keeps_base)
  show "keeps c (emitJobProgress c)" by (auto simp: emitJobProgress_def Let_def intro!: keep_intros keeps_fold)
  show "ft_jobs (emitJobProgress c) = ft_jobs c" by (simp add: emitJobProgress_def Let_def fold_ev_jobs)
qed

lemma keeps_ft_build: "keeps c d \<Longrightarrow> keeps c (snd (ft_buildLoginRequest rnd p d))"
  by (simp add: ft_buildLoginRequest_def Let_def keep_intros)

lemma ft_keeps_login:
  assumes "ft_login E rnd rem os pw c = Inr c'"
  shows "ft_keeps c c'"
proof (rule ft_keeps_base)
  let ?c = "ft_setRemember rem c"
  have k: "keeps c ?c" by (simp add: ft_setRemember_def keep_intros)
  show "keeps c c'"
    using assms k keeps_login [OF keeps_ft_build k] by (auto simp: ft_login_def Let_def split: if_splits)
  show "ft_jobs c' = ft_jobs c"
    using assms login_jobs [of E rnd "Some pw" ?c c'] by (auto simp: ft_login_def Let_def ft_setRemember_def split: if_splits)
qed

lemma keeps_peerInfo: "keeps c (ft_handlePeerInfo now info c)"
  unfolding ft_handlePeerInfo_def Let_def by (intro keep_intros) simp_all

lemma keeps_queueDigest [keep_intros]: "keeps c c1 \<Longrightarrow> keeps c (queueDigestForCurrentFile job c1)"
  by (auto simp: queueDigestForCurrentFile_def intro!: keep_intros split: option.split)

lemma keeps_advance [keep_intros]: "keeps c c1 \<Longrightarrow> keeps c (advanceUploadAfterFile i job n c1)"
  by (auto simp: advanceUploadAfterFile_def Let_def intro!: keep_intros split: option.split)

lemma keeps_pump_block: "keeps c c1 \<Longrightarrow> keeps c (snd (pump_block i job data fin c1))"
  by (auto simp: pump_block_def upload_file_finished_def Let_def intro!: keep_intros)

lemma keeps_pump_loop: "pump_loop clk k i c = Some c' \<Longrightarrow> keeps c c'"
proof (induction rule: pump_loop.raw_induct [rotated, consumes 1])
  case (1 pump clk k i c c')
  show ?case
  proof (cases "map_get (read_jobs c) i")
    case (Some job)
    obtain nx job1 where nx: "nextUploadBlock (clk k) job = (nx, job1)" by force
    show ?thesis
    proof (cases "\<exists>d f. rj_active job \<and> nx = Some (d, f)")
      case True
      then obtain d f where d: "rj_active job" "nx = Some (d, f)" by blast
      obtain g c1 where pb: "pump_block i job1 d f (put_read i job1 c) = (g, c1)" by force
      have "keeps c c1"
        using keeps_pump_block [of c "put_read i job1 c" i job1 d f] by (simp add: pb keep_intros)
      with 1 Some nx d pb show ?thesis by (auto split: if_splits intro: keeps_trans)
    qed (use 1 Some nx in \<open>auto split: if_splits option.splits intro: keep_intros\<close>)
  qed (use 1 in \<open>simp add: keep_intros\<close>)
qed

lemma keeps_pump: "pumpUploadBlocks clk i c = Some c' \<Longrightarrow> keeps c c'"
  by (auto simp: pumpUploadBlocks_def split: if_splits intro!: keep_intros dest!: keeps_pump_loop
      elim: keeps_trans [rotated])

lemma keeps_fileAction: "handleFileAction clk fa c = Some c' \<Longrightarrow> keeps c c'"
  by (auto simp: handleFileAction_def Let_def split: option.splits if_splits intro!: keep_intros
      dest!: keeps_pump elim!: keeps_trans [rotated])

lemma keeps_fileResponse: "handleFileResponse E now bh fr (c, dk) = Some s' \<Longrightarrow> keeps c (fst s')"
proof -
  have "keeps c (handleDigest E d c)" for d
    by (auto simp: handleDigest_def sendConfirm_def Let_def intro!: keep_intros split: option.split prod.split)
  moreover have "keeps c (fst (handleBlock E now b (c, dk)))" for b
    by (auto simp: handleBlock_def Let_def intro!: keep_intros split: option.split prod.split)
  moreover have "keeps c (fst s')" if "handleDone E bh d (c, dk) = Some s'" for d
    using that by (auto simp: handleDone_def Let_def intro!: keep_intros split: if_splits option.splits prod.splits finish_result.splits)
  ultimately show "handleFileResponse E now bh fr (c, dk) = Some s' \<Longrightarrow> keeps c (fst s')"
    by (auto simp: handleFileResponse_def handle_dir_def handleError_def Let_def intro!: keep_intros split: option.splits)
qed

lemma keeps_continue [keep_intros]: "keeps c c1 \<Longrightarrow> keeps c (continue_queue now c1)"
  by (auto simp: continue_queue_def intro!: keep_intros split: list.split prod.split)

lemma reads_ok_continue [simp]: "reads_ok (continue_queue now c) = reads_ok c"
  by (auto simp: reads_ok_def continue_queue_def createDownloadJob_def Let_def split: list.split)

lemma reads_ok_fields [simp]:
  "reads_ok (c\<lparr>ft_downloadQueue := q\<rparr>) = reads_ok c" "reads_ok (c\<lparr>ft_downloadQueueRunning := b\<rparr>) = reads_ok c"
  by (simp_all add: reads_ok_def)

lemma reads_ok_upload:
  "reads_ok c \<Longrightarrow> reads_ok (c\<lparr>ft_jobs := snd (createMultiFileUploadJob now i lp rp n fs es sz hidden (ft_jobs c))\<rparr>)"
  by (simp add: reads_ok_def createMultiFileUploadJob_def Let_def list_all_set split: list.split)

lemma reads_ok_download:
  "reads_ok (c\<lparr>ft_jobs := snd (createDownloadJob now i path to n isDir (ft_jobs c))\<rparr>) = reads_ok c"
  by (simp add: reads_ok_def createDownloadJob_def Let_def)

lemma ft_keeps_sendFiles: "ft_keeps c (sendFiles now i path to n hidden isRemote isDir c)"
proof -
  have "reads_ok (sendFiles now i path to n hidden isRemote isDir c)" if "reads_ok c"
    using reads_ok_upload [OF that] that
    by (simp add: sendFiles_def processDownloadQueue_def createUploadJob_def Let_def case_prod_unfold split: option.split)
  then show ?thesis
    by (auto simp: ft_keeps_def sendFiles_def processDownloadQueue_def Let_def intro!: keep_intros split: option.split prod.split)
qed

lemma keeps_ensureTarget: "ensureDownloadSaveTarget bh i (c, dk) = (ok, c', dk') \<Longrightarrow> ft_keeps c c'"
  by (auto simp: ensureDownloadSaveTarget_def ft_keeps_def Let_def intro!: keep_intros
      split: option.splits if_splits prod.splits pick_result.splits)

lemma ft_keeps_sendLocal: "ft_keeps c (sendLocalFiles pk now i h path to n hidden isRemote c)"
proof -
  have "ft_keeps c (sendFiles now i path to n hidden isRemote False (c\<lparr>ft_jobs := (ft_jobs c)\<lparr>jm_pendingUploads := m\<rparr>\<rparr>))" for m
  proof -
    let ?d = "c\<lparr>ft_jobs := (ft_jobs c)\<lparr>jm_pendingUploads := m\<rparr>\<rparr>"
    have "keeps c ?d" "reads_ok ?d = reads_ok c" by (simp_all add: keep_intros reads_ok_def)
    then show ?thesis
      using ft_keeps_sendFiles [of ?d now i path to n hidden isRemote False] keeps_trans by (auto simp: ft_keeps_def)
  qed
  then show ?thesis
    by (auto simp: sendLocalFiles_def ft_keeps_def intro!: keep_intros split: option.split)
qed

lemma ft_keeps_sendFolder: "ft_keeps c (fst (sendFolderUpload now i to hidden (c, pk)))"
  using reads_ok_upload [of c]
  by (auto simp: sendFolderUpload_def ft_keeps_def Let_def case_prod_unfold intro!: keep_intros split: option.split)

lemma ft_keeps_addJob: "ft_keeps c (addJob now i path to n hidden isRemote c)"
  using reads_ok_upload [of c]
  by (auto simp: addJob_def ft_keeps_def createUploadJob_def reads_ok_download intro!: keep_intros split: option.split)

lemma ft_keeps_resume:
  assumes "resumeJob E clk bh i isRemote (c, dk) = Some (c', dk')"
  shows "ft_keeps c c'"
proof (cases isRemote)
  case True
  then show ?thesis
    using assms by (auto simp: resumeJob_def resumeRemoteDownload_def ft_keeps_def split: option.splits prod.splits
        intro!: keep_intros dest!: keeps_ensureTarget)
next
  case False
  have "keeps c c'" "reads_ok c'" if "map_get (read_jobs c) i = Some job" "reads_ok c"
      "pumpUploadBlocks clk i (put_read i (job\<lparr>rj_active := True\<rparr>) c) = Some c'" for job
  proof -
    have "keeps c (put_read i (job\<lparr>rj_active := True\<rparr>) c)" by (intro keep_intros)
    then show "keeps c c'" using keeps_pump [OF that(3)] by (rule keeps_trans)
    have "reads_ok (put_read i (job\<lparr>rj_active := True\<rparr>) c)" using reads_ok_get [OF that(2,1)] that(2) by (simp add: reads_ok_put)
    then show "reads_ok c'" using pump_returns [of "put_read i (job\<lparr>rj_active := True\<rparr>) c" clk i] that(3) by auto
  qed
  moreover have "keeps c c'" if "pumpUploadBlocks clk i (put_read i job c) = Some c'" for job
    by (rule keeps_trans [OF _ keeps_pump [OF that]]) (intro keep_intros)
  ultimately show ?thesis
    using assms False by (auto simp: resumeJob_def ft_keeps_def split: option.splits if_splits intro: keep_intros)
qed

lemma ft_keeps_confirm: "ft_keeps c (confirmOverrideFile E i n need up c)"
  by (auto simp: confirmOverrideFile_def sendConfirm_def ft_keeps_def Let_def intro!: keep_intros reads_ok_put
      dest: reads_ok_get split: option.split)

lemma ft_keeps_dialog: "ft_keeps c (fst (answer_dialog E ans (c, dk)))"
  by (auto simp: answer_dialog_def dialog_answered_def ft_keeps_def intro!: keep_intros reads_ok_drop
      dest!: keeps_ensureTarget split: option.split prod.split)

lemma ft_keeps_event: "ft_keeps c (ft_event E x c)"
proof (cases x)
  case ProgressTick
  then show ?thesis using ft_keeps_progress by (auto simp: ft_keeps_def keep_intros)
next
  case PumpTick
  have "ft_jobs (pumped E c) = ft_jobs c"
  proof (cases "pump_tick E c")
    case (Some c')
    then have "ft_jobs c' = ft_jobs c"
    proof (cases "b_ws c")
      case None
      with Some pump_tick_stuck [OF Some] show ?thesis by (simp add: pump_tick.simps [of E c])
    next
      case ws: (Some ws)
      with Some fold_send_ws [OF ws, of E] show ?thesis by auto
    qed
    with Some show ?thesis by (simp add: pumped_def)
  qed (simp add: pumped_def)
  with PumpTick show ?thesis by (auto intro!: ft_keeps_base keep_intros)
qed (auto simp: receive_frame_def on_ws_def intro!: ft_keeps_base keep_intros)

lemma ft_keeps_simple:
  "ft_keeps c (readRemoteDir path hidden c)" "ft_keeps c (removeFile E i path n isRemote c)"
  "ft_keeps c (readDirToRemoveRecursive E i path isRemote showHidden c)" "ft_keeps c (removeAllEmptyDirs E i path isRemote c)"
  "ft_keeps c (cancelJob E i c)" "ft_keeps c (createDir E i path isRemote c)" "ft_keeps c (renameFile E i path newName isRemote c)"
  "ft_keeps c (readEmptyDirs E path hidden c)"
  by (simp_all add: ft_keeps_def readRemoteDir_def removeFile_def readDirToRemoveRecursive_def removeAllEmptyDirs_def
      cancelJob_def createDir_def renameFile_def readEmptyDirs_def keep_intros reads_ok_drop)

text \<open>The world after an operation that left the file transfer at \<open>a\<close> in a new state.\<close>

definition ft_stepped :: "nat \<Rightarrow> ftconn \<Rightarrow> world \<Rightarrow> world \<Rightarrow> bool" where
  "ft_stepped a c w w' \<longleftrightarrow> (\<exists>c'. ft_keeps c c' \<and> w_conns w' = w_conns (put_ft a c' w) \<and> w_sessions w' = w_sessions w
     \<and> w_curConn w' = w_curConn w \<and> w_out w' = w_out (put_ft a c' w))"

lemma ft_stepped_put: "ft_keeps c c' \<Longrightarrow> ft_stepped a c w (put_ft a c' w)"
  unfolding ft_stepped_def by (rule exI [of _ c']) (simp add: put_ft_def)

lemma ft_stepped_disk [simp]:
  "ft_stepped a c w (w'\<lparr>w_disk := dk\<rparr>) = ft_stepped a c w w'" "ft_stepped a c w (w'\<lparr>w_picker := pk\<rparr>) = ft_stepped a c w w'"
  by (simp_all add: ft_stepped_def)

lemma ft_stepped_run:
  assumes "run_ft E mo cmp files req a c w = Some w'" "\<And>f. req \<noteq> SelectFiles f"
  shows "ft_stepped a c w w'"
proof -
  note keep = ft_stepped_put [OF ft_keeps_sendFiles] ft_stepped_put [OF ft_keeps_sendLocal] ft_stepped_put [OF ft_keeps_addJob]
    ft_stepped_put [OF ft_keeps_confirm] ft_keeps_simple [THEN ft_stepped_put]
  show ?thesis
  proof (cases req)
    case (ResumeJob i isRemote)
    then show ?thesis using assms(1) by (auto intro!: ft_stepped_put dest!: ft_keeps_resume)
  next
    case (SendFolderUpload i to hidden)
    then show ?thesis using assms(1) ft_keeps_sendFolder [of c "mo_now mo" i to hidden "w_picker w"]
      by (auto simp: case_prod_unfold intro!: ft_stepped_put)
  qed (use assms keep in auto)
qed

section \<open>The world\<close>

fun conn_fine :: "conn \<Rightarrow> bool" where
  "conn_fine (FtC c) = (base_ok c \<and> reads_ok c)"
| "conn_fine (RdC c) = base_ok c"

definition conns_ok :: "world \<Rightarrow> bool" where
  "conns_ok w \<longleftrightarrow> (\<forall>a k. map_get (w_conns w) a = Some k \<longrightarrow> conn_fine k \<and> conn_out k = [])"

definition world_ok :: "world \<Rightarrow> bool" where
  "world_ok w \<longleftrightarrow> registry_ok w \<and> '''' \<notin> set (map_keys (w_sessions w)) \<and> conns_ok w \<and> list_all saves_ok (w_out w)"

text \<open>An operation on a connection that the world allows.\<close>

definition conn_step :: "(conn \<Rightarrow> conn) \<Rightarrow> bool" where
  "conn_step f \<longleftrightarrow> (\<forall>k. conn_sessionId (f k) = conn_sessionId k \<and> (conn_fine k \<longrightarrow> conn_fine (f k)))"

lemma conn_fine_quiet: "conn_fine k \<Longrightarrow> conn_fine (conn_quiet k) \<and> conn_out (conn_quiet k) = []"
  by (cases k) (simp_all add: base_ok_def reads_ok_def)

lemma conn_fine_out: "conn_fine k \<Longrightarrow> list_all saves_ok (conn_out k)"
  by (cases k) (simp_all add: base_ok_def)

lemma world_ok_out [simp]: "world_ok (w\<lparr>w_out := w_out w @ es\<rparr>) \<longleftrightarrow> world_ok w \<and> list_all saves_ok es"
  by (auto simp: world_ok_def conns_ok_def)

lemma world_ok_report: "world_ok w \<Longrightarrow> w_out w = out \<Longrightarrow> list_all saves_ok es \<Longrightarrow> world_ok (w\<lparr>w_out := out @ es\<rparr>)"
  using world_ok_out by blast

lemma world_ok_conn: "world_ok w \<Longrightarrow> map_get (w_conns w) a = Some k \<Longrightarrow> conn_fine k \<and> conn_out k = []"
  by (simp add: world_ok_def conns_ok_def)

lemma world_ok_quiet: "world_ok w \<Longrightarrow> world_ok (w\<lparr>w_out := []\<rparr>)"
  by (simp add: world_ok_def conns_ok_def)

lemma world_ok_disk [simp]:
  "world_ok (w\<lparr>w_disk := dk\<rparr>) = world_ok w" "world_ok (w\<lparr>w_picker := pk\<rparr>) = world_ok w"
  by (simp_all add: world_ok_def conns_ok_def registry_ok_def current_ok_def cong: option.case_cong)

lemma conns_ok_on_conn: "conns_ok w \<Longrightarrow> conn_step f \<Longrightarrow> conns_ok (on_conn a f w)"
  by (auto simp: conns_ok_def conn_step_def on_conn_get conn_fine_quiet split: if_splits)

lemma out_on_conn:
  "conns_ok w \<Longrightarrow> conn_step f \<Longrightarrow> list_all saves_ok (w_out w) \<Longrightarrow> list_all saves_ok (w_out (on_conn a f w))"
  by (auto simp: conns_ok_def conn_step_def on_conn_def conn_fine_out split: option.split)

lemma world_ok_on_conn: "world_ok w \<Longrightarrow> conn_step f \<Longrightarrow> world_ok (on_conn a f w)"
  using registry_ok_work [of w f a] conns_ok_on_conn out_on_conn by (auto simp: world_ok_def conn_step_def)

lemma conn_step_close: "conn_step (conn_close E)"
proof -
  have "conn_fine (conn_close E k)" if "conn_fine k" for k
    using that ft_keeps_close keeps_rd_close [OF keeps_refl] by (cases k) (auto simp: ft_keeps_def keeps_def)
  then show ?thesis by (simp add: conn_step_def)
qed

lemma conn_step_end: "conn_step (conn_ft (end_ft_conn E))"
proof -
  have "conn_fine (conn_ft (end_ft_conn E) k)" if "conn_fine k" for k
    using that ft_keeps_close by (cases k) (auto simp: ft_keeps_def keeps_def)
  then show ?thesis by (simp add: conn_step_def)
qed

text \<open>A session leaves the registry.\<close>

lemma world_ok_shut:
  assumes "world_ok w" "conn_step f" "map_get (w_sessions w) sid = Some a"
  shows "world_ok (advanceCurConn (Some a) ((on_conn a f w)\<lparr>w_sessions := map_delete sid (w_sessions w)\<rparr>))"
proof -
  have "registry_ok (advanceCurConn (Some a) ((on_conn a f w)\<lparr>w_sessions := map_delete sid (w_sessions w)\<rparr>))"
    using assms by (intro shut_session_ok) (auto simp: world_ok_def conn_step_def)
  moreover have "conns_ok (on_conn a f w)" "list_all saves_ok (w_out (on_conn a f w))"
    using assms conns_ok_on_conn out_on_conn by (auto simp: world_ok_def)
  ultimately show ?thesis
    using assms(1) by (auto simp: world_ok_def conns_ok_def set_map_delete)
qed

lemma world_ok_remove: "world_ok w \<Longrightarrow> world_ok (removeSession E sid w)"
proof (cases "map_get (w_sessions w) sid")
  case (Some a)
  assume "world_ok w"
  then show ?thesis using world_ok_shut [OF _ conn_step_close Some] by (simp add: removeSession_def Some)
next
  case None
  assume w: "world_ok w"
  then have "registry_ok (removeSession E sid w)" using removeSession_ok by (simp add: world_ok_def)
  with w None show ?thesis by (simp add: world_ok_def conns_ok_def removeSession_def)
qed

lemma world_ok_endFt: "world_ok w \<Longrightarrow> world_ok (endFileTransferSession E s t m w)"
proof -
  assume "world_ok w"
  note shut = world_ok_shut [OF this conn_step_end]
  have "saves_ok (session_ended_event x y z)" for x y z by (simp add: session_ended_event_def)
  with \<open>world_ok w\<close> shut show ?thesis
    by (auto simp: endFileTransferSession_def Let_def intro!: world_ok_report split: option.split conn.split)
qed

lemma world_ok_close: "world_ok w \<Longrightarrow> world_ok (bridge_close E w)"
proof (cases "opt_truthy (current_sessionId w)")
  case True
  assume "world_ok w"
  with True show ?thesis by (simp add: bridge_close_def world_ok_remove)
next
  case False
  assume w: "world_ok w"
  have "w_curConn w = None"
  proof (rule ccontr)
    assume "w_curConn w \<noteq> None"
    with w obtain a s where a: "w_curConn w = Some a" "(s, a) \<in> set (w_sessions w)"
      by (auto simp: world_ok_def registry_ok_def current_ok_def)
    then have "map_get (w_sessions w) s = Some a" using w by (simp add: world_ok_def registry_ok_def map_values_get)
    from registry_ok_get [OF _ this] w have "current_sessionId w = Some s"
      using a by (auto simp: world_ok_def current_sessionId_def getConn_def)
    with False have "s = ''''" by simp
    with a w show False by (force simp: world_ok_def)
  qed
  with False w show ?thesis
    by (simp add: bridge_close_def setConn_def getConn_def world_ok_def conns_ok_def registry_ok_def current_ok_def)
qed

lemma world_ok_fatal: "world_ok w \<Longrightarrow> world_ok (showFatalError E parent title text typ w)"
proof -
  have "list_all saves_ok (notifyParentError parent x y z @ [viewer_fatal, CloseWindow])" for x y z
    by (simp add: notifyParentError_def viewer_fatal_def Let_def)
  then show "world_ok w \<Longrightarrow> world_ok (showFatalError E parent title text typ w)"
    by (simp add: showFatalError_def Let_def world_ok_endFt world_ok_close)
qed

lemma world_ok_msgbox: "world_ok w \<Longrightarrow> world_ok (msgbox E parent typ title text link w)"
  by (simp add: msgbox_def Let_def world_ok_fatal)

lemma world_ok_deliver: "world_ok w \<Longrightarrow> list_all saves_ok es \<Longrightarrow> world_ok (deliver E parent es w)"
  by (induction E parent es w rule: deliver.induct) (simp_all add: world_ok_msgbox)

lemma world_ok_put_ft:
  assumes "world_ok w" "ft_at a w = Some c" "ft_keeps c c'"
  shows "world_ok (put_ft a c' w)"
proof -
  have c: "map_get (w_conns w) a = Some (FtC c)" using assms(2) by (simp add: ft_at_conn)
  let ?f = "\<lambda>k. if k = FtC c then FtC c' else k"
  have "conn_step ?f" using assms(1,3) c by (auto simp: conn_step_def ft_keeps_def keeps_def world_ok_def conns_ok_def)
  from world_ok_on_conn [OF assms(1) this, of a] c show ?thesis by (simp add: put_ft_def on_conn_def)
qed

lemma world_ok_stepped:
  assumes "world_ok w" "ft_at a w = Some c" "ft_stepped a c w w'"
  shows "world_ok w'"
proof -
  obtain c' where c': "ft_keeps c c'" "w_conns w' = w_conns (put_ft a c' w)" "w_sessions w' = w_sessions w"
    "w_curConn w' = w_curConn w" "w_out w' = w_out (put_ft a c' w)"
    using assms(3) by (auto simp: ft_stepped_def)
  have "world_ok (put_ft a c' w)" by (rule world_ok_put_ft [OF assms(1,2) c'(1)])
  with c' show ?thesis
    by (simp add: world_ok_def conns_ok_def registry_ok_def current_ok_def put_ft_def cong: option.case_cong)
qed

lemma world_ok_rd_work:
  assumes "world_ok w" "\<And>c. map_get (w_conns w) a = Some (RdC c) \<Longrightarrow> keeps c (f c)"
  shows "world_ok (rd_work E parent a f w)"
proof (cases "\<exists>c. map_get (w_conns w) a = Some (RdC c)")
  case True
  then obtain c where c: "map_get (w_conns w) a = Some (RdC c)" by blast
  let ?f = "\<lambda>k. if k = RdC c then RdC (f c) else k"
  have k: "conn_step ?f" using assms(1) assms(2) [OF c] c by (auto simp: conn_step_def keeps_def world_ok_def conns_ok_def)
  have "world_ok (on_conn a ?f w)" by (rule world_ok_on_conn [OF assms(1) k])
  then have w: "world_ok (w\<lparr>w_conns := map_set a (RdC ((f c)\<lparr>b_out := []\<rparr>)) (w_conns w)\<rparr>)"
    using c by (simp add: on_conn_def world_ok_def conns_ok_def registry_ok_def current_ok_def cong: option.case_cong)
  have "conn_fine (RdC c)" using world_ok_conn [OF assms(1) c] by simp
  then have "list_all saves_ok (b_out (f c))" using assms(2) [OF c] by (simp add: keeps_def base_ok_def)
  with world_ok_deliver [OF w] c show ?thesis by (simp add: rd_work_def)
qed (use assms(1) in \<open>auto simp: rd_work_def split: option.split conn.split\<close>)

section \<open>Requests and messages keep the world\<close>

lemma world_ok_ft_msgbox: "world_ok w \<Longrightarrow> world_ok (ft_msgbox E a typ title text w)"
  by (simp add: ft_msgbox_def world_ok_endFt)

lemma world_ok_selectFiles:
  assumes "world_ok w"
  shows "world_ok (selectFiles E a cmp files isFolder w)"
proof -
  have "saves_ok (fst (notifySelectedFolder plan s pk))" for plan s pk
    by (simp add: notifySelectedFolder_def Let_def)
  moreover have "saves_ok (notifySelectedFile i f s)" for i f s by (simp add: notifySelectedFile_def)
  ultimately show ?thesis
    using assms by (auto simp: selectFiles_def Let_def case_prod_unfold list_all_iff intro!: world_ok_ft_msgbox
        world_ok_report split: option.split)
qed

lemma world_ok_withFt: "world_ok w \<Longrightarrow> withFt E mo cmp files sid req w = Some w' \<Longrightarrow> world_ok w'"
proof -
  assume w: "world_ok w" and r: "withFt E mo cmp files sid req w = Some w'"
  show ?thesis
  proof (cases "\<exists>a c. requireFileTransfer sid w = Some a \<and> ft_at a w = Some c")
    case True
    then obtain a c where a: "requireFileTransfer sid w = Some a" "ft_at a w = Some c" by blast
    with r have run: "run_ft E mo cmp files req a c w = Some w'" by (simp add: withFt_def)
    show ?thesis
    proof (cases "\<exists>f. req = SelectFiles f")
      case True
      then show ?thesis using run world_ok_selectFiles [OF w] by auto
    next
      case False
      with run show ?thesis by (intro world_ok_stepped [OF w a(2)] ft_stepped_run) auto
    qed
  qed (use w r in \<open>auto simp: withFt_def split: option.splits\<close>)
qed

lemma withFt_returns:
  assumes "world_ok w"
  shows "\<exists>w'. withFt E mo cmp files sid req w = Some w'"
proof (cases "\<exists>a c f. requireFileTransfer sid w = Some a \<and> ft_at a w = Some c \<and> (\<forall>f. req \<noteq> SelectFiles f)")
  case True
  then obtain a c where a: "requireFileTransfer sid w = Some a" "ft_at a w = Some c" "\<And>f. req \<noteq> SelectFiles f" by blast
  have "reads_ok c" using world_ok_conn [OF assms] a(2) by (fastforce simp: ft_at_conn)
  from run_ft_changes_only [OF a(2) this a(3), of E mo cmp files] a show ?thesis by (auto simp: withFt_def)
next
  case False
  then show ?thesis by (auto simp: withFt_def split: option.split)
qed

lemma ft_keeps_prepare: "store_ok st \<Longrightarrow> ft_keeps c (ft_prepare (getPeers st) peer pw c)"
proof (rule ft_keeps_base)
  show "store_ok st \<Longrightarrow> keeps c (ft_prepare (getPeers st) peer pw c)" by (simp add: ft_prepare_def Let_def keep_intros)
  show "ft_jobs (ft_prepare (getPeers st) peer pw c) = ft_jobs c"
    by (simp add: ft_prepare_def prepareConnect_def startMessagePump_def Let_def)
qed

lemma world_ok_begin: "world_ok w \<Longrightarrow> store_ok st \<Longrightarrow> world_ok (conn_begin E parent (getPeers st) peer pw a w)"
  by (auto simp: conn_begin_def ft_at_conn intro!: world_ok_put_ft ft_keeps_prepare world_ok_rd_work keeps_rd_prepare keep_intros
      split: option.split conn.split)

lemma world_ok_ft_connected:
  assumes "world_ok w" "ready_event conn"
  shows "world_ok (ft_connected E conn a w)"
proof (cases "ft_at a w")
  case (Some c)
  have "ft_keeps c (attach_ws ws (emit (pushEvent n p sid) c))" for ws n p sid
    by (rule ft_keeps_base) (auto simp: attach_ws_def intro!: keep_intros)
  then have put: "world_ok (put_ft a (attach_ws ws (emit (pushEvent n p sid) c)) w)" for ws n p sid
    by (rule world_ok_put_ft [OF assms(1) Some])
  have "world_ok (ft_not_connected E a m w1)" if "world_ok w1" for m w1
    using that by (simp add: ft_not_connected_def world_ok_endFt split: option.split)
  with put assms Some show ?thesis
    by (auto simp: ft_connected_def ready_event_def ft_reportConnectError_def world_ok_endFt Let_def split: established.splits)
qed (simp add: ft_connected_def assms)

lemma world_ok_disconnected:
  assumes "world_ok w"
  shows "world_ok (ft_disconnected E a e w)"
proof (cases "ft_at a w")
  case (Some c)
  have "ft_keeps c (failActiveJobs err c)" for err
    by (auto simp: ft_keeps_def keep_intros) (simp add: failActiveJobs_reports reads_ok_def newFileJobManager_def)
  with world_ok_put_ft [OF assms Some] assms Some show ?thesis
    by (simp add: ft_disconnected_def world_ok_endFt Let_def)
qed (simp add: ft_disconnected_def assms)

lemma ft_keeps_peerInfo: "ft_keeps c (ft_handlePeerInfo now info c)"
  by (rule ft_keeps_base [OF keeps_peerInfo handlePeerInfo_jobs])

lemma ft_keeps_hash_login:
  assumes "login E (ft_buildLoginRequest rnd) pw (c\<lparr>b_hash := h\<rparr>) = Inr c'"
  shows "ft_keeps c c'"
proof (rule ft_keeps_base)
  show "keeps c c'" by (rule keeps_login [OF _ _ assms]) (simp_all add: keeps_ft_build keep_intros)
  show "ft_jobs c' = ft_jobs c" using login_jobs [OF assms] by simp
qed

lemma ft_keeps_hash: "ft_keeps c (c\<lparr>b_hash := h\<rparr>)"
  by (rule ft_keeps_base) (simp_all add: keep_intros)

lemma ft_keeps_round:
  assumes "reads_ok c"
  shows "handleFileResponse E now bh fr (c, dk) = Some s' \<Longrightarrow> ft_keeps c (fst s')"
    and "handleFileAction clk fa c = Some c' \<Longrightarrow> ft_keeps c c'"
proof -
  show "handleFileResponse E now bh fr (c, dk) = Some s' \<Longrightarrow> ft_keeps c (fst s')"
    using keeps_fileResponse reads_ok_fileResponse [OF assms] by (simp add: ft_keeps_def)
  show "handleFileAction clk fa c = Some c' \<Longrightarrow> ft_keeps c c'"
    using keeps_fileAction fileAction_returns [OF assms, of clk fa] by (auto simp: ft_keeps_def)
qed

lemma world_ok_ft_message:
  assumes "world_ok w" "ft_at a w = Some c"
  shows "case ft_handleMessage E mo a msg c w of Goes w' \<Rightarrow> world_ok w' | Throws e w' \<Rightarrow> world_ok w' | Hangs \<Rightarrow> True"
proof -
  note put = world_ok_put_ft [OF assms]
  have r: "reads_ok c" using world_ok_conn [OF assms(1)] assms(2) by (fastforce simp: ft_at_conn)
  show ?thesis
  proof (cases "Message_hash msg")
    case (Some h)
    then show ?thesis
      using put [OF ft_keeps_hash] put [OF ft_keeps_hash_login]
      by (auto simp: ft_handleMessage_def handleHashMessage_def ft_onPasswordRequired_def world_ok_ft_msgbox split: sum.split)
  next
    case None
    have "ft_keeps c (ft_permission p c)" for p
      by (rule ft_keeps_base) (auto simp: ft_permission_def ev_def intro!: keep_intros)
    with None put [OF ft_keeps_peerInfo] put [OF ft_keeps_round(1) [OF r]] put [OF ft_keeps_round(2) [OF r]] put assms(1) show ?thesis
      by (fastforce simp: ft_handleMessage_def ft_handleLoginResponse_def ft_round_def world_ok_endFt split: option.split)
  qed
qed

lemma keeps_token [keep_intros]:
  assumes "keeps c c1"
  shows "keeps c (apply_password v c1)" "keeps c (apply_source v c1)" "keeps c (apply_session v c1)"
  by (rule keeps_silent [OF _ _ _ assms]; cases v; simp)+

lemma token_jobs: "ft_jobs (apply_password v c) = ft_jobs c" "ft_jobs (apply_source v c) = ft_jobs c"
  "ft_jobs (apply_session v c) = ft_jobs c"
  by (cases v; simp)+

lemma conn_step_token: "conn_step (applyConnToken t)"
proof -
  have "keeps c (apply_token v c)" for v and c :: rdconn by (simp add: apply_token_def keep_intros)
  moreover have "ft_keeps c (apply_token v c)" for v c
    by (rule ft_keeps_base) (simp_all add: apply_token_def keep_intros token_jobs)
  ultimately have "conn_fine (conn_apply_token v k)" if "conn_fine k" for v k
    using that by (cases k) (auto simp: ft_keeps_def keeps_def)
  then show ?thesis
    by (auto simp: conn_step_def applyConnToken_sessionId) (auto simp: applyConnToken_def split: option.split)
qed

lemma conn_step_password: "conn_step (conn_setPlaintextPassword pw)"
proof -
  have "conn_sessionId (conn_setPlaintextPassword pw k) = conn_sessionId k
      \<and> (conn_fine k \<longrightarrow> conn_fine (conn_setPlaintextPassword pw k))" for k
    by (cases k) (simp_all add: setPlaintextPassword_def base_ok_def reads_ok_def)
  then show ?thesis by (simp add: conn_step_def)
qed

lemma world_ok_add: "world_ok w \<Longrightarrow> world_ok (snd (sessionAdd d w))"
proof (cases "sd_session_id d = ''''")
  case False
  assume w: "world_ok w"
  let ?a = "fresh_addr w" and ?sid = "sd_session_id d"
  let ?k = "if sd_isFileTransfer d then FtC newFtConnection else RdC newRdConnection"
  let ?w0 = "w\<lparr>w_conns := map_set ?a ?k (w_conns w)\<rparr>"
  let ?w1 = "addSession ?sid ?a ?w0"
  have new: "conn_fine ?k" "conn_out ?k = []" "conn_fine (set_sessionId ?sid ?k)" "conn_out (set_sessionId ?sid ?k) = []"
    by (simp_all add: newFtConnection_def newRdConnection_def newBase_def base.defs base_ok_def reads_ok_def newFileJobManager_def)
  have "registry_ok ?w0"
    by (rule registry_step_ok [OF rs_create]) (use w in \<open>simp_all add: fresh_addr_new world_ok_def\<close>)
  then have "registry_ok ?w1"
    using fresh_addr_unregistered [of w] w by (intro addSession_ok [of _ _ ?k]) (simp_all add: map_get_set world_ok_def)
  moreover have "conns_ok ?w1"
    using w new conn_fine_quiet [OF new(3)] by (auto simp: world_ok_def conns_ok_def addSession_def on_conn_get map_get_set split: if_splits)
  moreover have "'''' \<notin> set (map_keys (w_sessions ?w1))"
    using w False by (auto simp: world_ok_def registry_ok_def addSession_def set_map_set)
  moreover have "w_out ?w1 = w_out w" using new by (simp add: addSession_def on_conn_def map_get_set)
  ultimately have "world_ok ?w1" using w by (simp add: world_ok_def)
  from world_ok_on_conn [OF this conn_step_token] world_ok_on_conn [OF this conn_step_password] this False show ?thesis
    by (simp add: sessionAdd_def Let_def)
qed (simp add: sessionAdd_def)

lemma world_ok_select: "world_ok w \<Longrightarrow> getSession sid w = Some a \<Longrightarrow> world_ok (w\<lparr>w_curConn := Some a\<rparr>)"
  using registry_step_ok [OF rs_select [of sid w a]] by (auto simp: world_ok_def conns_ok_def)

lemma world_ok_start: "world_ok w \<Longrightarrow> world_ok (snd (start_step E parent dec con x (pg, w)))"
proof -
  assume w: "world_ok w"
  have a: "saves_ok (ack b v)" for b v by (simp add: ack_def)
  then have "world_ok (snd (start_failed E parent e (pg, w)))" for e
    using w by (simp add: start_failed_def Let_def world_ok_fatal)
  moreover have "world_ok (snd (message_arrives E parent m (pg, w)))" for m
    using w a by (simp add: message_arrives_def Let_def world_ok_fatal)
  ultimately show ?thesis
    using w a by (cases x; cases "sp_phase pg") (auto simp: Let_def split: sum.split)
qed

section \<open>The viewer\<close>

definition app_ok :: "app \<Rightarrow> bool" where
  "app_ok s \<longleftrightarrow> world_ok (ap_world s) \<and> w_out (ap_world s) = [] \<and> store_ok (ap_store s)
     \<and> (\<forall>p \<in> set (ap_typing s). snd (snd p) < 4)"

lemma write_back_ok: "saves_ok e \<Longrightarrow> store_ok st \<Longrightarrow> store_ok (write_back e st)"
proof (cases e)
  case (SavePeer peer opts)
  assume "saves_ok e" "store_ok st"
  with SavePeer have "map_ok (map_set peer opts (getPeers st))" "\<forall>p \<in> set (map_set peer opts (getPeers st)). map_ok (snd p)"
    by (auto simp: store_ok_def set_map_set intro: inv_intros)
  with SavePeer write_store_ok show ?thesis by simp
qed (simp_all add: store_ok_def setItem_def getPeers_def)

lemma fold_write_back_ok: "list_all saves_ok es \<Longrightarrow> store_ok st \<Longrightarrow> store_ok (fold write_back es st)"
  by (induction es arbitrary: st) (simp_all add: write_back_ok)

lemma absorb_ok:
  assumes "world_ok w" "app_ok s"
  shows "app_ok (absorb E parent w s)"
proof -
  let ?w1 = "deliver E parent (w_out w) (w\<lparr>w_out := []\<rparr>)"
  have w1: "world_ok ?w1"
    using assms(1) by (intro world_ok_deliver world_ok_quiet) (simp_all add: world_ok_def)
  then have "list_all saves_ok (w_out ?w1)" by (simp add: world_ok_def)
  with world_ok_quiet [OF w1] fold_write_back_ok assms(2) show ?thesis by (simp add: app_ok_def absorb_def Let_def)
qed

lemma app_ok_fields [simp]:
  "app_ok (s\<lparr>ap_starting := x1\<rparr>) = app_ok s" "app_ok (s\<lparr>ap_loops := x2\<rparr>) = app_ok s"
  "app_ok (s\<lparr>ap_views := x3\<rparr>) = app_ok s" "app_ok (s\<lparr>ap_page := x4\<rparr>) = app_ok s"
  by (simp_all add: app_ok_def)

lemma app_ok_world: "app_ok s \<Longrightarrow> world_ok (ap_world s) \<and> store_ok (ap_store s)"
  by (simp add: app_ok_def)

lemma app_ok_typing: "app_ok s \<Longrightarrow> \<forall>p \<in> set ps. snd (snd p) < 4 \<Longrightarrow> app_ok (s\<lparr>ap_typing := ps\<rparr>)"
  by (simp add: app_ok_def)

lemma startConn_ok: "app_ok s \<Longrightarrow> app_ok (app_startConn E parent peer pw sid s)"
proof -
  assume s: "app_ok s"
  then have s1: "app_ok (s\<lparr>ap_store := setItem k v (ap_store s)\<rparr>)" for k v
    by (simp add: app_ok_def store_ok_def setItem_def getPeers_def)
  then show ?thesis
    using app_ok_world [OF s1] app_ok_world [OF s]
    by (auto simp: app_startConn_def Let_def intro!: absorb_ok world_ok_begin split: option.split)
qed

lemma sessionStart_ok: "app_ok s \<Longrightarrow> app_ok (app_sessionStart E parent d value s)"
proof -
  assume s: "app_ok s"
  have "app_ok (s\<lparr>ap_world := (ap_world s)\<lparr>w_curConn := Some a\<rparr>\<rparr>)" if "getSession sid (ap_world s) = Some a" for sid a
    using s world_ok_select [OF _ that] by (simp add: app_ok_def)
  with s show ?thesis
    using app_ok_world
    by (auto simp: app_sessionStart_def Let_def intro!: startConn_ok absorb_ok world_ok_msgbox world_ok_select split: option.split)
qed

lemma login_ok:
  assumes "app_ok s"
  shows "case app_login E inp rem os pw a s of Returned v s' \<Rightarrow> app_ok s' | Raised e s' \<Rightarrow> app_ok s' | Stuck \<Rightarrow> False | Unread \<Rightarrow> False"
proof -
  note w = app_ok_world [OF assms, THEN conjunct1]
  have ft: "world_ok (put_ft a c' (ap_world s))" if "map_get (w_conns (ap_world s)) a = Some (FtC c)" "ft_keeps c c'" for c c'
    using that by (intro world_ok_put_ft [OF w]) (simp_all add: ft_at_conn)
  have rem: "ft_keeps c (ft_setRemember b c)" "keeps d (rd_setRemember now b d)" for c b d now
    by (simp_all add: ft_setRemember_def rd_setRemember_def ft_keeps_base keep_intros)
  have rd: "world_ok (rd_work E parent a (\<lambda>_. c') (ap_world s))" if "map_get (w_conns (ap_world s)) a = Some (RdC c)" "keeps c c'" for c c' parent
    using that by (intro world_ok_rd_work [OF w]) simp
  show ?thesis
    using assms rem ft rd
    by (auto simp: app_login_def Let_def intro!: absorb_ok world_ok_rd_work [OF w] dest: ft_keeps_login keeps_rd_login
        split: option.split conn.split sum.split)
qed

lemma conn_step_options: "conn_step (conn_setOption now n v)" "conn_step (conn_setRemember now b)" "conn_step (run_event E x)"
  "conn_step conn_detach"
proof -
  have "ft_jobs (setOption now n v d) = ft_jobs d" for d :: ftconn by (simp add: setOption_def Let_def)
  then have "keeps c (setOption now n v c)" "ft_keeps d (setOption now n v d)" for c :: rdconn and d
    by (simp_all add: ft_keeps_base keep_intros)
  then have "conn_sessionId (conn_setOption now n v k) = conn_sessionId k \<and> (conn_fine k \<longrightarrow> conn_fine (conn_setOption now n v k))" for k
    by (cases k) (auto simp: keeps_def ft_keeps_def)
  then show "conn_step (conn_setOption now n v)" by (simp add: conn_step_def)
  have "keeps c (rd_setRemember now b c)" "ft_keeps d (ft_setRemember b d)" for c d
    by (simp_all add: ft_setRemember_def rd_setRemember_def ft_keeps_base keep_intros)
  then have "conn_sessionId (conn_setRemember now b k) = conn_sessionId k \<and> (conn_fine k \<longrightarrow> conn_fine (conn_setRemember now b k))" for k
    by (cases k) (auto simp: keeps_def ft_keeps_def)
  then show "conn_step (conn_setRemember now b)" by (simp add: conn_step_def)
  have "conn_sessionId (run_event E x k) = conn_sessionId k \<and> (conn_fine k \<longrightarrow> conn_fine (run_event E x k))" for k
    using ft_keeps_event keeps_rd_event by (cases k) (auto simp: keeps_def ft_keeps_def)
  then show "conn_step (run_event E x)" by (simp add: conn_step_def)
  have "keeps c (detach c)" "ft_keeps d (detach d)" for c :: rdconn and d
    by (simp_all add: ft_keeps_base keep_intros detach_def)
  then have "conn_sessionId (conn_detach k) = conn_sessionId k \<and> (conn_fine k \<longrightarrow> conn_fine (conn_detach k))" for k
    by (cases k) (auto simp: keeps_def ft_keeps_def)
  then show "conn_step conn_detach" by (simp add: conn_step_def)
qed

lemma rd_call_ok:
  assumes "app_ok s"
  shows "app_ok (run_rd_call E inp sid r s)"
proof -
  note w = app_ok_world [OF assms]
  show ?thesis
  proof (cases r)
    case (RdReq req)
    then show ?thesis using assms w keeps_run_rd
      by (auto simp: withRd_def intro!: absorb_ok world_ok_rd_work split: option.split)
  next
    case RestartReq
    have "keeps c (rd_restart (getPeers (ap_store s)) c)" for c
      unfolding rd_restart_def using w by (intro keeps_rd_prepare keep_intros) simp
    with RestartReq assms w show ?thesis by (auto intro!: absorb_ok world_ok_rd_work split: option.split)
  next
    case (OsPasswordReq p)
    have "app_ok (absorb E parent (rd_work E parent a (inputOsPassword_steps E p ! 0) (ap_world s)) s)" for parent a
      using assms w by (auto intro!: absorb_ok world_ok_rd_work keeps_os_password keep_intros)
    moreover have "\<forall>q \<in> set (ap_typing s). snd (snd q) < 4" using assms by (simp add: app_ok_def)
    ultimately show ?thesis using OsPasswordReq assms by (auto intro!: app_ok_typing split: option.split)
  qed
qed

lemma request_ok:
  assumes "app_ok s"
  shows "case run_request E inp sid r s of Returned v s' \<Rightarrow> app_ok s' | Raised e s' \<Rightarrow> app_ok s' | Stuck \<Rightarrow> False | Unread \<Rightarrow> False"
proof -
  note w = app_ok_world [OF assms]
  show ?thesis
  proof (cases r)
    case (FtRequest req)
    obtain w' where "withFt E (in_moment inp) (in_compare inp) (in_files inp) sid req (ap_world s) = Some w'"
      using withFt_returns w by blast
    with FtRequest w assms world_ok_withFt show ?thesis by (auto intro: absorb_ok)
  next
    case (LoginCall rem os pw)
    then show ?thesis
      using assms login_ok [OF assms, of E inp rem os pw "the (connFor sid (ap_world s))"]
      by (cases "connFor sid (ap_world s)") simp_all
  next
    case (SessionAddSync d)
    then show ?thesis using w assms world_ok_add [of "ap_world s" d] by (auto simp: case_prod_unfold Let_def intro: absorb_ok)
  qed (use assms w in \<open>auto simp: rd_call_ok sessionStart_ok on_current_def sessionClose_def intro!: absorb_ok world_ok_close
        world_ok_on_conn conn_step_options world_ok_msgbox world_ok_remove split: option.split\<close>,
      auto simp: app_ok_def run_set_ok)
qed

lemma setByName_ok:
  assumes "app_ok s"
  shows "case setByName E inp name value sid s of Returned v s' \<Rightarrow> app_ok s' | Raised e s' \<Rightarrow> app_ok s' | Stuck \<Rightarrow> False | Unread \<Rightarrow> True"
proof (cases "lookup_handler setByNameHandlers name")
  case (Own h)
  obtain n f where h: "h = (n, f)" by (cases h)
  show ?thesis
  proof (cases "f value")
    case (Args r)
    with request_ok [OF assms, of E inp sid r] Own h assms show ?thesis
      by (cases "run_request E inp sid r s") (simp_all add: setByName_def)
  qed (use Own h assms in \<open>simp_all add: setByName_def\<close>)
qed (use assms in \<open>simp_all add: setByName_def call_inherited_def\<close>)

lemma end_loop_ok: "app_ok s \<Longrightarrow> world_ok w \<Longrightarrow> app_ok (end_loop E parent a w s)"
  by (simp add: end_loop_def stop_loop_def absorb_ok world_ok_on_conn conn_step_options)

lemma ws_next_buf: "ws_next t tm now ws = (NextWait, ws1) \<Longrightarrow> ws1 = ws"
  by (auto simp: ws_next_def split: list.splits if_splits)

lemma rd_poll_ok:
  assumes "app_ok s" "map_get (w_conns (ap_world s)) a = Some (RdC c)"
  shows "app_ok (rd_poll E parent mo answers a c s)"
proof -
  note w = app_ok_world [OF assms(1), THEN conjunct1]
  have work: "world_ok (rd_work E parent a (\<lambda>_. c') (ap_world s))" if "keeps c c'" for c'
    using that assms(2) by (intro world_ok_rd_work [OF w]) simp
  have "app_ok (rd_round E parent mo answers a msg (c\<lparr>b_ws := Some ws\<rparr>) s)" for msg ws
  proof -
    let ?c = "c\<lparr>b_ws := Some ws\<rparr>"
    have k: "keeps c ?c" by (intro keep_intros)
    show ?thesis
    proof (cases "rd_handleMessage E (mo_now mo) (mo_rnd mo) answers msg ?c")
      case (Inl e)
      have "keeps c (rd_loop_failed e ?c)" using k by (rule keep_intros)
      with Inl show ?thesis using assms(1) work by (simp add: rd_round_def end_loop_ok)
    next
      case (Inr p)
      obtain b c1 where p: "p = (b, c1)" by (cases p)
      have "keeps c c1" using keeps_trans [OF k keeps_rd_message] Inr p by blast
      then have "app_ok (absorb E parent (rd_work E parent a (\<lambda>_. c1) (ap_world s)) s)" "world_ok (rd_work E parent a (\<lambda>_. c1) (ap_world s))"
        using assms(1) work absorb_ok by blast+
      moreover have "\<forall>q \<in> set (ap_typing s). snd (snd q) < 4" using assms(1) by (simp add: app_ok_def)
      ultimately show ?thesis
        using Inr p assms(1) by (cases b) (auto simp: rd_round_def intro!: app_ok_typing end_loop_ok)
    qed
  qed
  moreover have "world_ok (rd_work E parent a (rd_loop_failed e) (ap_world s))" "world_ok (rd_work E parent a (\<lambda>c. c\<lparr>b_ws := x\<rparr>) (ap_world s))" for e x
    by (auto intro!: world_ok_rd_work [OF w] keep_intros)
  ultimately show ?thesis
    using assms(1)
    by (auto simp: rd_poll_def stop_loop_def intro!: end_loop_ok absorb_ok split: option.split prod.split next_result.split in_message.split)
qed

lemma ft_poll_ok:
  assumes "app_ok s" "map_get (w_conns (ap_world s)) a = Some (FtC c)" "ft_poll E parent mo a c s = Some s'"
  shows "app_ok s'"
proof -
  note w = app_ok_world [OF assms(1), THEN conjunct1]
  have at: "ft_at a (ap_world s) = Some c" using assms(2) by (simp add: ft_at_conn)
  have put: "world_ok (put_ft a (c\<lparr>b_ws := x\<rparr>) (ap_world s))" for x
    by (rule world_ok_put_ft [OF w at]) (simp add: ft_keeps_base keep_intros)
  have "app_ok s1" if "ft_round_app E parent mo a msg (c\<lparr>b_ws := x\<rparr>) s = Some s1" for msg x s1
  proof -
    have o: "b_out c = []" using world_ok_conn [OF w assms(2)] by simp
    then have "ft_at a (put_ft a (c\<lparr>b_ws := x\<rparr>) (ap_world s)) = Some (c\<lparr>b_ws := x\<rparr>)" using ft_at_put [OF at] by simp
    from world_ok_ft_message [OF put this, of E mo msg] that assms(1) show ?thesis
      by (auto simp: ft_round_app_def intro!: absorb_ok end_loop_ok world_ok_disconnected split: loop_round.splits)
  qed
  with assms(1,3) put w show ?thesis
    by (auto simp: ft_poll_def stop_loop_def intro!: end_loop_ok absorb_ok world_ok_disconnected
        split: option.splits prod.splits next_result.splits in_message.splits)
qed

lemma app_step_ok: "app_step E s s' \<Longrightarrow> app_ok s \<Longrightarrow> app_ok s'"
proof (induction rule: app_step.induct)
  case (call inp name val sid s v s')
  then show ?case using setByName_ok [of s E inp name val sid] by simp
next
  case (call_raises inp name val sid s e s')
  then show ?case using setByName_ok [of s E inp name val sid] by simp
next
  case (connected a s conn parent)
  then show ?case
    using app_ok_world [of s]
    by (auto simp: app_connected_def Let_def intro!: absorb_ok world_ok_rd_work world_ok_ft_connected keeps_rd_connected
        split: option.split conn.split established.split)
next
  case (poll a s parent mo answers s')
  then show ?case
    using rd_poll_ok ft_poll_ok by (auto simp: app_poll_def stop_loop_def split: option.splits conn.splits)
next
  case (event s parent x a)
  then show ?case using app_ok_world by (simp add: app_event_def absorb_ok world_ok_on_conn conn_step_options)
next
  case (dialog s parent ans a)
  have "world_ok (put_ft a (fst (answer_dialog E ans (c, dk))) (ap_world s))" if "ft_at a (ap_world s) = Some c" for c dk
    using app_ok_world [OF dialog] by (intro world_ok_put_ft [OF _ that ft_keeps_dialog]) simp
  with dialog show ?case
    by (auto simp: app_dialog_def Let_def case_prod_unfold intro!: absorb_ok split: option.split)
next
  case (typing p s parent)
  obtain a pw n where p: "p = (a, pw, n)" by (cases p)
  with typing have n: "n < 4" by (auto simp: app_ok_def)
  have "app_ok (absorb E parent (rd_work E parent a (inputOsPassword_steps E pw ! n) (ap_world s)) s)"
    using typing(2) app_ok_world n by (auto intro!: absorb_ok world_ok_rd_work keeps_os_password keep_intros)
  moreover have "\<forall>q \<in> set (remove1 p (ap_typing s)). snd (snd q) < 4"
    using typing(2) set_remove1_subset [of p "ap_typing s"] by (auto simp: app_ok_def)
  ultimately show ?case by (auto simp: app_typing_def p Let_def intro!: app_ok_typing)
next
  case (start s parent dec con x)
  then show ?case
    using app_ok_world world_ok_start [of "ap_world s" E parent dec con x "ap_page s"]
    by (auto simp: app_start_def Let_def case_prod_unfold intro!: absorb_ok)
qed

section \<open>The invariant\<close>

lemma fresh_ok: "store_ok st \<Longrightarrow> app_ok (fresh_app st pg views)"
  by (simp add: app_ok_def fresh_app_def world_ok_def conns_ok_def no_sessions_def registry_ok_def current_ok_def)

lemma reachable_ok: "(app_step E)\<^sup>*\<^sup>* (fresh_app st pg views) s \<Longrightarrow> store_ok st \<Longrightarrow> app_ok s"
  by (induction rule: rtranclp_induct) (auto simp: fresh_ok intro: app_step_ok)


text \<open>A viewer that has just been loaded, with an empty \<open>localStorage\<close>.\<close>

definition empty_store :: store where
  "empty_store = \<lparr>ls_items = [], ls_peers = NoItem, ls_userDefaults = NoItem, ls_fav = NoItem\<rparr>"


definition sample_app :: app where
  "sample_app = fresh_app empty_store waiting_page [(''FLUTTER-VIEW'', '''')]"

definition sample_input :: input where
  "sample_input = \<lparr>in_parent = True, in_moment = sample_moment, in_compare = Comparator.flat, in_files = [], in_isDesktop = True\<rparr>"

text \<open>A call whose handler needs no session is carried out as it was read.\<close>

lemma call_read:
  "read_call p = Args r \<Longrightarrow> \<exists>f. map_get setByNameHandlers (fst p) = Some (Always, f)
     \<Longrightarrow> setByName E inp (fst p) (snd p) sid s = run_request E inp sid r s"
  by (auto simp: setByName_def read_call_def lookup_handler_def)

lemma always_common:
  "\<exists>f. map_get setByNameHandlers ''session_add_sync'' = Some (Always, f)"
  "\<exists>f. map_get setByNameHandlers ''session_close'' = Some (Always, f)"
  using table_get(1) by (fastforce simp: setCommonHandlers_def)+

lemma call_add_sync:
  "token_text t \<Longrightarrow> setByName E inp (fst (flutter_text (CallAddSync sid i pw shared ft t))) (snd (flutter_text (CallAddSync sid i pw shared ft t))) x s
     = run_request E inp x (flutter_meaning (CallAddSync sid i pw shared ft t)) s"
  by (rule call_read [OF read_common_call]) (auto simp: always_common)

lemma call_close: "setByName E inp ''session_close'' (JStr sid) x s = run_request E inp x (SessionClose sid) s"
  using call_read [OF read_common_call [of "CallClose sid"], of E inp x s] by (simp add: always_common)


end
