(* ===== verification/Queries.thy ===== *)
theory Queries
  imports Viewer_Invariant
begin

text \<open>
  \<open>window.getByName\<close>: the questions that Flutter asks (\<open>bridge/flutter_bridge.js\<close>,
  \<open>handlers/get_storage.js\<close>, \<open>get_rd.js\<close> and the stubs), answered from \<open>localStorage\<close>, the
  registry and the browser.  A question changes nothing; two of them hand a list of peers to
  Flutter's event handler.
\<close>

section \<open>What the browser tells\<close>

record screen_data =
  sc_screenX :: int
  sc_screenY :: int
  sc_innerWidth :: int
  sc_innerHeight :: int
  sc_availLeft :: int
  sc_availTop :: int
  sc_availWidth :: int
  sc_availHeight :: int
  sc_devicePixelRatio :: rat

text \<open>\<open>br_lang\<close> is the language that the address of the page asks for, \<open>br_caps\<close> the media types it plays.\<close>

record browser =
  br_screen :: screen_data
  br_lang :: string
  br_langs :: "(string, dictionary) jsmap"
  br_caps :: "string list option"

definition viewer_version :: string where
  "viewer_version = ''1.3.8''"

text \<open>The answer of a handler, and the events that it hands to Flutter.\<close>

type_synonym reply = "jval \<times> (string, jval) jsmap list"

type_synonym query = "browser \<Rightarrow> app \<Rightarrow> string option \<Rightarrow> jval \<Rightarrow> reply arg"

definition reply_with :: "jval \<Rightarrow> reply arg" where
  "reply_with v = Args (v, [])"

text \<open>\<open>v ?? d\<close>\<close>

definition jdefault :: "jval \<Rightarrow> jval \<Rightarrow> jval" where
  "jdefault v d = (if v = JUndefined \<or> v = JNull then d else v)"

section \<open>The connection that is asked\<close>

definition cur_conn :: "app \<Rightarrow> string option \<Rightarrow> conn option" where
  "cur_conn s sid = Option.bind (connFor sid (ap_world s)) (map_get (w_conns (ap_world s)))"

fun conn_getOption :: "string \<Rightarrow> conn \<Rightarrow> jval" where
  "conn_getOption name (FtC c) = getOption name c"
| "conn_getOption name (RdC c) = getOption name c"

fun conn_getRemember :: "conn \<Rightarrow> bool" where
  "conn_getRemember (FtC c) = ft_remember c"
| "conn_getRemember (RdC c) = rd_getRemember c"

fun conn_getPlatform :: "conn \<Rightarrow> string" where
  "conn_getPlatform (FtC c) = ft_getPlatform c"
| "conn_getPlatform (RdC c) = base_getPlatform c"

fun conn_peerInfo :: "conn \<Rightarrow> PeerInfo option" where
  "conn_peerInfo (FtC c) = b_peerInfo c"
| "conn_peerInfo (RdC c) = b_peerInfo c"

text \<open>An option of the connection; \<open>undefined\<close> without one.\<close>

definition asked_option :: "app \<Rightarrow> string option \<Rightarrow> string \<Rightarrow> jval" where
  "asked_option s sid name = (case cur_conn s sid of None \<Rightarrow> JUndefined | Some k \<Rightarrow> conn_getOption name k)"

definition asked_rd :: "app \<Rightarrow> string option \<Rightarrow> rdconn option" where
  "asked_rd s sid =
     (case Option.bind (requireRemoteDesktop sid (ap_world s)) (map_get (w_conns (ap_world s))) of
        Some (RdC c) \<Rightarrow> Some c
      | _ \<Rightarrow> None)"

section \<open>Lists of peers\<close>

definition card_json :: "peer_card \<Rightarrow> jval" where
  "card_json x = JObj [(''id'', JStr (pc_id x)), (''username'', pc_username x), (''hostname'', pc_hostname x),
     (''platform'', pc_platform x), (''alias'', pc_alias x)]"

definition peers_json :: "peer_card list \<Rightarrow> jval" where
  "peers_json cards = JJson (JArr (map card_json cards))"

definition peers_event :: "string \<times> peer_card list \<Rightarrow> (string, jval) jsmap" where
  "peers_event p = [(''name'', JStr (fst p)), (''peers'', peers_json (snd p))]"

definition fav_text :: "store \<Rightarrow> jval option" where
  "fav_text st =
     (case ls_fav st of
        NoItem \<Rightarrow> Some (JJson (JArr []))
      | Stored ids \<Rightarrow> Some (JJson (JArr (map JStr ids)))
      | BadText \<Rightarrow> None)"

section \<open>The handlers\<close>

text \<open>A handler that answers from \<open>localStorage\<close>, given the text of its argument.\<close>

definition from_store :: "(string \<Rightarrow> get_request option) \<Rightarrow> query" where
  "from_store f = (\<lambda>br s sid arg.
     case Option.bind (stored_text arg) f of None \<Rightarrow> IllTyped | Some r \<Rightarrow> reply_with (run_get (ap_store s) r))"

definition from_settings :: "get_request \<Rightarrow> query" where
  "from_settings r = (\<lambda>br s sid arg. reply_with (run_get (ap_store s) r))"

definition get_option_session :: query where
  "get_option_session = (\<lambda>br s sid arg.
     case text_of arg of
       None \<Rightarrow> IllTyped
     | Some name \<Rightarrow> reply_with (jdefault (asked_option s sid name) (getUserDefaultOption (ap_store s) name)))"

definition get_hostname :: query where
  "get_hostname = (\<lambda>br s sid arg.
     reply_with (jor (fld (asked_option s sid ''info'') ''hostname'')
       (case Option.bind (cur_conn s sid) conn_peerInfo of None \<Rightarrow> JStr '''' | Some info \<Rightarrow> JStr (PeerInfo_hostname info))))"

definition get_conn_token :: query where
  "get_conn_token = (\<lambda>br s sid arg.
     reply_with (case sid of None \<Rightarrow> JStr ''''
             | Some i \<Rightarrow> (if i = '''' then JStr '''' else nullish (connTokenFor i (ap_world s)) (JStr ''''))))"

definition get_option_peer :: query where
  "get_option_peer = (\<lambda>br s sid arg.
     catching (\<lambda>_. (JUndefined, [])) (read_json parse_text (\<lambda>d. do {
       i \<leftarrow> str_fld d ''id''; name \<leftarrow> str_fld d ''name''; Some (getPeerOption (ap_store s) i name, []) }) arg))"

definition get_translate :: query where
  "get_translate = (\<lambda>br s sid arg.
     read_json parse_text (\<lambda>d. do {
       locale \<leftarrow> str_fld d ''locale''; msg \<leftarrow> str_fld d ''text'';
       Some (JStr (translate (br_lang br) (br_langs br) locale msg), []) }) arg)"

definition get_screen_info :: "screen_data \<Rightarrow> jval" where
  "get_screen_info sc = JJson (JObj
     [(''frame'', JObj [(''l'', JInt (sc_screenX sc)), (''t'', JInt (sc_screenY sc)),
         (''r'', JInt (sc_screenX sc + sc_innerWidth sc)), (''b'', JInt (sc_screenY sc + sc_innerHeight sc))]),
      (''visibleFrame'', JObj [(''l'', JInt (sc_availLeft sc)), (''t'', JInt (sc_availTop sc)),
         (''r'', JInt (sc_availLeft sc + sc_availWidth sc)), (''b'', JInt (sc_availTop sc + sc_availHeight sc))]),
      (''scaleFactor'', JNum (sc_devicePixelRatio sc))])"

definition get_main_display :: "screen_data \<Rightarrow> jval" where
  "get_main_display sc = JJson (JObj [(''w'', JInt (sc_availWidth sc)), (''h'', JInt (sc_availHeight sc)),
     (''scaleFactor'', JNum (sc_devicePixelRatio sc))])"

definition getStorageHandlers :: "(string \<times> query) list" where
  "getStorageHandlers =
     [(''app-name'', from_settings AppName),
      (''remote_id'', from_settings GetRemoteId),
      (''remember'', \<lambda>br s sid arg. reply_with (JBool (case cur_conn s sid of None \<Rightarrow> False | Some k \<Rightarrow> conn_getRemember k))),
      (''toggle_option'', \<lambda>br s sid arg. case text_of arg of None \<Rightarrow> IllTyped
         | Some name \<Rightarrow> reply_with (jor (asked_option s sid name) (JBool False))),
      (''option'', from_store (map_option GetOption \<circ> item_key)),
      (''options'', from_settings GetOptions),
      (''option:local'', from_store (Some \<circ> GetSpace LocalOption)),
      (''option:flutter:local'', from_store (Some \<circ> GetSpace FlutterLocal)),
      (''option:flutter:peer'', from_store (Some \<circ> GetSpace FlutterPeer)),
      (''translate'', get_translate),
      (''option:user:default'', from_store (Some \<circ> GetUserDefault)),
      (''option:session'', get_option_session),
      (''platform'', \<lambda>br s sid arg. reply_with (JStr (case cur_conn s sid of None \<Rightarrow> '''' | Some k \<Rightarrow> conn_getPlatform k))),
      (''hostname'', get_hostname),
      (''conn_token'', get_conn_token),
      (''option:peer'', get_option_peer),
      (''version'', \<lambda>br s sid arg. reply_with (JStr viewer_version)),
      (''load_recent_peers'', \<lambda>br s sid arg. case loadRecentPeers (ap_store s) of
           Inl e \<Rightarrow> Throw e | Inr p \<Rightarrow> Args (JUndefined, [peers_event p])),
      (''load_fav_peers'', \<lambda>br s sid arg. Args (JUndefined,
           case loadFavPeers (ap_store s) of None \<Rightarrow> [] | Some p \<Rightarrow> [peers_event p])),
      (''fav'', \<lambda>br s sid arg. case fav_text (ap_store s) of None \<Rightarrow> IllTyped | Some t \<Rightarrow> reply_with t),
      (''load_recent_peers_sync'', \<lambda>br s sid arg. case getRecentPeers (getPeers (ap_store s)) of
           Inl e \<Rightarrow> Throw e | Inr cards \<Rightarrow> reply_with (JJson (JObj [(''peers'', peers_json cards)]))),
      (''api_server'', \<lambda>br s sid arg. reply_with (JStr (getApiServer (ls_items (ap_store s))))),
      (''is_using_public_server'', from_settings IsUsingPublicServer),
      (''get_version_number'', \<lambda>br s sid arg.
         if is_text arg then (case text_of arg of None \<Rightarrow> IllTyped | Some v \<Rightarrow> reply_with (JInt (getVersionNumber (Some v))))
         else reply_with (JInt (getVersionNumber None))),
      (''audit_server'', \<lambda>br s sid arg. case stored_text arg of None \<Rightarrow> IllTyped
         | Some typ \<Rightarrow> reply_with (JStr (getAuditServer (ls_items (ap_store s)) typ))),
      (''alternative_codecs'', \<lambda>br s sid arg.
         reply_with (JJson (JObj (map (\<lambda>(n, b). (n, JBool b)) (getAlternativeCodecs (br_caps br)))))),
      (''peer_has_password'', from_store (Some \<circ> PeerHasPassword)),
      (''peer_exists'', from_store (Some \<circ> PeerExists)),
      (''screen_info'', \<lambda>br s sid arg. reply_with (get_screen_info (br_screen br))),
      (''main_display'', \<lambda>br s sid arg. reply_with (get_main_display (br_screen br)))]"

definition getRdHandlers :: "(string \<times> query) list" where
  "getRdHandlers =
     [(''image_quality'', \<lambda>br s sid arg. reply_with (case asked_rd s sid of None \<Rightarrow> JStr ''''
         | Some c \<Rightarrow> jdefault (getImageQuality c) (JStr ''''))),
      (''option:toggle'', \<lambda>br s sid arg. case asked_rd s sid of None \<Rightarrow> reply_with (JBool False)
         | Some c \<Rightarrow> (case text_of arg of None \<Rightarrow> IllTyped | Some name \<Rightarrow> reply_with (getToggleOption name c))),
      (''get_conn_status'', \<lambda>br s sid arg. reply_with (get_conn_status (ap_world s)))]"

definition getStubHandlers :: "(string \<times> query) list" where
  "getStubHandlers =
     [(''my_name'', \<lambda>br s sid arg. reply_with (JStr '''')),
      (''my_id'', \<lambda>br s sid arg. reply_with (JStr '''')),
      (''uuid'', \<lambda>br s sid arg. reply_with (JStr '''')),
      (''langs'', \<lambda>br s sid arg. reply_with (JJson (JArr (map JStr (map_keys (br_langs br)))))),
      (''build_date'', \<lambda>br s sid arg. reply_with (JStr '''')),
      (''enable_trusted_devices'', \<lambda>br s sid arg. reply_with (JStr '''')),
      (''local_os'', \<lambda>br s sid arg. reply_with (JStr '''')),
      (''test_if_valid_server'', \<lambda>br s sid arg. reply_with (JStr ''''))]"

definition getByNameHandlers :: "(string, query) jsmap" where
  "getByNameHandlers = spread [getStorageHandlers, getRdHandlers, getStubHandlers]"

section \<open>getByName\<close>

definition dispatchGetByName :: "browser \<Rightarrow> app \<Rightarrow> string \<Rightarrow> jval \<Rightarrow> string option \<Rightarrow> reply arg" where
  "dispatchGetByName br s name arg sid =
     (case lookup_handler getByNameHandlers name of
        Missing \<Rightarrow> reply_with JUndefined
      | Inherited n \<Rightarrow>
          (if n = ''toString'' then reply_with (JStr ''[object Undefined]'')
           else if n = ''constructor'' then IllTyped
           else Throw (UError ''TypeError'' n))
      | Own h \<Rightarrow> h br s sid arg)"

definition getByName :: "browser \<Rightarrow> app \<Rightarrow> string \<Rightarrow> jval \<Rightarrow> string option \<Rightarrow> reply arg" where
  "getByName br s name arg sid = map_arg (\<lambda>(v, es). (getByName_text v, es)) (dispatchGetByName br s name arg sid)"

section \<open>Looking up a question\<close>

lemmas query_tables = getStorageHandlers_def getRdHandlers_def getStubHandlers_def

lemma query_names_distinct: "distinct (map fst (getStorageHandlers @ getRdHandlers @ getStubHandlers))"
  by (simp add: query_tables)

lemma getByNameHandlers_concat: "getByNameHandlers = getStorageHandlers @ getRdHandlers @ getStubHandlers"
  using spread_distinct [of "[getStorageHandlers, getRdHandlers, getStubHandlers]"] query_names_distinct
  by (simp add: getByNameHandlers_def)

lemma query_get:
  "map_get getStorageHandlers name = Some h \<Longrightarrow> map_get getByNameHandlers name = Some h"
  "map_get getRdHandlers name = Some h \<Longrightarrow> map_get getByNameHandlers name = Some h"
  using query_names_distinct
  by (auto simp: getByNameHandlers_concat simp del: map_append map_of_append intro!: map_of_is_SomeI dest!: map_of_SomeD)

lemma getByName_own:
  "map_get getByNameHandlers name = Some h \<Longrightarrow> getByName br s name arg sid = map_arg (\<lambda>(v, es). (getByName_text v, es)) (h br s sid arg)"
  by (simp add: getByName_def dispatchGetByName_def lookup_handler_def)

lemmas ask_storage = getByName_own [OF query_get(1)]
lemmas ask_rd = getByName_own [OF query_get(2)]

section \<open>Settings are read back\<close>

text \<open>The settings that Flutter keeps in \<open>localStorage\<close>, with the calls that write and read them.\<close>

datatype item = Item string | Space option_space string | RemoteItem

fun stored_key :: "item \<Rightarrow> string" where
  "stored_key (Item name) = name"
| "stored_key (Space sp name) = space_key sp name"
| "stored_key RemoteItem = ''remote-id''"

fun item_set :: "item \<Rightarrow> string \<Rightarrow> string \<times> jval" where
  "item_set (Item name) v = (''option'', JJson (JObj [(''name'', JStr name), (''value'', JStr v)]))"
| "item_set (Space sp name) v = (space_name sp, JJson (JObj [(''name'', JStr name), (''value'', JStr v)]))"
| "item_set RemoteItem v = (''remote_id'', JStr v)"

fun item_get :: "item \<Rightarrow> string \<times> jval" where
  "item_get (Item name) = (''option'', JStr name)"
| "item_get (Space sp name) = (space_name sp, JStr name)"
| "item_get RemoteItem = (''remote_id'', JStr '''')"

definition item_ok :: "item \<Rightarrow> bool" where
  "item_ok i \<longleftrightarrow> stored_key i \<notin> set JSON_ITEMS"

text \<open>What \<open>getByName\<close> makes of an item.\<close>

definition item_answer :: "string option \<Rightarrow> jval" where
  "item_answer v = JStr (nullish v '''')"

lemma item_asked:
  assumes "item_ok i"
  shows "getByName br s (fst (item_get i)) (snd (item_get i)) sid = Args (item_answer (getItem (ap_store s) (stored_key i)), [])"
proof -
  have "getByName_text (opt_item x) = item_answer x" for x by (simp add: opt_item_def item_answer_def nullish_def split: option.split)
  moreover have "\<exists>h. map_get getStorageHandlers (fst (item_get i)) = Some h
      \<and> h br s sid (snd (item_get i)) = reply_with (opt_item (getItem (ap_store s) (stored_key i)))"
  proof (cases i)
    case (Item name)
    with assms show ?thesis
      by (simp add: getStorageHandlers_def from_store_def stored_text_def text_of_def item_ok_def item_key_def)
  next
    case (Space sp name)
    then show ?thesis by (cases sp) (simp_all add: getStorageHandlers_def from_store_def stored_text_def text_of_def)
  next
    case RemoteItem
    then show ?thesis by (simp add: getStorageHandlers_def from_settings_def)
  qed
  ultimately show ?thesis by (auto simp: ask_storage reply_with_def)
qed

lemma item_written:
  assumes "item_ok i"
  shows "setByName E inp (fst (item_set i v)) (snd (item_set i v)) sid s
     = Returned JUndefined (s\<lparr>ap_store := setItem (stored_key i) v (ap_store s)\<rparr>)"
proof -
  have "\<exists>f r. map_get setCommonHandlers (fst (item_set i v)) = Some (Always, f)
      \<and> f (snd (item_set i v)) = Args (StoreRequest r) \<and> run_set now r (ap_store s) = setItem (stored_key i) v (ap_store s)" for now
  proof (cases i)
    case (Item name)
    with assms show ?thesis
      by (simp add: setCommonHandlers_def reading prop_of.simps read_item_def stored_text_def text_of_def item_ok_def item_key_def)
  next
    case (Space sp name)
    then show ?thesis
      by (cases sp) (simp_all add: setCommonHandlers_def setNamespacedLocalOption_def reading prop_of.simps stored_text_def text_of_def)
  next
    case RemoteItem
    then show ?thesis by (simp add: setCommonHandlers_def stored_text_def text_of_def arg_of_def)
  qed
  then obtain f r where "map_get setByNameHandlers (fst (item_set i v)) = Some (Always, f)" "f (snd (item_set i v)) = Args (StoreRequest r)"
    "run_set (mo_now (in_moment inp)) r (ap_store s) = setItem (stored_key i) v (ap_store s)"
    using table_get(1) by blast
  then show ?thesis by (simp add: setByName_def lookup_handler_def)
qed

text \<open>
  C28: what Flutter stores as a setting it reads back: after the call that writes an item, the
  question for it answers the value written, every question for an item under another key
  answers what it did before, and no session is touched.
\<close>

theorem settings_read_back:
  assumes "item_ok i"
  shows "\<exists>s1. setByName E inp (fst (item_set i v)) (snd (item_set i v)) sid s = Returned JUndefined s1
     \<and> ap_world s1 = ap_world s
     \<and> (\<forall>j sid'. item_ok j \<longrightarrow> getByName br s1 (fst (item_get j)) (snd (item_get j)) sid'
          = (if stored_key j = stored_key i then Args (JStr v, []) else getByName br s (fst (item_get j)) (snd (item_get j)) sid'))"
  by (rule exI [of _ "s\<lparr>ap_store := setItem (stored_key i) v (ap_store s)\<rparr>"])
     (simp add: item_written [OF assms] item_asked item_answer_def getItem_def setItem_def map_get_set)

text \<open>A browser with an unscaled screen and no dictionaries.\<close>

definition sample_browser :: browser where
  "sample_browser = \<lparr>br_screen = \<lparr>sc_screenX = 0, sc_screenY = 0, sc_innerWidth = 800, sc_innerHeight = 600, sc_availLeft = 0,
     sc_availTop = 0, sc_availWidth = 1024, sc_availHeight = 768, sc_devicePixelRatio = 1\<rparr>, br_lang = '''', br_langs = [],
     br_caps = None\<rparr>"

theorem settings_read_back_witness:
  "\<exists>s1. setByName plain_env sample_input ''option:local''
         (JJson (JObj [(''name'', JStr ''kb_layout''), (''value'', JStr ''de'')])) None sample_app = Returned JUndefined s1
     \<and> getByName sample_browser s1 ''option:local'' (JStr ''kb_layout'') None = Args (JStr ''de'', [])"
proof -
  have "item_ok (Space LocalOption ''kb_layout'')" by (simp add: item_ok_def space_key_def JSON_ITEMS_def)
  from settings_read_back [OF this, of plain_env sample_input "''de''" None sample_app sample_browser] this show ?thesis
    by (auto dest!: spec [of _ "Space LocalOption ''kb_layout''"])
qed

section \<open>Options of a session\<close>

lemma connFor_None: "connFor None w = w_curConn w"
  by (simp add: connFor_def getSession_def split: option.split)

lemma connFor_cong:
  assumes "w_sessions w' = w_sessions w" "w_curConn w' = w_curConn w"
  shows "connFor x w' = connFor x w"
  unfolding connFor_def getSession_def assms ..

lemma connFor_session: "map_get (w_sessions w) sid = Some a \<Longrightarrow> sid \<noteq> '''' \<Longrightarrow> connFor (Some sid) w = Some a"
  by (simp add: connFor_def getSession_def map_has_def)

lemma userDefault_peers: "getUserDefaultOption (writePeers peers st) name = getUserDefaultOption st name"
  by (simp add: getUserDefaultOption_def writePeers_def Let_def)

lemma ask_session:
  "getByName br s ''option:session'' (JStr name) sid
     = Args (getByName_text (jdefault (asked_option s sid name) (getUserDefaultOption (ap_store s) name)), [])"
  by (simp add: ask_storage getStorageHandlers_def get_option_session_def text_of_def reply_with_def)


lemma conn_option_sets: "name \<noteq> ''tm'' \<Longrightarrow> conn_getOption name (conn_quiet (conn_setOption now name (JStr v) k)) = JStr v"
  by (cases k) (simp_all add: setOption_def getOption_def obj_get_def map_get_set Let_def)

lemma option_call:
  "setByName E inp ''option:session'' (JJson (JObj [(''name'', JStr name), (''value'', JStr v)])) sid s
     = Returned JUndefined (on_current E (in_parent inp) sid (conn_setOption (mo_now (in_moment inp)) name (JStr v)) s)"
proof -
  have "\<exists>f. map_get setCommonHandlers ''option:session'' = Some (Always, f)
      \<and> f (JJson (JObj [(''name'', JStr name), (''value'', JStr v)])) = Args (SessionOption name (JStr v))"
    by (simp add: setCommonHandlers_def reading prop_of.simps)
  then obtain f where "map_get setByNameHandlers ''option:session'' = Some (Always, f)"
    "f (JJson (JObj [(''name'', JStr name), (''value'', JStr v)])) = Args (SessionOption name (JStr v))"
    using table_get(1) by blast
  then show ?thesis by (simp add: setByName_def lookup_handler_def)
qed

text \<open>
  C29: an option that Flutter sets for a session is read back with that session; a question
  without a session, which is how \<open>sessionGetViewStyle\<close> and \<open>sessionGetScrollStyle\<close> ask, is
  answered by the current connection: with the new value exactly when the session is the
  current one, and as before otherwise.
\<close>

theorem session_option_readback:
  assumes "app_ok s" and "map_get (w_sessions (ap_world s)) sid = Some a" and "name \<noteq> ''tm''"
  shows "\<exists>s1. setByName E inp ''option:session'' (JJson (JObj [(''name'', JStr name), (''value'', JStr v)])) (Some sid) s
        = Returned JUndefined s1
     \<and> getByName br s1 ''option:session'' (JStr name) (Some sid) = Args (JStr v, [])
     \<and> getByName br s1 ''option:session'' (JStr name) None
        = (if w_curConn (ap_world s) = Some a then Args (JStr v, []) else getByName br s ''option:session'' (JStr name) None)"
proof -
  let ?f = "conn_setOption (mo_now (in_moment inp)) name (JStr v)"
  let ?w = "on_conn a ?f (ap_world s)"
  let ?s1 = "absorb E (in_parent inp) ?w s"
  have w: "registry_ok (ap_world s)" "w_out (ap_world s) = []" "world_ok (ap_world s)"
    using assms(1) by (simp_all add: app_ok_def world_ok_def)
  then obtain k where k: "map_get (w_conns (ap_world s)) a = Some k"
    using assms(2) registry_ok_get [of "ap_world s" sid a] by auto
  obtain p opts where out: "w_out ?w = [SavePeer p opts]"
    using k w(2) world_ok_conn [OF w(3) k] by (cases k) (auto simp: on_conn_def setOption_def Let_def)
  have opt: "conn_getOption name (conn_quiet (?f k)) = JStr v"
    by (rule conn_option_sets [OF assms(3)])
  have s1: "ap_world ?s1 = ?w\<lparr>w_out := []\<rparr>" "ap_store ?s1 = fold write_back [SavePeer p opts] (ap_store s)"
    using absorb_plain [of ?w E "in_parent inp" s] by (simp_all add: out)
  have "sid \<noteq> ''''" using w(3) assms(2) by (force simp: world_ok_def dest!: map_of_SomeD)
  then have cur: "connFor (Some sid) (ap_world s) = Some a" using assms(2) by (rule connFor_session [rotated])
  have "connFor x (ap_world ?s1) = connFor x (ap_world s)" for x by (rule connFor_cong) (simp_all add: s1)
  then have asked: "asked_option ?s1 x name = (if connFor x (ap_world s) = Some a then JStr v else asked_option s x name)" for x
    using k opt by (cases "connFor x (ap_world s)") (auto simp: asked_option_def cur_conn_def s1 on_conn_get split: option.split)
  have "setByName E inp ''option:session'' (JJson (JObj [(''name'', JStr name), (''value'', JStr v)])) (Some sid) s = Returned JUndefined ?s1"
    by (simp add: option_call on_current_def cur)
  then show ?thesis
    using cur by (intro exI [of _ ?s1]) (simp add: ask_session asked jdefault_def s1(2) userDefault_peers connFor_None)
qed

text \<open>Two sessions, of which the first is asked for and the second is the current one.\<close>

definition two_app :: app where
  "two_app = sample_app\<lparr>ap_world := no_sessions\<lparr>w_conns := [(1, RdC (newRdConnection\<lparr>b_sessionId := Some ''rd''\<rparr>)),
     (2, FtC (newFtConnection\<lparr>b_sessionId := Some ''ft''\<rparr>))], w_sessions := [(''rd'', 1), (''ft'', 2)], w_curConn := Some 2\<rparr>\<rparr>"

lemma two_app_ok: "app_ok two_app"
  by (simp add: app_ok_def two_app_def sample_app_def fresh_app_def world_ok_def conns_ok_def registry_ok_def current_ok_def
      no_sessions_def map_ok_def base_ok_def reads_ok_def newRdConnection_def newFtConnection_def newBase_def base.defs
      newFileJobManager_def store_ok_def empty_store_def getPeers_def getJsonObj_def)

theorem session_option_readback_witness:
  "\<exists>s1. setByName plain_env sample_input ''option:session''
         (JJson (JObj [(''name'', JStr ''view_style''), (''value'', JStr ''adaptive'')])) (Some ''rd'') two_app = Returned JUndefined s1
     \<and> getByName sample_browser s1 ''option:session'' (JStr ''view_style'') (Some ''rd'') = Args (JStr ''adaptive'', [])
     \<and> getByName sample_browser s1 ''option:session'' (JStr ''view_style'') None = Args (JStr ''original'', [])"
proof -
  have "getByName sample_browser two_app ''option:session'' (JStr ''view_style'') None = Args (JStr ''original'', [])"
    by (simp add: ask_session asked_option_def cur_conn_def connFor_None two_app_def no_sessions_def getOption_def obj_get_def
        newFtConnection_def newBase_def base.defs jdefault_def getUserDefaultOption_def getEffectiveOption_def sample_app_def
        fresh_app_def empty_store_def parse_item_def jor_def defaultOptions_def Let_def)
  moreover have "map_get (w_sessions (ap_world two_app)) ''rd'' = Some 1" "w_curConn (ap_world two_app) = Some 2"
    by (simp_all add: two_app_def)
  ultimately show ?thesis
    using session_option_readback [OF two_app_ok, of "''rd''" 1 "''view_style''" plain_env sample_input "''adaptive''" sample_browser] by simp
qed

section \<open>The connection status\<close>

fun conn_open :: "conn \<Rightarrow> bool" where
  "conn_open (FtC c) = ws_is_open c"
| "conn_open (RdC c) = ws_is_open c"

lemma fold_max_flag:
  "m \<in> {0, 1} \<Longrightarrow> fold (\<lambda>x n. case f x of None \<Rightarrow> n | Some k \<Rightarrow> max n (if P k then 1 else 0)) xs m
     = (if m = (1 :: int) \<or> (\<exists>x \<in> set xs. \<exists>k. f x = Some k \<and> P k) then 1 else 0)"
proof (induction xs arbitrary: m)
  case (Cons x xs)
  have "(case f x of None \<Rightarrow> m | Some k \<Rightarrow> max m (if P k then 1 else 0)) \<in> {0, 1}"
    using Cons.prems by (auto split: option.split)
  from Cons.IH [OF this] Cons.prems show ?case by (auto split: option.splits if_splits)
qed auto

text \<open>
  The status that Flutter polls is 1 exactly when the socket of some registered session,
  of either kind, is open.
\<close>

theorem conn_status_reported:
  assumes "app_ok s"
  shows "getByName br s ''get_conn_status'' arg sid
     = Args (JJson (JObj [(''status_num'', JInt (if \<exists>i a k. map_get (w_sessions (ap_world s)) i = Some a
          \<and> map_get (w_conns (ap_world s)) a = Some k \<and> conn_open k then 1 else 0)), (''video_conn_count'', JInt 0)]), [])"
proof -
  let ?w = "ap_world s"
  let ?f = "\<lambda>i. Option.bind (getSession (Some i) ?w) (map_get (w_conns ?w))"
  have keys: "'''' \<notin> set (map_keys (w_sessions ?w))" using assms by (simp add: app_ok_def world_ok_def)
  have st: "conn_status k = (if conn_open k then 1 else 0)" for k by (cases k) simp_all
  have get: "getSession (Some i) ?w = map_get (w_sessions ?w) i" if "i \<in> set (map_keys (w_sessions ?w))" for i
    using that keys by (force simp: getSession_def map_has_def map_of_eq_None_iff split: option.split)
  have "(\<exists>x \<in> set (allSessionIds ?w). \<exists>k. ?f x = Some k \<and> conn_open k)
      \<longleftrightarrow> (\<exists>i a k. map_get (w_sessions ?w) i = Some a \<and> map_get (w_conns ?w) a = Some k \<and> conn_open k)"
  proof -
    have "i \<in> set (map_keys (w_sessions ?w)) \<longleftrightarrow> (\<exists>a. map_get (w_sessions ?w) i = Some a)" for i
      using map_of_eq_None_iff [of "w_sessions ?w" i] by (cases "map_get (w_sessions ?w) i") auto
    moreover have "(\<exists>x \<in> set (allSessionIds ?w). \<exists>k. ?f x = Some k \<and> conn_open k)
        \<longleftrightarrow> (\<exists>x \<in> set (map_keys (w_sessions ?w)). \<exists>k. Option.bind (map_get (w_sessions ?w) x) (map_get (w_conns ?w)) = Some k \<and> conn_open k)"
      unfolding allSessionIds_def using get by (intro bex_cong) simp_all
    ultimately show ?thesis by (auto simp: Bex_def bind_eq_Some_conv simp del: set_map)
  qed
  then have "get_conn_status ?w = JJson (JObj [(''status_num'', JInt (if \<exists>i a k. map_get (w_sessions ?w) i = Some a
      \<and> map_get (w_conns ?w) a = Some k \<and> conn_open k then 1 else 0)), (''video_conn_count'', JInt 0)])"
    unfolding get_conn_status_def st Let_def using fold_max_flag [of 0 conn_open ?f "allSessionIds ?w"] by simp
  then show ?thesis by (simp add: ask_rd getRdHandlers_def reply_with_def)
qed

theorem conn_status_reported_witness:
  "getByName sample_browser two_app ''get_conn_status'' (JStr '''') None
     = Args (JJson (JObj [(''status_num'', JInt 0), (''video_conn_count'', JInt 0)]), [])"
  using conn_status_reported [OF two_app_ok, of sample_browser "JStr ''''" None]
  by (auto simp: two_app_def no_sessions_def newRdConnection_def newFtConnection_def newBase_def base.defs ws_is_open_def
      split: if_splits)

end
