(* ===== verification/Viewer_Closing.thy ===== *)
theory Viewer_Closing
  imports Viewer_Invariant
begin

text \<open>
  What becomes of a session that Flutter closes while something is still under way: its message
  loop, which polls a socket that was closed under it, and the wait for the relay, which nothing
  cancels.
\<close>

section \<open>After the call\<close>

text \<open>The viewer after Flutter closed the session \<open>sid\<close>.\<close>

definition after_close :: "env \<Rightarrow> string \<Rightarrow> app \<Rightarrow> app" where
  "after_close E sid s = s\<lparr>ap_world := removeSession E sid (ap_world s)\<rparr>"

lemma session_close_call:
  assumes "app_ok s" "map_get (w_sessions (ap_world s)) sid = Some a"
  shows "setByName E inp ''session_close'' (JStr sid) x s = Returned JUndefined (after_close E sid s)"
proof -
  have w: "world_ok (ap_world s)" "w_out (ap_world s) = []" using assms(1) by (simp_all add: app_ok_def)
  then have reg: "registry_ok (ap_world s)" "sid \<noteq> ''''"
    using assms(2) by (force simp: world_ok_def dest!: map_of_SomeD)+
  obtain k where k: "map_get (w_conns (ap_world s)) a = Some k" using registry_ok_get [OF reg(1) assms(2)] by auto
  have "w_out (removeSession E sid (ap_world s)) = []"
    using removeSession_out [OF assms(2) k] world_ok_conn [OF w(1) k] w(2) by simp
  with reg(2) show ?thesis by (simp add: call_close sessionClose_def after_close_def absorb_silent)
qed

text \<open>The world that a closed session leaves, and the same after the browser's report.\<close>

lemma after_close_world:
  assumes "app_ok s" "map_get (w_sessions (ap_world s)) sid = Some a" "map_get (w_conns (ap_world s)) a = Some k"
  shows "map_get (w_conns (ap_world (after_close E sid s))) a = Some (conn_quiet (conn_close E k))"
    and "w_out (ap_world (after_close E sid s)) = []"
    and "world_ok (ap_world (after_close E sid s))"
    and "map_get (w_sessions (ap_world (after_close E sid s))) r = (if r = sid then None else map_get (w_sessions (ap_world s)) r)"
    and "a \<notin> set (map_values (w_sessions (ap_world (after_close E sid s))))"
proof -
  have w: "world_ok (ap_world s)" "w_out (ap_world s) = []" using assms(1) by (simp_all add: app_ok_def)
  then show "world_ok (ap_world (after_close E sid s))" by (simp add: after_close_def world_ok_remove)
  show "w_out (ap_world (after_close E sid s)) = []"
    using removeSession_out [OF assms(2,3)] world_ok_conn [OF w(1) assms(3)] w(2) by (simp add: after_close_def)
  show "a \<notin> set (map_values (w_sessions (ap_world (after_close E sid s))))"
    using registered_once [of "ap_world s" sid a] w(1) assms(2) by (simp add: after_close_def removeSession_def world_ok_def)
qed (use assms(2,3) in \<open>simp_all add: after_close_def removeSession_def on_conn_get map_get_delete\<close>)

lemma after_close_rest [simp]: "ap_log (after_close E sid s) = ap_log s" "ap_loops (after_close E sid s) = ap_loops s"
  "ap_starting (after_close E sid s) = ap_starting s" "ap_store (after_close E sid s) = ap_store s"
  by (simp_all add: after_close_def)

lemma socket_closed:
  assumes "map_get (w_conns (ap_world s)) a = Some k" "conn_out k = []" "w_out (ap_world s) = []"
  shows "app_event E parent (SocketClosed e) a s = s\<lparr>ap_world := on_conn a (run_event E (SocketClosed e)) (ap_world s)\<rparr>"
    and "map_get (w_conns (ap_world (app_event E parent (SocketClosed e) a s))) a = Some (run_event E (SocketClosed e) k)"
    and "w_out (ap_world (app_event E parent (SocketClosed e) a s)) = []"
proof -
  have k: "conn_out (run_event E (SocketClosed e) k) = []" "conn_quiet (run_event E (SocketClosed e) k) = run_event E (SocketClosed e) k"
    using assms(2) by (cases k; simp add: on_ws_def)+
  then have out: "w_out (on_conn a (run_event E (SocketClosed e)) (ap_world s)) = []" using assms by (simp add: on_conn_def)
  show e: "app_event E parent (SocketClosed e) a s = s\<lparr>ap_world := on_conn a (run_event E (SocketClosed e)) (ap_world s)\<rparr>"
    unfolding app_event_def by (rule absorb_silent [OF out])
  show "w_out (ap_world (app_event E parent (SocketClosed e) a s)) = []" by (simp add: e out)
  show "map_get (w_conns (ap_world (app_event E parent (SocketClosed e) a s))) a = Some (run_event E (SocketClosed e) k)"
    using assms(1) k(2) by (simp add: e on_conn_get)
qed

text \<open>A viewer with one session, whose message loop runs on an open socket.\<close>

definition open_socket :: websock where
  "open_socket = on_open (newWebsock ''u'' False)"

definition running_app :: "conn \<Rightarrow> app" where
  "running_app k = sample_app\<lparr>ap_world := no_sessions\<lparr>w_conns := [(1, k)], w_sessions := [(''x'', 1)], w_curConn := Some 1\<rparr>,
     ap_loops := [1]\<rparr>"

definition running_ft :: ftconn where
  "running_ft = newFtConnection\<lparr>b_sessionId := Some ''x'', b_ws := Some open_socket\<rparr>"

definition running_rd :: rdconn where
  "running_rd = newRdConnection\<lparr>b_sessionId := Some ''x'', b_ws := Some open_socket\<rparr>"

lemma running_simps [simp]:
  "b_sessionId running_ft = Some ''x''" "b_ws running_ft = Some open_socket" "b_out running_ft = []" "\<not> ft_closing running_ft"
  "b_sessionId running_rd = Some ''x''" "b_ws running_rd = Some open_socket" "b_out running_rd = []" "ws_buf open_socket = []"
  by (simp_all add: running_ft_def running_rd_def newFtConnection_def newRdConnection_def newBase_def base.defs
      open_socket_def on_open_def newWebsock_def)

lemma running_fine [simp]: "base_ok running_ft" "reads_ok running_ft" "base_ok running_rd"
  by (simp_all add: running_ft_def running_rd_def newFtConnection_def newRdConnection_def newBase_def base.defs
      base_ok_def reads_ok_def newFileJobManager_def)

lemma running_app_simps [simp]:
  "map_get (w_conns (ap_world (running_app k))) (Suc 0) = Some k" "w_sessions (ap_world (running_app k)) = [(''x'', 1)]"
  "ap_log (running_app k) = []" "ap_loops (running_app k) = [1]" "w_out (ap_world (running_app k)) = []"
  by (simp_all add: running_app_def sample_app_def fresh_app_def no_sessions_def)

lemma running_app_ok:
  assumes "conn_fine k" "conn_out k = []" "conn_sessionId k = Some ''x''"
  shows "app_ok (running_app k)"
proof -
  have "store_ok empty_store" by (simp add: store_ok_def empty_store_def getPeers_def getJsonObj_def)
  with assms show ?thesis
    by (simp add: app_ok_def running_app_def sample_app_def fresh_app_def world_ok_def conns_ok_def registry_ok_def current_ok_def
        no_sessions_def map_ok_def)
qed

text \<open>The socket of a closed connection: nothing new arrives and the polls of the loop fail.\<close>

definition closed_socket :: "websock \<Rightarrow> websock" where
  "closed_socket ws = ws_close (setIngressHandler False ws)"

lemma closed_socket_next: "ws_buf ws = [] \<Longrightarrow> ws_next 0 0 now (closed_socket ws) = (NextReject (UString ''''), closed_socket ws)"
  by (simp add: closed_socket_def ws_next_def ws_close_def setIngressHandler_def)

lemma closed_event_next: "ws_buf ws = [] \<Longrightarrow> ws_next 0 0 now (on_close e (closed_socket ws)) = (NextReject e, on_close e (closed_socket ws))"
  by (simp add: closed_socket_def ws_next_def on_close_def ws_close_def setIngressHandler_def)

lemma ft_close_ws:
  "\<not> ft_closing c \<Longrightarrow> b_ws c = Some ws \<Longrightarrow> \<exists>ws'. b_ws (ft_close E c) = Some (closed_socket ws') \<and> ws_buf ws' = ws_buf ws"
  by (auto simp: ft_close_closes closed_socket_def)

lemma ft_close_not_alive: "\<not> ft_alive (ft_close E c)"
  by (simp add: ft_alive_def ft_close_def baseClose_def cancelAllJobs_sends)

section \<open>File transfers close silently\<close>

lemma dead_transfer_poll:
  assumes "map_get (w_conns (ap_world s)) a = Some (FtC c)" "\<not> ft_alive c" "b_out c = []" "w_out (ap_world s) = []"
    and "b_ws c = Some ws" "ws_next 0 0 (mo_now mo) ws = (NextReject e, ws1)"
  shows "\<exists>s'. app_poll E parent mo answers a s = Some s' \<and> ap_log s' = ap_log s \<and> ap_loops s' = remove1 a (ap_loops s)
     \<and> w_sessions (ap_world s') = w_sessions (ap_world s)"
proof -
  have "ft_disconnected E a e (ap_world s) = ap_world s" using assms(1,2) by (simp add: ft_disconnected_def ft_at_def)
  moreover have "w_out (on_conn a conn_detach (ap_world s)) = []" using assms(1,3,4) by (simp add: on_conn_def detach_def)
  ultimately show ?thesis
    using assms(1,5,6) by (simp add: app_poll_def ft_poll_def end_loop_def absorb_silent stop_loop_def)
qed



section \<open>Remote desktops do not\<close>

lemma close_silent:
  assumes "world_ok w"
  shows "w_out (bridge_close E w) = w_out w"
proof -
  have quiet: "w_out (on_conn a (conn_close E) w) = w_out w" for a
    using world_ok_conn [OF assms] close_out by (auto simp: on_conn_def split: option.split)
  then have "w_out (removeSession E sid w) = w_out w" for sid
    by (simp add: removeSession_def split: option.split)
  with quiet show ?thesis by (simp add: bridge_close_def setConn_def split: option.split)
qed

lemma hasOpen_cong:
  "w_sessions w' = w_sessions w \<Longrightarrow> (\<And>a. a \<in> set (map_values (w_sessions w)) \<Longrightarrow> map_get (w_conns w') a = map_get (w_conns w) a)
     \<Longrightarrow> hasOpenRemoteDesktopSession w' = hasOpenRemoteDesktopSession w"
  unfolding hasOpenRemoteDesktopSession_def list_ex_iff by (auto cong: option.case_cong)

lemma fatal_loop_error: "js_String e \<noteq> '''' \<Longrightarrow> fatal_box ''error'' ''Connection Error'' (js_String e)"
  by (simp add: fatal_box_def isParentHandledMsgbox_def PARENT_IGNORE_MSGBOX_TYPES_def)

lemma map_set_same: "map_get m k = Some v \<Longrightarrow> map_set k v m = m"
  by (induction m) (auto split: if_splits)

text \<open>The loop of a remote desktop fails in a quiet world.\<close>

lemma rd_poll_fails:
  assumes "map_get (w_conns (ap_world s)) a = Some (RdC c)" "b_out c = []" "w_out (ap_world s) = []" "b_ws c = Some ws"
    and "ws_next 0 0 (mo_now mo) ws = (NextReject e, ws1)"
  shows "app_poll E parent mo answers a s
     = Some (end_loop E parent a (msgbox E parent ''error'' ''Connection Error'' (js_String e) None (ap_world s)) s)"
proof -
  have "(ap_world s)\<lparr>w_conns := map_set a (RdC (c\<lparr>b_out := []\<rparr>)) (w_conns (ap_world s))\<rparr> = ap_world s"
    using assms(1,2) by (simp add: map_set_same)
  then show ?thesis
    using assms by (simp add: app_poll_def rd_poll_def rd_work_def rd_loop_failed_def rd_msgbox_def)
qed

lemma fatal_reports:
  assumes "world_ok w" "w_out w = []" "js_String e \<noteq> ''''" "\<not> hasOpenRemoteDesktopSession w"
  shows "ap_log (end_loop E parent a (msgbox E parent ''error'' ''Connection Error'' (js_String e) None w) s)
     = ap_log s @ notifyParentError parent ''Connection Error'' (js_String e) ''error'' @ [viewer_fatal, CloseWindow]"
proof -
  let ?es = "notifyParentError parent ''Connection Error'' (js_String e) ''error'' @ [viewer_fatal, CloseWindow]"
  let ?w1 = "msgbox E parent ''error'' ''Connection Error'' (js_String e) None w"
  have "w_out ?w1 = ?es"
    using assms(2,4) close_silent [OF assms(1)]
    by (simp add: msgbox_fatal [OF fatal_loop_error [OF assms(3)]] showFatalError_def str_or_def assms(3) Let_def)
  moreover have "conn_out (conn_detach k) = []" if "map_get (w_conns ?w1) a = Some k" for k
    using world_ok_conn [OF world_ok_msgbox [OF assms(1)] that] by (cases k) (simp_all add: detach_def)
  ultimately have out: "w_out (on_conn a conn_detach ?w1) = ?es" by (auto simp: on_conn_def split: option.split)
  have "list_all (\<lambda>x. \<forall>t ti tx. x \<noteq> MsgBox t ti tx) ?es" by (simp add: notifyParentError_def viewer_fatal_def Let_def)
  from deliver_plain [OF this] show ?thesis
    by (simp add: end_loop_def stop_loop_def absorb_def out Let_def)
qed

lemma silent_reports:
  assumes "w_out w = []" "map_get (w_conns w) a = Some k" "conn_out k = []"
  shows "ap_log (end_loop E parent a (msgbox E parent ''error'' ''Connection Error'' '''' None w) s) = ap_log s"
proof -
  have "conn_out (conn_detach k) = []" using assms(3) by (cases k) (simp_all add: detach_def)
  with assms(1,2) show ?thesis by (simp add: msgbox_def end_loop_def stop_loop_def absorb_silent on_conn_def)
qed



section \<open>Closing while connecting\<close>

lemma sessionClose_silent:
  assumes "world_ok w" shows "w_out (sessionClose E t w) = w_out w"
proof (cases "map_get (w_sessions w) t")
  case (Some b)
  have "registry_ok w" using assms by (simp add: world_ok_def)
  from registry_ok_get [OF this Some] obtain k where "map_get (w_conns w) b = Some k" by auto
  with Some world_ok_conn [OF assms] show ?thesis by (simp add: sessionClose_def removeSession_out close_silent [OF assms])
qed (simp add: sessionClose_def removeSession_def close_silent [OF assms])

lemma removeSession_frame:
  "map_get (w_sessions w) t \<noteq> Some a \<Longrightarrow> map_get (w_conns (removeSession E t w)) a = map_get (w_conns w) a"
  by (auto simp: removeSession_def on_conn_get split: option.split)

text \<open>No request to close a session reaches a connection that is not registered.\<close>

lemma sessionClose_frame:
  assumes "world_ok w" "a \<notin> set (map_values (w_sessions w))"
  shows "map_get (w_conns (sessionClose E t w)) a = map_get (w_conns w) a"
proof -
  have s: "map_get (w_sessions w) r \<noteq> Some a" for r using assms(2) by (force dest!: map_of_SomeD)
  have "w_curConn w \<noteq> Some a" using assms by (auto simp: world_ok_def registry_ok_def current_ok_def)
  then show ?thesis
    by (auto simp: sessionClose_def bridge_close_def setConn_def getConn_def removeSession_frame [OF s] on_conn_get split: option.split)
qed

lemma close_call_frame:
  assumes "app_ok s" "a \<notin> set (map_values (w_sessions (ap_world s)))"
  shows "\<exists>s'. setByName E inp ''session_close'' (JStr t) x s = Returned JUndefined s'
     \<and> map_get (w_conns (ap_world s')) a = map_get (w_conns (ap_world s)) a"
proof -
  have w: "world_ok (ap_world s)" "w_out (ap_world s) = []" using assms(1) by (simp_all add: app_ok_def)
  with sessionClose_frame [OF w(1) assms(2)] sessionClose_silent [OF w(1)] show ?thesis
    by (simp add: call_close absorb_silent)
qed

text \<open>The relay answers: the socket becomes the connection's, whatever happened to it meanwhile.\<close>

lemma event_plain: "pushEvent n p i \<noteq> MsgBox t ti tx"
  by (simp add: pushEvent_def Let_def split: option.split)

fun conn_attach :: "websock \<Rightarrow> conn \<Rightarrow> conn" where
  "conn_attach ws (FtC c) = FtC (attach_ws ws c)"
| "conn_attach ws (RdC c) = RdC (attach_ws ws c)"

lemma already_quiet: "b_out c = [] \<Longrightarrow> c\<lparr>b_ws := x, b_out := []\<rparr> = c\<lparr>b_ws := x\<rparr>"
  by (cases c) simp

lemma connected_attaches:
  assumes "map_get (w_conns (ap_world s)) a = Some k" "conn_out k = []" "w_out (ap_world s) = []"
  shows "let s' = app_connected E parent (Established ws (pushEvent n p i)) a s in
     map_get (w_conns (ap_world s')) a = Some (conn_attach ws k) \<and> w_sessions (ap_world s') = w_sessions (ap_world s)
     \<and> ap_loops s' = ap_loops s @ [a]"
proof (cases k)
  case (FtC c)
  let ?w = "ft_connected E (Established ws (pushEvent n p i)) a (ap_world s)"
  have "?w = put_ft a (attach_ws ws (emit (pushEvent n p i) c)) (ap_world s)"
    using assms(1) FtC by (simp add: ft_connected_def ft_at_def Let_def)
  then have "w_out ?w = [pushEvent n p i]" "map_get (w_conns ?w) a = Some (FtC (attach_ws ws c))" "w_sessions ?w = w_sessions (ap_world s)"
    using assms FtC by (simp_all add: put_ft_def on_conn_def attach_ws_def map_get_set)
  with assms(1) FtC show ?thesis by (simp add: app_connected_def absorb_plain event_plain)
next
  case (RdC c)
  let ?w = "rd_work E parent a (rd_connected (Established ws (pushEvent n p i))) (ap_world s)"
  have "?w = (ap_world s)\<lparr>w_conns := map_set a (RdC (attach_ws ws c)) (w_conns (ap_world s)), w_out := [pushEvent n p i]\<rparr>"
    using assms RdC deliver_plain [of "[pushEvent n p i]"]
    by (simp add: rd_work_def rd_connected_def attach_ws_def event_plain already_quiet)
  then have "w_out ?w = [pushEvent n p i]" "map_get (w_conns ?w) a = Some (RdC (attach_ws ws c))" "w_sessions ?w = w_sessions (ap_world s)"
    by (simp_all add: map_get_set)
  with assms(1) RdC show ?thesis by (simp add: app_connected_def absorb_plain event_plain)
qed

text \<open>
  C13: closing a session while it connects does not cancel the connection: when the relay
  answers, the connection gets its open socket and its message loop starts, though no session
  refers to it any more; and no later request to close a session, whichever it names, reaches
  it.
\<close>

theorem closing_leaves_connecting:
  assumes "app_ok s" and "a \<in> set (ap_starting s)" and "a \<notin> set (ap_loops s)"
    and "map_get (w_sessions (ap_world s)) sid = Some a" and "map_get (w_conns (ap_world s)) a = Some k"
  shows "\<exists>s1 k'. setByName E inp ''session_close'' (JStr sid) x s = Returned JUndefined s1
     \<and> (let s2 = app_connected E parent (Established ws (pushEvent ''connection_ready'' p i)) a s1 in
          a \<in> set (ap_loops s2) \<and> a \<notin> set (map_values (w_sessions (ap_world s2)))
        \<and> map_get (w_conns (ap_world s2)) a = Some k' \<and> conn_ws k' = Some (setIngressHandler True ws)
        \<and> (\<forall>inp' t y. \<exists>s3. setByName E inp' ''session_close'' (JStr t) y s2 = Returned JUndefined s3
             \<and> map_get (w_conns (ap_world s3)) a = Some k'))"
proof -
  let ?s1 = "after_close E sid s"
  let ?s2 = "app_connected E parent (Established ws (pushEvent ''connection_ready'' p i)) a ?s1"
  let ?k = "conn_attach ws (conn_quiet (conn_close E k))"
  note closed = after_close_world [OF assms(1,4,5), of E]
  have "conn_out (conn_quiet (conn_close E k)) = []" by (cases k) simp_all
  with connected_attaches [OF closed(1) _ closed(2), of E parent ws "''connection_ready''" p i]
  have s2: "map_get (w_conns (ap_world ?s2)) a = Some ?k" "w_sessions (ap_world ?s2) = w_sessions (ap_world ?s1)"
    "ap_loops ?s2 = ap_loops ?s1 @ [a]" by (simp_all add: Let_def)
  have call: "setByName E inp ''session_close'' (JStr sid) x s = Returned JUndefined ?s1"
    by (rule session_close_call [OF assms(1,4)])
  have "app_ok ?s1" using app_step_ok [OF app_step.call [OF call] assms(1)] .
  moreover have "app_step E ?s1 ?s2" by (rule app_step.connected) (use assms(2,3) in \<open>auto simp: ready_event_def\<close>)
  ultimately have "app_ok ?s2" by (rule app_step_ok [rotated])
  moreover have "conn_ws ?k = Some (setIngressHandler True ws)" by (cases k) (simp_all add: attach_ws_def)
  ultimately show ?thesis
    using s2 call closed(5) close_call_frame [of ?s2 a E] by (intro exI [of _ ?s1] exI [of _ ?k]) (simp add: Let_def)
qed

theorem closing_leaves_connecting_witness:
  "\<exists>s1 s2 c. setByName plain_env sample_input ''session_close'' (JStr ''x'') None
       ((running_app (FtC (newFtConnection\<lparr>b_sessionId := Some ''x''\<rparr>)))\<lparr>ap_starting := [1], ap_loops := []\<rparr>) = Returned JUndefined s1
     \<and> s2 = app_connected plain_env True (Established open_socket (pushEvent ''connection_ready'' [] (Some ''x''))) 1 s1
     \<and> 1 \<in> set (ap_loops s2) \<and> 1 \<notin> set (map_values (w_sessions (ap_world s2)))
     \<and> map_get (w_conns (ap_world s2)) 1 = Some c \<and> conn_ws c = Some (setIngressHandler True open_socket)"
proof -
  let ?k = "FtC (newFtConnection\<lparr>b_sessionId := Some ''x''\<rparr>)"
  let ?s = "(running_app ?k)\<lparr>ap_starting := [1], ap_loops := []\<rparr>"
  have "app_ok (running_app ?k)"
    by (rule running_app_ok)
       (simp_all add: newFtConnection_def newBase_def base.defs base_ok_def reads_ok_def newFileJobManager_def)
  then have ok: "app_ok ?s" by (simp add: app_ok_def)
  show ?thesis
    using closing_leaves_connecting [OF ok, of 1 "''x''" ?k plain_env sample_input None True open_socket "[]" "Some ''x''"]
    by (auto simp: Let_def)
qed

end
