(* ===== verification/Viewer_Crypto.thy ===== *)
theory Viewer_Crypto
  imports Base64
begin

text \<open>
  \<open>flutter/js/src/helpers/viewer-crypto.js\<close>: the token that the parent page sends, base64 of an
  unsigned JWT whose payload holds the ciphertext, the nonce and the sender's ephemeral key.
  WebCrypto, the text decoder and \<open>JSON.parse\<close> are the parameter \<open>W\<close>.  A call that throws or a promise that rejects is \<open>Inl\<close>.
\<close>

section \<open>The token\<close>

definition arrayBufferToBase64 :: "bytes \<Rightarrow> string" where
  "arrayBufferToBase64 buffer = btoa buffer"

definition base64ToArrayBuffer :: "string \<Rightarrow> unknown + bytes" where
  "base64ToArrayBuffer b64 = atob b64"

definition base64UrlToArrayBuffer :: "string \<Rightarrow> unknown + bytes" where
  "base64UrlToArrayBuffer b64url =
     (let b64 = replace_char CHR ''_'' CHR ''/'' (replace_char CHR ''-'' CHR ''+'' b64url); pad = length b64 mod 4
      in base64ToArrayBuffer (if pad = 2 then b64 @ ''=='' else if pad = 3 then b64 @ ''=''
           else if pad = 1 then b64 @ ''==='' else b64))"

text \<open>What the browser provides; keys are abstract.\<close>

record 'k webcrypto =
  utf8_decode :: "bytes \<Rightarrow> string"
  utf8_encode :: "string \<Rightarrow> bytes"
  json_parse :: "string \<Rightarrow> unknown + (string, string) jsmap"
  import_spki :: "bytes \<Rightarrow> unknown + 'k"
  ecdh_bits :: "'k \<Rightarrow> 'k \<Rightarrow> unknown + bytes"
  hkdf_sha256 :: "bytes \<Rightarrow> bytes \<Rightarrow> bytes \<Rightarrow> unknown + bytes"
  aes_gcm_decrypt :: "bytes \<Rightarrow> bytes \<Rightarrow> bytes \<Rightarrow> unknown + bytes"

definition HKDF_INFO :: string where
  "HKDF_INFO = ''fort-rc-token-v1''"

fun bind_sum :: "'e + 'a \<Rightarrow> ('a \<Rightarrow> 'e + 'b) \<Rightarrow> 'e + 'b" where
  "bind_sum (Inl e) f = Inl e"
| "bind_sum (Inr a) f = f a"

definition parseUnsignedJwtPayload :: "'k webcrypto \<Rightarrow> string \<Rightarrow> unknown + (string, string) jsmap" where
  "parseUnsignedJwtPayload W jwt =
     (case split_on (\<lambda>c. c = CHR ''.'') jwt of
        _ # part # _ \<Rightarrow> bind_sum (base64UrlToArrayBuffer part) (\<lambda>bs. json_parse W (utf8_decode W bs))
      | _ \<Rightarrow> Inl (UError ''Error'' ''invalid JWT envelope''))"

definition deriveAesKey :: "'k webcrypto \<Rightarrow> 'k \<Rightarrow> 'k \<Rightarrow> unknown + bytes" where
  "deriveAesKey W privateKey ephemeralPublicKey =
     bind_sum (ecdh_bits W ephemeralPublicKey privateKey) (\<lambda>shared. hkdf_sha256 W shared [] (utf8_encode W HKDF_INFO))"

text \<open>The fields of the payload are texts; a missing one is as falsy as the empty text.\<close>

definition text_field :: "(string, string) jsmap \<Rightarrow> string \<Rightarrow> string" where
  "text_field m k = nullish (map_get m k) ''''"

definition decryptToken :: "'k webcrypto \<Rightarrow> 'k \<Rightarrow> string \<Rightarrow> unknown + string" where
  "decryptToken W privateKey encryptedTokenB64 =
     bind_sum (base64ToArrayBuffer encryptedTokenB64) (\<lambda>jwt.
     bind_sum (parseUnsignedJwtPayload W (utf8_decode W jwt)) (\<lambda>payload.
       (let encryptedToken = text_field payload ''encryptedToken''; iv = text_field payload ''iv'';
            ephemeralPublicKey = text_field payload ''ephemeralPublicKey''
        in if encryptedToken = '''' \<or> iv = '''' \<or> ephemeralPublicKey = ''''
           then Inl (UError ''Error'' ''JWT envelope missing crypto fields'')
           else bind_sum (base64ToArrayBuffer ephemeralPublicKey) (\<lambda>spki.
                bind_sum (import_spki W spki) (\<lambda>ephemeralPub.
                bind_sum (deriveAesKey W privateKey ephemeralPub) (\<lambda>aesKey.
                bind_sum (base64ToArrayBuffer iv) (\<lambda>ivb.
                bind_sum (base64ToArrayBuffer encryptedToken) (\<lambda>ct.
                bind_sum (aes_gcm_decrypt W ivb aesKey ct) (\<lambda>plaintext.
                  Inr (utf8_decode W plaintext))))))))))"

section \<open>The envelope is opened\<close>

text \<open>Base64 for URLs without padding, as a JWT carries it.\<close>

definition base64url :: "bytes \<Rightarrow> string" where
  "base64url b = replace_char CHR ''/'' CHR ''_'' (replace_char CHR ''+'' CHR ''-'' (map b64_char (sextets b)))"

lemma b64_char_url: "n < 64 \<Longrightarrow> b64_char n \<noteq> CHR ''-'' \<and> b64_char n \<noteq> CHR ''_'' \<and> b64_char n \<noteq> CHR ''.''"
  using b64_index_char [of n] by (auto simp: b64_index_def Let_def split: if_splits)

lemma url_back:
  assumes "\<forall>c \<in> set s. c \<noteq> CHR ''-'' \<and> c \<noteq> CHR ''_''"
  shows "replace_char CHR ''_'' CHR ''/'' (replace_char CHR ''-'' CHR ''+''
      (replace_char CHR ''/'' CHR ''_'' (replace_char CHR ''+'' CHR ''-'' s))) = s"
  using assms by (induction s) (auto simp: replace_char_def)

lemma base64url_back: "base64UrlToArrayBuffer (base64url b) = Inr b"
proof -
  have "replace_char CHR ''_'' CHR ''/'' (replace_char CHR ''-'' CHR ''+'' (base64url b)) = map b64_char (sextets b)"
    unfolding base64url_def using sextets_small [of b] b64_char_url by (intro url_back) auto
  moreover have "length (map b64_char (sextets b)) mod 4 = (if length b mod 3 = 1 then 2 else if length b mod 3 = 2 then 3 else 0)"
    using length_sextets [of b] by simp
  ultimately show ?thesis
    using atob_btoa [of b]
    by (simp add: base64UrlToArrayBuffer_def base64ToArrayBuffer_def btoa_sextets padding_def Let_def split: if_splits)
qed

lemma base64url_no_dot: "CHR ''.'' \<notin> set (base64url b)"
proof -
  have "CHR ''.'' \<notin> set (map b64_char (sextets b))"
    using sextets_small [of b] b64_char_url by (metis (no_types, lifting) imageE set_map)
  then show ?thesis by (auto simp: base64url_def replace_char_def)
qed

text \<open>
  What a parent page sends: base64 of a JWT with the given payload, a JSON text.
\<close>

definition pack_token :: "'k webcrypto \<Rightarrow> string \<Rightarrow> string \<Rightarrow> string \<Rightarrow> string" where
  "pack_token W header payload sig =
     arrayBufferToBase64 (utf8_encode W (header @ CHR ''.'' # base64url (utf8_encode W payload) @ CHR ''.'' # sig))"

lemma btoa_empty_iff: "btoa b = [] \<longleftrightarrow> b = []"
  by (cases b rule: btoa.cases) (simp_all add: Let_def)

text \<open>
  A token that the parent page encrypted for the viewer is decrypted to exactly that token:
  through base64, the JWT envelope with its unpadded base64url payload, the key agreement and
  the cipher.  The assumptions are that texts are read back as they were encoded, that the
  payload holds the ciphertext, the nonce and the ephemeral key, that the browser derives the
  key they were encrypted under, and that the cipher opens with it.
\<close>

lemma token_roundtrip:
  assumes "\<And>s. utf8_decode W (utf8_encode W s) = s"
    and "json_parse W payload = Inr [(''encryptedToken'', arrayBufferToBase64 ct), (''iv'', arrayBufferToBase64 iv),
           (''ephemeralPublicKey'', arrayBufferToBase64 spki)]"
    and "import_spki W spki = Inr ephemeral" and "ecdh_bits W ephemeral privateKey = Inr shared"
    and "hkdf_sha256 W shared [] (utf8_encode W HKDF_INFO) = Inr aesKey"
    and "aes_gcm_decrypt W iv aesKey ct = Inr (utf8_encode W token)"
    and "CHR ''.'' \<notin> set header" and "spki \<noteq> []" and "iv \<noteq> []" and "ct \<noteq> []"
  shows "decryptToken W privateKey (pack_token W header payload sig) = Inr token"
proof -
  have "split_on (\<lambda>c. c = CHR ''.'') (header @ CHR ''.'' # base64url (utf8_encode W payload) @ CHR ''.'' # sig)
      = header # base64url (utf8_encode W payload) # split_on (\<lambda>c. c = CHR ''.'') sig"
    using assms(7) base64url_no_dot by (subst split_on_append_sep; (subst split_on_append_sep)?) auto
  then have "parseUnsignedJwtPayload W (header @ CHR ''.'' # base64url (utf8_encode W payload) @ CHR ''.'' # sig)
      = json_parse W payload"
    by (simp add: parseUnsignedJwtPayload_def base64url_back assms(1))
  then show ?thesis
    using assms by (simp add: decryptToken_def pack_token_def arrayBufferToBase64_def base64ToArrayBuffer_def atob_btoa
        text_field_def btoa_empty_iff deriveAesKey_def)
qed

lemma token_roundtrip_witness:
  "let W = \<lparr>utf8_decode = map (\<lambda>b. char_of (unat b)), utf8_encode = map (\<lambda>c. word_of_nat (of_char c)),
            json_parse = (\<lambda>s. if s = ''{..}'' then Inr [(''encryptedToken'', btoa [65, 66]), (''iv'', btoa [7]), (''ephemeralPublicKey'', btoa [9])]
                          else Inl UNull),
            import_spki = (\<lambda>b. Inr (length b)), ecdh_bits = (\<lambda>_ _. Inr [5]), hkdf_sha256 = (\<lambda>s _ _. Inr s),
            aes_gcm_decrypt = (\<lambda>iv k c. Inr c)\<rparr>
   in decryptToken W 2 (pack_token W ''h'' ''{..}'' ''s'') = Inr ''AB''"
proof -
  define W where "W = \<lparr>utf8_decode = map (\<lambda>b. char_of (unat (b :: 8 word))), utf8_encode = map (\<lambda>c. word_of_nat (of_char c)),
            json_parse = (\<lambda>s. if s = ''{..}'' then Inr [(''encryptedToken'', btoa [65, 66]), (''iv'', btoa [7]), (''ephemeralPublicKey'', btoa [9])]
                          else Inl UNull),
            import_spki = (\<lambda>b. Inr (length b)), ecdh_bits = (\<lambda>_ _. Inr [5]), hkdf_sha256 = (\<lambda>s _ _. Inr s),
            aes_gcm_decrypt = (\<lambda>iv k c. Inr c)\<rparr>"
  have "utf8_decode W (utf8_encode W s) = s" for s
    by (induction s) (simp_all add: W_def unat_of_nat)
  then have "decryptToken W 2 (pack_token W ''h'' ''{..}'' ''s'') = Inr ''AB''"
    by (rule token_roundtrip [where ct = "[65, 66]" and iv = "[7]" and spki = "[9]"]) (simp_all add: W_def arrayBufferToBase64_def)
  then show ?thesis by (simp add: W_def)
qed

end
