(* ===== verification/Viewer_Page.thy ===== *)
theory Viewer_Page
  imports Viewer_Start Viewer_Crypto
begin

text \<open>
  The script in \<open>flutter/web/index.html\<close>, which runs before the bundle of \<open>flutter/js\<close> is loaded: it
  learns the origin of the page that opened the viewer, generates the key pair and posts its public
  half with \<open>VIEWER_READY\<close>.  It waits twice, for the generation and for the export of the key, and
  meanwhile the browser goes on loading the page; the listener of \<open>bridge/init.js\<close> (theory
  \<open>Viewer_Start\<close>) is there once the bundle has run.  The results of WebCrypto come with the events,
  the parser of URLs is the parameter \<open>url_origin\<close>.
\<close>

section \<open>State\<close>

datatype 'k boot_phase = Unstarted | Generating | Exporting 'k | Booted

text \<open>
  \<open>vw_opener\<close> is \<open>window.opener\<close>, \<open>vw_parent\<close> is \<open>window.parent\<close> unless it is the window itself,
  \<open>vw_posted\<close> are the messages the script posted, with the window and the origin they are for.
\<close>

record 'k viewer_window =
  vw_opener :: "nat option"
  vw_parent :: "nat option"
  vw_parentOrigin :: "string option"
  vw_privateKey :: "'k option"
  vw_boot :: "'k boot_phase"
  vw_posted :: "(nat \<times> (string, jval) jsmap \<times> string) list"

definition opened_window :: "nat option \<Rightarrow> nat option \<Rightarrow> 'k viewer_window" where
  "opened_window opener parent = \<lparr>vw_opener = opener, vw_parent = parent, vw_parentOrigin = None, vw_privateKey = None,
     vw_boot = Unstarted, vw_posted = []\<rparr>"

section \<open>Error texts\<close>

fun formatViewerErrorMessage :: "unknown \<Rightarrow> string \<Rightarrow> string" where
  "formatViewerErrorMessage v fallback0 =
     (let fallback = str_or fallback0 ''An unknown error occurred.''
      in case v of
           UUndefined \<Rightarrow> fallback
         | UNull \<Rightarrow> fallback
         | UString s \<Rightarrow> (if s = '''' then fallback else s)
         | UError _ m \<Rightarrow> str_or m fallback
         | UObject obj t \<Rightarrow>
             (case str_field obj ''message'' of Some s \<Rightarrow> s
              | None \<Rightarrow> (case str_field obj ''reason'' of Some s \<Rightarrow> s
              | None \<Rightarrow> (case str_field obj ''text'' of Some s \<Rightarrow> s
              | None \<Rightarrow> (if t = ''[object Object]'' then fallback else t))))
         | UOther t \<Rightarrow> (if t = ''[object Object]'' then fallback else t))"

definition parent_target :: "'k viewer_window \<Rightarrow> nat option" where
  "parent_target vw = (case vw_opener vw of Some p \<Rightarrow> Some p | None \<Rightarrow> vw_parent vw)"

text \<open>\<open>msgboxType\<close> is \<open>None\<close> when it is no text.\<close>

definition page_notifyParentError :: "unknown \<Rightarrow> unknown \<Rightarrow> string option \<Rightarrow> 'k viewer_window \<Rightarrow> 'k viewer_window" where
  "page_notifyParentError title message msgboxType vw =
     (case (parent_target vw, vw_parentOrigin vw) of
        (Some target, Some origin) \<Rightarrow>
          (if origin = '''' then vw
           else (let cleanTitle = formatViewerErrorMessage title ''Error'';
                     cleanMessage = formatViewerErrorMessage message cleanTitle
                 in vw\<lparr>vw_posted := vw_posted vw @ [(target, [(''type'', JStr ''VIEWER_ERROR''), (''title'', JStr cleanTitle),
                      (''message'', JStr cleanMessage), (''msgboxType'', JStr (nullish msgboxType ''error''))], origin)]\<rparr>))
      | _ \<Rightarrow> vw)"

section \<open>The bootstrap\<close>

text \<open>Up to the call of \<open>generateKey\<close>; a referrer that is no URL is reported to the console only.\<close>

definition boot_start :: "(string \<Rightarrow> unknown + string) \<Rightarrow> string \<Rightarrow> 'k viewer_window \<Rightarrow> 'k viewer_window" where
  "boot_start url_origin referrer vw =
     (let vw1 = (if referrer = '''' then vw
                 else case url_origin referrer of Inl _ \<Rightarrow> vw | Inr origin \<Rightarrow> vw\<lparr>vw_parentOrigin := Some origin\<rparr>)
      in vw1\<lparr>vw_boot := Generating\<rparr>)"

definition boot_failed :: "'k viewer_window \<Rightarrow> 'k viewer_window" where
  "boot_failed vw = (page_notifyParentError (UString ''Error'') (UString ''Failed to initialize viewer'') (Some ''error'') vw)\<lparr>vw_boot := Booted\<rparr>"

definition boot_generated :: "unknown + 'k \<times> 'k \<Rightarrow> 'k viewer_window \<Rightarrow> 'k viewer_window" where
  "boot_generated r vw =
     (case r of
        Inl _ \<Rightarrow> boot_failed vw
      | Inr (privateKey, publicKey) \<Rightarrow> vw\<lparr>vw_privateKey := Some privateKey, vw_boot := Exporting publicKey\<rparr>)"

definition ready_message :: "bytes \<Rightarrow> (string, jval) jsmap" where
  "ready_message spki = [(''type'', JStr ''VIEWER_READY''), (''version'', JInt 1), (''publicKey'', JStr (btoa spki))]"

definition boot_exported :: "unknown + bytes \<Rightarrow> 'k viewer_window \<Rightarrow> 'k viewer_window" where
  "boot_exported r vw =
     (case r of
        Inl _ \<Rightarrow> boot_failed vw
      | Inr spki \<Rightarrow>
          (case (vw_opener vw, vw_parentOrigin vw) of
             (Some opener, Some origin) \<Rightarrow>
               (if origin = '''' then vw else vw\<lparr>vw_posted := vw_posted vw @ [(opener, ready_message spki, origin)]\<rparr>)
           | _ \<Rightarrow> vw)\<lparr>vw_boot := Booted\<rparr>)"

section \<open>The page as a whole\<close>

text \<open>\<open>vp_listening\<close>: the bundle has run, and its listener with it.\<close>

record 'k viewer_page =
  vp_window :: "'k viewer_window"
  vp_listening :: bool
  vp_start :: start_page
  vp_world :: world

datatype 'k page_event =
    BootScript string
  | KeyGenerated "unknown + 'k \<times> 'k"
  | KeyExported "unknown + bytes"
  | BundleLoaded
  | Handshake start_event

text \<open>
  What the listener sees of the window when a message arrives; windows are numbered from 1, so that no
  message comes from the missing opener.  Flutter's scripts come after the bundle, so \<open>connect\<close> is set
  only when the listener is there.
\<close>

definition seen_page :: "'k viewer_window \<Rightarrow> page \<Rightarrow> page" where
  "seen_page vw pg = pg\<lparr>pg_parentOrigin := nullish (vw_parentOrigin vw) '''', pg_opener := nullish (vw_opener vw) 0,
     pg_hasPrivateKey := (vw_privateKey vw \<noteq> None)\<rparr>"

definition window_decrypt :: "'k webcrypto \<Rightarrow> 'k viewer_window \<Rightarrow> string \<Rightarrow> unknown + string" where
  "window_decrypt W vw t = (case vw_privateKey vw of None \<Rightarrow> Inl UUndefined | Some k \<Rightarrow> decryptToken W k t)"

fun page_event_step ::
    "env \<Rightarrow> bool \<Rightarrow> 'k webcrypto \<Rightarrow> (string \<Rightarrow> unknown + string) \<Rightarrow> (string \<times> string \<times> string \<Rightarrow> unknown + bool)
       \<Rightarrow> 'k page_event \<Rightarrow> 'k viewer_page \<Rightarrow> 'k viewer_page" where
  "page_event_step E parent W url_origin connect (BootScript referrer) vp =
     (if vw_boot (vp_window vp) = Unstarted then vp\<lparr>vp_window := boot_start url_origin referrer (vp_window vp)\<rparr> else vp)"
| "page_event_step E parent W url_origin connect (KeyGenerated r) vp =
     (if vw_boot (vp_window vp) = Generating then vp\<lparr>vp_window := boot_generated r (vp_window vp)\<rparr> else vp)"
| "page_event_step E parent W url_origin connect (KeyExported r) vp =
     (case vw_boot (vp_window vp) of Exporting k \<Rightarrow> vp\<lparr>vp_window := boot_exported r (vp_window vp)\<rparr> | _ \<Rightarrow> vp)"
| "page_event_step E parent W url_origin connect BundleLoaded vp = vp\<lparr>vp_listening := True\<rparr>"
| "page_event_step E parent W url_origin connect (Handshake x) vp =
     (if \<not> vp_listening vp then vp
      else (let sp = vp_start vp; vw = vp_window vp;
                (sp', w') = start_step E parent (window_decrypt W vw) connect x
                   (sp\<lparr>sp_page := seen_page vw (sp_page sp)\<rparr>, vp_world vp)
            in vp\<lparr>vp_start := sp', vp_world := w'\<rparr>))"

definition page_run ::
    "env \<Rightarrow> bool \<Rightarrow> 'k webcrypto \<Rightarrow> (string \<Rightarrow> unknown + string) \<Rightarrow> (string \<times> string \<times> string \<Rightarrow> unknown + bool)
       \<Rightarrow> 'k page_event list \<Rightarrow> 'k viewer_page \<Rightarrow> 'k viewer_page" where
  "page_run E parent W url_origin connect xs vp = fold (page_event_step E parent W url_origin connect) xs vp"

definition opened_page :: "nat option \<Rightarrow> nat option \<Rightarrow> world \<Rightarrow> 'k viewer_page" where
  "opened_page opener parent w = \<lparr>vp_window = opened_window opener parent, vp_listening = False,
     vp_start = fresh_page \<lparr>pg_sessionStarted = False, pg_parentOrigin = '''', pg_opener = 0, pg_hasPrivateKey = False, pg_connects = []\<rparr>,
     vp_world = w\<rparr>"

section \<open>The same texts as the bundle's\<close>

lemma formatViewerErrorMessage_same:
  "formatViewerErrorMessage v fallback = formatErrorMessage v (str_or fallback default_fallback)"
  by (cases v) (simp_all add: Let_def default_fallback_def finish_text_def split: option.split)

section \<open>The parent's side of the protocol\<close>

text \<open>
  The other half of the exchange as the README (Fort and viewer protocol) documents it: from the
  \<open>publicKey\<close> of \<open>VIEWER_READY\<close> and an ephemeral key the parent derives the key it encrypts the token
  under.  \<open>pc_public\<close> gives the public half of a private key.
\<close>

record 'k parent_crypto =
  pc_public :: "'k \<Rightarrow> 'k"
  pc_spki :: "'k \<Rightarrow> bytes"
  pc_json :: "(string, string) jsmap \<Rightarrow> string"
  pc_encrypt :: "bytes \<Rightarrow> bytes \<Rightarrow> bytes \<Rightarrow> bytes"

definition parent_token ::
    "'k webcrypto \<Rightarrow> 'k parent_crypto \<Rightarrow> 'k \<Rightarrow> bytes \<Rightarrow> string \<Rightarrow> string \<Rightarrow> string \<Rightarrow> string \<Rightarrow> unknown + string" where
  "parent_token W P ephemeral iv header sig token publicKey =
     bind_sum (base64ToArrayBuffer publicKey) (\<lambda>spki.
     bind_sum (import_spki W spki) (\<lambda>viewerKey.
     bind_sum (deriveAesKey W ephemeral viewerKey) (\<lambda>aesKey.
       Inr (pack_token W header
              (pc_json P [(''encryptedToken'', arrayBufferToBase64 (pc_encrypt P iv aesKey (utf8_encode W token))),
                 (''iv'', arrayBufferToBase64 iv), (''ephemeralPublicKey'', arrayBufferToBase64 (pc_spki P (pc_public P ephemeral)))])
              sig))))"

text \<open>
  What is documented of the browser: texts and JSON are read back as written, an exported key is
  imported as the key it is, both sides of a key agreement derive the same bits, and the cipher opens
  with the key and nonce it was closed with.
\<close>

definition webcrypto_laws :: "'k webcrypto \<Rightarrow> 'k parent_crypto \<Rightarrow> bool" where
  "webcrypto_laws W P \<longleftrightarrow>
     (\<forall>s. utf8_decode W (utf8_encode W s) = s) \<and> (\<forall>obj. json_parse W (pc_json P obj) = Inr obj)
   \<and> (\<forall>k. import_spki W (pc_spki P k) = Inr k \<and> pc_spki P k \<noteq> [])
   \<and> (\<forall>a b. ecdh_bits W (pc_public P a) b = ecdh_bits W (pc_public P b) a)
   \<and> (\<forall>iv k b. aes_gcm_decrypt W iv k (pc_encrypt P iv k b) = Inr b \<and> pc_encrypt P iv k b \<noteq> [])"

lemma bind_sum_Inr: "bind_sum x f = Inr y \<longleftrightarrow> (\<exists>a. x = Inr a \<and> f a = Inr y)"
  by (cases x) simp_all

lemma parent_token_opens:
  assumes laws: "webcrypto_laws W P" and "CHR ''.'' \<notin> set header" and "iv \<noteq> []"
    and sent: "parent_token W P ephemeral iv header sig token (btoa (pc_spki P (pc_public P k))) = Inr t"
  shows "decryptToken W k t = Inr token"
proof -
  from sent laws obtain aesKey where key: "deriveAesKey W ephemeral (pc_public P k) = Inr aesKey"
    and t: "t = pack_token W header
              (pc_json P [(''encryptedToken'', arrayBufferToBase64 (pc_encrypt P iv aesKey (utf8_encode W token))),
                 (''iv'', arrayBufferToBase64 iv), (''ephemeralPublicKey'', arrayBufferToBase64 (pc_spki P (pc_public P ephemeral)))]) sig"
    by (auto simp: parent_token_def bind_sum_Inr base64ToArrayBuffer_def atob_btoa webcrypto_laws_def)
  from key obtain shared where "ecdh_bits W (pc_public P k) ephemeral = Inr shared"
    and "hkdf_sha256 W shared [] (utf8_encode W HKDF_INFO) = Inr aesKey"
    by (auto simp: deriveAesKey_def bind_sum_Inr)
  then show ?thesis
    unfolding t using laws assms(2,3)
    by (intro token_roundtrip [where ct = "pc_encrypt P iv aesKey (utf8_encode W token)" and iv = iv
          and spki = "pc_spki P (pc_public P ephemeral)" and ephemeral = "pc_public P ephemeral" and shared = shared])
       (auto simp: webcrypto_laws_def)
qed

section \<open>The start of a session, end to end\<close>

text \<open>The page once the script has run and the bundle is there.\<close>

definition awaiting :: "nat \<Rightarrow> string \<Rightarrow> 'k \<Rightarrow> bytes \<Rightarrow> bool \<Rightarrow> world \<Rightarrow> 'k viewer_page \<Rightarrow> bool" where
  "awaiting opener origin k spki ready w vp \<longleftrightarrow>
     vw_opener (vp_window vp) = Some opener \<and> vw_parentOrigin (vp_window vp) = Some origin \<and> vw_privateKey (vp_window vp) = Some k
   \<and> vw_posted (vp_window vp) = [(opener, ready_message spki, origin)]
   \<and> vp_listening vp \<and> vp_world vp = w \<and> sp_phase (vp_start vp) = Idle \<and> sp_connect (vp_start vp) = ready
   \<and> \<not> pg_sessionStarted (sp_page (vp_start vp)) \<and> pg_connects (sp_page (vp_start vp)) = []"

definition load_order :: "'k page_event list \<Rightarrow> 'k page_event list \<Rightarrow> bool" where
  "load_order before after \<longleftrightarrow> before @ after = [BundleLoaded, Handshake ConnectSet] \<and> before \<noteq> []"

lemma load_order_cases:
  "load_order before after \<Longrightarrow> (before, after) = ([BundleLoaded], [Handshake ConnectSet]) \<or> (before, after) = ([BundleLoaded, Handshake ConnectSet], [])"
  by (auto simp: load_order_def append_eq_Cons_conv Cons_eq_append_conv)

lemmas page_steps = page_run_def boot_start_def boot_generated_def boot_exported_def seen_page_def opened_page_def opened_window_def
  fresh_page_def Let_def

lemma page_run_append:
  "page_run E parent W url_origin connect (xs @ ys) vp
    = page_run E parent W url_origin connect ys (page_run E parent W url_origin connect xs vp)"
  by (simp add: page_run_def)

lemma boot_awaiting:
  assumes "load_order before after" and "referrer \<noteq> ''''" and "url_origin referrer = Inr origin" and "origin \<noteq> ''''"
    and "pre \<in> shuffles [BootScript referrer, KeyGenerated (Inr (k, pk)), KeyExported (Inr spki)] before"
  shows "awaiting opener origin k spki (Handshake ConnectSet \<in> set before) w
    (page_run E parent W url_origin connect pre (opened_page (Some opener) frame w))"
  using load_order_cases [OF assms(1)] assms(5)
  by (elim disjE; clarsimp simp: Cons_in_shuffles_iff)
     (elim disjE exE conjE; simp add: awaiting_def page_steps assms(2-4))+

lemma answered_connects:
  assumes "awaiting opener origin k spki ready w vp" and "ready \<longleftrightarrow> after = []" and "load_order before after"
    and m: "post_accepted (seen_page (vp_window vp) (sp_page (vp_start vp))) m"
    and "decryptToken W k (po_encryptedToken m) = Inr token"
    and "connect (po_clientId m, token, po_remoteSessionId m) = Inr result"
    and "rest \<in> shuffles [Handshake TokenDecrypted] after"
  shows "let vp' = page_run E parent W url_origin connect (Handshake (Posted m) # rest @ [Handshake ConnectDone]) vp
    in pg_connects (sp_page (vp_start vp')) = [(po_clientId m, token, po_remoteSessionId m)]
     \<and> w_out (vp_world vp') = w_out w @ [StoreItem ''override:custom-rendezvous-server'' (po_server m),
                                    StoreItem ''override:key'' (po_key m), ack result JUndefined]"
proof -
  have order: "after = [] \<and> ready \<and> rest = [Handshake TokenDecrypted]
    \<or> after = [Handshake ConnectSet] \<and> \<not> ready \<and> (rest = [Handshake TokenDecrypted, Handshake ConnectSet] \<or> rest = [Handshake ConnectSet, Handshake TokenDecrypted])"
    using load_order_cases [OF assms(3)] assms(2,7) by (auto simp: Cons_in_shuffles_iff)
  have a: "vw_privateKey (vp_window vp) = Some k" "vp_listening vp" "vp_world vp = w" "sp_phase (vp_start vp) = Idle"
    "sp_connect (vp_start vp) = ready" "pg_connects (sp_page (vp_start vp)) = []"
    using assms(1) by (simp_all add: awaiting_def)
  show ?thesis
    using order m
    by (elim disjE conjE) (simp_all add: page_run_def message_arrives_def a window_decrypt_def assms(5,6) call_connect_def seen_page_def Let_def)
qed

text \<open>
  C10: when the page that opened the viewer answers \<open>VIEWER_READY\<close> as documented, with a token
  encrypted for the public key it was sent, the viewer connects exactly once, with that token, stores
  the server it was given and acknowledges with the result.  This holds for every order in which the
  script's two waits, the loading of the bundle, the setting of \<open>connect\<close> by Flutter and the
  decryption of the token end, as long as the bundle has been loaded when the answer arrives.
\<close>

theorem viewer_starts_session:
  assumes "webcrypto_laws W P" and "referrer \<noteq> ''''" and "url_origin referrer = Inr origin" and "origin \<noteq> ''''"
    and "spki = pc_spki P (pc_public P k)" and "load_order before after"
    and "pre \<in> shuffles [BootScript referrer, KeyGenerated (Inr (k, pc_public P k)), KeyExported (Inr spki)] before"
    and "rest \<in> shuffles [Handshake TokenDecrypted] after"
    and "po_type m = ''REMOTE_SESSION_READY''" and "po_source m = opener" and "po_origin m = origin"
    and "'''' \<notin> {po_remoteSessionId m, po_clientId m, po_encryptedToken m, po_server m, po_key m}"
    and "parent_token W P ephemeral iv header sig token (btoa spki) = Inr (po_encryptedToken m)"
    and "CHR ''.'' \<notin> set header" and "iv \<noteq> []"
    and "connect (po_clientId m, token, po_remoteSessionId m) = Inr result"
  shows "let vp1 = page_run E parent W url_origin connect pre (opened_page (Some opener) frame w);
       vp2 = page_run E parent W url_origin connect (Handshake (Posted m) # rest @ [Handshake ConnectDone]) vp1
    in vw_posted (vp_window vp1) = [(opener, ready_message spki, origin)]
     \<and> pg_connects (sp_page (vp_start vp2)) = [(po_clientId m, token, po_remoteSessionId m)]
     \<and> w_out (vp_world vp2) = w_out w @ [StoreItem ''override:custom-rendezvous-server'' (po_server m),
                                    StoreItem ''override:key'' (po_key m), ack result JUndefined]"
proof -
  define vp1 where "vp1 = page_run E parent W url_origin connect pre (opened_page (Some opener) frame w)"
  have aw: "awaiting opener origin k spki (Handshake ConnectSet \<in> set before) w vp1"
    unfolding vp1_def by (rule boot_awaiting [where url_origin = url_origin, OF assms(6,2,3,4,7)])
  then have "post_accepted (seen_page (vp_window vp1) (sp_page (vp_start vp1))) m"
    using assms(9-12) by (auto simp: awaiting_def post_accepted_def seen_page_def)
  moreover have "decryptToken W k (po_encryptedToken m) = Inr token"
    using parent_token_opens [OF assms(1,14,15)] assms(5,13) by blast
  moreover have "Handshake ConnectSet \<in> set before \<longleftrightarrow> after = []"
    using load_order_cases [OF assms(6)] by auto
  ultimately have "let vp' = page_run E parent W url_origin connect (Handshake (Posted m) # rest @ [Handshake ConnectDone]) vp1
    in pg_connects (sp_page (vp_start vp')) = [(po_clientId m, token, po_remoteSessionId m)]
     \<and> w_out (vp_world vp') = w_out w @ [StoreItem ''override:custom-rendezvous-server'' (po_server m),
                                    StoreItem ''override:key'' (po_key m), ack result JUndefined]"
    using answered_connects [where connect = connect, OF aw _ assms(6) _ _ assms(16,8)] by blast
  moreover have "vw_posted (vp_window vp1) = [(opener, ready_message spki, origin)]" using aw by (simp add: awaiting_def)
  ultimately show ?thesis unfolding vp1_def [symmetric] Let_def by blast
qed

text \<open>A browser for which the assumptions hold: keys are numbers, JSON is replaced by tagged characters.\<close>

definition tagged :: "string \<Rightarrow> string" where
  "tagged s = concat (map (\<lambda>c. [CHR ''x'', c]) s) @ ''|''"

fun untagged :: "string \<Rightarrow> string \<times> string" where
  "untagged (t # c # r) = (if t = CHR ''|'' then ([], c # r) else (let (s, r') = untagged r in (c # s, r')))"
| "untagged _ = ([], [])"

fun untagged_pairs :: "nat \<Rightarrow> string \<Rightarrow> (string \<times> string) list" where
  "untagged_pairs (Suc n) (c # s) = (let (k, r) = untagged (c # s); (v, r') = untagged r in (k, v) # untagged_pairs n r')"
| "untagged_pairs _ _ = []"

lemma untagged_tagged: "untagged (tagged s @ r) = (s, r)"
  by (induction s) (cases r; simp add: tagged_def)+

definition tagged_pairs :: "(string \<times> string) list \<Rightarrow> string" where
  "tagged_pairs obj = concat (map (\<lambda>(k, v). tagged k @ tagged v) obj)"

lemma untagged_tagged_pairs: "length (tagged_pairs obj) \<le> n \<Longrightarrow> untagged_pairs n (tagged_pairs obj) = obj"
proof (induction obj arbitrary: n)
  case (Cons kv obj)
  obtain k v where kv: "kv = (k, v)" by (cases kv)
  obtain c s where t: "tagged k @ tagged v @ tagged_pairs obj = c # s" by (cases k) (simp_all add: tagged_def)
  have "n \<noteq> 0" "length (tagged_pairs obj) \<le> n - 1"
    using Cons.prems by (auto simp: kv tagged_pairs_def tagged_def)
  then obtain n' where n: "n = Suc n'" "length (tagged_pairs obj) \<le> n'" by (cases n) auto
  have "untagged (c # s) = (k, tagged v @ tagged_pairs obj)" using untagged_tagged [of k] t by metis
  then have "untagged_pairs n (c # s) = (k, v) # untagged_pairs n' (tagged_pairs obj)"
    by (simp add: n(1) untagged_tagged del: untagged.simps)
  moreover have "tagged_pairs ((k, v) # obj) = c # s" using t by (simp add: tagged_pairs_def)
  ultimately show ?case using Cons.IH [OF n(2)] by (simp add: kv)
qed (simp add: tagged_pairs_def)

definition sample_webcrypto :: "nat webcrypto" where
  "sample_webcrypto = \<lparr>utf8_decode = map (\<lambda>b. char_of (unat b)), utf8_encode = map (\<lambda>c. word_of_nat (of_char c)),
     json_parse = (\<lambda>s. Inr (untagged_pairs (length s) s)),
     import_spki = (\<lambda>b. Inr (length b - 1)), ecdh_bits = (\<lambda>a b. Inr (replicate (a + b) 1)), hkdf_sha256 = (\<lambda>s _ _. Inr s),
     aes_gcm_decrypt = (\<lambda>iv k c. Inr (tl c))\<rparr>"

definition sample_parent :: "nat parent_crypto" where
  "sample_parent = \<lparr>pc_public = (\<lambda>k. k), pc_spki = (\<lambda>k. replicate (k + 1) 0), pc_json = tagged_pairs, pc_encrypt = (\<lambda>iv k b. 0 # b)\<rparr>"

lemma sample_webcrypto_laws: "webcrypto_laws sample_webcrypto sample_parent"
proof -
  have "map (\<lambda>b. char_of (unat (b :: byte))) (map (\<lambda>c. word_of_nat (of_char c)) s) = s" for s
    by (induction s) (simp_all add: unat_of_nat)
  then show ?thesis
    by (auto simp: webcrypto_laws_def sample_webcrypto_def sample_parent_def untagged_tagged_pairs add.commute)
qed

theorem viewer_starts_session_witness:
  "let W = sample_webcrypto; t = projr (parent_token W sample_parent 5 [7] ''h'' ''s'' ''secret'' (btoa [0, 0, 0]));
       m = sample_post\<lparr>po_encryptedToken := t\<rparr>;
       run = page_run plain_env True W (\<lambda>_. Inr ''https://p'') (\<lambda>_. Inr True);
       vp = run [BootScript ''https://p/x'', BundleLoaded, KeyGenerated (Inr (2, 2)), KeyExported (Inr [0, 0, 0])] (opened_page (Some 1) None no_sessions)
   in vw_posted (vp_window vp) = [(1, ready_message [0, 0, 0], ''https://p'')]
    \<and> pg_connects (sp_page (vp_start (run [Handshake (Posted m), Handshake ConnectSet, Handshake TokenDecrypted, Handshake ConnectDone] vp)))
        = [(''c'', ''secret'', ''r'')]"
proof -
  let ?W = sample_webcrypto and ?P = sample_parent
  let ?t = "projr (parent_token ?W ?P 5 [7] ''h'' ''s'' ''secret'' (btoa [0, 0, 0]))"
  let ?m = "sample_post\<lparr>po_encryptedToken := ?t\<rparr>"
  have spki: "[0, 0, 0] = pc_spki ?P (pc_public ?P 2)" by (simp add: sample_parent_def numeral_2_eq_2)
  have tok: "parent_token ?W ?P 5 [7] ''h'' ''s'' ''secret'' (btoa [0, 0, 0]) = Inr ?t"
    by (simp add: parent_token_def base64ToArrayBuffer_def atob_btoa deriveAesKey_def sample_webcrypto_def del: btoa.simps)
  moreover have "?t \<noteq> ''''"
    by (simp add: parent_token_def base64ToArrayBuffer_def atob_btoa deriveAesKey_def pack_token_def arrayBufferToBase64_def
        btoa_empty_iff sample_webcrypto_def del: btoa.simps)
  moreover have "pc_public ?P 2 = 2" by (simp add: sample_parent_def)
  moreover have "load_order [BundleLoaded] [Handshake ConnectSet :: nat page_event]" by (simp add: load_order_def)
  ultimately show ?thesis
    using viewer_starts_session [OF sample_webcrypto_laws, where referrer = "''https://p/x''" and url_origin = "\<lambda>_. Inr ''https://p''"
        and origin = "''https://p''" and spki = "[0, 0, 0]" and k = 2 and before = "[BundleLoaded]" and after = "[Handshake ConnectSet]"
        and pre = "[BootScript ''https://p/x'', BundleLoaded, KeyGenerated (Inr (2, 2)), KeyExported (Inr [0, 0, 0])]"
        and rest = "[Handshake ConnectSet, Handshake TokenDecrypted]" and m = ?m and opener = 1 and ephemeral = 5 and iv = "[7]"
        and header = "''h''" and sig = "''s''" and token = "''secret''" and connect = "\<lambda>_. Inr True" and result = True
        and E = plain_env and parent = True and frame = None and w = no_sessions] spki
    by (simp add: Let_def sample_post_def Cons_in_shuffles_iff del: btoa.simps page_event_step.simps start_step.simps)
qed

text \<open>
  C14: the script posts \<open>VIEWER_READY\<close> without waiting for the bundle.  An answer that arrives before
  the bundle's listener is there is lost: no connection is ever made and nothing is posted to the
  parent after \<open>VIEWER_READY\<close>, whatever happens to the page later, unless the parent posts again.
\<close>

theorem early_answer_lost:
  assumes "referrer \<noteq> ''''" and "url_origin referrer = Inr origin" and "origin \<noteq> ''''"
    and "\<And>m'. Handshake (Posted m') \<notin> set later"
  shows "let boot = [BootScript referrer, KeyGenerated (Inr (k, pk)), KeyExported (Inr spki)];
       vp = page_run E parent W url_origin connect (boot @ Handshake (Posted m) # later) (opened_page (Some opener) frame w)
    in vw_posted (vp_window vp) = [(opener, ready_message spki, origin)]
     \<and> pg_connects (sp_page (vp_start vp)) = [] \<and> vp_world vp = w"
proof -
  define quiet where "quiet = (\<lambda>vp :: 'a viewer_page. vw_boot (vp_window vp) = Booted
    \<and> vw_posted (vp_window vp) = [(opener, ready_message spki, origin)]
    \<and> sp_phase (vp_start vp) = Idle \<and> pg_connects (sp_page (vp_start vp)) = [] \<and> vp_world vp = w)"
  let ?run = "page_run E parent W url_origin connect"
  have boot: "quiet (?run ([BootScript referrer, KeyGenerated (Inr (k, pk)), KeyExported (Inr spki)] @ [Handshake (Posted m)])
      (opened_page (Some opener) frame w))"
    by (simp add: quiet_def page_steps assms(1-3))
  have step: "quiet (page_event_step E parent W url_origin connect x vp)" if "quiet vp" "\<And>m'. x \<noteq> Handshake (Posted m')" for x vp
  proof (cases x)
    case (Handshake y)
    then show ?thesis using that by (cases y) (simp_all add: quiet_def seen_page_def Let_def)
  qed (use that in \<open>simp_all add: quiet_def\<close>)
  have "quiet (?run later vp)" if "quiet vp" for vp
    using that assms(4)
  proof (induction later arbitrary: vp)
    case (Cons x xs)
    then have "quiet (page_event_step E parent W url_origin connect x vp)" by (intro step) auto
    with Cons show ?case by (simp add: page_run_def)
  qed (simp add: page_run_def)
  from this [OF boot] have "quiet (?run ([BootScript referrer, KeyGenerated (Inr (k, pk)), KeyExported (Inr spki)] @ Handshake (Posted m) # later)
      (opened_page (Some opener) frame w))"
    unfolding page_run_append [symmetric] by simp
  then show ?thesis unfolding quiet_def Let_def by blast
qed

theorem early_answer_lost_witness:
  "let W = sample_webcrypto; t = projr (parent_token W sample_parent 5 [7] ''h'' ''s'' ''secret'' (btoa [0, 0, 0]));
       m = sample_post\<lparr>po_encryptedToken := t\<rparr>;
       vp = page_run plain_env True W (\<lambda>_. Inr ''https://p'') (\<lambda>_. Inr True)
         ([BootScript ''https://p/x'', KeyGenerated (Inr (2, 2)), KeyExported (Inr [0, 0, 0])] @ Handshake (Posted m)
            # [BundleLoaded, Handshake ConnectSet, Handshake TokenDecrypted, Handshake ConnectDone]) (opened_page (Some 1) None no_sessions)
   in vw_posted (vp_window vp) = [(1, ready_message [0, 0, 0], ''https://p'')] \<and> pg_connects (sp_page (vp_start vp)) = []"
  unfolding Let_def
  using early_answer_lost [where referrer = "''https://p/x''" and url_origin = "\<lambda>_. Inr ''https://p''" and origin = "''https://p''" and k = 2 and pk = 2
      and spki = "[0, 0, 0]" and later = "[BundleLoaded, Handshake ConnectSet, Handshake TokenDecrypted, Handshake ConnectDone]"
      and opener = 1 and frame = None and w = no_sessions and E = plain_env and parent = True and W = sample_webcrypto and connect = "\<lambda>_. Inr True"
      and m = "sample_post\<lparr>po_encryptedToken := projr (parent_token sample_webcrypto sample_parent 5 [7] ''h'' ''s'' ''secret'' (btoa [0, 0, 0]))\<rparr>"]
  unfolding Let_def by auto

end
