(* ===== verification/Browser_Glue.thy ===== *)
theory Browser_Glue
  imports Events
begin

text \<open>
  The small modules between the viewer and the browser: \<open>helpers/mobile.js\<close>, two regular expressions
  on the user agent; \<open>helpers/codec.js\<close>, the loading of the video decoder; \<open>copyToClipboard\<close> of
  \<open>helpers/storage.js\<close>.  The expressions are kept as syntax trees and tested by derivatives; what the
  browser answers is an argument.
\<close>

section \<open>Regular expressions\<close>

datatype rex = RNone | REps | RSet string | RAny | RSeq rex rex | RAlt rex rex | RPlus rex

definition lit :: "string \<Rightarrow> rex" where
  "lit s = foldr (\<lambda>c. RSeq (RSet [c])) s REps"

definition rseqs :: "rex list \<Rightarrow> rex" where
  "rseqs rs = foldr RSeq rs REps"

definition ralts :: "rex list \<Rightarrow> rex" where
  "ralts rs = foldr RAlt rs RNone"

definition ropt :: "rex \<Rightarrow> rex" where
  "ropt r = RAlt r REps"

text \<open>The flag \<open>i\<close>: letters of ASCII are compared without their case.\<close>

definition fold_case :: "char \<Rightarrow> char" where
  "fold_case c = (let n = of_char c :: int in if 97 \<le> n \<and> n \<le> 122 then char_of (n - 32) else c)"

definition line_end :: "char \<Rightarrow> bool" where
  "line_end c \<longleftrightarrow> of_char c = (10 :: int) \<or> of_char c = (13 :: int)"

text \<open>What an expression matches.\<close>

primrec lang :: "rex \<Rightarrow> string set" where
  "lang RNone = {}"
| "lang REps = {[]}"
| "lang (RSet cs) = {[c] | c. fold_case c \<in> fold_case ` set cs}"
| "lang RAny = {[c] | c. \<not> line_end c}"
| "lang (RSeq a b) = {u @ v | u v. u \<in> lang a \<and> v \<in> lang b}"
| "lang (RAlt a b) = lang a \<union> lang b"
| "lang (RPlus a) = {concat us | us. us \<noteq> [] \<and> set us \<subseteq> lang a}"

primrec nullable :: "rex \<Rightarrow> bool" where
  "nullable RNone = False"
| "nullable REps = True"
| "nullable (RSet cs) = False"
| "nullable RAny = False"
| "nullable (RSeq a b) = (nullable a \<and> nullable b)"
| "nullable (RAlt a b) = (nullable a \<or> nullable b)"
| "nullable (RPlus a) = nullable a"

definition seq_of :: "rex \<Rightarrow> rex \<Rightarrow> rex" where
  "seq_of a b = (case a of RNone \<Rightarrow> RNone | REps \<Rightarrow> b | _ \<Rightarrow> RSeq a b)"

definition alt_of :: "rex \<Rightarrow> rex \<Rightarrow> rex" where
  "alt_of a b = (case a of RNone \<Rightarrow> b | _ \<Rightarrow> (case b of RNone \<Rightarrow> a | _ \<Rightarrow> RAlt a b))"

primrec deriv :: "char \<Rightarrow> rex \<Rightarrow> rex" where
  "deriv c RNone = RNone"
| "deriv c REps = RNone"
| "deriv c (RSet cs) = (if fold_case c \<in> set (map fold_case cs) then REps else RNone)"
| "deriv c RAny = (if line_end c then RNone else REps)"
| "deriv c (RSeq a b) = alt_of (seq_of (deriv c a) b) (if nullable a then deriv c b else RNone)"
| "deriv c (RAlt a b) = alt_of (deriv c a) (deriv c b)"
| "deriv c (RPlus a) = (let d = deriv c a in alt_of d (seq_of d (RPlus a)))"

text \<open>A match that starts at the beginning of the text, and \<open>RegExp.test\<close>, a match anywhere.\<close>

fun matches_prefix :: "rex \<Rightarrow> string \<Rightarrow> bool" where
  "matches_prefix r [] = nullable r"
| "matches_prefix r (c # s) = (nullable r \<or> matches_prefix (deriv c r) s)"

fun rex_test :: "rex \<Rightarrow> string \<Rightarrow> bool" where
  "rex_test r [] = matches_prefix r []"
| "rex_test r (c # s) = (matches_prefix r (c # s) \<or> rex_test r s)"

section \<open>Mobile devices\<close>

definition mobile_words :: rex where
  "mobile_words =
     ralts [rseqs [ralts [lit ''android'', rseqs [lit ''bb'', RPlus (RSet ''0123456789'')], lit ''meego''],
     RPlus (RAny), lit ''mobile''], lit ''avantgo'', lit ''bada/'', lit ''blackberry'', lit ''blazer'',
     lit ''compal'', lit ''elaine'', lit ''fennec'', lit ''hiptop'', lit ''iemobile'', rseqs [lit ''ip'',
     ralts [lit ''hone'', lit ''od'']], lit ''ipad'', lit ''iris'', lit ''kindle'', lit ''Android'', lit ''Silk'',
     lit ''lge '', lit ''maemo'', lit ''midp'', lit ''mmp'', lit ''netfront'', rseqs [lit ''opera m'',
     ralts [lit ''ob'', lit ''in''], lit ''i''], rseqs [lit ''palm'', ropt (lit '' os'')], lit ''phone'',
     rseqs [lit ''p'', ralts [lit ''ixi'', lit ''re''], lit ''/''], lit ''plucker'', lit ''pocket'', lit ''psp'',
     rseqs [lit ''series'', ralts [lit ''4'', lit ''6''], lit ''0''], lit ''symbian'', lit ''treo'',
     rseqs [lit ''up.'', ralts [lit ''browser'', lit ''link'']], lit ''vodafone'', lit ''wap'',
     rseqs [lit ''windows '', ralts [lit ''ce'', lit ''phone'']], lit ''xda'', lit ''xiino'']"

definition mobile_prefixes :: rex where
  "mobile_prefixes =
     ralts [lit ''1207'', lit ''6310'', lit ''6590'', lit ''3gso'', lit ''4thp'', rseqs [lit ''50'', RSet ''123456'',
     lit ''i''], lit ''770s'', lit ''802s'', lit ''a wa'', lit ''abac'', rseqs [lit ''ac'', ralts [lit ''er'',
     lit ''oo'', lit ''s-'']], rseqs [lit ''ai'', ralts [lit ''ko'', lit ''rn'']], rseqs [lit ''al'',
     ralts [lit ''av'', lit ''ca'', lit ''co'']], lit ''amoi'', rseqs [lit ''an'', ralts [lit ''ex'', lit ''ny'',
     lit ''yw'']], lit ''aptu'', rseqs [lit ''ar'', ralts [lit ''ch'', lit ''go'']], rseqs [lit ''as'',
     ralts [lit ''te'', lit ''us'']], lit ''attw'', rseqs [lit ''au'', ralts [lit ''di'', lit ''-m'', lit ''r '',
     lit ''s '']], lit ''avan'', rseqs [lit ''be'', ralts [lit ''ck'', lit ''ll'', lit ''nq'']], rseqs [lit ''bi'',
     ralts [lit ''lb'', lit ''rd'']], rseqs [lit ''bl'', ralts [lit ''ac'', lit ''az'']], rseqs [lit ''br'',
     ralts [lit ''e'', lit ''v''], lit ''w''], lit ''bumb'', rseqs [lit ''bw-'', ralts [lit ''n'', lit ''u'']],
     lit ''c55/'', lit ''capi'', lit ''ccwa'', lit ''cdm-'', lit ''cell'', lit ''chtm'', lit ''cldc'', lit ''cmd-'',
     rseqs [lit ''co'', ralts [lit ''mp'', lit ''nd'']], lit ''craw'', rseqs [lit ''da'', ralts [lit ''it'',
     lit ''ll'', lit ''ng'']], lit ''dbte'', lit ''dc-s'', lit ''devi'', lit ''dica'', lit ''dmob'',
     rseqs [lit ''do'', ralts [lit ''c'', lit ''p''], lit ''o''], rseqs [lit ''ds'', ralts [lit ''12'', lit ''-d'']],
     rseqs [lit ''el'', ralts [lit ''49'', lit ''ai'']], rseqs [lit ''em'', ralts [lit ''l2'', lit ''ul'']],
     rseqs [lit ''er'', ralts [lit ''ic'', lit ''k0'']], lit ''esl8'', rseqs [lit ''ez'', ralts [rseqs [RSet ''4567'',
     lit ''0''], lit ''os'', lit ''wa'', lit ''ze'']], lit ''fetc'', rseqs [lit ''fly'', ralts [lit ''-'',
     lit ''_'']], lit ''g1 u'', lit ''g560'', lit ''gene'', lit ''gf-5'', lit ''g-mo'', rseqs [lit ''go'',
     ralts [lit ''.w'', lit ''od'']], rseqs [lit ''gr'', ralts [lit ''ad'', lit ''un'']], lit ''haie'', lit ''hcit'',
     rseqs [lit ''hd-'', ralts [lit ''m'', lit ''p'', lit ''t'']], lit ''hei-'', rseqs [lit ''hi'', ralts [lit ''pt'',
     lit ''ta'']], rseqs [lit ''hp'', ralts [lit '' i'', lit ''ip'']], lit ''hs-c'', rseqs [lit ''ht'',
     ralts [rseqs [lit ''c'', ralts [lit ''-'', lit '' '', lit ''_'', lit ''a'', lit ''g'', lit ''p'', lit ''s'',
     lit ''t'']], lit ''tp'']], rseqs [lit ''hu'', ralts [lit ''aw'', lit ''tc'']], rseqs [lit ''i-'',
     ralts [lit ''20'', lit ''go'', lit ''ma'']], lit ''i230'', rseqs [lit ''iac'', ralts [lit '' '', lit ''-'',
     lit ''/'']], lit ''ibro'', lit ''idea'', lit ''ig01'', lit ''ikom'', lit ''im1k'', lit ''inno'', lit ''ipaq'',
     lit ''iris'', rseqs [lit ''ja'', ralts [lit ''t'', lit ''v''], lit ''a''], lit ''jbro'', lit ''jemu'',
     lit ''jigs'', lit ''kddi'', lit ''keji'', rseqs [lit ''kgt'', ralts [lit '' '', lit ''/'']], lit ''klon'',
     lit ''kpt '', lit ''kwc-'', rseqs [lit ''kyo'', ralts [lit ''c'', lit ''k'']], rseqs [lit ''le'',
     ralts [lit ''no'', lit ''xi'']], rseqs [lit ''lg'', ralts [lit '' g'', rseqs [lit ''/'', ralts [lit ''k'',
     lit ''l'', lit ''u'']], lit ''50'', lit ''54'', rseqs [lit ''-'', RSet ''abcdefghijklmnopqrstuvw'']]],
     lit ''libw'', lit ''lynx'', lit ''m1-w'', lit ''m3ga'', lit ''m50/'', rseqs [lit ''ma'', ralts [lit ''te'',
     lit ''ui'', lit ''xo'']], rseqs [lit ''mc'', ralts [lit ''01'', lit ''21'', lit ''ca'']], lit ''m-cr'',
     rseqs [lit ''me'', ralts [lit ''rc'', lit ''ri'']], rseqs [lit ''mi'', ralts [lit ''o8'', lit ''oa'',
     lit ''ts'']], lit ''mmef'', rseqs [lit ''mo'', ralts [lit ''01'', lit ''02'', lit ''bi'', lit ''de'', lit ''do'',
     rseqs [lit ''t'', ralts [lit ''-'', lit '' '', lit ''o'', lit ''v'']], lit ''zz'']], rseqs [lit ''mt'',
     ralts [lit ''50'', lit ''p1'', lit ''v '']], lit ''mwbp'', lit ''mywa'', rseqs [lit ''n10'', RSet ''012''],
     rseqs [lit ''n20'', RSet ''23''], rseqs [lit ''n30'', ralts [lit ''0'', lit ''2'']], rseqs [lit ''n50'',
     ralts [lit ''0'', lit ''2'', lit ''5'']], rseqs [lit ''n7'', ralts [rseqs [lit ''0'', ralts [lit ''0'',
     lit ''1'']], lit ''10'']], rseqs [lit ''ne'', ralts [rseqs [ralts [lit ''c'', lit ''m''], lit ''-''], lit ''on'',
     lit ''tf'', lit ''wf'', lit ''wg'', lit ''wt'']], rseqs [lit ''nok'', ralts [lit ''6'', lit ''i'']],
     lit ''nzph'', lit ''o2im'', rseqs [lit ''op'', ralts [lit ''ti'', lit ''wv'']], lit ''oran'', lit ''owg1'',
     lit ''p800'', rseqs [lit ''pan'', ralts [lit ''a'', lit ''d'', lit ''t'']], lit ''pdxg'', rseqs [lit ''pg'',
     ralts [lit ''13'', rseqs [lit ''-'', ralts [RSet ''12345678'', lit ''c'']]]], lit ''phil'', lit ''pire'',
     rseqs [lit ''pl'', ralts [lit ''ay'', lit ''uc'']], lit ''pn-2'', rseqs [lit ''po'', ralts [lit ''ck'',
     lit ''rt'', lit ''se'']], lit ''prox'', lit ''psio'', lit ''pt-g'', lit ''qa-a'', rseqs [lit ''qc'',
     ralts [lit ''07'', lit ''12'', lit ''21'', lit ''32'', lit ''60'', rseqs [lit ''-'', RSet ''234567''],
     lit ''i-'']], lit ''qtek'', lit ''r380'', lit ''r600'', lit ''raks'', lit ''rim9'', rseqs [lit ''ro'',
     ralts [lit ''ve'', lit ''zo'']], lit ''s55/'', rseqs [lit ''sa'', ralts [lit ''ge'', lit ''ma'', lit ''mm'',
     lit ''ms'', lit ''ny'', lit ''va'']], rseqs [lit ''sc'', ralts [lit ''01'', lit ''h-'', lit ''oo'', lit ''p-'']],
     lit ''sdk/'', rseqs [lit ''se'', ralts [rseqs [lit ''c'', ralts [lit ''-'', lit ''0'', lit ''1'']], lit ''47'',
     lit ''mc'', lit ''nd'', lit ''ri'']], lit ''sgh-'', lit ''shar'', rseqs [lit ''sie'', ralts [lit ''-'',
     lit ''m'']], lit ''sk-0'', rseqs [lit ''sl'', ralts [lit ''45'', lit ''id'']], rseqs [lit ''sm'',
     ralts [lit ''al'', lit ''ar'', lit ''b3'', lit ''it'', lit ''t5'']], rseqs [lit ''so'', ralts [lit ''ft'',
     lit ''ny'']], rseqs [lit ''sp'', ralts [lit ''01'', lit ''h-'', lit ''v-'', lit ''v '']], rseqs [lit ''sy'',
     ralts [lit ''01'', lit ''mb'']], rseqs [lit ''t2'', ralts [lit ''18'', lit ''50'']], rseqs [lit ''t6'',
     ralts [lit ''00'', lit ''10'', lit ''18'']], rseqs [lit ''ta'', ralts [lit ''gt'', lit ''lk'']], lit ''tcl-'',
     lit ''tdg-'', rseqs [lit ''tel'', ralts [lit ''i'', lit ''m'']], lit ''tim-'', lit ''t-mo'', rseqs [lit ''to'',
     ralts [lit ''pl'', lit ''sh'']], rseqs [lit ''ts'', ralts [lit ''70'', lit ''m-'', lit ''m3'', lit ''m5'']],
     lit ''tx-9'', rseqs [lit ''up'', ralts [lit ''.b'', lit ''g1'', lit ''si'']], lit ''utst'', lit ''v400'',
     lit ''v750'', lit ''veri'', rseqs [lit ''vi'', ralts [lit ''rg'', lit ''te'']], rseqs [lit ''vk'',
     ralts [lit ''40'', rseqs [lit ''5'', RSet ''0123''], lit ''-v'']], lit ''vm40'', lit ''voda'', lit ''vulc'',
     rseqs [lit ''vx'', ralts [lit ''52'', lit ''53'', lit ''60'', lit ''61'', lit ''70'', lit ''80'', lit ''81'',
     lit ''83'', lit ''85'', lit ''98'']], rseqs [lit ''w3c'', ralts [lit ''-'', lit '' '']], lit ''webc'',
     lit ''whit'', rseqs [lit ''wi'', ralts [lit ''g '', lit ''nc'', lit ''nw'']], lit ''wmlb'', lit ''wonu'',
     lit ''x700'', lit ''yas-'', lit ''your'', lit ''zeto'', lit ''zte-'']"

definition isMobile :: "string \<Rightarrow> bool" where
  "isMobile userAgent \<longleftrightarrow> rex_test mobile_words userAgent \<or> rex_test mobile_prefixes (take 4 userAgent)"

definition isDesktop :: "string \<Rightarrow> bool" where
  "isDesktop userAgent \<longleftrightarrow> \<not> isMobile userAgent"

section \<open>The tests are matches\<close>

lemma nullable_lang: "nullable r \<longleftrightarrow> [] \<in> lang r"
proof (induction r)
  case (RPlus a)
  show ?case
  proof
    assume "nullable (RPlus a)"
    then have "[] = concat [[]] \<and> [[]] \<noteq> [] \<and> set [[]] \<subseteq> lang a" using RPlus by simp
    then show "[] \<in> lang (RPlus a)" unfolding lang.simps by blast
  next
    assume "[] \<in> lang (RPlus a)"
    then obtain us where "concat us = []" "us \<noteq> []" "set us \<subseteq> lang a" by (auto simp: eq_commute)
    then show "nullable (RPlus a)" using RPlus by (cases us) auto
  qed
qed auto

lemma lang_seq_of [simp]: "lang (seq_of a b) = lang (RSeq a b)"
  by (auto simp: seq_of_def split: rex.split)

lemma lang_alt_of [simp]: "lang (alt_of a b) = lang (RAlt a b)"
  by (auto simp: alt_of_def split: rex.split)

text \<open>A repetition begins with its first non-empty round.\<close>

lemma plus_first:
  "concat us = c # s \<Longrightarrow> set us \<subseteq> L \<Longrightarrow>
    \<exists>u vs. c # u \<in> L \<and> set vs \<subseteq> L \<and> s = u @ concat vs"
proof (induction us)
  case (Cons x xs)
  show ?case
  proof (cases x)
    case Nil
    with Cons show ?thesis by simp
  next
    case (Cons d u)
    then have "c # u \<in> L \<and> set xs \<subseteq> L \<and> s = u @ concat xs" using Cons.prems by simp
    then show ?thesis by blast
  qed
qed simp

lemma plus_unfold: "lang (RPlus a) = lang a \<union> lang (RSeq a (RPlus a))"
proof (intro equalityI subsetI)
  fix s assume "s \<in> lang (RPlus a)"
  then obtain us where us: "s = concat us" "us \<noteq> []" "set us \<subseteq> lang a" by auto
  then obtain x xs where "us = x # xs" by (cases us) auto
  with us show "s \<in> lang a \<union> lang (RSeq a (RPlus a))" by (cases "xs = []") auto
next
  fix s assume "s \<in> lang a \<union> lang (RSeq a (RPlus a))"
  then consider "s \<in> lang a" | x us where "s = x @ concat us" "x \<in> lang a" "us \<noteq> []" "set us \<subseteq> lang a" by auto
  then show "s \<in> lang (RPlus a)"
  proof cases
    case 1
    then have "s = concat [s] \<and> [s] \<noteq> [] \<and> set [s] \<subseteq> lang a" by simp
    then show ?thesis unfolding lang.simps by blast
  next
    case (2 x us)
    then have "s = concat (x # us) \<and> x # us \<noteq> [] \<and> set (x # us) \<subseteq> lang a" by simp
    then show ?thesis unfolding lang.simps by blast
  qed
qed

lemma lang_deriv: "s \<in> lang (deriv c r) \<longleftrightarrow> c # s \<in> lang r"
proof (induction r arbitrary: s)
  case (RSeq a b)
  have "c # s \<in> lang (RSeq a b) \<longleftrightarrow> (\<exists>u v. s = u @ v \<and> c # u \<in> lang a \<and> v \<in> lang b) \<or> ([] \<in> lang a \<and> c # s \<in> lang b)"
    by (auto simp: Cons_eq_append_conv)
  then show ?case by (auto simp: RSeq nullable_lang)
next
  case (RPlus a)
  have "c # s \<in> lang (RPlus a) \<longleftrightarrow> c # s \<in> lang a \<or> (\<exists>u v. s = u @ v \<and> c # u \<in> lang a \<and> v \<in> lang (RPlus a))"
  proof
    assume "c # s \<in> lang (RPlus a)"
    then obtain us where us: "concat us = c # s" "set us \<subseteq> lang a" by (auto simp: eq_commute)
    obtain u vs where uv: "c # u \<in> lang a" "set vs \<subseteq> lang a" "s = u @ concat vs" using plus_first [OF us] by blast
    then show "c # s \<in> lang a \<or> (\<exists>u v. s = u @ v \<and> c # u \<in> lang a \<and> v \<in> lang (RPlus a))"
      by (cases "vs = []") auto
  next
    assume "c # s \<in> lang a \<or> (\<exists>u v. s = u @ v \<and> c # u \<in> lang a \<and> v \<in> lang (RPlus a))"
    then consider "c # s \<in> lang a" | u v where "c # s = (c # u) @ v" "c # u \<in> lang a" "v \<in> lang (RPlus a)" by force
    then have "c # s \<in> lang a \<union> lang (RSeq a (RPlus a))"
    proof cases
      case (2 u v)
      then show ?thesis unfolding lang.simps(5) by blast
    qed blast
    then show "c # s \<in> lang (RPlus a)" unfolding plus_unfold .
  qed
  then show ?case by (auto simp: RPlus Let_def simp del: lang.simps(7))
qed auto

lemma matches_prefix_lang: "matches_prefix r s \<longleftrightarrow> (\<exists>v w. s = v @ w \<and> v \<in> lang r)"
proof (induction r s rule: matches_prefix.induct)
  case (2 r c s)
  have "(\<exists>v w. c # s = v @ w \<and> v \<in> lang r) \<longleftrightarrow> [] \<in> lang r \<or> (\<exists>v w. s = v @ w \<and> c # v \<in> lang r)"
    by (auto simp: Cons_eq_append_conv)
  then show ?case using 2 by (simp add: nullable_lang lang_deriv)
qed (simp add: nullable_lang)

lemma rex_test_lang: "rex_test r s \<longleftrightarrow> (\<exists>u v w. s = u @ v @ w \<and> v \<in> lang r)"
proof (induction r s rule: rex_test.induct)
  case (2 r c s)
  have "(\<exists>u v w. c # s = u @ v @ w \<and> v \<in> lang r) \<longleftrightarrow> matches_prefix r (c # s) \<or> (\<exists>u v w. s = u @ v @ w \<and> v \<in> lang r)"
  proof
    assume "\<exists>u v w. c # s = u @ v @ w \<and> v \<in> lang r"
    then obtain u v w where uvw: "c # s = u @ v @ w" "v \<in> lang r" by blast
    then show "matches_prefix r (c # s) \<or> (\<exists>u v w. s = u @ v @ w \<and> v \<in> lang r)"
      unfolding matches_prefix_lang by (cases u) auto
  next
    assume "matches_prefix r (c # s) \<or> (\<exists>u v w. s = u @ v @ w \<and> v \<in> lang r)"
    then show "\<exists>u v w. c # s = u @ v @ w \<and> v \<in> lang r"
      unfolding matches_prefix_lang by (metis append_Cons append_Nil)
  qed
  then show ?case using 2 by simp
qed (simp add: nullable_lang)


section \<open>The video decoder\<close>

text \<open>
  \<open>loadVp9\<close> of \<open>helpers/codec.js\<close>: the detection of SIMD, the loading of the class, the creation of
  the decoder and its initialisation each end with an event.  A rejected promise is reported nowhere.
\<close>

datatype 'd vp9_phase = Detecting | LoadingClass | CreatingDecoder | Initialising 'd | DecoderReady | DecoderLost

datatype 'd vp9_event = SimdDetected "unknown + bool" | ClassLoaded | DecoderCreated "unknown + 'd" | DecoderInitialised

text \<open>\<open>v9_class\<close>: \<open>window.videoCodecClass\<close> is set; \<open>v9_calls\<close>: the calls of the callback.\<close>

record 'd vp9_loader =
  v9_phase :: "'d vp9_phase"
  v9_class :: bool
  v9_calls :: "'d list"

definition loadVp9 :: "'d vp9_loader" where
  "loadVp9 = \<lparr>v9_phase = Detecting, v9_class = False, v9_calls = []\<rparr>"

fun vp9_step :: "'d vp9_event \<Rightarrow> 'd vp9_loader \<Rightarrow> 'd vp9_loader" where
  "vp9_step (SimdDetected r) l =
     (case v9_phase l of
        Detecting \<Rightarrow> (case r of Inl e \<Rightarrow> l\<lparr>v9_phase := DecoderLost\<rparr> | Inr isSIMD \<Rightarrow> l\<lparr>v9_phase := LoadingClass\<rparr>)
      | _ \<Rightarrow> l)"
| "vp9_step ClassLoaded l =
     (case v9_phase l of LoadingClass \<Rightarrow> l\<lparr>v9_class := True, v9_phase := CreatingDecoder\<rparr> | _ \<Rightarrow> l)"
| "vp9_step (DecoderCreated r) l =
     (case v9_phase l of
        CreatingDecoder \<Rightarrow> (case r of Inl e \<Rightarrow> l\<lparr>v9_phase := DecoderLost\<rparr> | Inr d \<Rightarrow> l\<lparr>v9_phase := Initialising d\<rparr>)
      | _ \<Rightarrow> l)"
| "vp9_step DecoderInitialised l =
     (case v9_phase l of Initialising d \<Rightarrow> l\<lparr>v9_phase := DecoderReady, v9_calls := v9_calls l @ [d]\<rparr> | _ \<Rightarrow> l)"

text \<open>The callback is called at most once, with a decoder that was created and initialised.\<close>

definition vp9_inv :: "'d vp9_event list \<Rightarrow> 'd vp9_loader \<Rightarrow> bool" where
  "vp9_inv es l \<longleftrightarrow>
     (case v9_phase l of
        Initialising d \<Rightarrow> v9_class l \<and> v9_calls l = [] \<and> DecoderCreated (Inr d) \<in> set es
      | DecoderReady \<Rightarrow> v9_class l \<and> DecoderInitialised \<in> set es \<and> (\<exists>d. v9_calls l = [d] \<and> DecoderCreated (Inr d) \<in> set es)
      | CreatingDecoder \<Rightarrow> v9_class l \<and> v9_calls l = []
      | _ \<Rightarrow> v9_calls l = [])"

lemma vp9_step_inv: "vp9_inv es l \<Longrightarrow> vp9_inv (es @ [x]) (vp9_step x l)"
  by (cases x; cases "v9_phase l") (auto simp: vp9_inv_def split: sum.split)

lemma vp9_runs_inv: "vp9_inv es (fold vp9_step es loadVp9)"
  by (induction es rule: rev_induct) (simp_all add: vp9_step_inv, simp add: vp9_inv_def loadVp9_def)

lemma loadVp9_calls_back_once:
  "v9_calls (fold vp9_step es loadVp9) = []
   \<or> (\<exists>d. v9_calls (fold vp9_step es loadVp9) = [d] \<and> DecoderCreated (Inr d) \<in> set es \<and> DecoderInitialised \<in> set es)"
  using vp9_runs_inv [of es] by (auto simp: vp9_inv_def split: vp9_phase.splits)

section \<open>The clipboard\<close>

text \<open>The document: the text areas in its body, the selected one, and what was copied last.\<close>

record document =
  doc_nodes :: "(nat \<times> string) list"
  doc_next :: nat
  doc_selected :: "nat option"
  doc_clipboard :: string

text \<open>
  \<open>setData\<close> is \<open>window.clipboardData.setData\<close> where it exists, \<open>copySupported\<close> what
  \<open>queryCommandSupported\<close> answers.  \<open>removeChild\<close> throws if the node is gone.
\<close>

definition copyToClipboard ::
    "(string \<Rightarrow> document \<Rightarrow> bool \<times> document) option \<Rightarrow> bool \<Rightarrow> (document \<Rightarrow> (unknown + bool) \<times> document)
       \<Rightarrow> string \<Rightarrow> document \<Rightarrow> (unknown + bool option) \<times> document" where
  "copyToClipboard setData copySupported execCommand text0 d =
     (case setData of
        Some f \<Rightarrow> (let (r, d') = f text0 d in (Inr (Some r), d'))
      | None \<Rightarrow>
          (if \<not> copySupported then (Inr None, d)
           else (let textarea = doc_next d;
                     d1 = d\<lparr>doc_nodes := doc_nodes d @ [(textarea, text0)], doc_next := textarea + 1, doc_selected := Some textarea\<rparr>;
                     (r, d2) = execCommand d1;
                     ret = (case r of Inl ex \<Rightarrow> None | Inr b \<Rightarrow> Some b)
                 in if textarea \<in> fst ` set (doc_nodes d2)
                    then (Inr ret, d2\<lparr>doc_nodes := filter (\<lambda>n. fst n \<noteq> textarea) (doc_nodes d2)\<rparr>)
                    else (Inl (UError ''NotFoundError'' ''The node to be removed is not a child of this node.''), d2))))"

text \<open>Whether the command succeeds, fails or throws, the body is left as it was found.\<close>

lemma copyToClipboard_restores:
  assumes "\<forall>n \<in> set (doc_nodes d). fst n < doc_next d"
    and "\<And>d1. doc_nodes (snd (execCommand d1)) = doc_nodes d1"
  shows "doc_nodes (snd (copyToClipboard None copySupported execCommand t d)) = doc_nodes d
    \<and> (\<exists>r. fst (copyToClipboard None copySupported execCommand t d) = Inr r)"
proof -
  have keep: "filter (\<lambda>n. fst n \<noteq> doc_next d) (doc_nodes d) = doc_nodes d"
    using assms(1) by (auto intro!: filter_True)
  show ?thesis
    using assms(2) [of "d\<lparr>doc_nodes := doc_nodes d @ [(doc_next d, t)], doc_next := doc_next d + 1, doc_selected := Some (doc_next d)\<rparr>"] keep
    by (auto simp: copyToClipboard_def Let_def split: prod.split)
qed

end
