(* ===== verification/Yuv_Worker.thy ===== *)
theory Yuv_Worker
  imports Ycbcr
begin

text \<open>
  \<open>flutter/web/yuv.js\<close>: a worker that converts frames with a WebAssembly module.  It keeps four blocks
  of the module's memory, for the three planes and the picture, and replaces one only when its size
  changes.  The module is the parameter \<open>X\<close>; the clock and the speed test, which only log, are left
  out.
\<close>

section \<open>State\<close>

text \<open>
  What the module exports: its memory, with the identity of \<open>memory.buffer\<close>, which is another one
  after the memory has grown, and its functions.
\<close>

record 'm wasm =
  wa_malloc :: "nat \<Rightarrow> 'm \<Rightarrow> nat \<times> 'm"
  wa_free :: "nat \<Rightarrow> 'm \<Rightarrow> 'm"
  wa_memory :: "'m \<Rightarrow> bytes"
  wa_buffer :: "'m \<Rightarrow> nat"
  wa_store :: "nat \<Rightarrow> bytes \<Rightarrow> 'm \<Rightarrow> 'm"
  wa_convert :: "nat \<Rightarrow> nat \<Rightarrow> nat \<Rightarrow> nat \<Rightarrow> nat \<Rightarrow> nat \<Rightarrow> nat \<Rightarrow> nat \<Rightarrow> nat \<Rightarrow> 'm \<Rightarrow> 'm"

text \<open>A pointer with its length, \<open>yPtr\<close> and \<open>yPtrLen\<close> for instance; \<open>None\<close> is undefined.\<close>

record slot =
  sl_ptr :: "nat option"
  sl_len :: "nat option"

definition no_slot :: slot where
  "no_slot = \<lparr>sl_ptr = None, sl_len = None\<rparr>"

record 'm heap =
  hp_y :: slot
  hp_u :: slot
  hp_v :: slot
  hp_out :: slot
  hp_module :: 'm

text \<open>\<open>wk_ready\<close>: \<open>wasmExports\<close> is set; \<open>wk_running\<close>: the next call of \<open>run\<close> is scheduled.\<close>

record 'm worker =
  wk_ready :: bool
  wk_heap :: "'m heap"
  wk_currentFrame :: "frame option"
  wk_running :: bool
  wk_posted :: "bytes option list"

definition new_worker :: "'m \<Rightarrow> 'm worker" where
  "new_worker m = \<lparr>wk_ready = False, wk_heap = \<lparr>hp_y = no_slot, hp_u = no_slot, hp_v = no_slot, hp_out = no_slot, hp_module = m\<rparr>,
     wk_currentFrame = None, wk_running = True, wk_posted = []\<rparr>"

section \<open>Blocks of memory\<close>

definition fit_slot :: "'m wasm \<Rightarrow> nat \<Rightarrow> slot \<Rightarrow> 'm \<Rightarrow> slot \<times> 'm" where
  "fit_slot X n sl m =
     (if sl_len sl \<noteq> Some n
      then (let m1 = (case sl_ptr sl of None \<Rightarrow> m | Some p \<Rightarrow> if p \<noteq> 0 then wa_free X p m else m);
                (p, m2) = wa_malloc X n m1
            in (\<lparr>sl_ptr = Some p, sl_len = Some n\<rparr>, m2))
      else (sl, m))"

text \<open>
  \<open>HEAPU8.set\<close> and \<open>HEAPU8.fill\<close> through the view \<open>view\<close> of the buffer that was current when the
  call began: a view of a buffer that is gone throws.
\<close>

definition view_set :: "'m wasm \<Rightarrow> nat \<Rightarrow> bytes \<Rightarrow> nat \<Rightarrow> 'm \<Rightarrow> unknown + 'm" where
  "view_set X view b p m =
     (if wa_buffer X m \<noteq> view then Inl (UError ''TypeError'' ''Cannot perform %TypedArray%.prototype.set on a detached ArrayBuffer'')
      else if p + length b \<le> length (wa_memory X m) then Inr (wa_store X p b m)
      else Inl (UError ''RangeError'' ''offset is out of bounds''))"

definition view_fill :: "'m wasm \<Rightarrow> nat \<Rightarrow> nat \<Rightarrow> nat \<Rightarrow> 'm \<Rightarrow> unknown + 'm" where
  "view_fill X view p n m =
     (if wa_buffer X m \<noteq> view then Inl (UError ''TypeError'' ''Cannot perform %TypedArray%.prototype.fill on a detached ArrayBuffer'')
      else let e = min (p + n) (length (wa_memory X m)) in Inr (wa_store X p (replicate (e - p) 255) m))"

definition put_plane :: "'m wasm \<Rightarrow> nat \<Rightarrow> bytes \<Rightarrow> slot \<Rightarrow> 'm \<Rightarrow> slot \<times> 'm \<times> unknown option" where
  "put_plane X view b sl m =
     (let (sl1, m1) = fit_slot X (length b) sl m
      in case view_set X view b (nullish (sl_ptr sl1) 0) m1 of
           Inl e \<Rightarrow> (sl1, m1, Some e)
         | Inr m2 \<Rightarrow> (sl1, m2, None))"

definition fit_picture :: "'m wasm \<Rightarrow> nat \<Rightarrow> nat \<Rightarrow> slot \<Rightarrow> 'm \<Rightarrow> slot \<times> 'm \<times> unknown option" where
  "fit_picture X view n sl m =
     (if sl_len sl \<noteq> Some n
      then (let (sl1, m1) = fit_slot X n sl m
            in case view_fill X view (nullish (sl_ptr sl1) 0) n m1 of
                 Inl e \<Rightarrow> (sl1, m1, Some e)
               | Inr m2 \<Rightarrow> (sl1, m2, None))
      else (sl, m, None))"

section \<open>A frame\<close>

definition I420ToARGB :: "'m wasm \<Rightarrow> frame \<Rightarrow> 'm heap \<Rightarrow> (unknown + bytes) \<times> 'm heap" where
  "I420ToARGB X yb h =
     (let view = wa_buffer X (hp_module h);
          (sy, m1, e1) = put_plane X view (pl_bytes (fr_y yb)) (hp_y h) (hp_module h);
          h1 = h\<lparr>hp_y := sy, hp_module := m1\<rparr>
      in case e1 of Some e \<Rightarrow> (Inl e, h1) | None \<Rightarrow>
     (let (su, m2, e2) = put_plane X view (pl_bytes (fr_u yb)) (hp_u h) m1;
          h2 = h1\<lparr>hp_u := su, hp_module := m2\<rparr>
      in case e2 of Some e \<Rightarrow> (Inl e, h2) | None \<Rightarrow>
     (let (sv, m3, e3) = put_plane X view (pl_bytes (fr_v yb)) (hp_v h) m2;
          h3 = h2\<lparr>hp_v := sv, hp_module := m3\<rparr>
      in case e3 of Some e \<Rightarrow> (Inl e, h3) | None \<Rightarrow>
     (let w = vf_displayWidth (fr_format yb);
          hh = vf_displayHeight (fr_format yb);
          n = w * hh * 4;
          (so, m4, e4) = fit_picture X view n (hp_out h) m3;
          h4 = h3\<lparr>hp_out := so, hp_module := m4\<rparr>
      in case e4 of Some e \<Rightarrow> (Inl e, h4) | None \<Rightarrow>
     (let outPtr = nullish (sl_ptr so) 0;
          m5 = wa_convert X w hh (nullish (sl_ptr sy) 0) (nullish (sl_ptr su) 0) (nullish (sl_ptr sv) 0)
                 (pl_stride (fr_y yb)) (pl_stride (fr_v yb)) outPtr (w * 4) m4;
          h5 = h4\<lparr>hp_module := m5\<rparr>
      in if wa_buffer X m5 \<noteq> view
         then (Inl (UError ''TypeError'' ''Cannot perform %TypedArray%.prototype.slice on a detached ArrayBuffer''), h5)
         else (Inr (take n (drop outPtr (wa_memory X m5))), h5))))))"

section \<open>The worker\<close>

definition worker_message :: "frame \<Rightarrow> 'm worker \<Rightarrow> 'm worker" where
  "worker_message f wk = wk\<lparr>wk_currentFrame := Some f\<rparr>"

text \<open>The timer fires; an exception leaves \<open>run\<close> before it schedules itself again.\<close>

definition run :: "'m wasm \<Rightarrow> 'm worker \<Rightarrow> 'm worker" where
  "run X wk =
     (if \<not> wk_running wk then wk
      else case wk_currentFrame wk of
        None \<Rightarrow> wk
      | Some f \<Rightarrow>
          (if \<not> wk_ready wk then wk\<lparr>wk_posted := wk_posted wk @ [None], wk_currentFrame := None\<rparr>
           else (case I420ToARGB X f (wk_heap wk) of
                   (Inl e, h) \<Rightarrow> wk\<lparr>wk_heap := h, wk_running := False\<rparr>
                 | (Inr out, h) \<Rightarrow> wk\<lparr>wk_heap := h, wk_posted := wk_posted wk @ [Some out], wk_currentFrame := None\<rparr>)))"

datatype worker_event = WasmReady | FrameMessage frame | Timer

fun worker_step :: "'m wasm \<Rightarrow> worker_event \<Rightarrow> 'm worker \<Rightarrow> 'm worker" where
  "worker_step X WasmReady wk = wk\<lparr>wk_ready := True\<rparr>"
| "worker_step X (FrameMessage f) wk = worker_message f wk"
| "worker_step X Timer wk = run X wk"

section \<open>The blocks are accounted for\<close>

text \<open>
  What the module's allocator does, with \<open>live\<close> the blocks that are allocated: \<open>malloc\<close> returns a new
  block or 0, \<open>free\<close> gives back the block that begins at the pointer, and nothing else changes them.
  The memory may grow at any allocation.
\<close>

definition allocator_laws :: "'m wasm \<Rightarrow> ('m \<Rightarrow> (nat \<times> nat) set) \<Rightarrow> bool" where
  "allocator_laws X live \<longleftrightarrow>
     (\<forall>n m p m'. wa_malloc X n m = (p, m') \<longrightarrow>
        (if p = 0 then live m' = live m else p \<notin> fst ` live m \<and> live m' = insert (p, n) (live m)))
   \<and> (\<forall>p n m. (p, n) \<in> live m \<longrightarrow> live (wa_free X p m) = live m - {(p, n)})
   \<and> (\<forall>p b m. live (wa_store X p b m) = live m)
   \<and> (\<forall>w h y u v ys vs p s m. live (wa_convert X w h y u v ys vs p s m) = live m)"

text \<open>The block a pointer refers to.\<close>

definition block :: "slot \<Rightarrow> (nat \<times> nat) set" where
  "block sl = (case (sl_ptr sl, sl_len sl) of (Some p, Some n) \<Rightarrow> if p = 0 then {} else {(p, n)} | _ \<Rightarrow> {})"

definition slot_ok :: "slot \<Rightarrow> bool" where
  "slot_ok sl \<longleftrightarrow> (sl_ptr sl = None \<longleftrightarrow> sl_len sl = None)"

definition apart :: "(nat \<times> nat) set \<Rightarrow> (nat \<times> nat) set \<Rightarrow> bool" where
  "apart A B \<longleftrightarrow> fst ` A \<inter> fst ` B = {}"

lemma apart_Un [simp]: "apart (A \<union> B) C \<longleftrightarrow> apart A C \<and> apart B C" "apart C (A \<union> B) \<longleftrightarrow> apart C A \<and> apart C B"
  by (auto simp: apart_def)

lemma apart_sym: "apart A B \<longleftrightarrow> apart B A"
  by (auto simp: apart_def)

lemma fit_slot_blocks:
  assumes laws: "allocator_laws X live" and "slot_ok sl" and "live m = R \<union> block sl" and "apart R (block sl)"
    and fit: "fit_slot X n sl m = (sl', m')"
  shows "slot_ok sl' \<and> live m' = R \<union> block sl' \<and> apart R (block sl')"
proof (cases "sl_len sl = Some n")
  case True
  then show ?thesis using assms by (simp add: fit_slot_def)
next
  case False
  define m1 where "m1 = (case sl_ptr sl of None \<Rightarrow> m | Some p \<Rightarrow> if p \<noteq> 0 then wa_free X p m else m)"
  obtain p where p: "wa_malloc X n m1 = (p, m')" "sl' = \<lparr>sl_ptr = Some p, sl_len = Some n\<rparr>"
    using fit False by (auto simp: fit_slot_def m1_def Let_def split: prod.splits)
  have "live m1 = R"
  proof (cases "block sl = {}")
    case True
    then show ?thesis using assms(2,3) by (auto simp: m1_def block_def slot_ok_def split: option.splits if_splits)
  next
    case False
    then obtain q k where q: "sl_ptr sl = Some q" "sl_len sl = Some k" "q \<noteq> 0" "block sl = {(q, k)}"
      by (auto simp: block_def split: option.splits if_splits)
    moreover have "(q, k) \<in> live m" using assms(3) q(4) by simp
    ultimately have "live m1 = live m - {(q, k)}" using laws unfolding m1_def allocator_laws_def by simp
    moreover have "(q, k) \<notin> R" using assms(4) q(4) by (force simp: apart_def)
    ultimately show ?thesis using assms(3) q(4) by auto
  qed
  then have "if p = 0 then live m' = R else p \<notin> fst ` R \<and> live m' = insert (p, n) R"
    using laws p(1) unfolding allocator_laws_def by metis
  then show ?thesis by (auto simp: p(2) slot_ok_def block_def apart_def split: if_splits)
qed

lemma put_plane_blocks:
  assumes laws: "allocator_laws X live" and "slot_ok sl" and "live m = R \<union> block sl" and "apart R (block sl)"
    and put: "put_plane X view b sl m = (sl', m', e)"
  shows "slot_ok sl' \<and> live m' = R \<union> block sl' \<and> apart R (block sl')"
proof -
  obtain m1 where "fit_slot X (length b) sl m = (sl', m1)" "live m' = live m1"
    using put laws by (auto simp: put_plane_def view_set_def allocator_laws_def Let_def split: prod.splits sum.splits if_splits)
  then show ?thesis using fit_slot_blocks [OF laws assms(2-4)] by simp
qed

lemma fit_picture_blocks:
  assumes laws: "allocator_laws X live" and "slot_ok sl" and "live m = R \<union> block sl" and "apart R (block sl)"
    and fit: "fit_picture X view n sl m = (sl', m', e)"
  shows "slot_ok sl' \<and> live m' = R \<union> block sl' \<and> apart R (block sl')"
proof (cases "sl_len sl = Some n")
  case True
  then show ?thesis using assms by (simp add: fit_picture_def)
next
  case False
  then obtain m1 where "fit_slot X n sl m = (sl', m1)" "live m' = live m1"
    using fit laws by (auto simp: fit_picture_def view_fill_def allocator_laws_def Let_def split: prod.splits sum.splits if_splits)
  then show ?thesis using fit_slot_blocks [OF laws assms(2-4)] by simp
qed

text \<open>The module's own blocks \<open>R\<close> and the four of the worker, which are distinct, are all there are.\<close>

definition heap_ok :: "('m \<Rightarrow> (nat \<times> nat) set) \<Rightarrow> (nat \<times> nat) set \<Rightarrow> 'm heap \<Rightarrow> bool" where
  "heap_ok live R h \<longleftrightarrow>
     live (hp_module h) = R \<union> block (hp_y h) \<union> block (hp_u h) \<union> block (hp_v h) \<union> block (hp_out h)
   \<and> slot_ok (hp_y h) \<and> slot_ok (hp_u h) \<and> slot_ok (hp_v h) \<and> slot_ok (hp_out h)
   \<and> apart R (block (hp_y h) \<union> block (hp_u h) \<union> block (hp_v h) \<union> block (hp_out h))
   \<and> apart (block (hp_y h)) (block (hp_u h) \<union> block (hp_v h) \<union> block (hp_out h))
   \<and> apart (block (hp_u h)) (block (hp_v h) \<union> block (hp_out h)) \<and> apart (block (hp_v h)) (block (hp_out h))"

lemma heap_ok_slots:
  assumes "allocator_laws X live" and "heap_ok live R h"
  shows "put_plane X view b (hp_y h) (hp_module h) = (s, m, e) \<Longrightarrow> heap_ok live R (h\<lparr>hp_y := s, hp_module := m\<rparr>)"
    and "put_plane X view b (hp_u h) (hp_module h) = (s, m, e) \<Longrightarrow> heap_ok live R (h\<lparr>hp_u := s, hp_module := m\<rparr>)"
    and "put_plane X view b (hp_v h) (hp_module h) = (s, m, e) \<Longrightarrow> heap_ok live R (h\<lparr>hp_v := s, hp_module := m\<rparr>)"
    and "fit_picture X view n (hp_out h) (hp_module h) = (s, m, e) \<Longrightarrow> heap_ok live R (h\<lparr>hp_out := s, hp_module := m\<rparr>)"
proof -
  let ?y = "block (hp_y h)" and ?u = "block (hp_u h)" and ?v = "block (hp_v h)" and ?o = "block (hp_out h)"
  note ok = assms(2) [unfolded heap_ok_def]
  have all: "live (hp_module h) = (R \<union> ?u \<union> ?v \<union> ?o) \<union> ?y" "live (hp_module h) = (R \<union> ?y \<union> ?v \<union> ?o) \<union> ?u"
    "live (hp_module h) = (R \<union> ?y \<union> ?u \<union> ?o) \<union> ?v" "live (hp_module h) = (R \<union> ?y \<union> ?u \<union> ?v) \<union> ?o"
    using ok by blast+
  have ap: "apart (R \<union> ?u \<union> ?v \<union> ?o) ?y" "apart (R \<union> ?y \<union> ?v \<union> ?o) ?u" "apart (R \<union> ?y \<union> ?u \<union> ?o) ?v" "apart (R \<union> ?y \<union> ?u \<union> ?v) ?o"
    using ok apart_sym by auto
  show "heap_ok live R (h\<lparr>hp_y := s, hp_module := m\<rparr>)" if "put_plane X view b (hp_y h) (hp_module h) = (s, m, e)"
    using put_plane_blocks [OF assms(1) _ all(1) ap(1) that] ok apart_sym [of "block s"] by (auto simp: heap_ok_def)
  show "heap_ok live R (h\<lparr>hp_u := s, hp_module := m\<rparr>)" if "put_plane X view b (hp_u h) (hp_module h) = (s, m, e)"
    using put_plane_blocks [OF assms(1) _ all(2) ap(2) that] ok apart_sym [of "block s"] by (auto simp: heap_ok_def)
  show "heap_ok live R (h\<lparr>hp_v := s, hp_module := m\<rparr>)" if "put_plane X view b (hp_v h) (hp_module h) = (s, m, e)"
    using put_plane_blocks [OF assms(1) _ all(3) ap(3) that] ok apart_sym [of "block s"] by (auto simp: heap_ok_def)
  show "heap_ok live R (h\<lparr>hp_out := s, hp_module := m\<rparr>)" if "fit_picture X view n (hp_out h) (hp_module h) = (s, m, e)"
    using fit_picture_blocks [OF assms(1) _ all(4) ap(4) that] ok apart_sym [of "block s"] by (auto simp: heap_ok_def)
qed

lemma I420ToARGB_heap:
  assumes "allocator_laws X live" and "heap_ok live R h" and "I420ToARGB X yb h = (r, h')"
  shows "heap_ok live R h'"
proof -
  define view where "view = wa_buffer X (hp_module h)"
  obtain sy m1 e1 where p1: "put_plane X view (pl_bytes (fr_y yb)) (hp_y h) (hp_module h) = (sy, m1, e1)" by (metis surj_pair)
  define h1 where "h1 = h\<lparr>hp_y := sy, hp_module := m1\<rparr>"
  have ok1: "heap_ok live R h1" unfolding h1_def using p1 by (rule heap_ok_slots(1) [OF assms(1,2)])
  obtain su m2 e2 where p2: "put_plane X view (pl_bytes (fr_u yb)) (hp_u h1) (hp_module h1) = (su, m2, e2)" by (metis surj_pair)
  define h2 where "h2 = h1\<lparr>hp_u := su, hp_module := m2\<rparr>"
  have ok2: "heap_ok live R h2" unfolding h2_def using p2 by (rule heap_ok_slots(2) [OF assms(1) ok1])
  obtain sv m3 e3 where p3: "put_plane X view (pl_bytes (fr_v yb)) (hp_v h2) (hp_module h2) = (sv, m3, e3)" by (metis surj_pair)
  define h3 where "h3 = h2\<lparr>hp_v := sv, hp_module := m3\<rparr>"
  have ok3: "heap_ok live R h3" unfolding h3_def using p3 by (rule heap_ok_slots(3) [OF assms(1) ok2])
  obtain so m4 e4 where p4: "fit_picture X view (vf_displayWidth (fr_format yb) * vf_displayHeight (fr_format yb) * 4) (hp_out h3) (hp_module h3) = (so, m4, e4)"
    by (metis surj_pair)
  define h4 where "h4 = h3\<lparr>hp_out := so, hp_module := m4\<rparr>"
  have ok4: "heap_ok live R h4" unfolding h4_def using p4 by (rule heap_ok_slots(4) [OF assms(1) ok3])
  define m5 where "m5 = wa_convert X (vf_displayWidth (fr_format yb)) (vf_displayHeight (fr_format yb)) (nullish (sl_ptr sy) 0)
    (nullish (sl_ptr su) 0) (nullish (sl_ptr sv) 0) (pl_stride (fr_y yb)) (pl_stride (fr_v yb)) (nullish (sl_ptr so) 0)
    (vf_displayWidth (fr_format yb) * 4) m4"
  have "live m5 = live m4" using assms(1) unfolding m5_def allocator_laws_def by blast
  with ok4 have ok5: "heap_ok live R (h4\<lparr>hp_module := m5\<rparr>)" by (simp add: heap_ok_def h4_def)
  have "h' \<in> {h1, h2, h3, h4, h4\<lparr>hp_module := m5\<rparr>}"
    using assms(3) p1 p2 p3 p4
    by (auto simp: I420ToARGB_def view_def [symmetric] h1_def h2_def h3_def h4_def m5_def Let_def split: option.splits if_splits)
  then show ?thesis using ok1 ok2 ok3 ok4 ok5 by auto
qed

lemma run_heap: "allocator_laws X live \<Longrightarrow> heap_ok live R (wk_heap wk) \<Longrightarrow> heap_ok live R (wk_heap (run X wk))"
  by (auto simp: run_def split: option.split prod.split sum.split dest: I420ToARGB_heap)

lemma worker_step_heap: "allocator_laws X live \<Longrightarrow> heap_ok live R (wk_heap wk) \<Longrightarrow> heap_ok live R (wk_heap (worker_step X x wk))"
  by (cases x) (simp_all add: worker_message_def run_heap)


section \<open>A frame that makes the memory grow\<close>

text \<open>
  The view of the memory is made before the blocks are allocated.  When the block for the luma
  plane makes the memory grow, the frame is lost with an exception that leaves \<open>run\<close> before it
  schedules itself again, and the worker never posts anything any more.
\<close>

theorem worker_dies_when_memory_grows:
  assumes "wk_ready wk" and "wk_running wk" and "wk_currentFrame wk = Some f"
    and "fit_slot X (length (pl_bytes (fr_y f))) (hp_y (wk_heap wk)) (hp_module (wk_heap wk)) = (sl, m)"
    and "wa_buffer X m \<noteq> wa_buffer X (hp_module (wk_heap wk))"
  shows "wk_posted (fold (worker_step X) (Timer # es) wk) = wk_posted wk"
proof -
  obtain e h where "I420ToARGB X f (wk_heap wk) = (Inl e, h)"
    using assms(4,5) by (simp add: I420ToARGB_def put_plane_def view_set_def Let_def)
  then have "\<not> wk_running (worker_step X Timer wk) \<and> wk_posted (worker_step X Timer wk) = wk_posted wk"
    using assms(1-3) by (simp add: run_def)
  moreover have "\<not> wk_running wk' \<Longrightarrow> \<not> wk_running (worker_step X x wk') \<and> wk_posted (worker_step X x wk') = wk_posted wk'" for x wk'
    by (cases x) (simp_all add: worker_message_def run_def)
  then have "\<not> wk_running wk' \<Longrightarrow> wk_posted (fold (worker_step X) es wk') = wk_posted wk'" for wk'
    by (induction es arbitrary: wk') auto
  ultimately show ?thesis by simp
qed

text \<open>A module whose allocator hands out one address after the other, and whose memory grows beyond the first 16 bytes.\<close>

definition bump_module :: "(nat \<times> (nat \<Rightarrow> nat option)) wasm" where
  "bump_module = \<lparr>wa_malloc = (\<lambda>n (k, f). (k + 1, (k + n + 1, \<lambda>q. if q = k + 1 then Some n else if q \<le> k then f q else None))),
     wa_free = (\<lambda>p (k, f). (k, f(p := None))),
     wa_memory = (\<lambda>(k, f). replicate (k + 16) 0), wa_buffer = (\<lambda>(k, f). if k \<le> 16 then 0 else 1), wa_store = (\<lambda>p b m. m),
     wa_convert = (\<lambda>w h y u v ys vs p s m. m)\<rparr>"

definition bump_live :: "nat \<times> (nat \<Rightarrow> nat option) \<Rightarrow> (nat \<times> nat) set" where
  "bump_live m = {(p, n). snd m p = Some n \<and> 0 < p \<and> p \<le> fst m}"

lemma bump_laws: "allocator_laws bump_module bump_live"
  by (auto simp: allocator_laws_def bump_module_def bump_live_def image_iff split: if_splits)


theorem worker_dies_when_memory_grows_witness:
  "let f = sample_frame\<lparr>fr_y := \<lparr>pl_bytes = replicate 20 0, pl_stride = 5\<rparr>\<rparr>;
       wk = worker_message f (new_worker (0, \<lambda>_. None))\<lparr>wk_ready := True\<rparr>
   in wk_posted (fold (worker_step bump_module) (Timer # [FrameMessage sample_frame, Timer]) wk) = []"
proof -
  define f where "f = sample_frame\<lparr>fr_y := \<lparr>pl_bytes = replicate 20 0, pl_stride = 5\<rparr>\<rparr>"
  define wk :: "(nat \<times> (nat \<Rightarrow> nat option)) worker" where "wk = worker_message f (new_worker (0, \<lambda>_. None))\<lparr>wk_ready := True\<rparr>"
  have wk: "wk_ready wk" "wk_running wk" "wk_currentFrame wk = Some f" "wk_posted wk = []"
    "hp_y (wk_heap wk) = no_slot" "hp_module (wk_heap wk) = (0, \<lambda>_. None)"
    by (simp_all add: wk_def worker_message_def new_worker_def)
  obtain sl m where fit: "fit_slot bump_module (length (pl_bytes (fr_y f))) (hp_y (wk_heap wk)) (hp_module (wk_heap wk)) = (sl, m)"
    and "fst m = 21"
    unfolding wk by (simp add: fit_slot_def no_slot_def bump_module_def f_def)
  then have "wa_buffer bump_module m \<noteq> wa_buffer bump_module (hp_module (wk_heap wk))"
    unfolding wk by (cases m) (simp add: bump_module_def)
  from worker_dies_when_memory_grows [OF wk(1-3) fit this] show ?thesis
    unfolding Let_def f_def [symmetric] wk_def [symmetric] wk(4) .
qed

end
