(* ===== verification/Spec2Isabelle.thy ===== *)
theory Spec2Isabelle
  imports Message_Json Rendezvous_Json Video_Draw Audio Queries Viewer_Closing Viewer_Page Browser_Glue Yuv_Worker
begin

text \<open>
  \<^bold>\<open>The program.\<close>  Fort RC Web Viewer is the web client of a remote desktop system.  Its
  TypeScript and JavaScript code, under \<open>flutter/js/src\<close>, finds a peer through a rendezvous
  server, opens a WebSocket to it through a relay, agrees on a symmetric key, and then runs remote
  desktop and file transfer sessions whose user interface is a Flutter application in the same
  page.  The parts and how they call each other:

  \<^item> Flutter calls \<open>setByName\<close>/\<open>getByName\<close>; the handlers of \<open>bridge/\<close> look the session up in the
    registry of \<open>connections/sessions.ts\<close> and call a method of its connection;
  \<^item> a connection is an \<open>RdConnection\<close> or an \<open>FtConnection\<close>, both extend \<open>BaseConnection\<close>
    (\<open>session_base.ts\<close>), which connects through \<open>session_connect.ts\<close> and owns a \<open>Websock\<close>;
  \<^item> \<open>websock.ts\<close> encodes messages by the generated codecs of \<open>proto/\<close> and encrypts them;
  \<^item> a file transfer keeps its jobs in \<open>ft/ft_jobs.ts\<close>, which writes to the save targets of
    \<open>ft/ft_browser_io.ts\<close> or to the zip archives of \<open>ft/ft_zip_stream.ts\<close>;
  \<^item> events and message boxes go to Flutter and to the page that opened the viewer through
    \<open>helpers/push_event.js\<close> and \<open>bridge/errors.js\<close>.

  \<^bold>\<open>The theories, from the bottom up.\<close>

  \<^item> \<open>Prelude\<close>: JavaScript values (\<open>jval\<close>, thrown values \<open>unknown\<close>, ordered maps \<open>jsmap\<close>), generic
    lemmas and the collections of simplification rules.  \<open>Js_Text\<close>: string operations.
  \<^item> \<open>Wire\<close>, \<open>Wire_Laws\<close>, \<open>Wire_Instance\<close>: the scalar operations of the protobufjs reader and writer
    are a parameter \<open>pb\<close>; the generated \<open>encode\<close> and \<open>decode\<close> loops are definitions over a table of
    fields; the locale \<open>pb_laws\<close> states what the code relies on, proves the round trip of a table
    once, and is interpreted on the wire format of protobuf (varints, zigzag, length prefixes).
    \<open>Messages\<close>, \<open>Message_Codec\<close>, \<open>Message_Laws\<close> and \<open>Rendezvous\<close>, \<open>Rendezvous_Codec\<close>,
    \<open>Rendezvous_Laws\<close>: every message of \<open>proto/message.ts\<close> and \<open>proto/rendezvous.ts\<close> as a record,
    its \<open>createBase\<close>, its field table and its round trip.
  \<^item> \<open>Json_Codec\<close>, \<open>Message_Json\<close>, \<open>Rendezvous_Json\<close>: \<open>toJSON\<close>, \<open>fromJSON\<close> and \<open>fromPartial\<close> of the same
    messages, as functions over a table of fields, with the law of a table and its round trip.
  \<^item> \<open>Environment\<close>: libsodium, SHA-256, the text encoder, zstd and the zip library as one parameter
    \<open>env\<close>; nothing is assumed of them unless a statement names the law.
  \<^item> \<open>Binary_Helper\<close>, \<open>Format_Error\<close>, \<open>Config_Helper\<close>, \<open>Common_Helper\<close>, \<open>Crypto_Sodium\<close>, \<open>Events\<close>:
    the helpers of \<open>helpers/\<close>, one theory per file.
  \<^item> \<open>Websock\<close>: \<open>websock.ts\<close>.  Callbacks of the browser are operations that may come at any time.
    \<open>Session_Connect\<close>: \<open>session_connect.ts\<close>, with what a socket delivers at an \<open>await\<close> as argument.
    \<open>Session_Base\<close>: \<open>session_base.ts\<close>.  \<open>Connection_Interface\<close>: the locale \<open>connection\<close>, what the
    registry relies on when it closes a connection; interpreted in \<open>Ft_Connection\<close> and
    \<open>Rd_Connection\<close>.
  \<^item> \<open>Byte_Sink\<close>: the locale of anything that collects blocks of bytes, interpreted on the save
    targets (\<open>Ft_Browser_IO\<close>) and on streamed and buffered download jobs (\<open>Ft_Jobs\<close>).
    \<open>Ft_Protocol\<close>, \<open>Ft_Browser_IO\<close>, \<open>Ft_Zip\<close>, \<open>Ft_Jobs\<close>: the files of \<open>connections/ft/\<close>.
    \<open>Ft_Connection\<close>: \<open>ft_connection.ts\<close>; \<open>Ft_Upload\<close>: its uploads from the first request to the
    last block; \<open>Fifo_Queue\<close> and \<open>Ft_Download\<close>: its queue of downloads behind save dialogs;
    \<open>Ft_Session\<close>: its start and message loop, which act on the registry.
  \<^item> \<open>Rd_Connection\<close>: \<open>rd_connection.ts\<close>, \<open>rd_options.ts\<close>, \<open>rd_video.ts\<close>.
  \<^item> \<open>Sessions\<close>: \<open>sessions.ts\<close> over a store of connection objects (the record \<open>world\<close>), with the
    invariant \<open>registry_ok\<close> and the step relation \<open>registry_step\<close>.
  \<^item> \<open>Bridge_Errors\<close>, \<open>Bridge\<close>: \<open>bridge/\<close>, the fatal errors, the session handlers and the requests
    of Flutter.  \<open>Viewer_Init\<close>, \<open>Viewer_Start\<close>: the message of the parent page that starts a
    session, its handler in one go and step by step, with \<open>window.connect\<close> and \<open>window.init\<close>.
    \<open>Base64\<close>, \<open>Viewer_Crypto\<close>: \<open>helpers/viewer-crypto.js\<close>, the envelope of the token in it.
    \<open>Viewer_Page\<close>: the script of \<open>flutter/web/index.html\<close>, which makes the key pair and posts
    \<open>VIEWER_READY\<close>, and the page with it and that handler as one system of events.
  \<^item> \<open>Peer_Store\<close>: the stored peers and options, \<open>helpers/peer_store.js\<close>, \<open>options.js\<close>, \<open>peers.js\<close>,
    and what the handlers read and write there; \<open>Server_Config\<close>: \<open>helpers/server_config.js\<close> and
    \<open>version.js\<close>; \<open>Audio\<close>: \<open>helpers/audio.js\<close>, whose worker is another instance of \<open>Fifo_Queue\<close>;
    \<open>Browser_Glue\<close>: \<open>helpers/mobile.js\<close> with its two regular expressions as syntax trees,
    \<open>helpers/codec.js\<close>, and \<open>copyToClipboard\<close> of \<open>helpers/storage.js\<close>.
  \<^item> \<open>Ycbcr\<close>: \<open>depower\<close> and \<open>convertYCbCr\<close> of \<open>flutter/web/yuv-canvas-1.2.6.js\<close>, with integers wrapped to 32
    bits where the code does and both of its loops; \<open>Video_Draw\<close>: \<open>helpers/video_draw.js\<close>, which
    converts a frame and copies its visible part; \<open>Yuv_Worker\<close>: \<open>flutter/web/yuv.js\<close>, the same
    conversion by a WebAssembly module in a worker, with the blocks of memory it manages.
  \<^item> \<open>Requests\<close>: the handler tables of \<open>bridge/handlers/\<close> as functions from the text that Flutter
    passes to the request that is carried out, and the texts as \<open>flutter/lib/web/bridge.dart\<close> and
    \<open>web_unique.dart\<close> write them.
  \<^item> \<open>Viewer_App\<close>: the whole viewer as one state (\<open>app\<close>: the registry, \<open>localStorage\<close>, the page and
    the activities under way), \<open>window.setByName\<close> as an operation on it, and \<open>app_step\<close>, the steps
    of the running viewer: calls of Flutter, sockets that connect, receive and close, polls of the
    message loops, timers, dialogs, the start of a session by the parent page.
    \<open>Viewer_Invariant\<close>: what holds in every reachable state.  \<open>Viewer_Closing\<close>: closing a session
    while its message loop runs or while it connects.  \<open>Queries\<close>: \<open>window.getByName\<close>, every handler
    that answers Flutter.

  \<^bold>\<open>What the theorems show.\<close>  Wire format and channel: messages survive the trip, frames arrive in
  order, no nonce is used twice, a channel is keyed only after both signatures were verified.
  Transfers: an upload sends every file completely and ends, a download saves exactly the bytes that
  came, whatever the interleaving of arriving blocks, dialogs and completing writes.  Sessions: the
  registry stays consistent, the end of a session is reported exactly once, requests and failures of
  one session touch no other.  The running viewer: its invariant holds in every reachable state and
  every call returns; calls of Flutter are understood as they were meant, except three; settings are
  read back; closing a file transfer is silent, while closing a remote desktop is a race with the
  browser and closing a connecting session leaves the connection behind.  The start: a parent page
  that answers as documented is connected with the token it encrypted, in whatever order the page
  loads, unless its answer comes before the listener is there, when it is lost.  Pictures: both loops
  of the conversion paint the same pixels, their arithmetic never wraps and stays near the standard
  colours, every pixel shown is the pixel of the frame at that place, and the worker for the same
  conversion manages its memory without a leak.  Helpers: parsers, printers
  and tables agree, tests by regular expressions are matches.

  \<^bold>\<open>Partiality.\<close>  A JavaScript call that throws and a promise that rejects are \<open>Inl\<close>; a call that does
  not come back, as the message pump without a socket or a zip stream whose close fails, is \<open>None\<close>.
  The upload pump is a recursive function with a termination measure (the bytes left to send), so no
  fuel is needed; \<open>depower\<close>, whose loop does not end on a ratio of \<open>2 ^ 31\<close> or more, is a partial
  function, and shown to return for every frame below that size; the message loop is recursion on the list of messages the socket delivers.

  \<^bold>\<open>Texts.\<close>  A text that Flutter passes is \<open>JJson v\<close> when it is the JSON of \<open>v\<close>, \<open>JNumStr n\<close> when it is
  the decimal of a number and \<open>JStr s\<close> otherwise.  A handler whose argument has fields that are not
  of the declared types is \<open>IllTyped\<close>, which no call of Flutter but the one for the display produces.

  \<^bold>\<open>Not modelled.\<close>  \<open>main.ts\<close> and \<open>globals.js\<close> (imports only), the dictionary \<open>LANGS\<close> (data, a
  parameter of \<open>translate\<close>), the frame sinks of yuv-canvas (not used by the viewer), the
  Flutter engine and the decoders under \<open>flutter/web\<close> (generated or vendored), and the code in other
  languages of the repository but for the texts of the calls above.
\<close>

section \<open>The wire format of the messages\<close>

text \<open>
  C23: a peer message that fits the wire types survives the trip over the wire: decoding the
  bytes that \<open>Message.encode\<close> writes gives back the message, with every nested message, every
  repeated field and every unset optional field as it was.
\<close>

theorem Message_roundtrip:
  assumes "pb_laws P" and "message_ok (Message_fields P) m"
  shows "Message_decode P (Message_encode P m) = Some m"
  using pb_laws.Message_decode_encode [OF assms] .

theorem Message_roundtrip_witness:
  "Message_decode wire_pb (Message_encode wire_pb
     (createBaseMessage\<lparr>Message_test_delay := Some (createBaseTestDelay\<lparr>TestDelay_time := 300\<rparr>)\<rparr>))
   = Some (createBaseMessage\<lparr>Message_test_delay := Some (createBaseTestDelay\<lparr>TestDelay_time := 300\<rparr>)\<rparr>)"
proof (rule Message_roundtrip [OF wire.pb_laws_axioms])
  have "length (message_encode (TestDelay_fields wire_pb) (createBaseTestDelay\<lparr>TestDelay_time := 300\<rparr>)) = 3"
    by code_simp
  moreover have "message_ok (TestDelay_fields wire_pb) (createBaseTestDelay\<lparr>TestDelay_time := 300\<rparr>)"
    by (simp add: message_ok_def TestDelay_fields_def createBaseTestDelay_def f_scalar_def
        fits_int53_def fits_uint32_def fits_bool_def)
  ultimately show "message_ok (Message_fields wire_pb)
      (createBaseMessage\<lparr>Message_test_delay := Some (createBaseTestDelay\<lparr>TestDelay_time := 300\<rparr>)\<rparr>)"
    by (simp add: message_ok_def Message_fields_def createBaseMessage_def f_opt_def msg_fits_def
        fits_uint32_def)
qed

text \<open>
  The same for the messages exchanged with the rendezvous server.
\<close>

theorem RendezvousMessage_roundtrip:
  assumes "pb_laws P" and "message_ok (RendezvousMessage_fields P) m"
  shows "RendezvousMessage_decode P (RendezvousMessage_encode P m) = Some m"
  using pb_laws.RendezvousMessage_decode_encode [OF assms] .

theorem RendezvousMessage_roundtrip_witness:
  "RendezvousMessage_decode wire_pb (RendezvousMessage_encode wire_pb createBaseRendezvousMessage)
   = Some createBaseRendezvousMessage"
  by (rule RendezvousMessage_roundtrip [OF wire.pb_laws_axioms])
     (simp add: message_ok_def RendezvousMessage_fields_def createBaseRendezvousMessage_def f_opt_def)

section \<open>Messages as JSON and as partial objects\<close>

text \<open>
  C24: the conversions generated for a peer message agree with each other: \<open>fromJSON\<close> reads back
  what \<open>toJSON\<close> wrote, with bytes as base64 and enumerations by name, and \<open>fromPartial\<close> of an object
  with all fields of a message is that message.
\<close>

theorem messages_survive_json:
  assumes "json_ok Message_json m"
  shows "Message_fromJSON (Message_toJSON m) = Some m
    \<and> Message_fromPartial (partial_object (\<lambda>_. True) Message_json m) = Some m"
  using Message_json_roundtrip [OF assms] by simp

theorem messages_survive_json_witness:
  "let m = createBaseMessage\<lparr>Message_test_delay := Some (createBaseTestDelay\<lparr>TestDelay_time := 300\<rparr>)\<rparr>
   in Message_fromJSON (Message_toJSON m) = Some m"
proof -
  have "json_ok TestDelay_json (createBaseTestDelay\<lparr>TestDelay_time := 300\<rparr>)"
    by (simp add: json_ok_def TestDelay_json_def j_field_def createBaseTestDelay_def j_int_def j_bool_def)
  then have "json_ok Message_json (createBaseMessage\<lparr>Message_test_delay := Some (createBaseTestDelay\<lparr>TestDelay_time := 300\<rparr>)\<rparr>)"
    unfolding json_ok_def [of Message_json] unfolding Message_json_def
    by (simp add: j_opt_def createBaseMessage_def j_msg_def)
  then show ?thesis
    using messages_survive_json by (simp add: Let_def)
qed

end
